(* ===== verification/CPrelude.thy ===== *)
theory CPrelude
  imports Main "HOL-Library.Word" "HOL-Library.Monad_Syntax"
begin

section \<open>Shared types, collections and generic lemmas\<close>

text \<open>
  What every component of the development uses: names for the machine integers of the C
  sources, the collections that gather the components' proof hints, and lemmas on lists and
  on the option monad.

  Conventions of the whole development.
  \<^item> A step of the program that C leaves undefined or that ends the process (a call through a
    NULL function pointer, a failed \<open>assert\<close>, a read or write outside an array) is the value
    \<open>None\<close>; a C function is then a HOL function into \<open>option\<close>, written with \<open>do\<close>.
  \<^item> Code outside the repository (the kernel, libc state, the Bluetooth stack, the real
    \<open>libhardware_legacy.so\<close>, wpa_supplicant) is an argument of the definitions. Its answers
    are functions of the history of calls made so far, so that it may behave in any way
    whatever from one call to the next; the history is a list in the state of the component
    and is also what the theorems on effects and on their order speak of.
  \<^item> Signed C integers are \<open>int\<close> where no overflow can occur, unsigned ones are words.
\<close>

unbundle bit_operations_syntax

type_synonym u8 = "8 word"
type_synonym u16 = "16 word"
type_synonym u32 = "32 word"

text \<open>Components add their invariants' preservation lemmas and their effect lemmas here.\<close>

named_theorems keeps_inv \<open>operations that keep a component's invariant\<close>
named_theorems effects \<open>what an operation appends to the history of calls\<close>

subsection \<open>Lists\<close>

lemma take_Suc_update: "n < length xs \<Longrightarrow> take (Suc n) (xs[n := r]) = take n xs @ [r]"
  by (simp add: take_Suc_conv_app_nth)

lemma rotate_lt: "n < length xs \<Longrightarrow> rotate n xs = drop n xs @ take n xs"
  by (simp add: rotate_drop_take)

lemma nth_replicate_update:
  "i < n \<Longrightarrow> (replicate n x)[j := y] ! i = (if i = j then y else x)"
  by (auto simp: nth_list_update)

lemma replicate_16: "replicate 16 x = [x, x, x, x, x, x, x, x, x, x, x, x, x, x, x, x]"
  by (simp add: numeral_eq_Suc)

text \<open>The first index at which a predicate holds: the shape of every search loop.\<close>

fun first_index :: "('a \<Rightarrow> bool) \<Rightarrow> 'a list \<Rightarrow> nat option" where
  "first_index P [] = None"
| "first_index P (x # xs) = (if P x then Some 0 else map_option Suc (first_index P xs))"

lemma first_index_None: "first_index P xs = None \<longleftrightarrow> (\<forall>x \<in> set xs. \<not> P x)"
  by (induction xs) auto

lemma first_index_Some:
  "first_index P xs = Some i \<longleftrightarrow> i < length xs \<and> P (xs ! i) \<and> (\<forall>j < i. \<not> P (xs ! j))"
proof (induction xs arbitrary: i)
  case Nil
  then show ?case by simp
next
  case (Cons x xs)
  then show ?case
    by (cases i) (auto simp: less_Suc_eq_0_disj)
qed

text \<open>The last element that satisfies a predicate: a search loop without \<open>break\<close>.\<close>

fun last_match :: "('a \<Rightarrow> bool) \<Rightarrow> 'a list \<Rightarrow> 'a option" where
  "last_match P [] = None"
| "last_match P (x # xs) =
     (case last_match P xs of Some y \<Rightarrow> Some y | None \<Rightarrow> if P x then Some x else None)"

lemma last_match_None: "last_match P xs = None \<longleftrightarrow> (\<forall>x \<in> set xs. \<not> P x)"
  by (induction xs) (auto split: option.splits)

lemma last_match_Some: "last_match P xs = Some y \<Longrightarrow> y \<in> set xs \<and> P y"
  by (induction xs) (auto split: option.splits if_splits)

lemma last_match_unique:
  assumes "x \<in> set xs" and "P x" and "\<And>y. y \<in> set xs \<Longrightarrow> P y \<Longrightarrow> f y = f x"
  shows "map_option f (last_match P xs) = Some (f x)"
proof (cases "last_match P xs")
  case None
  with assms(1,2) show ?thesis by (auto simp: last_match_None)
next
  case (Some y)
  with last_match_Some [OF Some] assms(3) show ?thesis by simp
qed

subsection \<open>The option monad\<close>

lemma bind_Some_iff [simp]: "Option.bind m f = Some y \<longleftrightarrow> (\<exists>x. m = Some x \<and> f x = Some y)"
  by (cases m) auto

lemma bind_defined: "m \<noteq> None \<Longrightarrow> (\<And>x. m = Some x \<Longrightarrow> f x \<noteq> None) \<Longrightarrow> Option.bind m f \<noteq> None"
  by (cases m) auto

subsection \<open>Runs and ledgers\<close>

text \<open>A component driven by a list of inputs stops where one of them is undefined.\<close>

fun run_steps :: "('i \<Rightarrow> 's \<Rightarrow> 's option) \<Rightarrow> 'i list \<Rightarrow> 's \<Rightarrow> 's option" where
  "run_steps step [] s = Some s"
| "run_steps step (i # is) s = Option.bind (step i s) (run_steps step is)"

lemma run_steps_append:
  "run_steps step (is @ js) s = Option.bind (run_steps step is s) (run_steps step js)"
proof (induction "is" arbitrary: s)
  case Nil
  then show ?case by simp
next
  case (Cons i "is")
  then show ?case by (cases "step i s") simp_all
qed

lemma run_steps_invariant:
  assumes "\<And>i s s'. i \<in> set is \<Longrightarrow> step i s = Some s' \<Longrightarrow> P s \<Longrightarrow> P s'"
  shows "run_steps step is s = Some s' \<Longrightarrow> P s \<Longrightarrow> P s'"
  using assms by (induction "is" arbitrary: s) auto

text \<open>
  A ledger: whatever an input brings in and the events of its step create, the events of that
  step account for. Then the same holds of every run.
\<close>

locale ledger =
  fixes step :: "'i \<Rightarrow> 's \<Rightarrow> 's option"
    and events :: "'s \<Rightarrow> 'ev list"
    and brought :: "'i \<Rightarrow> 'm::comm_monoid_add"
    and made :: "'ev \<Rightarrow> 'm"
    and settled :: "'ev \<Rightarrow> 'm"
  assumes step_law: "step i s = Some s' \<Longrightarrow>
    \<exists>evs. events s' = events s @ evs \<and> brought i + sum_list (map made evs) = sum_list (map settled evs)"
begin

lemma run_law:
  "run_steps step is s = Some s' \<Longrightarrow>
   \<exists>evs. events s' = events s @ evs \<and>
     sum_list (map brought is) + sum_list (map made evs) = sum_list (map settled evs)"
proof (induction "is" arbitrary: s)
  case Nil
  then show ?case by (intro exI [of _ "[]"]) simp
next
  case (Cons i "is")
  then obtain s1 where "step i s = Some s1" and rest: "run_steps step is s1 = Some s'" by auto
  then obtain e1 where e1: "events s1 = events s @ e1"
    "brought i + sum_list (map made e1) = sum_list (map settled e1)" using step_law by blast
  obtain e2 where e2: "events s' = events s1 @ e2"
    "sum_list (map brought is) + sum_list (map made e2) = sum_list (map settled e2)"
    using Cons.IH [OF rest] by blast
  have "sum_list (map brought (i # is)) + sum_list (map made (e1 @ e2)) =
      (brought i + sum_list (map made e1)) + (sum_list (map brought is) + sum_list (map made e2))"
    by (simp add: ac_simps)
  with e1 e2 show ?case by (intro exI [of _ "e1 @ e2"]) simp
qed

end

end
