(* ===== verification/Ring_Registry.thy ===== *)
theory Ring_Registry
  imports CPrelude
begin

section \<open>Fixed-size ring registries\<close>

text \<open>
  The camera shim keeps two registries in static arrays of sixteen slots, each with the index
  of the slot that the next record overwrites. This theory states what such a registry
  promises: the slots, read from the next index round, are the sliding window of the last
  records. The locale's laws are discharged for both registries in \<open>Ion_Registry\<close>.
\<close>

definition ring_ok :: "nat \<Rightarrow> 'r list \<Rightarrow> nat \<Rightarrow> bool" where
  "ring_ok cap xs n \<longleftrightarrow> length xs = cap \<and> n < cap"

definition ring_window :: "'r list \<Rightarrow> nat \<Rightarrow> 'r list" where
  "ring_window xs n = rotate n xs"

lemma set_ring_window [simp]: "set (ring_window xs n) = set xs"
  by (simp add: ring_window_def)

lemma length_ring_window [simp]: "length (ring_window xs n) = length xs"
  by (simp add: ring_window_def)

lemma ring_window_store:
  assumes "ring_ok cap xs n"
  shows "ring_window (xs[n := r]) (Suc n mod cap) = tl (ring_window xs n) @ [r]"
proof -
  from assms have len: "length xs = cap" and n: "n < length xs"
    by (auto simp: ring_ok_def)
  have win: "tl (ring_window xs n) = drop (Suc n) xs @ take n xs"
    using n by (simp add: ring_window_def rotate_lt tl_drop drop_Suc)
  show ?thesis
  proof (cases "Suc n < cap")
    case True
    with len have "ring_window (xs[n := r]) (Suc n) = drop (Suc n) xs @ take (Suc n) (xs[n := r])"
      by (simp add: ring_window_def rotate_lt del: rotate_Suc)
    with True win take_Suc_update [OF n, of r] show ?thesis
      by simp
  next
    case False
    with len n have "cap = Suc n" by simp
    with len n win take_Suc_update [OF n, of r] show ?thesis
      by (simp add: ring_window_def)
  qed
qed

locale ring =
  fixes slots :: "'s \<Rightarrow> 'r list"
    and nxt :: "'s \<Rightarrow> nat"
    and store :: "'a \<Rightarrow> 's \<Rightarrow> 's"
    and mk :: "'a \<Rightarrow> 'r"
    and cap :: nat
  assumes cap_pos: "0 < cap"
    and slots_store: "slots (store a s) = (slots s)[nxt s := mk a]"
    and nxt_store: "nxt (store a s) = Suc (nxt s) mod cap"
begin

lemma ok_store: "ring_ok cap (slots s) (nxt s) \<Longrightarrow> ring_ok cap (slots (store a s)) (nxt (store a s))"
  using cap_pos by (simp add: ring_ok_def slots_store nxt_store)

lemma window_store:
  "ring_ok cap (slots s) (nxt s) \<Longrightarrow>
   ring_window (slots (store a s)) (nxt (store a s)) = tl (ring_window (slots s) (nxt s)) @ [mk a]"
  by (simp add: slots_store nxt_store ring_window_store)

lemma ok_stores:
  "ring_ok cap (slots s) (nxt s) \<Longrightarrow>
   ring_ok cap (slots (fold store as s)) (nxt (fold store as s))"
  by (induction as arbitrary: s) (simp_all add: ok_store)

text \<open>Any number of stores: the window is the tail of everything that was ever stored.\<close>

lemma window_stores:
  "ring_ok cap (slots s) (nxt s) \<Longrightarrow>
   ring_window (slots (fold store as s)) (nxt (fold store as s)) =
     drop (length as) (ring_window (slots s) (nxt s) @ map mk as)"
proof (induction as arbitrary: s)
  case Nil
  then show ?case by simp
next
  case (Cons a as)
  let ?w = "ring_window (slots s) (nxt s)"
  have "?w \<noteq> []"
    using Cons.prems cap_pos by (auto simp: ring_ok_def simp flip: length_greater_0_conv)
  then have tl: "tl ?w @ mk a # map mk as = tl (?w @ map mk (a # as))"
    by simp
  have "ring_window (slots (fold store (a # as) s)) (nxt (fold store (a # as) s)) =
      drop (length as) (ring_window (slots (store a s)) (nxt (store a s)) @ map mk as)"
    using Cons.IH [OF ok_store [OF Cons.prems]] by simp
  also have "\<dots> = drop (length as) (tl (?w @ map mk (a # as)))"
    by (simp only: window_store [OF Cons.prems] append_assoc append_Cons append_Nil tl)
  also have "\<dots> = drop (length (a # as)) (?w @ map mk (a # as))"
    by (simp add: drop_Suc del: drop_append list.map)
  finally show ?case .
qed

lemma slots_bound: "set (slots (fold store as s)) \<subseteq> set (slots s) \<union> mk ` set as"
proof (induction as arbitrary: s)
  case Nil
  then show ?case by simp
next
  case (Cons a as)
  have "set (slots (store a s)) \<subseteq> insert (mk a) (set (slots s))"
    by (simp add: slots_store set_update_subset_insert)
  with Cons.IH [of "store a s"] show ?case by auto
qed

text \<open>So the last \<open>cap\<close> records are all present, and nothing older is.\<close>

lemma recent_kept:
  assumes "ring_ok cap (slots s) (nxt s)" and "length as \<le> cap" and "a \<in> set as"
  shows "mk a \<in> set (slots (fold store as s))"
proof -
  have "set (map mk as) \<subseteq> set (drop (length as) (ring_window (slots s) (nxt s) @ map mk as))"
    using assms(1,2) by (simp add: ring_ok_def)
  with window_stores [OF assms(1), of as] assms(3) show ?thesis
    by (metis (no_types, lifting) image_eqI set_map set_ring_window subsetD)
qed

lemma only_recent:
  assumes "ring_ok cap (slots s) (nxt s)" and "cap \<le> length as"
  shows "set (slots (fold store as s)) = mk ` set (drop (length as - cap) as)"
proof -
  have "ring_window (slots (fold store as s)) (nxt (fold store as s)) =
      map mk (drop (length as - cap) as)"
    using window_stores [OF assms(1), of as] assms by (simp add: ring_ok_def drop_map)
  then show ?thesis
    by (metis set_map set_ring_window)
qed

end

end
