(* ===== verification/Ion_Registry.thy ===== *)
theory Ion_Registry
  imports Ring_Registry
begin

section \<open>Camera ION shim: global state and registries\<close>

text \<open>
  The static data of \<open>ioe-test/camera_ion_shim.c\<close> and the operations on it that hold the
  registry mutex: the list of \<open>/dev/ion\<close> descriptors, the ring of allocation records and
  the ring of mapped descriptors. The library is built 32-bit only (\<open>LOCAL_32_BIT_ONLY\<close>),
  so \<open>size_t\<close> is \<open>u32\<close>.
\<close>

subsection \<open>ION requests\<close>

type_synonym shim_ion_user_handle_t = int

record shim_ion_allocation_data =
  ad_len :: u32
  ad_align :: u32
  ad_heap_id_mask :: u32
  ad_flags :: u32
  ad_handle :: shim_ion_user_handle_t

record shim_ion_fd_data =
  fdd_handle :: shim_ion_user_handle_t
  fdd_fd :: int

record shim_ion_handle_data =
  hd_handle :: shim_ion_user_handle_t

text \<open>
  \<open>_IOWR(type, nr, size)\<close> of \<open>linux/ioctl.h\<close>: direction 3 in the top bits, the size, the
  magic and the number. With 32-bit words the three structures take 20, 4 and 8 bytes.
\<close>

definition IOWR :: "u32 \<Rightarrow> u32 \<Rightarrow> u32 \<Rightarrow> u32" where
  "IOWR ty nr sz = push_bit 30 3 OR push_bit 16 sz OR push_bit 8 ty OR nr"

definition SHIM_ION_IOC_MAGIC :: u32 where "SHIM_ION_IOC_MAGIC = 0x49"

definition SHIM_ION_IOC_ALLOC :: u32 where "SHIM_ION_IOC_ALLOC = IOWR SHIM_ION_IOC_MAGIC 0 20"
definition SHIM_ION_IOC_FREE :: u32 where "SHIM_ION_IOC_FREE = IOWR SHIM_ION_IOC_MAGIC 1 4"
definition SHIM_ION_IOC_MAP :: u32 where "SHIM_ION_IOC_MAP = IOWR SHIM_ION_IOC_MAGIC 2 8"
definition SHIM_ION_IOC_SHARE :: u32 where "SHIM_ION_IOC_SHARE = IOWR SHIM_ION_IOC_MAGIC 4 8"

lemma ioc_values:
  "SHIM_ION_IOC_ALLOC = 0xC0144900" "SHIM_ION_IOC_FREE = 0xC0044901"
  "SHIM_ION_IOC_MAP = 0xC0084902" "SHIM_ION_IOC_SHARE = 0xC0084904"
  by (simp_all add: SHIM_ION_IOC_ALLOC_def SHIM_ION_IOC_FREE_def SHIM_ION_IOC_MAP_def
      SHIM_ION_IOC_SHARE_def SHIM_ION_IOC_MAGIC_def IOWR_def)

lemma ioc_distinct [simp]:
  "SHIM_ION_IOC_ALLOC \<noteq> SHIM_ION_IOC_FREE" "SHIM_ION_IOC_FREE \<noteq> SHIM_ION_IOC_ALLOC"
  "SHIM_ION_IOC_ALLOC \<noteq> SHIM_ION_IOC_MAP" "SHIM_ION_IOC_MAP \<noteq> SHIM_ION_IOC_ALLOC"
  "SHIM_ION_IOC_ALLOC \<noteq> SHIM_ION_IOC_SHARE" "SHIM_ION_IOC_SHARE \<noteq> SHIM_ION_IOC_ALLOC"
  "SHIM_ION_IOC_FREE \<noteq> SHIM_ION_IOC_MAP" "SHIM_ION_IOC_MAP \<noteq> SHIM_ION_IOC_FREE"
  "SHIM_ION_IOC_FREE \<noteq> SHIM_ION_IOC_SHARE" "SHIM_ION_IOC_SHARE \<noteq> SHIM_ION_IOC_FREE"
  "SHIM_ION_IOC_MAP \<noteq> SHIM_ION_IOC_SHARE" "SHIM_ION_IOC_SHARE \<noteq> SHIM_ION_IOC_MAP"
  by (simp_all add: ioc_values)

definition SHIM_ION_FLAG_CACHED :: u32 where "SHIM_ION_FLAG_CACHED = 1"
definition SHIM_ION_NUM_HEAP_IDS :: nat where "SHIM_ION_NUM_HEAP_IDS = 32"
definition SHIM_ION_ALIGN_BLOCK :: u32 where "SHIM_ION_ALIGN_BLOCK = 0x100000"
definition SHIM_MAX_ION_DEVICE_FDS :: nat where "SHIM_MAX_ION_DEVICE_FDS = 4"
definition SHIM_MAX_ALLOC_RECORDS :: nat where "SHIM_MAX_ALLOC_RECORDS = 16"
definition SHIM_MAX_MAPPED_FD_RECORDS :: nat where "SHIM_MAX_MAPPED_FD_RECORDS = 16"

text \<open>What the third argument of \<open>ioctl\<close> points to.\<close>

datatype ioctl_arg =
    AllocArg shim_ion_allocation_data
  | FdArg shim_ion_fd_data
  | HandleArg shim_ion_handle_data
  | OtherArg "u8 list"

text \<open>
  The system calls that reach the kernel, with their results, oldest first. \<open>None\<close> as the
  result of \<open>SysMmap\<close> is \<open>MAP_FAILED\<close>; a path is \<open>None\<close> when the pointer is NULL.
\<close>

datatype sys_event =
    SysOpen "string option" int "int option" int
  | SysIoctl int u32 ioctl_arg int ioctl_arg
  | SysMmap u32 u32 int int int int "u32 option"
  | SysMunmap u32 u32
  | SysClose int
  | SysRead int nat int

subsection \<open>State\<close>

record shim_alloc_record =
  ar_valid :: bool
  ar_handle :: shim_ion_user_handle_t
  ar_len :: u32

record shim_mapped_fd_record =
  mr_valid :: bool
  mr_fd :: int
  mr_len :: u32
  mr_consumed :: bool

record shim =
  g_orig_ioctl :: bool
  g_orig_mmap :: bool
  g_orig_open :: bool
  g_resolve_once :: bool
  g_forced_heap_mask :: u32
  g_prop_once :: bool
  g_ion_device_fds :: "int list"
  g_ion_device_fd_count :: nat
  g_alloc_records :: "shim_alloc_record list"
  g_alloc_record_next :: nat
  g_mapped_fd_records :: "shim_mapped_fd_record list"
  g_mapped_fd_record_next :: nat
  errno :: int
  hist :: "sys_event list"

definition empty_alloc_record :: shim_alloc_record where
  "empty_alloc_record = \<lparr>ar_valid = False, ar_handle = 0, ar_len = 0\<rparr>"

definition empty_mapped_fd_record :: shim_mapped_fd_record where
  "empty_mapped_fd_record = \<lparr>mr_valid = False, mr_fd = 0, mr_len = 0, mr_consumed = False\<rparr>"

text \<open>Static storage starts zeroed: every pointer NULL, every record invalid.\<close>

definition init_shim :: shim where
  "init_shim = \<lparr>g_orig_ioctl = False, g_orig_mmap = False, g_orig_open = False,
     g_resolve_once = False, g_forced_heap_mask = 0, g_prop_once = False,
     g_ion_device_fds = replicate SHIM_MAX_ION_DEVICE_FDS 0, g_ion_device_fd_count = 0,
     g_alloc_records = replicate SHIM_MAX_ALLOC_RECORDS empty_alloc_record,
     g_alloc_record_next = 0,
     g_mapped_fd_records = replicate SHIM_MAX_MAPPED_FD_RECORDS empty_mapped_fd_record,
     g_mapped_fd_record_next = 0, errno = 0, hist = []\<rparr>"

subsection \<open>Operations under the registry mutex\<close>

definition camera_ion_shim_track_device_fd :: "int \<Rightarrow> shim \<Rightarrow> shim" where
  "camera_ion_shim_track_device_fd fd s =
     (if g_ion_device_fd_count s < SHIM_MAX_ION_DEVICE_FDS
      then s\<lparr>g_ion_device_fds := (g_ion_device_fds s)[g_ion_device_fd_count s := fd],
             g_ion_device_fd_count := g_ion_device_fd_count s + 1\<rparr>
      else s)"

definition camera_ion_shim_is_device_fd :: "int \<Rightarrow> shim \<Rightarrow> bool" where
  "camera_ion_shim_is_device_fd fd s \<longleftrightarrow>
     first_index (\<lambda>x. x = fd) (take (g_ion_device_fd_count s) (g_ion_device_fds s)) \<noteq> None"

definition camera_ion_shim_record_alloc :: "shim_ion_user_handle_t \<Rightarrow> u32 \<Rightarrow> shim \<Rightarrow> shim" where
  "camera_ion_shim_record_alloc handle len s =
     s\<lparr>g_alloc_records := (g_alloc_records s)[g_alloc_record_next s :=
         \<lparr>ar_valid = True, ar_handle = handle, ar_len = len\<rparr>],
       g_alloc_record_next := (g_alloc_record_next s + 1) mod SHIM_MAX_ALLOC_RECORDS\<rparr>"

text \<open>The loop has no \<open>break\<close>: the match with the highest index decides \<open>*out_len\<close>.\<close>

definition camera_ion_shim_lookup_alloc_len :: "shim_ion_user_handle_t \<Rightarrow> shim \<Rightarrow> u32 option" where
  "camera_ion_shim_lookup_alloc_len handle s =
     map_option ar_len (last_match (\<lambda>r. ar_valid r \<and> ar_handle r = handle) (g_alloc_records s))"

definition camera_ion_shim_record_mapped_fd :: "int \<Rightarrow> u32 \<Rightarrow> shim \<Rightarrow> shim" where
  "camera_ion_shim_record_mapped_fd fd len s =
     s\<lparr>g_mapped_fd_records := (g_mapped_fd_records s)[g_mapped_fd_record_next s :=
         \<lparr>mr_valid = True, mr_fd = fd, mr_len = len, mr_consumed = False\<rparr>],
       g_mapped_fd_record_next :=
         (g_mapped_fd_record_next s + 1) mod SHIM_MAX_MAPPED_FD_RECORDS\<rparr>"

definition camera_ion_shim_find_mapped_fd_candidate :: "u32 \<Rightarrow> int \<Rightarrow> shim \<Rightarrow> int" where
  "camera_ion_shim_find_mapped_fd_candidate len exclude_fd s =
     (case first_index (\<lambda>r. mr_valid r \<and> \<not> mr_consumed r \<and> mr_len r = len \<and> mr_fd r \<noteq> exclude_fd)
             (g_mapped_fd_records s) of
        None \<Rightarrow> - 1
      | Some i \<Rightarrow> int i)"

text \<open>The locked write of \<open>mmap\<close> that retires the record it used.\<close>

definition mark_consumed :: "nat \<Rightarrow> shim \<Rightarrow> shim" where
  "mark_consumed i s = s\<lparr>g_mapped_fd_records :=
     (g_mapped_fd_records s)[i := (g_mapped_fd_records s ! i)\<lparr>mr_consumed := True\<rparr>]\<rparr>"

lemmas registry_defs =
  camera_ion_shim_track_device_fd_def camera_ion_shim_record_alloc_def
  camera_ion_shim_record_mapped_fd_def mark_consumed_def

subsection \<open>The two rings\<close>

definition mk_alloc_record :: "shim_ion_user_handle_t \<times> u32 \<Rightarrow> shim_alloc_record" where
  "mk_alloc_record hl = \<lparr>ar_valid = True, ar_handle = fst hl, ar_len = snd hl\<rparr>"

definition mk_mapped_fd_record :: "int \<times> u32 \<Rightarrow> shim_mapped_fd_record" where
  "mk_mapped_fd_record fl = \<lparr>mr_valid = True, mr_fd = fst fl, mr_len = snd fl, mr_consumed = False\<rparr>"

interpretation allocs: ring g_alloc_records g_alloc_record_next
  "\<lambda>hl. camera_ion_shim_record_alloc (fst hl) (snd hl)" mk_alloc_record SHIM_MAX_ALLOC_RECORDS
  by unfold_locales
    (simp_all add: camera_ion_shim_record_alloc_def mk_alloc_record_def SHIM_MAX_ALLOC_RECORDS_def)

interpretation mapped: ring g_mapped_fd_records g_mapped_fd_record_next
  "\<lambda>fl. camera_ion_shim_record_mapped_fd (fst fl) (snd fl)" mk_mapped_fd_record
  SHIM_MAX_MAPPED_FD_RECORDS
  by unfold_locales
    (simp_all add: camera_ion_shim_record_mapped_fd_def mk_mapped_fd_record_def
      SHIM_MAX_MAPPED_FD_RECORDS_def)

subsection \<open>Invariant\<close>

definition registry_ok :: "shim \<Rightarrow> bool" where
  "registry_ok s \<longleftrightarrow>
     length (g_ion_device_fds s) = SHIM_MAX_ION_DEVICE_FDS \<and>
     g_ion_device_fd_count s \<le> SHIM_MAX_ION_DEVICE_FDS \<and>
     ring_ok SHIM_MAX_ALLOC_RECORDS (g_alloc_records s) (g_alloc_record_next s) \<and>
     ring_ok SHIM_MAX_MAPPED_FD_RECORDS (g_mapped_fd_records s) (g_mapped_fd_record_next s)"

lemma registry_ok_init: "registry_ok init_shim"
  by (simp add: registry_ok_def init_shim_def ring_ok_def SHIM_MAX_ALLOC_RECORDS_def
      SHIM_MAX_MAPPED_FD_RECORDS_def)

lemma registry_ok_track [keeps_inv]:
  "registry_ok s \<Longrightarrow> registry_ok (camera_ion_shim_track_device_fd fd s)"
  by (simp add: registry_ok_def camera_ion_shim_track_device_fd_def)

lemma registry_ok_record_alloc [keeps_inv]:
  "registry_ok s \<Longrightarrow> registry_ok (camera_ion_shim_record_alloc h l s)"
  using allocs.ok_store [of s "(h, l)"]
  by (simp add: registry_ok_def) (simp add: camera_ion_shim_record_alloc_def)

lemma registry_ok_record_mapped [keeps_inv]:
  "registry_ok s \<Longrightarrow> registry_ok (camera_ion_shim_record_mapped_fd fd l s)"
  using mapped.ok_store [of s "(fd, l)"]
  by (simp add: registry_ok_def) (simp add: camera_ion_shim_record_mapped_fd_def)

lemma registry_ok_mark [keeps_inv]: "registry_ok s \<Longrightarrow> registry_ok (mark_consumed i s)"
  by (simp add: registry_ok_def mark_consumed_def ring_ok_def)

subsection \<open>Lookup and candidate search\<close>

lemma lookup_unique:
  assumes "r \<in> set (g_alloc_records s)" and "ar_valid r" and "ar_handle r = h"
    and "\<And>r'. r' \<in> set (g_alloc_records s) \<Longrightarrow> ar_valid r' \<Longrightarrow> ar_handle r' = h \<Longrightarrow> ar_len r' = ar_len r"
  shows "camera_ion_shim_lookup_alloc_len h s = Some (ar_len r)"
  unfolding camera_ion_shim_lookup_alloc_len_def
proof (rule last_match_unique [OF assms(1)])
  show "ar_valid r \<and> ar_handle r = h" using assms(2,3) ..
next
  fix y
  assume "y \<in> set (g_alloc_records s)" and "ar_valid y \<and> ar_handle y = h"
  then show "ar_len y = ar_len r" by (elim conjE) (rule assms(4))
qed

lemma lookup_SomeD:
  "camera_ion_shim_lookup_alloc_len h s = Some l \<Longrightarrow>
   \<exists>r \<in> set (g_alloc_records s). ar_valid r \<and> ar_handle r = h \<and> ar_len r = l"
  by (auto simp: camera_ion_shim_lookup_alloc_len_def dest: last_match_Some)

lemma lookup_None_iff:
  "camera_ion_shim_lookup_alloc_len h s = None \<longleftrightarrow>
   (\<forall>r \<in> set (g_alloc_records s). \<not> (ar_valid r \<and> ar_handle r = h))"
  by (simp add: camera_ion_shim_lookup_alloc_len_def last_match_None)

definition usable :: "u32 \<Rightarrow> int \<Rightarrow> shim_mapped_fd_record \<Rightarrow> bool" where
  "usable len exclude_fd r \<longleftrightarrow>
     mr_valid r \<and> \<not> mr_consumed r \<and> mr_len r = len \<and> mr_fd r \<noteq> exclude_fd"

lemma find_candidate_eq:
  "camera_ion_shim_find_mapped_fd_candidate len ex s =
   (case first_index (usable len ex) (g_mapped_fd_records s) of None \<Rightarrow> - 1 | Some i \<Rightarrow> int i)"
  unfolding camera_ion_shim_find_mapped_fd_candidate_def usable_def [abs_def] ..

lemma find_candidate_index:
  "camera_ion_shim_find_mapped_fd_candidate len ex s = int i \<longleftrightarrow>
   i < length (g_mapped_fd_records s) \<and> usable len ex (g_mapped_fd_records s ! i) \<and>
   (\<forall>j < i. \<not> usable len ex (g_mapped_fd_records s ! j))"
  unfolding first_index_Some [symmetric] find_candidate_eq by (simp split: option.split)

lemma find_candidate_none:
  "camera_ion_shim_find_mapped_fd_candidate len ex s < 0 \<longleftrightarrow>
   (\<forall>r \<in> set (g_mapped_fd_records s). \<not> usable len ex r)"
  unfolding first_index_None [symmetric] find_candidate_eq
  by (simp split: option.split)

lemma find_candidate_cases:
  obtains "camera_ion_shim_find_mapped_fd_candidate len ex s = - 1"
    "\<forall>r \<in> set (g_mapped_fd_records s). \<not> usable len ex r"
  | i where "camera_ion_shim_find_mapped_fd_candidate len ex s = int i"
    "i < length (g_mapped_fd_records s)" "usable len ex (g_mapped_fd_records s ! i)"
proof (cases "first_index (usable len ex) (g_mapped_fd_records s)")
  case None
  moreover from None have "\<forall>r \<in> set (g_mapped_fd_records s). \<not> usable len ex r"
    by (simp add: first_index_None)
  ultimately show ?thesis using that(1) by (simp add: find_candidate_eq)
next
  case (Some i)
  then have "camera_ion_shim_find_mapped_fd_candidate len ex s = int i"
    by (simp add: find_candidate_eq)
  then show ?thesis using that(2) find_candidate_index by blast
qed

lemma is_device_fd_iff:
  "camera_ion_shim_is_device_fd fd s \<longleftrightarrow>
   fd \<in> set (take (g_ion_device_fd_count s) (g_ion_device_fds s))"
  by (auto simp: camera_ion_shim_is_device_fd_def first_index_None simp del: not_None_eq)

end
