(* ===== verification/CString.thy ===== *)
theory CString
  imports CPrelude
begin

section \<open>C strings and byte buffers\<close>

text \<open>
  The parts of the C library that the sources use on strings. A C string is the list of its
  characters without the terminating NUL; a \<open>char\<close> is a byte, and \<open>char_of\<close> is the
  conversion of an \<open>int\<close> to \<open>u8\<close> (modulo 256). A buffer is a list of cells, \<open>None\<close> for a
  cell that was never written, and a write outside it is \<open>None\<close>.
\<close>

subsection \<open>Character classes\<close>

definition isspace :: "char \<Rightarrow> bool" where
  "isspace c \<longleftrightarrow> c \<in> set [CHR '' '', CHR 0x09, CHR 0x0A, CHR 0x0B, CHR 0x0C, CHR 0x0D]"

definition isdigit :: "char \<Rightarrow> bool" where
  "isdigit c \<longleftrightarrow> 48 \<le> (of_char c :: nat) \<and> (of_char c :: nat) \<le> 57"

definition tolower :: "char \<Rightarrow> char" where
  "tolower c = (if 65 \<le> (of_char c :: nat) \<and> (of_char c :: nat) \<le> 90
                then char_of ((of_char c :: nat) + 32) else c)"

subsection \<open>Comparison and search\<close>

definition strcasecmp_eq :: "string \<Rightarrow> string \<Rightarrow> bool" where
  "strcasecmp_eq a b \<longleftrightarrow> map tolower a = map tolower b"

definition strncasecmp_eq :: "string \<Rightarrow> string \<Rightarrow> nat \<Rightarrow> bool" where
  "strncasecmp_eq a b n \<longleftrightarrow> map tolower (take n a) = map tolower (take n b)"

fun strstr :: "string \<Rightarrow> string \<Rightarrow> string option" where
  "strstr [] n = (if n = [] then Some [] else None)"
| "strstr (c # h) n = (if take (length n) (c # h) = n then Some (c # h) else strstr h n)"

lemma strstr_Some: "strstr h n = Some t \<Longrightarrow> \<exists>p r. h = p @ t \<and> t = n @ r"
proof (induction h)
  case Nil
  then show ?case by (auto split: if_splits)
next
  case (Cons c h)
  show ?case
  proof (cases "take (length n) (c # h) = n")
    case True
    with Cons.prems have "t = c # h" by simp
    with True have "c # h = [] @ t" "t = n @ drop (length n) (c # h)"
      by (metis append_Nil, metis append_take_drop_id)
    then show ?thesis by blast
  next
    case False
    with Cons obtain p r where "h = p @ t" "t = n @ r" by auto
    then have "c # h = (c # p) @ t" "t = n @ r" by simp_all
    then show ?thesis by blast
  qed
qed

lemma strstr_length: "strstr h n = Some t \<Longrightarrow> length n \<le> length t \<and> length t \<le> length h"
  by (drule strstr_Some) auto

text \<open>\<open>strtok\<close> with its saved position: the token, or \<open>None\<close>, and the new position.\<close>

definition strtok :: "string \<Rightarrow> string \<Rightarrow> string option \<times> string" where
  "strtok delim s =
     (let t = dropWhile (\<lambda>c. c \<in> set delim) s
      in if t = [] then (None, [])
         else (Some (takeWhile (\<lambda>c. c \<notin> set delim) t),
               drop 1 (dropWhile (\<lambda>c. c \<notin> set delim) t)))"

lemma strtok_shrinks:
  assumes "strtok delim s = (Some tok, rest)"
  shows "length tok + length rest \<le> length s" and "length rest < length s" and "tok \<noteq> []"
proof -
  let ?t = "dropWhile (\<lambda>c. c \<in> set delim) s"
  from assms have t: "?t \<noteq> []" and tok: "tok = takeWhile (\<lambda>c. c \<notin> set delim) ?t"
    and rest: "rest = drop 1 (dropWhile (\<lambda>c. c \<notin> set delim) ?t)"
    by (auto simp: strtok_def Let_def split: if_splits)
  have hd: "hd ?t \<notin> set delim" using t hd_dropWhile by blast
  with t tok show ne: "tok \<noteq> []" by (cases ?t) auto
  have "length tok + length (dropWhile (\<lambda>c. c \<notin> set delim) ?t) = length ?t"
    using tok by (metis length_append takeWhile_dropWhile_id)
  moreover have "length ?t \<le> length s" by (rule length_dropWhile_le)
  ultimately show "length tok + length rest \<le> length s" using rest by simp
  then show "length rest < length s" using ne by (cases tok) auto
qed

subsection \<open>Numbers\<close>

definition digit_val :: "char \<Rightarrow> nat" where
  "digit_val c = (let n = (of_char c :: nat) in
     if 48 \<le> n \<and> n \<le> 57 then n - 48
     else if 97 \<le> n \<and> n \<le> 122 then n - 87
     else if 65 \<le> n \<and> n \<le> 90 then n - 55 else 255)"

definition digits_val :: "nat \<Rightarrow> string \<Rightarrow> nat" where
  "digits_val base ds = foldl (\<lambda>a c. a * base + digit_val c) 0 ds"

fun strip_sign :: "string \<Rightarrow> bool \<times> string" where
  "strip_sign (c # s) = (if c = CHR ''-'' then (True, s) else if c = CHR ''+'' then (False, s)
     else (False, c # s))"
| "strip_sign [] = (False, [])"

text \<open>The value that the decimal prefix of a string denotes.\<close>

definition parse_dec :: "string \<Rightarrow> int" where
  "parse_dec s = (let (neg, t) = strip_sign (dropWhile isspace s);
                      v = int (digits_val 10 (takeWhile isdigit t))
                  in if neg then - v else v)"

text \<open>
  \<open>strtol\<close> saturates at the width of \<open>long\<close>; \<open>atoi\<close> is \<open>(int) strtol\<close>. The board is
  \<open>arm64\<close> (\<open>BoardConfig.mk\<close>), so \<open>long\<close> has 64 bits. C leaves \<open>atoi\<close> undefined outside
  the range of \<open>int\<close>; what is written here is what bionic does.
\<close>

definition strtol10 :: "nat \<Rightarrow> string \<Rightarrow> int" where
  "strtol10 bits s = max (- (2 ^ (bits - 1))) (min (2 ^ (bits - 1) - 1) (parse_dec s))"

definition atoi :: "string \<Rightarrow> int" where
  "atoi s = signed_take_bit 31 (strtol10 64 s)"

text \<open>\<open>strtoul (s, NULL, 0)\<close> where \<open>unsigned long\<close> has 32 bits.\<close>

definition strtoul0 :: "string \<Rightarrow> u32" where
  "strtoul0 s =
     (let (neg, t) = strip_sign (dropWhile isspace s);
          hex = (take 1 t = ''0'' \<and> map tolower (take 1 (drop 1 t)) = ''x'' \<and>
                 drop 2 t \<noteq> [] \<and> digit_val (hd (drop 2 t)) < 16);
          base = (if hex then 16 else if take 1 t = ''0'' then 8 else 10);
          v = digits_val base (takeWhile (\<lambda>c. digit_val c < base) (if hex then drop 2 t else t))
      in if v \<ge> 2 ^ 32 then - 1 else if neg then - of_nat v else of_nat v)"

fun dec_of_nat :: "nat \<Rightarrow> string" where
  "dec_of_nat n = (if n < 10 then [char_of (48 + n)]
                   else dec_of_nat (n div 10) @ [char_of (48 + n mod 10)])"

declare dec_of_nat.simps [simp del]

text \<open>What \<open>printf\<close> prints for \<open>%d\<close>.\<close>

definition dec_of_int :: "int \<Rightarrow> string" where
  "dec_of_int i = (if i < 0 then ''-'' @ dec_of_nat (nat (- i)) else dec_of_nat (nat i))"

lemma digit_char:
  assumes "(d::nat) < 10"
  shows "isdigit (char_of (48 + d))" and "digit_val (char_of (48 + d)) = d"
    and "char_of (48 + d) \<noteq> CHR ''-''" and "char_of (48 + d) \<noteq> CHR ''+''"
    and "\<not> isspace (char_of (48 + d))"
proof -
  from assms have v: "(of_char (char_of (48 + d)) :: nat) = 48 + d"
    by (simp add: take_bit_eq_mod)
  then show "isdigit (char_of (48 + d))" and "digit_val (char_of (48 + d)) = d"
    using assms by (simp_all add: isdigit_def digit_val_def)
  have ne: "char_of (48 + d) \<noteq> c" if "(of_char c :: nat) < 48" for c
    using v that by auto
  show "char_of (48 + d) \<noteq> CHR ''-''" and "char_of (48 + d) \<noteq> CHR ''+''"
    by (rule ne, simp)+
  show "\<not> isspace (char_of (48 + d))"
    using ne by (simp add: isspace_def)
qed

lemma dec_of_nat_digits: "\<forall>c \<in> set (dec_of_nat n). isdigit c"
proof (induction n rule: dec_of_nat.induct)
  case (1 n)
  then show ?case
    by (subst dec_of_nat.simps) (auto simp: digit_char(1))
qed

lemma digits_val_dec_of_nat: "digits_val 10 (dec_of_nat n) = n"
proof (induction n rule: dec_of_nat.induct)
  case (1 n)
  show ?case
  proof (cases "n < 10")
    case True
    then show ?thesis
      by (subst dec_of_nat.simps) (simp add: digits_val_def digit_char(2))
  next
    case False
    with 1 have "digits_val 10 (dec_of_nat (n div 10)) = n div 10" by simp
    with False show ?thesis
      by (subst dec_of_nat.simps) (simp add: digits_val_def digit_char(2))
  qed
qed

lemma dec_of_nat_hd: "\<exists>(d::nat) s. d < 10 \<and> dec_of_nat n = char_of (48 + d) # s"
proof (induction n rule: dec_of_nat.induct)
  case (1 n)
  show ?case
  proof (cases "n < 10")
    case True
    then have "n < 10 \<and> dec_of_nat n = char_of (48 + n) # []"
      by (subst dec_of_nat.simps) simp
    then show ?thesis by blast
  next
    case False
    with 1 obtain d :: nat and s where "d < 10" "dec_of_nat (n div 10) = char_of (48 + d) # s" by blast
    with False have "d < 10 \<and> dec_of_nat n = char_of (48 + d) # (s @ [char_of (48 + n mod 10)])"
      by (subst dec_of_nat.simps) simp
    then show ?thesis by blast
  qed
qed

lemma takeWhile_dec: "takeWhile isdigit (dec_of_nat n @ s) = dec_of_nat n @ takeWhile isdigit s"
  using dec_of_nat_digits by (simp add: takeWhile_append2)

text \<open>Reading back what was printed, whatever non-digit follows it.\<close>

lemma parse_dec_of_int:
  assumes "takeWhile isdigit s = []"
  shows "parse_dec (dec_of_int i @ s) = i"
proof (cases "i < 0")
  case True
  then have "dropWhile isspace (dec_of_int i @ s) = CHR ''-'' # dec_of_nat (nat (- i)) @ s"
    by (simp add: dec_of_int_def isspace_def)
  with True assms show ?thesis
    by (simp add: parse_dec_def takeWhile_dec digits_val_dec_of_nat)
next
  case False
  obtain d :: nat and t where d: "d < 10" "dec_of_nat (nat i) = char_of (48 + d) # t"
    using dec_of_nat_hd by blast
  with False have "dropWhile isspace (dec_of_int i @ s) = dec_of_nat (nat i) @ s"
    by (simp add: dec_of_int_def digit_char(5))
  moreover have "strip_sign (dec_of_nat (nat i) @ s) = (False, dec_of_nat (nat i) @ s)"
    using d digit_char(3,4) [OF d(1)] by simp
  ultimately show ?thesis
    using False assms by (simp add: parse_dec_def takeWhile_dec digits_val_dec_of_nat)
qed

lemma atoi_dec_of_int:
  assumes "- (2 ^ 31) \<le> i" and "i < 2 ^ 31" and "takeWhile isdigit s = []"
  shows "atoi (dec_of_int i @ s) = i"
proof -
  have "strtol10 64 (dec_of_int i @ s) = i"
    using assms by (simp add: strtol10_def parse_dec_of_int)
  with assms(1,2) show ?thesis
    by (simp add: atoi_def signed_take_bit_int_eq_self)
qed

end
