(* ===== verification/Ion_Shim.thy ===== *)
theory Ion_Shim
  imports Ion_Registry CString
begin

section \<open>Camera ION shim: the interposed system calls\<close>

text \<open>
  The functions of \<open>ioe-test/camera_ion_shim.c\<close> that call the kernel: the probes and the
  search for a heap that works, and the exported \<open>open\<close>, \<open>ioctl\<close> and \<open>mmap\<close>. The kernel
  and the dynamic linker are the record \<open>kernel\<close>, whose answers may depend on all earlier
  calls. The registry mutex makes each registry operation atomic; here calls do not
  interleave (\<open>Ion_Threads\<close> has the same functions for calls that do). Logging has no effect on the modelled state.
\<close>

subsection \<open>The kernel and the dynamic linker\<close>

record kernel =
  k_dlsym :: "string \<Rightarrow> bool"
  k_property :: "string \<Rightarrow> string \<Rightarrow> string"
  k_open :: "sys_event list \<Rightarrow> string option \<Rightarrow> int \<Rightarrow> int option \<Rightarrow> int \<times> int"
  k_ioctl :: "sys_event list \<Rightarrow> int \<Rightarrow> u32 \<Rightarrow> ioctl_arg \<Rightarrow> int \<times> ioctl_arg \<times> int"
  k_mmap :: "sys_event list \<Rightarrow> u32 \<Rightarrow> u32 \<Rightarrow> int \<Rightarrow> int \<Rightarrow> int \<Rightarrow> int \<Rightarrow> u32 option \<times> int"
  k_munmap :: "sys_event list \<Rightarrow> u32 \<Rightarrow> u32 \<Rightarrow> int \<times> int"
  k_close :: "sys_event list \<Rightarrow> int \<Rightarrow> int \<times> int"
  k_read :: "sys_event list \<Rightarrow> int \<Rightarrow> nat \<Rightarrow> int \<times> string \<times> int"

text \<open>Each oracle returns the result and the \<open>errno\<close> that libc stores when the call failed.\<close>

definition ENOSYS :: int where "ENOSYS = 38"
definition ENODEV :: int where "ENODEV = 19"
definition O_CREAT :: int where "O_CREAT = 0x40"
definition PROT_READ_WRITE :: int where "PROT_READ_WRITE = 3"
definition MAP_SHARED :: int where "MAP_SHARED = 1"

text \<open>The kernel writes through the pointer it was given; the structure keeps its type.\<close>

fun merge_arg :: "ioctl_arg \<Rightarrow> ioctl_arg \<Rightarrow> ioctl_arg" where
  "merge_arg (AllocArg _) (AllocArg d) = AllocArg d"
| "merge_arg (FdArg _) (FdArg d) = FdArg d"
| "merge_arg (HandleArg _) (HandleArg d) = HandleArg d"
| "merge_arg (OtherArg _) (OtherArg d) = OtherArg d"
| "merge_arg a _ = a"

fun alloc_of :: "ioctl_arg \<Rightarrow> shim_ion_allocation_data option" where
  "alloc_of (AllocArg d) = Some d"
| "alloc_of _ = None"

fun fd_of :: "ioctl_arg \<Rightarrow> shim_ion_fd_data option" where
  "fd_of (FdArg d) = Some d"
| "fd_of _ = None"

lemma alloc_of_merge [simp]: "\<exists>d'. merge_arg (AllocArg d) a = AllocArg d'"
  by (cases a) auto

lemma fd_of_merge [simp]: "\<exists>d'. merge_arg (FdArg d) a = FdArg d'"
  by (cases a) auto

definition log_call :: "sys_event \<Rightarrow> bool \<Rightarrow> int \<Rightarrow> shim \<Rightarrow> shim" where
  "log_call ev failed err s = s\<lparr>errno := (if failed then err else errno s), hist := hist s @ [ev]\<rparr>"

text \<open>Calls through \<open>g_orig_ioctl\<close>, \<open>g_orig_mmap\<close>, \<open>g_orig_open\<close>: a NULL pointer crashes.\<close>

definition orig_ioctl :: "kernel \<Rightarrow> int \<Rightarrow> u32 \<Rightarrow> ioctl_arg \<Rightarrow> shim \<Rightarrow> (int \<times> ioctl_arg \<times> shim) option" where
  "orig_ioctl k fd request arg s =
     (if g_orig_ioctl s
      then let (rc, a, err) = k_ioctl k (hist s) fd request arg; arg' = merge_arg arg a
           in Some (rc, arg', log_call (SysIoctl fd request arg rc arg') (rc < 0) err s)
      else None)"

definition orig_mmap :: "kernel \<Rightarrow> u32 \<Rightarrow> u32 \<Rightarrow> int \<Rightarrow> int \<Rightarrow> int \<Rightarrow> int \<Rightarrow> shim \<Rightarrow> (u32 option \<times> shim) option" where
  "orig_mmap k addr len prot flags fd off s =
     (if g_orig_mmap s
      then let (r, err) = k_mmap k (hist s) addr len prot flags fd off
           in Some (r, log_call (SysMmap addr len prot flags fd off r) (r = None) err s)
      else None)"

definition orig_open :: "kernel \<Rightarrow> string option \<Rightarrow> int \<Rightarrow> int option \<Rightarrow> shim \<Rightarrow> (int \<times> shim) option" where
  "orig_open k path flags mode s =
     (if g_orig_open s
      then let (fd, err) = k_open k (hist s) path flags mode
           in Some (fd, log_call (SysOpen path flags mode fd) (fd < 0) err s)
      else None)"

definition sys_munmap :: "kernel \<Rightarrow> u32 \<Rightarrow> u32 \<Rightarrow> shim \<Rightarrow> shim" where
  "sys_munmap k addr len s =
     (let (rc, err) = k_munmap k (hist s) addr len in log_call (SysMunmap addr len) (rc < 0) err s)"

definition sys_close :: "kernel \<Rightarrow> int \<Rightarrow> shim \<Rightarrow> shim" where
  "sys_close k fd s = (let (rc, err) = k_close k (hist s) fd in log_call (SysClose fd) (rc < 0) err s)"

subsection \<open>Lazy initialisation\<close>

definition camera_ion_shim_resolve_original :: "kernel \<Rightarrow> shim \<Rightarrow> shim" where
  "camera_ion_shim_resolve_original k s =
     s\<lparr>g_orig_ioctl := k_dlsym k ''ioctl'', g_orig_mmap := k_dlsym k ''mmap'',
       g_orig_open := k_dlsym k ''open''\<rparr>"

definition camera_ion_shim_resolve_property :: "kernel \<Rightarrow> shim \<Rightarrow> shim" where
  "camera_ion_shim_resolve_property k s =
     s\<lparr>g_forced_heap_mask := strtoul0 (k_property k ''persist.camera.ion.heap_mask'' ''0'')\<rparr>"

definition resolve_once :: "kernel \<Rightarrow> shim \<Rightarrow> shim" where
  "resolve_once k s =
     (if g_resolve_once s then s
      else (camera_ion_shim_resolve_original k s)\<lparr>g_resolve_once := True\<rparr>)"

definition prop_once :: "kernel \<Rightarrow> shim \<Rightarrow> shim" where
  "prop_once k s =
     (if g_prop_once s then s
      else (camera_ion_shim_resolve_property k s)\<lparr>g_prop_once := True\<rparr>)"

subsection \<open>Probing one combination\<close>

definition camera_ion_shim_free_handle :: "kernel \<Rightarrow> int \<Rightarrow> shim_ion_user_handle_t \<Rightarrow> shim \<Rightarrow> (int \<times> shim) option" where
  "camera_ion_shim_free_handle k fd handle s = do {
     (rc, _, s) \<leftarrow> orig_ioctl k fd SHIM_ION_IOC_FREE (HandleArg \<lparr>hd_handle = handle\<rparr>) s;
     Some (rc, s)
   }"

definition camera_ion_shim_validate_handle ::
    "kernel \<Rightarrow> int \<Rightarrow> u32 \<Rightarrow> shim_ion_user_handle_t \<Rightarrow> shim \<Rightarrow> (int \<times> shim) option" where
  "camera_ion_shim_validate_handle k fd len handle s = do {
     (map_rc, arg, s) \<leftarrow> orig_ioctl k fd SHIM_ION_IOC_MAP
        (FdArg \<lparr>fdd_handle = handle, fdd_fd = 0\<rparr>) s;
     map_data \<leftarrow> fd_of arg;
     if map_rc < 0 then Some (- 1, s)
     else do {
       (probe, s) \<leftarrow> orig_mmap k 0 len PROT_READ_WRITE MAP_SHARED (fdd_fd map_data) 0 s;
       case probe of
         None \<Rightarrow> Some (- 1, sys_close k (fdd_fd map_data) s)
       | Some p \<Rightarrow> Some (0, sys_close k (fdd_fd map_data) (sys_munmap k p len s))
     }
   }"

text \<open>
  \<open>try_combo\<close> and the search return \<open>-1\<close> or return \<open>0\<close> after storing the handle through
  \<open>out_handle\<close>: \<open>None\<close> and \<open>Some handle\<close> here.
\<close>

definition camera_ion_shim_try_combo ::
    "kernel \<Rightarrow> int \<Rightarrow> u32 \<Rightarrow> u32 \<Rightarrow> u32 \<Rightarrow> u32 \<Rightarrow> shim \<Rightarrow>
     (shim_ion_user_handle_t option \<times> shim) option" where
  "camera_ion_shim_try_combo k fd len align flags heap_id_mask s = do {
     (rc, arg, s) \<leftarrow> orig_ioctl k fd SHIM_ION_IOC_ALLOC
        (AllocArg \<lparr>ad_len = len, ad_align = align, ad_heap_id_mask = heap_id_mask,
                   ad_flags = flags, ad_handle = 0\<rparr>) s;
     alloc_data \<leftarrow> alloc_of arg;
     if rc < 0 then Some (None, s)
     else do {
       (v, s) \<leftarrow> camera_ion_shim_validate_handle k fd len (ad_handle alloc_data) s;
       if v \<noteq> 0 then do {
         (_, s) \<leftarrow> camera_ion_shim_free_handle k fd (ad_handle alloc_data) s;
         Some (None, s)
       } else Some (Some (ad_handle alloc_data), s)
     }
   }"

subsection \<open>The grid search\<close>

definition camera_ion_shim_round_align :: "u32 \<Rightarrow> u32" where
  "camera_ion_shim_round_align align =
     (if align \<ge> SHIM_ION_ALIGN_BLOCK then align else SHIM_ION_ALIGN_BLOCK)"

definition align_variants :: "u32 \<Rightarrow> u32 list" where
  "align_variants orig_align =
     (let r = camera_ion_shim_round_align orig_align
      in if orig_align = r then [orig_align] else [orig_align, r])"

definition flags_variants :: "u32 \<Rightarrow> u32 list" where
  "flags_variants orig_flags =
     (let f = orig_flags AND NOT SHIM_ION_FLAG_CACHED
      in if orig_flags = f then [orig_flags] else [orig_flags, f])"

text \<open>The three nested loops, innermost first; a success leaves all of them.\<close>

fun search_flags :: "kernel \<Rightarrow> int \<Rightarrow> u32 \<Rightarrow> u32 \<Rightarrow> u32 \<Rightarrow> u32 list \<Rightarrow> shim \<Rightarrow>
    (shim_ion_user_handle_t option \<times> shim) option" where
  "search_flags k fd len hmask align [] s = Some (None, s)"
| "search_flags k fd len hmask align (f # fs) s = do {
     (r, s) \<leftarrow> camera_ion_shim_try_combo k fd len align f hmask s;
     case r of Some h \<Rightarrow> Some (Some h, s) | None \<Rightarrow> search_flags k fd len hmask align fs s
   }"

fun search_aligns :: "kernel \<Rightarrow> int \<Rightarrow> u32 \<Rightarrow> u32 \<Rightarrow> u32 list \<Rightarrow> u32 list \<Rightarrow> shim \<Rightarrow>
    (shim_ion_user_handle_t option \<times> shim) option" where
  "search_aligns k fd len hmask flags [] s = Some (None, s)"
| "search_aligns k fd len hmask flags (a # as) s = do {
     (r, s) \<leftarrow> search_flags k fd len hmask a flags s;
     case r of Some h \<Rightarrow> Some (Some h, s) | None \<Rightarrow> search_aligns k fd len hmask flags as s
   }"

fun search_heaps :: "kernel \<Rightarrow> int \<Rightarrow> u32 \<Rightarrow> u32 list \<Rightarrow> u32 list \<Rightarrow> u32 \<Rightarrow> nat list \<Rightarrow> shim \<Rightarrow>
    ((shim_ion_user_handle_t \<times> nat) option \<times> shim) option" where
  "search_heaps k fd len aligns flags skip_mask [] s = Some (None, s)"
| "search_heaps k fd len aligns flags skip_mask (heap_id # ids) s =
     (let candidate_mask = push_bit heap_id 1
      in if skip_mask AND candidate_mask \<noteq> 0
         then search_heaps k fd len aligns flags skip_mask ids s
         else do {
           (r, s) \<leftarrow> search_aligns k fd len candidate_mask flags aligns s;
           case r of
             Some h \<Rightarrow> Some (Some (h, heap_id), s)
           | None \<Rightarrow> search_heaps k fd len aligns flags skip_mask ids s
         })"

definition camera_ion_shim_grid_search ::
    "kernel \<Rightarrow> int \<Rightarrow> u32 \<Rightarrow> u32 \<Rightarrow> u32 \<Rightarrow> u32 \<Rightarrow> shim \<Rightarrow>
     ((shim_ion_user_handle_t \<times> nat) option \<times> shim) option" where
  "camera_ion_shim_grid_search k fd len orig_align orig_flags skip_mask s =
     search_heaps k fd len (align_variants orig_align) (flags_variants orig_flags) skip_mask
       [0..<SHIM_ION_NUM_HEAP_IDS] s"

subsection \<open>The exported calls\<close>

definition shim_open :: "kernel \<Rightarrow> string option \<Rightarrow> int \<Rightarrow> int \<Rightarrow> shim \<Rightarrow> (int \<times> shim) option" where
  "shim_open k pathname flags va_mode s = do {
     let s = resolve_once k s;
     if \<not> g_orig_open s then Some (- 1, s\<lparr>errno := ENOSYS\<rparr>)
     else do {
       (fd, s) \<leftarrow> orig_open k pathname flags (if flags AND O_CREAT \<noteq> 0 then Some va_mode else None) s;
       Some (fd,
         if fd \<ge> 0 \<and> (case pathname of None \<Rightarrow> False | Some p \<Rightarrow> strstr p ''/dev/ion'' \<noteq> None)
         then camera_ion_shim_track_device_fd fd s else s)
     }
   }"

text \<open>The branch of \<open>ioctl\<close> for \<open>ION_IOC_MAP\<close> and \<open>ION_IOC_SHARE\<close>.\<close>

definition ioctl_map_share :: "kernel \<Rightarrow> int \<Rightarrow> u32 \<Rightarrow> ioctl_arg \<Rightarrow> shim \<Rightarrow> (int \<times> ioctl_arg \<times> shim) option" where
  "ioctl_map_share k fd request arg s = do {
     (rc, arg', s) \<leftarrow> orig_ioctl k fd request arg s;
     if rc \<ge> 0 then do {
       fd_data \<leftarrow> fd_of arg';
       Some (rc, arg',
         case camera_ion_shim_lookup_alloc_len (fdd_handle fd_data) s of
           Some len \<Rightarrow> camera_ion_shim_record_mapped_fd (fdd_fd fd_data) len s
         | None \<Rightarrow> s)
     } else Some (rc, arg', s)
   }"

text \<open>The branch for \<open>ION_IOC_ALLOC\<close> after the baseline attempt failed: \<open>req\<close> is what the
  caller's structure holds by now.\<close>

definition ioctl_alloc_grid :: "kernel \<Rightarrow> int \<Rightarrow> shim_ion_allocation_data \<Rightarrow> shim \<Rightarrow>
    (int \<times> ioctl_arg \<times> shim) option" where
  "ioctl_alloc_grid k fd req s = do {
     (g, s) \<leftarrow> camera_ion_shim_grid_search k fd (ad_len req) (ad_align req) (ad_flags req)
        (ad_heap_id_mask req) s;
     case g of
       Some (h, _) \<Rightarrow>
         Some (0, AllocArg (req\<lparr>ad_handle := h\<rparr>),
           (camera_ion_shim_record_alloc h (ad_len req) s)\<lparr>errno := 0\<rparr>)
     | None \<Rightarrow> Some (- 1, AllocArg req, s\<lparr>errno := ENODEV\<rparr>)
   }"

definition ioctl_alloc_fallback :: "kernel \<Rightarrow> int \<Rightarrow> shim_ion_allocation_data \<Rightarrow> shim \<Rightarrow>
    (int \<times> ioctl_arg \<times> shim) option" where
  "ioctl_alloc_fallback k fd req s =
     (if g_forced_heap_mask s \<noteq> 0 \<and> g_forced_heap_mask s \<noteq> ad_heap_id_mask req
      then do {
        (r, s) \<leftarrow> camera_ion_shim_try_combo k fd (ad_len req) (ad_align req) (ad_flags req)
           (g_forced_heap_mask s) s;
        case r of
          Some h \<Rightarrow>
            Some (0, AllocArg (req\<lparr>ad_handle := h\<rparr>),
              (camera_ion_shim_record_alloc h (ad_len req) s)\<lparr>errno := 0\<rparr>)
        | None \<Rightarrow> ioctl_alloc_grid k fd req s
      }
      else ioctl_alloc_grid k fd req s)"

definition ioctl_alloc :: "kernel \<Rightarrow> int \<Rightarrow> ioctl_arg \<Rightarrow> shim \<Rightarrow> (int \<times> ioctl_arg \<times> shim) option" where
  "ioctl_alloc k fd arg s = do {
     let s = prop_once k s;
     _ \<leftarrow> alloc_of arg;
     (rc, arg', s) \<leftarrow> orig_ioctl k fd SHIM_ION_IOC_ALLOC arg s;
     req \<leftarrow> alloc_of arg';
     if rc \<ge> 0 then do {
       (v, s) \<leftarrow> camera_ion_shim_validate_handle k fd (ad_len req) (ad_handle req) s;
       if v = 0
       then Some (rc, arg', camera_ion_shim_record_alloc (ad_handle req) (ad_len req) s)
       else do {
         (_, s) \<leftarrow> camera_ion_shim_free_handle k fd (ad_handle req) s;
         ioctl_alloc_fallback k fd req s
       }
     } else ioctl_alloc_fallback k fd req s
   }"

definition shim_ioctl :: "kernel \<Rightarrow> int \<Rightarrow> u32 \<Rightarrow> ioctl_arg \<Rightarrow> shim \<Rightarrow> (int \<times> ioctl_arg \<times> shim) option" where
  "shim_ioctl k fd request arg s =
     (let s = resolve_once k s
      in if \<not> g_orig_ioctl s then Some (- 1, arg, s\<lparr>errno := ENOSYS\<rparr>)
         else if request = SHIM_ION_IOC_MAP \<or> request = SHIM_ION_IOC_SHARE
         then ioctl_map_share k fd request arg s
         else if request \<noteq> SHIM_ION_IOC_ALLOC then orig_ioctl k fd request arg s
         else ioctl_alloc k fd arg s)"

definition mmap_substitute :: "kernel \<Rightarrow> u32 \<Rightarrow> u32 \<Rightarrow> int \<Rightarrow> int \<Rightarrow> int \<Rightarrow> int \<Rightarrow> shim \<Rightarrow>
    (u32 option \<times> shim) option" where
  "mmap_substitute k addr len prot flags fd offset s =
     (let candidate_index = camera_ion_shim_find_mapped_fd_candidate len fd s
      in if candidate_index < 0 then Some (None, s\<lparr>errno := ENODEV\<rparr>)
         else do {
           let candidate_fd = mr_fd (g_mapped_fd_records s ! nat candidate_index);
           (result, s) \<leftarrow> orig_mmap k addr len prot flags candidate_fd offset s;
           case result of
             None \<Rightarrow> Some (None, s\<lparr>errno := ENODEV\<rparr>)
           | Some p \<Rightarrow> Some (Some p, mark_consumed (nat candidate_index) s)
         })"

definition shim_mmap :: "kernel \<Rightarrow> u32 \<Rightarrow> u32 \<Rightarrow> int \<Rightarrow> int \<Rightarrow> int \<Rightarrow> int \<Rightarrow> shim \<Rightarrow>
    (u32 option \<times> shim) option" where
  "shim_mmap k addr len prot flags fd offset s =
     (let s = resolve_once k s
      in if \<not> g_orig_mmap s then Some (None, s\<lparr>errno := ENOSYS\<rparr>)
         else do {
           (result, s) \<leftarrow> orig_mmap k addr len prot flags fd offset s;
           if result \<noteq> None then Some (result, s)
           else if errno s \<noteq> ENODEV then Some (result, s)
           else mmap_substitute k addr len prot flags fd offset s
         })"

text \<open>
  The constructor logs the command line: up to 255 bytes of \<open>/proc/self/cmdline\<close>, read
  through the library's own \<open>open\<close>, or a fixed text. The result is what is logged; a
  \<open>read\<close> that returned more than it was asked for would put the terminator outside the
  array.
\<close>

definition camera_ion_shim_log_process_identity :: "kernel \<Rightarrow> shim \<Rightarrow> (string \<times> shim) option" where
  "camera_ion_shim_log_process_identity k s = do {
     (fd, s) \<leftarrow> shim_open k (Some ''/proc/self/cmdline'') 0 0 s;
     if fd \<ge> 0 then do {
       let (n, bytes, err) = k_read k (hist s) fd 255;
       let s = log_call (SysRead fd 255 n) (n < 0) err s;
       let n = (if n < 0 then 0 else n);
       if n > 255 then None
       else Some (takeWhile (\<lambda>c. c \<noteq> CHR 0x00) (take (nat n) bytes), sys_close k fd s)
     } else Some (''(unknown)'', s)
   }"

text \<open>The function that the dynamic linker runs; nothing is done with the text but logging it.\<close>

definition camera_ion_shim_ctor :: "kernel \<Rightarrow> shim \<Rightarrow> shim option" where
  "camera_ion_shim_ctor k s = map_option snd (camera_ion_shim_log_process_identity k s)"

end
