(* ===== verification/Ion_Effects.thy ===== *)
theory Ion_Effects
  imports Ion_Shim
begin

section \<open>Camera ION shim: what the probes and the search do to the kernel\<close>

text \<open>
  The probes and the search change nothing but \<open>errno\<close> and the history of calls. This theory
  describes the calls they make: every descriptor and every mapping made on the way is given
  back, and so is every handle but the one that is returned; the search tries exactly the
  combinations of a reference list, in order.
\<close>

subsection \<open>Frame\<close>

definition only_calls :: "shim \<Rightarrow> sys_event list \<Rightarrow> shim \<Rightarrow> bool" where
  "only_calls s evs s' \<longleftrightarrow> (\<exists>e. s' = s\<lparr>errno := e, hist := hist s @ evs\<rparr>)"

lemma only_callsI: "s' = s\<lparr>errno := e, hist := hist s @ evs\<rparr> \<Longrightarrow> only_calls s evs s'"
  unfolding only_calls_def by blast

lemma only_calls_refl [simp]: "only_calls s [] s"
  by (rule only_callsI [where e = "errno s"]) simp

lemma only_calls_trans: "only_calls s e1 s1 \<Longrightarrow> only_calls s1 e2 s2 \<Longrightarrow> only_calls s (e1 @ e2) s2"
  unfolding only_calls_def by force

lemma only_calls_hist: "only_calls s evs s' \<Longrightarrow> hist s' = hist s @ evs"
  unfolding only_calls_def by auto

lemma only_calls_fields:
  assumes "only_calls s evs s'"
  shows "g_orig_ioctl s' = g_orig_ioctl s" "g_orig_mmap s' = g_orig_mmap s"
    "g_orig_open s' = g_orig_open s" "g_resolve_once s' = g_resolve_once s"
    "g_forced_heap_mask s' = g_forced_heap_mask s" "g_prop_once s' = g_prop_once s"
    "g_ion_device_fds s' = g_ion_device_fds s"
    "g_ion_device_fd_count s' = g_ion_device_fd_count s"
    "g_alloc_records s' = g_alloc_records s" "g_alloc_record_next s' = g_alloc_record_next s"
    "g_mapped_fd_records s' = g_mapped_fd_records s"
    "g_mapped_fd_record_next s' = g_mapped_fd_record_next s"
  using assms unfolding only_calls_def by auto

lemma only_calls_registry [keeps_inv]: "only_calls s evs s' \<Longrightarrow> registry_ok s \<Longrightarrow> registry_ok s'"
  by (simp add: registry_ok_def only_calls_fields)

lemma only_calls_log: "only_calls s [ev] (log_call ev failed err s)"
  by (rule only_callsI) (simp add: log_call_def)

lemma only_calls_errno: "only_calls s evs s' \<Longrightarrow> only_calls s evs (s'\<lparr>errno := e\<rparr>)"
  by (elim only_calls_def [THEN iffD1, THEN exE]) (rule only_callsI [where e = e], simp)

lemma orig_ioctl_calls [effects]:
  "orig_ioctl k fd request arg s = Some (rc, arg', s') \<Longrightarrow>
   only_calls s [SysIoctl fd request arg rc arg'] s'"
  by (auto simp: orig_ioctl_def Let_def only_calls_log split: if_splits prod.splits)

lemma orig_ioctl_alloc:
  "orig_ioctl k fd request (AllocArg d) s = Some (rc, arg', s') \<Longrightarrow> \<exists>d'. arg' = AllocArg d'"
  by (auto simp: orig_ioctl_def Let_def split: if_splits prod.splits)

lemma orig_ioctl_fd:
  "orig_ioctl k fd request (FdArg d) s = Some (rc, arg', s') \<Longrightarrow> \<exists>d'. arg' = FdArg d'"
  by (auto simp: orig_ioctl_def Let_def split: if_splits prod.splits)

lemma orig_mmap_calls [effects]:
  "orig_mmap k a l p f fd off s = Some (r, s') \<Longrightarrow> only_calls s [SysMmap a l p f fd off r] s'"
  by (auto simp: orig_mmap_def Let_def only_calls_log split: if_splits prod.splits)

lemma orig_open_calls [effects]:
  "orig_open k path flags mode s = Some (fd, s') \<Longrightarrow> only_calls s [SysOpen path flags mode fd] s'"
  by (auto simp: orig_open_def Let_def only_calls_log split: if_splits prod.splits)

lemma sys_munmap_calls [effects]: "only_calls s [SysMunmap p len] (sys_munmap k p len s)"
  by (auto simp: sys_munmap_def only_calls_log split: prod.splits)

lemma sys_close_calls [effects]: "only_calls s [SysClose fd] (sys_close k fd s)"
  by (auto simp: sys_close_def only_calls_log split: prod.splits)

lemma free_handle_calls [effects]:
  "camera_ion_shim_free_handle k fd h s = Some (rc, s') \<Longrightarrow>
   \<exists>a. only_calls s [SysIoctl fd SHIM_ION_IOC_FREE (HandleArg \<lparr>hd_handle = h\<rparr>) rc a] s'"
  by (auto simp: camera_ion_shim_free_handle_def intro: orig_ioctl_calls)

subsection \<open>Resources in a history of calls\<close>

definition ev_alloc :: "sys_event \<Rightarrow> (int \<times> int) list" where
  "ev_alloc ev = (case ev of
     SysIoctl fd rq _ rc (AllocArg d) \<Rightarrow>
       if rq = SHIM_ION_IOC_ALLOC \<and> 0 \<le> rc then [(fd, ad_handle d)] else []
   | _ \<Rightarrow> [])"

definition ev_free :: "sys_event \<Rightarrow> (int \<times> int) list" where
  "ev_free ev = (case ev of
     SysIoctl fd rq (HandleArg d) _ _ \<Rightarrow> if rq = SHIM_ION_IOC_FREE then [(fd, hd_handle d)] else []
   | _ \<Rightarrow> [])"

definition ev_mapfd :: "sys_event \<Rightarrow> int list" where
  "ev_mapfd ev = (case ev of
     SysIoctl fd rq _ rc (FdArg d) \<Rightarrow>
       if rq = SHIM_ION_IOC_MAP \<and> 0 \<le> rc then [fdd_fd d] else []
   | _ \<Rightarrow> [])"

definition ev_close :: "sys_event \<Rightarrow> int list" where
  "ev_close ev = (case ev of SysClose fd \<Rightarrow> [fd] | _ \<Rightarrow> [])"

definition ev_mmap :: "sys_event \<Rightarrow> (u32 \<times> u32) list" where
  "ev_mmap ev = (case ev of SysMmap _ len _ _ _ _ (Some p) \<Rightarrow> [(p, len)] | _ \<Rightarrow> [])"

definition ev_munmap :: "sys_event \<Rightarrow> (u32 \<times> u32) list" where
  "ev_munmap ev = (case ev of SysMunmap p len \<Rightarrow> [(p, len)] | _ \<Rightarrow> [])"

text \<open>The combination that an allocation request asks for, successful or not.\<close>

definition ev_request :: "sys_event \<Rightarrow> (u32 \<times> u32 \<times> u32) list" where
  "ev_request ev = (case ev of
     SysIoctl _ rq (AllocArg d) _ _ \<Rightarrow>
       if rq = SHIM_ION_IOC_ALLOC then [(ad_heap_id_mask d, ad_align d, ad_flags d)] else []
   | _ \<Rightarrow> [])"

definition collect :: "(sys_event \<Rightarrow> 'a list) \<Rightarrow> sys_event list \<Rightarrow> 'a list" where
  "collect f evs = concat (map f evs)"

lemma collect_simps [simp]:
  "collect f [] = []" "collect f (ev # evs) = f ev @ collect f evs"
  "collect f (evs @ evs') = collect f evs @ collect f evs'"
  by (simp_all add: collect_def)

lemmas ev_defs = ev_alloc_def ev_free_def ev_mapfd_def ev_close_def ev_mmap_def ev_munmap_def
  ev_request_def

definition balanced :: "sys_event list \<Rightarrow> bool" where
  "balanced evs \<longleftrightarrow>
     collect ev_mapfd evs = collect ev_close evs \<and> collect ev_mmap evs = collect ev_munmap evs"

text \<open>The calls of a probe that found the handle usable: it could be mapped in its length.\<close>

definition probe_ok :: "int \<Rightarrow> shim_ion_user_handle_t \<Rightarrow> u32 \<Rightarrow> sys_event list \<Rightarrow> bool" where
  "probe_ok fd h len evs \<longleftrightarrow>
     (\<exists>rc d p. 0 \<le> rc \<and> evs =
       [SysIoctl fd SHIM_ION_IOC_MAP (FdArg \<lparr>fdd_handle = h, fdd_fd = 0\<rparr>) rc (FdArg d),
        SysMmap 0 len PROT_READ_WRITE MAP_SHARED (fdd_fd d) 0 (Some p),
        SysMunmap p len, SysClose (fdd_fd d)])"

text \<open>
  The contract of an attempt with result \<open>r\<close>: nothing leaks, every handle but the returned
  one is freed, and the last thing done is the successful probe of the returned handle.
\<close>

definition attempt :: "int \<Rightarrow> u32 \<Rightarrow> shim_ion_user_handle_t option \<Rightarrow> sys_event list \<Rightarrow> bool" where
  "attempt fd len r evs \<longleftrightarrow>
     balanced evs \<and>
     collect ev_alloc evs =
       collect ev_free evs @ (case r of None \<Rightarrow> [] | Some h \<Rightarrow> [(fd, h)]) \<and>
     (\<forall>h. r = Some h \<longrightarrow> (\<exists>pre post. evs = pre @ post \<and> probe_ok fd h len post))"

lemma attempt_SomeI:
  "balanced evs \<Longrightarrow> collect ev_alloc evs = collect ev_free evs @ [(fd, h)] \<Longrightarrow>
   evs = pre @ post \<Longrightarrow> probe_ok fd h len post \<Longrightarrow> attempt fd len (Some h) evs"
  unfolding attempt_def by auto

lemma attempt_Nil [simp]: "attempt fd len None []"
  by (simp add: attempt_def balanced_def)

lemma attempt_append:
  "attempt fd len None e1 \<Longrightarrow> attempt fd len r e2 \<Longrightarrow> attempt fd len r (e1 @ e2)"
  unfolding attempt_def balanced_def by (auto split: option.splits) (metis append.assoc)+

subsection \<open>The probes\<close>

definition probed :: "int \<Rightarrow> shim_ion_user_handle_t \<Rightarrow> u32 \<Rightarrow> int \<Rightarrow> sys_event list \<Rightarrow> bool" where
  "probed fd h len v evs \<longleftrightarrow> balanced evs \<and> collect ev_alloc evs = [] \<and> collect ev_free evs = [] \<and>
     collect ev_request evs = [] \<and> (v = 0 \<or> v = - 1) \<and> (v = 0 \<longrightarrow> probe_ok fd h len evs)"

lemma probed_map_failed:
  "rc < 0 \<Longrightarrow> probed fd h len (- 1) [SysIoctl fd SHIM_ION_IOC_MAP a rc (FdArg d)]"
  by (simp add: probed_def balanced_def ev_defs split: ioctl_arg.splits)

lemma probed_mmap_failed:
  "0 \<le> rc \<Longrightarrow> probed fd h len (- 1)
     ([SysIoctl fd SHIM_ION_IOC_MAP a rc (FdArg d)] @ [SysMmap 0 len p f (fdd_fd d) 0 None] @
      [SysClose (fdd_fd d)])"
  by (simp add: probed_def balanced_def ev_defs split: ioctl_arg.splits)

lemma probed_mmap_ok:
  "0 \<le> rc \<Longrightarrow> probed fd h len 0
     ([SysIoctl fd SHIM_ION_IOC_MAP (FdArg \<lparr>fdd_handle = h, fdd_fd = 0\<rparr>) rc (FdArg d)] @
      [SysMmap 0 len PROT_READ_WRITE MAP_SHARED (fdd_fd d) 0 (Some q)] @
      [SysMunmap q len] @ [SysClose (fdd_fd d)])"
  by (simp add: probed_def balanced_def ev_defs) (auto simp: probe_ok_def)

lemma validate_handle_calls:
  assumes "camera_ion_shim_validate_handle k fd len h s = Some (v, s')"
  shows "\<exists>evs. only_calls s evs s' \<and> probed fd h len v evs"
proof -
  let ?m = "FdArg \<lparr>fdd_handle = h, fdd_fd = 0\<rparr>"
  from assms obtain rc arg d s1 where io: "orig_ioctl k fd SHIM_ION_IOC_MAP ?m s = Some (rc, arg, s1)"
    and d: "fd_of arg = Some d" by (auto simp: camera_ion_shim_validate_handle_def)
  from orig_ioctl_fd [OF io] d have arg: "arg = FdArg d" by auto
  note c1 = orig_ioctl_calls [OF io, unfolded arg]
  show ?thesis
  proof (cases "rc < 0")
    case True
    with assms io d have "v = - 1" "s' = s1" by (auto simp: camera_ion_shim_validate_handle_def)
    with c1 probed_map_failed [OF True] show ?thesis by blast
  next
    case False
    then have rc: "0 \<le> rc" by simp
    from False assms io d obtain p s2
      where mm: "orig_mmap k 0 len PROT_READ_WRITE MAP_SHARED (fdd_fd d) 0 s1 = Some (p, s2)"
        and rest: "(case p of None \<Rightarrow> Some (- 1, sys_close k (fdd_fd d) s2)
          | Some q \<Rightarrow> Some (0, sys_close k (fdd_fd d) (sys_munmap k q len s2))) = Some (v, s')"
      by (auto simp: camera_ion_shim_validate_handle_def)
    note c2 = orig_mmap_calls [OF mm]
    show ?thesis
    proof (cases p)
      case None
      with rest have "v = - 1" "s' = sys_close k (fdd_fd d) s2" by auto
      with only_calls_trans [OF c1 only_calls_trans [OF c2 [unfolded None] sys_close_calls]]
        probed_mmap_failed [OF rc] show ?thesis by blast
    next
      case (Some q)
      with rest have "v = 0" "s' = sys_close k (fdd_fd d) (sys_munmap k q len s2)" by auto
      with only_calls_trans [OF c1 only_calls_trans [OF c2 [unfolded Some]
            only_calls_trans [OF sys_munmap_calls sys_close_calls]]]
        probed_mmap_ok [OF rc] show ?thesis by blast
    qed
  qed
qed

lemma attempt_failed:
  "rc < 0 \<Longrightarrow> attempt fd len None [SysIoctl fd SHIM_ION_IOC_ALLOC a rc (AllocArg d)]"
  by (simp add: attempt_def balanced_def ev_defs split: ioctl_arg.splits)

lemma attempt_probed:
  "0 \<le> rc \<Longrightarrow> probed fd (ad_handle d) len 0 evs \<Longrightarrow>
   attempt fd len (Some (ad_handle d)) ([SysIoctl fd SHIM_ION_IOC_ALLOC a rc (AllocArg d)] @ evs)"
  by (rule attempt_SomeI [OF _ _ refl])
    (simp_all add: balanced_def probed_def ev_defs split: ioctl_arg.splits)

lemma attempt_freed:
  "0 \<le> rc \<Longrightarrow> probed fd (ad_handle d) len v evs \<Longrightarrow>
   attempt fd len None ([SysIoctl fd SHIM_ION_IOC_ALLOC a rc (AllocArg d)] @ evs @
     [SysIoctl fd SHIM_ION_IOC_FREE (HandleArg \<lparr>hd_handle = ad_handle d\<rparr>) rc' a'])"
  by (simp add: attempt_def balanced_def probed_def ev_defs split: ioctl_arg.splits)

text \<open>
  After an allocation request that the kernel answered, the code probes the handle and frees
  it when the probe fails: the baseline attempt and \<open>try_combo\<close> share this.
\<close>

lemma probe_or_free:
  assumes "only_calls s [SysIoctl fd SHIM_ION_IOC_ALLOC a rc (AllocArg d)] s1" and "0 \<le> rc"
    and "camera_ion_shim_validate_handle k fd len (ad_handle d) s1 = Some (v, s2)"
  shows "v = 0 \<Longrightarrow> \<exists>evs. only_calls s evs s2 \<and> attempt fd len (Some (ad_handle d)) evs \<and>
      collect ev_request evs = ev_request (SysIoctl fd SHIM_ION_IOC_ALLOC a rc (AllocArg d))"
    and "camera_ion_shim_free_handle k fd (ad_handle d) s2 = Some (rc', s3) \<Longrightarrow>
      \<exists>evs. only_calls s evs s3 \<and> attempt fd len None evs \<and>
      collect ev_request evs = ev_request (SysIoctl fd SHIM_ION_IOC_ALLOC a rc (AllocArg d))"
proof -
  obtain evs where evs: "only_calls s1 evs s2" "probed fd (ad_handle d) len v evs"
    using validate_handle_calls [OF assms(3)] by blast
  then have req: "collect ev_request evs = []" by (simp add: probed_def)
  note c = only_calls_trans [OF assms(1) evs(1)]
  { assume "v = 0"
    with evs c attempt_probed [OF assms(2)] req
    show "\<exists>evs. only_calls s evs s2 \<and> attempt fd len (Some (ad_handle d)) evs \<and>
      collect ev_request evs = ev_request (SysIoctl fd SHIM_ION_IOC_ALLOC a rc (AllocArg d))"
      by (intro exI [of _ "[SysIoctl fd SHIM_ION_IOC_ALLOC a rc (AllocArg d)] @ evs"]) simp
  next
    assume fr: "camera_ion_shim_free_handle k fd (ad_handle d) s2 = Some (rc', s3)"
    obtain a' where "only_calls s2
        [SysIoctl fd SHIM_ION_IOC_FREE (HandleArg \<lparr>hd_handle = ad_handle d\<rparr>) rc' a'] s3"
      using free_handle_calls [OF fr] by blast
    from only_calls_trans [OF assms(1) only_calls_trans [OF evs(1) this]]
      attempt_freed [OF assms(2) evs(2)] req
    show "\<exists>evs. only_calls s evs s3 \<and> attempt fd len None evs \<and>
      collect ev_request evs = ev_request (SysIoctl fd SHIM_ION_IOC_ALLOC a rc (AllocArg d))"
      by (intro exI conjI) (assumption, assumption, simp add: ev_request_def) }
qed

lemma try_combo_calls:
  assumes "camera_ion_shim_try_combo k fd len align flags hmask s = Some (r, s')"
  shows "\<exists>evs. only_calls s evs s' \<and> attempt fd len r evs \<and>
    collect ev_request evs = [(hmask, align, flags)]"
proof -
  let ?a = "AllocArg \<lparr>ad_len = len, ad_align = align, ad_heap_id_mask = hmask,
    ad_flags = flags, ad_handle = 0\<rparr>"
  from assms obtain rc arg d s1
    where io: "orig_ioctl k fd SHIM_ION_IOC_ALLOC ?a s = Some (rc, arg, s1)"
      and d: "alloc_of arg = Some d" by (auto simp: camera_ion_shim_try_combo_def)
  from orig_ioctl_alloc [OF io] d have arg: "arg = AllocArg d" by auto
  note c1 = orig_ioctl_calls [OF io, unfolded arg]
  have req: "ev_request (SysIoctl fd SHIM_ION_IOC_ALLOC ?a rc (AllocArg d)) = [(hmask, align, flags)]"
    by (simp add: ev_request_def)
  show ?thesis
  proof (cases "rc < 0")
    case True
    with assms io d have "r = None" "s' = s1" by (auto simp: camera_ion_shim_try_combo_def)
    with c1 attempt_failed [OF True] req show ?thesis
      by (intro exI [of _ "[SysIoctl fd SHIM_ION_IOC_ALLOC ?a rc (AllocArg d)]"]) simp
  next
    case False
    then have rc: "0 \<le> rc" by simp
    from False assms io d obtain v s2
      where va: "camera_ion_shim_validate_handle k fd len (ad_handle d) s1 = Some (v, s2)"
        and rest: "(if v \<noteq> 0 then do {
              (_, s) \<leftarrow> camera_ion_shim_free_handle k fd (ad_handle d) s2; Some (None, s)}
            else Some (Some (ad_handle d), s2)) = Some (r, s')"
      by (auto simp: camera_ion_shim_try_combo_def)
    show ?thesis
    proof (cases "v = 0")
      case True
      with rest have "r = Some (ad_handle d)" "s' = s2" by auto
      with probe_or_free(1) [OF c1 rc va True] req show ?thesis by simp
    next
      case False
      with rest obtain rc' where "camera_ion_shim_free_handle k fd (ad_handle d) s2 = Some (rc', s')"
        and "r = None" by auto
      with probe_or_free(2) [OF c1 rc va] req show ?thesis by simp
    qed
  qed
qed

subsection \<open>The search against a reference\<close>

text \<open>
  The reference: the combinations in the order of the nested loops, tried one after the other.
  A combination is the heap hid, its mask, the alignment and the flags.
\<close>

definition combos :: "u32 list \<Rightarrow> u32 list \<Rightarrow> u32 \<Rightarrow> nat list \<Rightarrow> (nat \<times> u32 \<times> u32 \<times> u32) list" where
  "combos aligns flags skip_mask ids =
     concat (map (\<lambda>hid. if skip_mask AND push_bit hid 1 \<noteq> 0 then []
       else concat (map (\<lambda>a. map (\<lambda>f. (hid, push_bit hid 1, a, f)) flags) aligns)) ids)"

fun try_in_order :: "kernel \<Rightarrow> int \<Rightarrow> u32 \<Rightarrow> (nat \<times> u32 \<times> u32 \<times> u32) list \<Rightarrow> shim \<Rightarrow>
    ((shim_ion_user_handle_t \<times> nat) option \<times> shim) option" where
  "try_in_order k fd len [] s = Some (None, s)"
| "try_in_order k fd len ((hid, m, a, f) # cs) s = do {
     (r, s) \<leftarrow> camera_ion_shim_try_combo k fd len a f m s;
     case r of Some h \<Rightarrow> Some (Some (h, hid), s) | None \<Rightarrow> try_in_order k fd len cs s
   }"

lemma try_in_order_append:
  "try_in_order k fd len (xs @ ys) s = do {
     (r, s) \<leftarrow> try_in_order k fd len xs s;
     case r of Some x \<Rightarrow> Some (Some x, s) | None \<Rightarrow> try_in_order k fd len ys s }"
proof (induction k fd len xs s rule: try_in_order.induct)
  case (1 k fd len s)
  then show ?case by simp
next
  case (2 k fd len hid m a f cs s)
  show ?case
  proof (cases "camera_ion_shim_try_combo k fd len a f m s")
    case None
    then show ?thesis by simp
  next
    case (Some rs)
    with 2 show ?thesis by (cases rs) (auto split: option.splits)
  qed
qed

definition tag_id :: "nat \<Rightarrow> ('h option \<times> 's) option \<Rightarrow> (('h \<times> nat) option \<times> 's) option" where
  "tag_id hid = map_option (\<lambda>(r, s). (map_option (\<lambda>h. (h, hid)) r, s))"

lemma tag_id_simps [simp]:
  "tag_id hid None = None" "tag_id hid (Some (r, s)) = Some (map_option (\<lambda>h. (h, hid)) r, s)"
  by (simp_all add: tag_id_def)

lemma search_flags_ref:
  "try_in_order k fd len (map (\<lambda>f. (hid, m, a, f)) fs) s = tag_id hid (search_flags k fd len m a fs s)"
proof (induction fs arbitrary: s)
  case Nil
  then show ?case by simp
next
  case (Cons f fs)
  then show ?case
    by (cases "camera_ion_shim_try_combo k fd len a f m s") (auto split: option.splits)
qed

lemma search_aligns_ref:
  "try_in_order k fd len (concat (map (\<lambda>a. map (\<lambda>f. (hid, m, a, f)) fs) as)) s =
   tag_id hid (search_aligns k fd len m fs as s)"
proof (induction as arbitrary: s)
  case Nil
  then show ?case by simp
next
  case (Cons a as)
  then show ?case
    by (cases "search_flags k fd len m a fs s")
      (auto simp: try_in_order_append search_flags_ref split: option.splits)
qed

lemma search_heaps_ref:
  "search_heaps k fd len aligns flags skip ids s = try_in_order k fd len (combos aligns flags skip ids) s"
proof (induction ids arbitrary: s)
  case Nil
  then show ?case by (simp add: combos_def)
next
  case (Cons i ids)
  then show ?case
    by (cases "search_aligns k fd len (push_bit i 1) flags aligns s")
      (auto simp: combos_def Let_def try_in_order_append search_aligns_ref split: option.splits)
qed

lemma try_in_order_calls:
  "try_in_order k fd len cs s = Some (r, s') \<Longrightarrow>
   \<exists>evs. only_calls s evs s' \<and> attempt fd len (map_option fst r) evs \<and>
     (case r of
        None \<Rightarrow> collect ev_request evs = map snd cs
      | Some (h, hid) \<Rightarrow> \<exists>pre c post. cs = pre @ (hid, c) # post \<and>
          collect ev_request evs = map snd pre @ [c])"
proof (induction k fd len cs s arbitrary: r s' rule: try_in_order.induct)
  case (1 k fd len s)
  then show ?case by (auto intro: exI [of _ "[]"])
next
  case (2 k fd len hid m a f cs s)
  from "2.prems" obtain q s1 where tc: "camera_ion_shim_try_combo k fd len a f m s = Some (q, s1)"
    and rest: "(case q of Some h \<Rightarrow> Some (Some (h, hid), s1) | None \<Rightarrow> try_in_order k fd len cs s1) =
      Some (r, s')" by auto
  obtain e1 where e1: "only_calls s e1 s1" "attempt fd len q e1" "collect ev_request e1 = [(m, a, f)]"
    using try_combo_calls [OF tc] by blast
  show ?case
  proof (cases q)
    case (Some h)
    with rest have "r = Some (h, hid)" "s' = s1" by auto
    with e1 Some show ?thesis
      by (intro exI [of _ e1]) (auto intro!: exI [of _ "[]"])
  next
    case None
    with rest have "try_in_order k fd len cs s1 = Some (r, s')" by simp
    from "2.IH" [OF tc refl None this] obtain e2 where e2: "only_calls s1 e2 s'"
      "attempt fd len (map_option fst r) e2"
      "case r of None \<Rightarrow> collect ev_request e2 = map snd cs
       | Some (h, hid) \<Rightarrow> \<exists>pre c post. cs = pre @ (hid, c) # post \<and>
          collect ev_request e2 = map snd pre @ [c]" by blast
    have "case r of None \<Rightarrow> collect ev_request (e1 @ e2) = map snd ((hid, m, a, f) # cs)
       | Some (h, hid') \<Rightarrow> \<exists>pre c post. (hid, m, a, f) # cs = pre @ (hid', c) # post \<and>
          collect ev_request (e1 @ e2) = map snd pre @ [c]"
    proof (cases r)
      case None
      with e1 e2 show ?thesis by simp
    next
      case (Some x)
      then obtain h hid' where r: "r = Some (h, hid')" by (cases x) auto
      with e2(3) obtain pre c post where "cs = pre @ (hid', c) # post"
        "collect ev_request e2 = map snd pre @ [c]" by auto
      with e1 have "(hid, m, a, f) # cs = ((hid, m, a, f) # pre) @ (hid', c) # post"
        "collect ev_request (e1 @ e2) = map snd ((hid, m, a, f) # pre) @ [c]" by simp_all
      with r show ?thesis by (simp only: option.case prod.case) blast
    qed
    with only_calls_trans [OF e1(1) e2(1)] attempt_append [OF e1(2) [unfolded None] e2(2)]
    show ?thesis by blast
  qed
qed

lemma length_variants: "length (align_variants a) \<le> 2" "length (flags_variants f) \<le> 2"
  by (simp_all add: align_variants_def flags_variants_def Let_def)

lemma length_combos:
  "length (combos as fs skip ids) \<le> length ids * (length as * length fs)"
  by (induction ids) (auto simp: combos_def length_concat sum_list_triv o_def)

subsection \<open>Totality\<close>

text \<open>With all three symbols resolved no call goes through a NULL pointer.\<close>

lemma orig_ioctl_total:
  "g_orig_ioctl s \<Longrightarrow> \<exists>rc a s'. orig_ioctl k fd rq arg s = Some (rc, a, s')"
  by (cases "k_ioctl k (hist s) fd rq arg") (auto simp: orig_ioctl_def Let_def)

lemma orig_mmap_total: "g_orig_mmap s \<Longrightarrow> \<exists>r s'. orig_mmap k a l p f fd off s = Some (r, s')"
  by (cases "k_mmap k (hist s) a l p f fd off") (auto simp: orig_mmap_def Let_def)

lemma validate_handle_total:
  assumes "g_orig_ioctl s" and "g_orig_mmap s"
  shows "\<exists>v s'. camera_ion_shim_validate_handle k fd len h s = Some (v, s')"
proof -
  let ?m = "FdArg \<lparr>fdd_handle = h, fdd_fd = 0\<rparr>"
  obtain rc arg s1 where io: "orig_ioctl k fd SHIM_ION_IOC_MAP ?m s = Some (rc, arg, s1)"
    using orig_ioctl_total assms(1) by blast
  moreover from orig_ioctl_fd [OF io] obtain d where "arg = FdArg d" by blast
  moreover from assms(2) only_calls_fields(2) [OF orig_ioctl_calls [OF io]] have "g_orig_mmap s1"
    by simp
  then obtain p s2 where "orig_mmap k 0 len PROT_READ_WRITE MAP_SHARED (fdd_fd d) 0 s1 = Some (p, s2)"
    using orig_mmap_total by blast
  ultimately show ?thesis
    by (cases p) (auto simp: camera_ion_shim_validate_handle_def)
qed

lemma validate_handle_fields:
  assumes "camera_ion_shim_validate_handle k fd len h s = Some (v, s')"
  shows "g_orig_ioctl s' = g_orig_ioctl s" "g_orig_mmap s' = g_orig_mmap s"
  using validate_handle_calls [OF assms] by (auto dest: only_calls_fields)

lemma free_handle_total:
  "g_orig_ioctl s \<Longrightarrow> \<exists>rc s'. camera_ion_shim_free_handle k fd h s = Some (rc, s')"
  using orig_ioctl_total [of s k fd SHIM_ION_IOC_FREE "HandleArg \<lparr>hd_handle = h\<rparr>"]
  by (auto simp: camera_ion_shim_free_handle_def)

lemma try_combo_total:
  assumes "g_orig_ioctl s" and "g_orig_mmap s"
  shows "\<exists>r s'. camera_ion_shim_try_combo k fd len align flags hmask s = Some (r, s')"
proof -
  let ?a = "AllocArg \<lparr>ad_len = len, ad_align = align, ad_heap_id_mask = hmask,
    ad_flags = flags, ad_handle = 0\<rparr>"
  obtain rc arg s1 where io: "orig_ioctl k fd SHIM_ION_IOC_ALLOC ?a s = Some (rc, arg, s1)"
    using orig_ioctl_total assms(1) by blast
  from orig_ioctl_alloc [OF io] obtain d where arg: "arg = AllocArg d" by blast
  from assms only_calls_fields(1,2) [OF orig_ioctl_calls [OF io]]
  have s1: "g_orig_ioctl s1" "g_orig_mmap s1" by simp_all
  obtain v s2 where va: "camera_ion_shim_validate_handle k fd len (ad_handle d) s1 = Some (v, s2)"
    using validate_handle_total [OF s1] by blast
  with s1 have "g_orig_ioctl s2" by (simp add: validate_handle_fields)
  then obtain rc' s3 where "camera_ion_shim_free_handle k fd (ad_handle d) s2 = Some (rc', s3)"
    using free_handle_total by blast
  with io arg va show ?thesis
    by (cases "v = 0"; cases "rc < 0") (auto simp: camera_ion_shim_try_combo_def)
qed

lemma try_in_order_total:
  "g_orig_ioctl s \<Longrightarrow> g_orig_mmap s \<Longrightarrow> \<exists>r s'. try_in_order k fd len cs s = Some (r, s')"
proof (induction k fd len cs s rule: try_in_order.induct)
  case (1 k fd len s)
  then show ?case by simp
next
  case (2 k fd len hid m a f cs s)
  obtain q s1 where tc: "camera_ion_shim_try_combo k fd len a f m s = Some (q, s1)"
    using try_combo_total [OF "2.prems"] by blast
  obtain e1 where "only_calls s e1 s1" using try_combo_calls [OF tc] by blast
  with "2.prems" have s1: "g_orig_ioctl s1" "g_orig_mmap s1" by (simp_all add: only_calls_fields)
  show ?case
  proof (cases q)
    case None
    with "2.IH" [OF tc refl None s1] tc show ?thesis by simp
  next
    case (Some h)
    with tc show ?thesis by simp
  qed
qed

end
