(* ===== verification/Pthread_Once.thy ===== *)
theory Pthread_Once
  imports CPrelude
begin

section \<open>One-time initialisation\<close>

text \<open>
  \<open>pthread_once\<close> as both camera libraries use it: before each use of a global, \<open>once\<close> runs an
  initialisation unless a flag says that it ran, and sets the flag. The laws of the locale are the
  code's three uses, interpreted in \<open>Ion_Correct\<close> and \<open>Camera_Parameters\<close>; what follows from
  them is that only the first use initialises.
\<close>

locale pthread_once =
  fixes ran :: "'s \<Rightarrow> bool"
    and once :: "'s \<Rightarrow> 's"
    and initialise :: "'s \<Rightarrow> 's"
  assumes once_step: "once s = (if ran s then s else initialise s)"
    and initialise_ran: "ran (initialise s)"
begin

lemma once_ran: "ran (once s)"
  by (simp add: once_step initialise_ran)

lemma once_again: "ran s \<Longrightarrow> once s = s"
  by (simp add: once_step)

lemma once_idem: "once (once s) = once s"
  by (rule once_again [OF once_ran])

lemma once_frame: "(\<And>s. view (initialise s) = view s) \<Longrightarrow> view (once s) = view s"
  by (simp add: once_step)

text \<open>A sequence of calls, each of which begins with \<open>once\<close>, initialises before the first call
  and never again.\<close>

lemma first_initialises:
  assumes "\<And>f s. f \<in> set fs \<Longrightarrow> ran s \<Longrightarrow> ran (f s)" "fs \<noteq> []"
  shows "fold (\<lambda>f s. f (once s)) fs s = fold (\<lambda>f. f) fs (once s)"
proof -
  have later: "fold (\<lambda>f s. f (once s)) gs t = fold (\<lambda>f. f) gs t" if "set gs \<subseteq> set fs" "ran t" for gs t
    using that
  proof (induction gs arbitrary: t)
    case (Cons g gs)
    then have "ran (g t)" using assms(1) by simp
    with Cons show ?case by (simp add: once_again)
  qed simp
  from assms(2) obtain g gs where fs: "fs = g # gs" by (cases fs) auto
  have "ran (g (once s))" using assms(1) once_ran fs by simp
  with later [of gs] show ?thesis by (simp add: fs subset_insertI)
qed

end

end
