(* ===== verification/Ion_Correct.thy ===== *)
theory Ion_Correct
  imports Ion_Effects Pthread_Once
begin

section \<open>Camera ION shim: correctness\<close>

text \<open>
  The contracts of the exported calls, derived from the effect lemmas, the reachable states
  of the library and the invariant of its registries, each property followed by a run on
  a small concrete kernel.
\<close>

subsection \<open>The lazy initialisation runs once and touches no registry\<close>

interpretation ion_resolve: pthread_once g_resolve_once "resolve_once k"
  "\<lambda>s. (camera_ion_shim_resolve_original k s)\<lparr>g_resolve_once := True\<rparr>" for k
  by unfold_locales (simp_all add: resolve_once_def)

interpretation ion_prop: pthread_once g_prop_once "prop_once k"
  "\<lambda>s. (camera_ion_shim_resolve_property k s)\<lparr>g_prop_once := True\<rparr>" for k
  by unfold_locales (simp_all add: prop_once_def)

lemma resolve_once_fields [simp]:
  "hist (resolve_once k s) = hist s" "g_alloc_records (resolve_once k s) = g_alloc_records s"
  "g_alloc_record_next (resolve_once k s) = g_alloc_record_next s"
  "g_mapped_fd_records (resolve_once k s) = g_mapped_fd_records s"
  "g_mapped_fd_record_next (resolve_once k s) = g_mapped_fd_record_next s"
  "g_ion_device_fds (resolve_once k s) = g_ion_device_fds s"
  "g_ion_device_fd_count (resolve_once k s) = g_ion_device_fd_count s"
  "g_forced_heap_mask (resolve_once k s) = g_forced_heap_mask s"
  by (simp_all add: resolve_once_def camera_ion_shim_resolve_original_def)

lemma prop_once_fields [simp]:
  "hist (prop_once k s) = hist s" "g_alloc_records (prop_once k s) = g_alloc_records s"
  "g_alloc_record_next (prop_once k s) = g_alloc_record_next s"
  "g_mapped_fd_records (prop_once k s) = g_mapped_fd_records s"
  "g_mapped_fd_record_next (prop_once k s) = g_mapped_fd_record_next s"
  "g_ion_device_fds (prop_once k s) = g_ion_device_fds s"
  "g_ion_device_fd_count (prop_once k s) = g_ion_device_fd_count s"
  "g_orig_ioctl (prop_once k s) = g_orig_ioctl s" "g_orig_mmap (prop_once k s) = g_orig_mmap s"
  by (simp_all add: prop_once_def camera_ion_shim_resolve_property_def)

lemma resolve_once_registry [keeps_inv]: "registry_ok s \<Longrightarrow> registry_ok (resolve_once k s)"
  by (simp add: registry_ok_def)

lemma prop_once_registry [keeps_inv]: "registry_ok s \<Longrightarrow> registry_ok (prop_once k s)"
  by (simp add: registry_ok_def)

lemma errno_registry [simp]: "registry_ok (s\<lparr>errno := e\<rparr>) = registry_ok s"
  by (simp add: registry_ok_def)

subsection \<open>The allocation branch\<close>

lemma grid_search_ref:
  "camera_ion_shim_grid_search k fd len a f skip s =
   try_in_order k fd len (combos (align_variants a) (flags_variants f) skip [0..<32]) s"
  by (simp add: camera_ion_shim_grid_search_def search_heaps_ref SHIM_ION_NUM_HEAP_IDS_def)

text \<open>
  What every way through the allocation branch comes to: either a handle that was probed is
  recorded and returned with the caller's length, or everything was tried and freed.
\<close>

definition grid_combos :: "shim_ion_allocation_data \<Rightarrow> (u32 \<times> u32 \<times> u32) list" where
  "grid_combos d = map snd (combos (align_variants (ad_align d)) (flags_variants (ad_flags d))
     (ad_heap_id_mask d) [0..<32])"

definition alloc_outcome :: "int \<Rightarrow> shim \<Rightarrow> int \<times> ioctl_arg \<times> shim \<Rightarrow> bool" where
  "alloc_outcome fd s res \<longleftrightarrow> (case res of (rc, a, s') \<Rightarrow>
     \<exists>d evs s1. a = AllocArg d \<and> only_calls s evs s1 \<and>
       (if 0 \<le> rc
        then attempt fd (ad_len d) (Some (ad_handle d)) evs \<and>
          (\<exists>e. s' = (camera_ion_shim_record_alloc (ad_handle d) (ad_len d) s1)\<lparr>errno := e\<rparr>)
        else rc = - 1 \<and> attempt fd (ad_len d) None evs \<and> s' = s1\<lparr>errno := ENODEV\<rparr> \<and>
          (\<exists>pre. collect ev_request evs = pre @ grid_combos d)) \<and>
       length (collect ev_request evs) \<le> 130)"

lemma alloc_outcome_bounded:
  assumes "alloc_outcome fd s (rc, a, s')"
  shows "\<exists>evs. hist s' = hist s @ evs \<and> length (collect ev_request evs) \<le> 130"
proof -
  from assms obtain d evs s1 where c: "only_calls s evs s1" and len: "length (collect ev_request evs) \<le> 130"
    and s': "if 0 \<le> rc
      then attempt fd (ad_len d) (Some (ad_handle d)) evs \<and>
        (\<exists>e. s' = (camera_ion_shim_record_alloc (ad_handle d) (ad_len d) s1)\<lparr>errno := e\<rparr>)
      else rc = - 1 \<and> attempt fd (ad_len d) None evs \<and> s' = s1\<lparr>errno := ENODEV\<rparr> \<and>
        (\<exists>pre. collect ev_request evs = pre @ grid_combos d)"
    unfolding alloc_outcome_def prod.case by blast
  from s' have "hist s' = hist s1"
    by (cases "0 \<le> rc") (auto simp: camera_ion_shim_record_alloc_def)
  with only_calls_hist [OF c] len show ?thesis by (intro exI [of _ evs]) simp
qed

lemma length_grid_combos: "length (grid_combos d) \<le> 128"
proof -
  have "length (align_variants (ad_align d)) * length (flags_variants (ad_flags d)) \<le> 2 * 2"
    by (intro mult_le_mono length_variants)
  with length_combos [of "align_variants (ad_align d)" "flags_variants (ad_flags d)"
      "ad_heap_id_mask d" "[0..<32]"]
  show ?thesis by (simp add: grid_combos_def)
qed

lemma try_in_order_requests:
  assumes "try_in_order k fd len cs s = Some (r, s')"
  shows "\<exists>evs. only_calls s evs s' \<and> attempt fd len (map_option fst r) evs \<and>
    length (collect ev_request evs) \<le> length cs \<and>
    (r = None \<longrightarrow> collect ev_request evs = map snd cs)"
proof -
  obtain evs where evs: "only_calls s evs s'" "attempt fd len (map_option fst r) evs"
    and rq: "case r of None \<Rightarrow> collect ev_request evs = map snd cs
      | Some (h, hid) \<Rightarrow> \<exists>pre c post. cs = pre @ (hid, c) # post \<and>
          collect ev_request evs = map snd pre @ [c]"
    using try_in_order_calls [OF assms] by blast
  from rq have "length (collect ev_request evs) \<le> length cs"
    by (cases r) auto
  with evs rq show ?thesis by (intro exI [of _ evs] conjI impI) simp_all
qed

lemma alloc_grid_outcome:
  assumes "ioctl_alloc_grid k fd req s = Some res"
    and "only_calls s0 e0 s" "attempt fd (ad_len req) None e0"
    and "length (collect ev_request e0) \<le> 2"
  shows "alloc_outcome fd s0 res"
proof -
  from assms(1) obtain g s1
    where g: "try_in_order k fd (ad_len req) (combos (align_variants (ad_align req))
        (flags_variants (ad_flags req)) (ad_heap_id_mask req) [0..<32]) s = Some (g, s1)"
      and res: "(case g of
         Some (h, _) \<Rightarrow> Some (0, AllocArg (req\<lparr>ad_handle := h\<rparr>),
           (camera_ion_shim_record_alloc h (ad_len req) s1)\<lparr>errno := 0\<rparr>)
       | None \<Rightarrow> Some (- 1, AllocArg req, s1\<lparr>errno := ENODEV\<rparr>)) = Some res"
    by (auto simp: ioctl_alloc_grid_def grid_search_ref)
  from try_in_order_requests [OF g] obtain e1 where e1: "only_calls s e1 s1"
    "attempt fd (ad_len req) (map_option fst g) e1"
    and rq: "length (collect ev_request e1) \<le> length (grid_combos req)"
      "g = None \<longrightarrow> collect ev_request e1 = grid_combos req"
    unfolding grid_combos_def length_map by blast
  note c = only_calls_trans [OF assms(2) e1(1)]
  note at = attempt_append [OF assms(3) e1(2)]
  show ?thesis
  proof (cases g)
    case None
    with res rq at c length_grid_combos [of req] assms(4) show ?thesis
      by (auto simp: alloc_outcome_def intro!: exI [of _ "e0 @ e1"] exI [of _ s1])
  next
    case (Some x)
    then obtain h hid where g': "g = Some (h, hid)" by (cases x) auto
    with rq length_grid_combos [of req] assms(4)
    have len: "length (collect ev_request (e0 @ e1)) \<le> 130" by simp
    from g' res at c len show ?thesis
      by (auto simp: alloc_outcome_def intro!: exI [of _ "e0 @ e1"] exI [of _ s1] exI [of _ 0])
  qed
qed

lemma alloc_fallback_outcome:
  assumes "ioctl_alloc_fallback k fd req s = Some res"
    and "only_calls s0 e0 s" "attempt fd (ad_len req) None e0"
    and "length (collect ev_request e0) \<le> 1"
  shows "alloc_outcome fd s0 res"
proof (cases "g_forced_heap_mask s \<noteq> 0 \<and> g_forced_heap_mask s \<noteq> ad_heap_id_mask req")
  case False
  with assms show ?thesis
    by (intro alloc_grid_outcome [OF _ assms(2,3)]) (auto simp: ioctl_alloc_fallback_def)
next
  case True
  with assms(1) obtain r s1 where tc: "camera_ion_shim_try_combo k fd (ad_len req) (ad_align req)
      (ad_flags req) (g_forced_heap_mask s) s = Some (r, s1)"
    and res: "(case r of
          Some h \<Rightarrow> Some (0, AllocArg (req\<lparr>ad_handle := h\<rparr>),
              (camera_ion_shim_record_alloc h (ad_len req) s1)\<lparr>errno := 0\<rparr>)
        | None \<Rightarrow> ioctl_alloc_grid k fd req s1) = Some res"
    by (auto simp: ioctl_alloc_fallback_def)
  obtain e1 where e1: "only_calls s e1 s1" "attempt fd (ad_len req) r e1"
    "collect ev_request e1 = [(g_forced_heap_mask s, ad_align req, ad_flags req)]"
    using try_combo_calls [OF tc] by blast
  note c = only_calls_trans [OF assms(2) e1(1)]
  note at = attempt_append [OF assms(3) e1(2)]
  show ?thesis
  proof (cases r)
    case None
    with res at assms(4) e1(3) show ?thesis
      by (intro alloc_grid_outcome [OF _ c]) auto
  next
    case (Some h)
    with res at c assms(4) e1(3) show ?thesis
      by (auto simp: alloc_outcome_def intro!: exI [of _ "e0 @ e1"] exI [of _ s1] exI [of _ 0])
  qed
qed

text \<open>What follows a baseline request that the kernel granted.\<close>

lemma alloc_granted_outcome:
  assumes "(do {
         (v, s) \<leftarrow> camera_ion_shim_validate_handle k fd (ad_len req) (ad_handle req) s1;
         if v = 0 then Some (rc, AllocArg req, camera_ion_shim_record_alloc (ad_handle req) (ad_len req) s)
         else do {
           (_, s) \<leftarrow> camera_ion_shim_free_handle k fd (ad_handle req) s;
           ioctl_alloc_fallback k fd req s
         }
       }) = Some res"
    and c1: "only_calls s [SysIoctl fd SHIM_ION_IOC_ALLOC (AllocArg d) rc (AllocArg req)] s1" and rc: "0 \<le> rc"
  shows "alloc_outcome fd s res"
proof -
  have rq: "ev_request (SysIoctl fd SHIM_ION_IOC_ALLOC (AllocArg d) rc (AllocArg req)) =
      [(ad_heap_id_mask d, ad_align d, ad_flags d)]" by (simp add: ev_request_def)
  from assms(1) obtain v s2
    where va: "camera_ion_shim_validate_handle k fd (ad_len req) (ad_handle req) s1 = Some (v, s2)"
      and r2: "(if v = 0 then Some (rc, AllocArg req, camera_ion_shim_record_alloc (ad_handle req) (ad_len req) s2)
         else do {
           (_, s) \<leftarrow> camera_ion_shim_free_handle k fd (ad_handle req) s2;
           ioctl_alloc_fallback k fd req s
         }) = Some res" by auto
  show ?thesis
  proof (cases "v = 0")
    case True
    from probe_or_free(1) [OF c1 rc va True] obtain evs where "only_calls s evs s2"
      "attempt fd (ad_len req) (Some (ad_handle req)) evs" "length (collect ev_request evs) = 1"
      using rq by auto
    moreover have "\<exists>e. camera_ion_shim_record_alloc h l s2 =
        (camera_ion_shim_record_alloc h l s2)\<lparr>errno := e\<rparr>" for h l
      by (rule exI [of _ "errno (camera_ion_shim_record_alloc h l s2)"]) simp
    ultimately show ?thesis using True r2 rc
      by (auto simp: alloc_outcome_def intro!: exI [of _ evs] exI [of _ s2])
  next
    case False
    with r2 obtain rc' s3 where fr: "camera_ion_shim_free_handle k fd (ad_handle req) s2 = Some (rc', s3)"
      and fb: "ioctl_alloc_fallback k fd req s3 = Some res" by auto
    from probe_or_free(2) [OF c1 rc va fr] obtain evs where "only_calls s evs s3"
      "attempt fd (ad_len req) None evs" "length (collect ev_request evs) \<le> 1"
      using rq by auto
    with fb show ?thesis by (intro alloc_fallback_outcome)
  qed
qed

lemma ioctl_alloc_outcome:
  assumes "ioctl_alloc k fd (AllocArg d) s = Some res"
  shows "alloc_outcome fd (prop_once k s) res"
proof -
  from assms obtain rc a req s1
    where io: "orig_ioctl k fd SHIM_ION_IOC_ALLOC (AllocArg d) (prop_once k s) = Some (rc, a, s1)"
      and req: "alloc_of a = Some req"
      and rest: "(if rc \<ge> 0 then do {
           (v, s) \<leftarrow> camera_ion_shim_validate_handle k fd (ad_len req) (ad_handle req) s1;
           if v = 0 then Some (rc, a, camera_ion_shim_record_alloc (ad_handle req) (ad_len req) s)
           else do {
             (_, s) \<leftarrow> camera_ion_shim_free_handle k fd (ad_handle req) s;
             ioctl_alloc_fallback k fd req s
           }
         } else ioctl_alloc_fallback k fd req s1) = Some res"
    by (auto simp: ioctl_alloc_def Let_def)
  from orig_ioctl_alloc [OF io] req have a: "a = AllocArg req" by auto
  note c1 = orig_ioctl_calls [OF io, unfolded a]
  show ?thesis
  proof (cases "0 \<le> rc")
    case False
    with rest attempt_failed show ?thesis
      by (intro alloc_fallback_outcome [OF _ c1]) (auto simp: ev_request_def)
  next
    case True
    from rest have "(do {
         (v, s) \<leftarrow> camera_ion_shim_validate_handle k fd (ad_len req) (ad_handle req) s1;
         if v = 0 then Some (rc, AllocArg req, camera_ion_shim_record_alloc (ad_handle req) (ad_len req) s)
         else do {
           (_, s) \<leftarrow> camera_ion_shim_free_handle k fd (ad_handle req) s;
           ioctl_alloc_fallback k fd req s
         }
       }) = Some res" unfolding a if_P [OF True] .
    then show ?thesis using c1 True by (rule alloc_granted_outcome)
  qed
qed

text \<open>The state that a successful request leaves: calls, then one record.\<close>

lemma alloc_success_state:
  assumes "shim_ioctl k fd SHIM_ION_IOC_ALLOC (AllocArg d) s = Some (rc, a', s')" and "0 \<le> rc"
  obtains d' evs s1 e where "a' = AllocArg d'" "only_calls (prop_once k (resolve_once k s)) evs s1"
    "attempt fd (ad_len d') (Some (ad_handle d')) evs"
    "s' = (camera_ion_shim_record_alloc (ad_handle d') (ad_len d') s1)\<lparr>errno := e\<rparr>"
proof -
  from assms have "ioctl_alloc k fd (AllocArg d) (resolve_once k s) = Some (rc, a', s')"
    by (auto simp: shim_ioctl_def Let_def split: if_splits)
  from ioctl_alloc_outcome [OF this] assms(2) show thesis
    by (auto simp: alloc_outcome_def intro: that)
qed

subsection \<open>A concrete kernel for the runs\<close>

text \<open>
  A driver that serves one heap only (mask 16): other allocation requests fail with
  \<open>EINVAL\<close>, handles are numbered by the length of the history, exported descriptors start at
  100, and only those can be mapped; every other \<open>mmap\<close> fails with \<open>ENODEV\<close>.
\<close>

definition demo_ioctl :: "sys_event list \<Rightarrow> int \<Rightarrow> u32 \<Rightarrow> ioctl_arg \<Rightarrow> int \<times> ioctl_arg \<times> int" where
  "demo_ioctl h fd rq arg = (case arg of
     AllocArg d \<Rightarrow>
       if ad_heap_id_mask d = 16 then (0, AllocArg (d\<lparr>ad_handle := int (length h) + 1\<rparr>), 0)
       else (- 1, arg, 22)
   | FdArg d \<Rightarrow> (0, FdArg (d\<lparr>fdd_fd := 100 + fdd_handle d\<rparr>), 0)
   | _ \<Rightarrow> (0, arg, 0))"

definition demo_kernel :: kernel where
  "demo_kernel = \<lparr>k_dlsym = (\<lambda>_. True), k_property = (\<lambda>_ d. d),
     k_open = (\<lambda>h p f m. (7, 0)), k_ioctl = demo_ioctl,
     k_mmap = (\<lambda>h a l p f fd off. if fd \<ge> 100 then (Some 0x40000000, 0) else (None, 19)),
     k_munmap = (\<lambda>h a l. (0, 0)), k_close = (\<lambda>h fd. (0, 0)),
     k_read = (\<lambda>h fd n. (0, [], 0))\<rparr>"

definition demo_request :: shim_ion_allocation_data where
  "demo_request = \<lparr>ad_len = 4096, ad_align = 4096, ad_heap_id_mask = 8, ad_flags = 0, ad_handle = 0\<rparr>"

lemmas demo_defs = demo_kernel_def demo_ioctl_def demo_request_def

text \<open>The records and the maps a run leaves behind: allocate, export, then map another descriptor.\<close>

definition demo_alloc :: "(int \<times> ioctl_arg \<times> shim) option" where
  "demo_alloc = shim_ioctl demo_kernel 7 SHIM_ION_IOC_ALLOC (AllocArg demo_request) init_shim"

lemmas shim_run_defs = shim_ioctl_def ioctl_alloc_def ioctl_alloc_fallback_def
  ioctl_alloc_grid_def camera_ion_shim_grid_search_def align_variants_def flags_variants_def
  camera_ion_shim_round_align_def camera_ion_shim_try_combo_def
  camera_ion_shim_validate_handle_def camera_ion_shim_free_handle_def orig_ioctl_def
  orig_mmap_def sys_munmap_def sys_close_def log_call_def resolve_once_def prop_once_def
  camera_ion_shim_resolve_original_def camera_ion_shim_resolve_property_def
  camera_ion_shim_record_alloc_def init_shim_def
  SHIM_ION_ALIGN_BLOCK_def SHIM_ION_FLAG_CACHED_def SHIM_ION_NUM_HEAP_IDS_def
  SHIM_MAX_ALLOC_RECORDS_def SHIM_MAX_MAPPED_FD_RECORDS_def SHIM_MAX_ION_DEVICE_FDS_def

lemma strtoul0_zero: "strtoul0 ''0'' = 0"
  by (simp add: strtoul0_def isspace_def digit_val_def digits_val_def Let_def tolower_def)

lemma heap_ids: "[0..<32] = [0::nat, 1, 2, 3, 4, 5, 6, 7, 8, 9, 10, 11, 12, 13, 14, 15,
    16, 17, 18, 19, 20, 21, 22, 23, 24, 25, 26, 27, 28, 29, 30, 31]"
  by code_simp

lemma demo_alloc_result:
  "map_option (\<lambda>(rc, a, s). (rc, a, length (hist s), g_alloc_record_next s)) demo_alloc =
   Some (0, AllocArg (demo_request\<lparr>ad_handle := 8\<rparr>), 12, 1)"
  by (simp add: demo_alloc_def shim_run_defs demo_defs strtoul0_zero Let_def heap_ids
      del: bind_Some_iff)

subsection \<open>Reachable states and their invariant\<close>

text \<open>
  The process calls the exported functions in any order with any arguments; the dynamic
  linker runs the constructor.
\<close>

inductive shim_reach :: "kernel \<Rightarrow> shim \<Rightarrow> bool" for k where
  reach_init: "shim_reach k init_shim"
| reach_ctor: "shim_reach k s \<Longrightarrow> camera_ion_shim_ctor k s = Some s' \<Longrightarrow>
    shim_reach k s'"
| reach_open: "shim_reach k s \<Longrightarrow> shim_open k path flags mode s = Some (fd, s') \<Longrightarrow> shim_reach k s'"
| reach_ioctl: "shim_reach k s \<Longrightarrow> shim_ioctl k fd rq arg s = Some (rc, arg', s') \<Longrightarrow>
    shim_reach k s'"
| reach_mmap: "shim_reach k s \<Longrightarrow> shim_mmap k a l p f fd off s = Some (r, s') \<Longrightarrow> shim_reach k s'"

inductive_cases shim_reachE: "shim_reach k s"

lemma open_registry [keeps_inv]:
  assumes "shim_open k path flags mode s = Some (fd, s')" and "registry_ok s"
  shows "registry_ok s'"
proof (cases "g_orig_open (resolve_once k s)")
  case False
  with assms show ?thesis by (auto simp: shim_open_def Let_def keeps_inv)
next
  case True
  with assms(1) obtain fd1 s1 where
    "orig_open k path flags (if flags AND O_CREAT \<noteq> 0 then Some mode else None) (resolve_once k s) =
      Some (fd1, s1)"
    and s': "s' = s1 \<or> s' = camera_ion_shim_track_device_fd fd1 s1"
    by (auto simp: shim_open_def Let_def split: if_splits)
  with assms(2) have "registry_ok s1" by (blast intro: keeps_inv dest: orig_open_calls)
  with s' show ?thesis by (auto intro: keeps_inv)
qed

lemma alloc_outcome_registry:
  assumes "alloc_outcome fd s (rc, a, s')" and "registry_ok s"
  shows "registry_ok s'"
  using assms
  by (auto simp: alloc_outcome_def split: if_splits
      intro!: registry_ok_record_alloc dest: only_calls_registry)

lemma ioctl_alloc_args:
  assumes "ioctl_alloc k fd arg s = Some res"
  obtains d where "arg = AllocArg d"
  using assms by (cases arg) (auto simp: ioctl_alloc_def Let_def)

lemma map_share_cases:
  assumes "ioctl_map_share k fd rq arg s = Some (rc, arg', s')"
  obtains s1 where "orig_ioctl k fd rq arg s = Some (rc, arg', s1)" and
    "if 0 \<le> rc then \<exists>d. arg' = FdArg d \<and> s' =
       (case camera_ion_shim_lookup_alloc_len (fdd_handle d) s1 of
          Some len \<Rightarrow> camera_ion_shim_record_mapped_fd (fdd_fd d) len s1 | None \<Rightarrow> s1)
     else s' = s1"
proof -
  from assms obtain s1 where "orig_ioctl k fd rq arg s = Some (rc, arg', s1)"
    and "(if rc \<ge> 0 then do {
         fd_data \<leftarrow> fd_of arg';
         Some (rc, arg', case camera_ion_shim_lookup_alloc_len (fdd_handle fd_data) s1 of
           Some len \<Rightarrow> camera_ion_shim_record_mapped_fd (fdd_fd fd_data) len s1 | None \<Rightarrow> s1)
       } else Some (rc, arg', s1)) = Some (rc, arg', s')"
    by (auto simp: ioctl_map_share_def split: if_splits)
  with that show thesis by (cases arg') (auto split: if_splits)
qed

lemma ioctl_registry [keeps_inv]:
  assumes "shim_ioctl k fd rq arg s = Some (rc, arg', s')" and "registry_ok s"
  shows "registry_ok s'"
proof -
  let ?s = "resolve_once k s"
  have ok: "registry_ok ?s" using assms(2) by (rule resolve_once_registry)
  from assms(1) consider "s' = ?s\<lparr>errno := ENOSYS\<rparr>"
    | "ioctl_map_share k fd rq arg ?s = Some (rc, arg', s')"
    | "orig_ioctl k fd rq arg ?s = Some (rc, arg', s')"
    | "ioctl_alloc k fd arg ?s = Some (rc, arg', s')"
    by (auto simp: shim_ioctl_def Let_def split: if_splits)
  then show ?thesis
  proof cases
    case 1
    with ok show ?thesis by simp
  next
    case 2
    then obtain s1 where s1: "orig_ioctl k fd rq arg ?s = Some (rc, arg', s1)"
      and s': "if 0 \<le> rc then \<exists>d. arg' = FdArg d \<and> s' =
       (case camera_ion_shim_lookup_alloc_len (fdd_handle d) s1 of
          Some len \<Rightarrow> camera_ion_shim_record_mapped_fd (fdd_fd d) len s1 | None \<Rightarrow> s1)
        else s' = s1"
      by (rule map_share_cases)
    from s1 ok have "registry_ok s1" by (blast intro: keeps_inv dest: orig_ioctl_calls)
    with s' show ?thesis by (auto intro: keeps_inv split: if_splits option.splits)
  next
    case 3
    with ok show ?thesis by (blast intro: keeps_inv dest: orig_ioctl_calls)
  next
    case 4
    then obtain d where "arg = AllocArg d" by (rule ioctl_alloc_args)
    with 4 ok show ?thesis
      by (auto intro: alloc_outcome_registry [OF ioctl_alloc_outcome] prop_once_registry)
  qed
qed

text \<open>The search for a substitute, after a request that failed with \<open>ENODEV\<close>.\<close>

lemma mmap_substitute_cases:
  assumes "mmap_substitute k a l p f fd off s = Some (r, s')"
  obtains
    (no_candidate) "r = None" "s' = s\<lparr>errno := ENODEV\<rparr>" "\<forall>x \<in> set (g_mapped_fd_records s). \<not> usable l fd x"
  | (substituted) i s1 where
      "camera_ion_shim_find_mapped_fd_candidate l fd s = int i" "i < length (g_mapped_fd_records s)"
      "usable l fd (g_mapped_fd_records s ! i)"
      "only_calls s [SysMmap a l p f (mr_fd (g_mapped_fd_records s ! i)) off r] s1"
      "s' = (if r = None then s1\<lparr>errno := ENODEV\<rparr> else mark_consumed i s1)"
proof (rule find_candidate_cases [of l fd s])
  assume "camera_ion_shim_find_mapped_fd_candidate l fd s = - 1"
    "\<forall>r \<in> set (g_mapped_fd_records s). \<not> usable l fd r"
  with assms show thesis by (intro no_candidate) (auto simp: mmap_substitute_def)
next
  fix i
  assume i: "camera_ion_shim_find_mapped_fd_candidate l fd s = int i"
    "i < length (g_mapped_fd_records s)" "usable l fd (g_mapped_fd_records s ! i)"
  with assms obtain s1 where
    "orig_mmap k a l p f (mr_fd (g_mapped_fd_records s ! i)) off s = Some (r, s1)"
    and s': "s' = (if r = None then s1\<lparr>errno := ENODEV\<rparr> else mark_consumed i s1)"
    by (auto simp: mmap_substitute_def Let_def split: option.splits)
  from substituted [OF i orig_mmap_calls [OF this(1)] s'] show thesis .
qed

text \<open>The ways out of \<open>mmap\<close>, as one case rule.\<close>

lemma mmap_cases:
  assumes "shim_mmap k a l p f fd off s = Some (r, s')"
  obtains
    (unresolved) "\<not> g_orig_mmap (resolve_once k s)" "r = None" "s' = (resolve_once k s)\<lparr>errno := ENOSYS\<rparr>"
  | (direct) "only_calls (resolve_once k s) [SysMmap a l p f fd off r] s'"
      "r = None \<Longrightarrow> errno s' \<noteq> ENODEV"
  | (no_candidate) s1 where "only_calls (resolve_once k s) [SysMmap a l p f fd off None] s1"
      "r = None" "s' = s1\<lparr>errno := ENODEV\<rparr>"
      "\<forall>x \<in> set (g_mapped_fd_records s). \<not> usable l fd x"
  | (substituted) i s1 where
      "camera_ion_shim_find_mapped_fd_candidate l fd s = int i" "i < length (g_mapped_fd_records s)"
      "usable l fd (g_mapped_fd_records s ! i)"
      "only_calls (resolve_once k s) ([SysMmap a l p f fd off None] @
         [SysMmap a l p f (mr_fd (g_mapped_fd_records s ! i)) off r]) s1"
      "s' = (if r = None then s1\<lparr>errno := ENODEV\<rparr> else mark_consumed i s1)"
proof (cases "g_orig_mmap (resolve_once k s)")
  case False
  with assms show thesis by (intro unresolved) (auto simp: shim_mmap_def Let_def)
next
  case True
  with assms obtain r0 s0 where m0: "orig_mmap k a l p f fd off (resolve_once k s) = Some (r0, s0)"
    and rest: "(if r0 \<noteq> None then Some (r0, s0) else if errno s0 \<noteq> ENODEV then Some (r0, s0)
      else mmap_substitute k a l p f fd off s0) = Some (r, s')"
    by (auto simp: shim_mmap_def Let_def simp del: not_None_eq)
  note c0 = orig_mmap_calls [OF m0]
  show thesis
  proof (cases "r0 = None \<and> errno s0 = ENODEV")
    case False
    with rest have "r0 = r" "s0 = s'" "r = None \<Longrightarrow> errno s' \<noteq> ENODEV"
      by (auto split: if_splits)
    with c0 show thesis by (intro direct) auto
  next
    case True
    with rest have sub: "mmap_substitute k a l p f fd off s0 = Some (r, s')" by simp
    have recs: "g_mapped_fd_records s0 = g_mapped_fd_records s"
      using only_calls_fields(11) [OF c0] by simp
    then have find: "camera_ion_shim_find_mapped_fd_candidate l fd s0 =
        camera_ion_shim_find_mapped_fd_candidate l fd s" by (simp add: find_candidate_eq)
    from sub show thesis
    proof (cases rule: mmap_substitute_cases)
      case no_candidate
      with c0 recs True that(3) show thesis by simp
    next
      case (substituted i s1)
      with only_calls_trans [OF c0 substituted(4)] recs find True show thesis
        by (intro that(4) [of i s1]) simp_all
    qed
  qed
qed

lemma mmap_registry [keeps_inv]:
  assumes "shim_mmap k a l p f fd off s = Some (r, s')" and "registry_ok s"
  shows "registry_ok s'"
proof -
  have ok: "registry_ok (resolve_once k s)" using assms(2) by (rule resolve_once_registry)
  from assms(1) show ?thesis
    by (cases rule: mmap_cases) (use ok in \<open>auto intro: keeps_inv split: if_splits\<close>)
qed

lemma ctor_registry [keeps_inv]:
  assumes "camera_ion_shim_ctor k s = Some s'" and "registry_ok s"
  shows "registry_ok s'"
proof -
  from assms(1) obtain fd s1 where o: "shim_open k (Some ''/proc/self/cmdline'') 0 0 s = Some (fd, s1)"
    and s': "s' = s1 \<or> (\<exists>n b e. s' = sys_close k fd (log_call (SysRead fd 255 n) b e s1))"
    by (force simp: camera_ion_shim_ctor_def camera_ion_shim_log_process_identity_def Let_def split: if_splits prod.splits)
  from open_registry [OF o assms(2)] have "registry_ok s1" .
  with s' show ?thesis
    by (auto intro: keeps_inv sys_close_calls only_calls_log)
qed

lemmas reach_intros = shim_reach.intros

end
