(* ===== verification/Ion_Properties.thy ===== *)
theory Ion_Properties
  imports Ion_Correct
begin

section \<open>Camera ION shim: properties\<close>

text \<open>
  What a user of the shim may rely on, each with a run on the kernel of \<open>Ion_Correct\<close>
  where it has hypotheses.
\<close>

lemmas run_simps = shim_run_defs demo_defs strtoul0_zero Let_def heap_ids

text \<open>C9. In every state that any sequence of calls of the exported functions can reach, on any
  kernel, the descriptor list and both rings keep their bounds: no index ever leaves its
  array.\<close>
theorem ion_registry_invariant: "shim_reach k s \<Longrightarrow> registry_ok s"
proof (induction rule: shim_reach.induct)
  case reach_init
  show ?case by (rule registry_ok_init)
qed (blast intro: keeps_inv)+

theorem ion_registry_invariant_witness:
  "registry_ok (snd (the (shim_open demo_kernel (Some ''/dev/ion'') 0 0 init_shim)))"
proof -
  obtain fd s where run: "shim_open demo_kernel (Some ''/dev/ion'') 0 0 init_shim = Some (fd, s)"
    by (simp add: shim_open_def orig_open_def run_simps O_CREAT_def)
  then show ?thesis
    using ion_registry_invariant [OF reach_open [OF reach_init run]] by simp
qed

text \<open>C1. An \<open>ION_IOC_ALLOC\<close> that reports success hands out a handle that was just proved
  mappable in its full length: the last calls made are a successful \<open>ION_IOC_MAP\<close>, \<open>mmap\<close>,
  \<open>munmap\<close> and \<open>close\<close> on it; every other handle, descriptor and mapping made on the way was
  given back; and the handle with its length is the newest allocation record.\<close>
theorem ion_alloc_success:
  assumes "shim_ioctl k fd SHIM_ION_IOC_ALLOC (AllocArg d) s = Some (rc, a', s')"
    and "0 \<le> rc" and "registry_ok s"
  shows "\<exists>d' evs. a' = AllocArg d' \<and> hist s' = hist s @ evs \<and>
    attempt fd (ad_len d') (Some (ad_handle d')) evs \<and>
    ring_window (g_alloc_records s') (g_alloc_record_next s') =
      tl (ring_window (g_alloc_records s) (g_alloc_record_next s)) @
      [mk_alloc_record (ad_handle d', ad_len d')]"
proof -
  obtain d' evs s1 e where
    d: "a' = AllocArg d'" "only_calls (prop_once k (resolve_once k s)) evs s1"
      "attempt fd (ad_len d') (Some (ad_handle d')) evs"
      "s' = (camera_ion_shim_record_alloc (ad_handle d') (ad_len d') s1)\<lparr>errno := e\<rparr>"
    using alloc_success_state [OF assms(1,2)] .
  have rec: "g_alloc_records s1 = g_alloc_records s" "g_alloc_record_next s1 = g_alloc_record_next s"
    using only_calls_fields(9,10) [OF d(2)] by simp_all
  with assms(3) have "ring_ok SHIM_MAX_ALLOC_RECORDS (g_alloc_records s1) (g_alloc_record_next s1)"
    by (simp add: registry_ok_def)
  from allocs.window_store [OF this, of "(ad_handle d', ad_len d')"] rec d
    only_calls_hist [OF d(2)] show ?thesis
    by (auto simp: camera_ion_shim_record_alloc_def)
qed

theorem ion_alloc_success_witness:
  "\<exists>rc a' s'. shim_ioctl demo_kernel 7 SHIM_ION_IOC_ALLOC (AllocArg demo_request) init_shim =
     Some (rc, a', s') \<and> (\<exists>d' evs. a' = AllocArg d' \<and>
     attempt 7 (ad_len d') (Some (ad_handle d')) evs)"
proof -
  obtain rc a' s' where run:
    "shim_ioctl demo_kernel 7 SHIM_ION_IOC_ALLOC (AllocArg demo_request) init_shim = Some (rc, a', s')"
    and "rc = 0"
    using demo_alloc_result by (auto simp: demo_alloc_def)
  then have "0 \<le> rc" by simp
  from ion_alloc_success [OF run this registry_ok_init] run show ?thesis by blast
qed

text \<open>C2. An \<open>ION_IOC_ALLOC\<close> that fails once the real \<open>ioctl\<close> is resolved returns \<open>-1\<close> with
  \<open>ENODEV\<close>, has freed every handle it obtained and released every descriptor and mapping, left
  both registries as they were, and has asked the kernel for every combination of the grid:
  nothing that could have worked was skipped.\<close>
theorem ion_alloc_failure:
  assumes "shim_ioctl k fd SHIM_ION_IOC_ALLOC (AllocArg d) s = Some (rc, a', s')"
    and "rc < 0" and "g_orig_ioctl (resolve_once k s)"
  shows "\<exists>d' evs pre. rc = - 1 \<and> errno s' = ENODEV \<and> a' = AllocArg d' \<and>
    hist s' = hist s @ evs \<and> attempt fd (ad_len d') None evs \<and>
    collect ev_request evs = pre @ grid_combos d' \<and>
    g_alloc_records s' = g_alloc_records s \<and> g_mapped_fd_records s' = g_mapped_fd_records s"
proof -
  let ?s = "prop_once k (resolve_once k s)"
  from assms have "ioctl_alloc k fd (AllocArg d) (resolve_once k s) = Some (rc, a', s')"
    by (auto simp: shim_ioctl_def Let_def split: if_splits)
  from ioctl_alloc_outcome [OF this] assms(2) obtain d' evs s1 pre where
    d: "a' = AllocArg d'" "only_calls ?s evs s1" "attempt fd (ad_len d') None evs" "rc = - 1"
    "s' = s1\<lparr>errno := ENODEV\<rparr>" "collect ev_request evs = pre @ grid_combos d'"
    by (auto simp: alloc_outcome_def)
  with only_calls_hist [OF d(2)] only_calls_fields(9,11) [OF d(2)] show ?thesis by auto
qed

definition dead_request :: shim_ion_allocation_data where
  "dead_request = demo_request\<lparr>ad_align := 0x100000, ad_heap_id_mask := 0xFFFFFFFC\<rparr>"

definition dead_kernel :: kernel where
  "dead_kernel = demo_kernel\<lparr>k_ioctl := (\<lambda>h fd rq arg. (- 1, arg, 12))\<rparr>"

theorem ion_alloc_failure_witness:
  "\<exists>rc a' s'. shim_ioctl dead_kernel 7 SHIM_ION_IOC_ALLOC (AllocArg dead_request) init_shim =
     Some (rc, a', s') \<and> rc = - 1 \<and> errno s' = ENODEV"
proof -
  have ex: "map_option (\<lambda>(rc, a, s). rc)
      (shim_ioctl dead_kernel 7 SHIM_ION_IOC_ALLOC (AllocArg dead_request) init_shim) = Some (- 1)"
    by (simp add: dead_kernel_def dead_request_def run_simps del: bind_Some_iff)
  then obtain rc a' s' where run:
    "shim_ioctl dead_kernel 7 SHIM_ION_IOC_ALLOC (AllocArg dead_request) init_shim = Some (rc, a', s')"
    and rc: "rc = - 1" by auto
  then have neg: "rc < 0" by simp
  have "g_orig_ioctl (resolve_once dead_kernel init_shim)"
    by (simp add: dead_kernel_def run_simps)
  from ion_alloc_failure [OF run neg this] run show ?thesis by blast
qed

text \<open>C8. The three nested loops of the grid search are the search through one list: for each
  heap id from 0 to 31 whose bit is not in \<open>skip_mask\<close>, each alignment variant, each flags
  variant, in this order, stopping at the first combination that works.\<close>
theorem ion_grid_search_refines:
  "camera_ion_shim_grid_search k fd len orig_align orig_flags skip_mask s =
   try_in_order k fd len
     (combos (align_variants orig_align) (flags_variants orig_flags) skip_mask [0..<32]) s"
  by (rule grid_search_ref)

text \<open>Whatever the kernel answers, one \<open>ION_IOC_ALLOC\<close> makes at most 130 allocation requests:
  the caller's, the forced heap mask's and 128 of the grid.\<close>
theorem ion_alloc_bounded:
  assumes "shim_ioctl k fd SHIM_ION_IOC_ALLOC (AllocArg d) s = Some (rc, a', s')"
  shows "\<exists>evs. hist s' = hist s @ evs \<and> length (collect ev_request evs) \<le> 130"
proof (cases "g_orig_ioctl (resolve_once k s)")
  case False
  with assms show ?thesis by (auto simp: shim_ioctl_def Let_def intro: exI [of _ "[]"])
next
  case True
  with assms have "ioctl_alloc k fd (AllocArg d) (resolve_once k s) = Some (rc, a', s')"
    by (auto simp: shim_ioctl_def Let_def split: if_splits)
  from alloc_outcome_bounded [OF ioctl_alloc_outcome [OF this]] show ?thesis by simp
qed

theorem ion_alloc_bounded_witness:
  "\<exists>rc a' s' evs. shim_ioctl demo_kernel 7 SHIM_ION_IOC_ALLOC (AllocArg demo_request) init_shim =
     Some (rc, a', s') \<and> hist s' = evs \<and> length (collect ev_request evs) \<le> 130"
proof -
  obtain rc a' s' where run:
    "shim_ioctl demo_kernel 7 SHIM_ION_IOC_ALLOC (AllocArg demo_request) init_shim = Some (rc, a', s')"
    using demo_alloc_result by (auto simp: demo_alloc_def)
  moreover have "hist init_shim = []" by (simp add: init_shim_def)
  ultimately show ?thesis using ion_alloc_bounded [OF run] by auto
qed

definition arg_conforms :: "u32 \<Rightarrow> ioctl_arg \<Rightarrow> bool" where
  "arg_conforms rq arg \<longleftrightarrow>
     (rq = SHIM_ION_IOC_ALLOC \<longrightarrow> alloc_of arg \<noteq> None) \<and>
     (rq = SHIM_ION_IOC_MAP \<or> rq = SHIM_ION_IOC_SHARE \<longrightarrow> fd_of arg \<noteq> None)"

lemma ioctl_alloc_fallback_total:
  assumes "g_orig_ioctl s" and "g_orig_mmap s"
  shows "ioctl_alloc_fallback k fd req s \<noteq> None"
proof -
  have grid: "ioctl_alloc_grid k fd req t \<noteq> None" if "g_orig_ioctl t" "g_orig_mmap t" for t
    using try_in_order_total [OF that] unfolding ioctl_alloc_grid_def grid_search_ref
    by (intro bind_defined) (auto split: option.splits)
  obtain r t where tc: "camera_ion_shim_try_combo k fd (ad_len req) (ad_align req) (ad_flags req)
      (g_forced_heap_mask s) s = Some (r, t)"
    using try_combo_total [OF assms] by blast
  obtain evs where "only_calls s evs t" using try_combo_calls [OF tc] by blast
  with assms have "g_orig_ioctl t" "g_orig_mmap t" by (simp_all add: only_calls_fields)
  then have "ioctl_alloc_grid k fd req t \<noteq> None" by (rule grid)
  with grid [OF assms] tc show ?thesis
    by (cases r) (simp_all add: ioctl_alloc_fallback_def del: not_None_eq)
qed

lemma ioctl_alloc_total:
  assumes "g_orig_ioctl s" and "g_orig_mmap s"
  shows "ioctl_alloc k fd (AllocArg d) s \<noteq> None"
proof -
  let ?s = "prop_once k s"
  obtain rc a s1 where io: "orig_ioctl k fd SHIM_ION_IOC_ALLOC (AllocArg d) ?s = Some (rc, a, s1)"
    using orig_ioctl_total [of ?s k fd SHIM_ION_IOC_ALLOC "AllocArg d"] assms(1) by auto
  from orig_ioctl_alloc [OF io] obtain req where a: "a = AllocArg req" by blast
  have s1: "g_orig_ioctl s1" "g_orig_mmap s1"
    using only_calls_fields(1,2) [OF orig_ioctl_calls [OF io]] assms by simp_all
  obtain v s2 where va: "camera_ion_shim_validate_handle k fd (ad_len req) (ad_handle req) s1 =
      Some (v, s2)" using validate_handle_total [OF s1] by blast
  with s1 have s2: "g_orig_ioctl s2" "g_orig_mmap s2" by (simp_all add: validate_handle_fields)
  obtain rc' s3 where fr: "camera_ion_shim_free_handle k fd (ad_handle req) s2 = Some (rc', s3)"
    using free_handle_total [OF s2(1)] by blast
  then obtain e where "only_calls s2 e s3" using free_handle_calls by blast
  with s2 have s3: "g_orig_ioctl s3" "g_orig_mmap s3" by (simp_all add: only_calls_fields)
  show ?thesis
    using io a va fr ioctl_alloc_fallback_total [OF s1] ioctl_alloc_fallback_total [OF s3]
    by (simp add: ioctl_alloc_def Let_def del: not_None_eq)
qed

text \<open>With all symbols resolved and arguments of the type that the request names, \<open>ioctl\<close>
  always returns: no call goes through a NULL pointer, on any kernel.\<close>
theorem ion_ioctl_total:
  assumes "g_orig_ioctl (resolve_once k s)" and "g_orig_mmap (resolve_once k s)"
    and "arg_conforms rq arg"
  shows "shim_ioctl k fd rq arg s \<noteq> None"
proof -
  let ?s = "resolve_once k s"
  obtain rc a s1 where io: "orig_ioctl k fd rq arg ?s = Some (rc, a, s1)"
    using orig_ioctl_total [OF assms(1)] by blast
  consider "rq = SHIM_ION_IOC_MAP \<or> rq = SHIM_ION_IOC_SHARE" | "rq = SHIM_ION_IOC_ALLOC"
    | "rq \<noteq> SHIM_ION_IOC_MAP" "rq \<noteq> SHIM_ION_IOC_SHARE" "rq \<noteq> SHIM_ION_IOC_ALLOC" by blast
  then show ?thesis
  proof cases
    case 1
    with assms(3) obtain d where "arg = FdArg d" by (cases arg) (auto simp: arg_conforms_def)
    with io orig_ioctl_fd obtain d' where "a = FdArg d'" by blast
    with 1 io assms(1) show ?thesis by (auto simp: shim_ioctl_def ioctl_map_share_def)
  next
    case 2
    with assms(3) obtain d where "arg = AllocArg d" by (cases arg) (auto simp: arg_conforms_def)
    with 2 assms ioctl_alloc_total show ?thesis
      by (simp add: shim_ioctl_def del: not_None_eq)
  next
    case 3
    with io assms(1) show ?thesis by (simp add: shim_ioctl_def)
  qed
qed

theorem ion_ioctl_total_witness:
  "shim_ioctl demo_kernel 7 SHIM_ION_IOC_MAP (FdArg \<lparr>fdd_handle = 3, fdd_fd = 0\<rparr>) init_shim \<noteq> None"
proof (rule ion_ioctl_total)
  show "g_orig_ioctl (resolve_once demo_kernel init_shim)" by (simp add: run_simps)
  show "g_orig_mmap (resolve_once demo_kernel init_shim)" by (simp add: run_simps)
  show "arg_conforms SHIM_ION_IOC_MAP (FdArg \<lparr>fdd_handle = 3, fdd_fd = 0\<rparr>)"
    by (simp add: arg_conforms_def)
qed

lemma alloc_not_map: "SHIM_ION_IOC_ALLOC \<noteq> SHIM_ION_IOC_MAP" "SHIM_ION_IOC_ALLOC \<noteq> SHIM_ION_IOC_SHARE"
  by (simp_all add: ioc_values)

definition no_mmap_kernel :: kernel where
  "no_mmap_kernel = demo_kernel\<lparr>k_dlsym := (\<lambda>n. n \<noteq> ''mmap'')\<rparr>"

text \<open>C40. The probe calls \<open>g_orig_mmap\<close> without looking at it. When the linker finds \<open>ioctl\<close> but
  not \<open>mmap\<close>, every \<open>ION_IOC_ALLOC\<close> that the kernel grants at once, with a handle that it lets the
  probe export, goes through the NULL pointer: on any such kernel, for any device, request and
  state, the call does not return.\<close>
theorem ion_alloc_null_mmap:
  assumes "g_orig_ioctl (resolve_once k s)" and "\<not> g_orig_mmap (resolve_once k s)"
    and "k_ioctl k (hist s) fd SHIM_ION_IOC_ALLOC (AllocArg d) = (rc, AllocArg d', e)" and "0 \<le> rc"
    and "k_ioctl k (hist s @ [SysIoctl fd SHIM_ION_IOC_ALLOC (AllocArg d) rc (AllocArg d')]) fd SHIM_ION_IOC_MAP
      (FdArg \<lparr>fdd_handle = ad_handle d', fdd_fd = 0\<rparr>) = (map_rc, a, e')" and "0 \<le> map_rc"
  shows "shim_ioctl k fd SHIM_ION_IOC_ALLOC (AllocArg d) s = None"
proof -
  let ?s = "prop_once k (resolve_once k s)"
  let ?s1 = "log_call (SysIoctl fd SHIM_ION_IOC_ALLOC (AllocArg d) rc (AllocArg d')) (rc < 0) e ?s"
  have granted: "orig_ioctl k fd SHIM_ION_IOC_ALLOC (AllocArg d) ?s = Some (rc, AllocArg d', ?s1)"
    using assms(1,3) by (simp add: orig_ioctl_def Let_def)
  obtain x where x: "merge_arg (FdArg \<lparr>fdd_handle = ad_handle d', fdd_fd = 0\<rparr>) a = FdArg x"
    using fd_of_merge by blast
  have "camera_ion_shim_validate_handle k fd (ad_len d') (ad_handle d') ?s1 = None"
    using assms(1,2,5,6) x
    by (simp add: camera_ion_shim_validate_handle_def orig_ioctl_def orig_mmap_def log_call_def Let_def
        del: bind_Some_iff)
  with granted assms(1,4) show ?thesis
    by (simp add: shim_ioctl_def ioctl_alloc_def alloc_not_map Let_def del: bind_Some_iff)
qed

theorem ion_alloc_null_mmap_witness:
  "shim_ioctl no_mmap_kernel 7 SHIM_ION_IOC_ALLOC (AllocArg (demo_request\<lparr>ad_heap_id_mask := 16\<rparr>)) init_shim = None"
proof (rule ion_alloc_null_mmap [where rc = 0 and map_rc = 0])
  show "g_orig_ioctl (resolve_once no_mmap_kernel init_shim)" "\<not> g_orig_mmap (resolve_once no_mmap_kernel init_shim)"
    by (simp_all add: no_mmap_kernel_def run_simps)
qed (simp_all add: no_mmap_kernel_def run_simps)

text \<open>C37. The allocation registry is a sliding window: from any well-formed state, after any
  sequence of records the slots read from the next index are the last sixteen of the old window
  followed by the new records, whatever wraps around.\<close>
theorem ion_alloc_window:
  assumes "registry_ok s"
  shows "ring_window
      (g_alloc_records (fold (\<lambda>hl. camera_ion_shim_record_alloc (fst hl) (snd hl)) hls s))
      (g_alloc_record_next (fold (\<lambda>hl. camera_ion_shim_record_alloc (fst hl) (snd hl)) hls s)) =
    drop (length hls)
      (ring_window (g_alloc_records s) (g_alloc_record_next s) @ map mk_alloc_record hls)"
  using assms by (intro allocs.window_stores) (simp add: registry_ok_def)

theorem ion_alloc_window_witness:
  "ring_window (g_alloc_records (camera_ion_shim_record_alloc 5 4096 init_shim))
     (g_alloc_record_next (camera_ion_shim_record_alloc 5 4096 init_shim)) =
   drop 1 (ring_window (g_alloc_records init_shim) (g_alloc_record_next init_shim) @
     [mk_alloc_record (5, 4096)])"
  using ion_alloc_window [OF registry_ok_init, of "[(5, 4096)]"] by simp

text \<open>A length recorded for a handle that the registry does not hold yet is what the lookup
  returns, for as long as at most fifteen other handles are recorded after it.\<close>
theorem ion_lookup_after_record:
  assumes "registry_ok s" and "camera_ion_shim_lookup_alloc_len h s = None"
    and "length hls \<le> 15" and "h \<notin> fst ` set hls"
  shows "camera_ion_shim_lookup_alloc_len h
    (fold (\<lambda>hl. camera_ion_shim_record_alloc (fst hl) (snd hl)) ((h, len) # hls) s) = Some len"
proof -
  let ?t = "fold (\<lambda>hl. camera_ion_shim_record_alloc (fst hl) (snd hl)) ((h, len) # hls) s"
  have ring: "ring_ok SHIM_MAX_ALLOC_RECORDS (g_alloc_records s) (g_alloc_record_next s)"
    using assms(1) by (simp add: registry_ok_def)
  have new: "mk_alloc_record (h, len) \<in> set (g_alloc_records ?t)"
    by (rule allocs.recent_kept [OF ring]) (use assms(3) in \<open>simp_all add: SHIM_MAX_ALLOC_RECORDS_def\<close>)
  have all: "set (g_alloc_records ?t) \<subseteq>
      set (g_alloc_records s) \<union> mk_alloc_record ` set ((h, len) # hls)"
    by (rule allocs.slots_bound)
  have "camera_ion_shim_lookup_alloc_len h ?t = Some (ar_len (mk_alloc_record (h, len)))"
  proof (rule lookup_unique [OF new])
    fix r
    assume "r \<in> set (g_alloc_records ?t)" and r: "ar_valid r" "ar_handle r = h"
    with all consider "r \<in> set (g_alloc_records s)" | "r = mk_alloc_record (h, len)"
      | "r \<in> mk_alloc_record ` set hls" by auto
    then show "ar_len r = ar_len (mk_alloc_record (h, len))"
    proof cases
      case 1
      with r assms(2) show ?thesis by (simp add: lookup_None_iff)
    next
      case 3
      with r assms(4) show ?thesis by (force simp: mk_alloc_record_def image_iff)
    qed simp
  qed (simp_all add: mk_alloc_record_def)
  then show ?thesis by (simp add: mk_alloc_record_def)
qed

theorem ion_lookup_after_record_witness:
  "camera_ion_shim_lookup_alloc_len 9
    (fold (\<lambda>hl. camera_ion_shim_record_alloc (fst hl) (snd hl)) [(9, 4096), (10, 8192)] init_shim) =
   Some 4096"
proof (rule ion_lookup_after_record [OF registry_ok_init])
  show "camera_ion_shim_lookup_alloc_len 9 init_shim = None"
    by (simp add: lookup_None_iff init_shim_def empty_alloc_record_def)
qed simp_all

text \<open>The lookup takes the match with the highest index, which need not be the newest: when a
  handle value comes back after the ring has wrapped, the length recorded last is 2 here and the
  length returned is the stale 1.\<close>
theorem ion_lookup_stale:
  "camera_ion_shim_lookup_alloc_len 7
    (fold (\<lambda>hl. camera_ion_shim_record_alloc (fst hl) (snd hl))
      (map (\<lambda>i. (i, 0)) [100..114] @ [(7, 1), (7, 2)]) init_shim) = Some 1"
proof -
  have ids: "[100..114::int] = [100, 101, 102, 103, 104, 105, 106, 107, 108, 109, 110, 111, 112,
      113, 114]" by code_simp
  show ?thesis
    by (simp add: ids replicate_16 camera_ion_shim_lookup_alloc_len_def camera_ion_shim_record_alloc_def
        init_shim_def SHIM_MAX_ALLOC_RECORDS_def)
qed

text \<open>C15. \<open>mmap\<close> succeeds in two ways only. Either the caller's own request succeeded and the
  registry is untouched; or it failed with \<open>ENODEV\<close> and was repeated, unchanged but for the
  descriptor, on the first usable record (valid, not consumed, of exactly this length, another
  descriptor), which is then retired and can never be chosen again.\<close>
theorem ion_mmap_success:
  assumes "shim_mmap k a l p f fd off s = Some (Some q, s')"
  shows "(hist s' = hist s @ [SysMmap a l p f fd off (Some q)] \<and>
      g_mapped_fd_records s' = g_mapped_fd_records s) \<or>
    (\<exists>i r. i < length (g_mapped_fd_records s) \<and> r = g_mapped_fd_records s ! i \<and> usable l fd r \<and>
      (\<forall>j < i. \<not> usable l fd (g_mapped_fd_records s ! j)) \<and>
      hist s' = hist s @ [SysMmap a l p f fd off None, SysMmap a l p f (mr_fd r) off (Some q)] \<and>
      g_mapped_fd_records s' = (g_mapped_fd_records s)[i := r\<lparr>mr_consumed := True\<rparr>] \<and>
      (\<forall>l' fd'. \<not> usable l' fd' (g_mapped_fd_records s' ! i)))"
  using assms
proof (cases rule: mmap_cases)
  case direct
  then show ?thesis by (simp add: only_calls_hist only_calls_fields)
next
  case (substituted i s1)
  then have "g_mapped_fd_records s' =
      (g_mapped_fd_records s)[i := (g_mapped_fd_records s ! i)\<lparr>mr_consumed := True\<rparr>]"
    "hist s' = hist s1"
    by (simp_all add: mark_consumed_def only_calls_fields)
  with substituted find_candidate_index [of l fd s i] show ?thesis
    by (intro disjI2 exI [of _ i]) (auto simp: only_calls_hist usable_def)
qed simp_all

definition one_export :: shim where
  "one_export = camera_ion_shim_record_mapped_fd 109 4096 init_shim"

theorem ion_mmap_success_witness:
  "\<exists>s'. shim_mmap demo_kernel 0 4096 3 1 7 0 one_export = Some (Some 0x40000000, s') \<and>
     mr_consumed (g_mapped_fd_records s' ! 0)"
proof -
  have ex: "map_option (\<lambda>(q, s). (q, length (hist s)))
      (shim_mmap demo_kernel 0 4096 3 1 7 0 one_export) = Some (Some 0x40000000, 2)"
    by (simp add: shim_mmap_def mmap_substitute_def one_export_def run_simps ENODEV_def
        camera_ion_shim_record_mapped_fd_def camera_ion_shim_find_mapped_fd_candidate_def
        empty_mapped_fd_record_def replicate_16 mark_consumed_def del: bind_Some_iff)
  then obtain s' where run: "shim_mmap demo_kernel 0 4096 3 1 7 0 one_export = Some (Some 0x40000000, s')"
    and two: "length (hist s') = 2" by auto
  have h0: "hist one_export = []"
    and rec: "g_mapped_fd_records one_export ! 0 =
      \<lparr>mr_valid = True, mr_fd = 109, mr_len = 4096, mr_consumed = False\<rparr>"
    by (simp_all add: one_export_def camera_ion_shim_record_mapped_fd_def init_shim_def
        SHIM_MAX_MAPPED_FD_RECORDS_def)
  from ion_mmap_success [OF run] h0 two obtain i where
    i: "\<forall>j < i. \<not> usable 4096 7 (g_mapped_fd_records one_export ! j)"
    "i < length (g_mapped_fd_records one_export)"
    "g_mapped_fd_records s' = (g_mapped_fd_records one_export)
      [i := (g_mapped_fd_records one_export ! i)\<lparr>mr_consumed := True\<rparr>]" by auto
  have "i = 0"
  proof (rule ccontr)
    assume "i \<noteq> 0"
    with i(1) have "\<not> usable 4096 7 (g_mapped_fd_records one_export ! 0)" by simp
    with rec show False by (simp add: usable_def)
  qed
  with i run show ?thesis by simp
qed

text \<open>\<open>open\<close> of a path that contains \<open>/dev/ion\<close> makes its descriptor known, up to four of
  them; no other \<open>open\<close> changes the list.\<close>
theorem ion_open_tracks:
  assumes "shim_open k path flags mode s = Some (fd, s')" and "registry_ok s"
  shows "(if 0 \<le> fd \<and> (\<exists>p. path = Some p \<and> strstr p ''/dev/ion'' \<noteq> None) \<and>
             g_ion_device_fd_count s < 4
          then camera_ion_shim_is_device_fd fd s' \<and>
            g_ion_device_fd_count s' = g_ion_device_fd_count s + 1
          else g_ion_device_fd_count s' = g_ion_device_fd_count s \<and>
            g_ion_device_fds s' = g_ion_device_fds s)"
proof (cases "g_orig_open (resolve_once k s)")
  case False
  with assms show ?thesis by (auto simp: shim_open_def Let_def)
next
  case True
  with assms(1) obtain s1 where
    o: "orig_open k path flags (if flags AND O_CREAT \<noteq> 0 then Some mode else None) (resolve_once k s) =
      Some (fd, s1)"
    and s': "s' = (if fd \<ge> 0 \<and> (case path of None \<Rightarrow> False | Some p \<Rightarrow> strstr p ''/dev/ion'' \<noteq> None)
         then camera_ion_shim_track_device_fd fd s1 else s1)"
    by (auto simp: shim_open_def Let_def simp del: not_None_eq)
  have fds: "g_ion_device_fds s1 = g_ion_device_fds s"
    "g_ion_device_fd_count s1 = g_ion_device_fd_count s"
    using only_calls_fields(7,8) [OF orig_open_calls [OF o]] by simp_all
  from assms(2) have "length (g_ion_device_fds s) = 4" "g_ion_device_fd_count s \<le> 4"
    by (simp_all add: registry_ok_def SHIM_MAX_ION_DEVICE_FDS_def)
  with fds s' show ?thesis
    by (auto simp: camera_ion_shim_track_device_fd_def is_device_fd_iff take_Suc_update
        SHIM_MAX_ION_DEVICE_FDS_def simp del: not_None_eq split: option.splits)
qed

theorem ion_open_tracks_witness:
  "\<exists>s'. shim_open demo_kernel (Some ''/dev/ion'') 0 0 init_shim = Some (7, s') \<and>
     camera_ion_shim_is_device_fd 7 s'"
proof -
  obtain s' where run: "shim_open demo_kernel (Some ''/dev/ion'') 0 0 init_shim = Some (7, s')"
    by (simp add: shim_open_def orig_open_def run_simps O_CREAT_def)
  have "g_ion_device_fd_count init_shim = 0" by (simp add: init_shim_def)
  with ion_open_tracks [OF run registry_ok_init] run show ?thesis by simp
qed

end
