(* ===== verification/Interleaving.thy ===== *)
theory Interleaving
  imports CPrelude
begin

section \<open>Threads that interleave\<close>

text \<open>
  A program of a thread is a tree of atomic actions: it has returned, or its next action takes the
  shared state to the rest of the program and a new state, or goes wrong. Between two actions of
  one thread the others may take any number of theirs. Each thread has a local part that is
  swapped into the state while it runs (\<open>errno\<close>).
\<close>

datatype ('s, 'a) prog =
    Return 'a
  | Act "'s \<Rightarrow> (('s, 'a) prog \<times> 's) option"

primrec pbind :: "('s, 'a) prog \<Rightarrow> ('a \<Rightarrow> ('s, 'b) prog) \<Rightarrow> ('s, 'b) prog" where
  "pbind (Return a) f = f a"
| "pbind (Act g) f = Act (\<lambda>s. map_option (map_prod (\<lambda>p. pbind p f) id) (g s))"

lemma prog_induct [case_names Return Act]:
  assumes "\<And>a. P (Return a)"
    and "\<And>g. (\<And>s p s'. g s = Some (p, s') \<Longrightarrow> P p) \<Longrightarrow> P (Act g)"
  shows "P p"
proof (induction p)
  case (Act g)
  have "P q" if "g s = Some (q, s')" for s q s'
    by (rule Act.IH [of "Some (q, s')" "(q, s')"]) (auto simp: image_iff that intro!: exI [of _ s])
  then show ?case by (rule assms(2))
qed (rule assms(1))

text \<open>One action: a step that yields a value, a look at the state, an update, or a failed check.\<close>

definition act :: "('s \<Rightarrow> ('a \<times> 's) option) \<Rightarrow> ('s, 'a) prog" where
  "act f = Act (\<lambda>s. map_option (map_prod Return id) (f s))"

definition act_read :: "('s \<Rightarrow> 'a) \<Rightarrow> ('s, 'a) prog" where
  "act_read f = act (\<lambda>s. Some (f s, s))"

definition act_upd :: "('s \<Rightarrow> 's) \<Rightarrow> ('s, unit) prog" where
  "act_upd f = act (\<lambda>s. Some ((), f s))"

definition must :: "'a option \<Rightarrow> ('s, 'a) prog" where
  "must x = (case x of Some a \<Rightarrow> Return a | None \<Rightarrow> Act (\<lambda>s. None))"

subsection \<open>One thread alone\<close>

primrec run :: "('s, 'a) prog \<Rightarrow> 's \<Rightarrow> ('a \<times> 's) option" where
  "run (Return a) = (\<lambda>s. Some (a, s))"
| "run (Act g) = (\<lambda>s. case map_option (map_prod run id) (g s) of None \<Rightarrow> None | Some (r, s') \<Rightarrow> r s')"

lemma run_act [simp]: "run (act f) s = f s"
  by (simp add: act_def split: option.split)

lemma run_read [simp]: "run (act_read f) s = Some (f s, s)"
  by (simp add: act_read_def)

lemma run_upd [simp]: "run (act_upd f) s = Some ((), f s)"
  by (simp add: act_upd_def)

lemma run_must [simp]: "run (must x) s = map_option (\<lambda>a. (a, s)) x"
  by (simp add: must_def split: option.split)

lemma run_bind [simp]: "run (pbind p f) s = Option.bind (run p s) (\<lambda>(a, s). run (f a) s)"
proof (induction p arbitrary: s rule: prog_induct)
  case (Act g)
  show ?case
  proof (cases "g s")
    case (Some ps)
    then obtain p s' where g: "g s = Some (p, s')" by (cases ps) auto
    have "run (pbind p f) s' = Option.bind (run p s') (\<lambda>(a, s). run (f a) s)"
      by (rule Act.IH [OF g])
    with g show ?thesis by simp
  qed simp
qed simp

lemma pbind_Return [simp]: "pbind p Return = p"
proof (induction p rule: prog_induct)
  case (Act g)
  have "map_option (map_prod (\<lambda>p. pbind p Return) id) (g s) = g s" for s
  proof (cases "g s")
    case (Some ps)
    then obtain p s' where g: "g s = Some (p, s')" by (cases ps) auto
    with Act.IH [OF g] show ?thesis by simp
  qed simp
  then show ?case by simp
qed simp

subsection \<open>Schedules\<close>

text \<open>
  A schedule names the thread that takes the next action; a thread that has returned does nothing.
  \<open>put\<close> and \<open>get\<close> swap the local part.
\<close>

fun sched :: "('l \<Rightarrow> 's \<Rightarrow> 's) \<Rightarrow> ('s \<Rightarrow> 'l) \<Rightarrow> nat list \<Rightarrow>
    (('s, 'a) prog \<times> 'l) list \<times> 's \<Rightarrow> ((('s, 'a) prog \<times> 'l) list \<times> 's) option" where
  "sched put get [] c = Some c"
| "sched put get (i # is) (ts, s) =
     (if i < length ts
      then (case ts ! i of
              (Return a, l) \<Rightarrow> sched put get is (ts, s)
            | (Act g, l) \<Rightarrow>
                (case g (put l s) of
                   None \<Rightarrow> None
                 | Some (p, s') \<Rightarrow> sched put get is (ts[i := (p, get s')], s')))
      else sched put get is (ts, s))"

lemma sched_append:
  "sched put get (is @ js) c = Option.bind (sched put get is c) (sched put get js)"
  by (induction put get "is" c rule: sched.induct) (simp_all split: prod.split prog.split option.split)

subsection \<open>A bound on a thread's own actions\<close>

fun within :: "nat \<Rightarrow> ('s, 'a) prog \<Rightarrow> bool" where
  "within n (Return a) \<longleftrightarrow> True"
| "within 0 (Act g) \<longleftrightarrow> False"
| "within (Suc n) (Act g) \<longleftrightarrow> (\<forall>s p s'. g s = Some (p, s') \<longrightarrow> within n p)"

lemma within_mono: "within m p \<Longrightarrow> m \<le> n \<Longrightarrow> within n p"
proof (induction m p arbitrary: n rule: within.induct)
  case (3 m g)
  then obtain n' where "n = Suc n'" "m \<le> n'" by (cases n) auto
  with 3 show ?case by fastforce
qed auto

lemma within_bind:
  "within m p \<Longrightarrow> (\<And>a. within n (f a)) \<Longrightarrow> within (m + n) (pbind p f)"
proof (induction m p rule: within.induct)
  case (1 m a)
  then show ?case by (simp add: within_mono [of n])
next
  case (3 m g)
  then show ?case by fastforce
qed simp

lemma within_act [simp]: "within (Suc n) (act f)"
  by (auto simp: act_def)

lemma within_read [simp]: "within (Suc n) (act_read f)"
  by (simp add: act_read_def)

lemma within_upd [simp]: "within (Suc n) (act_upd f)"
  by (simp add: act_upd_def)

lemma within_must [simp]: "within (Suc n) (must x)"
  by (simp add: must_def split: option.split)

text \<open>A thread that may take \<open>n\<close> more actions has returned when it was scheduled \<open>n\<close> times.\<close>

lemma sched_within:
  assumes "sched put get is (ts, s) = Some (ts', s')" "i < length ts" "within (count_list is i) (fst (ts ! i))"
  shows "\<exists>a. fst (ts' ! i) = Return a"
  using assms
proof (induction put get "is" "(ts, s)" arbitrary: ts s rule: sched.induct)
  case (1 put get)
  then show ?case by (cases "fst (ts ! i)") auto
next
  case (2 put get j "is" ts s)
  show ?case
  proof (cases "j < length ts")
    case False
    with 2 show ?thesis by auto
  next
    case True
    obtain p l where tj: "ts ! j = (p, l)" by (cases "ts ! j")
    show ?thesis
    proof (cases p)
      case (Return a)
      have "within (count_list is i) (fst (ts ! i))"
        using "2.prems"(3) tj Return by (cases "j = i") auto
      with 2(1) [OF True tj [symmetric] Return] "2.prems" True tj Return show ?thesis by simp
    next
      case (Act g)
      with "2.prems"(1) True tj obtain p' s1 where g: "g (put l s) = Some (p', s1)"
        and r: "sched put get is (ts[j := (p', get s1)], s1) = Some (ts', s')"
        by (auto split: option.splits)
      have "within (count_list is i) (fst (ts[j := (p', get s1)] ! i))"
        using "2.prems"(2,3) tj Act g True by (cases "j = i") auto
      with 2(2) [OF True tj [symmetric] Act g refl] r "2.prems"(2) show ?thesis by simp
    qed
  qed
qed

subsection \<open>Rely and guarantee\<close>

text \<open>
  \<open>safe\<close>: whatever the others do between its actions, as long as they keep \<open>invar\<close> and change the
  state only as \<open>rel\<close> allows, each action of the program does so too, and \<open>Q\<close> holds of the result
  and stays true. With \<open>tot\<close> no action goes wrong.
\<close>

primrec safe :: "bool \<Rightarrow> ('s \<Rightarrow> bool) \<Rightarrow> ('s \<Rightarrow> 's \<Rightarrow> bool) \<Rightarrow> ('a \<Rightarrow> 's \<Rightarrow> bool) \<Rightarrow> ('s, 'a) prog \<Rightarrow> 's \<Rightarrow> bool" where
  "safe tot invar rel Q (Return a) = (\<lambda>s. \<forall>s1. rel s s1 \<longrightarrow> invar s1 \<longrightarrow> Q a s1)"
| "safe tot invar rel Q (Act g) = (\<lambda>s. \<forall>s1. rel s s1 \<longrightarrow> invar s1 \<longrightarrow>
     (case map_option (map_prod (safe tot invar rel Q) id) (g s1) of
        None \<Rightarrow> \<not> tot
      | Some (ok, s2) \<Rightarrow> invar s2 \<and> rel s1 s2 \<and> ok s2))"

lemma safe_Act:
  "safe tot invar rel Q (Act g) s \<longleftrightarrow> (\<forall>s1. rel s s1 \<longrightarrow> invar s1 \<longrightarrow>
     (case g s1 of None \<Rightarrow> \<not> tot | Some (p, s2) \<Rightarrow> invar s2 \<and> rel s1 s2 \<and> safe tot invar rel Q p s2))"
proof -
  have "(case map_option (map_prod (safe tot invar rel Q) id) (g s1) of None \<Rightarrow> \<not> tot
        | Some (ok, s2) \<Rightarrow> invar s2 \<and> rel s1 s2 \<and> ok s2) =
      (case g s1 of None \<Rightarrow> \<not> tot
        | Some (p, s2) \<Rightarrow> invar s2 \<and> rel s1 s2 \<and> safe tot invar rel Q p s2)" for s1
    by (cases "g s1") auto
  then show ?thesis unfolding safe.simps by presburger
qed

declare safe.simps(2) [simp del]

locale interference =
  fixes invar :: "'s \<Rightarrow> bool"
    and rel :: "'s \<Rightarrow> 's \<Rightarrow> bool"
    and put :: "'l \<Rightarrow> 's \<Rightarrow> 's"
    and get :: "'s \<Rightarrow> 'l"
  assumes rel_refl: "rel s s"
    and rel_trans: "rel s s1 \<Longrightarrow> rel s1 s2 \<Longrightarrow> rel s s2"
    and put_inv: "invar s \<Longrightarrow> invar (put l s)"
    and put_rel: "rel s (put l s)"
begin

lemma safe_later: "safe tot invar rel Q p s \<Longrightarrow> rel s s' \<Longrightarrow> safe tot invar rel Q p s'"
  by (cases p) (auto simp: safe_Act intro: rel_trans)

lemma safe_result: "(\<And>s1. rel s s1 \<Longrightarrow> invar s1 \<Longrightarrow> Q a s1) \<Longrightarrow> safe tot invar rel Q (Return a) s"
  by simp

lemma safe_act:
  assumes "\<And>s1. rel s s1 \<Longrightarrow> invar s1 \<Longrightarrow>
    (case f s1 of None \<Rightarrow> \<not> tot | Some (a, s2) \<Rightarrow> invar s2 \<and> rel s1 s2 \<and> (\<forall>s3. rel s2 s3 \<longrightarrow> invar s3 \<longrightarrow> Q a s3))"
  shows "safe tot invar rel Q (act f) s"
  unfolding act_def safe_Act
proof (intro allI impI)
  fix s1 assume "rel s s1" "invar s1"
  from assms [OF this] show "case map_option (map_prod Return id) (f s1) of None \<Rightarrow> \<not> tot
      | Some (p, s2) \<Rightarrow> invar s2 \<and> rel s1 s2 \<and> safe tot invar rel Q p s2"
    by (cases "f s1") auto
qed

lemma safe_bind:
  "safe tot invar rel P p s \<Longrightarrow> (\<And>a s'. rel s s' \<Longrightarrow> invar s' \<Longrightarrow> P a s' \<Longrightarrow> safe tot invar rel Q (f a) s') \<Longrightarrow> invar s \<Longrightarrow>
   safe tot invar rel Q (pbind p f) s"
proof (induction p arbitrary: s rule: prog_induct)
  case (Return a)
  then show ?case by (simp add: rel_refl)
next
  case (Act g)
  show ?case unfolding pbind.simps safe_Act
  proof (intro allI impI)
    fix s1 assume s1: "rel s s1" "invar s1"
    with Act.prems(1) have c: "case g s1 of None \<Rightarrow> \<not> tot
      | Some (p, s2) \<Rightarrow> invar s2 \<and> rel s1 s2 \<and> safe tot invar rel P p s2" unfolding safe_Act by blast
    show "case map_option (map_prod (\<lambda>p. pbind p f) id) (g s1) of None \<Rightarrow> \<not> tot
      | Some (p, s2) \<Rightarrow> invar s2 \<and> rel s1 s2 \<and> safe tot invar rel Q p s2"
    proof (cases "g s1")
      case (Some ps)
      then obtain p s2 where g: "g s1 = Some (p, s2)" by (cases ps) auto
      with c have ok: "invar s2" "rel s1 s2" "safe tot invar rel P p s2" by auto
      have "safe tot invar rel Q (pbind p f) s2"
      proof (rule Act.IH [OF g ok(3) _ ok(1)])
        fix a s' assume "rel s2 s'" "invar s'" "P a s'"
        then show "safe tot invar rel Q (f a) s'"
          using Act.prems(2) rel_trans [OF rel_trans [OF s1(1) ok(2)]] by blast
      qed
      with g ok show ?thesis by simp
    qed (use c in simp)
  qed
qed

text \<open>One action, taken with the local state of its thread.\<close>

lemma safe_turn:
  assumes "invar s" "safe tot invar rel Q (Act g) s"
  shows "case g (put l s) of None \<Rightarrow> \<not> tot
    | Some (p, s2) \<Rightarrow> invar s2 \<and> rel s s2 \<and> safe tot invar rel Q p s2"
proof -
  have "case g (put l s) of None \<Rightarrow> \<not> tot
    | Some (p, s2) \<Rightarrow> invar s2 \<and> rel (put l s) s2 \<and> safe tot invar rel Q p s2"
    using assms unfolding safe_Act using put_rel put_inv by blast
  then show ?thesis using rel_trans [OF put_rel] by (auto split: option.splits)
qed

text \<open>Programs that are safe on their own are safe together, under every schedule.\<close>

lemma sched_safe:
  assumes "invar s" "\<And>i. i < length ts \<Longrightarrow> safe tot invar rel (Q i) (fst (ts ! i)) s"
  shows "case sched put get is (ts, s) of None \<Rightarrow> \<not> tot
    | Some (ts', s') \<Rightarrow> invar s' \<and> rel s s' \<and> length ts' = length ts \<and>
        (\<forall>i < length ts'. safe tot invar rel (Q i) (fst (ts' ! i)) s')"
  using assms
proof (induction "is" arbitrary: ts s)
  case Nil
  then show ?case by (simp add: rel_refl)
next
  case (Cons i "is")
  show ?case
  proof (cases "i < length ts")
    case False
    with Cons show ?thesis by simp
  next
    case True
    obtain p l where ti: "ts ! i = (p, l)" by (cases "ts ! i")
    show ?thesis
    proof (cases p)
      case (Return a)
      with Cons True ti show ?thesis by simp
    next
      case (Act g)
      have "safe tot invar rel (Q i) (Act g) s" using Cons.prems(2) [OF True] ti Act by simp
      note c = safe_turn [OF Cons.prems(1) this, of l]
      show ?thesis
      proof (cases "g (put l s)")
        case None
        with c True ti Act show ?thesis by simp
      next
        case (Some ps)
        then obtain p' s2 where g: "g (put l s) = Some (p', s2)" by (cases ps) auto
        with c have ok: "invar s2" "rel s s2" "safe tot invar rel (Q i) p' s2" by auto
        let ?ts = "ts[i := (p', get s2)]"
        have "safe tot invar rel (Q j) (fst (?ts ! j)) s2" if "j < length ?ts" for j
          using that True ok(3) safe_later [OF Cons.prems(2) ok(2)] by (cases "j = i") auto
        from Cons.IH [OF ok(1) this] have "case sched put get is (?ts, s2) of None \<Rightarrow> \<not> tot
          | Some (ts', s') \<Rightarrow> invar s' \<and> rel s2 s' \<and> length ts' = length ?ts \<and>
              (\<forall>i < length ts'. safe tot invar rel (Q i) (fst (ts' ! i)) s')" by blast
        then have "case sched put get is (?ts, s2) of None \<Rightarrow> \<not> tot
          | Some (ts', s') \<Rightarrow> invar s' \<and> rel s s' \<and> length ts' = length ts \<and>
              (\<forall>i < length ts'. safe tot invar rel (Q i) (fst (ts' ! i)) s')"
          using rel_trans [OF ok(2)] by (cases "sched put get is (?ts, s2)") auto
        with True ti Act g show ?thesis by simp
      qed
    qed
  qed
qed

text \<open>What a thread has returned satisfies its postcondition.\<close>

lemma sched_result:
  assumes "invar s" "\<And>i. i < length ts \<Longrightarrow> safe tot invar rel (Q i) (fst (ts ! i)) s"
    and "sched put get is (ts, s) = Some (ts', s')" "i < length ts" "fst (ts' ! i) = Return a"
  shows "Q i a s'"
proof -
  from sched_safe [OF assms(1,2), of "is"] assms(3)
  have "invar s'" "\<forall>i < length ts'. safe tot invar rel (Q i) (fst (ts' ! i)) s'" "length ts' = length ts" by auto
  with assms(4,5) rel_refl show ?thesis by auto
qed

end

end
