(* ===== verification/Ion_Threads.thy ===== *)
theory Ion_Threads
  imports Ion_Properties Interleaving
begin

section \<open>Camera ION shim: calls from several threads\<close>

text \<open>
  The exported calls of \<open>ioe-test/camera_ion_shim.c\<close> as programs of atomic actions. An action is
  what other threads cannot split: \<open>pthread_once\<close>, one section under the registry mutex, one call
  into the kernel, one access to \<open>errno\<close> (which is the thread's own) or to a pointer that
  \<open>pthread_once\<close> set. Between two actions any other thread may run. (\<open>Ion_Mutex\<close>
  has the sections access by access, with waiting for the mutex, and shows that taking each of
  them as one action loses nothing.) Run without interruption, each program is the function of
  \<open>Ion_Shim\<close>.
\<close>

text \<open>An action yields one value, so the results of \<open>ioctl\<close> and its argument are a pair here.\<close>

definition regroup :: "('a \<times> 'b \<times> 's) option \<Rightarrow> (('a \<times> 'b) \<times> 's) option" where
  "regroup m = map_option (\<lambda>(a, b, s). ((a, b), s)) m"

lemma regroup_simps [simp]: "regroup None = None" "regroup (Some (a, b, s)) = Some ((a, b), s)"
  by (simp_all add: regroup_def)

lemma regroup_bind: "regroup (Option.bind m f) = Option.bind m (\<lambda>x. regroup (f x))"
  by (cases m) auto

lemma bind_regroup: "Option.bind (regroup m) g = Option.bind m (\<lambda>(a, b, s). g ((a, b), s))"
  by (cases m) (auto simp: regroup_def)

subsection \<open>The probes and the search\<close>

definition mt_orig_ioctl :: "kernel \<Rightarrow> int \<Rightarrow> u32 \<Rightarrow> ioctl_arg \<Rightarrow> (shim, int \<times> ioctl_arg) prog" where
  "mt_orig_ioctl k fd request arg =
     act (\<lambda>s. regroup (orig_ioctl k fd request arg s))"

definition mt_set_errno :: "int \<Rightarrow> (shim, unit) prog" where
  "mt_set_errno e = act_upd (\<lambda>s. s\<lparr>errno := e\<rparr>)"

definition mt_free_handle :: "kernel \<Rightarrow> int \<Rightarrow> shim_ion_user_handle_t \<Rightarrow> (shim, int) prog" where
  "mt_free_handle k fd handle =
     pbind (mt_orig_ioctl k fd SHIM_ION_IOC_FREE (HandleArg \<lparr>hd_handle = handle\<rparr>)) (\<lambda>(rc, _). Return rc)"

definition mt_validate_handle :: "kernel \<Rightarrow> int \<Rightarrow> u32 \<Rightarrow> shim_ion_user_handle_t \<Rightarrow> (shim, int) prog" where
  "mt_validate_handle k fd len handle =
     pbind (mt_orig_ioctl k fd SHIM_ION_IOC_MAP (FdArg \<lparr>fdd_handle = handle, fdd_fd = 0\<rparr>)) (\<lambda>(map_rc, arg).
     pbind (must (fd_of arg)) (\<lambda>map_data.
     if map_rc < 0 then Return (- 1)
     else pbind (act (orig_mmap k 0 len PROT_READ_WRITE MAP_SHARED (fdd_fd map_data) 0)) (\<lambda>probe.
       case probe of
         None \<Rightarrow> pbind (act_upd (sys_close k (fdd_fd map_data))) (\<lambda>_. Return (- 1))
       | Some p \<Rightarrow>
           pbind (act_upd (sys_munmap k p len)) (\<lambda>_.
           pbind (act_upd (sys_close k (fdd_fd map_data))) (\<lambda>_. Return 0)))))"

definition mt_try_combo :: "kernel \<Rightarrow> int \<Rightarrow> u32 \<Rightarrow> u32 \<Rightarrow> u32 \<Rightarrow> u32 \<Rightarrow>
    (shim, shim_ion_user_handle_t option) prog" where
  "mt_try_combo k fd len align flags heap_id_mask =
     pbind (mt_orig_ioctl k fd SHIM_ION_IOC_ALLOC
        (AllocArg \<lparr>ad_len = len, ad_align = align, ad_heap_id_mask = heap_id_mask,
                   ad_flags = flags, ad_handle = 0\<rparr>)) (\<lambda>(rc, arg).
     pbind (must (alloc_of arg)) (\<lambda>alloc_data.
     if rc < 0 then Return None
     else pbind (mt_validate_handle k fd len (ad_handle alloc_data)) (\<lambda>v.
       if v \<noteq> 0 then pbind (mt_free_handle k fd (ad_handle alloc_data)) (\<lambda>_. Return None)
       else Return (Some (ad_handle alloc_data)))))"

fun mt_search_flags :: "kernel \<Rightarrow> int \<Rightarrow> u32 \<Rightarrow> u32 \<Rightarrow> u32 \<Rightarrow> u32 list \<Rightarrow>
    (shim, shim_ion_user_handle_t option) prog" where
  "mt_search_flags k fd len hmask align [] = Return None"
| "mt_search_flags k fd len hmask align (f # fs) =
     pbind (mt_try_combo k fd len align f hmask) (\<lambda>r.
     case r of Some h \<Rightarrow> Return (Some h) | None \<Rightarrow> mt_search_flags k fd len hmask align fs)"

fun mt_search_aligns :: "kernel \<Rightarrow> int \<Rightarrow> u32 \<Rightarrow> u32 \<Rightarrow> u32 list \<Rightarrow> u32 list \<Rightarrow>
    (shim, shim_ion_user_handle_t option) prog" where
  "mt_search_aligns k fd len hmask flags [] = Return None"
| "mt_search_aligns k fd len hmask flags (a # as) =
     pbind (mt_search_flags k fd len hmask a flags) (\<lambda>r.
     case r of Some h \<Rightarrow> Return (Some h) | None \<Rightarrow> mt_search_aligns k fd len hmask flags as)"

fun mt_search_heaps :: "kernel \<Rightarrow> int \<Rightarrow> u32 \<Rightarrow> u32 list \<Rightarrow> u32 list \<Rightarrow> u32 \<Rightarrow> nat list \<Rightarrow>
    (shim, (shim_ion_user_handle_t \<times> nat) option) prog" where
  "mt_search_heaps k fd len aligns flags skip_mask [] = Return None"
| "mt_search_heaps k fd len aligns flags skip_mask (heap_id # ids) =
     (let candidate_mask = push_bit heap_id 1
      in if skip_mask AND candidate_mask \<noteq> 0
         then mt_search_heaps k fd len aligns flags skip_mask ids
         else pbind (mt_search_aligns k fd len candidate_mask flags aligns) (\<lambda>r.
           case r of
             Some h \<Rightarrow> Return (Some (h, heap_id))
           | None \<Rightarrow> mt_search_heaps k fd len aligns flags skip_mask ids))"

definition mt_grid_search :: "kernel \<Rightarrow> int \<Rightarrow> u32 \<Rightarrow> u32 \<Rightarrow> u32 \<Rightarrow> u32 \<Rightarrow>
    (shim, (shim_ion_user_handle_t \<times> nat) option) prog" where
  "mt_grid_search k fd len orig_align orig_flags skip_mask =
     mt_search_heaps k fd len (align_variants orig_align) (flags_variants orig_flags) skip_mask
       [0..<SHIM_ION_NUM_HEAP_IDS]"

subsection \<open>The exported calls\<close>

definition mt_open :: "kernel \<Rightarrow> string option \<Rightarrow> int \<Rightarrow> int \<Rightarrow> (shim, int) prog" where
  "mt_open k pathname flags va_mode =
     pbind (act_upd (resolve_once k)) (\<lambda>_.
     pbind (act_read g_orig_open) (\<lambda>orig.
     if \<not> orig then pbind (mt_set_errno ENOSYS) (\<lambda>_. Return (- 1))
     else pbind (act (orig_open k pathname flags (if flags AND O_CREAT \<noteq> 0 then Some va_mode else None))) (\<lambda>fd.
       if fd \<ge> 0 \<and> (case pathname of None \<Rightarrow> False | Some p \<Rightarrow> strstr p ''/dev/ion'' \<noteq> None)
       then pbind (act_upd (camera_ion_shim_track_device_fd fd)) (\<lambda>_. Return fd)
       else Return fd)))"

definition mt_map_share :: "kernel \<Rightarrow> int \<Rightarrow> u32 \<Rightarrow> ioctl_arg \<Rightarrow> (shim, int \<times> ioctl_arg) prog" where
  "mt_map_share k fd request arg =
     pbind (mt_orig_ioctl k fd request arg) (\<lambda>(rc, arg').
     if rc \<ge> 0 then
       pbind (must (fd_of arg')) (\<lambda>fd_data.
       pbind (act_read (camera_ion_shim_lookup_alloc_len (fdd_handle fd_data))) (\<lambda>found.
       case found of
         Some len \<Rightarrow>
           pbind (act_upd (camera_ion_shim_record_mapped_fd (fdd_fd fd_data) len)) (\<lambda>_. Return (rc, arg'))
       | None \<Rightarrow> Return (rc, arg')))
     else Return (rc, arg'))"

text \<open>A handle that was found: recorded, \<open>errno\<close> cleared, returned.\<close>

definition mt_alloc_found :: "shim_ion_allocation_data \<Rightarrow> shim_ion_user_handle_t \<Rightarrow> (shim, int \<times> ioctl_arg) prog" where
  "mt_alloc_found req h =
     pbind (act_upd (camera_ion_shim_record_alloc h (ad_len req))) (\<lambda>_.
     pbind (mt_set_errno 0) (\<lambda>_. Return (0, AllocArg (req\<lparr>ad_handle := h\<rparr>))))"

definition mt_alloc_grid :: "kernel \<Rightarrow> int \<Rightarrow> shim_ion_allocation_data \<Rightarrow> (shim, int \<times> ioctl_arg) prog" where
  "mt_alloc_grid k fd req =
     pbind (mt_grid_search k fd (ad_len req) (ad_align req) (ad_flags req) (ad_heap_id_mask req)) (\<lambda>g.
     case g of
       Some (h, _) \<Rightarrow> mt_alloc_found req h
     | None \<Rightarrow> pbind (mt_set_errno ENODEV) (\<lambda>_. Return (- 1, AllocArg req)))"

definition mt_alloc_fallback :: "kernel \<Rightarrow> int \<Rightarrow> shim_ion_allocation_data \<Rightarrow> (shim, int \<times> ioctl_arg) prog" where
  "mt_alloc_fallback k fd req =
     pbind (act_read g_forced_heap_mask) (\<lambda>forced.
     if forced \<noteq> 0 \<and> forced \<noteq> ad_heap_id_mask req
     then pbind (mt_try_combo k fd (ad_len req) (ad_align req) (ad_flags req) forced) (\<lambda>r.
       case r of
         Some h \<Rightarrow> mt_alloc_found req h
       | None \<Rightarrow> mt_alloc_grid k fd req)
     else mt_alloc_grid k fd req)"

definition mt_alloc :: "kernel \<Rightarrow> int \<Rightarrow> ioctl_arg \<Rightarrow> (shim, int \<times> ioctl_arg) prog" where
  "mt_alloc k fd arg =
     pbind (act_upd (prop_once k)) (\<lambda>_.
     pbind (must (alloc_of arg)) (\<lambda>_.
     pbind (mt_orig_ioctl k fd SHIM_ION_IOC_ALLOC arg) (\<lambda>(rc, arg').
     pbind (must (alloc_of arg')) (\<lambda>req.
     if rc \<ge> 0 then
       pbind (mt_validate_handle k fd (ad_len req) (ad_handle req)) (\<lambda>v.
       if v = 0
       then pbind (act_upd (camera_ion_shim_record_alloc (ad_handle req) (ad_len req))) (\<lambda>_. Return (rc, arg'))
       else pbind (mt_free_handle k fd (ad_handle req)) (\<lambda>_. mt_alloc_fallback k fd req))
     else mt_alloc_fallback k fd req))))"

definition mt_ioctl :: "kernel \<Rightarrow> int \<Rightarrow> u32 \<Rightarrow> ioctl_arg \<Rightarrow> (shim, int \<times> ioctl_arg) prog" where
  "mt_ioctl k fd request arg =
     pbind (act_upd (resolve_once k)) (\<lambda>_.
     pbind (act_read g_orig_ioctl) (\<lambda>orig.
     if \<not> orig then pbind (mt_set_errno ENOSYS) (\<lambda>_. Return (- 1, arg))
     else if request = SHIM_ION_IOC_MAP \<or> request = SHIM_ION_IOC_SHARE then mt_map_share k fd request arg
     else if request \<noteq> SHIM_ION_IOC_ALLOC then mt_orig_ioctl k fd request arg
     else mt_alloc k fd arg))"

text \<open>The search in the registry, the look at the record found and the mark on it are three sections.\<close>

definition mt_substitute :: "kernel \<Rightarrow> u32 \<Rightarrow> u32 \<Rightarrow> int \<Rightarrow> int \<Rightarrow> int \<Rightarrow> int \<Rightarrow> (shim, u32 option) prog" where
  "mt_substitute k addr len prot flags fd offset =
     pbind (act_read (camera_ion_shim_is_device_fd fd)) (\<lambda>_.
     pbind (act_read (camera_ion_shim_find_mapped_fd_candidate len fd)) (\<lambda>candidate_index.
     if candidate_index < 0 then pbind (mt_set_errno ENODEV) (\<lambda>_. Return None)
     else pbind (act_read (\<lambda>s. mr_fd (g_mapped_fd_records s ! nat candidate_index))) (\<lambda>candidate_fd.
       pbind (act (orig_mmap k addr len prot flags candidate_fd offset)) (\<lambda>result.
       case result of
         None \<Rightarrow> pbind (mt_set_errno ENODEV) (\<lambda>_. Return None)
       | Some p \<Rightarrow> pbind (act_upd (mark_consumed (nat candidate_index))) (\<lambda>_. Return (Some p))))))"

definition mt_mmap :: "kernel \<Rightarrow> u32 \<Rightarrow> u32 \<Rightarrow> int \<Rightarrow> int \<Rightarrow> int \<Rightarrow> int \<Rightarrow> (shim, u32 option) prog" where
  "mt_mmap k addr len prot flags fd offset =
     pbind (act_upd (resolve_once k)) (\<lambda>_.
     pbind (act_read g_orig_mmap) (\<lambda>orig.
     if \<not> orig then pbind (mt_set_errno ENOSYS) (\<lambda>_. Return None)
     else pbind (act (orig_mmap k addr len prot flags fd offset)) (\<lambda>result.
       if result \<noteq> None then Return result
       else pbind (act_read errno) (\<lambda>e.
         if e \<noteq> ENODEV then Return result
         else mt_substitute k addr len prot flags fd offset))))"

lemmas mt_probe_defs = mt_orig_ioctl_def mt_set_errno_def mt_free_handle_def mt_validate_handle_def
  mt_try_combo_def

subsection \<open>Without interruption\<close>

lemma run_orig_ioctl [simp]:
  "run (mt_orig_ioctl k fd rq arg) s = regroup (orig_ioctl k fd rq arg s)"
  by (simp add: mt_orig_ioctl_def)

lemma run_set_errno [simp]: "run (mt_set_errno e) s = Some ((), s\<lparr>errno := e\<rparr>)"
  by (simp add: mt_set_errno_def)

lemma run_free_handle [simp]: "run (mt_free_handle k fd h) s = camera_ion_shim_free_handle k fd h s"
  by (cases "orig_ioctl k fd SHIM_ION_IOC_FREE (HandleArg \<lparr>hd_handle = h\<rparr>) s")
     (auto simp: mt_free_handle_def camera_ion_shim_free_handle_def)

lemma bind_cases_eq:
  "m = m' \<Longrightarrow> (\<And>x. m' = Some x \<Longrightarrow> f x = g x) \<Longrightarrow> Option.bind m f = Option.bind m' g"
  by (cases m') auto

lemma bind_map_option: "Option.bind (map_option f m) g = Option.bind m (\<lambda>x. g (f x))"
  by (cases m) auto

lemma run_validate_handle [simp]:
  "run (mt_validate_handle k fd len h) s = camera_ion_shim_validate_handle k fd len h s"
  unfolding mt_validate_handle_def camera_ion_shim_validate_handle_def
  by (auto simp: bind_regroup bind_map_option split_def intro!: bind_cases_eq split: option.split)

lemma run_try_combo [simp]:
  "run (mt_try_combo k fd len a f m) s = camera_ion_shim_try_combo k fd len a f m s"
  unfolding mt_try_combo_def camera_ion_shim_try_combo_def
  by (auto simp: bind_regroup bind_map_option split_def intro!: bind_cases_eq)

lemma run_search_flags [simp]:
  "run (mt_search_flags k fd len m a fs) s = search_flags k fd len m a fs s"
  by (induction fs arbitrary: s) (auto simp: split_def intro!: bind_cases_eq split: option.split)

lemma run_search_aligns [simp]:
  "run (mt_search_aligns k fd len m fs as) s = search_aligns k fd len m fs as s"
  by (induction as arbitrary: s) (auto simp: split_def intro!: bind_cases_eq split: option.split)

lemma run_search_heaps [simp]:
  "run (mt_search_heaps k fd len as fs skip ids) s = search_heaps k fd len as fs skip ids s"
  by (induction ids arbitrary: s) (auto simp: split_def Let_def intro!: bind_cases_eq split: option.split)

lemma run_alloc_grid [simp]: "run (mt_alloc_grid k fd req) s = regroup (ioctl_alloc_grid k fd req s)"
  unfolding mt_alloc_grid_def ioctl_alloc_grid_def mt_grid_search_def camera_ion_shim_grid_search_def mt_alloc_found_def
  by (auto simp: split_def regroup_bind intro!: bind_cases_eq split: option.split)

lemma run_alloc_fallback [simp]: "run (mt_alloc_fallback k fd req) s = regroup (ioctl_alloc_fallback k fd req s)"
  unfolding mt_alloc_fallback_def ioctl_alloc_fallback_def mt_alloc_found_def
  by (auto simp: split_def regroup_bind intro!: bind_cases_eq split: option.split)

lemma run_alloc [simp]: "run (mt_alloc k fd arg) s = regroup (ioctl_alloc k fd arg s)"
  unfolding mt_alloc_def ioctl_alloc_def Let_def
  by (auto simp: split_def regroup_bind bind_regroup bind_map_option intro!: bind_cases_eq)

lemma run_map_share [simp]: "run (mt_map_share k fd rq arg) s = regroup (ioctl_map_share k fd rq arg s)"
  unfolding mt_map_share_def ioctl_map_share_def
  by (auto simp: split_def regroup_bind bind_regroup bind_map_option intro!: bind_cases_eq split: option.split)

lemma run_open: "run (mt_open k path flags mode) s = shim_open k path flags mode s"
  unfolding mt_open_def shim_open_def Let_def
  by (auto simp: split_def intro!: bind_cases_eq split: option.split)

lemma run_ioctl: "run (mt_ioctl k fd rq arg) s = regroup (shim_ioctl k fd rq arg s)"
  unfolding mt_ioctl_def shim_ioctl_def Let_def by simp

lemma run_substitute [simp]:
  "run (mt_substitute k a l p f fd off) s = mmap_substitute k a l p f fd off s"
  unfolding mt_substitute_def mmap_substitute_def Let_def
  by (auto simp: split_def intro!: bind_cases_eq split: option.split)

lemma run_mmap: "run (mt_mmap k a l p f fd off) s = shim_mmap k a l p f fd off s"
  unfolding mt_mmap_def shim_mmap_def Let_def
  by (auto simp: split_def intro!: bind_cases_eq)

subsection \<open>Calls and clients\<close>

datatype shim_call =
    COpen "string option" int int
  | CIoctl int u32 ioctl_arg
  | CMmap u32 u32 int int int int

datatype shim_result =
    ROpen int
  | RIoctl int ioctl_arg
  | RMmap "u32 option"

definition mt_call :: "kernel \<Rightarrow> shim_call \<Rightarrow> (shim, shim_result) prog" where
  "mt_call k c = (case c of
     COpen path flags mode \<Rightarrow> pbind (mt_open k path flags mode) (\<lambda>fd. Return (ROpen fd))
   | CIoctl fd rq arg \<Rightarrow> pbind (mt_ioctl k fd rq arg) (\<lambda>(rc, a). Return (RIoctl rc a))
   | CMmap a l p f fd off \<Rightarrow> pbind (mt_mmap k a l p f fd off) (\<lambda>r. Return (RMmap r)))"

definition seq_call :: "kernel \<Rightarrow> shim_call \<Rightarrow> shim \<Rightarrow> (shim_result \<times> shim) option" where
  "seq_call k c s = (case c of
     COpen path flags mode \<Rightarrow> map_option (map_prod ROpen id) (shim_open k path flags mode s)
   | CIoctl fd rq arg \<Rightarrow> map_option (\<lambda>(rc, a, s). (RIoctl rc a, s)) (shim_ioctl k fd rq arg s)
   | CMmap a l p f fd off \<Rightarrow> map_option (map_prod RMmap id) (shim_mmap k a l p f fd off s))"

text \<open>The argument has the type that the request names.\<close>

definition typed_call :: "shim_call \<Rightarrow> bool" where
  "typed_call c = (case c of
     CIoctl fd rq arg \<Rightarrow> arg_conforms rq arg | _ \<Rightarrow> True)"

inductive client :: "kernel \<Rightarrow> bool \<Rightarrow> (shim, 'x) prog \<Rightarrow> bool" for k typed where
  client_done: "client k typed (Return x)"
| client_call: "(typed \<longrightarrow> typed_call c) \<Longrightarrow> (\<And>r. client k typed (f r)) \<Longrightarrow>
    client k typed (pbind (mt_call k c) f)"

abbreviation ion_sched :: "nat list \<Rightarrow> ((shim, 'x) prog \<times> int) list \<times> shim \<Rightarrow>
    (((shim, 'x) prog \<times> int) list \<times> shim) option" where
  "ion_sched \<equiv> sched (\<lambda>e s. s\<lparr>errno := e\<rparr>) errno"

end
