(* ===== verification/Ion_Call_Bounds.thy ===== *)
theory Ion_Call_Bounds
  imports Ion_Threads
begin

section \<open>Camera ION shim: the actions of a call\<close>

text \<open>
  The exported calls have no loop that another thread could prolong: each returns after a bounded
  number of its own actions. The bound is that of the grid search, 32 heaps with two alignments
  and two sets of flags, eight actions each at most. A section under the registry mutex and
  \<open>pthread_once\<close> are one action each here, so that these lemmas say nothing of waiting; that a
  thread is never stuck at the mutex is shown in \<open>Ion_Mutex\<close>.
\<close>

subsection \<open>A bound on the actions of a call\<close>

lemma within_bindI:
  "within m p \<Longrightarrow> (\<And>a. within n (f a)) \<Longrightarrow> m + n \<le> N \<Longrightarrow> within N (pbind p f)"
  using within_bind within_mono by blast

lemma within_step:
  "(\<And>a. within (N - 1) (f a)) \<Longrightarrow> 0 < N \<Longrightarrow> within N (pbind (act g) f)"
  "(\<And>a. within (N - 1) (f a)) \<Longrightarrow> 0 < N \<Longrightarrow> within N (pbind (act_read h) f)"
  "(\<And>a. within (N - 1) (f a)) \<Longrightarrow> 0 < N \<Longrightarrow> within N (pbind (must x) f)"
  by (rule within_bindI [of 1 _ "N - 1"]; simp)+

lemma within_step_unit:
  "within (N - 1) (f ()) \<Longrightarrow> 0 < N \<Longrightarrow> within N (pbind (act_upd u) f)"
  "within (N - 1) (f ()) \<Longrightarrow> 0 < N \<Longrightarrow> within N (pbind (mt_set_errno e) f)"
  by (rule within_bindI [of 1 _ "N - 1"]; simp add: mt_set_errno_def)+

lemma within_step_ioctl:
  "(\<And>rc a. within (N - 1) (f (rc, a))) \<Longrightarrow> 0 < N \<Longrightarrow> within N (pbind (mt_orig_ioctl k fd rq arg) f)"
  by (rule within_bindI [of 1 _ "N - 1"]) (auto simp: mt_orig_ioctl_def)

lemmas within_steps = within_step within_step_unit within_step_ioctl

lemma within_free: "within 1 (mt_free_handle k fd h)"
  by (auto simp: mt_free_handle_def intro!: within_steps)

lemma within_validate: "within 5 (mt_validate_handle k fd len h)"
  by (auto simp: mt_validate_handle_def intro!: within_steps split: option.split)

lemma within_try_combo: "within 8 (mt_try_combo k fd len a f m)"
proof -
  have "within 6 (pbind (mt_validate_handle k fd len h)
    (\<lambda>v. if v \<noteq> 0 then pbind (mt_free_handle k fd h) (\<lambda>_. Return None) else Return (Some h)))" for h
    by (rule within_bindI [OF within_validate, of 1]) (auto intro: within_bindI [OF within_free, of 0])
  then have "within (8 - 1 - 1) (if rc < 0 then Return None else pbind (mt_validate_handle k fd len h)
    (\<lambda>v. if v \<noteq> 0 then pbind (mt_free_handle k fd h) (\<lambda>_. Return None) else Return (Some h)))"
    for rc :: int and h by simp
  then show ?thesis unfolding mt_try_combo_def prod.case
    by (intro within_steps) (simp_all only: prod.case, (intro within_steps; simp))
qed

lemma within_search_flags: "within (8 * length fs) (mt_search_flags k fd len m a fs)"
proof (induction fs)
  case (Cons f fs)
  then show ?case
    by (auto intro!: within_bindI [OF within_try_combo, of "8 * length fs"] split: option.split)
qed simp

lemma within_search_aligns: "within (8 * length fs * length as) (mt_search_aligns k fd len m fs as)"
proof (induction as)
  case (Cons a as)
  then show ?case
    by (auto intro!: within_bindI [OF within_search_flags, of "8 * length fs * length as"] split: option.split)
qed simp

lemma within_search_heaps: "within (8 * length fs * length as * length ids) (mt_search_heaps k fd len as fs skip ids)"
proof (induction ids)
  case (Cons i ids)
  let ?n = "8 * length fs * length as * length ids"
  have "within (8 * length fs * length as + ?n) (mt_search_heaps k fd len as fs skip ids)"
    by (rule within_mono [OF Cons.IH]) simp
  moreover have "within (8 * length fs * length as + ?n) (pbind (mt_search_aligns k fd len m fs as) (\<lambda>r.
      case r of Some h \<Rightarrow> Return (Some (h, i)) | None \<Rightarrow> mt_search_heaps k fd len as fs skip ids))" for m
    using Cons.IH by (intro within_bindI [OF within_search_aligns]) (auto split: option.split)
  ultimately show ?case by (simp add: Let_def)
qed simp

lemma within_grid: "within 1024 (mt_grid_search k fd len a f skip)"
proof -
  have "length (align_variants a) * length (flags_variants f) \<le> 2 * 2"
    by (intro mult_le_mono length_variants)
  then have "8 * length (flags_variants f) * length (align_variants a) * 32 \<le> 1024" by (simp add: mult.commute)
  then show ?thesis
    unfolding mt_grid_search_def
    by (intro within_mono [OF within_search_heaps]) (simp add: SHIM_ION_NUM_HEAP_IDS_def)
qed

lemma within_alloc_found: "within 2 (mt_alloc_found req h)"
  by (simp add: mt_alloc_found_def within_steps)

lemma within_alloc_grid: "within 1026 (mt_alloc_grid k fd req)"
  unfolding mt_alloc_grid_def
  by (rule within_bindI [OF within_grid, of 2])
     (auto simp: within_alloc_found split: option.split intro!: within_steps)

lemma within_alloc_fallback: "within 1035 (mt_alloc_fallback k fd req)"
proof -
  have "within 1034 (pbind (mt_try_combo k fd (ad_len req) (ad_align req) (ad_flags req) m)
      (\<lambda>r. case r of Some h \<Rightarrow> mt_alloc_found req h | None \<Rightarrow> mt_alloc_grid k fd req))" for m
    by (rule within_bindI [OF within_try_combo, of 1026])
       (auto split: option.split intro: within_alloc_grid within_mono [OF within_alloc_found])
  moreover have "within 1034 (mt_alloc_grid k fd req)" by (rule within_mono [OF within_alloc_grid]) simp
  ultimately have "within (1035 - 1) (if forced \<noteq> 0 \<and> forced \<noteq> ad_heap_id_mask req
      then pbind (mt_try_combo k fd (ad_len req) (ad_align req) (ad_flags req) forced)
        (\<lambda>r. case r of Some h \<Rightarrow> mt_alloc_found req h | None \<Rightarrow> mt_alloc_grid k fd req)
      else mt_alloc_grid k fd req)" for forced by simp
  then show ?thesis unfolding mt_alloc_fallback_def by (rule within_steps) simp
qed

lemma within_alloc: "within 1045 (mt_alloc k fd arg)"
proof -
  have v: "within 1041 (pbind (mt_validate_handle k fd l h) (\<lambda>v.
      if v = 0 then pbind (act_upd (camera_ion_shim_record_alloc h l)) (\<lambda>_. Return x)
      else pbind (mt_free_handle k fd h) (\<lambda>_. mt_alloc_fallback k fd req)))" for l h x req
    by (rule within_bindI [OF within_validate, of 1036])
       (auto intro: within_bindI [OF within_free within_alloc_fallback]
          within_steps(4))
  have "within 1041 (mt_alloc_fallback k fd req)" for req
    by (rule within_mono [OF within_alloc_fallback]) simp
  with v show ?thesis unfolding mt_alloc_def by (auto intro!: within_steps)
qed

lemma within_map_share: "within 4 (mt_map_share k fd rq arg)"
  by (auto simp: mt_map_share_def intro!: within_steps split: option.split)

lemma within_ioctl: "within 1047 (mt_ioctl k fd rq arg)"
proof -
  have "within 1045 (mt_map_share k fd rq arg)" by (rule within_mono [OF within_map_share]) simp
  moreover have "within 1045 (mt_orig_ioctl k fd rq arg)"
    by (rule within_mono [of 1]) (simp_all add: mt_orig_ioctl_def)
  moreover have "within 1045 (pbind (mt_set_errno ENOSYS) (\<lambda>_. Return (- 1, arg)))"
    by (rule within_mono [of 1]) (simp_all add: within_steps)
  ultimately show ?thesis unfolding mt_ioctl_def using within_alloc by (auto intro!: within_steps)
qed

lemma within_open: "within 4 (mt_open k path flags mode)"
  by (auto simp: mt_open_def intro!: within_steps)

lemma within_mmap: "within 9 (mt_mmap k a l p f fd off)"
  by (auto simp: mt_mmap_def mt_substitute_def intro!: within_steps split: option.split)

lemma within_call: "within 1047 (mt_call k c)"
proof (cases c)
  case (COpen path flags mode)
  then show ?thesis by (simp add: mt_call_def) (rule within_bindI [OF within_open, of 0]; simp)
next
  case (CIoctl fd rq arg)
  then show ?thesis by (simp add: mt_call_def) (rule within_bindI [OF within_ioctl, of 0]; auto)
next
  case (CMmap a l p f fd off)
  then show ?thesis by (simp add: mt_call_def) (rule within_bindI [OF within_mmap, of 0]; simp)
qed

end
