(* ===== verification/Ion_Interference.thy ===== *)
theory Ion_Interference
  imports Ion_Threads
begin

section \<open>Camera ION shim: what the threads rely on and guarantee\<close>

text \<open>
  Threads that make any sequence of calls, each depending on the results before. The invariant
  \<open>ion_inv\<close> has the bounds of the registries and where their records come from; \<open>ion_rel\<close> is what a
  step of any thread may do to the state. Each program keeps both, whatever the others do
  within them: the locale \<open>interference\<close> then puts the threads together.
\<close>

subsection \<open>Where the records come from\<close>

text \<open>The kernel granted the handle; it exported the handle and mapped the export in full length.\<close>

definition granted :: "sys_event list \<Rightarrow> int \<Rightarrow> bool" where
  "granted h handle \<longleftrightarrow> (\<exists>fd arg rc d. SysIoctl fd SHIM_ION_IOC_ALLOC arg rc (AllocArg d) \<in> set h \<and>
     0 \<le> rc \<and> ad_handle d = handle)"

definition mappable :: "sys_event list \<Rightarrow> int \<Rightarrow> u32 \<Rightarrow> bool" where
  "mappable h handle len \<longleftrightarrow> (\<exists>fd a rc d p. SysIoctl fd SHIM_ION_IOC_MAP (FdArg a) rc (FdArg d) \<in> set h \<and>
     fdd_handle a = handle \<and> 0 \<le> rc \<and>
     SysMmap 0 len PROT_READ_WRITE MAP_SHARED (fdd_fd d) 0 (Some p) \<in> set h)"

text \<open>The kernel exported the descriptor for a handle of that length.\<close>

definition exported :: "sys_event list \<Rightarrow> int \<Rightarrow> u32 \<Rightarrow> bool" where
  "exported h fd' len \<longleftrightarrow> (\<exists>fd rq a rc d. SysIoctl fd rq a rc (FdArg d) \<in> set h \<and>
     rq \<in> {SHIM_ION_IOC_MAP, SHIM_ION_IOC_SHARE} \<and> 0 \<le> rc \<and> fdd_fd d = fd' \<and>
     granted h (fdd_handle d) \<and> mappable h (fdd_handle d) len)"

definition provenance :: "shim \<Rightarrow> bool" where
  "provenance s \<longleftrightarrow>
     (\<forall>r\<in>set (g_alloc_records s). ar_valid r \<longrightarrow>
        granted (hist s) (ar_handle r) \<and> mappable (hist s) (ar_handle r) (ar_len r)) \<and>
     (\<forall>r\<in>set (g_mapped_fd_records s). mr_valid r \<longrightarrow> exported (hist s) (mr_fd r) (mr_len r))"

lemma facts_mono:
  assumes "set h \<subseteq> set h'"
  shows "granted h x \<Longrightarrow> granted h' x" "mappable h x len \<Longrightarrow> mappable h' x len"
    "exported h fd len \<Longrightarrow> exported h' fd len"
  using assms unfolding exported_def granted_def mappable_def by blast+

subsection \<open>Invariant and interference\<close>

definition ion_inv :: "kernel \<Rightarrow> shim \<Rightarrow> bool" where
  "ion_inv k s \<longleftrightarrow> registry_ok s \<and> provenance s \<and>
     (g_resolve_once s \<longrightarrow> g_orig_ioctl s = k_dlsym k ''ioctl'' \<and> g_orig_mmap s = k_dlsym k ''mmap'' \<and>
        g_orig_open s = k_dlsym k ''open'')"

text \<open>The history only grows, the pointers stay once they are set, and no record becomes invalid.\<close>

definition ion_rel :: "shim \<Rightarrow> shim \<Rightarrow> bool" where
  "ion_rel s s' \<longleftrightarrow> set (hist s) \<subseteq> set (hist s') \<and> (g_resolve_once s \<longrightarrow> g_resolve_once s') \<and>
     (\<forall>i < SHIM_MAX_MAPPED_FD_RECORDS. mr_valid (g_mapped_fd_records s ! i) \<longrightarrow> mr_valid (g_mapped_fd_records s' ! i))"

interpretation ion: interference "ion_inv k" ion_rel "\<lambda>e s. s\<lparr>errno := e\<rparr>" errno for k
  by unfold_locales (auto simp: ion_inv_def ion_rel_def provenance_def)

lemma ion_inv_errno [simp]: "ion_inv k (s\<lparr>errno := e\<rparr>) = ion_inv k s"
  by (simp add: ion_inv_def provenance_def)

lemma ion_rel_errno [simp]: "ion_rel s (s'\<lparr>errno := e\<rparr>) = ion_rel s s'"
  by (simp add: ion_rel_def)

lemma ion_rel_refl [simp]: "ion_rel s s"
  by (rule ion.rel_refl)

lemma ion_init: "ion_inv k init_shim"
  by (simp add: ion_inv_def provenance_def registry_ok_init init_shim_def empty_alloc_record_def
      empty_mapped_fd_record_def)
 (simp add: registry_ok_init [unfolded init_shim_def empty_alloc_record_def empty_mapped_fd_record_def])

lemma calls_keep:
  assumes "ion_inv k s" "only_calls s evs s'"
  shows "ion_inv k s' \<and> ion_rel s s' \<and> set evs \<subseteq> set (hist s')"
  using assms only_calls_registry [OF assms(2)]
  by (auto simp: ion_inv_def ion_rel_def provenance_def only_calls_fields [OF assms(2)]
      only_calls_hist [OF assms(2)] intro: facts_mono [rotated])

subsection \<open>The actions\<close>

abbreviation isafe :: "bool \<Rightarrow> kernel \<Rightarrow> ('a \<Rightarrow> shim \<Rightarrow> bool) \<Rightarrow> (shim, 'a) prog \<Rightarrow> shim \<Rightarrow> bool" where
  "isafe tot k \<equiv> safe tot (ion_inv k) ion_rel"

text \<open>\<open>ioctl\<close> is resolved; a total run needs \<open>mmap\<close> as well, which the probe does not test.\<close>

definition ready :: "kernel \<Rightarrow> shim \<Rightarrow> bool" where
  "ready k s \<longleftrightarrow> g_resolve_once s \<and> k_dlsym k ''ioctl''"

definition env_ok :: "bool \<Rightarrow> kernel \<Rightarrow> bool" where
  "env_ok tot k \<longleftrightarrow> (tot \<longrightarrow> k_dlsym k ''ioctl'' \<longrightarrow> k_dlsym k ''mmap'')"

lemma ready_rel: "ready k s \<Longrightarrow> ion_rel s s' \<Longrightarrow> ready k s'"
  by (auto simp: ready_def ion_rel_def)

lemma in_hist_rel: "x \<in> set (hist s) \<Longrightarrow> ion_rel s s' \<Longrightarrow> x \<in> set (hist s')"
  by (auto simp: ion_rel_def)

lemma facts_rel:
  assumes "ion_rel s s'"
  shows "granted (hist s) x \<Longrightarrow> granted (hist s') x" "mappable (hist s) x len \<Longrightarrow> mappable (hist s') x len"
    "exported (hist s) fd len \<Longrightarrow> exported (hist s') fd len"
  using assms facts_mono [of "hist s" "hist s'"] by (auto simp: ion_rel_def)

lemma isafe_calls:
  assumes "\<And>s1 a s2. f s1 = Some (a, s2) \<Longrightarrow> only_calls s1 [ev a] s2 \<and> R a"
    and "\<And>s1. tot \<Longrightarrow> ion_rel s s1 \<Longrightarrow> ion_inv k s1 \<Longrightarrow> f s1 \<noteq> None"
  shows "isafe tot k (\<lambda>a s'. ev a \<in> set (hist s') \<and> R a) (act f) s"
proof (rule ion.safe_act)
  fix s1 assume s1: "ion_rel s s1" "ion_inv k s1"
  show "case f s1 of None \<Rightarrow> \<not> tot | Some (a, s2) \<Rightarrow> ion_inv k s2 \<and> ion_rel s1 s2 \<and>
      (\<forall>s3. ion_rel s2 s3 \<longrightarrow> ion_inv k s3 \<longrightarrow> ev a \<in> set (hist s3) \<and> R a)"
  proof (cases "f s1")
    case (Some as)
    then obtain a s2 where f: "f s1 = Some (a, s2)" by (cases as) auto
    from assms(1) [OF f] calls_keep [OF s1(2), of "[ev a]" s2]
    have "ion_inv k s2" "ion_rel s1 s2" "ev a \<in> set (hist s2)" "R a" by auto
    with f show ?thesis by (auto intro: in_hist_rel)
  qed (use assms(2) [OF _ s1] in auto)
qed

lemma isafe_ioctl:
  assumes "ready k s"
  shows "isafe tot k (\<lambda>(rc, a) s'. SysIoctl fd rq arg rc a \<in> set (hist s') \<and> (\<exists>x. a = merge_arg arg x))
    (mt_orig_ioctl k fd rq arg) s"
proof -
  have "isafe tot k (\<lambda>ra s'. SysIoctl fd rq arg (fst ra) (snd ra) \<in> set (hist s') \<and> (\<exists>x. snd ra = merge_arg arg x))
    (mt_orig_ioctl k fd rq arg) s"
    unfolding mt_orig_ioctl_def
  proof (rule isafe_calls)
    fix s1 ra s2 assume "regroup (orig_ioctl k fd rq arg s1) = Some (ra, s2)"
    then show "only_calls s1 [SysIoctl fd rq arg (fst ra) (snd ra)] s2 \<and> (\<exists>x. snd ra = merge_arg arg x)"
      by (auto simp: regroup_def orig_ioctl_def Let_def only_calls_log split: if_splits prod.splits)
  next
    fix s1 assume "ion_rel s s1" "ion_inv k s1"
    with ready_rel [OF assms] show "regroup (orig_ioctl k fd rq arg s1) \<noteq> None"
      by (auto simp: ready_def ion_inv_def orig_ioctl_def regroup_def Let_def split: prod.split)
  qed
  then show ?thesis by (simp add: split_def)
qed

lemma isafe_mmap:
  assumes "g_resolve_once s" "tot \<Longrightarrow> k_dlsym k ''mmap''"
  shows "isafe tot k (\<lambda>r s'. SysMmap a l p f fd off r \<in> set (hist s')) (act (orig_mmap k a l p f fd off)) s"
proof -
  have "isafe tot k (\<lambda>r s'. SysMmap a l p f fd off r \<in> set (hist s') \<and> True) (act (orig_mmap k a l p f fd off)) s"
  proof (rule isafe_calls)
    fix s1 r s2 assume "orig_mmap k a l p f fd off s1 = Some (r, s2)"
    then show "only_calls s1 [SysMmap a l p f fd off r] s2 \<and> True" by (auto intro: effects)
  next
    fix s1 assume "tot" "ion_rel s s1" "ion_inv k s1"
    with assms show "orig_mmap k a l p f fd off s1 \<noteq> None"
      by (auto simp: ion_inv_def ion_rel_def orig_mmap_def Let_def split: prod.split)
  qed
  then show ?thesis by simp
qed

lemma isafe_upd:
  assumes "\<And>s1. ion_rel s s1 \<Longrightarrow> ion_inv k s1 \<Longrightarrow> ion_inv k (u s1) \<and> ion_rel s1 (u s1)"
  shows "isafe tot k (\<lambda>_ _. True) (act_upd u) s"
  unfolding act_upd_def by (rule ion.safe_act) (use assms in auto)

lemma isafe_errno: "isafe tot k (\<lambda>_ _. True) (mt_set_errno e) s"
  unfolding mt_set_errno_def by (rule isafe_upd) simp

lemma isafe_sys: "isafe tot k (\<lambda>_ _. True) (act_upd (sys_close k fd)) s"
  "isafe tot k (\<lambda>_ _. True) (act_upd (sys_munmap k p len)) s"
  by (rule isafe_upd; use calls_keep sys_close_calls sys_munmap_calls in blast)+

lemma isafe_read:
  "isafe tot k (\<lambda>a s'. \<exists>s1. ion_rel s s1 \<and> ion_inv k s1 \<and> ion_rel s1 s' \<and> a = f s1) (act_read f) s"
  unfolding act_read_def by (rule ion.safe_act) auto

lemma isafe_must: "(tot \<Longrightarrow> x \<noteq> None) \<Longrightarrow> isafe tot k (\<lambda>a _. x = Some a) (must x) s"
  by (cases x) (auto simp: must_def safe_Act)

subsection \<open>The probes and the search\<close>

lemma isafe_validate:
  assumes "ready k s" "ion_inv k s" "env_ok tot k"
  shows "isafe tot k (\<lambda>v s'. v = 0 \<longrightarrow> mappable (hist s') h len) (mt_validate_handle k fd len h) s"
  unfolding mt_validate_handle_def
proof (rule ion.safe_bind [OF isafe_ioctl [OF assms(1)] _ assms(2)], clarsimp simp del: safe.simps)
  fix rc x s1 
  let ?a = "merge_arg (FdArg \<lparr>fdd_handle = h, fdd_fd = 0\<rparr>) x"
  assume s1: "ion_rel s s1" "ion_inv k s1"
    and io: "SysIoctl fd SHIM_ION_IOC_MAP (FdArg \<lparr>fdd_handle = h, fdd_fd = 0\<rparr>) rc ?a \<in> set (hist s1)"
  obtain d where d: "?a = FdArg d" using fd_of_merge by blast
  have res: "g_resolve_once s1" using ready_rel [OF assms(1) s1(1)] by (simp add: ready_def)
  show "isafe tot k (\<lambda>v s'. v = (0 :: int) \<longrightarrow> mappable (hist s') h len)
    (pbind (must (fd_of ?a)) (\<lambda>map_data. if rc < 0 then Return (- 1)
      else pbind (act (orig_mmap k 0 len PROT_READ_WRITE MAP_SHARED (fdd_fd map_data) 0))
        (case_option (pbind (act_upd (sys_close k (fdd_fd map_data))) (\<lambda>_. Return (- 1)))
          (\<lambda>p. pbind (act_upd (sys_munmap k p len)) (\<lambda>_. pbind (act_upd (sys_close k (fdd_fd map_data))) (\<lambda>_. Return 0)))))) s1"
    (is "isafe tot k ?Q _ s1")
  proof (cases "rc < 0")
    case True
    then show ?thesis by (simp add: d must_def)
  next
    case False
    have m: "isafe tot k (\<lambda>r s'. SysMmap 0 len PROT_READ_WRITE MAP_SHARED (fdd_fd d) 0 r \<in> set (hist s'))
        (act (orig_mmap k 0 len PROT_READ_WRITE MAP_SHARED (fdd_fd d) 0)) s1"
      using assms(1,3) by (intro isafe_mmap [OF res]) (simp add: env_ok_def ready_def)
    show ?thesis unfolding d fd_of.simps must_def option.case pbind.simps if_not_P [OF False]
    proof (rule ion.safe_bind [OF m _ s1(2)])
      fix r s2 assume s2: "ion_rel s1 s2" "ion_inv k s2"
        "SysMmap 0 len PROT_READ_WRITE MAP_SHARED (fdd_fd d) 0 r \<in> set (hist s2)"
      show "isafe tot k ?Q (case r of None \<Rightarrow> pbind (act_upd (sys_close k (fdd_fd d))) (\<lambda>_. Return (- 1))
          | Some p \<Rightarrow> pbind (act_upd (sys_munmap k p len)) (\<lambda>_. pbind (act_upd (sys_close k (fdd_fd d))) (\<lambda>_. Return 0))) s2"
      proof (cases r)
        case None
        then show ?thesis by (auto intro!: ion.safe_bind [OF isafe_sys(1) _ s2(2)])
      next
        case (Some p)
        have "mappable (hist s2) h len"
          unfolding mappable_def using in_hist_rel [OF io s2(1)] s2(3) d Some False by (auto intro!: exI)
        then have "ion_rel s2 s3 \<Longrightarrow> ion_rel s3 s4 \<Longrightarrow> ion_rel s4 s5 \<Longrightarrow> mappable (hist s5) h len" for s3 s4 s5
          by (blast intro: facts_rel(2) ion.rel_trans)
        then show ?thesis unfolding Some option.case
          by (auto intro!: ion.safe_bind [OF isafe_sys(2) _ s2(2)] ion.safe_bind [OF isafe_sys(1)]
              dest: ion.rel_trans)
      qed
    qed
  qed
qed

lemma isafe_free: "ready k s \<Longrightarrow> ion_inv k s \<Longrightarrow> isafe tot k (\<lambda>_ _. True) (mt_free_handle k fd h) s"
  unfolding mt_free_handle_def by (rule ion.safe_bind [OF isafe_ioctl]) auto

definition good_handle :: "u32 \<Rightarrow> int \<Rightarrow> shim \<Rightarrow> bool" where
  "good_handle len h s \<longleftrightarrow> granted (hist s) h \<and> mappable (hist s) h len"

lemma good_handle_rel: "good_handle len h s \<Longrightarrow> ion_rel s s' \<Longrightarrow> good_handle len h s'"
  by (simp add: good_handle_def facts_rel)

lemma safe_good: "(\<And>h. r = Some h \<Longrightarrow> good_handle len h s) \<Longrightarrow>
  isafe tot k (\<lambda>r s'. \<forall>h. r = Some h \<longrightarrow> good_handle len h s') (Return r) s"
  by (auto intro: good_handle_rel)

lemma isafe_try_combo:
  assumes "ready k s" "ion_inv k s" "env_ok tot k"
  shows "isafe tot k (\<lambda>r s'. \<forall>h. r = Some h \<longrightarrow> good_handle len h s') (mt_try_combo k fd len al fl m) s"
  unfolding mt_try_combo_def
proof (rule ion.safe_bind [OF isafe_ioctl [OF assms(1)] _ assms(2)], clarsimp simp del: safe.simps)
  fix rc x s1
  let ?q = "\<lparr>ad_len = len, ad_align = al, ad_heap_id_mask = m, ad_flags = fl, ad_handle = 0\<rparr>"
  let ?a = "merge_arg (AllocArg ?q) x"
  assume s1: "ion_rel s s1" "ion_inv k s1"
    and io: "SysIoctl fd SHIM_ION_IOC_ALLOC (AllocArg ?q) rc ?a \<in> set (hist s1)"
  obtain d where d: "?a = AllocArg d" using alloc_of_merge by blast
  note rd = ready_rel [OF assms(1) s1(1)]
  show "isafe tot k (\<lambda>r s'. \<forall>h. r = Some h \<longrightarrow> good_handle len h s')
    (pbind (must (alloc_of ?a)) (\<lambda>alloc_data. if rc < 0 then Return None
      else pbind (mt_validate_handle k fd len (ad_handle alloc_data))
        (\<lambda>v. if v \<noteq> 0 then pbind (mt_free_handle k fd (ad_handle alloc_data)) (\<lambda>_. Return None)
             else Return (Some (ad_handle alloc_data))))) s1"
  proof (cases "rc < 0")
    case True
    then show ?thesis by (simp add: d must_def)
  next
    case False
    show ?thesis unfolding d alloc_of.simps must_def option.case pbind.simps if_not_P [OF False]
    proof (rule ion.safe_bind [OF isafe_validate [OF rd s1(2) assms(3)] _ s1(2)])
      fix v s2 assume s2: "ion_rel s1 s2" "ion_inv k s2" "v = 0 \<longrightarrow> mappable (hist s2) (ad_handle d) len"
      show "isafe tot k (\<lambda>r s'. \<forall>h. r = Some h \<longrightarrow> good_handle len h s')
        (if v \<noteq> 0 then pbind (mt_free_handle k fd (ad_handle d)) (\<lambda>_. Return None)
         else Return (Some (ad_handle d))) s2"
      proof (cases "v = 0")
        case True
        have "granted (hist s2) (ad_handle d)"
          using in_hist_rel [OF io s2(1)] False unfolding granted_def d linorder_not_less by blast
        with True s2(3) have "good_handle len (ad_handle d) s2" by (simp add: good_handle_def)
        with True show ?thesis by (auto simp del: safe.simps intro!: safe_good)
      next
        case v: False
        show ?thesis unfolding if_P [OF v]
          by (rule ion.safe_bind [OF isafe_free [OF ready_rel [OF rd s2(1)] s2(2)] _ s2(2)]) simp
      qed
    qed
  qed
qed

text \<open>A search loop: each round finds a good handle or goes on.\<close>

lemma isafe_round:
  assumes "ion_inv k s" "isafe tot k (\<lambda>r s'. \<forall>h. r = Some h \<longrightarrow> good_handle len h s') p s"
    and "\<And>h s'. good_handle len h s' \<Longrightarrow> isafe tot k Q (found h) s'"
    and "\<And>s'. ion_rel s s' \<Longrightarrow> ion_inv k s' \<Longrightarrow> isafe tot k Q next s'"
  shows "isafe tot k Q (pbind p (\<lambda>r. case r of Some h \<Rightarrow> found h | None \<Rightarrow> next)) s"
  by (rule ion.safe_bind [OF assms(2) _ assms(1)]) (auto split: option.split intro: assms(3,4) simp del: safe.simps)

lemma isafe_search_flags:
  "ready k s \<Longrightarrow> ion_inv k s \<Longrightarrow> env_ok tot k \<Longrightarrow>
   isafe tot k (\<lambda>r s'. \<forall>h. r = Some h \<longrightarrow> good_handle len h s') (mt_search_flags k fd len m al fs) s"
proof (induction fs arbitrary: s)
  case (Cons f fs)
  show ?case unfolding mt_search_flags.simps
    by (rule isafe_round [OF Cons.prems(2) isafe_try_combo [OF Cons.prems]])
       (auto intro!: safe_good Cons.IH Cons.prems(3) intro: ready_rel [OF Cons.prems(1)] simp del: safe.simps)
qed simp

lemma isafe_search_aligns:
  "ready k s \<Longrightarrow> ion_inv k s \<Longrightarrow> env_ok tot k \<Longrightarrow>
   isafe tot k (\<lambda>r s'. \<forall>h. r = Some h \<longrightarrow> good_handle len h s') (mt_search_aligns k fd len m fs as) s"
proof (induction as arbitrary: s)
  case (Cons a as)
  show ?case unfolding mt_search_aligns.simps
    by (rule isafe_round [OF Cons.prems(2) isafe_search_flags [OF Cons.prems]])
       (auto intro!: safe_good Cons.IH Cons.prems(3) intro: ready_rel [OF Cons.prems(1)] simp del: safe.simps)
qed simp

lemma isafe_search_heaps:
  "ready k s \<Longrightarrow> ion_inv k s \<Longrightarrow> env_ok tot k \<Longrightarrow>
   isafe tot k (\<lambda>r s'. \<forall>h i. r = Some (h, i) \<longrightarrow> good_handle len h s')
     (mt_search_heaps k fd len as fs skip ids) s"
proof (induction ids arbitrary: s)
  case (Cons i ids)
  have "isafe tot k (\<lambda>r s'. \<forall>h i. r = Some (h, i) \<longrightarrow> good_handle len h s')
    (pbind (mt_search_aligns k fd len (push_bit i 1) fs as)
      (\<lambda>r. case r of Some h \<Rightarrow> Return (Some (h, i)) | None \<Rightarrow> mt_search_heaps k fd len as fs skip ids)) s"
  proof (rule isafe_round [OF Cons.prems(2) isafe_search_aligns [OF Cons.prems]])
    fix s' assume "ion_rel s s'" "ion_inv k s'"
    then show "isafe tot k (\<lambda>r s'. \<forall>h i. r = Some (h, i) \<longrightarrow> good_handle len h s')
        (mt_search_heaps k fd len as fs skip ids) s'"
      using Cons.IH Cons.prems(3) ready_rel [OF Cons.prems(1)] by blast
  qed (auto intro: good_handle_rel)
  with Cons.IH [OF Cons.prems] show ?case by (simp only: mt_search_heaps.simps Let_def split: if_split) blast
qed simp

subsection \<open>The sections under the mutex\<close>

lemma keeps_resolve: "ion_inv k s \<Longrightarrow> ion_inv k (resolve_once k s) \<and> ion_rel s (resolve_once k s) \<and> g_resolve_once (resolve_once k s)"
  using resolve_once_registry [of s k]
  by (cases "g_resolve_once s")
     (simp_all add: resolve_once_def camera_ion_shim_resolve_original_def ion_inv_def provenance_def ion_rel_def)

lemma keeps_prop: "ion_inv k s \<Longrightarrow> ion_inv k (prop_once k s) \<and> ion_rel s (prop_once k s)"
  using prop_once_registry [of s k]
  by (cases "g_prop_once s")
     (simp_all add: prop_once_def camera_ion_shim_resolve_property_def ion_inv_def provenance_def ion_rel_def)

lemma keeps_track:
  "ion_inv k s \<Longrightarrow> ion_inv k (camera_ion_shim_track_device_fd fd s) \<and> ion_rel s (camera_ion_shim_track_device_fd fd s)"
  using registry_ok_track [of s fd]
  by (cases "g_ion_device_fd_count s < SHIM_MAX_ION_DEVICE_FDS")
     (simp_all add: ion_inv_def provenance_def ion_rel_def camera_ion_shim_track_device_fd_def)

lemma keeps_record_alloc:
  assumes "ion_inv k s" "good_handle len h s"
  shows "ion_inv k (camera_ion_shim_record_alloc h len s) \<and> ion_rel s (camera_ion_shim_record_alloc h len s)"
proof -
  let ?r = "\<lparr>ar_valid = True, ar_handle = h, ar_len = len\<rparr>"
  have "set ((g_alloc_records s)[g_alloc_record_next s := ?r]) \<subseteq> insert ?r (set (g_alloc_records s))"
    by (rule set_update_subset_insert)
  then have "provenance (camera_ion_shim_record_alloc h len s)"
    using assms by (fastforce simp: provenance_def ion_inv_def good_handle_def camera_ion_shim_record_alloc_def)
  with assms registry_ok_record_alloc [of s h len] show ?thesis
    by (simp add: ion_inv_def ion_rel_def) (simp add: camera_ion_shim_record_alloc_def)
qed

lemma mapped_length: "ion_inv k s \<Longrightarrow> length (g_mapped_fd_records s) = SHIM_MAX_MAPPED_FD_RECORDS"
  by (simp add: ion_inv_def registry_ok_def ring_ok_def)

lemma update_keeps:
  assumes "length xs = n" "P r \<or> \<not> P (xs ! j)"
  shows "\<forall>i<n. P (xs ! i) \<longrightarrow> P (xs[j := r] ! i)"
proof (intro allI impI)
  fix i assume "i < n" "P (xs ! i)"
  with assms show "P (xs[j := r] ! i)" by (cases "j = i") auto
qed

lemma keeps_record_mapped:
  assumes "ion_inv k s" "exported (hist s) fd len"
  shows "ion_inv k (camera_ion_shim_record_mapped_fd fd len s) \<and> ion_rel s (camera_ion_shim_record_mapped_fd fd len s)"
proof -
  let ?r = "\<lparr>mr_valid = True, mr_fd = fd, mr_len = len, mr_consumed = False\<rparr>"
  have "set ((g_mapped_fd_records s)[g_mapped_fd_record_next s := ?r]) \<subseteq> insert ?r (set (g_mapped_fd_records s))"
    by (rule set_update_subset_insert)
  then have "provenance (camera_ion_shim_record_mapped_fd fd len s)"
    using assms by (fastforce simp: provenance_def ion_inv_def camera_ion_shim_record_mapped_fd_def)
  moreover have "\<forall>i<SHIM_MAX_MAPPED_FD_RECORDS. mr_valid (g_mapped_fd_records s ! i) \<longrightarrow>
      mr_valid ((g_mapped_fd_records s)[g_mapped_fd_record_next s := ?r] ! i)"
    by (rule update_keeps [OF mapped_length [OF assms(1)]]) simp
  ultimately show ?thesis using assms registry_ok_record_mapped [of s fd len]
    by (simp add: ion_inv_def ion_rel_def) (simp add: camera_ion_shim_record_mapped_fd_def)
qed

lemma keeps_mark:
  assumes "ion_inv k s"
  shows "ion_inv k (mark_consumed i s) \<and> ion_rel s (mark_consumed i s)"
proof -
  let ?r = "(g_mapped_fd_records s ! i)\<lparr>mr_consumed := True\<rparr>"
  have "provenance (mark_consumed i s)"
  proof (cases "i < length (g_mapped_fd_records s)")
    case True
    have "set ((g_mapped_fd_records s)[i := ?r]) \<subseteq> insert ?r (set (g_mapped_fd_records s))"
      by (rule set_update_subset_insert)
    with True nth_mem [OF True] show ?thesis
      using assms by (fastforce simp: provenance_def ion_inv_def mark_consumed_def)
  next
    case False
    then have "(g_mapped_fd_records s)[i := ?r] = g_mapped_fd_records s"
      by (simp add: list_update_beyond)
    then show ?thesis using assms unfolding mark_consumed_def by (simp add: provenance_def ion_inv_def)
  qed
  moreover have "\<forall>j<SHIM_MAX_MAPPED_FD_RECORDS. mr_valid (g_mapped_fd_records s ! j) \<longrightarrow>
      mr_valid ((g_mapped_fd_records s)[i := (g_mapped_fd_records s ! i)\<lparr>mr_consumed := True\<rparr>] ! j)"
    by (rule update_keeps [OF mapped_length [OF assms(1)]]) simp
  ultimately show ?thesis using assms registry_ok_mark [of s i]
    by (simp add: ion_inv_def ion_rel_def) (simp add: mark_consumed_def)
qed

lemma isafe_record_alloc:
  "good_handle len h s \<Longrightarrow> isafe tot k (\<lambda>_ _. True) (act_upd (camera_ion_shim_record_alloc h len)) s"
  by (rule isafe_upd) (rule keeps_record_alloc [OF _ good_handle_rel])

lemma isafe_record_mapped:
  "exported (hist s) fd len \<Longrightarrow> isafe tot k (\<lambda>_ _. True) (act_upd (camera_ion_shim_record_mapped_fd fd len)) s"
  by (rule isafe_upd) (rule keeps_record_mapped [OF _ facts_rel(3)])

lemma isafe_resolve: "isafe tot k (\<lambda>_ s'. g_resolve_once s') (act_upd (resolve_once k)) s"
  unfolding act_upd_def by (rule ion.safe_act) (use keeps_resolve in \<open>auto simp: ion_rel_def\<close>)

subsection \<open>The exported calls\<close>

definition alloc_good :: "int \<times> ioctl_arg \<Rightarrow> shim \<Rightarrow> bool" where
  "alloc_good ra s \<longleftrightarrow> (0 \<le> fst ra \<longrightarrow> (\<exists>d. snd ra = AllocArg d \<and> good_handle (ad_len d) (ad_handle d) s))"

lemma alloc_good_rel: "alloc_good ra s \<Longrightarrow> ion_rel s s' \<Longrightarrow> alloc_good ra s'"
  by (auto simp: alloc_good_def intro: good_handle_rel)

lemma isafe_good: "alloc_good ra s \<Longrightarrow> isafe tot k alloc_good (Return ra) s"
  by (simp add: alloc_good_rel)

lemma isafe_alloc_found:
  assumes "ion_inv k s" "good_handle (ad_len req) h s"
  shows "isafe tot k alloc_good (mt_alloc_found req h) s"
  unfolding mt_alloc_found_def
proof (rule ion.safe_bind [OF isafe_record_alloc [OF assms(2)] _ assms(1)], rule ion.safe_bind [OF isafe_errno])
  fix s1 s2 assume "ion_rel s s1" "ion_rel s1 s2"
  then have "alloc_good (0, AllocArg (req\<lparr>ad_handle := h\<rparr>)) s2"
    using good_handle_rel [OF good_handle_rel [OF assms(2)]] by (simp add: alloc_good_def)
  then show "isafe tot k alloc_good (Return (0, AllocArg (req\<lparr>ad_handle := h\<rparr>))) s2" by (rule isafe_good)
qed

lemma isafe_alloc_grid:
  assumes "ready k s" "ion_inv k s" "env_ok tot k"
  shows "isafe tot k alloc_good (mt_alloc_grid k fd req) s"
  unfolding mt_alloc_grid_def mt_grid_search_def
proof (rule ion.safe_bind [OF isafe_search_heaps [OF assms] _ assms(2)])
  fix g s1 assume s1: "ion_rel s s1" "ion_inv k s1" "\<forall>h i. g = Some (h, i) \<longrightarrow> good_handle (ad_len req) h s1"
  have "isafe tot k alloc_good (pbind (mt_set_errno ENODEV) (\<lambda>_. Return (- 1, AllocArg req))) s1"
    by (rule ion.safe_bind [OF isafe_errno _ s1(2)]) (simp add: alloc_good_def)
  with s1 show "isafe tot k alloc_good (case g of Some (h, _) \<Rightarrow> mt_alloc_found req h
      | None \<Rightarrow> pbind (mt_set_errno ENODEV) (\<lambda>_. Return (- 1, AllocArg req))) s1"
    by (auto split: option.split intro: isafe_alloc_found)
qed

lemma isafe_alloc_fallback:
  assumes "ready k s" "ion_inv k s" "env_ok tot k"
  shows "isafe tot k alloc_good (mt_alloc_fallback k fd req) s"
  unfolding mt_alloc_fallback_def
proof (rule ion.safe_bind [OF isafe_read _ assms(2)])
  fix m s1 assume s1: "ion_rel s s1" "ion_inv k s1"
  note rd = ready_rel [OF assms(1) s1(1)]
  have "isafe tot k alloc_good (pbind (mt_try_combo k fd (ad_len req) (ad_align req) (ad_flags req) m)
      (\<lambda>r. case r of Some h \<Rightarrow> mt_alloc_found req h | None \<Rightarrow> mt_alloc_grid k fd req)) s1"
  proof (rule ion.safe_bind [OF isafe_try_combo [OF rd s1(2) assms(3)] _ s1(2)])
    fix r s2 assume s2: "ion_rel s1 s2" "ion_inv k s2" "\<forall>h. r = Some h \<longrightarrow> good_handle (ad_len req) h s2"
    then show "isafe tot k alloc_good (case r of Some h \<Rightarrow> mt_alloc_found req h | None \<Rightarrow> mt_alloc_grid k fd req) s2"
      by (auto split: option.split intro: isafe_alloc_found isafe_alloc_grid [OF ready_rel [OF rd s2(1)] s2(2) assms(3)])
  qed
  with isafe_alloc_grid [OF rd s1(2) assms(3)]
  show "isafe tot k alloc_good (if m \<noteq> 0 \<and> m \<noteq> ad_heap_id_mask req
      then pbind (mt_try_combo k fd (ad_len req) (ad_align req) (ad_flags req) m)
        (\<lambda>r. case r of Some h \<Rightarrow> mt_alloc_found req h | None \<Rightarrow> mt_alloc_grid k fd req)
      else mt_alloc_grid k fd req) s1" by simp
qed

lemma isafe_prop: "isafe tot k (\<lambda>_ _. True) (act_upd (prop_once k)) s"
  by (rule isafe_upd) (rule keeps_prop)

text \<open>After a baseline allocation that the kernel granted: the probe, then the record or the
  fallback.\<close>

lemma isafe_alloc_probed:
  assumes rd: "ready k s" and s: "ion_inv k s" and env: "env_ok tot k" and rc: "0 \<le> rc"
    and io: "SysIoctl fd SHIM_ION_IOC_ALLOC arg rc (AllocArg req) \<in> set (hist s)"
  shows "isafe tot k alloc_good (pbind (mt_validate_handle k fd (ad_len req) (ad_handle req)) (\<lambda>v.
     if v = 0
     then pbind (act_upd (camera_ion_shim_record_alloc (ad_handle req) (ad_len req))) (\<lambda>_. Return (rc, AllocArg req))
     else pbind (mt_free_handle k fd (ad_handle req)) (\<lambda>_. mt_alloc_fallback k fd req))) s"
proof (rule ion.safe_bind [OF isafe_validate [OF rd s env] _ s])
  fix v s4 assume s4: "ion_rel s s4" "ion_inv k s4" "v = 0 \<longrightarrow> mappable (hist s4) (ad_handle req) (ad_len req)"
  note rd4 = ready_rel [OF rd s4(1)]
  show "isafe tot k alloc_good (if v = 0
    then pbind (act_upd (camera_ion_shim_record_alloc (ad_handle req) (ad_len req))) (\<lambda>_. Return (rc, AllocArg req))
    else pbind (mt_free_handle k fd (ad_handle req)) (\<lambda>_. mt_alloc_fallback k fd req)) s4"
  proof (cases "v = 0")
    case True
    have "granted (hist s4) (ad_handle req)"
      using in_hist_rel [OF io s4(1)] rc unfolding granted_def by blast
    with True s4(3) have g: "good_handle (ad_len req) (ad_handle req) s4" by (simp add: good_handle_def)
    show ?thesis unfolding if_P [OF True]
    proof (rule ion.safe_bind [OF isafe_record_alloc [OF g] _ s4(2)])
      fix s5 assume "ion_rel s4 s5"
      with g have "alloc_good (rc, AllocArg req) s5" by (simp add: alloc_good_def good_handle_rel)
      then show "isafe tot k alloc_good (Return (rc, AllocArg req)) s5" by (rule isafe_good)
    qed
  next
    case False
    show ?thesis unfolding if_not_P [OF False]
    proof (rule ion.safe_bind [OF isafe_free [OF rd4 s4(2)] _ s4(2)])
      fix s5 assume s5: "ion_rel s4 s5" "ion_inv k s5"
      show "isafe tot k alloc_good (mt_alloc_fallback k fd req) s5"
        by (rule isafe_alloc_fallback [OF ready_rel [OF rd4 s5(1)] s5(2) env])
    qed
  qed
qed

lemma isafe_alloc_granted:
  assumes rd2: "ready k s2" and s2: "ion_inv k s2" and env: "env_ok tot k" and arg: "arg = AllocArg d"
  shows "isafe tot k alloc_good (pbind (mt_orig_ioctl k fd SHIM_ION_IOC_ALLOC arg) (\<lambda>(rc, arg').
     pbind (must (alloc_of arg')) (\<lambda>req.
     if rc \<ge> 0 then
       pbind (mt_validate_handle k fd (ad_len req) (ad_handle req)) (\<lambda>v.
       if v = 0
       then pbind (act_upd (camera_ion_shim_record_alloc (ad_handle req) (ad_len req))) (\<lambda>_. Return (rc, arg'))
       else pbind (mt_free_handle k fd (ad_handle req)) (\<lambda>_. mt_alloc_fallback k fd req))
     else mt_alloc_fallback k fd req))) s2"
proof (rule ion.safe_bind [OF isafe_ioctl [OF rd2] _ s2], clarsimp simp del: safe.simps)
  fix rc x s3 assume s3: "ion_rel s2 s3" "ion_inv k s3"
    and io: "SysIoctl fd SHIM_ION_IOC_ALLOC arg rc (merge_arg arg x) \<in> set (hist s3)"
  obtain req where req: "merge_arg arg x = AllocArg req" using alloc_of_merge arg by blast
  note rd3 = ready_rel [OF rd2 s3(1)]
  note probed = isafe_alloc_probed [OF rd3 s3(2) env _ io [unfolded req]]
  have "isafe tot k alloc_good (mt_alloc_fallback k fd req) s3"
    by (rule isafe_alloc_fallback [OF rd3 s3(2) env])
  with probed show "isafe tot k alloc_good (pbind (must (alloc_of (merge_arg arg x))) (\<lambda>req.
    if rc \<ge> 0 then
     pbind (mt_validate_handle k fd (ad_len req) (ad_handle req)) (\<lambda>v.
     if v = 0
     then pbind (act_upd (camera_ion_shim_record_alloc (ad_handle req) (ad_len req))) (\<lambda>_. Return (rc, merge_arg arg x))
     else pbind (mt_free_handle k fd (ad_handle req)) (\<lambda>_. mt_alloc_fallback k fd req))
   else mt_alloc_fallback k fd req)) s3" unfolding req alloc_of.simps must_def option.case pbind.simps by presburger
qed

lemma isafe_alloc:
  assumes "ready k s" "ion_inv k s" "env_ok tot k" "tot \<Longrightarrow> \<exists>d. arg = AllocArg d"
  shows "isafe tot k alloc_good (mt_alloc k fd arg) s"
  unfolding mt_alloc_def
proof (rule ion.safe_bind [OF isafe_prop _ assms(2)], rule ion.safe_bind [OF isafe_must])
  show "alloc_of arg \<noteq> None" if tot using assms(4) [OF that] by auto
next
  fix s1 s2 d assume "ion_rel s s1" "ion_rel s1 s2" "ion_inv k s2" "alloc_of arg = Some d"
  moreover from this(4) have "arg = AllocArg d" by (cases arg) auto
  ultimately show "isafe tot k alloc_good (pbind (mt_orig_ioctl k fd SHIM_ION_IOC_ALLOC arg) (\<lambda>(rc, arg').
     pbind (must (alloc_of arg')) (\<lambda>req.
     if rc \<ge> 0 then
       pbind (mt_validate_handle k fd (ad_len req) (ad_handle req)) (\<lambda>v.
       if v = 0
       then pbind (act_upd (camera_ion_shim_record_alloc (ad_handle req) (ad_len req))) (\<lambda>_. Return (rc, arg'))
       else pbind (mt_free_handle k fd (ad_handle req)) (\<lambda>_. mt_alloc_fallback k fd req))
     else mt_alloc_fallback k fd req))) s2"
    by (intro isafe_alloc_granted [OF _ _ assms(3)] ready_rel [OF ready_rel [OF assms(1)]])
qed

lemma isafe_true: "isafe tot k (\<lambda>_ _. True) (Return x) s"
  by simp

text \<open>A handle whose length is known and that a request has just exported.\<close>

lemma known_exported:
  assumes "ion_inv k s" "ion_rel s t" "camera_ion_shim_lookup_alloc_len (fdd_handle d) s = Some len"
    and "SysIoctl fd rq arg rc (FdArg d) \<in> set (hist t)" "0 \<le> rc"
    and "rq \<in> {SHIM_ION_IOC_MAP, SHIM_ION_IOC_SHARE}"
  shows "exported (hist t) (fdd_fd d) len"
proof -
  obtain r where r: "r \<in> set (g_alloc_records s)" "ar_valid r" "ar_handle r = fdd_handle d" "ar_len r = len"
    using lookup_SomeD [OF assms(3)] by blast
  with assms(1) have "granted (hist s) (fdd_handle d)" "mappable (hist s) (fdd_handle d) len"
    by (auto simp: ion_inv_def provenance_def)
  with assms(2) have "granted (hist t) (fdd_handle d)" "mappable (hist t) (fdd_handle d) len"
    by (auto intro: facts_rel)
  with assms(4-6) show ?thesis unfolding exported_def by blast
qed

lemma isafe_map_share:
  assumes "ready k s" "ion_inv k s" "rq \<in> {SHIM_ION_IOC_MAP, SHIM_ION_IOC_SHARE}" "tot \<Longrightarrow> \<exists>d. arg = FdArg d"
  shows "isafe tot k (\<lambda>_ _. True) (mt_map_share k fd rq arg) s"
  unfolding mt_map_share_def
proof (rule ion.safe_bind [OF isafe_ioctl [OF assms(1)] _ assms(2)], clarsimp simp del: safe.simps simp: isafe_true)
  fix rc x s1
  assume s1: "ion_rel s s1" "ion_inv k s1"
    and io: "SysIoctl fd rq arg rc (merge_arg arg x) \<in> set (hist s1)" and rc: "0 \<le> rc"
  show "isafe tot k (\<lambda>_ _. True)
     (pbind (must (fd_of (merge_arg arg x))) (\<lambda>fd_data.
      pbind (act_read (camera_ion_shim_lookup_alloc_len (fdd_handle fd_data))) (\<lambda>found.
      case found of
        Some len \<Rightarrow> pbind (act_upd (camera_ion_shim_record_mapped_fd (fdd_fd fd_data) len)) (\<lambda>_. Return (rc, merge_arg arg x))
      | None \<Rightarrow> Return (rc, merge_arg arg x)))) s1"
  proof (rule ion.safe_bind [OF isafe_must _ s1(2)])
    show "fd_of (merge_arg arg x) \<noteq> None" if tot
    proof -
      from assms(4) [OF that] obtain d where "arg = FdArg d" by blast
      moreover obtain d' where "merge_arg (FdArg d) x = FdArg d'" using fd_of_merge by blast
      ultimately show ?thesis by simp
    qed
  next
    fix d s2 assume s2: "ion_rel s1 s2" "ion_inv k s2" and fdd: "fd_of (merge_arg arg x) = Some d"
    then have d: "merge_arg arg x = FdArg d" by (cases "merge_arg arg x") auto
    show "isafe tot k (\<lambda>_ _. True)
      (pbind (act_read (camera_ion_shim_lookup_alloc_len (fdd_handle d))) (\<lambda>found.
        case found of
          Some len \<Rightarrow> pbind (act_upd (camera_ion_shim_record_mapped_fd (fdd_fd d) len)) (\<lambda>_. Return (rc, merge_arg arg x))
        | None \<Rightarrow> Return (rc, merge_arg arg x))) s2"
    proof (rule ion.safe_bind [OF isafe_read _ s2(2)])
      fix found s3 assume s3: "ion_rel s2 s3" "ion_inv k s3"
        and look: "\<exists>s'. ion_rel s2 s' \<and> ion_inv k s' \<and> ion_rel s' s3 \<and>
          found = camera_ion_shim_lookup_alloc_len (fdd_handle d) s'"
      have "SysIoctl fd rq arg rc (FdArg d) \<in> set (hist s3)"
        using in_hist_rel [OF in_hist_rel [OF io s2(1)] s3(1)] d by simp
      then have "exported (hist s3) (fdd_fd d) len" if "found = Some len" for len
        using look that known_exported [OF _ _ _ _ rc assms(3)] by metis
      then show "isafe tot k (\<lambda>_ _. True) (case found of
          Some len \<Rightarrow> pbind (act_upd (camera_ion_shim_record_mapped_fd (fdd_fd d) len)) (\<lambda>_. Return (rc, merge_arg arg x))
        | None \<Rightarrow> Return (rc, merge_arg arg x)) s3"
        by (auto split: option.split intro!: ion.safe_bind [OF isafe_record_mapped _ s3(2)])
    qed
  qed
qed

definition ioctl_good :: "u32 \<Rightarrow> int \<times> ioctl_arg \<Rightarrow> shim \<Rightarrow> bool" where
  "ioctl_good rq ra s \<longleftrightarrow> (rq = SHIM_ION_IOC_ALLOC \<longrightarrow> alloc_good ra s)"

lemma isafe_weaken:
  assumes "isafe tot k P p s" "\<And>a s'. P a s' \<Longrightarrow> Q a s'"
  shows "isafe tot k Q p s"
  using assms(1)
proof (induction p arbitrary: s rule: prog_induct)
  case (Act g)
  show ?case unfolding safe_Act
  proof (intro allI impI)
    fix s1 assume "ion_rel s s1" "ion_inv k s1"
    with Act.prems have c: "case g s1 of None \<Rightarrow> \<not> tot
      | Some (p, s2) \<Rightarrow> ion_inv k s2 \<and> ion_rel s1 s2 \<and> isafe tot k P p s2" unfolding safe_Act by blast
    show "case g s1 of None \<Rightarrow> \<not> tot
      | Some (p, s2) \<Rightarrow> ion_inv k s2 \<and> ion_rel s1 s2 \<and> isafe tot k Q p s2"
    proof (cases "g s1")
      case (Some ps)
      then obtain p s2 where "g s1 = Some (p, s2)" by (cases ps) auto
      with c Act.IH [OF this] show ?thesis by simp
    qed (use c in simp)
  qed
qed (simp add: assms(2))

lemma conforms_fd: "arg_conforms rq arg \<Longrightarrow> rq \<in> {SHIM_ION_IOC_MAP, SHIM_ION_IOC_SHARE} \<Longrightarrow> \<exists>d. arg = FdArg d"
  by (cases arg) (auto simp: arg_conforms_def)

lemma conforms_alloc: "arg_conforms SHIM_ION_IOC_ALLOC arg \<Longrightarrow> \<exists>d. arg = AllocArg d"
  by (cases arg) (auto simp: arg_conforms_def)

lemma isafe_ioctl_call:
  assumes "ion_inv k s" "env_ok tot k" "tot \<Longrightarrow> arg_conforms rq arg"
  shows "isafe tot k (ioctl_good rq) (mt_ioctl k fd rq arg) s"
  unfolding mt_ioctl_def
proof (rule ion.safe_bind [OF isafe_resolve _ assms(1)], rule ion.safe_bind [OF isafe_read])
  fix s1 orig s2 assume res: "g_resolve_once s1" and s2: "ion_rel s1 s2" "ion_inv k s2"
    and orig: "\<exists>s'. ion_rel s1 s' \<and> ion_inv k s' \<and> ion_rel s' s2 \<and> orig = g_orig_ioctl s'"
  have "isafe tot k (ioctl_good rq) (pbind (mt_set_errno ENOSYS) (\<lambda>_. Return (- 1, arg))) s2"
    by (rule ion.safe_bind [OF isafe_errno _ s2(2)]) (simp add: ioctl_good_def alloc_good_def)
  moreover {
    assume orig: orig
    with orig obtain s' where "ion_rel s1 s'" "ion_inv k s'" "g_orig_ioctl s'"
      using \<open>\<exists>s'. ion_rel s1 s' \<and> ion_inv k s' \<and> ion_rel s' s2 \<and> orig = g_orig_ioctl s'\<close> by auto
    with res have "k_dlsym k ''ioctl''" by (auto simp: ion_inv_def ion_rel_def)
    moreover have "g_resolve_once s2" using res s2(1) by (auto simp: ion_rel_def)
    ultimately have rd: "ready k s2" by (simp add: ready_def)
    have "isafe tot k (ioctl_good rq) (mt_map_share k fd rq arg) s2" if "rq \<in> {SHIM_ION_IOC_MAP, SHIM_ION_IOC_SHARE}"
      using that assms(3)
      by (intro isafe_weaken [OF isafe_map_share [OF rd s2(2) that]])
         (auto simp: ioctl_good_def dest!: conforms_fd)
    moreover have "isafe tot k (ioctl_good rq) (mt_orig_ioctl k fd rq arg) s2" if "rq \<noteq> SHIM_ION_IOC_ALLOC"
      using that by (intro isafe_weaken [OF isafe_ioctl [OF rd]]) (simp add: ioctl_good_def)
    moreover have "isafe tot k (ioctl_good rq) (mt_alloc k fd arg) s2" if "rq = SHIM_ION_IOC_ALLOC"
      using that assms(3)
      by (intro isafe_weaken [OF isafe_alloc [OF rd s2(2) assms(2)]])
         (auto simp: ioctl_good_def dest!: conforms_alloc)
    ultimately have "isafe tot k (ioctl_good rq)
      (if rq = SHIM_ION_IOC_MAP \<or> rq = SHIM_ION_IOC_SHARE then mt_map_share k fd rq arg
       else if rq \<noteq> SHIM_ION_IOC_ALLOC then mt_orig_ioctl k fd rq arg
       else mt_alloc k fd arg) s2" by auto
  }
  ultimately show "isafe tot k (ioctl_good rq) (if \<not> orig then pbind (mt_set_errno ENOSYS) (\<lambda>_. Return (- 1, arg))
     else if rq = SHIM_ION_IOC_MAP \<or> rq = SHIM_ION_IOC_SHARE then mt_map_share k fd rq arg
     else if rq \<noteq> SHIM_ION_IOC_ALLOC then mt_orig_ioctl k fd rq arg
     else mt_alloc k fd arg) s2" by (simp del: safe.simps)
qed

lemma isafe_open:
  assumes "ion_inv k s"
  shows "isafe tot k (\<lambda>_ _. True) (mt_open k path flags mode) s"
  unfolding mt_open_def
proof (rule ion.safe_bind [OF isafe_resolve _ assms(1)], rule ion.safe_bind [OF isafe_read])
  fix s1 orig s2 assume res: "g_resolve_once s1" and s2: "ion_rel s1 s2" "ion_inv k s2"
    and orig: "\<exists>s'. ion_rel s1 s' \<and> ion_inv k s' \<and> ion_rel s' s2 \<and> orig = g_orig_open s'"
  let ?mode = "if flags AND O_CREAT \<noteq> 0 then Some mode else None"
  have call: "isafe tot k (\<lambda>fd s'. SysOpen path flags ?mode fd \<in> set (hist s') \<and> True)
      (act (orig_open k path flags ?mode)) s2" if orig
  proof (rule isafe_calls)
    fix s3 fd s4 assume "orig_open k path flags ?mode s3 = Some (fd, s4)"
    then show "only_calls s3 [SysOpen path flags ?mode fd] s4 \<and> True" by (auto intro: effects)
  next
    fix s3 assume s3: "ion_rel s2 s3" "ion_inv k s3"
    from orig that obtain s' where "ion_rel s1 s'" "ion_inv k s'" "g_orig_open s'" by auto
    with res have "k_dlsym k ''open''" by (auto simp: ion_inv_def ion_rel_def)
    with s3 res s2(1) show "orig_open k path flags ?mode s3 \<noteq> None"
      by (auto simp: ion_inv_def ion_rel_def orig_open_def Let_def split: prod.split)
  qed
  have track: "isafe tot k (\<lambda>_ _. True) (act_upd (camera_ion_shim_track_device_fd fd)) s" for fd s
    by (rule isafe_upd) (rule keeps_track)
  have "isafe tot k (\<lambda>_ _. True) (pbind (act (orig_open k path flags ?mode)) (\<lambda>fd.
       if fd \<ge> 0 \<and> (case path of None \<Rightarrow> False | Some p \<Rightarrow> strstr p ''/dev/ion'' \<noteq> None)
       then pbind (act_upd (camera_ion_shim_track_device_fd fd)) (\<lambda>_. Return fd)
       else Return fd)) s2" if orig
  proof (rule ion.safe_bind [OF call [OF that] _ s2(2)])
    fix fd s3 assume "ion_inv k s3"
    then have "isafe tot k (\<lambda>_ _. True) (pbind (act_upd (camera_ion_shim_track_device_fd fd)) (\<lambda>_. Return fd)) s3"
      by (rule ion.safe_bind [OF track, rotated]) simp
    then show "isafe tot k (\<lambda>_ _. True) (if fd \<ge> 0 \<and> (case path of None \<Rightarrow> False | Some p \<Rightarrow> strstr p ''/dev/ion'' \<noteq> None)
       then pbind (act_upd (camera_ion_shim_track_device_fd fd)) (\<lambda>_. Return fd)
       else Return fd) s3" (is "isafe tot k _ (if ?c then _ else _) s3")
      by (cases ?c; simp only: simp_thms if_True if_False isafe_true)
  qed
  moreover have "isafe tot k (\<lambda>_ _. True) (pbind (mt_set_errno ENOSYS) (\<lambda>_. Return (- 1))) s2"
    by (rule ion.safe_bind [OF isafe_errno _ s2(2)]) simp
  ultimately show "isafe tot k (\<lambda>_ _. True) (if \<not> orig then pbind (mt_set_errno ENOSYS) (\<lambda>_. Return (- 1))
     else pbind (act (orig_open k path flags ?mode)) (\<lambda>fd.
       if fd \<ge> 0 \<and> (case path of None \<Rightarrow> False | Some p \<Rightarrow> strstr p ''/dev/ion'' \<noteq> None)
       then pbind (act_upd (camera_ion_shim_track_device_fd fd)) (\<lambda>_. Return fd)
       else Return fd)) s2" by (cases orig; simp only: if_True if_False simp_thms)
qed

text \<open>A mapping is the caller's own, or one of a descriptor that the kernel exported.\<close>

definition mapping_good :: "u32 \<Rightarrow> u32 \<Rightarrow> int \<Rightarrow> int \<Rightarrow> int \<Rightarrow> int \<Rightarrow> u32 option \<Rightarrow> shim \<Rightarrow> bool" where
  "mapping_good a l p f fd off r s \<longleftrightarrow> (\<forall>q. r = Some q \<longrightarrow>
     SysMmap a l p f fd off (Some q) \<in> set (hist s) \<or>
     (\<exists>fd' len. exported (hist s) fd' len \<and> SysMmap a l p f fd' off (Some q) \<in> set (hist s)))"

lemma mapping_good_rel: "mapping_good a l p f fd off r s \<Longrightarrow> ion_rel s s' \<Longrightarrow> mapping_good a l p f fd off r s'"
  unfolding mapping_good_def by (blast intro: in_hist_rel facts_rel(3))

lemma isafe_mapping: "mapping_good a l p f fd off r s \<Longrightarrow> isafe tot k (mapping_good a l p f fd off) (Return r) s"
  by (simp add: mapping_good_rel)

lemma isafe_no_mapping:
  "ion_inv k s \<Longrightarrow> isafe tot k (mapping_good a l p f fd off) (pbind (mt_set_errno e) (\<lambda>_. Return None)) s"
  by (rule ion.safe_bind [OF isafe_errno]) (simp_all add: mapping_good_def)

text \<open>The second attempt of \<open>mmap\<close>, on a descriptor that was exported.\<close>

lemma isafe_second_attempt:
  assumes "ion_inv k s" "g_resolve_once s" "k_dlsym k ''mmap''" "exported (hist s) cfd len"
  shows "isafe tot k (mapping_good a l p f fd off) (pbind (act (orig_mmap k a l p f cfd off)) (\<lambda>result.
     case result of
       None \<Rightarrow> pbind (mt_set_errno ENODEV) (\<lambda>_. Return None)
     | Some p \<Rightarrow> pbind (act_upd (mark_consumed i)) (\<lambda>_. Return (Some p)))) s"
proof (rule ion.safe_bind [OF isafe_mmap [OF assms(2,3)] _ assms(1)])
  fix r t assume t: "ion_rel s t" "ion_inv k t" "SysMmap a l p f cfd off r \<in> set (hist t)"
  have good: "mapping_good a l p f fd off r t"
    using t(3) facts_rel(3) [OF t(1) assms(4)] by (auto simp: mapping_good_def)
  have mark: "isafe tot k (\<lambda>_ _. True) (act_upd (mark_consumed i)) t"
    by (rule isafe_upd) (rule keeps_mark)
  show "isafe tot k (mapping_good a l p f fd off) (case r of
       None \<Rightarrow> pbind (mt_set_errno ENODEV) (\<lambda>_. Return None)
     | Some p \<Rightarrow> pbind (act_upd (mark_consumed i)) (\<lambda>_. Return (Some p))) t"
  proof (cases r)
    case None
    then show ?thesis by (simp only: option.case isafe_no_mapping [OF t(2)])
  next
    case (Some q)
    show ?thesis unfolding Some option.case
      by (rule ion.safe_bind [OF mark _ t(2)]) (rule isafe_mapping, rule mapping_good_rel [OF good [unfolded Some]])
  qed
qed

text \<open>A record that was usable is still valid when its descriptor is read, so it was exported.\<close>

lemma usable_exported:
  assumes "ion_inv k s" "i < length (g_mapped_fd_records s)" "usable l fd (g_mapped_fd_records s ! i)"
    and "ion_rel s t" "ion_inv k t"
  obtains len where "exported (hist t) (mr_fd (g_mapped_fd_records t ! i)) len"
proof -
  from assms(1,2) have i16: "i < SHIM_MAX_MAPPED_FD_RECORDS" by (simp add: mapped_length)
  with assms(3,4) have "mr_valid (g_mapped_fd_records t ! i)" by (auto simp: ion_rel_def usable_def)
  moreover have "g_mapped_fd_records t ! i \<in> set (g_mapped_fd_records t)"
    using i16 mapped_length [OF assms(5)] by simp
  ultimately show thesis using assms(5) that by (auto simp: ion_inv_def provenance_def)
qed

lemma isafe_substitute:
  assumes "ion_inv k s" "g_resolve_once s" "k_dlsym k ''mmap''"
  shows "isafe tot k (mapping_good a l p f fd off) (mt_substitute k a l p f fd off) s"
  unfolding mt_substitute_def
proof (rule ion.safe_bind [OF isafe_read _ assms(1)], rule ion.safe_bind [OF isafe_read])
  fix s1 ci s2 assume s1: "ion_rel s s1" and s2: "ion_rel s1 s2" "ion_inv k s2"
    and "\<exists>s'. ion_rel s1 s' \<and> ion_inv k s' \<and> ion_rel s' s2 \<and> ci = camera_ion_shim_find_mapped_fd_candidate l fd s'"
  then obtain s' where s': "ion_inv k s'" "ion_rel s' s2" "ci = camera_ion_shim_find_mapped_fd_candidate l fd s'" by blast
  let ?use = "pbind (act_read (\<lambda>s. mr_fd (g_mapped_fd_records s ! nat ci))) (\<lambda>candidate_fd.
       pbind (act (orig_mmap k a l p f candidate_fd off)) (\<lambda>result.
       case result of
         None \<Rightarrow> pbind (mt_set_errno ENODEV) (\<lambda>_. Return None)
       | Some p \<Rightarrow> pbind (act_upd (mark_consumed (nat ci))) (\<lambda>_. Return (Some p))))"
  have "isafe tot k (mapping_good a l p f fd off) ?use s2" if "\<not> ci < 0"
  proof (rule ion.safe_bind [OF isafe_read _ s2(2)])
    from that s'(3) have i: "nat ci < length (g_mapped_fd_records s')"
      "usable l fd (g_mapped_fd_records s' ! nat ci)" by (cases rule: find_candidate_cases [of l fd s']; simp)+
    fix cfd s3 assume s3: "ion_rel s2 s3" "ion_inv k s3"
      and "\<exists>s'. ion_rel s2 s' \<and> ion_inv k s' \<and> ion_rel s' s3 \<and> cfd = mr_fd (g_mapped_fd_records s' ! nat ci)"
    then obtain s4 where s4: "ion_rel s2 s4" "ion_inv k s4" "ion_rel s4 s3"
      and cfd: "cfd = mr_fd (g_mapped_fd_records s4 ! nat ci)" by blast
    obtain len where "exported (hist s4) cfd len"
      using usable_exported [OF s'(1) i ion.rel_trans [OF s'(2) s4(1)] s4(2)] unfolding cfd .
    then have ex: "exported (hist s3) cfd len" using s4(3) by (rule facts_rel(3) [rotated])
    have once: "g_resolve_once s3" using assms(2) s1 s2(1) s3(1) by (auto simp: ion_rel_def)
    show "isafe tot k (mapping_good a l p f fd off) (pbind (act (orig_mmap k a l p f cfd off)) (\<lambda>result.
       case result of
         None \<Rightarrow> pbind (mt_set_errno ENODEV) (\<lambda>_. Return None)
       | Some p \<Rightarrow> pbind (act_upd (mark_consumed (nat ci))) (\<lambda>_. Return (Some p)))) s3"
      using s3(2) once assms(3) ex by (rule isafe_second_attempt)
  qed
  with isafe_no_mapping [OF s2(2)]
  show "isafe tot k (mapping_good a l p f fd off)
    (if ci < 0 then pbind (mt_set_errno ENODEV) (\<lambda>_. Return None) else ?use) s2"
    by (cases "ci < 0"; simp only: if_True if_False simp_thms)
qed

lemma isafe_mmap_call:
  assumes "ion_inv k s"
  shows "isafe tot k (mapping_good a l p f fd off) (mt_mmap k a l p f fd off) s"
  unfolding mt_mmap_def
proof (rule ion.safe_bind [OF isafe_resolve _ assms(1)], rule ion.safe_bind [OF isafe_read])
  fix s1 orig s2 assume res: "g_resolve_once s1" and s2: "ion_rel s1 s2" "ion_inv k s2"
    and ex: "\<exists>s'. ion_rel s1 s' \<and> ion_inv k s' \<and> ion_rel s' s2 \<and> orig = g_orig_mmap s'"
  have once: "g_resolve_once s2" using res s2(1) by (auto simp: ion_rel_def)
  let ?own = "pbind (act (orig_mmap k a l p f fd off)) (\<lambda>result.
       if result \<noteq> None then Return result
       else pbind (act_read errno) (\<lambda>e.
         if e \<noteq> ENODEV then Return result else mt_substitute k a l p f fd off))"
  have "isafe tot k (mapping_good a l p f fd off) ?own s2" if orig
  proof -
    from ex that obtain s' where "ion_rel s1 s'" "ion_inv k s'" "g_orig_mmap s'" by auto
    with res have dl: "k_dlsym k ''mmap''" by (auto simp: ion_inv_def ion_rel_def)
    show ?thesis
    proof (rule ion.safe_bind [OF isafe_mmap [OF once dl] _ s2(2)])
      fix r s3 assume s3: "ion_rel s2 s3" "ion_inv k s3" "SysMmap a l p f fd off r \<in> set (hist s3)"
      then have own: "mapping_good a l p f fd off r s3" by (auto simp: mapping_good_def)
      have once3: "g_resolve_once s3" using once s3(1) by (auto simp: ion_rel_def)
      have "isafe tot k (mapping_good a l p f fd off)
        (pbind (act_read errno) (\<lambda>e. if e \<noteq> ENODEV then Return r else mt_substitute k a l p f fd off)) s3"
      proof (rule ion.safe_bind [OF isafe_read _ s3(2)])
        fix e s4 assume s4: "ion_rel s3 s4" "ion_inv k s4"
        have "g_resolve_once s4" using once3 s4(1) by (auto simp: ion_rel_def)
        with isafe_substitute [OF s4(2) _ dl] isafe_mapping [OF mapping_good_rel [OF own s4(1)]]
        show "isafe tot k (mapping_good a l p f fd off) (if e \<noteq> ENODEV then Return r else mt_substitute k a l p f fd off) s4"
          by (cases "e = ENODEV"; simp only: if_True if_False simp_thms)
      qed
      with isafe_mapping [OF own]
      show "isafe tot k (mapping_good a l p f fd off) (if r \<noteq> None then Return r
        else pbind (act_read errno) (\<lambda>e. if e \<noteq> ENODEV then Return r else mt_substitute k a l p f fd off)) s3"
        by (cases "r = None"; simp only: if_True if_False simp_thms)
    qed
  qed
  with isafe_no_mapping [OF s2(2)]
  show "isafe tot k (mapping_good a l p f fd off)
    (if \<not> orig then pbind (mt_set_errno ENOSYS) (\<lambda>_. Return None) else ?own) s2"
    by (cases orig; simp only: if_True if_False simp_thms)
qed

subsection \<open>Any call, any client\<close>

definition call_good :: "shim_call \<Rightarrow> shim_result \<Rightarrow> shim \<Rightarrow> bool" where
  "call_good c r s = (case (c, r) of
     (CIoctl fd rq arg, RIoctl rc a) \<Rightarrow> ioctl_good rq (rc, a) s
   | (CMmap a l p f fd off, RMmap q) \<Rightarrow> mapping_good a l p f fd off q s
   | (COpen _ _ _, ROpen _) \<Rightarrow> True
   | _ \<Rightarrow> False)"

lemma isafe_call:
  assumes "ion_inv k s" "env_ok tot k" "tot \<Longrightarrow> typed_call c"
  shows "isafe tot k (call_good c) (mt_call k c) s"
proof (cases c)
  case (COpen path flags mode)
  show ?thesis unfolding COpen mt_call_def shim_call.case
    by (rule ion.safe_bind [OF isafe_open [OF assms(1)] _ assms(1)]) (simp add: call_good_def)
next
  case (CIoctl fd rq arg)
  have "tot \<Longrightarrow> arg_conforms rq arg" using assms(3) CIoctl by (simp add: typed_call_def)
  from isafe_ioctl_call [OF assms(1,2) this] show ?thesis unfolding CIoctl mt_call_def shim_call.case
    by (rule ion.safe_bind [OF _ _ assms(1)])
      (auto simp: call_good_def ioctl_good_def intro: alloc_good_rel)
next
  case (CMmap a l p f fd off)
  show ?thesis unfolding CMmap mt_call_def shim_call.case
    by (rule ion.safe_bind [OF isafe_mmap_call [OF assms(1)] _ assms(1)])
      (simp add: call_good_def mapping_good_rel)
qed

lemma isafe_client:
  assumes "client k tot p" "env_ok tot k"
  shows "ion_inv k s \<Longrightarrow> isafe tot k (\<lambda>_ _. True) p s"
  using assms(1)
proof (induction arbitrary: s rule: client.induct)
  case (client_call c f)
  have "isafe tot k (call_good c) (mt_call k c) s"
    using client_call by (intro isafe_call assms(2)) auto
  then show ?case by (rule ion.safe_bind [OF _ _ client_call.prems]) (rule client_call.IH)
qed simp

end
