(* ===== verification/Ion_Thread_Properties.thy ===== *)
theory Ion_Thread_Properties
  imports Ion_Call_Bounds Ion_Interference
begin

section \<open>Camera ION shim: properties of threads\<close>

text \<open>
  What a process with several threads may rely on, and what not: the search for a registry record,
  the look at it and the mark on it are separate sections under the mutex, so that two threads
  may be given the same record.
\<close>

text \<open>One call that no other thread interrupts is the sequential function: the programs of
  atomic actions and the functions of \<open>Ion_Shim\<close> are two readings of the same code.\<close>
theorem ion_threads_sequential: "run (mt_call k c) s = seq_call k c s"
  by (cases c)
     (auto simp: mt_call_def seq_call_def run_open run_ioctl run_mmap regroup_def split_def
       map_prod_def bind_map_option map_conv_bind_option intro!: bind_cases_eq)

subsection \<open>A process\<close>

definition demo_threads :: "((shim, shim_result) prog \<times> int) list" where
  "demo_threads = [(mt_call demo_kernel (CIoctl 7 SHIM_ION_IOC_ALLOC (AllocArg demo_request)), 0),
     (mt_call demo_kernel (CMmap 0 4096 3 1 5 0), 0)]"

lemma client_one_call: "(typed \<longrightarrow> typed_call c) \<Longrightarrow> client k typed (mt_call k c)"
  using client_call [of typed c k Return] by (simp add: client_done)

lemma demo_clients: "\<forall>t\<in>set demo_threads. client demo_kernel typed (fst t)"
  by (auto simp: demo_threads_def typed_call_def arg_conforms_def intro!: client_one_call)

lemma clients_safe:
  assumes "\<forall>t\<in>set ts. client k tot (fst t)" "env_ok tot k" "i < length ts"
  shows "isafe tot k (\<lambda>_ _. True) (fst (ts ! i)) init_shim"
  using assms by (intro isafe_client [OF _ assms(2) ion_init]) simp

text \<open>Both threads scheduled in turn.\<close>

definition demo_schedule :: "nat list" where
  "demo_schedule = concat (replicate 1047 [0, 1])"

lemma count_turns: "count_list (concat (replicate n [0, 1 :: nat])) 0 = n"
  "count_list (concat (replicate n [0, 1 :: nat])) 1 = n"
  by (induction n) simp_all

lemma demo_run: "\<exists>ts s. ion_sched is (demo_threads, init_shim) = Some (ts, s)"
  using ion.sched_safe [OF ion_init clients_safe [OF demo_clients, of True], of "is"]
  by (auto simp: env_ok_def demo_kernel_def split: option.splits)

text \<open>C6. The registries under interleaving: whatever calls the threads of a process make, in
  whatever order their actions take place and whatever the kernel answers, every index stays in
  its array, every valid allocation record is of a handle that the kernel granted and of a
  length in which its export was mapped, and every valid descriptor record is of a descriptor
  that the kernel exported for such a handle and length.\<close>
theorem ion_threads_registry:
  assumes "\<forall>t\<in>set ts. client k False (fst t)" "ion_sched is (ts, init_shim) = Some (ts', s')"
  shows "registry_ok s' \<and>
    (\<forall>r\<in>set (g_alloc_records s'). ar_valid r \<longrightarrow>
       granted (hist s') (ar_handle r) \<and> mappable (hist s') (ar_handle r) (ar_len r)) \<and>
    (\<forall>r\<in>set (g_mapped_fd_records s'). mr_valid r \<longrightarrow> exported (hist s') (mr_fd r) (mr_len r))"
  using ion.sched_safe [OF ion_init clients_safe [OF assms(1)], of "is"] assms(2)
  by (simp add: env_ok_def ion_inv_def provenance_def)

text \<open>C17. No crash under interleaving: where the linker finds \<open>mmap\<close> if it finds \<open>ioctl\<close>, and each
  \<open>ioctl\<close> has an argument of the type that its request names, no schedule leads to a call through a
  null pointer or another undefined step.\<close>
theorem ion_threads_defined:
  assumes "\<forall>t\<in>set ts. client k True (fst t)" "k_dlsym k ''ioctl'' \<longrightarrow> k_dlsym k ''mmap''"
  shows "ion_sched is (ts, init_shim) \<noteq> None"
  using ion.sched_safe [OF ion_init clients_safe [OF assms(1)], of "is"] assms(2)
  by (simp add: env_ok_def split: option.splits)

theorem ion_threads_defined_witness: "ion_sched [0, 1, 0, 1, 1, 0] (demo_threads, init_shim) \<noteq> None"
  by (rule ion_threads_defined [OF demo_clients]) (simp add: demo_kernel_def)

theorem ion_threads_registry_witness:
  "\<exists>ts s. ion_sched [0, 1, 0, 1, 1, 0] (demo_threads, init_shim) = Some (ts, s) \<and> registry_ok s"
  using demo_run ion_threads_registry [OF demo_clients] by blast

text \<open>C16. What a call returns under interleaving: among any other threads, an \<open>ION_IOC_ALLOC\<close> that
  succeeds returns a handle that the kernel granted and that was mapped in full length, and an
  \<open>mmap\<close> that succeeds returned the caller's own mapping, or one of a descriptor that the kernel
  exported for such a handle.\<close>
theorem ion_threads_results:
  assumes "fst (ts ! i) = mt_call k c" "i < length ts" "\<forall>j < length ts. j \<noteq> i \<longrightarrow> client k False (fst (ts ! j))"
    and "ion_sched is (ts, init_shim) = Some (ts', s')" "fst (ts' ! i) = Return r"
  shows "case (c, r) of
      (CIoctl fd rq arg, RIoctl rc a) \<Rightarrow> rq = SHIM_ION_IOC_ALLOC \<and> 0 \<le> rc \<longrightarrow>
        (\<exists>d. a = AllocArg d \<and> granted (hist s') (ad_handle d) \<and> mappable (hist s') (ad_handle d) (ad_len d))
    | (CMmap a l p f fd off, RMmap q) \<Rightarrow> (\<forall>x. q = Some x \<longrightarrow>
        SysMmap a l p f fd off (Some x) \<in> set (hist s') \<or>
        (\<exists>fd' len. exported (hist s') fd' len \<and> SysMmap a l p f fd' off (Some x) \<in> set (hist s')))
    | (COpen _ _ _, ROpen _) \<Rightarrow> True
    | _ \<Rightarrow> False"
proof -
  let ?Q = "\<lambda>j. if j = i then call_good c else (\<lambda>_ _. True)"
  have env: "env_ok False k" by (simp add: env_ok_def)
  have "isafe False k (?Q j) (fst (ts ! j)) init_shim" if "j < length ts" for j
    using that assms(1,3) isafe_call [OF ion_init env] isafe_client [OF _ env ion_init] by (cases "j = i") auto
  from ion.sched_result [OF ion_init this assms(4,2,5)] have "call_good c r s'" by simp
  then show ?thesis
    by (auto simp: call_good_def ioctl_good_def alloc_good_def good_handle_def mapping_good_def
        split: shim_call.splits shim_result.splits)
qed

theorem ion_threads_results_witness:
  "\<exists>ts s rc a. ion_sched demo_schedule (demo_threads, init_shim) = Some (ts, s) \<and>
     fst (ts ! 0) = Return (RIoctl rc a) \<and>
     (rc < 0 \<or> (\<exists>d. a = AllocArg d \<and> granted (hist s) (ad_handle d) \<and>
       mappable (hist s) (ad_handle d) (ad_len d)))"
proof -
  let ?c = "CIoctl 7 SHIM_ION_IOC_ALLOC (AllocArg demo_request)"
  obtain ts s where run: "ion_sched demo_schedule (demo_threads, init_shim) = Some (ts, s)"
    using demo_run by blast
  have c: "fst (demo_threads ! 0) = mt_call demo_kernel ?c" "0 < length demo_threads"
    by (simp_all add: demo_threads_def)
  have "within (count_list demo_schedule 0) (fst (demo_threads ! 0))"
    unfolding c demo_schedule_def count_turns by (rule within_call)
  with sched_within [OF run c(2)] obtain r where r: "fst (ts ! 0) = Return r" by blast
  have others: "\<forall>j < length demo_threads. j \<noteq> 0 \<longrightarrow> client demo_kernel False (fst (demo_threads ! j))"
    using demo_clients by simp
  from ion_threads_results [OF c others run r] obtain rc a where
    "r = RIoctl rc a" "0 \<le> rc \<longrightarrow> (\<exists>d. a = AllocArg d \<and> granted (hist s) (ad_handle d) \<and>
       mappable (hist s) (ad_handle d) (ad_len d))"
    by (cases r) auto
  with run r show ?thesis by (auto simp: not_le [symmetric])
qed

text \<open>Scheduled 1047 times a call has returned; each section and \<open>pthread_once\<close> count once.\<close>
lemma ion_call_bounded:
  assumes "fst (ts ! i) = mt_call k c" "i < length ts" "1047 \<le> count_list is i"
    and "ion_sched is (ts, s) = Some (ts', s')"
  shows "\<exists>r. fst (ts' ! i) = Return r"
  by (rule sched_within [OF assms(4,2)]) (simp add: assms(1) within_mono [OF within_call assms(3)])

lemmas step_defs = mt_call_def mt_mmap_def mt_substitute_def act_upd_def act_read_def act_def

text \<open>C19. A race: the search for a usable record, the look at it and the mark on it are separate
  sections under the mutex. Whenever a record would be used, two threads that ask for the same
  mapping can both be given it: the descriptor is mapped twice, although a record that \<open>mmap\<close>
  has used can, without interruption, never be used again.\<close>
theorem ion_mmap_race:
  assumes "g_resolve_once s" "g_orig_mmap s" "camera_ion_shim_find_mapped_fd_candidate l fd s = int i"
    and "\<And>h. k_mmap k h a l p f fd off = (None, ENODEV)"
    and "\<And>h. k_mmap k h a l p f (mr_fd (g_mapped_fd_records s ! i)) off = (Some q, e)"
  shows "\<exists>is ts s'. ion_sched is ([(mt_call k (CMmap a l p f fd off), e1), (mt_call k (CMmap a l p f fd off), e2)], s) =
      Some (ts, s') \<and> map fst ts = [Return (RMmap (Some q)), Return (RMmap (Some q))] \<and>
    hist s' = hist s @ [SysMmap a l p f fd off None, SysMmap a l p f fd off None,
      SysMmap a l p f (mr_fd (g_mapped_fd_records s ! i)) off (Some q),
      SysMmap a l p f (mr_fd (g_mapped_fd_records s ! i)) off (Some q)]"
  using assms
  by (intro exI [of _ "[0, 0, 0, 0, 0, 0, 0, 1, 1, 1, 1, 1, 1, 1, 0, 0, 1, 1]"])
     (simp add: step_defs orig_mmap_def log_call_def resolve_once_def mark_consumed_def
       camera_ion_shim_find_mapped_fd_candidate_def)

theorem ion_mmap_race_witness:
  "\<exists>is ts s'. ion_sched is ([(mt_call demo_kernel (CMmap 0 4096 3 1 7 0), 0),
      (mt_call demo_kernel (CMmap 0 4096 3 1 7 0), 0)], resolve_once demo_kernel one_export) = Some (ts, s') \<and>
    map fst ts = [Return (RMmap (Some 0x40000000)), Return (RMmap (Some 0x40000000))]"
proof -
  let ?s = "resolve_once demo_kernel one_export"
  have s: "g_resolve_once ?s" "g_orig_mmap ?s"
    by (simp_all add: one_export_def run_simps camera_ion_shim_record_mapped_fd_def)
  have c: "camera_ion_shim_find_mapped_fd_candidate 4096 7 ?s = int 0"
    by (simp add: one_export_def run_simps camera_ion_shim_record_mapped_fd_def
        camera_ion_shim_find_mapped_fd_candidate_def empty_mapped_fd_record_def replicate_16)
  have r: "mr_fd (g_mapped_fd_records ?s ! 0) = 109"
    by (simp add: one_export_def run_simps camera_ion_shim_record_mapped_fd_def)
  have k: "k_mmap demo_kernel h 0 4096 3 1 7 0 = (None, ENODEV)"
    "k_mmap demo_kernel h 0 4096 3 1 (mr_fd (g_mapped_fd_records ?s ! 0)) 0 = (Some 0x40000000, 0)" for h
    unfolding r by (simp_all add: demo_kernel_def ENODEV_def)
  from ion_mmap_race [OF s c k, of 0 0] show ?thesis
    by (elim exE conjE) (intro exI conjI, assumption+)
qed

end
