(* ===== verification/Ion_Recovery.thy ===== *)
theory Ion_Recovery
  imports Ion_Properties
begin

section \<open>Camera ION shim: a buffer from its allocation to its mapping\<close>

text \<open>
  What the library is for, across its exported functions: a buffer that was allocated and exported
  through it can be mapped even by a caller that passes the wrong descriptor. The lemmas say what
  each call leaves for the next one.
\<close>

lemma prop_once_resolved [simp]: "g_resolve_once (prop_once k s) = g_resolve_once s"
  by (rule ion_prop.once_frame) (simp add: camera_ion_shim_resolve_property_def)

text \<open>An allocation of a handle that no record names makes its length known.\<close>

lemma alloc_known:
  assumes "shim_ioctl k dev SHIM_ION_IOC_ALLOC (AllocArg d) s = Some (rc, AllocArg d', s')" "0 \<le> rc"
    and "registry_ok s" "camera_ion_shim_lookup_alloc_len (ad_handle d') s = None"
  shows "camera_ion_shim_lookup_alloc_len (ad_handle d') s' = Some (ad_len d')"
    and "g_resolve_once s'" "g_orig_mmap s' = g_orig_mmap (resolve_once k s)"
    and "g_mapped_fd_records s' = g_mapped_fd_records s" "registry_ok s'"
proof -
  obtain evs s1 e where c: "only_calls (prop_once k (resolve_once k s)) evs s1"
    and s': "s' = (camera_ion_shim_record_alloc (ad_handle d') (ad_len d') s1)\<lparr>errno := e\<rparr>"
    using alloc_success_state [OF assms(1,2)] by blast
  note f = only_calls_fields [OF c]
  have known: "camera_ion_shim_lookup_alloc_len h (t\<lparr>errno := e\<rparr>) = camera_ion_shim_lookup_alloc_len h t" for h t
    by (simp add: camera_ion_shim_lookup_alloc_len_def)
  have ok: "registry_ok s1" using c assms(3) by (blast intro: keeps_inv)
  have "camera_ion_shim_lookup_alloc_len (ad_handle d') s1 = None"
    using assms(4) f(9) by (simp add: camera_ion_shim_lookup_alloc_len_def)
  from ion_lookup_after_record [OF ok this, of "[]" "ad_len d'"]
  show "camera_ion_shim_lookup_alloc_len (ad_handle d') s' = Some (ad_len d')"
    by (simp add: s' known)
  show "registry_ok s'" using ok by (simp add: s' registry_ok_record_alloc)
  show "g_resolve_once s'" "g_orig_mmap s' = g_orig_mmap (resolve_once k s)"
    "g_mapped_fd_records s' = g_mapped_fd_records s"
    using f ion_resolve.once_ran [of k s] by (simp_all add: s' camera_ion_shim_record_alloc_def)
qed

text \<open>Exporting a handle of known length records the descriptor with that length.\<close>

lemma export_recorded:
  assumes "rq = SHIM_ION_IOC_MAP \<or> rq = SHIM_ION_IOC_SHARE"
    and "shim_ioctl k dev rq (FdArg x) s = Some (rc, FdArg x', s')" "0 \<le> rc"
    and "g_resolve_once s" "camera_ion_shim_lookup_alloc_len (fdd_handle x') s = Some len"
  obtains s1 evs where "only_calls s evs s1" "s' = camera_ion_shim_record_mapped_fd (fdd_fd x') len s1"
proof -
  from assms(1,2,3) have "ioctl_map_share k dev rq (FdArg x) s = Some (rc, FdArg x', s')"
    unfolding shim_ioctl_def ion_resolve.once_again [OF assms(4)] by (auto split: if_splits)
  then show thesis
  proof (rule map_share_cases)
    fix s1
    assume io: "orig_ioctl k dev rq (FdArg x) s = Some (rc, FdArg x', s1)"
      and "if 0 \<le> rc then \<exists>d. FdArg x' = FdArg d \<and> s' =
         (case camera_ion_shim_lookup_alloc_len (fdd_handle d) s1 of
            Some len \<Rightarrow> camera_ion_shim_record_mapped_fd (fdd_fd d) len s1 | None \<Rightarrow> s1)
       else s' = s1"
    moreover from assms(5) only_calls_fields(9) [OF orig_ioctl_calls [OF io]]
    have "camera_ion_shim_lookup_alloc_len (fdd_handle x') s1 = Some len"
      by (simp add: camera_ion_shim_lookup_alloc_len_def)
    ultimately show thesis using assms(3) that [OF orig_ioctl_calls [OF io]] by auto
  qed
qed

text \<open>The one usable record is the one that \<open>mmap\<close> takes.\<close>

lemma only_usable:
  assumes "registry_ok s" "\<forall>r \<in> set (g_mapped_fd_records s). \<not> usable len fd r"
    and "i < length (g_mapped_fd_records s)"
    and "usable len fd (g_mapped_fd_records (camera_ion_shim_record_mapped_fd x len s) ! i)"
  shows "mr_fd (g_mapped_fd_records (camera_ion_shim_record_mapped_fd x len s) ! i) = x"
  using assms nth_mem [OF assms(3)]
  by (cases "i = g_mapped_fd_record_next s") (auto simp: camera_ion_shim_record_mapped_fd_def)

text \<open>C3. The calls of a buffer's life together: it is allocated, its handle is exported by
  \<open>ION_IOC_MAP\<close> or \<open>ION_IOC_SHARE\<close>, and then \<open>mmap\<close> is called with its length and another
  descriptor. Unless the kernel accepts that descriptor, or refuses it with another error than
  \<open>ENODEV\<close>, the request is repeated with the exported descriptor, and the caller gets what
  the kernel answers to that. The handle must be new to the registry, and no older export of the
  same length may be left unused.\<close>
theorem ion_recovery:
  assumes "shim_ioctl k dev SHIM_ION_IOC_ALLOC (AllocArg d) s = Some (rc, AllocArg d', s1)" "0 \<le> rc"
    and "rq = SHIM_ION_IOC_MAP \<or> rq = SHIM_ION_IOC_SHARE"
    and "shim_ioctl k dev rq (FdArg x) s1 = Some (rc', FdArg x', s2)" "0 \<le> rc'"
    and "fdd_handle x' = ad_handle d'" "fdd_fd x' \<noteq> fd"
    and "shim_mmap k a (ad_len d') p f fd off s2 = Some (q, s3)"
    and "registry_ok s" "g_orig_mmap (resolve_once k s)"
    and "camera_ion_shim_lookup_alloc_len (ad_handle d') s = None"
    and "\<forall>r \<in> set (g_mapped_fd_records s). \<not> usable (ad_len d') fd r"
  shows "hist s3 = hist s2 @ [SysMmap a (ad_len d') p f fd off q] \<and> (q = None \<longrightarrow> errno s3 \<noteq> ENODEV) \<or>
    hist s3 = hist s2 @ [SysMmap a (ad_len d') p f fd off None,
      SysMmap a (ad_len d') p f (fdd_fd x') off q] \<and> (q = None \<longrightarrow> errno s3 = ENODEV)"
proof -
  note a = alloc_known [OF assms(1,2,9,11)]
  obtain s1' evs where c: "only_calls s1 evs s1'"
    and s2: "s2 = camera_ion_shim_record_mapped_fd (fdd_fd x') (ad_len d') s1'"
    using export_recorded [OF assms(3,4,5) a(2)] a(1) unfolding assms(6) by blast
  note fields = only_calls_fields [OF c]
  have ok: "registry_ok s1'" using c a(5) by (rule only_calls_registry)
  have none: "\<forall>r \<in> set (g_mapped_fd_records s1'). \<not> usable (ad_len d') fd r"
    using assms(12) a(4) fields by simp
  have "g_resolve_once s2" "g_orig_mmap s2"
    using a(2,3) assms(10) fields by (simp_all add: s2 camera_ion_shim_record_mapped_fd_def)
  then have res: "resolve_once k s2 = s2" "g_orig_mmap (resolve_once k s2)"
    by (simp_all add: ion_resolve.once_again)
  have slot: "g_mapped_fd_record_next s1' < length (g_mapped_fd_records s1')"
    using ok by (simp add: registry_ok_def ring_ok_def)
  have new: "usable (ad_len d') fd (g_mapped_fd_records s2 ! g_mapped_fd_record_next s1')"
    using slot assms(7) by (simp add: s2 camera_ion_shim_record_mapped_fd_def usable_def)
  have len: "length (g_mapped_fd_records s2) = length (g_mapped_fd_records s1')"
    by (simp add: s2 camera_ion_shim_record_mapped_fd_def)
  from assms(8) show ?thesis
  proof (cases rule: mmap_cases)
    case direct
    then show ?thesis using res by (auto simp: only_calls_hist)
  next
    case no_candidate
    with new slot len show ?thesis by (metis nth_mem)
  next
    case (substituted i t)
    then have "mr_fd (g_mapped_fd_records s2 ! i) = fdd_fd x'"
      using only_usable [OF ok none] len unfolding s2 by simp
    with substituted res show ?thesis by (auto simp: only_calls_hist mark_consumed_def)
  qed (use res in simp)
qed

definition life_request :: shim_ion_allocation_data where
  "life_request = demo_request\<lparr>ad_heap_id_mask := 16\<rparr>"

definition life_export :: shim_ion_fd_data where
  "life_export = \<lparr>fdd_handle = 1, fdd_fd = 0\<rparr>"

lemma life_run:
  obtains s1 s2 s3 where
    "shim_ioctl demo_kernel 7 SHIM_ION_IOC_ALLOC (AllocArg life_request) init_shim =
       Some (0, AllocArg (life_request\<lparr>ad_handle := 1\<rparr>), s1)"
    "shim_ioctl demo_kernel 7 SHIM_ION_IOC_SHARE (FdArg life_export) s1 =
       Some (0, FdArg (life_export\<lparr>fdd_fd := 101\<rparr>), s2)"
    "shim_mmap demo_kernel 0 4096 3 1 7 0 s2 = Some (Some 0x40000000, s3)"
    "length (hist s3) = length (hist s2) + 2"
proof -
  have "map_option (\<lambda>(r1, a1, r2, a2, q, n). (r1, a1, r2, a2, q, n)) (do {
      (r1, a1, s1) \<leftarrow> shim_ioctl demo_kernel 7 SHIM_ION_IOC_ALLOC (AllocArg life_request) init_shim;
      (r2, a2, s2) \<leftarrow> shim_ioctl demo_kernel 7 SHIM_ION_IOC_SHARE (FdArg life_export) s1;
      (q, s3) \<leftarrow> shim_mmap demo_kernel 0 4096 3 1 7 0 s2;
      Some (r1, a1, r2, a2, q, length (hist s3) - length (hist s2))
    }) = Some (0, AllocArg (life_request\<lparr>ad_handle := 1\<rparr>), 0, FdArg (life_export\<lparr>fdd_fd := 101\<rparr>),
      Some 0x40000000, 2)"
    by (simp add: run_simps life_request_def life_export_def ioctl_map_share_def
        camera_ion_shim_lookup_alloc_len_def empty_alloc_record_def replicate_16
        shim_mmap_def mmap_substitute_def ENODEV_def
        camera_ion_shim_record_mapped_fd_def camera_ion_shim_find_mapped_fd_candidate_def
        empty_mapped_fd_record_def mark_consumed_def del: bind_Some_iff)
  then show thesis using that by (auto split: prod.splits)
qed

theorem ion_recovery_witness:
  "\<exists>s2 s3. shim_mmap demo_kernel 0 4096 3 1 7 0 s2 = Some (Some 0x40000000, s3) \<and>
     hist s3 = hist s2 @ [SysMmap 0 4096 3 1 7 0 None, SysMmap 0 4096 3 1 101 0 (Some 0x40000000)]"
proof -
  obtain s1 s2 s3 where run:
    "shim_ioctl demo_kernel 7 SHIM_ION_IOC_ALLOC (AllocArg life_request) init_shim =
       Some (0, AllocArg (life_request\<lparr>ad_handle := 1\<rparr>), s1)"
    "shim_ioctl demo_kernel 7 SHIM_ION_IOC_SHARE (FdArg life_export) s1 =
       Some (0, FdArg (life_export\<lparr>fdd_fd := 101\<rparr>), s2)"
    "shim_mmap demo_kernel 0 4096 3 1 7 0 s2 = Some (Some 0x40000000, s3)"
    and two: "length (hist s3) = length (hist s2) + 2" by (rule life_run)
  have len: "ad_len (life_request\<lparr>ad_handle := 1\<rparr>) = 4096"
    by (simp add: life_request_def demo_request_def)
  have "camera_ion_shim_lookup_alloc_len 1 init_shim = None"
    by (simp add: lookup_None_iff init_shim_def empty_alloc_record_def)
  moreover have "\<forall>r \<in> set (g_mapped_fd_records init_shim). \<not> usable 4096 7 r"
    by (simp add: init_shim_def empty_mapped_fd_record_def usable_def)
  moreover have "g_orig_mmap (resolve_once demo_kernel init_shim)" by (simp add: run_simps)
  ultimately have "hist s3 = hist s2 @ [SysMmap 0 4096 3 1 7 0 (Some 0x40000000)] \<or>
      hist s3 = hist s2 @ [SysMmap 0 4096 3 1 7 0 None, SysMmap 0 4096 3 1 101 0 (Some 0x40000000)]"
    using ion_recovery [OF run(1) _ _ run(2) _ _ _ run(3) [folded len] registry_ok_init] len
    by (auto simp: life_export_def)
  with two run(3) show ?thesis by auto
qed

subsection \<open>Limits of the substitution\<close>

text \<open>
  A descriptor is chosen by its length alone: of two exported buffers of one length the one in the
  lower slot is mapped, whichever the caller meant. Giving a handle back is passed on to the kernel
  and leaves its records, so that a later handle of the same value is taken for it.
\<close>

theorem ion_same_length:
  assumes "registry_ok s" "g_mapped_fd_record_next s < 15" "f1 \<noteq> fd"
    and "\<forall>r \<in> set (g_mapped_fd_records s). \<not> usable len fd r"
  shows "camera_ion_shim_find_mapped_fd_candidate len fd
      (camera_ion_shim_record_mapped_fd f2 len (camera_ion_shim_record_mapped_fd f1 len s)) =
    int (g_mapped_fd_record_next s)"
proof -
  let ?n = "g_mapped_fd_record_next s"
  have len: "length (g_mapped_fd_records s) = 16"
    using assms(1) by (simp add: registry_ok_def ring_ok_def SHIM_MAX_MAPPED_FD_RECORDS_def)
  have "\<not> usable len fd (g_mapped_fd_records s ! j)" if "j < ?n" for j
    using assms(2,4) len that by simp
  with len assms(2,3) show ?thesis
    unfolding find_candidate_index
    by (auto simp: camera_ion_shim_record_mapped_fd_def SHIM_MAX_MAPPED_FD_RECORDS_def usable_def nth_list_update)
qed

theorem ion_free_keeps_records:
  assumes "shim_ioctl k fd SHIM_ION_IOC_FREE arg s = Some (rc, arg', s')"
  shows "g_alloc_records s' = g_alloc_records s" "g_mapped_fd_records s' = g_mapped_fd_records s"
proof -
  from assms consider "s' = (resolve_once k s)\<lparr>errno := ENOSYS\<rparr>"
    | "orig_ioctl k fd SHIM_ION_IOC_FREE arg (resolve_once k s) = Some (rc, arg', s')"
    by (auto simp: shim_ioctl_def Let_def split: if_splits)
  then have "g_alloc_records s' = g_alloc_records s \<and> g_mapped_fd_records s' = g_mapped_fd_records s"
    by cases (auto dest: orig_ioctl_calls simp: only_calls_fields)
  then show "g_alloc_records s' = g_alloc_records s" "g_mapped_fd_records s' = g_mapped_fd_records s"
    by simp_all
qed

end
