(* ===== verification/Mutex.thy ===== *)
theory Mutex
  imports CPrelude
begin

section \<open>Operations behind one mutex\<close>

text \<open>
  Threads that call operations whose bodies lock a mutex, work on shared memory in small steps and
  unlock it. Here waiting is part of the model: a thread whose next step is the lock does nothing
  while another thread, or itself, holds the mutex, and unlocking a mutex that one does not hold
  is undefined. The locale \<open>monitor\<close> shows what such a module has if every body, alone, locks
  once, has the effect of its sequential function and unlocks: every run is equivalent to
  the sequential functions one after the other, and no schedule leads to a deadlock.
\<close>

subsection \<open>Programs with locks\<close>

text \<open>A program has returned, does a step on the shared memory (\<open>None\<close>: undefined), locks or unlocks.\<close>

datatype ('s, 'r) lprog =
    LRet 'r
  | LDo "'s \<Rightarrow> (('s, 'r) lprog \<times> 's) option"
  | LLock "('s, 'r) lprog"
  | LUnlock "('s, 'r) lprog"

definition lread :: "('s \<Rightarrow> 'a option) \<Rightarrow> ('a \<Rightarrow> ('s, 'r) lprog) \<Rightarrow> ('s, 'r) lprog" where
  "lread f k = LDo (\<lambda>s. map_option (\<lambda>v. (k v, s)) (f s))"

definition lwrite :: "('s \<Rightarrow> 's option) \<Rightarrow> ('s, 'r) lprog \<Rightarrow> ('s, 'r) lprog" where
  "lwrite f p = LDo (\<lambda>s. map_option (\<lambda>s. (p, s)) (f s))"

text \<open>The run of a section that nobody disturbs, up to and with its unlock.\<close>

primrec crit :: "('s, 'r) lprog \<Rightarrow> 's \<Rightarrow> (('s, 'r) lprog \<times> 's) option" where
  "crit (LRet r) = (\<lambda>s. None)"
| "crit (LDo f) = (\<lambda>s. case map_option (map_prod crit id) (f s) of None \<Rightarrow> None | Some (c, s') \<Rightarrow> c s')"
| "crit (LLock p) = (\<lambda>s. None)"
| "crit (LUnlock p) = (\<lambda>s. Some (p, s))"

lemma crit_LDo: "crit (LDo f) s = (case f s of None \<Rightarrow> None | Some (p, s') \<Rightarrow> crit p s')"
  by (auto split: option.split)

lemma crit_read [simp]: "crit (lread f k) s = (case f s of None \<Rightarrow> None | Some v \<Rightarrow> crit (k v) s)"
  by (simp add: lread_def split: option.split)

lemma crit_write [simp]: "crit (lwrite f p) s = (case f s of None \<Rightarrow> None | Some s' \<Rightarrow> crit p s')"
  by (simp add: lwrite_def split: option.split)

declare crit.simps(2) [simp del]

text \<open>A bound on the steps up to the return.\<close>

inductive lwithin :: "nat \<Rightarrow> ('s, 'r) lprog \<Rightarrow> bool" where
  within_ret: "lwithin n (LRet r)"
| within_do: "(\<And>s p s'. f s = Some (p, s') \<Longrightarrow> lwithin n p) \<Longrightarrow> lwithin (Suc n) (LDo f)"
| within_lock: "lwithin n p \<Longrightarrow> lwithin (Suc n) (LLock p)"
| within_unlock: "lwithin n p \<Longrightarrow> lwithin (Suc n) (LUnlock p)"

inductive_cases within_doE: "lwithin n (LDo f)"
inductive_cases within_lockE: "lwithin n (LLock p)"
inductive_cases within_unlockE: "lwithin n (LUnlock p)"

lemma lwithin_mono: "lwithin m p \<Longrightarrow> m \<le> n \<Longrightarrow> lwithin n p"
proof (induction m p arbitrary: n rule: lwithin.induct)
  case (within_do f m)
  then obtain n' where "n = Suc n'" "m \<le> n'" by (cases n) auto
  with within_do.IH show ?case by (auto intro: lwithin.within_do)
next
  case (within_lock m p)
  then obtain n' where "n = Suc n'" "m \<le> n'" by (cases n) auto
  with within_lock.IH show ?case by (auto intro: lwithin.within_lock)
next
  case (within_unlock m p)
  then obtain n' where "n = Suc n'" "m \<le> n'" by (cases n) auto
  with within_unlock.IH show ?case by (auto intro: lwithin.within_unlock)
qed (rule within_ret)

lemma lwithin_read: "(\<And>v. lwithin n (k v)) \<Longrightarrow> lwithin (Suc n) (lread f k)"
  unfolding lread_def by (rule within_do) auto

lemma lwithin_write: "lwithin n p \<Longrightarrow> lwithin (Suc n) (lwrite f p)"
  unfolding lwrite_def by (rule within_do) auto

definition moves :: "('s, 'r) lprog \<Rightarrow> nat" where
  "moves p = (LEAST n. lwithin n p)"

definition bounded :: "('s, 'r) lprog \<Rightarrow> bool" where
  "bounded p \<longleftrightarrow> (\<exists>n. lwithin n p)"

lemma moves_le: "lwithin n p \<Longrightarrow> moves p \<le> n"
  unfolding moves_def by (rule Least_le)

lemma moves_within: "bounded p \<Longrightarrow> lwithin (moves p) p"
  unfolding moves_def bounded_def by (erule exE) (rule LeastI)

lemma moves_step:
  "bounded (LDo f) \<Longrightarrow> f s = Some (p, s') \<Longrightarrow> bounded p \<and> moves p < moves (LDo f)"
  "bounded (LLock p) \<Longrightarrow> bounded p \<and> moves p < moves (LLock p)"
  "bounded (LUnlock p) \<Longrightarrow> bounded p \<and> moves p < moves (LUnlock p)"
proof -
  have step: "bounded q \<and> moves q < moves p" if "bounded p" "\<And>n. lwithin n p \<Longrightarrow> \<exists>m. n = Suc m \<and> lwithin m q"
    for p q :: "('s, 'r) lprog"
    using that(2) [OF moves_within [OF that(1)]] by (auto simp: bounded_def dest: moves_le)
  show "bounded (LDo f) \<Longrightarrow> f s = Some (p, s') \<Longrightarrow> bounded p \<and> moves p < moves (LDo f)"
    by (rule step, assumption) (erule within_doE, blast)
  show "bounded (LLock p) \<Longrightarrow> bounded p \<and> moves p < moves (LLock p)"
    "bounded (LUnlock p) \<Longrightarrow> bounded p \<and> moves p < moves (LUnlock p)"
    by (rule step; auto elim: within_lockE within_unlockE)+
qed

subsection \<open>Threads\<close>

text \<open>
  Each thread has a list of operations to call. \<open>order\<close> is a record kept for the theorems, the
  calls in the order in which they got the mutex; \<open>got\<close> is what the calls of a thread returned.
\<close>

datatype ('s, 'op, 'r) task = Idle | Busy 'op "('s, 'r) lprog"

record ('s, 'op, 'r) thread =
  todo :: "'op list"
  task :: "('s, 'op, 'r) task"
  got :: "('op \<times> 'r) list"

record ('s, 'op, 'r) mon =
  owner :: "nat option"
  shared :: 's
  threads :: "('s, 'op, 'r) thread list"
  order :: "(nat \<times> 'op) list"

definition set_thread :: "nat \<Rightarrow> ('s, 'op, 'r) thread \<Rightarrow> ('s, 'op, 'r) mon \<Rightarrow> ('s, 'op, 'r) mon" where
  "set_thread i t c = c\<lparr>threads := (threads c)[i := t]\<rparr>"

text \<open>The next step of thread \<open>i\<close>; one that waits for the mutex or has finished does nothing.\<close>

definition mstep :: "('op \<Rightarrow> ('s, 'r) lprog) \<Rightarrow> nat \<Rightarrow> ('s, 'op, 'r) mon \<Rightarrow> ('s, 'op, 'r) mon option" where
  "mstep body i c =
     (if \<not> i < length (threads c) then Some c
      else let t = threads c ! i in
        case task t of
          Idle \<Rightarrow> (case todo t of
              [] \<Rightarrow> Some c
            | op # ops \<Rightarrow> Some (set_thread i (t\<lparr>todo := ops, task := Busy op (body op)\<rparr>) c))
        | Busy op p \<Rightarrow> (case p of
              LRet r \<Rightarrow> Some (set_thread i (t\<lparr>task := Idle, got := got t @ [(op, r)]\<rparr>) c)
            | LDo f \<Rightarrow> (case f (shared c) of
                  None \<Rightarrow> None
                | Some (q, s) \<Rightarrow> Some ((set_thread i (t\<lparr>task := Busy op q\<rparr>) c)\<lparr>shared := s\<rparr>))
            | LLock q \<Rightarrow> (if owner c = None
                then Some ((set_thread i (t\<lparr>task := Busy op q\<rparr>) c)\<lparr>owner := Some i, order := order c @ [(i, op)]\<rparr>)
                else Some c)
            | LUnlock q \<Rightarrow> (if owner c = Some i
                then Some ((set_thread i (t\<lparr>task := Busy op q\<rparr>) c)\<lparr>owner := None\<rparr>)
                else None)))"

definition mrun :: "('op \<Rightarrow> ('s, 'r) lprog) \<Rightarrow> nat list \<Rightarrow> ('s, 'op, 'r) mon \<Rightarrow> ('s, 'op, 'r) mon option" where
  "mrun body = run_steps (mstep body)"

definition begin_calls :: "'s \<Rightarrow> 'op list list \<Rightarrow> ('s, 'op, 'r) mon" where
  "begin_calls s opss = \<lparr>owner = None, shared = s,
     threads = map (\<lambda>ops. \<lparr>todo = ops, task = Idle, got = []\<rparr>) opss, order = []\<rparr>"

definition finished :: "('s, 'op, 'r) mon \<Rightarrow> bool" where
  "finished c \<longleftrightarrow> (\<forall>t \<in> set (threads c). task t = Idle \<and> todo t = [])"

text \<open>The sequential functions in a given order, with their results.\<close>

fun seq_exec :: "('op \<Rightarrow> 's \<Rightarrow> 'r \<times> 's) \<Rightarrow> (nat \<times> 'op) list \<Rightarrow> 's \<Rightarrow> (nat \<times> 'op \<times> 'r) list \<times> 's" where
  "seq_exec eff [] s = ([], s)"
| "seq_exec eff ((i, op) # xs) s =
     (let (r, s) = eff op s; (log, s) = seq_exec eff xs s in ((i, op, r) # log, s))"

lemma seq_exec_snoc:
  "seq_exec eff (xs @ [(i, op)]) s =
     (let (log, s) = seq_exec eff xs s; (r, s) = eff op s in (log @ [(i, op, r)], s))"
  by (induction xs arbitrary: s) (auto simp: split_beta Let_def)

text \<open>The part of one thread in such a log.\<close>

definition mine :: "nat \<Rightarrow> (nat \<times> 'op \<times> 'r) list \<Rightarrow> ('op \<times> 'r) list" where
  "mine i log = map snd (filter (\<lambda>e. fst e = i) log)"

lemma mine_snoc [simp]: "mine i [] = []" "mine i (log @ [(j, x)]) = mine i log @ (if i = j then [x] else [])"
  by (simp_all add: mine_def)

subsection \<open>Linearisation and termination\<close>

text \<open>
  The state of one thread, given the log of the sequential run: idle or not yet at the lock, it
  has got its part of the log; inside, the rest of its section will give the last entry; after
  the unlock it is about to return it.
\<close>

definition before :: "('op \<Rightarrow> ('s, 'r) lprog) \<Rightarrow> ('s, 'op, 'r) thread \<Rightarrow> bool" where
  "before body t \<longleftrightarrow> (case task t of Idle \<Rightarrow> True | Busy op p \<Rightarrow> p = body op)"

definition inside :: "('op \<times> 'r) list \<Rightarrow> 's \<Rightarrow> 's \<Rightarrow> ('s, 'op, 'r) thread \<Rightarrow> bool" where
  "inside log s sl t \<longleftrightarrow> (\<exists>op p r. task t = Busy op p \<and> crit p s = Some (LRet r, sl) \<and> log = got t @ [(op, r)])"

definition after :: "('op \<times> 'r) list \<Rightarrow> ('s, 'op, 'r) thread \<Rightarrow> bool" where
  "after log t \<longleftrightarrow> (\<exists>op r. task t = Busy op (LRet r) \<and> log = got t @ [(op, r)])"

fun current :: "('s, 'op, 'r) task \<Rightarrow> 'op list" where
  "current Idle = []"
| "current (Busy op p) = [op]"

fun task_bounded :: "('s, 'op, 'r) task \<Rightarrow> bool" where
  "task_bounded Idle \<longleftrightarrow> True"
| "task_bounded (Busy op p) \<longleftrightarrow> bounded p"

fun task_cost :: "('s, 'op, 'r) task \<Rightarrow> nat" where
  "task_cost Idle = 0"
| "task_cost (Busy op p) = Suc (moves p)"

locale monitor =
  fixes body :: "'op \<Rightarrow> ('s, 'r) lprog"
    and eff :: "'op \<Rightarrow> 's \<Rightarrow> 'r \<times> 's"
    and invar :: "'s \<Rightarrow> bool"
    and valid :: "'op \<Rightarrow> bool"
    and steps :: nat
  assumes body_locks: "valid op \<Longrightarrow> \<exists>p. body op = LLock p \<and>
      (\<forall>s. invar s \<longrightarrow> crit p s = Some (LRet (fst (eff op s)), snd (eff op s)))"
    and body_short: "valid op \<Longrightarrow> lwithin steps (body op)"
    and eff_invar: "invar s \<Longrightarrow> valid op \<Longrightarrow> invar (snd (eff op s))"
begin

definition thread_inv :: "'op list list \<Rightarrow> 's \<Rightarrow> ('s, 'op, 'r) mon \<Rightarrow> nat \<Rightarrow> bool" where
  "thread_inv opss s0 c i \<longleftrightarrow>
     (let t = threads c ! i; (log, sl) = seq_exec eff (order c) s0
      in opss ! i = map fst (got t) @ current (task t) @ todo t \<and> task_bounded (task t) \<and>
         (if owner c = Some i then inside (mine i log) (shared c) sl t
          else before body t \<and> got t = mine i log \<or> after (mine i log) t))"

definition mon_inv :: "'op list list \<Rightarrow> 's \<Rightarrow> ('s, 'op, 'r) mon \<Rightarrow> bool" where
  "mon_inv opss s0 c \<longleftrightarrow>
     length (threads c) = length opss \<and> invar (snd (seq_exec eff (order c) s0)) \<and>
     (case owner c of None \<Rightarrow> shared c = snd (seq_exec eff (order c) s0) | Some i \<Rightarrow> i < length opss) \<and>
     (\<forall>i < length opss. thread_inv opss s0 c i)"

lemma mon_inv_begin:
  assumes "invar s0"
  shows "mon_inv opss s0 (begin_calls s0 opss)"
  using assms by (simp add: mon_inv_def thread_inv_def begin_calls_def before_def)

text \<open>What a move of thread \<open>i\<close> has to give: the thread itself, and the frame for the others.\<close>

lemma mon_inv_step:
  assumes J: "mon_inv opss s0 c" and i: "i < length opss"
    and c': "threads c' = (threads c)[i := t]"
    and same: "order c' = order c \<or> (\<exists>op. order c' = order c @ [(i, op)])"
    and others: "\<And>j. j \<noteq> i \<Longrightarrow> owner c = Some j \<longleftrightarrow> owner c' = Some j"
    and frame: "\<And>j. j \<noteq> i \<Longrightarrow> owner c = Some j \<Longrightarrow> shared c' = shared c \<and> order c' = order c"
    and own: "thread_inv opss s0 c' i" "invar (snd (seq_exec eff (order c') s0))"
      "owner c' = None \<Longrightarrow> shared c' = snd (seq_exec eff (order c') s0)"
  shows "mon_inv opss s0 c'"
  unfolding mon_inv_def
proof (intro conjI allI impI)
  from J have len: "length (threads c) = length opss" by (simp add: mon_inv_def)
  then show "length (threads c') = length opss" using c' by simp
  show "invar (snd (seq_exec eff (order c') s0))" by (rule own(2))
  show "case owner c' of None \<Rightarrow> shared c' = snd (seq_exec eff (order c') s0) | Some j \<Rightarrow> j < length opss"
  proof (cases "owner c'")
    case (Some j)
    then show ?thesis using others [of j] i J by (cases "j = i") (auto simp: mon_inv_def)
  qed (use own(3) in simp)
  fix j assume j: "j < length opss"
  show "thread_inv opss s0 c' j"
  proof (cases "j = i")
    case False
    have "mine j (fst (seq_exec eff (order c') s0)) = mine j (fst (seq_exec eff (order c) s0))"
      using same False by (auto simp: seq_exec_snoc split_beta Let_def)
    moreover have "threads c' ! j = threads c ! j" using c' False by simp
    moreover have "thread_inv opss s0 c j" using J j by (simp add: mon_inv_def)
    ultimately show ?thesis
      using others [OF False] frame [OF False] by (auto simp: thread_inv_def split_beta Let_def)
  qed (use own(1) in simp)
qed

definition thread_cost :: "('s, 'op, 'r) thread \<Rightarrow> nat" where
  "thread_cost t = (steps + 2) * length (todo t) + task_cost (task t)"

definition weight :: "('s, 'op, 'r) mon \<Rightarrow> nat" where
  "weight c = sum_list (map thread_cost (threads c))"

lemma sum_list_less:
  "i < length ts \<Longrightarrow> thread_cost t < thread_cost (ts ! i) \<Longrightarrow>
   sum_list (map thread_cost (ts[i := t])) < sum_list (map thread_cost ts)"
proof (induction ts arbitrary: i)
  case (Cons x ts)
  then show ?case by (cases i) auto
qed simp

lemma body_not:
  assumes "valid op"
  shows "body op \<noteq> LRet r" "body op \<noteq> LDo f" "body op \<noteq> LUnlock q" "bounded (body op)"
  using body_locks [OF assms] body_short [OF assms] by (auto simp: bounded_def)

text \<open>A thread as the invariant sees it, with its part of the log and the sequential state.\<close>

lemma thread_facts:
  assumes "mon_inv opss s0 c" and "i < length opss"
    and "log = mine i (fst (seq_exec eff (order c) s0))" and "sl = snd (seq_exec eff (order c) s0)"
  shows "opss ! i = map fst (got (threads c ! i)) @ current (task (threads c ! i)) @ todo (threads c ! i)"
    and "task_bounded (task (threads c ! i))" and "i < length (threads c)"
    and "if owner c = Some i then inside log (shared c) sl (threads c ! i)
      else before body (threads c ! i) \<and> got (threads c ! i) = log \<or> after log (threads c ! i)"
    and "invar sl" and "owner c = None \<Longrightarrow> shared c = sl"
  using assms by (auto simp: mon_inv_def thread_inv_def split_beta Let_def split: option.splits)

text \<open>A move: defined, keeps the invariant and brings the end nearer.\<close>

definition moved :: "'op list list \<Rightarrow> 's \<Rightarrow> nat \<Rightarrow> ('s, 'op, 'r) mon \<Rightarrow> bool" where
  "moved opss s0 i c \<longleftrightarrow> (\<exists>c'. mstep body i c = Some c' \<and> mon_inv opss s0 c' \<and> weight c' < weight c)"

lemma movedI:
  assumes "mstep body i c = Some c'" "mon_inv opss s0 c'"
    and "threads c' = (threads c)[i := u]" "i < length (threads c)" "thread_cost u < thread_cost (threads c ! i)"
  shows "moved opss s0 i c"
  using assms sum_list_less [of i "threads c" u] by (auto simp: moved_def weight_def)

lemmas step_simps = set_thread_def thread_inv_def before_def inside_def after_def split_beta Let_def

lemma move_start:
  assumes J: "mon_inv opss s0 c" and i: "i < length opss" and v: "valid op"
    and t: "task (threads c ! i) = Idle" "todo (threads c ! i) = op # ops"
  shows "moved opss s0 i c"
proof -
  note f = thread_facts [OF J i refl refl]
  let ?u = "(threads c ! i)\<lparr>todo := ops, task := Busy op (body op)\<rparr>"
  have "owner c \<noteq> Some i" using f(4) t by (auto simp: inside_def)
  then have "mon_inv opss s0 (set_thread i ?u c)"
    using f t body_not(4) [OF v] by (intro mon_inv_step [OF J i, of _ ?u]) (auto simp: step_simps)
  then show ?thesis
    using f t moves_le [OF body_short [OF v]]
    by (intro movedI [of i c "set_thread i ?u c" _ _ ?u])
      (auto simp: mstep_def set_thread_def thread_cost_def Let_def)
qed

lemma move_return:
  assumes J: "mon_inv opss s0 c" and i: "i < length opss" and v: "valid op"
    and t: "task (threads c ! i) = Busy op (LRet r)"
  shows "moved opss s0 i c"
proof -
  note f = thread_facts [OF J i refl refl]
  let ?u = "(threads c ! i)\<lparr>task := Idle, got := got (threads c ! i) @ [(op, r)]\<rparr>"
  have "mon_inv opss s0 (set_thread i ?u c)"
    using f t body_not(1) [OF v, of r] by (intro mon_inv_step [OF J i, of _ ?u]) (auto simp: step_simps split: if_splits)
  then show ?thesis
    using f t by (intro movedI [of i c "set_thread i ?u c" _ _ ?u])
      (auto simp: mstep_def set_thread_def thread_cost_def Let_def)
qed

lemma move_do:
  assumes J: "mon_inv opss s0 c" and i: "i < length opss" and v: "valid op"
    and t: "task (threads c ! i) = Busy op (LDo g)"
  shows "moved opss s0 i c"
proof -
  note f = thread_facts [OF J i refl refl]
  have own: "owner c = Some i" using f(4) t body_not(2) [OF v, of g] by (auto simp: before_def after_def split: if_splits)
  with f(4) t obtain r where r: "crit (LDo g) (shared c) = Some (LRet r, snd (seq_exec eff (order c) s0))"
    "mine i (fst (seq_exec eff (order c) s0)) = got (threads c ! i) @ [(op, r)]" by (auto simp: inside_def)
  then obtain q s where q: "g (shared c) = Some (q, s)" "crit q s = Some (LRet r, snd (seq_exec eff (order c) s0))"
    by (auto simp: crit_LDo split: option.splits)
  have b: "bounded q" "moves q < moves (LDo g)" using moves_step(1) [of g "shared c" q s] q(1) f(2) t by auto
  let ?u = "(threads c ! i)\<lparr>task := Busy op q\<rparr>"
  let ?c = "(set_thread i ?u c)\<lparr>shared := s\<rparr>"
  have "mon_inv opss s0 ?c"
    using f t own r q b by (intro mon_inv_step [OF J i, of _ ?u]) (auto simp: step_simps)
  then show ?thesis
    using f t q b by (intro movedI [of i c ?c _ _ ?u]) (auto simp: mstep_def set_thread_def thread_cost_def Let_def)
qed

lemma move_unlock:
  assumes J: "mon_inv opss s0 c" and i: "i < length opss" and v: "valid op"
    and t: "task (threads c ! i) = Busy op (LUnlock q)"
  shows "moved opss s0 i c"
proof -
  note f = thread_facts [OF J i refl refl]
  have own: "owner c = Some i" using f(4) t body_not(3) [OF v, of q] by (auto simp: before_def after_def split: if_splits)
  with f(4) t obtain r where r: "q = LRet r" "shared c = snd (seq_exec eff (order c) s0)"
    "mine i (fst (seq_exec eff (order c) s0)) = got (threads c ! i) @ [(op, r)]" by (auto simp: inside_def)
  have b: "bounded q" "moves q < moves (LUnlock q)" using moves_step(3) f(2) t by auto
  let ?u = "(threads c ! i)\<lparr>task := Busy op q\<rparr>"
  let ?c = "(set_thread i ?u c)\<lparr>owner := None\<rparr>"
  have "mon_inv opss s0 ?c"
    using f t own r b by (intro mon_inv_step [OF J i, of _ ?u]) (auto simp: step_simps)
  then show ?thesis
    using f t own b by (intro movedI [of i c ?c _ _ ?u]) (auto simp: mstep_def set_thread_def thread_cost_def Let_def)
qed

lemma move_lock:
  assumes J: "mon_inv opss s0 c" and i: "i < length opss" and v: "valid op"
    and t: "task (threads c ! i) = Busy op (LLock q)" and free: "owner c = None"
  shows "moved opss s0 i c"
proof -
  note f = thread_facts [OF J i refl refl]
  have log: "LLock q = body op" "got (threads c ! i) = mine i (fst (seq_exec eff (order c) s0))"
    using f(4) free t by (auto simp: before_def after_def)
  let ?sl = "snd (seq_exec eff (order c) s0)"
  from body_locks [OF v] log(1) have crit:
    "crit q (shared c) = Some (LRet (fst (eff op ?sl)), snd (eff op ?sl))"
    using f(5,6) free by (metis lprog.inject(3))
  have b: "bounded q" "moves q < moves (LLock q)" using moves_step(2) f(2) t by auto
  let ?u = "(threads c ! i)\<lparr>task := Busy op q\<rparr>"
  let ?c = "(set_thread i ?u c)\<lparr>owner := Some i, order := order c @ [(i, op)]\<rparr>"
  have "mon_inv opss s0 ?c"
    using f t free crit log(2) b eff_invar [OF f(5) v]
    by (intro mon_inv_step [OF J i, of _ ?u]) (auto simp: step_simps seq_exec_snoc)
  then show ?thesis
    using f t free b by (intro movedI [of i c ?c _ _ ?u]) (auto simp: mstep_def set_thread_def thread_cost_def Let_def)
qed

text \<open>A thread that cannot move waits for another one or has finished.\<close>

definition rests :: "nat \<Rightarrow> ('s, 'op, 'r) mon \<Rightarrow> bool" where
  "rests i c \<longleftrightarrow> i < length (threads c) \<longrightarrow>
     (case task (threads c ! i) of Idle \<Rightarrow> todo (threads c ! i) = []
      | Busy op p \<Rightarrow> owner c \<noteq> None \<and> (\<exists>q. p = LLock q))"

lemma step_ok:
  assumes J: "mon_inv opss s0 c" and valid: "\<forall>ops \<in> set opss. \<forall>op \<in> set ops. valid op"
  shows "moved opss s0 i c \<or> (rests i c \<and> mstep body i c = Some c)"
proof (cases "i < length opss")
  case False
  with J show ?thesis by (auto simp: mstep_def mon_inv_def rests_def)
next
  case i: True
  note f = thread_facts [OF J i refl refl]
  have ok: "valid op" if "op \<in> set (opss ! i)" for op using valid i that by auto
  show ?thesis
  proof (cases "task (threads c ! i)")
    case Idle
    then show ?thesis
      using move_start [OF J i] ok f(1,3) by (cases "todo (threads c ! i)") (auto simp: mstep_def rests_def)
  next
    case (Busy op p)
    have v: "valid op" using ok f(1) Busy by simp
    show ?thesis
      using Busy f(3) move_return [OF J i v] move_do [OF J i v] move_lock [OF J i v] move_unlock [OF J i v]
      by (cases p; cases "owner c") (auto simp: mstep_def rests_def)
  qed
qed

text \<open>Somebody can move as long as a call is unfinished: the owner of the mutex, or, if it is free,
  any thread that has not finished.\<close>

lemma somebody_moves:
  assumes J: "mon_inv opss s0 c" and rest: "\<forall>i < length opss. rests i c"
  shows "finished c"
proof -
  have len: "length (threads c) = length opss" using J by (simp add: mon_inv_def)
  have "owner c = None"
  proof (rule ccontr)
    assume "owner c \<noteq> None"
    then obtain j where j: "owner c = Some j" "j < length opss" using J by (auto simp: mon_inv_def)
    from thread_facts(4) [OF J j(2) refl refl] j(1) obtain op p x where
      "task (threads c ! j) = Busy op p" "crit p (shared c) = Some x" by (auto simp: inside_def)
    moreover have "rests j c" using rest j(2) by blast
    ultimately show False using j(2) by (auto simp: rests_def len)
  qed
  with rest len have "task (threads c ! i) = Idle \<and> todo (threads c ! i) = []" if "i < length opss" for i
    using that by (cases "task (threads c ! i)") (auto simp: rests_def)
  with len show ?thesis by (auto simp: finished_def in_set_conv_nth)
qed

lemma run_ok:
  assumes "mon_inv opss s0 c" and valid: "\<forall>ops \<in> set opss. \<forall>op \<in> set ops. valid op"
  shows "\<exists>c'. mrun body is c = Some c' \<and> mon_inv opss s0 c' \<and> weight c' \<le> weight c \<and>
    (weight c' = weight c \<longrightarrow> c' = c \<and> (\<forall>i \<in> set is. rests i c))"
  using assms(1)
proof (induction "is" arbitrary: c)
  case (Cons i "is")
  show ?case
  proof (cases "rests i c \<and> mstep body i c = Some c")
    case True
    with Cons.IH [OF Cons.prems] show ?thesis by (auto simp: mrun_def)
  next
    case False
    with step_ok [OF Cons.prems valid, of i] obtain c1 where
      1: "mstep body i c = Some c1" "mon_inv opss s0 c1" "weight c1 < weight c"
      by (auto simp: moved_def)
    from Cons.IH [OF 1(2)] obtain c' where
      "mrun body is c1 = Some c'" "mon_inv opss s0 c'" "weight c' \<le> weight c1" by blast
    with 1 show ?thesis by (intro exI [of _ c']) (simp add: mrun_def)
  qed
qed (simp add: mrun_def)

lemma round_robin_finishes:
  assumes "mon_inv opss s0 c" and valid: "\<forall>ops \<in> set opss. \<forall>op \<in> set ops. valid op"
    and "weight c \<le> n"
  shows "\<exists>c'. mrun body (concat (replicate n [0..<length opss])) c = Some c' \<and> mon_inv opss s0 c' \<and> finished c'"
  using assms(1,3)
proof (induction n arbitrary: c)
  case 0
  have "finished c"
  proof (rule somebody_moves [OF 0(1)], intro allI impI)
    fix i
    from step_ok [OF 0(1) valid, of i] 0(2) show "rests i c" by (auto simp: moved_def)
  qed
  with 0 show ?case by (simp add: mrun_def)
next
  case (Suc n)
  let ?round = "[0..<length opss]"
  from run_ok [OF Suc.prems(1) valid, of ?round] obtain c1 where
    c1: "mrun body ?round c = Some c1" "mon_inv opss s0 c1" "weight c1 \<le> weight c"
    "weight c1 = weight c \<longrightarrow> c1 = c \<and> (\<forall>i \<in> set ?round. rests i c)" by blast
  have "finished c1" if "weight c1 = weight c"
    using somebody_moves [OF Suc.prems(1)] c1(4) that by auto
  moreover have "weight c1 = 0" if "finished c1"
    using that by (simp add: weight_def finished_def thread_cost_def sum_list_eq_0_iff)
  ultimately have "weight c1 \<le> n" using c1(3) Suc.prems(2) by linarith
  from Suc.IH [OF c1(2) this] c1(1) show ?case by (simp add: mrun_def run_steps_append)
qed

lemma weight_begin: "weight (begin_calls s0 opss) = (steps + 2) * sum_list (map length opss)"
proof -
  have "map thread_cost (threads (begin_calls s0 opss)) = map (\<lambda>ops. (steps + 2) * length ops) opss"
    by (simp add: begin_calls_def thread_cost_def)
  then show ?thesis by (simp only: weight_def sum_list_const_mult [symmetric] map_map comp_def)
qed

lemma mrun_append: "mrun body (is @ js) c = Option.bind (mrun body is c) (mrun body js)"
  by (simp add: mrun_def run_steps_append)

text \<open>Every schedule is defined and linearised by the order in which the calls got the mutex; and
  every schedule can be completed.\<close>

lemma linearised:
  assumes "invar s0" and valid: "\<forall>ops \<in> set opss. \<forall>op \<in> set ops. valid op"
  shows "\<exists>c. mrun body is (begin_calls s0 opss) = Some c \<and> mon_inv opss s0 c"
  using run_ok [OF mon_inv_begin [OF assms(1)] valid] by blast

lemma completes:
  assumes "invar s0" and valid: "\<forall>ops \<in> set opss. \<forall>op \<in> set ops. valid op"
    and "(steps + 2) * sum_list (map length opss) \<le> n"
  shows "\<exists>c. mrun body (is @ concat (replicate n [0..<length opss])) (begin_calls s0 opss) = Some c \<and>
    mon_inv opss s0 c \<and> finished c"
proof -
  from run_ok [OF mon_inv_begin [OF assms(1)] valid, of "is"] obtain c1 where
    1: "mrun body is (begin_calls s0 opss) = Some c1" "mon_inv opss s0 c1"
    "weight c1 \<le> weight (begin_calls s0 opss)" by blast
  with assms(3) have "weight c1 \<le> n" by (simp add: weight_begin)
  with 1 round_robin_finishes [OF 1(2) valid, of n] show ?thesis by (simp add: mrun_append)
qed

lemma finished_facts:
  assumes J: "mon_inv opss s0 c" and "finished c"
  shows "owner c = None" and "shared c = snd (seq_exec eff (order c) s0)"
    and "i < length opss \<Longrightarrow> got (threads c ! i) = mine i (fst (seq_exec eff (order c) s0)) \<and>
      map fst (got (threads c ! i)) = opss ! i"
proof -
  have idle: "task (threads c ! i) = Idle" "todo (threads c ! i) = []" if "i < length opss" for i
    using assms(2) thread_facts(3) [OF J that refl refl] by (auto simp: finished_def)
  show o: "owner c = None"
  proof (rule ccontr)
    assume "owner c \<noteq> None"
    then obtain j where j: "owner c = Some j" "j < length opss" using J by (auto simp: mon_inv_def)
    with thread_facts(4) [OF J j(2) refl refl] idle [OF j(2)] show False by (auto simp: inside_def)
  qed
  with J show "shared c = snd (seq_exec eff (order c) s0)" by (simp add: mon_inv_def)
  assume i: "i < length opss"
  from thread_facts(1,4) [OF J i refl refl] idle [OF i] o
  show "got (threads c ! i) = mine i (fst (seq_exec eff (order c) s0)) \<and> map fst (got (threads c ! i)) = opss ! i"
    by (auto simp: after_def)
qed

end

end
