(* ===== verification/Ion_Mutex.thy ===== *)
theory Ion_Mutex
  imports Ion_Registry Mutex
begin

section \<open>Camera ION shim: the registry mutex\<close>

text \<open>
  The eight places of \<open>ioe-test/camera_ion_shim.c\<close> that take \<open>g_registry_mutex\<close>, line by line: the
  lock, every access to a shared variable as a step of its own (out of bounds it is undefined),
  the unlock on every path. The other theories treat each of them as one action; here the
  locale \<open>monitor\<close> shows that this is right: for threads that call them in any order and however
  their steps interleave, the results are those of the sequential functions of \<open>Ion_Registry\<close>
  in the order in which the calls got the mutex, and no call is ever stuck.
\<close>

subsection \<open>Array accesses\<close>

definition elem_at :: "'a list \<Rightarrow> nat \<Rightarrow> 'a option" where
  "elem_at xs i = (if i < length xs then Some (xs ! i) else None)"

definition elem_put :: "'a list \<Rightarrow> nat \<Rightarrow> ('a \<Rightarrow> 'a) \<Rightarrow> 'a list option" where
  "elem_put xs i f = (if i < length xs then Some (xs[i := f (xs ! i)]) else None)"

text \<open>One member of the record at an index is read or written.\<close>

definition get_alloc :: "(shim_alloc_record \<Rightarrow> 'a) \<Rightarrow> nat \<Rightarrow> ('a \<Rightarrow> (shim, 'r) lprog) \<Rightarrow> (shim, 'r) lprog" where
  "get_alloc member i = lread (\<lambda>s. map_option member (elem_at (g_alloc_records s) i))"

definition get_mapped :: "(shim_mapped_fd_record \<Rightarrow> 'a) \<Rightarrow> nat \<Rightarrow> ('a \<Rightarrow> (shim, 'r) lprog) \<Rightarrow> (shim, 'r) lprog" where
  "get_mapped member i = lread (\<lambda>s. map_option member (elem_at (g_mapped_fd_records s) i))"

definition set_alloc :: "(shim_alloc_record \<Rightarrow> shim_alloc_record) \<Rightarrow> (shim, 'r) lprog \<Rightarrow> (shim, 'r) lprog" where
  "set_alloc f = lwrite (\<lambda>s. map_option (\<lambda>xs. s\<lparr>g_alloc_records := xs\<rparr>) (elem_put (g_alloc_records s) (g_alloc_record_next s) f))"

definition set_mapped :: "(shim_mapped_fd_record \<Rightarrow> shim_mapped_fd_record) \<Rightarrow> (shim, 'r) lprog \<Rightarrow> (shim, 'r) lprog" where
  "set_mapped f = lwrite (\<lambda>s. map_option (\<lambda>xs. s\<lparr>g_mapped_fd_records := xs\<rparr>)
     (elem_put (g_mapped_fd_records s) (g_mapped_fd_record_next s) f))"

subsection \<open>The sections\<close>

text \<open>What an operation returns: nothing, a truth value, a length if one was found, or a number.\<close>

datatype reg_result = RNone | RBool bool | RLen "u32 option" | RInt int

definition lk_track_device_fd :: "int \<Rightarrow> (shim, reg_result) lprog" where
  "lk_track_device_fd fd =
     LLock (lread (\<lambda>s. Some (g_ion_device_fd_count s)) (\<lambda>count.
     if count < SHIM_MAX_ION_DEVICE_FDS
     then lwrite (\<lambda>s. map_option (\<lambda>xs. s\<lparr>g_ion_device_fds := xs\<rparr>)
              (elem_put (g_ion_device_fds s) (g_ion_device_fd_count s) (\<lambda>_. fd)))
          (lwrite (\<lambda>s. Some (s\<lparr>g_ion_device_fd_count := g_ion_device_fd_count s + 1\<rparr>))
          (LUnlock (LRet RNone)))
     else LUnlock (LRet RNone)))"

text \<open>The loop from index \<open>i\<close> on, whose condition reads the count each time; past the array the
  access is out of bounds.\<close>

function lk_device_loop :: "int \<Rightarrow> nat \<Rightarrow> (shim, reg_result) lprog" where
  "lk_device_loop fd i =
     lread (\<lambda>s. Some (g_ion_device_fd_count s)) (\<lambda>count.
     if i < count
     then if i < SHIM_MAX_ION_DEVICE_FDS
       then lread (\<lambda>s. elem_at (g_ion_device_fds s) i) (\<lambda>x.
         if x = fd then LUnlock (LRet (RBool True)) else lk_device_loop fd (Suc i))
       else LDo (\<lambda>s. None)
     else LUnlock (LRet (RBool False)))"
  by auto
termination by (relation "measure (\<lambda>(fd, i). SHIM_MAX_ION_DEVICE_FDS - i)") auto

declare lk_device_loop.simps [simp del]

definition lk_is_device_fd :: "int \<Rightarrow> (shim, reg_result) lprog" where
  "lk_is_device_fd fd = LLock (lk_device_loop fd 0)"

definition lk_record_alloc :: "shim_ion_user_handle_t \<Rightarrow> u32 \<Rightarrow> (shim, reg_result) lprog" where
  "lk_record_alloc handle len =
     LLock (set_alloc (\<lambda>r. r\<lparr>ar_valid := True\<rparr>)
       (set_alloc (\<lambda>r. r\<lparr>ar_handle := handle\<rparr>)
       (set_alloc (\<lambda>r. r\<lparr>ar_len := len\<rparr>)
       (lwrite (\<lambda>s. Some (s\<lparr>g_alloc_record_next := (g_alloc_record_next s + 1) mod SHIM_MAX_ALLOC_RECORDS\<rparr>))
       (LUnlock (LRet RNone))))))"

text \<open>The loop over the indices that are left; \<open>found\<close> is the last length stored.\<close>

fun lk_lookup_loop :: "shim_ion_user_handle_t \<Rightarrow> nat list \<Rightarrow> u32 option \<Rightarrow> (shim, reg_result) lprog" where
  "lk_lookup_loop handle [] found = LUnlock (LRet (RLen found))"
| "lk_lookup_loop handle (i # is) found =
     get_alloc ar_valid i (\<lambda>valid.
     if \<not> valid then lk_lookup_loop handle is found
     else get_alloc ar_handle i (\<lambda>h.
       if h \<noteq> handle then lk_lookup_loop handle is found
       else get_alloc ar_len i (\<lambda>len. lk_lookup_loop handle is (Some len))))"

definition lk_lookup_alloc_len :: "shim_ion_user_handle_t \<Rightarrow> (shim, reg_result) lprog" where
  "lk_lookup_alloc_len handle = LLock (lk_lookup_loop handle [0..<SHIM_MAX_ALLOC_RECORDS] None)"

definition lk_record_mapped_fd :: "int \<Rightarrow> u32 \<Rightarrow> (shim, reg_result) lprog" where
  "lk_record_mapped_fd fd len =
     LLock (set_mapped (\<lambda>r. r\<lparr>mr_valid := True\<rparr>)
       (set_mapped (\<lambda>r. r\<lparr>mr_fd := fd\<rparr>)
       (set_mapped (\<lambda>r. r\<lparr>mr_len := len\<rparr>)
       (set_mapped (\<lambda>r. r\<lparr>mr_consumed := False\<rparr>)
       (lwrite (\<lambda>s. Some (s\<lparr>g_mapped_fd_record_next :=
           (g_mapped_fd_record_next s + 1) mod SHIM_MAX_MAPPED_FD_RECORDS\<rparr>))
       (LUnlock (LRet RNone)))))))"

fun lk_find_loop :: "u32 \<Rightarrow> int \<Rightarrow> nat list \<Rightarrow> (shim, reg_result) lprog" where
  "lk_find_loop len exclude_fd [] = LUnlock (LRet (RInt (- 1)))"
| "lk_find_loop len exclude_fd (i # is) =
     get_mapped mr_valid i (\<lambda>valid.
     if \<not> valid then lk_find_loop len exclude_fd is
     else get_mapped mr_consumed i (\<lambda>consumed.
     if consumed then lk_find_loop len exclude_fd is
     else get_mapped mr_len i (\<lambda>l.
     if l \<noteq> len then lk_find_loop len exclude_fd is
     else get_mapped mr_fd i (\<lambda>fd.
     if fd = exclude_fd then lk_find_loop len exclude_fd is
     else LUnlock (LRet (RInt (int i)))))))"

definition lk_find_mapped_fd_candidate :: "u32 \<Rightarrow> int \<Rightarrow> (shim, reg_result) lprog" where
  "lk_find_mapped_fd_candidate len exclude_fd = LLock (lk_find_loop len exclude_fd [0..<SHIM_MAX_MAPPED_FD_RECORDS])"

text \<open>The two sections of \<open>mmap\<close>.\<close>

definition lk_candidate_fd :: "nat \<Rightarrow> (shim, reg_result) lprog" where
  "lk_candidate_fd i = LLock (get_mapped mr_fd i (\<lambda>fd. LUnlock (LRet (RInt fd))))"

definition lk_mark_consumed :: "nat \<Rightarrow> (shim, reg_result) lprog" where
  "lk_mark_consumed i =
     LLock (lwrite (\<lambda>s. map_option (\<lambda>xs. s\<lparr>g_mapped_fd_records := xs\<rparr>)
         (elem_put (g_mapped_fd_records s) i (\<lambda>r. r\<lparr>mr_consumed := True\<rparr>)))
       (LUnlock (LRet RNone)))"

datatype reg_op =
    OpTrack int
  | OpIsDevice int
  | OpRecordAlloc shim_ion_user_handle_t u32
  | OpLookup shim_ion_user_handle_t
  | OpRecordMapped int u32
  | OpFind u32 int
  | OpCandidateFd nat
  | OpMark nat

primrec reg_body :: "reg_op \<Rightarrow> (shim, reg_result) lprog" where
  "reg_body (OpTrack fd) = lk_track_device_fd fd"
| "reg_body (OpIsDevice fd) = lk_is_device_fd fd"
| "reg_body (OpRecordAlloc h len) = lk_record_alloc h len"
| "reg_body (OpLookup h) = lk_lookup_alloc_len h"
| "reg_body (OpRecordMapped fd len) = lk_record_mapped_fd fd len"
| "reg_body (OpFind len fd) = lk_find_mapped_fd_candidate len fd"
| "reg_body (OpCandidateFd i) = lk_candidate_fd i"
| "reg_body (OpMark i) = lk_mark_consumed i"

text \<open>The sequential functions.\<close>

primrec reg_effect :: "reg_op \<Rightarrow> shim \<Rightarrow> reg_result \<times> shim" where
  "reg_effect (OpTrack fd) s = (RNone, camera_ion_shim_track_device_fd fd s)"
| "reg_effect (OpIsDevice fd) s = (RBool (camera_ion_shim_is_device_fd fd s), s)"
| "reg_effect (OpRecordAlloc h len) s = (RNone, camera_ion_shim_record_alloc h len s)"
| "reg_effect (OpLookup h) s = (RLen (camera_ion_shim_lookup_alloc_len h s), s)"
| "reg_effect (OpRecordMapped fd len) s = (RNone, camera_ion_shim_record_mapped_fd fd len s)"
| "reg_effect (OpFind len fd) s = (RInt (camera_ion_shim_find_mapped_fd_candidate len fd s), s)"
| "reg_effect (OpCandidateFd i) s = (RInt (mr_fd (g_mapped_fd_records s ! i)), s)"
| "reg_effect (OpMark i) s = (RNone, mark_consumed i s)"

text \<open>An index is one that the search returned.\<close>

primrec reg_valid :: "reg_op \<Rightarrow> bool" where
  "reg_valid (OpTrack fd) \<longleftrightarrow> True"
| "reg_valid (OpIsDevice fd) \<longleftrightarrow> True"
| "reg_valid (OpRecordAlloc h len) \<longleftrightarrow> True"
| "reg_valid (OpLookup h) \<longleftrightarrow> True"
| "reg_valid (OpRecordMapped fd len) \<longleftrightarrow> True"
| "reg_valid (OpFind len fd) \<longleftrightarrow> True"
| "reg_valid (OpCandidateFd i) \<longleftrightarrow> i < SHIM_MAX_MAPPED_FD_RECORDS"
| "reg_valid (OpMark i) \<longleftrightarrow> i < SHIM_MAX_MAPPED_FD_RECORDS"

subsection \<open>Each section alone is its sequential function\<close>

lemmas lk_defs = lk_track_device_fd_def lk_is_device_fd_def lk_record_alloc_def lk_lookup_alloc_len_def
  lk_record_mapped_fd_def lk_find_mapped_fd_candidate_def lk_candidate_fd_def lk_mark_consumed_def

lemmas lk_access_defs = elem_at_def elem_put_def get_alloc_def get_mapped_def set_alloc_def set_mapped_def

lemma crit_device_loop:
  assumes "length (g_ion_device_fds s) = SHIM_MAX_ION_DEVICE_FDS" "g_ion_device_fd_count s \<le> SHIM_MAX_ION_DEVICE_FDS"
  shows "crit (lk_device_loop fd i) s =
    Some (LRet (RBool (\<exists>j. i \<le> j \<and> j < g_ion_device_fd_count s \<and> g_ion_device_fds s ! j = fd)), s)"
proof (induction fd i rule: lk_device_loop.induct)
  case (1 fd i)
  show ?case
  proof (cases "i < g_ion_device_fd_count s \<and> g_ion_device_fds s ! i \<noteq> fd")
    case True
    then have "i < SHIM_MAX_ION_DEVICE_FDS" using assms(2) by simp
    with True 1 [of "g_ion_device_fd_count s" "g_ion_device_fds s ! i"] assms(1)
    have "crit (lk_device_loop fd i) s = crit (lk_device_loop fd (Suc i)) s"
      by (subst lk_device_loop.simps) (simp add: lk_access_defs)
    moreover have "(\<exists>j. Suc i \<le> j \<and> j < g_ion_device_fd_count s \<and> g_ion_device_fds s ! j = fd) \<longleftrightarrow>
        (\<exists>j. i \<le> j \<and> j < g_ion_device_fd_count s \<and> g_ion_device_fds s ! j = fd)"
      using True by (intro ex_cong1) (auto simp: Suc_le_eq le_less)
    ultimately show ?thesis
      using 1 [of "g_ion_device_fd_count s" "g_ion_device_fds s ! i"] True \<open>i < SHIM_MAX_ION_DEVICE_FDS\<close> by simp
  next
    case False
    then show ?thesis
      using assms by (subst lk_device_loop.simps) (auto simp: lk_access_defs)
  qed
qed

lemma crit_lookup_loop:
  assumes "\<forall>i \<in> set is. i < length (g_alloc_records s)"
  shows "crit (lk_lookup_loop h is found) s =
    Some (LRet (RLen (case last_match (\<lambda>r. ar_valid r \<and> ar_handle r = h) (map (nth (g_alloc_records s)) is) of
      None \<Rightarrow> found | Some r \<Rightarrow> Some (ar_len r))), s)"
  using assms by (induction "is" arbitrary: found) (auto simp: lk_access_defs split: option.split)

lemma crit_find_loop:
  assumes "\<forall>i \<in> set is. i < length (g_mapped_fd_records s)"
  shows "crit (lk_find_loop len ex is) s =
    Some (LRet (RInt (case find (\<lambda>i. usable len ex (g_mapped_fd_records s ! i)) is of None \<Rightarrow> - 1 | Some i \<Rightarrow> int i)), s)"
  using assms by (induction "is") (auto simp: lk_access_defs usable_def)

lemma first_index_find: "first_index P xs = find (\<lambda>i. P (xs ! i)) [0..<length xs]"
proof (cases "first_index P xs")
  case None
  then have "find (\<lambda>i. P (xs ! i)) [0..<length xs] = None"
    by (auto simp: first_index_None find_None_iff)
  with None show ?thesis by simp
next
  case (Some i)
  then have "find (\<lambda>i. P (xs ! i)) [0..<length xs] = Some i"
    by (auto simp: first_index_Some find_Some_iff intro!: exI [of _ i])
  with Some show ?thesis by simp
qed

lemma written_records:
  "r\<lparr>ar_valid := a, ar_handle := b, ar_len := c\<rparr> = \<lparr>ar_valid = a, ar_handle = b, ar_len = c\<rparr>"
  "m\<lparr>mr_valid := a, mr_fd := x, mr_len := y, mr_consumed := z\<rparr> =
   \<lparr>mr_valid = a, mr_fd = x, mr_len = y, mr_consumed = z\<rparr>"
  by simp_all

lemma reg_body_locks:
  assumes "reg_valid op"
  shows "\<exists>p. reg_body op = LLock p \<and>
    (\<forall>s. registry_ok s \<longrightarrow> crit p s = Some (LRet (fst (reg_effect op s)), snd (reg_effect op s)))"
proof (cases op)
  case (OpIsDevice fd)
  have "camera_ion_shim_is_device_fd fd s \<longleftrightarrow> (\<exists>j < g_ion_device_fd_count s. g_ion_device_fds s ! j = fd)"
    if "registry_ok s" for s
    using that by (auto simp: is_device_fd_iff registry_ok_def in_set_conv_nth)
  with OpIsDevice show ?thesis by (auto simp: lk_defs crit_device_loop registry_ok_def)
next
  case (OpLookup h)
  have "map (nth (g_alloc_records s)) [0..<SHIM_MAX_ALLOC_RECORDS] = g_alloc_records s" if "registry_ok s" for s
    using that map_nth [of "g_alloc_records s"] by (simp add: registry_ok_def ring_ok_def)
  with OpLookup show ?thesis
    by (auto simp: lk_defs crit_lookup_loop registry_ok_def ring_ok_def camera_ion_shim_lookup_alloc_len_def
        split: option.split)
next
  case (OpFind len ex)
  with first_index_find [of "usable len ex"] show ?thesis
    by (auto simp: lk_defs crit_find_loop registry_ok_def ring_ok_def find_candidate_eq)
next
  case (OpTrack fd)
  then show ?thesis by (auto simp: lk_defs lk_access_defs camera_ion_shim_track_device_fd_def registry_ok_def)
qed (use assms in \<open>auto simp: lk_defs lk_access_defs camera_ion_shim_record_alloc_def camera_ion_shim_record_mapped_fd_def
      mark_consumed_def registry_ok_def ring_ok_def written_records\<close>)

lemma reg_effect_ok: "registry_ok s \<Longrightarrow> registry_ok (snd (reg_effect op s))"
  by (cases op) (simp_all add: keeps_inv)

subsection \<open>Each section is short\<close>

lemmas lwithin_steps = within_lock within_unlock within_ret lwithin_read lwithin_write

lemma lwithin_device_loop: "lwithin (2 * (4 - i) + 2) (lk_device_loop fd i)"
proof (induction fd i rule: lk_device_loop.induct)
  case (1 fd i)
  show ?case
  proof (cases "i < SHIM_MAX_ION_DEVICE_FDS")
    case True
    then have "2 * (4 - i) + 2 = Suc (Suc (2 * (4 - Suc i) + 2))" by (simp add: SHIM_MAX_ION_DEVICE_FDS_def)
    with True 1 show ?thesis
      by (subst lk_device_loop.simps) (auto intro!: lwithin_read within_unlock within_ret)
  next
    case False
    then show ?thesis
      by (subst lk_device_loop.simps) (auto intro!: lwithin_read within_unlock within_ret within_do)
  qed
qed

lemma lwithin_lookup_loop: "lwithin (3 * length is + 1) (lk_lookup_loop h is found)"
proof (induction "is" arbitrary: found)
  case (Cons i "is")
  obtain n where n: "n = 3 * length is + 1" "3 * length (i # is) + 1 = Suc (Suc (Suc n))" by simp
  have m: "lwithin n (lk_lookup_loop h is f)" "lwithin (Suc n) (lk_lookup_loop h is f)"
    "lwithin (Suc (Suc n)) (lk_lookup_loop h is f)" for f
    by (rule lwithin_mono [OF Cons.IH [folded n(1)]]; simp)+
  show ?case unfolding n(2) by (auto simp: get_alloc_def m intro!: lwithin_read)
qed (simp add: within_unlock within_ret)

lemma lwithin_find_loop: "lwithin (4 * length is + 1) (lk_find_loop len ex is)"
proof (induction "is")
  case (Cons i "is")
  obtain n where n: "n = 4 * length is + 1" "4 * length (i # is) + 1 = Suc (Suc (Suc (Suc n)))" "0 < n" by simp
  have m: "lwithin n (lk_find_loop len ex is)" "lwithin (Suc n) (lk_find_loop len ex is)"
    "lwithin (Suc (Suc n)) (lk_find_loop len ex is)" "lwithin (Suc (Suc (Suc n))) (lk_find_loop len ex is)"
    by (rule lwithin_mono [OF Cons.IH [folded n(1)]]; simp)+
  have "lwithin n (LUnlock (LRet (RInt (int i))))" using n(3) by (cases n) (auto intro: within_unlock within_ret)
  with m show ?case unfolding n(2) by (auto simp: get_mapped_def intro!: lwithin_read)
qed (simp add: within_unlock within_ret)

lemma reg_body_short: "lwithin 66 (reg_body op)"
proof (cases op)
  case (OpLookup h)
  then show ?thesis
    using within_lock [OF lwithin_lookup_loop [of "[0..<SHIM_MAX_ALLOC_RECORDS]" h None]]
    by (auto simp: lk_defs SHIM_MAX_ALLOC_RECORDS_def elim: lwithin_mono)
next
  case (OpFind len ex)
  then show ?thesis
    using within_lock [OF lwithin_find_loop [of "[0..<SHIM_MAX_MAPPED_FD_RECORDS]" len ex]]
    by (auto simp: lk_defs SHIM_MAX_MAPPED_FD_RECORDS_def elim: lwithin_mono)
next
  case (OpIsDevice fd)
  then show ?thesis
    using within_lock [OF lwithin_device_loop [of 0 fd]] by (auto simp: lk_defs elim: lwithin_mono)
next
  case (OpTrack fd)
  have "lwithin 5 (reg_body op)"
    by (auto simp: OpTrack lk_defs eval_nat_numeral intro!: lwithin_steps)
  then show ?thesis by (rule lwithin_mono) simp
next
  case (OpRecordAlloc h len)
  have "lwithin 6 (reg_body op)"
    by (auto simp: OpRecordAlloc lk_defs set_alloc_def eval_nat_numeral intro!: lwithin_steps)
  then show ?thesis by (rule lwithin_mono) simp
next
  case (OpRecordMapped fd len)
  have "lwithin 7 (reg_body op)"
    by (auto simp: OpRecordMapped lk_defs set_mapped_def eval_nat_numeral intro!: lwithin_steps)
  then show ?thesis by (rule lwithin_mono) simp
next
  case (OpCandidateFd i)
  have "lwithin 3 (reg_body op)"
    by (auto simp: OpCandidateFd lk_defs get_mapped_def eval_nat_numeral intro!: lwithin_steps)
  then show ?thesis by (rule lwithin_mono) simp
next
  case (OpMark i)
  have "lwithin 3 (reg_body op)"
    by (auto simp: OpMark lk_defs eval_nat_numeral intro!: lwithin_steps)
  then show ?thesis by (rule lwithin_mono) simp
qed

interpretation registry: monitor reg_body reg_effect registry_ok reg_valid 66
  by unfold_locales (use reg_body_locks reg_body_short reg_effect_ok in auto)

subsection \<open>Properties\<close>

text \<open>C7. The registry behaves as if its operations were indivisible. However many threads call its
  operations (the two sections of \<open>mmap\<close> with an index of the array), in whatever order and however their single accesses to the shared variables
  interleave: no access leaves an array, no mutex is unlocked that is not held, and the whole run
  is equivalent to the sequential functions called one after the other in the order in which the
  calls got the mutex. The registry is in the state after those whenever the mutex is free, each
  thread's calls are in the order of its program, and each thread has got the results of
  its calls in that sequence (the last of which may still be on its way).\<close>
theorem ion_mutex_linearisable:
  assumes "registry_ok s" and "\<forall>ops \<in> set opss. \<forall>op \<in> set ops. reg_valid op"
  shows "\<exists>c log sl. mrun reg_body is (begin_calls s opss) = Some c \<and> (log, sl) = seq_exec reg_effect (order c) s \<and>
    registry_ok sl \<and> (owner c = None \<longrightarrow> shared c = sl) \<and> length (threads c) = length opss \<and>
    (\<forall>i < length opss.
       opss ! i = map fst (got (threads c ! i)) @ current (task (threads c ! i)) @ todo (threads c ! i) \<and>
       (mine i log = got (threads c ! i) \<or>
        (\<exists>op r. current (task (threads c ! i)) = [op] \<and> mine i log = got (threads c ! i) @ [(op, r)])))"
proof -
  obtain c where c: "mrun reg_body is (begin_calls s opss) = Some c" "registry.mon_inv opss s c"
    using registry.linearised [OF assms] by blast
  obtain log sl where l: "(log, sl) = seq_exec reg_effect (order c) s" by (metis surj_pair)
  then have l': "log = fst (seq_exec reg_effect (order c) s)" "sl = snd (seq_exec reg_effect (order c) s)"
    by (metis fst_conv, metis snd_conv)
  have "mine i log = got (threads c ! i) \<or>
      (\<exists>op r. current (task (threads c ! i)) = [op] \<and> mine i log = got (threads c ! i) @ [(op, r)])"
    if "i < length opss" for i
    using registry.thread_facts(4) [OF c(2) that refl refl]
    unfolding l' by (auto simp: inside_def after_def split: if_splits)
  with c l registry.thread_facts(1) [OF c(2) _ refl refl] show ?thesis
    by (intro exI [of _ c] exI [of _ log] exI [of _ sl])
      (auto simp: registry.mon_inv_def l'(2) split: option.splits)
qed

theorem ion_mutex_linearisable_witness:
  "\<exists>c. mrun reg_body [0, 1, 0, 1, 0, 0, 1, 0, 0] (begin_calls init_shim [[OpRecordMapped 109 4096], [OpFind 4096 7]]) =
     Some c \<and> (owner c = None \<longrightarrow> shared c = snd (seq_exec reg_effect (order c) init_shim))"
proof -
  have "\<forall>ops \<in> set [[OpRecordMapped 109 4096], [OpFind 4096 7]]. \<forall>op \<in> set ops. reg_valid op" by simp
  from ion_mutex_linearisable [OF registry_ok_init this] show ?thesis by (metis snd_conv)
qed

text \<open>C18. No call of the registry is ever stuck, and none runs forever: after any schedule at all, if
  from then on every thread is scheduled in turn, 68 rounds for each call are enough for all
  calls of all threads to return, with the mutex free, and with the results and the final registry
  of the sequential functions in the order in which the calls got the mutex.\<close>
theorem ion_mutex_completes:
  assumes "registry_ok s" and "\<forall>ops \<in> set opss. \<forall>op \<in> set ops. reg_valid op"
    and "68 * sum_list (map length opss) \<le> n"
  shows "\<exists>c. mrun reg_body (is @ concat (replicate n [0..<length opss])) (begin_calls s opss) = Some c \<and>
    finished c \<and> owner c = None \<and> shared c = snd (seq_exec reg_effect (order c) s) \<and>
    (\<forall>i < length opss. map fst (got (threads c ! i)) = opss ! i \<and>
       got (threads c ! i) = mine i (fst (seq_exec reg_effect (order c) s)))"
proof -
  have "(66 + 2) * sum_list (map length opss) \<le> n" using assms(3) by simp
  from registry.completes [OF assms(1,2) this, of "is"] obtain c where
    c: "mrun reg_body (is @ concat (replicate n [0..<length opss])) (begin_calls s opss) = Some c"
    "registry.mon_inv opss s c" "finished c" by blast
  have "map fst (got (threads c ! i)) = opss ! i \<and> got (threads c ! i) = mine i (fst (seq_exec reg_effect (order c) s))"
    if "i < length opss" for i
    using registry.finished_facts(3) [OF c(2,3) that] by blast
  with c registry.finished_facts(1,2) [OF c(2,3)] show ?thesis by blast
qed

theorem ion_mutex_completes_witness:
  "\<exists>c. mrun reg_body ([0, 0, 0, 1, 1, 1] @ concat (replicate 136 [0..<2]))
     (begin_calls init_shim [[OpRecordMapped 109 4096], [OpFind 4096 7]]) = Some c \<and> finished c \<and> owner c = None"
proof -
  have "\<forall>ops \<in> set [[OpRecordMapped 109 4096], [OpFind 4096 7]]. \<forall>op \<in> set ops. reg_valid op"
    "68 * sum_list (map length [[OpRecordMapped 109 4096], [OpFind 4096 7]]) \<le> 136" by simp_all
  from ion_mutex_completes [OF registry_ok_init this, of "[0, 0, 0, 1, 1, 1]"] show ?thesis
    by (simp add: numeral_2_eq_2) blast
qed

end
