(* ===== verification/Bt_Hardware.thy ===== *)
theory Bt_Hardware
  imports CPrelude
begin

section \<open>Bluetooth vendor library: HCI configuration\<close>

text \<open>
  \<open>bt/hardware_mrvl.c\<close>: the vendor commands that set the device address and the PCM path of
  the controller, one at a time, each continued by the callback that its completion event
  runs. The stack's callbacks (\<open>vnd_cb\<close>) are the record \<open>bt_env\<close>; its answers may depend on
  everything that happened before. Constants of the stack's headers, which are not in the
  repository, are fields of the same record.
\<close>

subsection \<open>Commands and buffers\<close>

definition HCI_CMD_MARVELL_WRITE_PCM_SETTINGS :: u16 where
  "HCI_CMD_MARVELL_WRITE_PCM_SETTINGS = 0xFC07"
definition HCI_CMD_MARVELL_WRITE_PCM_SYNC_SETTINGS :: u16 where
  "HCI_CMD_MARVELL_WRITE_PCM_SYNC_SETTINGS = 0xFC28"
definition HCI_CMD_MARVELL_WRITE_PCM_LINK_SETTINGS :: u16 where
  "HCI_CMD_MARVELL_WRITE_PCM_LINK_SETTINGS = 0xFC29"
definition HCI_CMD_MARVELL_SET_SCO_DATA_PATH :: u16 where
  "HCI_CMD_MARVELL_SET_SCO_DATA_PATH = 0xFC1D"
definition HCI_CMD_MARVELL_WRITE_BD_ADDRESS :: u16 where
  "HCI_CMD_MARVELL_WRITE_BD_ADDRESS = 0xFC22"

lemmas hci_cmd_defs = HCI_CMD_MARVELL_WRITE_PCM_SETTINGS_def
  HCI_CMD_MARVELL_WRITE_PCM_SYNC_SETTINGS_def HCI_CMD_MARVELL_WRITE_PCM_LINK_SETTINGS_def
  HCI_CMD_MARVELL_SET_SCO_DATA_PATH_def HCI_CMD_MARVELL_WRITE_BD_ADDRESS_def

definition WRITE_PCM_SETTINGS_SIZE :: u8 where "WRITE_PCM_SETTINGS_SIZE = 1"
definition WRITE_PCM_SYNC_SETTINGS_SIZE :: u8 where "WRITE_PCM_SYNC_SETTINGS_SIZE = 3"
definition WRITE_PCM_LINK_SETTINGS_SIZE :: u8 where "WRITE_PCM_LINK_SETTINGS_SIZE = 2"
definition SET_SCO_DATA_PATH_SIZE :: u8 where "SET_SCO_DATA_PATH_SIZE = 1"
definition WRITE_BD_ADDRESS_SIZE :: u8 where "WRITE_BD_ADDRESS_SIZE = 8"

definition HCI_CMD_PREAMBLE_SIZE :: u16 where "HCI_CMD_PREAMBLE_SIZE = 3"
definition HCI_EVT_CMD_CMPL_OPCODE :: nat where "HCI_EVT_CMD_CMPL_OPCODE = 3"

text \<open>The two macros that read and write a little-endian 16-bit value.\<close>

definition STREAM_TO_UINT16 :: "u8 \<Rightarrow> u8 \<Rightarrow> u16" where
  "STREAM_TO_UINT16 b0 b1 = ucast b0 + push_bit 8 (ucast b1)"

definition UINT16_TO_STREAM :: "u16 \<Rightarrow> u8 list" where
  "UINT16_TO_STREAM v = [ucast v, ucast (drop_bit 8 v)]"

text \<open>\<open>HC_BT_HDR\<close> of the stack: the header fields, the bytes behind the header, its address.\<close>

record hc_bt_hdr =
  hb_addr :: nat
  hb_event :: u16
  hb_len :: u16
  hb_offset :: u16
  hb_layer_specific :: u16
  hb_body :: "u8 list"

record bt_evt_param_t =
  ep_cmd :: u16
  ep_cmd_ret_param :: u8

datatype bt_vendor_op_result = BT_VND_OP_RESULT_SUCCESS | BT_VND_OP_RESULT_FAIL

text \<open>The two functions whose addresses go to \<open>xmit_cb\<close>.\<close>

datatype hci_cback = Cb_config_start | Cb_sco_config

datatype bt_event =
    EvAlloc nat "nat option"
  | EvDealloc nat
  | EvXmit u16 hc_bt_hdr hci_cback bool
  | EvFwcfg bt_vendor_op_result
  | EvScocfg bt_vendor_op_result
  | EvLpm int
  | EvEpilog bt_vendor_op_result
  | EvOpen int
  | EvIoctlRelease int
  | EvUsleep nat
  | EvClose int int

record bt_env =
  env_alloc :: "bt_event list \<Rightarrow> nat \<Rightarrow> nat option"
  env_xmit :: "bt_event list \<Rightarrow> u16 \<Rightarrow> hc_bt_hdr \<Rightarrow> hci_cback \<Rightarrow> bool"
  env_open :: "bt_event list \<Rightarrow> int"
  env_close :: "bt_event list \<Rightarrow> int \<Rightarrow> int"
  BT_HC_HDR_SIZE :: nat
  MSG_STACK_TO_HC_HCI_CMD :: u16
  BT_VND_PWR_OFF :: int
  BT_VND_PWR_ON :: int

record bt_state =
  vnd_cb :: bool
  bdaddr :: "u8 list"
  write_bd_address :: "u8 list"
  mchar_fd :: int
  trace :: "bt_event list"

definition init_bt :: bt_state where
  "init_bt = \<lparr>vnd_cb = False, bdaddr = replicate 6 0,
     write_bd_address = [0xFE, 0x06, 0, 0, 0, 0, 0, 0], mchar_fd = - 1, trace = []\<rparr>"

definition write_pcm_settings :: "u8 list" where "write_pcm_settings = [0x02]"
definition write_pcm_sync_settings :: "u8 list" where "write_pcm_sync_settings = [0x03, 0x00, 0x03]"
definition write_pcm_link_settings :: "u8 list" where "write_pcm_link_settings = [0x03, 0x00]"
definition set_sco_data_path :: "u8 list" where "set_sco_data_path = [0x01]"

definition emit :: "bt_event \<Rightarrow> bt_state \<Rightarrow> bt_state" where
  "emit ev s = s\<lparr>trace := trace s @ [ev]\<rparr>"

subsection \<open>Local functions\<close>

definition cmd_to_str :: "u16 \<Rightarrow> string" where
  "cmd_to_str cmd =
     (if cmd = HCI_CMD_MARVELL_WRITE_PCM_SETTINGS then ''write_pcm_settings''
      else if cmd = HCI_CMD_MARVELL_WRITE_PCM_SYNC_SETTINGS then ''write_pcm_sync_settings''
      else if cmd = HCI_CMD_MARVELL_WRITE_PCM_LINK_SETTINGS then ''write_pcm_link_settings''
      else if cmd = HCI_CMD_MARVELL_SET_SCO_DATA_PATH then ''set_sco_data_path''
      else if cmd = HCI_CMD_MARVELL_WRITE_BD_ADDRESS then ''write_bd_address''
      else ''unknown command'')"

text \<open>\<open>params\<close> points at offset \<open>off\<close> of the array that it belongs to.\<close>

definition populate_bd_addr_params :: "u8 list \<Rightarrow> nat \<Rightarrow> u8 list \<Rightarrow> u8 list option" where
  "populate_bd_addr_params params off addr =
     (if length addr < 6 \<or> length params < off + 6 then None
      else Some (params[off := addr ! 5, off + 1 := addr ! 4, off + 2 := addr ! 3,
                        off + 3 := addr ! 2, off + 4 := addr ! 1, off + 5 := addr ! 0]))"

definition build_cmd_buf :: "bt_env \<Rightarrow> u16 \<Rightarrow> u8 \<Rightarrow> u8 list \<Rightarrow> bt_state \<Rightarrow>
    (hc_bt_hdr option \<times> bt_state) option" where
  "build_cmd_buf env cmd pl_len payload s =
     (let cmd_len = HCI_CMD_PREAMBLE_SIZE + ucast pl_len;
          sz = BT_HC_HDR_SIZE env + unat cmd_len
      in if \<not> vnd_cb s then None
         else case env_alloc env (trace s) sz of
           None \<Rightarrow> Some (None, emit (EvAlloc sz None) s)
         | Some p \<Rightarrow>
             if length payload < unat pl_len then None
             else Some (Some \<lparr>hb_addr = p, hb_event = MSG_STACK_TO_HC_HCI_CMD env, hb_len = cmd_len,
                          hb_offset = 0, hb_layer_specific = 0,
                          hb_body = UINT16_TO_STREAM cmd @ [pl_len] @ take (unat pl_len) payload\<rparr>,
                        emit (EvAlloc sz (Some p)) s))"

definition parse_evt_buf :: "hc_bt_hdr \<Rightarrow> bt_evt_param_t option" where
  "parse_evt_buf b =
     (let p = drop HCI_EVT_CMD_CMPL_OPCODE (hb_body b)
      in if length p < 3 then None
         else Some \<lparr>ep_cmd = STREAM_TO_UINT16 (p ! 0) (p ! 1), ep_cmd_ret_param = p ! 2\<rparr>)"

text \<open>The end that all senders share: transmit and wait, or give up and report the failure.\<close>

definition xmit_or_fail :: "bt_env \<Rightarrow> u16 \<Rightarrow> hc_bt_hdr option \<Rightarrow> hci_cback \<Rightarrow> bt_event \<Rightarrow> bt_state \<Rightarrow> bt_state" where
  "xmit_or_fail env cmd p_buf cb fail s =
     (case p_buf of
        None \<Rightarrow> emit fail s
      | Some b \<Rightarrow>
          (let ok = env_xmit env (trace s) cmd b cb;
               s = emit (EvXmit cmd b cb ok) s
           in if ok then s else emit fail (emit (EvDealloc (hb_addr b)) s)))"

definition hw_mrvl_config_start_cb :: "bt_env \<Rightarrow> hc_bt_hdr option \<Rightarrow> bt_state \<Rightarrow> bt_state option" where
  "hw_mrvl_config_start_cb env p_mem s =
     (if \<not> vnd_cb s then None
      else do {
        b \<leftarrow> p_mem;
        evt_params \<leftarrow> parse_evt_buf b;
        let s = emit (EvDealloc (hb_addr b)) s;
        if ep_cmd evt_params = HCI_CMD_MARVELL_WRITE_BD_ADDRESS
        then Some (emit (EvFwcfg BT_VND_OP_RESULT_SUCCESS) s)
        else Some (emit (EvFwcfg BT_VND_OP_RESULT_FAIL) s)
      })"

text \<open>The switch of the SCO callback: the next command and its buffer, or the end of the chain.\<close>

datatype sco_next = ScoDone | ScoUnexpected | ScoSend u16 u8 "u8 list"

definition sco_switch :: "u16 \<Rightarrow> sco_next" where
  "sco_switch cmd =
     (if cmd = HCI_CMD_MARVELL_WRITE_PCM_SETTINGS
      then ScoSend HCI_CMD_MARVELL_WRITE_PCM_SYNC_SETTINGS WRITE_PCM_SYNC_SETTINGS_SIZE
             write_pcm_sync_settings
      else if cmd = HCI_CMD_MARVELL_WRITE_PCM_SYNC_SETTINGS
      then ScoSend HCI_CMD_MARVELL_WRITE_PCM_LINK_SETTINGS WRITE_PCM_LINK_SETTINGS_SIZE
             write_pcm_link_settings
      else if cmd = HCI_CMD_MARVELL_WRITE_PCM_LINK_SETTINGS
      then ScoSend HCI_CMD_MARVELL_SET_SCO_DATA_PATH SET_SCO_DATA_PATH_SIZE set_sco_data_path
      else if cmd = HCI_CMD_MARVELL_SET_SCO_DATA_PATH then ScoDone
      else ScoUnexpected)"

definition hw_mrvl_sco_config_cb :: "bt_env \<Rightarrow> hc_bt_hdr option \<Rightarrow> bt_state \<Rightarrow> bt_state option" where
  "hw_mrvl_sco_config_cb env p_mem s =
     (if \<not> vnd_cb s then None
      else do {
        b \<leftarrow> p_mem;
        evt_params \<leftarrow> parse_evt_buf b;
        let s = emit (EvDealloc (hb_addr b)) s;
        case sco_switch (ep_cmd evt_params) of
          ScoDone \<Rightarrow> Some (emit (EvScocfg BT_VND_OP_RESULT_SUCCESS) s)
        | ScoUnexpected \<Rightarrow> Some (emit (EvScocfg BT_VND_OP_RESULT_FAIL) s)
        | ScoSend cmd n payload \<Rightarrow> do {
            (p_buf, s) \<leftarrow> build_cmd_buf env cmd n payload s;
            Some (xmit_or_fail env cmd p_buf Cb_sco_config (EvScocfg BT_VND_OP_RESULT_FAIL) s)
          }
      })"

subsection \<open>Global functions\<close>

definition hw_mrvl_config_start :: "bt_env \<Rightarrow> bt_state \<Rightarrow> bt_state option" where
  "hw_mrvl_config_start env s =
     (if \<not> vnd_cb s then None
      else do {
        params \<leftarrow> populate_bd_addr_params (write_bd_address s) 2 (bdaddr s);
        let s = s\<lparr>write_bd_address := params\<rparr>;
        let cmd = HCI_CMD_MARVELL_WRITE_BD_ADDRESS;
        (p_buf, s) \<leftarrow> build_cmd_buf env cmd WRITE_BD_ADDRESS_SIZE (write_bd_address s) s;
        Some (xmit_or_fail env cmd p_buf Cb_config_start (EvFwcfg BT_VND_OP_RESULT_FAIL) s)
      })"

definition hw_mrvl_sco_config :: "bt_env \<Rightarrow> bt_state \<Rightarrow> bt_state option" where
  "hw_mrvl_sco_config env s =
     (if \<not> vnd_cb s then None
      else do {
        let cmd = HCI_CMD_MARVELL_WRITE_PCM_SETTINGS;
        (p_buf, s) \<leftarrow> build_cmd_buf env cmd WRITE_PCM_SETTINGS_SIZE write_pcm_settings s;
        Some (xmit_or_fail env cmd p_buf Cb_sco_config (EvScocfg BT_VND_OP_RESULT_FAIL) s)
      })"

subsection \<open>Bytes\<close>

lemma stream_roundtrip: "STREAM_TO_UINT16 (ucast v) (ucast (drop_bit 8 v)) = v"
proof (rule bit_word_eqI)
  fix n
  assume "n < LENGTH(16)"
  then have n: "n < 16" by simp
  have disj: "(ucast (ucast v :: u8) :: u16) AND push_bit 8 (ucast (ucast (drop_bit 8 v) :: u8)) = 0"
    by (rule bit_word_eqI) (auto simp: bit_simps)
  show "bit (STREAM_TO_UINT16 (ucast v) (ucast (drop_bit 8 v))) n \<longleftrightarrow> bit v n"
    using n unfolding STREAM_TO_UINT16_def disjunctive_add_eq_or [OF disj] by (auto simp: bit_simps)
qed

lemma sco_sizes:
  "unat WRITE_PCM_SETTINGS_SIZE = length write_pcm_settings"
  "unat WRITE_PCM_SYNC_SETTINGS_SIZE = length write_pcm_sync_settings"
  "unat WRITE_PCM_LINK_SETTINGS_SIZE = length write_pcm_link_settings"
  "unat SET_SCO_DATA_PATH_SIZE = length set_sco_data_path"
  by (simp_all add: WRITE_PCM_SETTINGS_SIZE_def write_pcm_settings_def
      WRITE_PCM_SYNC_SETTINGS_SIZE_def write_pcm_sync_settings_def
      WRITE_PCM_LINK_SETTINGS_SIZE_def write_pcm_link_settings_def
      SET_SCO_DATA_PATH_SIZE_def set_sco_data_path_def)

subsection \<open>Effects\<close>

lemma emit_simps [simp]:
  "trace (emit ev s) = trace s @ [ev]" "vnd_cb (emit ev s) = vnd_cb s"
  "bdaddr (emit ev s) = bdaddr s" "write_bd_address (emit ev s) = write_bd_address s"
  "mchar_fd (emit ev s) = mchar_fd s"
  by (simp_all add: emit_def)

lemma build_cmd_bufE:
  assumes "build_cmd_buf env cmd n payload s = Some (p, s')"
  obtains sz where "p = None" "s' = emit (EvAlloc sz None) s"
  | sz b where "p = Some b" "s' = emit (EvAlloc sz (Some (hb_addr b))) s"
      "hb_body b = UINT16_TO_STREAM cmd @ [n] @ take (unat n) payload"
      "hb_len b = HCI_CMD_PREAMBLE_SIZE + ucast n" "unat n \<le> length payload"
      "sz = BT_HC_HDR_SIZE env + unat (HCI_CMD_PREAMBLE_SIZE + ucast n)"
  using assms by (auto simp: build_cmd_buf_def Let_def split: if_splits option.splits)

text \<open>
  What sending a command appends to the trace: a failed allocation and the failure report, or
  a buffer that is transmitted, or one that was refused, given back and reported.
\<close>

inductive send_events :: "hci_cback \<Rightarrow> bt_event \<Rightarrow> bt_event list \<Rightarrow> bool"
  for cb :: hci_cback and fail :: bt_event where
  no_buffer: "send_events cb fail [EvAlloc sz None, fail]"
| sent: "send_events cb fail [EvAlloc sz (Some (hb_addr b)), EvXmit cmd b cb True]"
| refused: "send_events cb fail
    [EvAlloc sz (Some (hb_addr b)), EvXmit cmd b cb False, EvDealloc (hb_addr b), fail]"

lemma xmit_or_fail_None [simp]: "xmit_or_fail env cmd None cb fail s = emit fail s"
  by (simp add: xmit_or_fail_def)

lemma xmit_or_fail_accept:
  "env_xmit env (trace s) cmd b cb \<Longrightarrow>
   xmit_or_fail env cmd (Some b) cb fail s = emit (EvXmit cmd b cb True) s"
  by (simp add: xmit_or_fail_def Let_def)

lemma xmit_or_fail_refuse:
  "\<not> env_xmit env (trace s) cmd b cb \<Longrightarrow>
   xmit_or_fail env cmd (Some b) cb fail s =
     emit fail (emit (EvDealloc (hb_addr b)) (emit (EvXmit cmd b cb False) s))"
  by (simp add: xmit_or_fail_def Let_def)

lemma send_effect [effects]:
  assumes "build_cmd_buf env cmd n payload s = Some (p, s1)"
  shows "\<exists>evs. trace (xmit_or_fail env cmd p cb fail s1) = trace s @ evs \<and> send_events cb fail evs"
  using assms
proof (cases rule: build_cmd_bufE)
  case (1 sz)
  then show ?thesis
    by (intro exI [of _ "[EvAlloc sz None, fail]"]) (simp add: send_events.no_buffer)
next
  case (2 sz b)
  show ?thesis
  proof (cases "env_xmit env (trace s1) cmd b cb")
    case True
    with 2 show ?thesis
      by (intro exI [of _ "[EvAlloc sz (Some (hb_addr b)), EvXmit cmd b cb True]"])
        (simp add: xmit_or_fail_accept send_events.sent)
  next
    case False
    with 2 show ?thesis
      by (intro exI [of _ "[EvAlloc sz (Some (hb_addr b)), EvXmit cmd b cb False,
            EvDealloc (hb_addr b), fail]"])
        (simp add: xmit_or_fail_refuse send_events.refused)
  qed
qed

lemma xmit_or_fail_keeps [simp]:
  "mchar_fd (xmit_or_fail env cmd p cb fail s) = mchar_fd s"
  "vnd_cb (xmit_or_fail env cmd p cb fail s) = vnd_cb s"
  "bdaddr (xmit_or_fail env cmd p cb fail s) = bdaddr s"
  by (simp_all add: xmit_or_fail_def Let_def split: option.split)

lemma send_keeps:
  assumes "build_cmd_buf env cmd n payload s = Some (p, s1)"
  shows "mchar_fd (xmit_or_fail env cmd p cb fail s1) = mchar_fd s"
    "vnd_cb (xmit_or_fail env cmd p cb fail s1) = vnd_cb s"
    "bdaddr (xmit_or_fail env cmd p cb fail s1) = bdaddr s"
  using assms by (cases rule: build_cmd_bufE; simp)+

lemma config_start_effect [effects]:
  assumes "hw_mrvl_config_start env s = Some s'"
  shows "\<exists>evs. trace s' = trace s @ evs \<and> send_events Cb_config_start (EvFwcfg BT_VND_OP_RESULT_FAIL) evs"
    "mchar_fd s' = mchar_fd s"
proof -
  from assms obtain params p s1 where
    b: "build_cmd_buf env HCI_CMD_MARVELL_WRITE_BD_ADDRESS WRITE_BD_ADDRESS_SIZE params
      (s\<lparr>write_bd_address := params\<rparr>) = Some (p, s1)"
    and s': "s' = xmit_or_fail env HCI_CMD_MARVELL_WRITE_BD_ADDRESS p Cb_config_start
      (EvFwcfg BT_VND_OP_RESULT_FAIL) s1"
    by (auto simp: hw_mrvl_config_start_def Let_def split: if_splits)
  from send_effect [OF b] s'
  show "\<exists>evs. trace s' = trace s @ evs \<and> send_events Cb_config_start (EvFwcfg BT_VND_OP_RESULT_FAIL) evs"
    by simp
  from send_keeps(1) [OF b] s' show "mchar_fd s' = mchar_fd s" by simp
qed

lemma sco_config_effect [effects]:
  assumes "hw_mrvl_sco_config env s = Some s'"
  shows "\<exists>evs. trace s' = trace s @ evs \<and> send_events Cb_sco_config (EvScocfg BT_VND_OP_RESULT_FAIL) evs"
    "mchar_fd s' = mchar_fd s"
proof -
  from assms obtain p s1 where
    b: "build_cmd_buf env HCI_CMD_MARVELL_WRITE_PCM_SETTINGS WRITE_PCM_SETTINGS_SIZE
      write_pcm_settings s = Some (p, s1)"
    and s': "s' = xmit_or_fail env HCI_CMD_MARVELL_WRITE_PCM_SETTINGS p Cb_sco_config
      (EvScocfg BT_VND_OP_RESULT_FAIL) s1"
    by (auto simp: hw_mrvl_sco_config_def Let_def split: if_splits)
  from send_effect [OF b] s'
  show "\<exists>evs. trace s' = trace s @ evs \<and> send_events Cb_sco_config (EvScocfg BT_VND_OP_RESULT_FAIL) evs"
    by simp
  from send_keeps(1) [OF b] s' show "mchar_fd s' = mchar_fd s" by simp
qed

lemma config_start_cb_effect [effects]:
  assumes "hw_mrvl_config_start_cb env m s = Some s'"
  obtains b r where "m = Some b" "trace s' = trace s @ [EvDealloc (hb_addr b), EvFwcfg r]"
    "mchar_fd s' = mchar_fd s"
  using assms by (auto simp: hw_mrvl_config_start_cb_def Let_def split: if_splits)

lemma sco_config_cb_unfold:
  assumes "vnd_cb s" and "parse_evt_buf b = Some ep"
  shows "hw_mrvl_sco_config_cb env (Some b) s =
     (case sco_switch (ep_cmd ep) of
          ScoDone \<Rightarrow> Some (emit (EvScocfg BT_VND_OP_RESULT_SUCCESS) (emit (EvDealloc (hb_addr b)) s))
        | ScoUnexpected \<Rightarrow> Some (emit (EvScocfg BT_VND_OP_RESULT_FAIL) (emit (EvDealloc (hb_addr b)) s))
        | ScoSend cmd n payload \<Rightarrow> do {
            (p_buf, s) \<leftarrow> build_cmd_buf env cmd n payload (emit (EvDealloc (hb_addr b)) s);
            Some (xmit_or_fail env cmd p_buf Cb_sco_config (EvScocfg BT_VND_OP_RESULT_FAIL) s)
          })"
  using assms by (simp add: hw_mrvl_sco_config_cb_def Let_def del: bind_Some_iff)

lemma sco_config_cb_parsed:
  assumes "hw_mrvl_sco_config_cb env m s = Some s'"
  obtains b ep where "vnd_cb s" "m = Some b" "parse_evt_buf b = Some ep"
proof -
  from assms have "vnd_cb s" by (simp add: hw_mrvl_sco_config_cb_def split: if_splits)
  moreover from assms obtain b where m: "m = Some b"
    by (cases m) (simp_all add: hw_mrvl_sco_config_cb_def split: if_splits)
  moreover from assms obtain ep where "parse_evt_buf b = Some ep"
    by (cases "parse_evt_buf b") (simp_all add: m hw_mrvl_sco_config_cb_def split: if_splits)
  ultimately show thesis by (rule that)
qed

lemma sco_config_cb_effect [effects]:
  assumes "hw_mrvl_sco_config_cb env m s = Some s'"
  obtains b evs where "m = Some b" "trace s' = trace s @ EvDealloc (hb_addr b) # evs"
    "(\<exists>r. evs = [EvScocfg r]) \<or> send_events Cb_sco_config (EvScocfg BT_VND_OP_RESULT_FAIL) evs"
    "mchar_fd s' = mchar_fd s"
proof -
  from assms obtain b ep where v: "vnd_cb s" and m: "m = Some b" and ep: "parse_evt_buf b = Some ep"
    by (rule sco_config_cb_parsed)
  note rest = assms [unfolded m sco_config_cb_unfold [OF v ep]]
  show thesis
  proof (cases "sco_switch (ep_cmd ep)")
    case (ScoSend cmd n payload)
    with rest obtain p s1 where
      b: "build_cmd_buf env cmd n payload (emit (EvDealloc (hb_addr b)) s) = Some (p, s1)"
      and s': "s' = xmit_or_fail env cmd p Cb_sco_config (EvScocfg BT_VND_OP_RESULT_FAIL) s1" by auto
    from send_effect [OF b, of Cb_sco_config "EvScocfg BT_VND_OP_RESULT_FAIL"] s' obtain evs where
      e: "trace s' = trace s @ EvDealloc (hb_addr b) # evs"
      "send_events Cb_sco_config (EvScocfg BT_VND_OP_RESULT_FAIL) evs" by auto
    show thesis
      by (rule that [OF m e(1) disjI2 [OF e(2)]]) (use send_keeps(1) [OF b] in \<open>simp add: s'\<close>)
  next
    case ScoDone
    with rest show thesis by (intro that [OF m, of "[EvScocfg BT_VND_OP_RESULT_SUCCESS]"]) auto
  next
    case ScoUnexpected
    with rest show thesis by (intro that [OF m, of "[EvScocfg BT_VND_OP_RESULT_FAIL]"]) auto
  qed
qed

end
