(* ===== verification/Bt_Vendor.thy ===== *)
theory Bt_Vendor
  imports Bt_Hardware "HOL-Library.Multiset"
begin

section \<open>Bluetooth vendor library: the interface\<close>

text \<open>
  \<open>bt/bt_vendor_mrvl.c\<close>: the entry points that the stack calls, the serial port they open and
  close, and the dispatch to the HCI configuration of \<open>Bt_Hardware\<close>. The stack itself is a list
  of inputs: calls of the interface and completions of transmitted commands.
\<close>

subsection \<open>Entry points\<close>

definition bt_vnd_mrvl_if_init :: "bool \<Rightarrow> u8 list \<Rightarrow> bt_state \<Rightarrow> (int \<times> bt_state) option" where
  "bt_vnd_mrvl_if_init p_cb local_bdaddr s =
     (if length local_bdaddr < 6 then None
      else Some (0, s\<lparr>vnd_cb := p_cb, bdaddr := take 6 local_bdaddr\<rparr>))"

datatype bt_vendor_opcode_t =
    BT_VND_OP_POWER_CTRL
  | BT_VND_OP_FW_CFG
  | BT_VND_OP_SCO_CFG
  | BT_VND_OP_USERIAL_OPEN
  | BT_VND_OP_USERIAL_CLOSE
  | BT_VND_OP_GET_LPM_IDLE_TIMEOUT
  | BT_VND_OP_LPM_SET_MODE
  | BT_VND_OP_LPM_WAKE_SET_STATE
  | BT_VND_OP_EPILOG
  | BT_VND_OP_OTHER int

text \<open>
  \<open>param\<close> is the array behind the pointer, \<open>None\<close> for a null pointer. The result holds the
  return value, the array afterwards and the state.
\<close>

definition bt_vnd_mrvl_if_op :: "bt_env \<Rightarrow> bt_vendor_opcode_t \<Rightarrow> int list option \<Rightarrow> bt_state \<Rightarrow>
    (int \<times> int list option \<times> bt_state) option" where
  "bt_vnd_mrvl_if_op env opcode param s =
     (case opcode of
        BT_VND_OP_POWER_CTRL \<Rightarrow>
          (case param of
             Some (power_state # _) \<Rightarrow>
               if BT_VND_PWR_OFF env = power_state then Some (0, param, s)
               else if BT_VND_PWR_ON env = power_state then Some (0, param, s)
               else Some (- 1, param, s)
           | _ \<Rightarrow> None)
      | BT_VND_OP_FW_CFG \<Rightarrow> do { s \<leftarrow> hw_mrvl_config_start env s; Some (0, param, s) }
      | BT_VND_OP_SCO_CFG \<Rightarrow> do { s \<leftarrow> hw_mrvl_sco_config env s; Some (0, param, s) }
      | BT_VND_OP_USERIAL_OPEN \<Rightarrow>
          (let fd = env_open env (trace s);
               s = (emit (EvOpen fd) s)\<lparr>mchar_fd := fd\<rparr>;
               ret = (if fd < 0 then - 1 else 1)
           in case param of
                Some (_ # rest) \<Rightarrow> Some (ret, Some (fd # rest), s)
              | _ \<Rightarrow> None)
      | BT_VND_OP_USERIAL_CLOSE \<Rightarrow>
          (if mchar_fd s < 0 then Some (- 1, param, s)
           else
             (let s = emit (EvUsleep 1000) (emit (EvIoctlRelease (mchar_fd s)) s);
                  r = env_close env (trace s) (mchar_fd s);
                  s = emit (EvClose (mchar_fd s) r) s
              in if r < 0 then Some (- 1, param, s)
                 else Some (0, param, s\<lparr>mchar_fd := - 1\<rparr>)))
      | BT_VND_OP_GET_LPM_IDLE_TIMEOUT \<Rightarrow> Some (0, param, s)
      | BT_VND_OP_LPM_SET_MODE \<Rightarrow> Some (0, param, if vnd_cb s then emit (EvLpm 0) s else s)
      | BT_VND_OP_LPM_WAKE_SET_STATE \<Rightarrow> Some (0, param, s)
      | BT_VND_OP_EPILOG \<Rightarrow>
          Some (0, param, if vnd_cb s then emit (EvEpilog BT_VND_OP_RESULT_SUCCESS) s else s)
      | BT_VND_OP_OTHER _ \<Rightarrow> Some (- 1, param, s))"

definition bt_vnd_mrvl_if_cleanup :: "bt_state \<Rightarrow> bt_state" where
  "bt_vnd_mrvl_if_cleanup s = s"

definition bt_vnd_mrvl_if_ssr_cleanup :: "int \<Rightarrow> bt_state \<Rightarrow> bt_state" where
  "bt_vnd_mrvl_if_ssr_cleanup reason s = s"

subsection \<open>The stack as a list of inputs\<close>

datatype bt_input =
    Init bool "u8 list"
  | Op bt_vendor_opcode_t "int list option"
  | Complete hci_cback "hc_bt_hdr option"
  | Cleanup
  | SsrCleanup int

definition bt_step :: "bt_env \<Rightarrow> bt_input \<Rightarrow> bt_state \<Rightarrow> bt_state option" where
  "bt_step env i s =
     (case i of
        Init cb addr \<Rightarrow> map_option snd (bt_vnd_mrvl_if_init cb addr s)
      | Op opcode param \<Rightarrow> map_option (snd \<circ> snd) (bt_vnd_mrvl_if_op env opcode param s)
      | Complete Cb_config_start b \<Rightarrow> hw_mrvl_config_start_cb env b s
      | Complete Cb_sco_config b \<Rightarrow> hw_mrvl_sco_config_cb env b s
      | Cleanup \<Rightarrow> Some (bt_vnd_mrvl_if_cleanup s)
      | SsrCleanup reason \<Rightarrow> Some (bt_vnd_mrvl_if_ssr_cleanup reason s))"

subsection \<open>What a step appends to the trace\<close>

text \<open>The events of the steps that send nothing.\<close>

fun quiet_event :: "bt_event \<Rightarrow> bool" where
  "quiet_event (EvLpm _) = True"
| "quiet_event (EvEpilog _) = True"
| "quiet_event (EvOpen _) = True"
| "quiet_event (EvIoctlRelease _) = True"
| "quiet_event (EvUsleep _) = True"
| "quiet_event (EvClose _ _) = True"
| "quiet_event _ = False"

fun quiet_op :: "bt_vendor_opcode_t \<Rightarrow> bool" where
  "quiet_op BT_VND_OP_FW_CFG = False"
| "quiet_op BT_VND_OP_SCO_CFG = False"
| "quiet_op _ = True"

lemma quiet_op_effect:
  assumes "quiet_op opcode" and "bt_vnd_mrvl_if_op env opcode param s = Some (r, param', s')"
  shows "\<exists>evs. trace s' = trace s @ evs \<and> list_all quiet_event evs"
proof (cases opcode)
  case BT_VND_OP_USERIAL_OPEN
  with assms(2) show ?thesis
    by (intro exI [of _ "[EvOpen (env_open env (trace s))]"])
      (auto simp: bt_vnd_mrvl_if_op_def Let_def split: option.splits list.splits)
next
  case BT_VND_OP_USERIAL_CLOSE
  show ?thesis
  proof (cases "mchar_fd s < 0")
    case True
    with assms(2) BT_VND_OP_USERIAL_CLOSE show ?thesis
      by (intro exI [of _ "[]"]) (simp add: bt_vnd_mrvl_if_op_def)
  next
    case False
    define t where "t = trace s @ [EvIoctlRelease (mchar_fd s), EvUsleep 1000]"
    from False assms(2) BT_VND_OP_USERIAL_CLOSE show ?thesis
      by (intro exI [of _ "[EvIoctlRelease (mchar_fd s), EvUsleep 1000,
            EvClose (mchar_fd s) (env_close env t (mchar_fd s))]"])
        (auto simp: bt_vnd_mrvl_if_op_def Let_def t_def split: if_splits)
  qed
next
  case BT_VND_OP_LPM_SET_MODE
  with assms(2) show ?thesis
    by (intro exI [of _ "if vnd_cb s then [EvLpm 0] else []"])
      (auto simp: bt_vnd_mrvl_if_op_def)
next
  case BT_VND_OP_EPILOG
  with assms(2) show ?thesis
    by (intro exI [of _ "if vnd_cb s then [EvEpilog BT_VND_OP_RESULT_SUCCESS] else []"])
      (auto simp: bt_vnd_mrvl_if_op_def)
qed (use assms in \<open>(intro exI [of _ "[]"],
  auto simp: bt_vnd_mrvl_if_op_def split: option.splits list.splits if_splits)\<close>)

inductive step_events :: "bt_input \<Rightarrow> bt_event list \<Rightarrow> bool" where
  se_quiet: "list_all quiet_event evs \<Longrightarrow> quiet_op opcode \<Longrightarrow> step_events (Op opcode param) evs"
| se_fw: "send_events Cb_config_start (EvFwcfg BT_VND_OP_RESULT_FAIL) evs \<Longrightarrow>
    step_events (Op BT_VND_OP_FW_CFG param) evs"
| se_sco: "send_events Cb_sco_config (EvScocfg BT_VND_OP_RESULT_FAIL) evs \<Longrightarrow>
    step_events (Op BT_VND_OP_SCO_CFG param) evs"
| se_fw_done: "step_events (Complete Cb_config_start (Some b)) [EvDealloc (hb_addr b), EvFwcfg r]"
| se_sco_done: "step_events (Complete Cb_sco_config (Some b)) [EvDealloc (hb_addr b), EvScocfg r]"
| se_sco_next: "send_events Cb_sco_config (EvScocfg BT_VND_OP_RESULT_FAIL) evs \<Longrightarrow>
    step_events (Complete Cb_sco_config (Some b)) (EvDealloc (hb_addr b) # evs)"
| se_init: "step_events (Init cb addr) []"
| se_cleanup: "step_events Cleanup []"
| se_ssr: "step_events (SsrCleanup reason) []"

lemma bt_step_effect:
  assumes "bt_step env i s = Some s'"
  shows "\<exists>evs. trace s' = trace s @ evs \<and> step_events i evs"
proof (cases i)
  case (Init cb addr)
  with assms show ?thesis
    by (intro exI [of _ "[]"])
      (auto simp: bt_step_def bt_vnd_mrvl_if_init_def se_init split: if_splits)
next
  case (Op opcode param)
  with assms obtain r param' where
    op: "bt_vnd_mrvl_if_op env opcode param s = Some (r, param', s')"
    by (auto simp: bt_step_def)
  show ?thesis
  proof (cases "quiet_op opcode")
    case True
    from quiet_op_effect [OF True op] True Op show ?thesis by (blast intro: se_quiet)
  next
    case False
    then consider (fw) "opcode = BT_VND_OP_FW_CFG" | (sco) "opcode = BT_VND_OP_SCO_CFG"
      by (cases opcode) auto
    then show ?thesis
    proof cases
      case fw
      with op have "hw_mrvl_config_start env s = Some s'" by (simp add: bt_vnd_mrvl_if_op_def)
      from config_start_effect(1) [OF this] fw Op show ?thesis by (blast intro: se_fw)
    next
      case sco
      with op have "hw_mrvl_sco_config env s = Some s'" by (simp add: bt_vnd_mrvl_if_op_def)
      from sco_config_effect(1) [OF this] sco Op show ?thesis by (blast intro: se_sco)
    qed
  qed
next
  case (Complete cb b)
  show ?thesis
  proof (cases cb)
    case Cb_config_start
    with Complete assms have "hw_mrvl_config_start_cb env b s = Some s'" by (simp add: bt_step_def)
    then show ?thesis
      by (rule config_start_cb_effect) (use Complete Cb_config_start se_fw_done in blast)
  next
    case Cb_sco_config
    with Complete assms have "hw_mrvl_sco_config_cb env b s = Some s'" by (simp add: bt_step_def)
    then show ?thesis
      by (rule sco_config_cb_effect)
        (use Complete Cb_sco_config se_sco_done se_sco_next in blast)
  qed
qed (use assms in \<open>auto simp: bt_step_def bt_vnd_mrvl_if_cleanup_def bt_vnd_mrvl_if_ssr_cleanup_def
  intro: step_events.intros intro!: exI [of _ "[]"]\<close>)

lemma bt_step_law:
  assumes "\<And>evs. step_events i evs \<Longrightarrow> b i + sum_list (map m evs) = sum_list (map t evs)"
    and "bt_step env i s = Some s'"
  shows "\<exists>evs. trace s' = trace s @ evs \<and> b i + sum_list (map m evs) = sum_list (map t evs)"
  using bt_step_effect [OF assms(2)] assms(1) by blast

subsection \<open>Three ledgers\<close>

fun sco_brought :: "bt_input \<Rightarrow> nat" where
  "sco_brought (Op BT_VND_OP_SCO_CFG _) = 1"
| "sco_brought (Complete Cb_sco_config _) = 1"
| "sco_brought _ = 0"

fun sco_settled :: "bt_event \<Rightarrow> nat" where
  "sco_settled (EvScocfg _) = 1"
| "sco_settled (EvXmit _ _ Cb_sco_config True) = 1"
| "sco_settled _ = 0"

fun fw_brought :: "bt_input \<Rightarrow> nat" where
  "fw_brought (Op BT_VND_OP_FW_CFG _) = 1"
| "fw_brought (Complete Cb_config_start _) = 1"
| "fw_brought _ = 0"

fun fw_settled :: "bt_event \<Rightarrow> nat" where
  "fw_settled (EvFwcfg _) = 1"
| "fw_settled (EvXmit _ _ Cb_config_start True) = 1"
| "fw_settled _ = 0"

fun buf_brought :: "bt_input \<Rightarrow> nat multiset" where
  "buf_brought (Complete _ (Some b)) = {#hb_addr b#}"
| "buf_brought _ = {#}"

fun buf_made :: "bt_event \<Rightarrow> nat multiset" where
  "buf_made (EvAlloc _ (Some p)) = {#p#}"
| "buf_made _ = {#}"

fun buf_settled :: "bt_event \<Rightarrow> nat multiset" where
  "buf_settled (EvDealloc p) = {#p#}"
| "buf_settled (EvXmit _ b _ True) = {#hb_addr b#}"
| "buf_settled _ = {#}"

lemma quiet_event_settles:
  assumes "list_all quiet_event evs"
  shows "sum_list (map sco_settled evs) = 0" "sum_list (map fw_settled evs) = 0"
    "sum_list (map buf_made evs) = {#}" "sum_list (map buf_settled evs) = {#}"
proof -
  have "sco_settled ev = 0 \<and> fw_settled ev = 0 \<and> buf_made ev = {#} \<and> buf_settled ev = {#}"
    if "quiet_event ev" for ev
    using that by (cases ev) auto
  with assms show "sum_list (map sco_settled evs) = 0" "sum_list (map fw_settled evs) = 0"
    "sum_list (map buf_made evs) = {#}" "sum_list (map buf_settled evs) = {#}"
    by (induction evs) auto
qed

lemma quiet_op_brings [simp]:
  "quiet_op opcode \<Longrightarrow> sco_brought (Op opcode param) = 0"
  "quiet_op opcode \<Longrightarrow> fw_brought (Op opcode param) = 0"
  by (cases opcode; simp)+

interpretation sco: ledger "bt_step env" trace sco_brought "\<lambda>_. 0" sco_settled for env
proof (standard, rule bt_step_law)
  show "sco_brought i + sum_list (map (\<lambda>_. 0) evs) = sum_list (map sco_settled evs)"
    if "step_events i evs" for i evs
    using that by cases (auto simp: quiet_event_settles elim!: send_events.cases)
qed

interpretation fw: ledger "bt_step env" trace fw_brought "\<lambda>_. 0" fw_settled for env
proof (standard, rule bt_step_law)
  show "fw_brought i + sum_list (map (\<lambda>_. 0) evs) = sum_list (map fw_settled evs)"
    if "step_events i evs" for i evs
    using that by cases (auto simp: quiet_event_settles elim!: send_events.cases)
qed

interpretation buf: ledger "bt_step env" trace buf_brought buf_made buf_settled for env
proof (standard, rule bt_step_law)
  show "buf_brought i + sum_list (map buf_made evs) = sum_list (map buf_settled evs)"
    if "step_events i evs" for i evs
    using that by cases (auto simp: quiet_event_settles elim!: send_events.cases)
qed

end
