(* ===== verification/Bt_Correct.thy ===== *)
theory Bt_Correct
  imports Bt_Vendor
begin

section \<open>Bluetooth vendor library: runs\<close>

text \<open>
  Facts about whole runs of the library from its initial state: the accounting of results and
  buffers (instances of the three ledgers of \<open>Bt_Vendor\<close>), the protocol of the serial port, the
  packets on the wire, and that a stack which keeps its side of the contract never drives the
  library into an assertion failure.
\<close>

subsection \<open>Counting\<close>

definition accepted :: "hci_cback \<Rightarrow> bt_event \<Rightarrow> bool" where
  "accepted cb ev = (case ev of EvXmit _ _ cb' ok \<Rightarrow> cb' = cb \<and> ok | _ \<Rightarrow> False)"

definition is_scocfg :: "bt_event \<Rightarrow> bool" where
  "is_scocfg ev = (case ev of EvScocfg _ \<Rightarrow> True | _ \<Rightarrow> False)"

definition is_fwcfg :: "bt_event \<Rightarrow> bool" where
  "is_fwcfg ev = (case ev of EvFwcfg _ \<Rightarrow> True | _ \<Rightarrow> False)"

definition completes :: "hci_cback \<Rightarrow> bt_input \<Rightarrow> bool" where
  "completes cb i = (case i of Complete cb' _ \<Rightarrow> cb' = cb | _ \<Rightarrow> False)"

definition requests :: "bt_vendor_opcode_t \<Rightarrow> bt_input \<Rightarrow> bool" where
  "requests opcode i = (case i of Op opcode' _ \<Rightarrow> opcode' = opcode | _ \<Rightarrow> False)"

definition count_if :: "('a \<Rightarrow> bool) \<Rightarrow> 'a list \<Rightarrow> nat" where
  "count_if P xs = length (filter P xs)"

lemma count_if_simps [simp]:
  "count_if P [] = 0" "count_if P (x # xs) = (if P x then 1 else 0) + count_if P xs"
  "count_if P (xs @ ys) = count_if P xs + count_if P ys"
  by (simp_all add: count_if_def)

lemma sco_ledger_counts:
  "sum_list (map sco_brought is) = count_if (requests BT_VND_OP_SCO_CFG) is + count_if (completes Cb_sco_config) is"
  "sum_list (map sco_settled evs) = count_if is_scocfg evs + count_if (accepted Cb_sco_config) evs"
proof -
  have "sco_brought i = (if requests BT_VND_OP_SCO_CFG i then 1 else 0) + (if completes Cb_sco_config i then 1 else 0)" for i
    by (cases i rule: sco_brought.cases) (auto simp: requests_def completes_def)
  then show "sum_list (map sco_brought is) = count_if (requests BT_VND_OP_SCO_CFG) is + count_if (completes Cb_sco_config) is"
    by (induction "is") auto
  have "sco_settled ev = (if is_scocfg ev then 1 else 0) + (if accepted Cb_sco_config ev then 1 else 0)" for ev
    by (cases ev rule: sco_settled.cases) (auto simp: is_scocfg_def accepted_def)
  then show "sum_list (map sco_settled evs) = count_if is_scocfg evs + count_if (accepted Cb_sco_config) evs"
    by (induction evs) auto
qed

lemma fw_ledger_counts:
  "sum_list (map fw_brought is) = count_if (requests BT_VND_OP_FW_CFG) is + count_if (completes Cb_config_start) is"
  "sum_list (map fw_settled evs) = count_if is_fwcfg evs + count_if (accepted Cb_config_start) evs"
proof -
  have "fw_brought i = (if requests BT_VND_OP_FW_CFG i then 1 else 0) + (if completes Cb_config_start i then 1 else 0)" for i
    by (cases i rule: fw_brought.cases) (auto simp: requests_def completes_def)
  then show "sum_list (map fw_brought is) = count_if (requests BT_VND_OP_FW_CFG) is + count_if (completes Cb_config_start) is"
    by (induction "is") auto
  have "fw_settled ev = (if is_fwcfg ev then 1 else 0) + (if accepted Cb_config_start ev then 1 else 0)" for ev
    by (cases ev rule: fw_settled.cases) (auto simp: is_fwcfg_def accepted_def)
  then show "sum_list (map fw_settled evs) = count_if is_fwcfg evs + count_if (accepted Cb_config_start) evs"
    by (induction evs) auto
qed

definition allocated :: "bt_event list \<Rightarrow> nat multiset" where
  "allocated evs = sum_list (map buf_made evs)"

definition received :: "bt_input list \<Rightarrow> nat multiset" where
  "received is = sum_list (map buf_brought is)"

definition transmitted :: "bt_event list \<Rightarrow> nat multiset" where
  "transmitted evs = sum_list (map (\<lambda>ev. case ev of EvXmit _ b _ True \<Rightarrow> {#hb_addr b#} | _ \<Rightarrow> {#}) evs)"

definition deallocated :: "bt_event list \<Rightarrow> nat multiset" where
  "deallocated evs = sum_list (map (\<lambda>ev. case ev of EvDealloc p \<Rightarrow> {#p#} | _ \<Rightarrow> {#}) evs)"

lemma buf_settled_split: "sum_list (map buf_settled evs) = transmitted evs + deallocated evs"
proof (induction evs)
  case Nil
  then show ?case by (simp add: transmitted_def deallocated_def)
next
  case (Cons ev evs)
  then show ?case
    by (cases ev rule: buf_settled.cases) (simp_all add: transmitted_def deallocated_def)
qed

lemma trace_init [simp]: "trace init_bt = []"
  by (simp add: init_bt_def)

subsection \<open>A stack that keeps its contract\<close>

definition bt_ok :: "u8 list \<Rightarrow> bt_state \<Rightarrow> bool" where
  "bt_ok addr s \<longleftrightarrow> vnd_cb s \<and> bdaddr s = addr \<and> length addr = 6 \<and>
     length (write_bd_address s) = 8 \<and> take 2 (write_bd_address s) = [0xFE, 0x06]"

text \<open>
  Opcodes whose argument is read or written get an array, completions a buffer with the three
  bytes that the library parses; the interface is initialised once.
\<close>

definition bt_input_ok :: "bt_input \<Rightarrow> bool" where
  "bt_input_ok i = (case i of
     Init _ _ \<Rightarrow> False
   | Op opcode param \<Rightarrow>
       (opcode = BT_VND_OP_POWER_CTRL \<or> opcode = BT_VND_OP_USERIAL_OPEN) \<longrightarrow>
       (case param of Some (_ # _) \<Rightarrow> True | _ \<Rightarrow> False)
   | Complete _ (Some b) \<Rightarrow> 6 \<le> length (hb_body b)
   | Complete _ None \<Rightarrow> False
   | _ \<Rightarrow> True)"

lemma build_cmd_buf_defined:
  assumes "vnd_cb s" and "unat n \<le> length payload"
  obtains p s1 where "build_cmd_buf env cmd n payload s = Some (p, s1)"
    "bdaddr s1 = bdaddr s" "write_bd_address s1 = write_bd_address s" "vnd_cb s1"
  using assms
  by (cases "env_alloc env (trace s) (BT_HC_HDR_SIZE env + unat (HCI_CMD_PREAMBLE_SIZE + ucast n))")
    (simp_all add: build_cmd_buf_def Let_def not_less [symmetric])

lemma xmit_or_fail_write_bd [simp]:
  "write_bd_address (xmit_or_fail env cmd p cb fail s) = write_bd_address s"
  by (simp add: xmit_or_fail_def Let_def split: option.split)

lemma parse_evt_buf_defined:
  "6 \<le> length (hb_body b) \<Longrightarrow>
   parse_evt_buf b = Some \<lparr>ep_cmd = STREAM_TO_UINT16 (hb_body b ! 3) (hb_body b ! 4),
     ep_cmd_ret_param = hb_body b ! 5\<rparr>"
  by (simp add: parse_evt_buf_def HCI_EVT_CMD_CMPL_OPCODE_def Let_def)

lemma populate_written:
  assumes "length addr = 6" and "length w = 8" and "take 2 w = [x, y]"
  shows "populate_bd_addr_params w 2 addr =
    Some [x, y, addr ! 5, addr ! 4, addr ! 3, addr ! 2, addr ! 1, addr ! 0]"
proof -
  from assms(2) obtain w0 w1 w2 w3 w4 w5 w6 w7 where "w = [w0, w1, w2, w3, w4, w5, w6, w7]"
    by (auto simp: eval_nat_numeral length_Suc_conv)
  with assms show ?thesis by (simp add: populate_bd_addr_params_def)
qed

lemma config_start_ok:
  assumes "bt_ok addr s"
  shows "\<exists>s'. hw_mrvl_config_start env s = Some s' \<and> bt_ok addr s'"
proof -
  let ?w = "[0xFE, 0x06, addr ! 5, addr ! 4, addr ! 3, addr ! 2, addr ! 1, addr ! 0]"
  let ?s = "s\<lparr>write_bd_address := ?w\<rparr>"
  from assms have ok: "vnd_cb s" "bdaddr s = addr" "length addr = 6"
    "length (write_bd_address s) = 8" "take 2 (write_bd_address s) = [0xFE, 0x06]"
    by (simp_all add: bt_ok_def)
  have v: "vnd_cb ?s" using ok by simp
  have n: "unat WRITE_BD_ADDRESS_SIZE \<le> length ?w" by (simp add: WRITE_BD_ADDRESS_SIZE_def)
  obtain p s1 where b: "build_cmd_buf env HCI_CMD_MARVELL_WRITE_BD_ADDRESS WRITE_BD_ADDRESS_SIZE ?w ?s = Some (p, s1)"
    "bdaddr s1 = bdaddr ?s" "write_bd_address s1 = write_bd_address ?s" "vnd_cb s1"
    by (rule build_cmd_buf_defined [OF v n])
  have "hw_mrvl_config_start env s = Some (xmit_or_fail env HCI_CMD_MARVELL_WRITE_BD_ADDRESS p
      Cb_config_start (EvFwcfg BT_VND_OP_RESULT_FAIL) s1)"
    using ok b(1) populate_written [OF ok(3-5)]
    by (simp add: hw_mrvl_config_start_def Let_def del: bind_Some_iff)
  then show ?thesis using b ok by (simp add: bt_ok_def)
qed

lemma send_ok:
  assumes "bt_ok addr s" and "unat n \<le> length payload"
  shows "\<exists>s'. do { (p, s1) \<leftarrow> build_cmd_buf env cmd n payload s; Some (xmit_or_fail env cmd p cb fail s1) } = Some s'
    \<and> bt_ok addr s'"
proof -
  from assms have v: "vnd_cb s" by (simp add: bt_ok_def)
  obtain p s1 where "build_cmd_buf env cmd n payload s = Some (p, s1)"
    "bdaddr s1 = bdaddr s" "write_bd_address s1 = write_bd_address s" "vnd_cb s1"
    by (rule build_cmd_buf_defined [OF v assms(2)])
  with assms(1) show ?thesis by (simp add: bt_ok_def del: bind_Some_iff)
qed

lemma sco_switch_payload: "sco_switch c = ScoSend cmd n payload \<Longrightarrow> unat n \<le> length payload"
  by (auto simp: sco_switch_def sco_sizes split: if_splits)

lemma bt_ok_emit [simp]: "bt_ok addr (emit ev s) = bt_ok addr s"
  by (simp add: bt_ok_def)

lemma sco_config_cb_ok:
  assumes "bt_ok addr s" and "6 \<le> length (hb_body b)"
  shows "\<exists>s'. hw_mrvl_sco_config_cb env (Some b) s = Some s' \<and> bt_ok addr s'"
proof -
  let ?ep = "\<lparr>ep_cmd = STREAM_TO_UINT16 (hb_body b ! 3) (hb_body b ! 4), ep_cmd_ret_param = hb_body b ! 5\<rparr>"
  from assms have v: "vnd_cb s" by (simp add: bt_ok_def)
  note cb = sco_config_cb_unfold [OF v parse_evt_buf_defined [OF assms(2)], of env]
  show ?thesis
  proof (cases "sco_switch (ep_cmd ?ep)")
    case (ScoSend cmd n payload)
    have "bt_ok addr (emit (EvDealloc (hb_addr b)) s)" using assms(1) by simp
    from send_ok [OF this sco_switch_payload [OF ScoSend]] ScoSend cb show ?thesis by simp
  qed (use cb assms(1) in simp_all)
qed

lemma config_start_cb_ok:
  assumes "bt_ok addr s" and "6 \<le> length (hb_body b)"
  shows "\<exists>s'. hw_mrvl_config_start_cb env (Some b) s = Some s' \<and> bt_ok addr s'"
  using assms(1) parse_evt_buf_defined [OF assms(2)]
  by (simp add: hw_mrvl_config_start_cb_def Let_def bt_ok_def del: bind_Some_iff)

lemma bt_op_ok:
  assumes ok: "bt_ok addr s" and i: "bt_input_ok (Op opcode param)"
  shows "\<exists>r param' s'. bt_vnd_mrvl_if_op env opcode param s = Some (r, param', s') \<and> bt_ok addr s'"
proof (cases opcode)
  case BT_VND_OP_FW_CFG
  with config_start_ok [OF ok, of env] show ?thesis
    by (auto simp: bt_vnd_mrvl_if_op_def)
next
  case BT_VND_OP_SCO_CFG
  from ok have v: "vnd_cb s" by (simp add: bt_ok_def)
  from send_ok [OF ok, of WRITE_PCM_SETTINGS_SIZE write_pcm_settings] v sco_sizes(1)
  have "\<exists>s'. hw_mrvl_sco_config env s = Some s' \<and> bt_ok addr s'"
    by (simp add: hw_mrvl_sco_config_def Let_def del: bind_Some_iff)
  with BT_VND_OP_SCO_CFG show ?thesis by (auto simp: bt_vnd_mrvl_if_op_def)
qed (use assms in \<open>auto simp: bt_vnd_mrvl_if_op_def bt_input_ok_def bt_ok_def Let_def
  split: option.splits list.splits\<close>)

lemma bt_step_ok:
  assumes "bt_ok addr s" and "bt_input_ok i"
  shows "\<exists>s'. bt_step env i s = Some s' \<and> bt_ok addr s'"
proof (cases i)
  case (Op opcode param)
  with assms(2) have "bt_input_ok (Op opcode param)" by simp
  from bt_op_ok [OF assms(1) this, of env] Op show ?thesis by (auto simp: bt_step_def)
next
  case (Complete cb mb)
  with assms(2) obtain b where "mb = Some b" "6 \<le> length (hb_body b)"
    by (cases mb) (auto simp: bt_input_ok_def)
  with Complete assms(1) config_start_cb_ok sco_config_cb_ok show ?thesis
    by (cases cb) (simp_all add: bt_step_def)
qed (use assms in \<open>simp_all add: bt_step_def bt_input_ok_def bt_vnd_mrvl_if_cleanup_def
  bt_vnd_mrvl_if_ssr_cleanup_def\<close>)

lemma run_steps_ok:
  "bt_ok addr s \<Longrightarrow> \<forall>i \<in> set is. bt_input_ok i \<Longrightarrow>
   \<exists>s'. run_steps (bt_step env) is s = Some s' \<and> bt_ok addr s'"
proof (induction "is" arbitrary: s)
  case (Cons i "is")
  then obtain s1 where "bt_step env i s = Some s1" "bt_ok addr s1" using bt_step_ok by fastforce
  with Cons show ?case by simp
qed simp

lemma bt_init_ok:
  "length addr = 6 \<Longrightarrow> \<exists>s. bt_step env (Init True addr) init_bt = Some s \<and> bt_ok addr s"
  by (simp add: bt_step_def bt_vnd_mrvl_if_init_def init_bt_def bt_ok_def)

subsection \<open>The protocol of the serial port\<close>

text \<open>
  What the driver sees: the port is opened, and before a close its blocked reader is released
  and given time to leave. A failed close leaves the port open.
\<close>

datatype port_state = Port int | Released int | Waited int

fun port_ev :: "bt_event \<Rightarrow> port_state \<Rightarrow> port_state option" where
  "port_ev (EvOpen fd) (Port _) = Some (Port fd)"
| "port_ev (EvIoctlRelease fd) (Port cur) = (if fd = cur \<and> 0 \<le> fd then Some (Released fd) else None)"
| "port_ev (EvUsleep n) (Released fd) = (if n = 1000 then Some (Waited fd) else None)"
| "port_ev (EvClose fd r) (Waited cur) =
     (if fd \<noteq> cur then None else if r < 0 then Some (Port fd) else Some (Port (- 1)))"
| "port_ev (EvUsleep _) (Port _) = None"
| "port_ev (EvClose _ _) (Port _) = None"
| "port_ev _ (Port cur) = Some (Port cur)"
| "port_ev _ _ = None"

abbreviation port_run :: "bt_event list \<Rightarrow> port_state \<Rightarrow> port_state option" where
  "port_run \<equiv> run_steps port_ev"

definition port_silent :: "bt_event list \<Rightarrow> bool" where
  "port_silent evs \<longleftrightarrow> (\<forall>fd. port_run evs (Port fd) = Some (Port fd))"

lemma port_silent_simps [simp]:
  "port_silent []"
  "port_silent (EvAlloc n p # evs) = port_silent evs" "port_silent (EvDealloc q # evs) = port_silent evs"
  "port_silent (EvXmit c b cb ok # evs) = port_silent evs"
  "port_silent (EvFwcfg r # evs) = port_silent evs" "port_silent (EvScocfg r # evs) = port_silent evs"
  "port_silent (EvLpm i # evs) = port_silent evs" "port_silent (EvEpilog r # evs) = port_silent evs"
  by (simp_all add: port_silent_def)

lemma send_events_silent: "send_events cb fail evs \<Longrightarrow> port_silent [fail] \<Longrightarrow> port_silent evs"
  by (cases rule: send_events.cases) (auto simp: port_silent_def)

lemma port_follows_silent:
  assumes "trace s' = trace s @ evs" and "port_silent evs" and "mchar_fd s' = mchar_fd s"
    and "port_run (trace s) (Port (- 1)) = Some (Port (mchar_fd s))"
  shows "port_run (trace s') (Port (- 1)) = Some (Port (mchar_fd s'))"
  using assms by (simp add: run_steps_append port_silent_def)

lemma port_op:
  assumes "bt_vnd_mrvl_if_op env opcode param s = Some (r, param', s')"
    and port: "port_run (trace s) (Port (- 1)) = Some (Port (mchar_fd s))"
  shows "port_run (trace s') (Port (- 1)) = Some (Port (mchar_fd s'))"
proof (cases opcode)
  case BT_VND_OP_FW_CFG
  with assms(1) have c: "hw_mrvl_config_start env s = Some s'" by (simp add: bt_vnd_mrvl_if_op_def)
  from config_start_effect(1) [OF c] obtain evs where
    e: "trace s' = trace s @ evs" "send_events Cb_config_start (EvFwcfg BT_VND_OP_RESULT_FAIL) evs" by blast
  have "port_silent evs" by (rule send_events_silent [OF e(2)]) simp
  from port_follows_silent [OF e(1) this config_start_effect(2) [OF c] port] show ?thesis .
next
  case BT_VND_OP_SCO_CFG
  with assms(1) have c: "hw_mrvl_sco_config env s = Some s'" by (simp add: bt_vnd_mrvl_if_op_def)
  from sco_config_effect(1) [OF c] obtain evs where
    e: "trace s' = trace s @ evs" "send_events Cb_sco_config (EvScocfg BT_VND_OP_RESULT_FAIL) evs" by blast
  have "port_silent evs" by (rule send_events_silent [OF e(2)]) simp
  from port_follows_silent [OF e(1) this sco_config_effect(2) [OF c] port] show ?thesis .
next
  case BT_VND_OP_USERIAL_OPEN
  then obtain p rest where "param = Some (p # rest)"
    using assms(1) by (auto simp: bt_vnd_mrvl_if_op_def Let_def split: option.splits list.splits)
  with assms BT_VND_OP_USERIAL_OPEN show ?thesis
    by (auto simp: bt_vnd_mrvl_if_op_def Let_def run_steps_append)
next
  case BT_VND_OP_USERIAL_CLOSE
  show ?thesis
  proof (cases "mchar_fd s < 0")
    case True
    with assms BT_VND_OP_USERIAL_CLOSE show ?thesis by (simp add: bt_vnd_mrvl_if_op_def)
  next
    case False
    then show ?thesis
      using assms BT_VND_OP_USERIAL_CLOSE
      by (simp add: bt_vnd_mrvl_if_op_def Let_def split: if_splits)
        (auto simp: run_steps_append)
  qed
next
  case BT_VND_OP_LPM_SET_MODE
  with assms show ?thesis by (auto simp: bt_vnd_mrvl_if_op_def run_steps_append)
next
  case BT_VND_OP_EPILOG
  with assms show ?thesis by (auto simp: bt_vnd_mrvl_if_op_def run_steps_append)
next
  case BT_VND_OP_POWER_CTRL
  with assms show ?thesis
    by (simp add: bt_vnd_mrvl_if_op_def split: option.splits list.splits if_splits)
qed (use assms in \<open>simp_all add: bt_vnd_mrvl_if_op_def\<close>)

lemma port_step:
  assumes "bt_step env i s = Some s'"
    and port: "port_run (trace s) (Port (- 1)) = Some (Port (mchar_fd s))"
  shows "port_run (trace s') (Port (- 1)) = Some (Port (mchar_fd s'))"
proof (cases i)
  case (Op opcode param)
  with assms port_op show ?thesis by (fastforce simp: bt_step_def)
next
  case (Complete cb b)
  show ?thesis
  proof (cases cb)
    case Cb_config_start
    with Complete assms have "hw_mrvl_config_start_cb env b s = Some s'" by (simp add: bt_step_def)
    then show ?thesis
    proof (rule config_start_cb_effect)
      fix b r
      assume e: "trace s' = trace s @ [EvDealloc (hb_addr b), EvFwcfg r]" "mchar_fd s' = mchar_fd s"
      have "port_silent [EvDealloc (hb_addr b), EvFwcfg r]" by simp
      from port_follows_silent [OF e(1) this e(2) port] show ?thesis .
    qed
  next
    case Cb_sco_config
    with Complete assms have "hw_mrvl_sco_config_cb env b s = Some s'" by (simp add: bt_step_def)
    then show ?thesis
    proof (rule sco_config_cb_effect)
      fix b evs
      assume e: "trace s' = trace s @ EvDealloc (hb_addr b) # evs"
        "(\<exists>r. evs = [EvScocfg r]) \<or> send_events Cb_sco_config (EvScocfg BT_VND_OP_RESULT_FAIL) evs"
        "mchar_fd s' = mchar_fd s"
      from e(2) send_events_silent have "port_silent (EvDealloc (hb_addr b) # evs)" by auto
      from port_follows_silent [OF e(1) this e(3) port] show ?thesis .
    qed
  qed
qed (use assms in \<open>auto simp: bt_step_def bt_vnd_mrvl_if_cleanup_def bt_vnd_mrvl_if_ssr_cleanup_def
  bt_vnd_mrvl_if_init_def split: if_splits\<close>)

subsection \<open>The commands on the wire\<close>

definition evt_buf :: "nat \<Rightarrow> u16 \<Rightarrow> u8 \<Rightarrow> hc_bt_hdr" where
  "evt_buf p c status = \<lparr>hb_addr = p, hb_event = 0x1000, hb_len = 6, hb_offset = 0,
     hb_layer_specific = 0, hb_body = [0x0E, 4, 1] @ UINT16_TO_STREAM c @ [status]\<rparr>"

lemma parse_evt_buf_evt [simp]:
  "parse_evt_buf (evt_buf p c st) = Some \<lparr>ep_cmd = c, ep_cmd_ret_param = st\<rparr>"
  by (simp add: parse_evt_buf_def evt_buf_def HCI_EVT_CMD_CMPL_OPCODE_def UINT16_TO_STREAM_def
      stream_roundtrip)

lemma hb_addr_evt [simp]: "hb_addr (evt_buf p c st) = p"
  by (simp add: evt_buf_def)

definition sent_packets :: "bt_event list \<Rightarrow> u8 list list" where
  "sent_packets evs = concat (map (\<lambda>ev. case ev of EvXmit _ b _ True \<Rightarrow> [hb_body b] | _ \<Rightarrow> []) evs)"

definition results :: "bt_event list \<Rightarrow> bt_event list" where
  "results evs = filter (\<lambda>ev. is_scocfg ev \<or> is_fwcfg ev) evs"

definition wire :: "u16 \<Rightarrow> u8 \<Rightarrow> u8 list \<Rightarrow> u8 list" where
  "wire cmd n payload = UINT16_TO_STREAM cmd @ [n] @ take (unat n) payload"

lemma send_accepted:
  assumes "vnd_cb s" and "env_alloc env (trace s) (BT_HC_HDR_SIZE env + unat (HCI_CMD_PREAMBLE_SIZE + ucast n)) = Some p"
    and "\<And>t b. env_xmit env t cmd b cb" and "unat n \<le> length payload"
  obtains b where "hb_body b = wire cmd n payload" "hb_addr b = p"
    "hb_len b = HCI_CMD_PREAMBLE_SIZE + ucast n"
    "do { (q, s1) \<leftarrow> build_cmd_buf env cmd n payload s; Some (xmit_or_fail env cmd q cb fail s1) } =
      Some (emit (EvXmit cmd b cb True)
        (emit (EvAlloc (BT_HC_HDR_SIZE env + unat (HCI_CMD_PREAMBLE_SIZE + ucast n)) (Some p)) s))"
proof (rule that)
  let ?b = "\<lparr>hb_addr = p, hb_event = MSG_STACK_TO_HC_HCI_CMD env, hb_len = HCI_CMD_PREAMBLE_SIZE + ucast n,
    hb_offset = 0, hb_layer_specific = 0, hb_body = UINT16_TO_STREAM cmd @ [n] @ take (unat n) payload\<rparr>"
  show "hb_body ?b = wire cmd n payload" "hb_addr ?b = p" "hb_len ?b = HCI_CMD_PREAMBLE_SIZE + ucast n"
    by (simp_all add: wire_def)
  show "do { (q, s1) \<leftarrow> build_cmd_buf env cmd n payload s; Some (xmit_or_fail env cmd q cb fail s1) } =
      Some (emit (EvXmit cmd ?b cb True)
        (emit (EvAlloc (BT_HC_HDR_SIZE env + unat (HCI_CMD_PREAMBLE_SIZE + ucast n)) (Some p)) s))"
    using assms by (simp add: build_cmd_buf_def Let_def xmit_or_fail_accept del: bind_Some_iff)
qed

lemma sco_switch_eval:
  "sco_switch 0xFC07 = ScoSend 0xFC28 3 [3, 0, 3]" "sco_switch 0xFC28 = ScoSend 0xFC29 2 [3, 0]"
  "sco_switch 0xFC29 = ScoSend 0xFC1D 1 [1]" "sco_switch 0xFC1D = ScoDone"
  by (simp_all add: sco_switch_def hci_cmd_defs WRITE_PCM_SYNC_SETTINGS_SIZE_def
      WRITE_PCM_LINK_SETTINGS_SIZE_def SET_SCO_DATA_PATH_SIZE_def write_pcm_sync_settings_def
      write_pcm_link_settings_def set_sco_data_path_def)

lemma wire_eval:
  "wire 0xFC28 3 [3, 0, 3] = [0x28, 0xFC, 3, 3, 0, 3]" "wire 0xFC29 2 [3, 0] = [0x29, 0xFC, 2, 3, 0]"
  "wire 0xFC1D 1 [1] = [0x1D, 0xFC, 1, 1]" "wire 0xFC07 1 [2] = [0x07, 0xFC, 1, 2]"
  "wire 0xFC22 8 [x0, x1, x2, x3, x4, x5, x6, x7] = [0x22, 0xFC, 8, x0, x1, x2, x3, x4, x5, x6, x7]"
  by (simp_all add: wire_def UINT16_TO_STREAM_def)

lemma sco_next_sends:
  assumes "vnd_cb s" and "\<And>t n. env_alloc env t n \<noteq> None" and "\<And>t c b. env_xmit env t c b Cb_sco_config"
    and "sco_switch c = ScoSend cmd n payload" and "wire cmd n payload = w"
  obtains s' evs where "bt_step env (Complete Cb_sco_config (Some (evt_buf p c st))) s = Some s'"
    "vnd_cb s'" "trace s' = trace s @ evs" "sent_packets evs = [w]" "results evs = []"
proof -
  let ?s = "emit (EvDealloc p) s"
  from assms(1) have v: "vnd_cb ?s" by simp
  from assms(2) obtain q where
    q: "env_alloc env (trace ?s) (BT_HC_HDR_SIZE env + unat (HCI_CMD_PREAMBLE_SIZE + ucast n)) = Some q"
    by blast
  obtain b where b: "hb_body b = wire cmd n payload"
    "do { (q, s1) \<leftarrow> build_cmd_buf env cmd n payload ?s;
       Some (xmit_or_fail env cmd q Cb_sco_config (EvScocfg BT_VND_OP_RESULT_FAIL) s1) } =
      Some (emit (EvXmit cmd b Cb_sco_config True)
        (emit (EvAlloc (BT_HC_HDR_SIZE env + unat (HCI_CMD_PREAMBLE_SIZE + ucast n)) (Some q)) ?s))"
    by (rule send_accepted [OF v q assms(3) sco_switch_payload [OF assms(4)]])
  from b(2) sco_config_cb_unfold [OF assms(1) parse_evt_buf_evt, of env p c st] assms(4)
  have "hw_mrvl_sco_config_cb env (Some (evt_buf p c st)) s =
      Some (emit (EvXmit cmd b Cb_sco_config True)
        (emit (EvAlloc (BT_HC_HDR_SIZE env + unat (HCI_CMD_PREAMBLE_SIZE + ucast n)) (Some q)) ?s))"
    (is "_ = Some ?s'") by simp
  then have "bt_step env (Complete Cb_sco_config (Some (evt_buf p c st))) s = Some ?s'"
    by (simp add: bt_step_def)
  then show thesis
    by (rule that [of _ "[EvDealloc p,
        EvAlloc (BT_HC_HDR_SIZE env + unat (HCI_CMD_PREAMBLE_SIZE + ucast n)) (Some q),
        EvXmit cmd b Cb_sco_config True]"])
      (use assms(1,5) b(1) in
        \<open>simp_all add: sent_packets_def results_def is_scocfg_def is_fwcfg_def\<close>)
qed

lemma sco_start_sends:
  assumes "vnd_cb s" and "\<And>t n. env_alloc env t n \<noteq> None" and "\<And>t c b. env_xmit env t c b Cb_sco_config"
  obtains s' evs where "bt_step env (Op BT_VND_OP_SCO_CFG param) s = Some s'"
    "vnd_cb s'" "trace s' = trace s @ evs" "sent_packets evs = [[0x07, 0xFC, 1, 2]]" "results evs = []"
proof -
  let ?n = "BT_HC_HDR_SIZE env + unat (HCI_CMD_PREAMBLE_SIZE + ucast WRITE_PCM_SETTINGS_SIZE)"
  from assms(2) obtain q where q: "env_alloc env (trace s) ?n = Some q" by blast
  have "unat WRITE_PCM_SETTINGS_SIZE \<le> length write_pcm_settings" by (simp add: sco_sizes)
  from send_accepted [OF assms(1) q assms(3) this]
  obtain b where b: "hb_body b = wire HCI_CMD_MARVELL_WRITE_PCM_SETTINGS WRITE_PCM_SETTINGS_SIZE write_pcm_settings"
    "do { (q, s1) \<leftarrow> build_cmd_buf env HCI_CMD_MARVELL_WRITE_PCM_SETTINGS WRITE_PCM_SETTINGS_SIZE write_pcm_settings s;
       Some (xmit_or_fail env HCI_CMD_MARVELL_WRITE_PCM_SETTINGS q Cb_sco_config (EvScocfg BT_VND_OP_RESULT_FAIL) s1) } =
      Some (emit (EvXmit HCI_CMD_MARVELL_WRITE_PCM_SETTINGS b Cb_sco_config True) (emit (EvAlloc ?n (Some q)) s))"
    by metis
  then have "hw_mrvl_sco_config env s =
      Some (emit (EvXmit HCI_CMD_MARVELL_WRITE_PCM_SETTINGS b Cb_sco_config True) (emit (EvAlloc ?n (Some q)) s))"
    (is "_ = Some ?s'") using assms(1) by (simp add: hw_mrvl_sco_config_def Let_def del: bind_Some_iff)
  then have "bt_step env (Op BT_VND_OP_SCO_CFG param) s = Some ?s'"
    by (simp add: bt_step_def bt_vnd_mrvl_if_op_def del: bind_Some_iff)
  moreover have "hb_body b = [0x07, 0xFC, 1, 2]"
    using b(1) by (simp add: hci_cmd_defs WRITE_PCM_SETTINGS_SIZE_def write_pcm_settings_def wire_eval)
  ultimately show thesis
    by (intro that [of ?s' "[EvAlloc ?n (Some q), EvXmit HCI_CMD_MARVELL_WRITE_PCM_SETTINGS b Cb_sco_config True]"])
      (use assms(1) in \<open>simp_all add: sent_packets_def results_def is_scocfg_def is_fwcfg_def\<close>)
qed

lemma sco_last:
  assumes "vnd_cb s"
  obtains s' where "bt_step env (Complete Cb_sco_config (Some (evt_buf p 0xFC1D st))) s = Some s'"
    "trace s' = trace s @ [EvDealloc p, EvScocfg BT_VND_OP_RESULT_SUCCESS]"
  using sco_config_cb_unfold [OF assms parse_evt_buf_evt, of env p "0xFC1D" st]
  by (simp add: bt_step_def sco_switch_eval)

lemma config_start_packet:
  assumes "bt_ok addr s" and "env_alloc env (trace s) (BT_HC_HDR_SIZE env + 11) = Some p"
    and "\<And>t b. env_xmit env t 0xFC22 b Cb_config_start"
  shows "\<exists>s' b. hw_mrvl_config_start env s = Some s' \<and>
     trace s' = trace s @ [EvAlloc (BT_HC_HDR_SIZE env + 11) (Some p), EvXmit 0xFC22 b Cb_config_start True] \<and>
     hb_body b = [0x22, 0xFC, 8, 0xFE, 6, addr ! 5, addr ! 4, addr ! 3, addr ! 2, addr ! 1, addr ! 0] \<and>
     hb_addr b = p \<and> hb_len b = 11 \<and> length (hb_body b) = unat (hb_len b)"
proof -
  let ?w = "[0xFE, 0x06, addr ! 5, addr ! 4, addr ! 3, addr ! 2, addr ! 1, addr ! 0] :: u8 list"
  let ?s = "s\<lparr>write_bd_address := ?w\<rparr>"
  from assms(1) have ok: "vnd_cb s" "bdaddr s = addr" "length addr = 6"
    "length (write_bd_address s) = 8" "take 2 (write_bd_address s) = [0xFE, 0x06]"
    by (simp_all add: bt_ok_def)
  have n: "BT_HC_HDR_SIZE env + unat (HCI_CMD_PREAMBLE_SIZE + ucast WRITE_BD_ADDRESS_SIZE) = BT_HC_HDR_SIZE env + 11"
    "HCI_CMD_PREAMBLE_SIZE + ucast WRITE_BD_ADDRESS_SIZE = (11 :: u16)" "unat (11 :: u16) = 11"
    by (simp_all add: HCI_CMD_PREAMBLE_SIZE_def WRITE_BD_ADDRESS_SIZE_def)
  have v: "vnd_cb ?s" and
    a: "env_alloc env (trace ?s) (BT_HC_HDR_SIZE env + unat (HCI_CMD_PREAMBLE_SIZE + ucast WRITE_BD_ADDRESS_SIZE)) = Some p"
    using ok assms(2) unfolding n by simp_all
  have x: "\<And>t b. env_xmit env t HCI_CMD_MARVELL_WRITE_BD_ADDRESS b Cb_config_start"
    using assms(3) by (simp add: hci_cmd_defs)
  have l: "unat WRITE_BD_ADDRESS_SIZE \<le> length ?w" by (simp add: WRITE_BD_ADDRESS_SIZE_def)
  obtain b where b: "hb_body b = wire HCI_CMD_MARVELL_WRITE_BD_ADDRESS WRITE_BD_ADDRESS_SIZE ?w"
    "hb_addr b = p" "hb_len b = 11"
    "do { (q, s1) \<leftarrow> build_cmd_buf env HCI_CMD_MARVELL_WRITE_BD_ADDRESS WRITE_BD_ADDRESS_SIZE ?w ?s;
       Some (xmit_or_fail env HCI_CMD_MARVELL_WRITE_BD_ADDRESS q Cb_config_start (EvFwcfg BT_VND_OP_RESULT_FAIL) s1) } =
      Some (emit (EvXmit HCI_CMD_MARVELL_WRITE_BD_ADDRESS b Cb_config_start True)
        (emit (EvAlloc (BT_HC_HDR_SIZE env + 11) (Some p)) ?s))"
    by (rule send_accepted [OF v a x l, where fail = "EvFwcfg BT_VND_OP_RESULT_FAIL", unfolded n])
  from b(4) have start: "hw_mrvl_config_start env s =
      Some (emit (EvXmit HCI_CMD_MARVELL_WRITE_BD_ADDRESS b Cb_config_start True)
        (emit (EvAlloc (BT_HC_HDR_SIZE env + 11) (Some p)) ?s))"
    using ok populate_written [OF ok(3-5)]
    by (simp add: hw_mrvl_config_start_def Let_def del: bind_Some_iff)
  have body: "hb_body b = [0x22, 0xFC, 8, 0xFE, 6, addr ! 5, addr ! 4, addr ! 3, addr ! 2, addr ! 1, addr ! 0]"
    using b(1) by (simp add: hci_cmd_defs WRITE_BD_ADDRESS_SIZE_def wire_eval)
  show ?thesis
    by (rule exI, rule exI [of _ b], rule conjI, rule start)
      (simp add: body b(2,3) hci_cmd_defs)
qed

end
