(* ===== verification/Bt_Properties.thy ===== *)
theory Bt_Properties
  imports Bt_Correct
begin

section \<open>Bluetooth vendor library: properties\<close>

text \<open>The properties of \<open>bt/\<close>, each with an evaluation at a concrete stack.\<close>

subsection \<open>A concrete stack\<close>

text \<open>Every allocation succeeds at an address of its own, every command is taken.\<close>

definition demo_bt :: bt_env where
  "demo_bt = \<lparr>env_alloc = \<lambda>t n. Some (length t), env_xmit = \<lambda>t c b cb. True,
     env_open = \<lambda>t. 7, env_close = \<lambda>t fd. 0, BT_HC_HDR_SIZE = 8,
     MSG_STACK_TO_HC_HCI_CMD = 0x2000, BT_VND_PWR_OFF = 0, BT_VND_PWR_ON = 1\<rparr>"

definition demo_addr :: "u8 list" where "demo_addr = [1, 2, 3, 4, 5, 6]"

definition demo_run :: "bt_input list" where
  "demo_run = [Op BT_VND_OP_SCO_CFG None, Complete Cb_sco_config (Some (evt_buf 90 0xFC07 0)),
     Op BT_VND_OP_USERIAL_OPEN (Some [0]), Op BT_VND_OP_USERIAL_CLOSE None]"

lemma demo_run_ok: "\<forall>i \<in> set demo_run. bt_input_ok i"
  by (simp add: demo_run_def bt_input_ok_def evt_buf_def UINT16_TO_STREAM_def)

lemma demo_run_defined:
  obtains s where "run_steps (bt_step demo_bt) (Init True demo_addr # demo_run) init_bt = Some s"
proof -
  have "length demo_addr = 6" by (simp add: demo_addr_def)
  from bt_init_ok [OF this, of demo_bt] obtain s0 where
    s0: "bt_step demo_bt (Init True demo_addr) init_bt = Some s0" "bt_ok demo_addr s0" by blast
  from run_steps_ok [OF s0(2) demo_run_ok, of demo_bt] s0(1) that show thesis by auto
qed

subsection \<open>Properties\<close>

text \<open>C4. SCO configuration is accounted for: in every run of the library, each SCO request of
  the stack and each completion of a command of the chain is answered by exactly one of a
  result or a further accepted command. In particular, when every accepted command has been
  completed, there is one result for every request.\<close>
theorem bt_sco_accounting:
  assumes "run_steps (bt_step env) is init_bt = Some s"
  shows "count_if is_scocfg (trace s) + count_if (accepted Cb_sco_config) (trace s) =
      count_if (requests BT_VND_OP_SCO_CFG) is + count_if (completes Cb_sco_config) is \<and>
    (count_if (completes Cb_sco_config) is = count_if (accepted Cb_sco_config) (trace s) \<longrightarrow>
      count_if is_scocfg (trace s) = count_if (requests BT_VND_OP_SCO_CFG) is)"
  using sco.run_law [OF assms] by (auto simp: sco_ledger_counts)

theorem bt_sco_accounting_witness:
  "\<exists>s. run_steps (bt_step demo_bt) (Init True demo_addr # demo_run) init_bt = Some s \<and>
     count_if is_scocfg (trace s) + count_if (accepted Cb_sco_config) (trace s) = 2"
proof -
  obtain s where s: "run_steps (bt_step demo_bt) (Init True demo_addr # demo_run) init_bt = Some s"
    by (rule demo_run_defined)
  from bt_sco_accounting [OF s] s show ?thesis
    by (intro exI [of _ s]) (simp add: demo_run_def requests_def completes_def del: bind_Some_iff)
qed

text \<open>Firmware configuration is accounted for in the same way: one result or one accepted
  command for every request and every completion.\<close>
theorem bt_fwcfg_accounting:
  assumes "run_steps (bt_step env) is init_bt = Some s"
  shows "count_if is_fwcfg (trace s) + count_if (accepted Cb_config_start) (trace s) =
      count_if (requests BT_VND_OP_FW_CFG) is + count_if (completes Cb_config_start) is \<and>
    (count_if (completes Cb_config_start) is = count_if (accepted Cb_config_start) (trace s) \<longrightarrow>
      count_if is_fwcfg (trace s) = count_if (requests BT_VND_OP_FW_CFG) is)"
  using fw.run_law [OF assms] by (auto simp: fw_ledger_counts)

theorem bt_fwcfg_accounting_witness:
  "\<exists>s. run_steps (bt_step demo_bt) (Init True demo_addr # demo_run) init_bt = Some s \<and>
     count_if is_fwcfg (trace s) + count_if (accepted Cb_config_start) (trace s) = 0"
proof -
  obtain s where s: "run_steps (bt_step demo_bt) (Init True demo_addr # demo_run) init_bt = Some s"
    by (rule demo_run_defined)
  from bt_fwcfg_accounting [OF s] s show ?thesis
    by (intro exI [of _ s]) (simp add: demo_run_def requests_def completes_def del: bind_Some_iff)
qed

text \<open>C10. No buffer is leaked and none is freed twice: in every run, the buffers that the
  library allocated or was handed in completions are, as a multiset of addresses, exactly those
  that the stack accepted for transmission or that were deallocated.\<close>
theorem bt_no_buffer_leak:
  assumes "run_steps (bt_step env) is init_bt = Some s"
  shows "allocated (trace s) + received is = transmitted (trace s) + deallocated (trace s)"
  using buf.run_law [OF assms]
  by (auto simp: allocated_def received_def buf_settled_split ac_simps)

theorem bt_no_buffer_leak_witness:
  "\<exists>s. run_steps (bt_step demo_bt) (Init True demo_addr # demo_run) init_bt = Some s \<and>
     transmitted (trace s) + deallocated (trace s) = allocated (trace s) + {#90#}"
proof -
  obtain s where s: "run_steps (bt_step demo_bt) (Init True demo_addr # demo_run) init_bt = Some s"
    by (rule demo_run_defined)
  from bt_no_buffer_leak [OF s] s show ?thesis
    by (intro exI [of _ s]) (simp add: demo_run_def received_def evt_buf_def del: bind_Some_iff)
qed

text \<open>C20. The library never fails an assertion, reads outside a buffer or follows a null pointer
  for a stack that keeps its contract: initialised with callbacks and an address, every list of
  well-formed inputs runs to its end.\<close>
theorem bt_total:
  assumes "length addr = 6" and "\<forall>i \<in> set is. bt_input_ok i"
  shows "\<exists>s. run_steps (bt_step env) (Init True addr # is) init_bt = Some s"
proof -
  from bt_init_ok [OF assms(1), of env] obtain s0 where
    s0: "bt_step env (Init True addr) init_bt = Some s0" "bt_ok addr s0" by blast
  from run_steps_ok [OF s0(2) assms(2), of env] s0(1) show ?thesis by auto
qed

theorem bt_total_witness:
  "\<exists>s. run_steps (bt_step demo_bt) (Init True demo_addr # demo_run) init_bt = Some s"
  by (rule bt_total [OF _ demo_run_ok]) (simp add: demo_addr_def)

text \<open>C24. The serial port is handled by its protocol: in every run the port's descriptor is the
  one that the driver's view of the trace gives, a close happens only on an open port after its
  reader was released and given a millisecond, and a failed close keeps the port.\<close>
theorem bt_port_protocol:
  assumes "run_steps (bt_step env) is init_bt = Some s"
  shows "port_run (trace s) (Port (- 1)) = Some (Port (mchar_fd s))"
  by (rule run_steps_invariant [OF _ assms, where P =
        "\<lambda>s. port_run (trace s) (Port (- 1)) = Some (Port (mchar_fd s))"])
    (auto intro: port_step simp: init_bt_def)

theorem bt_port_protocol_witness:
  "\<exists>s. run_steps (bt_step demo_bt) (Init True demo_addr # demo_run) init_bt = Some s \<and>
     port_run (trace s) (Port (- 1)) = Some (Port (mchar_fd s))"
proof -
  obtain s where s: "run_steps (bt_step demo_bt) (Init True demo_addr # demo_run) init_bt = Some s"
    by (rule demo_run_defined)
  from bt_port_protocol [OF s] s show ?thesis by blast
qed

text \<open>A completion is judged by its opcode alone: the status byte that the library parses out
  of the event has no effect, so a command that the controller rejects counts as done and the
  chain goes on (or reports success).\<close>
theorem bt_status_ignored:
  "hw_mrvl_sco_config_cb env (Some (evt_buf p c st)) s = hw_mrvl_sco_config_cb env (Some (evt_buf p c 0)) s \<and>
   hw_mrvl_config_start_cb env (Some (evt_buf p c st)) s = hw_mrvl_config_start_cb env (Some (evt_buf p c 0)) s"
  by (simp add: hw_mrvl_sco_config_cb_def hw_mrvl_config_start_cb_def Let_def del: bind_Some_iff
      split: sco_next.split)

text \<open>C23. The whole SCO chain: when every buffer is allocated and every command taken, a request
  followed by the four completions sends the four vendor commands in order, byte for byte, and
  ends with exactly one success.\<close>
theorem bt_sco_chain:
  assumes "vnd_cb s" and "\<And>t n. env_alloc env t n \<noteq> None" and "\<And>t c b. env_xmit env t c b Cb_sco_config"
  shows "\<exists>s' evs. run_steps (bt_step env) (Op BT_VND_OP_SCO_CFG param #
        map (\<lambda>(p, c). Complete Cb_sco_config (Some (evt_buf p c st)))
          [(p1, 0xFC07), (p2, 0xFC28), (p3, 0xFC29), (p4, 0xFC1D)]) s = Some s' \<and>
      trace s' = trace s @ evs \<and>
      sent_packets evs = [[0x07, 0xFC, 1, 2], [0x28, 0xFC, 3, 3, 0, 3], [0x29, 0xFC, 2, 3, 0],
        [0x1D, 0xFC, 1, 1]] \<and>
      results evs = [EvScocfg BT_VND_OP_RESULT_SUCCESS]"
proof -
  obtain s1 e1 where 1: "bt_step env (Op BT_VND_OP_SCO_CFG param) s = Some s1" "vnd_cb s1"
    "trace s1 = trace s @ e1" "sent_packets e1 = [[0x07, 0xFC, 1, 2]]" "results e1 = []"
    by (rule sco_start_sends [OF assms])
  obtain s2 e2 where 2: "bt_step env (Complete Cb_sco_config (Some (evt_buf p1 0xFC07 st))) s1 = Some s2"
    "vnd_cb s2" "trace s2 = trace s1 @ e2" "sent_packets e2 = [[0x28, 0xFC, 3, 3, 0, 3]]" "results e2 = []"
    by (rule sco_next_sends [OF 1(2) assms(2,3) sco_switch_eval(1) wire_eval(1)])
  obtain s3 e3 where 3: "bt_step env (Complete Cb_sco_config (Some (evt_buf p2 0xFC28 st))) s2 = Some s3"
    "vnd_cb s3" "trace s3 = trace s2 @ e3" "sent_packets e3 = [[0x29, 0xFC, 2, 3, 0]]" "results e3 = []"
    by (rule sco_next_sends [OF 2(2) assms(2,3) sco_switch_eval(2) wire_eval(2)])
  obtain s4 e4 where 4: "bt_step env (Complete Cb_sco_config (Some (evt_buf p3 0xFC29 st))) s3 = Some s4"
    "vnd_cb s4" "trace s4 = trace s3 @ e4" "sent_packets e4 = [[0x1D, 0xFC, 1, 1]]" "results e4 = []"
    by (rule sco_next_sends [OF 3(2) assms(2,3) sco_switch_eval(3) wire_eval(3)])
  obtain s5 where 5: "bt_step env (Complete Cb_sco_config (Some (evt_buf p4 0xFC1D st))) s4 = Some s5"
    "trace s5 = trace s4 @ [EvDealloc p4, EvScocfg BT_VND_OP_RESULT_SUCCESS]"
    by (rule sco_last [OF 4(2)])
  have "sent_packets (e1 @ e2 @ e3 @ e4 @ [EvDealloc p4, EvScocfg BT_VND_OP_RESULT_SUCCESS]) =
      [[0x07, 0xFC, 1, 2], [0x28, 0xFC, 3, 3, 0, 3], [0x29, 0xFC, 2, 3, 0], [0x1D, 0xFC, 1, 1]]"
    using 1(4) 2(4) 3(4) 4(4) by (simp add: sent_packets_def)
  moreover have "results (e1 @ e2 @ e3 @ e4 @ [EvDealloc p4, EvScocfg BT_VND_OP_RESULT_SUCCESS]) =
      [EvScocfg BT_VND_OP_RESULT_SUCCESS]"
    using 1(5) 2(5) 3(5) 4(5) by (simp add: results_def is_scocfg_def is_fwcfg_def)
  ultimately show ?thesis
    using 1(1,3) 2(1,3) 3(1,3) 4(1,3) 5
    by (intro exI [of _ s5] exI [of _ "e1 @ e2 @ e3 @ e4 @ [EvDealloc p4, EvScocfg BT_VND_OP_RESULT_SUCCESS]"])
      (simp del: bind_Some_iff)
qed

theorem bt_sco_chain_witness:
  "\<exists>s' evs. run_steps (bt_step demo_bt) (Op BT_VND_OP_SCO_CFG None #
        map (\<lambda>(p, c). Complete Cb_sco_config (Some (evt_buf p c 0)))
          [(90, 0xFC07), (91, 0xFC28), (92, 0xFC29), (93, 0xFC1D)]) (init_bt\<lparr>vnd_cb := True\<rparr>) = Some s' \<and>
      trace s' = trace (init_bt\<lparr>vnd_cb := True\<rparr>) @ evs \<and>
      results evs = [EvScocfg BT_VND_OP_RESULT_SUCCESS]"
proof -
  have v: "vnd_cb (init_bt\<lparr>vnd_cb := True\<rparr>)" "\<And>t n. env_alloc demo_bt t n \<noteq> None"
    "\<And>t c b. env_xmit demo_bt t c b Cb_sco_config"
    by (simp_all add: demo_bt_def)
  from bt_sco_chain [OF v, of None 0 90 91 92 93] show ?thesis by blast
qed

text \<open>The firmware is given the address of \<open>init\<close>, reversed: in every run that initialised the
  library with an address, configuration sends one packet with the opcode, the payload length
  eight, the parameter header and the six address bytes from last to first.\<close>
theorem bt_address_packet:
  assumes "run_steps (bt_step env) (Init True [a0, a1, a2, a3, a4, a5] # is) init_bt = Some s"
    and "\<forall>i \<in> set is. bt_input_ok i"
    and "env_alloc env (trace s) (BT_HC_HDR_SIZE env + 11) = Some p"
    and "\<And>t b. env_xmit env t 0xFC22 b Cb_config_start"
  shows "\<exists>s' b. hw_mrvl_config_start env s = Some s' \<and>
     trace s' = trace s @ [EvAlloc (BT_HC_HDR_SIZE env + 11) (Some p), EvXmit 0xFC22 b Cb_config_start True] \<and>
     hb_body b = [0x22, 0xFC, 8, 0xFE, 6, a5, a4, a3, a2, a1, a0] \<and>
     hb_addr b = p \<and> hb_len b = 11 \<and> length (hb_body b) = unat (hb_len b)"
proof -
  let ?a = "[a0, a1, a2, a3, a4, a5]"
  have "length ?a = 6" by simp
  from bt_init_ok [OF this, of env] obtain s0 where
    s0: "bt_step env (Init True ?a) init_bt = Some s0" "bt_ok ?a s0" by blast
  from run_steps_ok [OF s0(2) assms(2), of env] s0(1) assms(1) have "bt_ok ?a s" by auto
  from config_start_packet [OF this assms(3,4)] show ?thesis by simp
qed

theorem bt_address_packet_witness:
  "\<exists>s s' b. run_steps (bt_step demo_bt) [Init True [1, 2, 3, 4, 5, 6]] init_bt = Some s \<and>
     hw_mrvl_config_start demo_bt s = Some s' \<and>
     trace s' = trace s @ [EvAlloc 19 (Some 0), EvXmit 0xFC22 b Cb_config_start True] \<and>
     hb_body b = [0x22, 0xFC, 8, 0xFE, 6, 6, 5, 4, 3, 2, 1]"
proof -
  define s where "s = init_bt\<lparr>vnd_cb := True, bdaddr := [1, 2, 3, 4, 5, 6]\<rparr>"
  have r: "run_steps (bt_step demo_bt) [Init True [1, 2, 3, 4, 5, 6]] init_bt = Some s"
    by (simp add: bt_step_def bt_vnd_mrvl_if_init_def s_def)
  have a: "env_alloc demo_bt (trace s) (BT_HC_HDR_SIZE demo_bt + 11) = Some 0"
    by (simp add: demo_bt_def s_def)
  have n: "BT_HC_HDR_SIZE demo_bt + 11 = 19" by (simp add: demo_bt_def)
  have "env_xmit demo_bt t 0xFC22 b Cb_config_start" for t b by (simp add: demo_bt_def)
  from bt_address_packet [OF r _ a this, unfolded n] r show ?thesis by auto
qed

end
