(* ===== verification/Hw_Legacy_Shim.thy ===== *)
theory Hw_Legacy_Shim
  imports CPrelude
begin

section \<open>The libhardware_legacy shim\<close>

text \<open>
  \<open>libhardware_legacy_shim/libhardware_legacy_shim.c\<close>: a library that exports the Wi-Fi entry
  points of the framework and forwards each of them to the function of the same name in the
  stock blob, if the blob has it. The dynamic linker and the blob's functions are the record
  \<open>hw_env\<close>; the answers of the blob may depend on all the calls made before.
\<close>

subsection \<open>State\<close>

text \<open>The static function pointers, one constructor for each.\<close>

datatype (plugins only: size) hw_symbol =
    Real_wifi_set_mode
  | Real_wifi_start_supplicant
  | Real_wifi_stop_supplicant
  | Real_wifi_connect_to_supplicant
  | Real_wifi_close_supplicant_connection
  | Real_wifi_wait_for_event
  | Real_wifi_command
  | Real_wifi_send_command
  | Real_wifi_supplicant_connection_active
  | Real_is_wifi_driver_loaded
  | Real_wifi_load_driver
  | Real_wifi_unload_driver
  | Real_wifi_enable
  | Real_wifi_disable
  | Real_wifi_get_mac_addr
  | Real_wifi_get_fwstate
  | Real_wifi_get_fw_path
  | Real_wifi_change_fw_path
  | Real_wifi_set_drvarg
  | Real_wifi_set_drv_arg
  | Real_wifi_set_svc_args
  | Real_wifi_set_scanning_enabled
  | Real_wifi_get_scanning_enabled
  | Real_wifi_set_scanning_always_enabled
  | Real_wifi_get_scanning_always_enabled
  | Real_wifi_set_scan_interval
  | Real_wifi_get_scan_interval
  | Real_wifi_set_fast_scan
  | Real_wifi_get_fast_scan
  | Real_wifi_set_band
  | Real_wifi_get_band
  | Real_wifi_set_country_code
  | Real_wifi_get_country_code
  | Real_wifi_set_p2p_listen_interval
  | Real_wifi_set_p2p_device_name
  | Real_wifi_get_p2p_device_name
  | Real_wifi_set_p2p_ssid
  | Real_wifi_get_p2p_ssid
  | Real_wifi_set_p2p_wps_config
  | Real_wifi_get_p2p_wps_config
  | Real_wifi_set_p2p_go_intent
  | Real_wifi_get_p2p_go_intent
  | Real_wifi_set_p2p_listen_reg_class
  | Real_wifi_get_p2p_listen_reg_class
  | Real_wifi_set_p2p_oper_reg_class
  | Real_wifi_get_p2p_oper_reg_class
  | Real_wifi_set_p2p_oper_channel
  | Real_wifi_get_p2p_oper_channel
  | Real_wifi_set_p2p_go_negotiation_delay
  | Real_wifi_get_p2p_go_negotiation_delay
  | Real_wifi_set_ap_interface
  | Real_wifi_get_ap_interface
  | Real_wifi_set_ap_mac
  | Real_wifi_get_ap_mac
  | Real_wifi_set_nvram
  | Real_wifi_get_nvram
  | Real_wifi_set_supplicant_log_level
  | Real_wifi_get_supplicant_log_level
  | Real_ensure_entropy_file_exists
  | Real_ensure_config_file_exists
  | Real_bt_set_drvarg
  | Real_bt_set_drv_arg
  | Real_setDbg

datatype ctype = TInt | TPtr | TSize

text \<open>Arguments and results of the functions; the null pointer is 0.\<close>

datatype carg = CInt int | CPtr nat | CSize nat

datatype cret = RInt int | RPtr nat | RVoid

datatype hw_event = Dlopen string | Dlsym string | Call nat "carg list"

record hw_env =
  ld_open :: "nat option"
  ld_sym :: "nat \<Rightarrow> string \<Rightarrow> nat option"
  call_int :: "hw_event list \<Rightarrow> nat \<Rightarrow> carg list \<Rightarrow> int"
  call_ptr :: "hw_event list \<Rightarrow> nat \<Rightarrow> carg list \<Rightarrow> nat"

record hw_state =
  g_real_handle :: "nat option"
  real :: "hw_symbol \<Rightarrow> nat option"
  hw_trace :: "hw_event list"

definition hw_initial :: hw_state where
  "hw_initial = \<lparr>g_real_handle = None, real = (\<lambda>_. None), hw_trace = []\<rparr>"

text \<open>The parameter types of the declared pointers.\<close>

definition signature :: "hw_symbol \<Rightarrow> ctype list" where
  "signature f = (case f of
     Real_wifi_set_mode \<Rightarrow> [TInt]
   | Real_wifi_start_supplicant \<Rightarrow> [TInt]
   | Real_wifi_stop_supplicant \<Rightarrow> [TInt]
   | Real_wifi_connect_to_supplicant \<Rightarrow> [TPtr]
   | Real_wifi_close_supplicant_connection \<Rightarrow> [TPtr]
   | Real_wifi_wait_for_event \<Rightarrow> [TPtr, TPtr, TSize]
   | Real_wifi_command \<Rightarrow> [TPtr, TPtr, TPtr, TPtr]
   | Real_wifi_send_command \<Rightarrow> [TInt, TPtr, TPtr, TPtr]
   | Real_wifi_supplicant_connection_active \<Rightarrow> []
   | Real_is_wifi_driver_loaded \<Rightarrow> []
   | Real_wifi_load_driver \<Rightarrow> []
   | Real_wifi_unload_driver \<Rightarrow> []
   | Real_wifi_enable \<Rightarrow> []
   | Real_wifi_disable \<Rightarrow> []
   | Real_wifi_get_mac_addr \<Rightarrow> [TPtr]
   | Real_wifi_get_fwstate \<Rightarrow> [TPtr, TSize]
   | Real_wifi_get_fw_path \<Rightarrow> [TInt]
   | Real_wifi_change_fw_path \<Rightarrow> [TPtr]
   | Real_wifi_set_drvarg \<Rightarrow> [TPtr, TPtr]
   | Real_wifi_set_drv_arg \<Rightarrow> [TPtr, TPtr]
   | Real_wifi_set_svc_args \<Rightarrow> [TPtr, TPtr]
   | Real_wifi_set_scanning_enabled \<Rightarrow> [TInt]
   | Real_wifi_get_scanning_enabled \<Rightarrow> []
   | Real_wifi_set_scanning_always_enabled \<Rightarrow> [TInt]
   | Real_wifi_get_scanning_always_enabled \<Rightarrow> []
   | Real_wifi_set_scan_interval \<Rightarrow> [TInt]
   | Real_wifi_get_scan_interval \<Rightarrow> []
   | Real_wifi_set_fast_scan \<Rightarrow> [TInt]
   | Real_wifi_get_fast_scan \<Rightarrow> []
   | Real_wifi_set_band \<Rightarrow> [TInt]
   | Real_wifi_get_band \<Rightarrow> []
   | Real_wifi_set_country_code \<Rightarrow> [TPtr]
   | Real_wifi_get_country_code \<Rightarrow> [TPtr, TSize]
   | Real_wifi_set_p2p_listen_interval \<Rightarrow> [TInt]
   | Real_wifi_set_p2p_device_name \<Rightarrow> [TPtr]
   | Real_wifi_get_p2p_device_name \<Rightarrow> [TPtr, TSize]
   | Real_wifi_set_p2p_ssid \<Rightarrow> [TPtr]
   | Real_wifi_get_p2p_ssid \<Rightarrow> [TPtr, TSize]
   | Real_wifi_set_p2p_wps_config \<Rightarrow> [TInt]
   | Real_wifi_get_p2p_wps_config \<Rightarrow> []
   | Real_wifi_set_p2p_go_intent \<Rightarrow> [TInt]
   | Real_wifi_get_p2p_go_intent \<Rightarrow> []
   | Real_wifi_set_p2p_listen_reg_class \<Rightarrow> [TInt]
   | Real_wifi_get_p2p_listen_reg_class \<Rightarrow> []
   | Real_wifi_set_p2p_oper_reg_class \<Rightarrow> [TInt]
   | Real_wifi_get_p2p_oper_reg_class \<Rightarrow> []
   | Real_wifi_set_p2p_oper_channel \<Rightarrow> [TInt]
   | Real_wifi_get_p2p_oper_channel \<Rightarrow> []
   | Real_wifi_set_p2p_go_negotiation_delay \<Rightarrow> [TInt]
   | Real_wifi_get_p2p_go_negotiation_delay \<Rightarrow> []
   | Real_wifi_set_ap_interface \<Rightarrow> [TPtr]
   | Real_wifi_get_ap_interface \<Rightarrow> [TPtr, TSize]
   | Real_wifi_set_ap_mac \<Rightarrow> [TPtr]
   | Real_wifi_get_ap_mac \<Rightarrow> [TPtr]
   | Real_wifi_set_nvram \<Rightarrow> [TPtr, TPtr]
   | Real_wifi_get_nvram \<Rightarrow> [TPtr, TPtr, TSize]
   | Real_wifi_set_supplicant_log_level \<Rightarrow> [TInt]
   | Real_wifi_get_supplicant_log_level \<Rightarrow> []
   | Real_ensure_entropy_file_exists \<Rightarrow> []
   | Real_ensure_config_file_exists \<Rightarrow> []
   | Real_bt_set_drvarg \<Rightarrow> [TPtr, TPtr]
   | Real_bt_set_drv_arg \<Rightarrow> [TPtr, TPtr]
   | Real_setDbg \<Rightarrow> [TInt])"

subsection \<open>Loading\<close>

definition GET_REAL_FUNC :: "hw_env \<Rightarrow> nat \<Rightarrow> hw_symbol \<times> string \<Rightarrow> hw_state \<Rightarrow> hw_state" where
  "GET_REAL_FUNC env h = (\<lambda>(f, name) s.
     s\<lparr>real := (real s)(f := ld_sym env h name), hw_trace := hw_trace s @ [Dlsym name]\<rparr>)"

text \<open>The calls of the macro, in order.\<close>

definition symbol_table :: "(hw_symbol \<times> string) list" where
  "symbol_table =
     [(Real_wifi_set_mode, ''wifi_set_mode''),
      (Real_wifi_start_supplicant, ''wifi_start_supplicant''),
      (Real_wifi_stop_supplicant, ''wifi_stop_supplicant''),
      (Real_wifi_connect_to_supplicant, ''wifi_connect_to_supplicant''),
      (Real_wifi_close_supplicant_connection, ''wifi_close_supplicant_connection''),
      (Real_wifi_wait_for_event, ''wifi_wait_for_event''),
      (Real_wifi_command, ''wifi_command''),
      (Real_wifi_send_command, ''wifi_send_command''),
      (Real_wifi_supplicant_connection_active, ''wifi_supplicant_connection_active''),
      (Real_is_wifi_driver_loaded, ''is_wifi_driver_loaded''),
      (Real_wifi_load_driver, ''wifi_load_driver''),
      (Real_wifi_unload_driver, ''wifi_unload_driver''),
      (Real_wifi_enable, ''wifi_enable''),
      (Real_wifi_disable, ''wifi_disable''),
      (Real_wifi_get_mac_addr, ''wifi_get_mac_addr''),
      (Real_wifi_get_fwstate, ''wifi_get_fwstate''),
      (Real_wifi_get_fw_path, ''wifi_get_fw_path''),
      (Real_wifi_change_fw_path, ''wifi_change_fw_path''),
      (Real_wifi_set_drvarg, ''wifi_set_drvarg''),
      (Real_wifi_set_drv_arg, ''wifi_set_drv_arg''),
      (Real_wifi_set_svc_args, ''wifi_set_svc_args''),
      (Real_wifi_set_scanning_enabled, ''wifi_set_scanning_enabled''),
      (Real_wifi_get_scanning_enabled, ''wifi_get_scanning_enabled''),
      (Real_wifi_set_scanning_always_enabled, ''wifi_set_scanning_always_enabled''),
      (Real_wifi_get_scanning_always_enabled, ''wifi_get_scanning_always_enabled''),
      (Real_wifi_set_scan_interval, ''wifi_set_scan_interval''),
      (Real_wifi_get_scan_interval, ''wifi_get_scan_interval''),
      (Real_wifi_set_fast_scan, ''wifi_set_fast_scan''),
      (Real_wifi_get_fast_scan, ''wifi_get_fast_scan''),
      (Real_wifi_set_band, ''wifi_set_band''),
      (Real_wifi_get_band, ''wifi_get_band''),
      (Real_wifi_set_country_code, ''wifi_set_country_code''),
      (Real_wifi_get_country_code, ''wifi_get_country_code''),
      (Real_wifi_set_p2p_listen_interval, ''wifi_set_p2p_listen_interval''),
      (Real_wifi_set_p2p_device_name, ''wifi_set_p2p_device_name''),
      (Real_wifi_get_p2p_device_name, ''wifi_get_p2p_device_name''),
      (Real_wifi_set_p2p_ssid, ''wifi_set_p2p_ssid''),
      (Real_wifi_get_p2p_ssid, ''wifi_get_p2p_ssid''),
      (Real_wifi_set_p2p_wps_config, ''wifi_set_p2p_wps_config''),
      (Real_wifi_get_p2p_wps_config, ''wifi_get_p2p_wps_config''),
      (Real_wifi_set_p2p_go_intent, ''wifi_set_p2p_go_intent''),
      (Real_wifi_get_p2p_go_intent, ''wifi_get_p2p_go_intent''),
      (Real_wifi_set_p2p_listen_reg_class, ''wifi_set_p2p_listen_reg_class''),
      (Real_wifi_get_p2p_listen_reg_class, ''wifi_get_p2p_listen_reg_class''),
      (Real_wifi_set_p2p_oper_reg_class, ''wifi_set_p2p_oper_reg_class''),
      (Real_wifi_get_p2p_oper_reg_class, ''wifi_get_p2p_oper_reg_class''),
      (Real_wifi_set_p2p_oper_channel, ''wifi_set_p2p_oper_channel''),
      (Real_wifi_get_p2p_oper_channel, ''wifi_get_p2p_oper_channel''),
      (Real_wifi_set_p2p_go_negotiation_delay, ''wifi_set_p2p_go_negotiation_delay''),
      (Real_wifi_get_p2p_go_negotiation_delay, ''wifi_get_p2p_go_negotiation_delay''),
      (Real_wifi_set_ap_interface, ''wifi_set_ap_interface''),
      (Real_wifi_get_ap_interface, ''wifi_get_ap_interface''),
      (Real_wifi_set_ap_mac, ''wifi_set_ap_mac''),
      (Real_wifi_get_ap_mac, ''wifi_get_ap_mac''),
      (Real_wifi_set_nvram, ''wifi_set_nvram''),
      (Real_wifi_get_nvram, ''wifi_get_nvram''),
      (Real_wifi_set_supplicant_log_level, ''wifi_set_supplicant_log_level''),
      (Real_wifi_get_supplicant_log_level, ''wifi_get_supplicant_log_level''),
      (Real_ensure_entropy_file_exists, ''ensure_entropy_file_exists''),
      (Real_ensure_config_file_exists, ''ensure_config_file_exists''),
      (Real_bt_set_drvarg, ''bt_set_drvarg''),
      (Real_bt_set_drv_arg, ''bt_set_drv_arg''),
      (Real_setDbg, ''setDbg'')]"

definition shim_init :: "hw_env \<Rightarrow> hw_state \<Rightarrow> hw_state" where
  "shim_init env s =
     (let s = s\<lparr>g_real_handle := ld_open env, hw_trace := hw_trace s @ [Dlopen ''libhardware_legacy.so'']\<rparr>
      in case g_real_handle s of
           None \<Rightarrow> s
         | Some h \<Rightarrow> fold (GET_REAL_FUNC env h) symbol_table s)"

subsection \<open>Calls of the blob\<close>

definition call_real_int :: "hw_env \<Rightarrow> nat \<Rightarrow> carg list \<Rightarrow> hw_state \<Rightarrow> int \<times> hw_state" where
  "call_real_int env p args s =
     (call_int env (hw_trace s) p args, s\<lparr>hw_trace := hw_trace s @ [Call p args]\<rparr>)"

definition call_real_ptr :: "hw_env \<Rightarrow> nat \<Rightarrow> carg list \<Rightarrow> hw_state \<Rightarrow> nat \<times> hw_state" where
  "call_real_ptr env p args s =
     (call_ptr env (hw_trace s) p args, s\<lparr>hw_trace := hw_trace s @ [Call p args]\<rparr>)"

text \<open>\<open>return real_f ? real_f(args) : dflt\<close>\<close>

definition forward_int :: "hw_env \<Rightarrow> hw_symbol \<Rightarrow> carg list \<Rightarrow> int \<Rightarrow> hw_state \<Rightarrow> int \<times> hw_state" where
  "forward_int env f args dflt s =
     (case real s f of Some p \<Rightarrow> call_real_int env p args s | None \<Rightarrow> (dflt, s))"

subsection \<open>Exported functions with logic of their own\<close>

definition wifi_set_mode :: "hw_env \<Rightarrow> int \<Rightarrow> hw_state \<Rightarrow> int \<times> hw_state" where
  "wifi_set_mode env mode s =
     (case real s Real_wifi_set_mode of
        None \<Rightarrow> (0, s)
      | Some p \<Rightarrow> call_real_int env p [CInt mode] s)"

definition map_p2p_supported_to_vendor_mode :: "int \<Rightarrow> int" where
  "map_p2p_supported_to_vendor_mode p2p_supported = (if p2p_supported \<noteq> 0 then 2 else 0)"

definition wifi_start_supplicant :: "hw_env \<Rightarrow> int \<Rightarrow> hw_state \<Rightarrow> int \<times> hw_state" where
  "wifi_start_supplicant env p2p_supported s =
     (let vendor_mode = map_p2p_supported_to_vendor_mode p2p_supported
      in forward_int env Real_wifi_start_supplicant [CInt vendor_mode] (- 1) s)"

text \<open>\<open>real_f && !real_f()\<close>: the query is made only when the function is there.\<close>

definition denies :: "hw_env \<Rightarrow> hw_symbol \<Rightarrow> hw_state \<Rightarrow> bool \<times> hw_state" where
  "denies env f s =
     (case real s f of
        None \<Rightarrow> (False, s)
      | Some p \<Rightarrow> (let (r, s) = call_real_int env p [] s in (r = 0, s)))"

definition wifi_stop_supplicant :: "hw_env \<Rightarrow> int \<Rightarrow> hw_state \<Rightarrow> int \<times> hw_state" where
  "wifi_stop_supplicant env p2p_supported s =
     (let vendor_mode = map_p2p_supported_to_vendor_mode p2p_supported
      in case real s Real_wifi_stop_supplicant of
           None \<Rightarrow> (0, s)
         | Some stop \<Rightarrow>
             (let (not_loaded, s) = denies env Real_is_wifi_driver_loaded s
              in if not_loaded then (0, s)
                 else (let (not_active, s) = denies env Real_wifi_supplicant_connection_active s
                       in if not_active then (0, s)
                          else call_real_int env stop [CInt vendor_mode] s)))"

definition wifi_close_supplicant_connection :: "hw_env \<Rightarrow> nat \<Rightarrow> hw_state \<Rightarrow> hw_state" where
  "wifi_close_supplicant_connection env ifname s =
     (case real s Real_wifi_close_supplicant_connection of
        Some p \<Rightarrow> s\<lparr>hw_trace := hw_trace s @ [Call p [CPtr ifname]]\<rparr>
      | None \<Rightarrow> s)"

definition wifi_get_fw_path :: "hw_env \<Rightarrow> int \<Rightarrow> hw_state \<Rightarrow> nat \<times> hw_state" where
  "wifi_get_fw_path env fw_type s =
     (case real s Real_wifi_get_fw_path of
        Some p \<Rightarrow> call_real_ptr env p [CInt fw_type] s
      | None \<Rightarrow> (0, s))"

subsection \<open>Exported functions that only forward\<close>

definition wifi_connect_to_supplicant :: "hw_env \<Rightarrow> nat \<Rightarrow> hw_state \<Rightarrow> int \<times> hw_state" where
  "wifi_connect_to_supplicant env ifname s = forward_int env Real_wifi_connect_to_supplicant [CPtr ifname] (- 1) s"

definition wifi_wait_for_event :: "hw_env \<Rightarrow> nat \<Rightarrow> nat \<Rightarrow> nat \<Rightarrow> hw_state \<Rightarrow> int \<times> hw_state" where
  "wifi_wait_for_event env ifname buf len s = forward_int env Real_wifi_wait_for_event [CPtr ifname, CPtr buf, CSize len] (- 1) s"

definition wifi_command :: "hw_env \<Rightarrow> nat \<Rightarrow> nat \<Rightarrow> nat \<Rightarrow> nat \<Rightarrow> hw_state \<Rightarrow> int \<times> hw_state" where
  "wifi_command env ifname cmd reply reply_len s = forward_int env Real_wifi_command [CPtr ifname, CPtr cmd, CPtr reply, CPtr reply_len] (- 1) s"

definition wifi_send_command :: "hw_env \<Rightarrow> int \<Rightarrow> nat \<Rightarrow> nat \<Rightarrow> nat \<Rightarrow> hw_state \<Rightarrow> int \<times> hw_state" where
  "wifi_send_command env idx cmd reply reply_len s = forward_int env Real_wifi_send_command [CInt idx, CPtr cmd, CPtr reply, CPtr reply_len] (- 1) s"

definition wifi_supplicant_connection_active :: "hw_env \<Rightarrow> hw_state \<Rightarrow> int \<times> hw_state" where
  "wifi_supplicant_connection_active env s = forward_int env Real_wifi_supplicant_connection_active [] 0 s"

definition is_wifi_driver_loaded :: "hw_env \<Rightarrow> hw_state \<Rightarrow> int \<times> hw_state" where
  "is_wifi_driver_loaded env s = forward_int env Real_is_wifi_driver_loaded [] 0 s"

definition wifi_load_driver :: "hw_env \<Rightarrow> hw_state \<Rightarrow> int \<times> hw_state" where
  "wifi_load_driver env s = forward_int env Real_wifi_load_driver [] (- 1) s"

definition wifi_unload_driver :: "hw_env \<Rightarrow> hw_state \<Rightarrow> int \<times> hw_state" where
  "wifi_unload_driver env s = forward_int env Real_wifi_unload_driver [] (- 1) s"

definition wifi_enable :: "hw_env \<Rightarrow> hw_state \<Rightarrow> int \<times> hw_state" where
  "wifi_enable env s = forward_int env Real_wifi_enable [] (- 1) s"

definition wifi_disable :: "hw_env \<Rightarrow> hw_state \<Rightarrow> int \<times> hw_state" where
  "wifi_disable env s = forward_int env Real_wifi_disable [] (- 1) s"

definition wifi_get_mac_addr :: "hw_env \<Rightarrow> nat \<Rightarrow> hw_state \<Rightarrow> int \<times> hw_state" where
  "wifi_get_mac_addr env mac s = forward_int env Real_wifi_get_mac_addr [CPtr mac] (- 1) s"

definition wifi_get_fwstate :: "hw_env \<Rightarrow> nat \<Rightarrow> nat \<Rightarrow> hw_state \<Rightarrow> int \<times> hw_state" where
  "wifi_get_fwstate env buf len s = forward_int env Real_wifi_get_fwstate [CPtr buf, CSize len] (- 1) s"

definition wifi_change_fw_path :: "hw_env \<Rightarrow> nat \<Rightarrow> hw_state \<Rightarrow> int \<times> hw_state" where
  "wifi_change_fw_path env path s = forward_int env Real_wifi_change_fw_path [CPtr path] (- 1) s"

definition wifi_set_drvarg :: "hw_env \<Rightarrow> nat \<Rightarrow> nat \<Rightarrow> hw_state \<Rightarrow> int \<times> hw_state" where
  "wifi_set_drvarg env key value s = forward_int env Real_wifi_set_drvarg [CPtr key, CPtr value] (- 1) s"

definition wifi_set_drv_arg :: "hw_env \<Rightarrow> nat \<Rightarrow> nat \<Rightarrow> hw_state \<Rightarrow> int \<times> hw_state" where
  "wifi_set_drv_arg env key value s = forward_int env Real_wifi_set_drv_arg [CPtr key, CPtr value] (- 1) s"

definition wifi_set_svc_args :: "hw_env \<Rightarrow> nat \<Rightarrow> nat \<Rightarrow> hw_state \<Rightarrow> int \<times> hw_state" where
  "wifi_set_svc_args env key value s = forward_int env Real_wifi_set_svc_args [CPtr key, CPtr value] (- 1) s"

definition wifi_set_scanning_enabled :: "hw_env \<Rightarrow> int \<Rightarrow> hw_state \<Rightarrow> int \<times> hw_state" where
  "wifi_set_scanning_enabled env enabled s = forward_int env Real_wifi_set_scanning_enabled [CInt enabled] (- 1) s"

definition wifi_get_scanning_enabled :: "hw_env \<Rightarrow> hw_state \<Rightarrow> int \<times> hw_state" where
  "wifi_get_scanning_enabled env s = forward_int env Real_wifi_get_scanning_enabled [] (- 1) s"

definition wifi_set_scanning_always_enabled :: "hw_env \<Rightarrow> int \<Rightarrow> hw_state \<Rightarrow> int \<times> hw_state" where
  "wifi_set_scanning_always_enabled env enabled s = forward_int env Real_wifi_set_scanning_always_enabled [CInt enabled] (- 1) s"

definition wifi_get_scanning_always_enabled :: "hw_env \<Rightarrow> hw_state \<Rightarrow> int \<times> hw_state" where
  "wifi_get_scanning_always_enabled env s = forward_int env Real_wifi_get_scanning_always_enabled [] (- 1) s"

definition wifi_set_scan_interval :: "hw_env \<Rightarrow> int \<Rightarrow> hw_state \<Rightarrow> int \<times> hw_state" where
  "wifi_set_scan_interval env interval s = forward_int env Real_wifi_set_scan_interval [CInt interval] (- 1) s"

definition wifi_get_scan_interval :: "hw_env \<Rightarrow> hw_state \<Rightarrow> int \<times> hw_state" where
  "wifi_get_scan_interval env s = forward_int env Real_wifi_get_scan_interval [] (- 1) s"

definition wifi_set_fast_scan :: "hw_env \<Rightarrow> int \<Rightarrow> hw_state \<Rightarrow> int \<times> hw_state" where
  "wifi_set_fast_scan env enabled s = forward_int env Real_wifi_set_fast_scan [CInt enabled] (- 1) s"

definition wifi_get_fast_scan :: "hw_env \<Rightarrow> hw_state \<Rightarrow> int \<times> hw_state" where
  "wifi_get_fast_scan env s = forward_int env Real_wifi_get_fast_scan [] (- 1) s"

definition wifi_set_band :: "hw_env \<Rightarrow> int \<Rightarrow> hw_state \<Rightarrow> int \<times> hw_state" where
  "wifi_set_band env band s = forward_int env Real_wifi_set_band [CInt band] (- 1) s"

definition wifi_get_band :: "hw_env \<Rightarrow> hw_state \<Rightarrow> int \<times> hw_state" where
  "wifi_get_band env s = forward_int env Real_wifi_get_band [] (- 1) s"

definition wifi_set_country_code :: "hw_env \<Rightarrow> nat \<Rightarrow> hw_state \<Rightarrow> int \<times> hw_state" where
  "wifi_set_country_code env code s = forward_int env Real_wifi_set_country_code [CPtr code] (- 1) s"

definition wifi_get_country_code :: "hw_env \<Rightarrow> nat \<Rightarrow> nat \<Rightarrow> hw_state \<Rightarrow> int \<times> hw_state" where
  "wifi_get_country_code env buf len s = forward_int env Real_wifi_get_country_code [CPtr buf, CSize len] (- 1) s"

definition wifi_set_p2p_listen_interval :: "hw_env \<Rightarrow> int \<Rightarrow> hw_state \<Rightarrow> int \<times> hw_state" where
  "wifi_set_p2p_listen_interval env interval s = forward_int env Real_wifi_set_p2p_listen_interval [CInt interval] (- 1) s"

definition wifi_set_p2p_device_name :: "hw_env \<Rightarrow> nat \<Rightarrow> hw_state \<Rightarrow> int \<times> hw_state" where
  "wifi_set_p2p_device_name env name s = forward_int env Real_wifi_set_p2p_device_name [CPtr name] (- 1) s"

definition wifi_get_p2p_device_name :: "hw_env \<Rightarrow> nat \<Rightarrow> nat \<Rightarrow> hw_state \<Rightarrow> int \<times> hw_state" where
  "wifi_get_p2p_device_name env buf len s = forward_int env Real_wifi_get_p2p_device_name [CPtr buf, CSize len] (- 1) s"

definition wifi_set_p2p_ssid :: "hw_env \<Rightarrow> nat \<Rightarrow> hw_state \<Rightarrow> int \<times> hw_state" where
  "wifi_set_p2p_ssid env ssid s = forward_int env Real_wifi_set_p2p_ssid [CPtr ssid] (- 1) s"

definition wifi_get_p2p_ssid :: "hw_env \<Rightarrow> nat \<Rightarrow> nat \<Rightarrow> hw_state \<Rightarrow> int \<times> hw_state" where
  "wifi_get_p2p_ssid env buf len s = forward_int env Real_wifi_get_p2p_ssid [CPtr buf, CSize len] (- 1) s"

definition wifi_set_p2p_wps_config :: "hw_env \<Rightarrow> int \<Rightarrow> hw_state \<Rightarrow> int \<times> hw_state" where
  "wifi_set_p2p_wps_config env config s = forward_int env Real_wifi_set_p2p_wps_config [CInt config] (- 1) s"

definition wifi_get_p2p_wps_config :: "hw_env \<Rightarrow> hw_state \<Rightarrow> int \<times> hw_state" where
  "wifi_get_p2p_wps_config env s = forward_int env Real_wifi_get_p2p_wps_config [] (- 1) s"

definition wifi_set_p2p_go_intent :: "hw_env \<Rightarrow> int \<Rightarrow> hw_state \<Rightarrow> int \<times> hw_state" where
  "wifi_set_p2p_go_intent env intent s = forward_int env Real_wifi_set_p2p_go_intent [CInt intent] (- 1) s"

definition wifi_get_p2p_go_intent :: "hw_env \<Rightarrow> hw_state \<Rightarrow> int \<times> hw_state" where
  "wifi_get_p2p_go_intent env s = forward_int env Real_wifi_get_p2p_go_intent [] (- 1) s"

definition wifi_set_p2p_listen_reg_class :: "hw_env \<Rightarrow> int \<Rightarrow> hw_state \<Rightarrow> int \<times> hw_state" where
  "wifi_set_p2p_listen_reg_class env reg_class s = forward_int env Real_wifi_set_p2p_listen_reg_class [CInt reg_class] (- 1) s"

definition wifi_get_p2p_listen_reg_class :: "hw_env \<Rightarrow> hw_state \<Rightarrow> int \<times> hw_state" where
  "wifi_get_p2p_listen_reg_class env s = forward_int env Real_wifi_get_p2p_listen_reg_class [] (- 1) s"

definition wifi_set_p2p_oper_reg_class :: "hw_env \<Rightarrow> int \<Rightarrow> hw_state \<Rightarrow> int \<times> hw_state" where
  "wifi_set_p2p_oper_reg_class env reg_class s = forward_int env Real_wifi_set_p2p_oper_reg_class [CInt reg_class] (- 1) s"

definition wifi_get_p2p_oper_reg_class :: "hw_env \<Rightarrow> hw_state \<Rightarrow> int \<times> hw_state" where
  "wifi_get_p2p_oper_reg_class env s = forward_int env Real_wifi_get_p2p_oper_reg_class [] (- 1) s"

definition wifi_set_p2p_oper_channel :: "hw_env \<Rightarrow> int \<Rightarrow> hw_state \<Rightarrow> int \<times> hw_state" where
  "wifi_set_p2p_oper_channel env channel s = forward_int env Real_wifi_set_p2p_oper_channel [CInt channel] (- 1) s"

definition wifi_get_p2p_oper_channel :: "hw_env \<Rightarrow> hw_state \<Rightarrow> int \<times> hw_state" where
  "wifi_get_p2p_oper_channel env s = forward_int env Real_wifi_get_p2p_oper_channel [] (- 1) s"

definition wifi_set_p2p_go_negotiation_delay :: "hw_env \<Rightarrow> int \<Rightarrow> hw_state \<Rightarrow> int \<times> hw_state" where
  "wifi_set_p2p_go_negotiation_delay env delay s = forward_int env Real_wifi_set_p2p_go_negotiation_delay [CInt delay] (- 1) s"

definition wifi_get_p2p_go_negotiation_delay :: "hw_env \<Rightarrow> hw_state \<Rightarrow> int \<times> hw_state" where
  "wifi_get_p2p_go_negotiation_delay env s = forward_int env Real_wifi_get_p2p_go_negotiation_delay [] (- 1) s"

definition wifi_set_ap_interface :: "hw_env \<Rightarrow> nat \<Rightarrow> hw_state \<Rightarrow> int \<times> hw_state" where
  "wifi_set_ap_interface env iface s = forward_int env Real_wifi_set_ap_interface [CPtr iface] (- 1) s"

definition wifi_get_ap_interface :: "hw_env \<Rightarrow> nat \<Rightarrow> nat \<Rightarrow> hw_state \<Rightarrow> int \<times> hw_state" where
  "wifi_get_ap_interface env buf len s = forward_int env Real_wifi_get_ap_interface [CPtr buf, CSize len] (- 1) s"

definition wifi_set_ap_mac :: "hw_env \<Rightarrow> nat \<Rightarrow> hw_state \<Rightarrow> int \<times> hw_state" where
  "wifi_set_ap_mac env mac s = forward_int env Real_wifi_set_ap_mac [CPtr mac] (- 1) s"

definition wifi_get_ap_mac :: "hw_env \<Rightarrow> nat \<Rightarrow> hw_state \<Rightarrow> int \<times> hw_state" where
  "wifi_get_ap_mac env mac s = forward_int env Real_wifi_get_ap_mac [CPtr mac] (- 1) s"

definition wifi_set_nvram :: "hw_env \<Rightarrow> nat \<Rightarrow> nat \<Rightarrow> hw_state \<Rightarrow> int \<times> hw_state" where
  "wifi_set_nvram env key value s = forward_int env Real_wifi_set_nvram [CPtr key, CPtr value] (- 1) s"

definition wifi_get_nvram :: "hw_env \<Rightarrow> nat \<Rightarrow> nat \<Rightarrow> nat \<Rightarrow> hw_state \<Rightarrow> int \<times> hw_state" where
  "wifi_get_nvram env key buf len s = forward_int env Real_wifi_get_nvram [CPtr key, CPtr buf, CSize len] (- 1) s"

definition wifi_set_supplicant_log_level :: "hw_env \<Rightarrow> int \<Rightarrow> hw_state \<Rightarrow> int \<times> hw_state" where
  "wifi_set_supplicant_log_level env level s = forward_int env Real_wifi_set_supplicant_log_level [CInt level] (- 1) s"

definition wifi_get_supplicant_log_level :: "hw_env \<Rightarrow> hw_state \<Rightarrow> int \<times> hw_state" where
  "wifi_get_supplicant_log_level env s = forward_int env Real_wifi_get_supplicant_log_level [] (- 1) s"

definition ensure_entropy_file_exists :: "hw_env \<Rightarrow> hw_state \<Rightarrow> int \<times> hw_state" where
  "ensure_entropy_file_exists env s = forward_int env Real_ensure_entropy_file_exists [] (- 1) s"

definition ensure_config_file_exists :: "hw_env \<Rightarrow> hw_state \<Rightarrow> int \<times> hw_state" where
  "ensure_config_file_exists env s = forward_int env Real_ensure_config_file_exists [] (- 1) s"

definition bt_set_drvarg :: "hw_env \<Rightarrow> nat \<Rightarrow> nat \<Rightarrow> hw_state \<Rightarrow> int \<times> hw_state" where
  "bt_set_drvarg env key value s = forward_int env Real_bt_set_drvarg [CPtr key, CPtr value] (- 1) s"

definition bt_set_drv_arg :: "hw_env \<Rightarrow> nat \<Rightarrow> nat \<Rightarrow> hw_state \<Rightarrow> int \<times> hw_state" where
  "bt_set_drv_arg env key value s = forward_int env Real_bt_set_drv_arg [CPtr key, CPtr value] (- 1) s"

definition setDbg :: "hw_env \<Rightarrow> int \<Rightarrow> hw_state \<Rightarrow> int \<times> hw_state" where
  "setDbg env level s = forward_int env Real_setDbg [CInt level] (- 1) s"

lemmas forwarder_defs =
  wifi_connect_to_supplicant_def
  wifi_wait_for_event_def
  wifi_command_def
  wifi_send_command_def
  wifi_supplicant_connection_active_def
  is_wifi_driver_loaded_def
  wifi_load_driver_def
  wifi_unload_driver_def
  wifi_enable_def
  wifi_disable_def
  wifi_get_mac_addr_def
  wifi_get_fwstate_def
  wifi_change_fw_path_def
  wifi_set_drvarg_def
  wifi_set_drv_arg_def
  wifi_set_svc_args_def
  wifi_set_scanning_enabled_def
  wifi_get_scanning_enabled_def
  wifi_set_scanning_always_enabled_def
  wifi_get_scanning_always_enabled_def
  wifi_set_scan_interval_def
  wifi_get_scan_interval_def
  wifi_set_fast_scan_def
  wifi_get_fast_scan_def
  wifi_set_band_def
  wifi_get_band_def
  wifi_set_country_code_def
  wifi_get_country_code_def
  wifi_set_p2p_listen_interval_def
  wifi_set_p2p_device_name_def
  wifi_get_p2p_device_name_def
  wifi_set_p2p_ssid_def
  wifi_get_p2p_ssid_def
  wifi_set_p2p_wps_config_def
  wifi_get_p2p_wps_config_def
  wifi_set_p2p_go_intent_def
  wifi_get_p2p_go_intent_def
  wifi_set_p2p_listen_reg_class_def
  wifi_get_p2p_listen_reg_class_def
  wifi_set_p2p_oper_reg_class_def
  wifi_get_p2p_oper_reg_class_def
  wifi_set_p2p_oper_channel_def
  wifi_get_p2p_oper_channel_def
  wifi_set_p2p_go_negotiation_delay_def
  wifi_get_p2p_go_negotiation_delay_def
  wifi_set_ap_interface_def
  wifi_get_ap_interface_def
  wifi_set_ap_mac_def
  wifi_get_ap_mac_def
  wifi_set_nvram_def
  wifi_get_nvram_def
  wifi_set_supplicant_log_level_def
  wifi_get_supplicant_log_level_def
  ensure_entropy_file_exists_def
  ensure_config_file_exists_def
  bt_set_drvarg_def
  bt_set_drv_arg_def
  setDbg_def

subsection \<open>The exported interface\<close>

text \<open>A call from outside: the function, its arguments; ill-typed calls do not compile.\<close>

definition call_export :: "hw_env \<Rightarrow> hw_symbol \<Rightarrow> carg list \<Rightarrow> hw_state \<Rightarrow> (cret \<times> hw_state) option" where
  "call_export env f args s = (case f of
     Real_wifi_set_mode \<Rightarrow> (case args of [CInt mode] \<Rightarrow> Some (map_prod RInt (\<lambda>s. s) (wifi_set_mode env mode s)) | _ \<Rightarrow> None)
   | Real_wifi_start_supplicant \<Rightarrow> (case args of [CInt p2p_supported] \<Rightarrow> Some (map_prod RInt (\<lambda>s. s) (wifi_start_supplicant env p2p_supported s)) | _ \<Rightarrow> None)
   | Real_wifi_stop_supplicant \<Rightarrow> (case args of [CInt p2p_supported] \<Rightarrow> Some (map_prod RInt (\<lambda>s. s) (wifi_stop_supplicant env p2p_supported s)) | _ \<Rightarrow> None)
   | Real_wifi_connect_to_supplicant \<Rightarrow> (case args of [CPtr ifname] \<Rightarrow> Some (map_prod RInt (\<lambda>s. s) (wifi_connect_to_supplicant env ifname s)) | _ \<Rightarrow> None)
   | Real_wifi_close_supplicant_connection \<Rightarrow> (case args of [CPtr ifname] \<Rightarrow> Some (RVoid, wifi_close_supplicant_connection env ifname s) | _ \<Rightarrow> None)
   | Real_wifi_wait_for_event \<Rightarrow> (case args of [CPtr ifname, CPtr buf, CSize len] \<Rightarrow> Some (map_prod RInt (\<lambda>s. s) (wifi_wait_for_event env ifname buf len s)) | _ \<Rightarrow> None)
   | Real_wifi_command \<Rightarrow> (case args of [CPtr ifname, CPtr cmd, CPtr reply, CPtr reply_len] \<Rightarrow> Some (map_prod RInt (\<lambda>s. s) (wifi_command env ifname cmd reply reply_len s)) | _ \<Rightarrow> None)
   | Real_wifi_send_command \<Rightarrow> (case args of [CInt idx, CPtr cmd, CPtr reply, CPtr reply_len] \<Rightarrow> Some (map_prod RInt (\<lambda>s. s) (wifi_send_command env idx cmd reply reply_len s)) | _ \<Rightarrow> None)
   | Real_wifi_supplicant_connection_active \<Rightarrow> (case args of [] \<Rightarrow> Some (map_prod RInt (\<lambda>s. s) (wifi_supplicant_connection_active env s)) | _ \<Rightarrow> None)
   | Real_is_wifi_driver_loaded \<Rightarrow> (case args of [] \<Rightarrow> Some (map_prod RInt (\<lambda>s. s) (is_wifi_driver_loaded env s)) | _ \<Rightarrow> None)
   | Real_wifi_load_driver \<Rightarrow> (case args of [] \<Rightarrow> Some (map_prod RInt (\<lambda>s. s) (wifi_load_driver env s)) | _ \<Rightarrow> None)
   | Real_wifi_unload_driver \<Rightarrow> (case args of [] \<Rightarrow> Some (map_prod RInt (\<lambda>s. s) (wifi_unload_driver env s)) | _ \<Rightarrow> None)
   | Real_wifi_enable \<Rightarrow> (case args of [] \<Rightarrow> Some (map_prod RInt (\<lambda>s. s) (wifi_enable env s)) | _ \<Rightarrow> None)
   | Real_wifi_disable \<Rightarrow> (case args of [] \<Rightarrow> Some (map_prod RInt (\<lambda>s. s) (wifi_disable env s)) | _ \<Rightarrow> None)
   | Real_wifi_get_mac_addr \<Rightarrow> (case args of [CPtr mac] \<Rightarrow> Some (map_prod RInt (\<lambda>s. s) (wifi_get_mac_addr env mac s)) | _ \<Rightarrow> None)
   | Real_wifi_get_fwstate \<Rightarrow> (case args of [CPtr buf, CSize len] \<Rightarrow> Some (map_prod RInt (\<lambda>s. s) (wifi_get_fwstate env buf len s)) | _ \<Rightarrow> None)
   | Real_wifi_get_fw_path \<Rightarrow> (case args of [CInt fw_type] \<Rightarrow> Some (map_prod RPtr (\<lambda>s. s) (wifi_get_fw_path env fw_type s)) | _ \<Rightarrow> None)
   | Real_wifi_change_fw_path \<Rightarrow> (case args of [CPtr path] \<Rightarrow> Some (map_prod RInt (\<lambda>s. s) (wifi_change_fw_path env path s)) | _ \<Rightarrow> None)
   | Real_wifi_set_drvarg \<Rightarrow> (case args of [CPtr key, CPtr value] \<Rightarrow> Some (map_prod RInt (\<lambda>s. s) (wifi_set_drvarg env key value s)) | _ \<Rightarrow> None)
   | Real_wifi_set_drv_arg \<Rightarrow> (case args of [CPtr key, CPtr value] \<Rightarrow> Some (map_prod RInt (\<lambda>s. s) (wifi_set_drv_arg env key value s)) | _ \<Rightarrow> None)
   | Real_wifi_set_svc_args \<Rightarrow> (case args of [CPtr key, CPtr value] \<Rightarrow> Some (map_prod RInt (\<lambda>s. s) (wifi_set_svc_args env key value s)) | _ \<Rightarrow> None)
   | Real_wifi_set_scanning_enabled \<Rightarrow> (case args of [CInt enabled] \<Rightarrow> Some (map_prod RInt (\<lambda>s. s) (wifi_set_scanning_enabled env enabled s)) | _ \<Rightarrow> None)
   | Real_wifi_get_scanning_enabled \<Rightarrow> (case args of [] \<Rightarrow> Some (map_prod RInt (\<lambda>s. s) (wifi_get_scanning_enabled env s)) | _ \<Rightarrow> None)
   | Real_wifi_set_scanning_always_enabled \<Rightarrow> (case args of [CInt enabled] \<Rightarrow> Some (map_prod RInt (\<lambda>s. s) (wifi_set_scanning_always_enabled env enabled s)) | _ \<Rightarrow> None)
   | Real_wifi_get_scanning_always_enabled \<Rightarrow> (case args of [] \<Rightarrow> Some (map_prod RInt (\<lambda>s. s) (wifi_get_scanning_always_enabled env s)) | _ \<Rightarrow> None)
   | Real_wifi_set_scan_interval \<Rightarrow> (case args of [CInt interval] \<Rightarrow> Some (map_prod RInt (\<lambda>s. s) (wifi_set_scan_interval env interval s)) | _ \<Rightarrow> None)
   | Real_wifi_get_scan_interval \<Rightarrow> (case args of [] \<Rightarrow> Some (map_prod RInt (\<lambda>s. s) (wifi_get_scan_interval env s)) | _ \<Rightarrow> None)
   | Real_wifi_set_fast_scan \<Rightarrow> (case args of [CInt enabled] \<Rightarrow> Some (map_prod RInt (\<lambda>s. s) (wifi_set_fast_scan env enabled s)) | _ \<Rightarrow> None)
   | Real_wifi_get_fast_scan \<Rightarrow> (case args of [] \<Rightarrow> Some (map_prod RInt (\<lambda>s. s) (wifi_get_fast_scan env s)) | _ \<Rightarrow> None)
   | Real_wifi_set_band \<Rightarrow> (case args of [CInt band] \<Rightarrow> Some (map_prod RInt (\<lambda>s. s) (wifi_set_band env band s)) | _ \<Rightarrow> None)
   | Real_wifi_get_band \<Rightarrow> (case args of [] \<Rightarrow> Some (map_prod RInt (\<lambda>s. s) (wifi_get_band env s)) | _ \<Rightarrow> None)
   | Real_wifi_set_country_code \<Rightarrow> (case args of [CPtr code] \<Rightarrow> Some (map_prod RInt (\<lambda>s. s) (wifi_set_country_code env code s)) | _ \<Rightarrow> None)
   | Real_wifi_get_country_code \<Rightarrow> (case args of [CPtr buf, CSize len] \<Rightarrow> Some (map_prod RInt (\<lambda>s. s) (wifi_get_country_code env buf len s)) | _ \<Rightarrow> None)
   | Real_wifi_set_p2p_listen_interval \<Rightarrow> (case args of [CInt interval] \<Rightarrow> Some (map_prod RInt (\<lambda>s. s) (wifi_set_p2p_listen_interval env interval s)) | _ \<Rightarrow> None)
   | Real_wifi_set_p2p_device_name \<Rightarrow> (case args of [CPtr name] \<Rightarrow> Some (map_prod RInt (\<lambda>s. s) (wifi_set_p2p_device_name env name s)) | _ \<Rightarrow> None)
   | Real_wifi_get_p2p_device_name \<Rightarrow> (case args of [CPtr buf, CSize len] \<Rightarrow> Some (map_prod RInt (\<lambda>s. s) (wifi_get_p2p_device_name env buf len s)) | _ \<Rightarrow> None)
   | Real_wifi_set_p2p_ssid \<Rightarrow> (case args of [CPtr ssid] \<Rightarrow> Some (map_prod RInt (\<lambda>s. s) (wifi_set_p2p_ssid env ssid s)) | _ \<Rightarrow> None)
   | Real_wifi_get_p2p_ssid \<Rightarrow> (case args of [CPtr buf, CSize len] \<Rightarrow> Some (map_prod RInt (\<lambda>s. s) (wifi_get_p2p_ssid env buf len s)) | _ \<Rightarrow> None)
   | Real_wifi_set_p2p_wps_config \<Rightarrow> (case args of [CInt config] \<Rightarrow> Some (map_prod RInt (\<lambda>s. s) (wifi_set_p2p_wps_config env config s)) | _ \<Rightarrow> None)
   | Real_wifi_get_p2p_wps_config \<Rightarrow> (case args of [] \<Rightarrow> Some (map_prod RInt (\<lambda>s. s) (wifi_get_p2p_wps_config env s)) | _ \<Rightarrow> None)
   | Real_wifi_set_p2p_go_intent \<Rightarrow> (case args of [CInt intent] \<Rightarrow> Some (map_prod RInt (\<lambda>s. s) (wifi_set_p2p_go_intent env intent s)) | _ \<Rightarrow> None)
   | Real_wifi_get_p2p_go_intent \<Rightarrow> (case args of [] \<Rightarrow> Some (map_prod RInt (\<lambda>s. s) (wifi_get_p2p_go_intent env s)) | _ \<Rightarrow> None)
   | Real_wifi_set_p2p_listen_reg_class \<Rightarrow> (case args of [CInt reg_class] \<Rightarrow> Some (map_prod RInt (\<lambda>s. s) (wifi_set_p2p_listen_reg_class env reg_class s)) | _ \<Rightarrow> None)
   | Real_wifi_get_p2p_listen_reg_class \<Rightarrow> (case args of [] \<Rightarrow> Some (map_prod RInt (\<lambda>s. s) (wifi_get_p2p_listen_reg_class env s)) | _ \<Rightarrow> None)
   | Real_wifi_set_p2p_oper_reg_class \<Rightarrow> (case args of [CInt reg_class] \<Rightarrow> Some (map_prod RInt (\<lambda>s. s) (wifi_set_p2p_oper_reg_class env reg_class s)) | _ \<Rightarrow> None)
   | Real_wifi_get_p2p_oper_reg_class \<Rightarrow> (case args of [] \<Rightarrow> Some (map_prod RInt (\<lambda>s. s) (wifi_get_p2p_oper_reg_class env s)) | _ \<Rightarrow> None)
   | Real_wifi_set_p2p_oper_channel \<Rightarrow> (case args of [CInt channel] \<Rightarrow> Some (map_prod RInt (\<lambda>s. s) (wifi_set_p2p_oper_channel env channel s)) | _ \<Rightarrow> None)
   | Real_wifi_get_p2p_oper_channel \<Rightarrow> (case args of [] \<Rightarrow> Some (map_prod RInt (\<lambda>s. s) (wifi_get_p2p_oper_channel env s)) | _ \<Rightarrow> None)
   | Real_wifi_set_p2p_go_negotiation_delay \<Rightarrow> (case args of [CInt delay] \<Rightarrow> Some (map_prod RInt (\<lambda>s. s) (wifi_set_p2p_go_negotiation_delay env delay s)) | _ \<Rightarrow> None)
   | Real_wifi_get_p2p_go_negotiation_delay \<Rightarrow> (case args of [] \<Rightarrow> Some (map_prod RInt (\<lambda>s. s) (wifi_get_p2p_go_negotiation_delay env s)) | _ \<Rightarrow> None)
   | Real_wifi_set_ap_interface \<Rightarrow> (case args of [CPtr iface] \<Rightarrow> Some (map_prod RInt (\<lambda>s. s) (wifi_set_ap_interface env iface s)) | _ \<Rightarrow> None)
   | Real_wifi_get_ap_interface \<Rightarrow> (case args of [CPtr buf, CSize len] \<Rightarrow> Some (map_prod RInt (\<lambda>s. s) (wifi_get_ap_interface env buf len s)) | _ \<Rightarrow> None)
   | Real_wifi_set_ap_mac \<Rightarrow> (case args of [CPtr mac] \<Rightarrow> Some (map_prod RInt (\<lambda>s. s) (wifi_set_ap_mac env mac s)) | _ \<Rightarrow> None)
   | Real_wifi_get_ap_mac \<Rightarrow> (case args of [CPtr mac] \<Rightarrow> Some (map_prod RInt (\<lambda>s. s) (wifi_get_ap_mac env mac s)) | _ \<Rightarrow> None)
   | Real_wifi_set_nvram \<Rightarrow> (case args of [CPtr key, CPtr value] \<Rightarrow> Some (map_prod RInt (\<lambda>s. s) (wifi_set_nvram env key value s)) | _ \<Rightarrow> None)
   | Real_wifi_get_nvram \<Rightarrow> (case args of [CPtr key, CPtr buf, CSize len] \<Rightarrow> Some (map_prod RInt (\<lambda>s. s) (wifi_get_nvram env key buf len s)) | _ \<Rightarrow> None)
   | Real_wifi_set_supplicant_log_level \<Rightarrow> (case args of [CInt level] \<Rightarrow> Some (map_prod RInt (\<lambda>s. s) (wifi_set_supplicant_log_level env level s)) | _ \<Rightarrow> None)
   | Real_wifi_get_supplicant_log_level \<Rightarrow> (case args of [] \<Rightarrow> Some (map_prod RInt (\<lambda>s. s) (wifi_get_supplicant_log_level env s)) | _ \<Rightarrow> None)
   | Real_ensure_entropy_file_exists \<Rightarrow> (case args of [] \<Rightarrow> Some (map_prod RInt (\<lambda>s. s) (ensure_entropy_file_exists env s)) | _ \<Rightarrow> None)
   | Real_ensure_config_file_exists \<Rightarrow> (case args of [] \<Rightarrow> Some (map_prod RInt (\<lambda>s. s) (ensure_config_file_exists env s)) | _ \<Rightarrow> None)
   | Real_bt_set_drvarg \<Rightarrow> (case args of [CPtr key, CPtr value] \<Rightarrow> Some (map_prod RInt (\<lambda>s. s) (bt_set_drvarg env key value s)) | _ \<Rightarrow> None)
   | Real_bt_set_drv_arg \<Rightarrow> (case args of [CPtr key, CPtr value] \<Rightarrow> Some (map_prod RInt (\<lambda>s. s) (bt_set_drv_arg env key value s)) | _ \<Rightarrow> None)
   | Real_setDbg \<Rightarrow> (case args of [CInt level] \<Rightarrow> Some (map_prod RInt (\<lambda>s. s) (setDbg env level s)) | _ \<Rightarrow> None))"

end
