(* ===== verification/Hw_Properties.thy ===== *)
theory Hw_Properties
  imports Hw_Legacy_Shim
begin

section \<open>The libhardware_legacy shim: correctness\<close>

text \<open>
  What loading binds, that every exported function only ever calls the blob's function of its
  own name, with its own arguments, and the guards of \<open>wifi_stop_supplicant\<close>.
\<close>

subsection \<open>Loading\<close>

lemma fold_GET_REAL_FUNC:
  "distinct (map fst tbl) \<Longrightarrow>
   real (fold (GET_REAL_FUNC env h) tbl s) f =
     (case map_of tbl f of Some name \<Rightarrow> ld_sym env h name | None \<Rightarrow> real s f)"
proof (induction tbl arbitrary: s)
  case Nil
  then show ?case by simp
next
  case (Cons e tbl)
  obtain g name where e: "e = (g, name)" by (cases e)
  with Cons.prems have g: "map_of tbl g = None" by (simp add: map_of_eq_None_iff)
  from Cons show ?case
    by (cases "f = g") (simp_all add: e g GET_REAL_FUNC_def split: option.split)
qed

lemma symbol_table_fst: "map fst symbol_table =
    [Real_wifi_set_mode,
     Real_wifi_start_supplicant,
     Real_wifi_stop_supplicant,
     Real_wifi_connect_to_supplicant,
     Real_wifi_close_supplicant_connection,
     Real_wifi_wait_for_event,
     Real_wifi_command,
     Real_wifi_send_command,
     Real_wifi_supplicant_connection_active,
     Real_is_wifi_driver_loaded,
     Real_wifi_load_driver,
     Real_wifi_unload_driver,
     Real_wifi_enable,
     Real_wifi_disable,
     Real_wifi_get_mac_addr,
     Real_wifi_get_fwstate,
     Real_wifi_get_fw_path,
     Real_wifi_change_fw_path,
     Real_wifi_set_drvarg,
     Real_wifi_set_drv_arg,
     Real_wifi_set_svc_args,
     Real_wifi_set_scanning_enabled,
     Real_wifi_get_scanning_enabled,
     Real_wifi_set_scanning_always_enabled,
     Real_wifi_get_scanning_always_enabled,
     Real_wifi_set_scan_interval,
     Real_wifi_get_scan_interval,
     Real_wifi_set_fast_scan,
     Real_wifi_get_fast_scan,
     Real_wifi_set_band,
     Real_wifi_get_band,
     Real_wifi_set_country_code,
     Real_wifi_get_country_code,
     Real_wifi_set_p2p_listen_interval,
     Real_wifi_set_p2p_device_name,
     Real_wifi_get_p2p_device_name,
     Real_wifi_set_p2p_ssid,
     Real_wifi_get_p2p_ssid,
     Real_wifi_set_p2p_wps_config,
     Real_wifi_get_p2p_wps_config,
     Real_wifi_set_p2p_go_intent,
     Real_wifi_get_p2p_go_intent,
     Real_wifi_set_p2p_listen_reg_class,
     Real_wifi_get_p2p_listen_reg_class,
     Real_wifi_set_p2p_oper_reg_class,
     Real_wifi_get_p2p_oper_reg_class,
     Real_wifi_set_p2p_oper_channel,
     Real_wifi_get_p2p_oper_channel,
     Real_wifi_set_p2p_go_negotiation_delay,
     Real_wifi_get_p2p_go_negotiation_delay,
     Real_wifi_set_ap_interface,
     Real_wifi_get_ap_interface,
     Real_wifi_set_ap_mac,
     Real_wifi_get_ap_mac,
     Real_wifi_set_nvram,
     Real_wifi_get_nvram,
     Real_wifi_set_supplicant_log_level,
     Real_wifi_get_supplicant_log_level,
     Real_ensure_entropy_file_exists,
     Real_ensure_config_file_exists,
     Real_bt_set_drvarg,
     Real_bt_set_drv_arg,
     Real_setDbg]"
  by (simp add: symbol_table_def)

lemma distinct_symbols: "distinct (map fst symbol_table)"
  unfolding symbol_table_fst by simp

lemma symbol_in_table: "f \<in> fst ` set symbol_table"
proof -
  have "f \<in> set (map fst symbol_table)"
    unfolding symbol_table_fst by (cases f) simp_all
  then show ?thesis by simp
qed

text \<open>The name of the symbol behind a pointer.\<close>

definition symbol_name :: "hw_symbol \<Rightarrow> string" where
  "symbol_name f = the (map_of symbol_table f)"

lemma map_of_symbol_table: "map_of symbol_table f = Some (symbol_name f)"
proof -
  from symbol_in_table have "map_of symbol_table f \<noteq> None" by (simp add: map_of_eq_None_iff)
  then show ?thesis by (auto simp: symbol_name_def)
qed

lemma shim_init_real:
  "real (shim_init env s) f =
     (case ld_open env of None \<Rightarrow> real s f | Some h \<Rightarrow> ld_sym env h (symbol_name f))"
  by (simp add: shim_init_def Let_def fold_GET_REAL_FUNC [OF distinct_symbols] map_of_symbol_table
      split: option.split)

subsection \<open>Forwarding\<close>

fun ctype_of :: "carg \<Rightarrow> ctype" where
  "ctype_of (CInt _) = TInt"
| "ctype_of (CPtr _) = TPtr"
| "ctype_of (CSize _) = TSize"

lemma ctype_of_iff [simp]:
  "ctype_of a = TInt \<longleftrightarrow> (\<exists>i. a = CInt i)" "ctype_of a = TPtr \<longleftrightarrow> (\<exists>p. a = CPtr p)"
  "ctype_of a = TSize \<longleftrightarrow> (\<exists>n. a = CSize n)"
  by (cases a; simp)+

text \<open>What a caller gets when the blob lacks the function.\<close>

definition fallback :: "hw_symbol \<Rightarrow> cret" where
  "fallback f = (case f of
     Real_wifi_set_mode \<Rightarrow> RInt 0
   | Real_wifi_stop_supplicant \<Rightarrow> RInt 0
   | Real_wifi_supplicant_connection_active \<Rightarrow> RInt 0
   | Real_is_wifi_driver_loaded \<Rightarrow> RInt 0
   | Real_wifi_close_supplicant_connection \<Rightarrow> RVoid
   | Real_wifi_get_fw_path \<Rightarrow> RPtr 0
   | _ \<Rightarrow> RInt (- 1))"

definition answer :: "hw_env \<Rightarrow> hw_symbol \<Rightarrow> nat \<Rightarrow> carg list \<Rightarrow> hw_state \<Rightarrow> cret" where
  "answer env f p args s = (case f of
     Real_wifi_close_supplicant_connection \<Rightarrow> RVoid
   | Real_wifi_get_fw_path \<Rightarrow> RPtr (call_ptr env (hw_trace s) p args)
   | _ \<Rightarrow> RInt (call_int env (hw_trace s) p args))"

lemma forward_int_split:
  "real s f = None \<Longrightarrow> forward_int env f args d s = (d, s)"
  "real s f = Some p \<Longrightarrow> forward_int env f args d s =
     (call_int env (hw_trace s) p args, s\<lparr>hw_trace := hw_trace s @ [Call p args]\<rparr>)"
  by (simp_all add: forward_int_def call_real_int_def)

lemmas export_defs = wifi_set_mode_def wifi_start_supplicant_def wifi_get_fw_path_def
  wifi_close_supplicant_connection_def call_real_int_def call_real_ptr_def

lemma call_export_plain:
  assumes "map ctype_of args = signature f"
    and "f \<noteq> Real_wifi_start_supplicant" and "f \<noteq> Real_wifi_stop_supplicant"
  shows "call_export env f args s = Some (case real s f of
      None \<Rightarrow> (fallback f, s)
    | Some p \<Rightarrow> (answer env f p args s, s\<lparr>hw_trace := hw_trace s @ [Call p args]\<rparr>))"
  using assms
  by (cases f; cases "real s f")
    (auto simp: call_export_def signature_def fallback_def answer_def forwarder_defs export_defs
      forward_int_split map_eq_Cons_conv)

lemma call_export_typed: "call_export env f args s = Some r \<Longrightarrow> map ctype_of args = signature f"
  by (cases f) (auto simp: call_export_def signature_def split: list.splits carg.splits)

subsection \<open>Runs\<close>

text \<open>Every call goes to a bound pointer, with arguments of the declared types.\<close>

definition bound_call :: "hw_state \<Rightarrow> hw_event \<Rightarrow> bool" where
  "bound_call s ev \<longleftrightarrow> (\<exists>g p args. ev = Call p args \<and> real s g = Some p \<and> map ctype_of args = signature g)"

definition only_bound :: "hw_state \<Rightarrow> hw_state \<Rightarrow> bool" where
  "only_bound s s' \<longleftrightarrow> real s' = real s \<and>
     (\<exists>evs. hw_trace s' = hw_trace s @ evs \<and> (\<forall>ev \<in> set evs. bound_call s ev))"

lemma only_bound_refl [simp]: "only_bound s s"
  by (simp add: only_bound_def)

lemma only_bound_trans: "only_bound s s1 \<Longrightarrow> only_bound s1 s2 \<Longrightarrow> only_bound s s2"
  by (fastforce simp: only_bound_def bound_call_def)

lemma only_bound_call:
  "real s f = Some p \<Longrightarrow> map ctype_of args = signature f \<Longrightarrow>
   only_bound s (s\<lparr>hw_trace := hw_trace s @ [Call p args]\<rparr>)"
  by (auto simp: only_bound_def bound_call_def)

lemma only_bound_forward:
  "map ctype_of args = signature f \<Longrightarrow> only_bound s (snd (forward_int env f args d s))"
  by (cases "real s f") (simp_all add: forward_int_split only_bound_call)

lemma denies_eq:
  "denies env f s = (case real s f of None \<Rightarrow> (False, s)
    | Some p \<Rightarrow> (call_int env (hw_trace s) p [] = 0, s\<lparr>hw_trace := hw_trace s @ [Call p []]\<rparr>))"
  by (simp add: denies_def call_real_int_def split: option.split)

lemma only_bound_denies: "signature f = [] \<Longrightarrow> only_bound s (snd (denies env f s))"
  by (auto simp: denies_eq only_bound_call split: option.split)

lemma only_bound_stop: "only_bound s (snd (wifi_stop_supplicant env m s))"
proof -
  define s1 where "s1 = snd (denies env Real_is_wifi_driver_loaded s)"
  define s2 where "s2 = snd (denies env Real_wifi_supplicant_connection_active s1)"
  have 1: "only_bound s s1" unfolding s1_def by (rule only_bound_denies) (simp add: signature_def)
  have "only_bound s1 s2" unfolding s2_def by (rule only_bound_denies) (simp add: signature_def)
  with 1 have 2: "only_bound s s2" by (rule only_bound_trans)
  have 3: "only_bound s (s2\<lparr>hw_trace := hw_trace s2 @ [Call stop [CInt v]]\<rparr>)"
    if "real s Real_wifi_stop_supplicant = Some stop" for stop v
  proof -
    from 2 that have "real s2 Real_wifi_stop_supplicant = Some stop" by (simp add: only_bound_def)
    from only_bound_trans [OF 2 only_bound_call [OF this]] show ?thesis by (simp add: signature_def)
  qed
  show ?thesis
    using 1 2 3
    by (auto simp: wifi_stop_supplicant_def Let_def call_real_int_def s1_def s2_def
        split: option.split prod.split)
qed

lemma call_export_only_bound:
  assumes "call_export env f args s = Some (r, s')"
  shows "only_bound s s'"
proof -
  note ty = call_export_typed [OF assms]
  consider (start) "f = Real_wifi_start_supplicant" | (stop) "f = Real_wifi_stop_supplicant"
    | (plain) "f \<noteq> Real_wifi_start_supplicant" "f \<noteq> Real_wifi_stop_supplicant" by blast
  then show ?thesis
  proof cases
    case start
    with ty obtain m where m: "args = [CInt m]" by (auto simp: signature_def map_eq_Cons_conv)
    have "only_bound s (snd (wifi_start_supplicant env m s))"
      unfolding wifi_start_supplicant_def Let_def
      by (rule only_bound_forward) (simp add: signature_def)
    with start m assms show ?thesis
      by (cases "wifi_start_supplicant env m s") (auto simp: call_export_def)
  next
    case stop
    with ty obtain m where "args = [CInt m]" by (auto simp: signature_def map_eq_Cons_conv)
    with stop assms only_bound_stop [of s env m] show ?thesis
      by (cases "wifi_stop_supplicant env m s") (auto simp: call_export_def)
  next
    case plain
    from call_export_plain [OF ty plain, of env s] assms ty show ?thesis
      by (auto simp: only_bound_call split: option.splits)
  qed
qed

definition hw_step :: "hw_env \<Rightarrow> hw_symbol \<times> carg list \<Rightarrow> hw_state \<Rightarrow> hw_state option" where
  "hw_step env = (\<lambda>(f, args) s. map_option snd (call_export env f args s))"

definition hw_loaded :: "hw_env \<Rightarrow> (hw_symbol \<times> carg list) list \<Rightarrow> hw_state option" where
  "hw_loaded env is = run_steps (hw_step env) is (shim_init env hw_initial)"

lemma hw_loaded_only_bound:
  assumes "hw_loaded env is = Some s"
  shows "only_bound (shim_init env hw_initial) s"
proof (rule run_steps_invariant [where P = "only_bound (shim_init env hw_initial)"])
  show "run_steps (hw_step env) is (shim_init env hw_initial) = Some s"
    using assms by (simp add: hw_loaded_def)
next
  fix i t t'
  assume "hw_step env i t = Some t'" and p: "only_bound (shim_init env hw_initial) t"
  then obtain f args r where "call_export env f args t = Some (r, t')"
    by (cases i) (auto simp: hw_step_def)
  from only_bound_trans [OF p call_export_only_bound [OF this]]
  show "only_bound (shim_init env hw_initial) t'" .
qed simp

text \<open>The names under which the library exports its functions (\<open>visibility("default")\<close>), in the
  order of their definitions; the stock blob has to export the function under the same name.\<close>

definition exported_name :: "hw_symbol \<Rightarrow> string" where
  "exported_name f = (case f of
     Real_wifi_set_mode \<Rightarrow> ''wifi_set_mode''
   | Real_wifi_start_supplicant \<Rightarrow> ''wifi_start_supplicant''
   | Real_wifi_stop_supplicant \<Rightarrow> ''wifi_stop_supplicant''
   | Real_wifi_connect_to_supplicant \<Rightarrow> ''wifi_connect_to_supplicant''
   | Real_wifi_close_supplicant_connection \<Rightarrow> ''wifi_close_supplicant_connection''
   | Real_wifi_wait_for_event \<Rightarrow> ''wifi_wait_for_event''
   | Real_wifi_command \<Rightarrow> ''wifi_command''
   | Real_wifi_send_command \<Rightarrow> ''wifi_send_command''
   | Real_wifi_supplicant_connection_active \<Rightarrow> ''wifi_supplicant_connection_active''
   | Real_is_wifi_driver_loaded \<Rightarrow> ''is_wifi_driver_loaded''
   | Real_wifi_load_driver \<Rightarrow> ''wifi_load_driver''
   | Real_wifi_unload_driver \<Rightarrow> ''wifi_unload_driver''
   | Real_wifi_enable \<Rightarrow> ''wifi_enable''
   | Real_wifi_disable \<Rightarrow> ''wifi_disable''
   | Real_wifi_get_mac_addr \<Rightarrow> ''wifi_get_mac_addr''
   | Real_wifi_get_fwstate \<Rightarrow> ''wifi_get_fwstate''
   | Real_wifi_get_fw_path \<Rightarrow> ''wifi_get_fw_path''
   | Real_wifi_change_fw_path \<Rightarrow> ''wifi_change_fw_path''
   | Real_wifi_set_drvarg \<Rightarrow> ''wifi_set_drvarg''
   | Real_wifi_set_drv_arg \<Rightarrow> ''wifi_set_drv_arg''
   | Real_wifi_set_svc_args \<Rightarrow> ''wifi_set_svc_args''
   | Real_wifi_set_scanning_enabled \<Rightarrow> ''wifi_set_scanning_enabled''
   | Real_wifi_get_scanning_enabled \<Rightarrow> ''wifi_get_scanning_enabled''
   | Real_wifi_set_scanning_always_enabled \<Rightarrow> ''wifi_set_scanning_always_enabled''
   | Real_wifi_get_scanning_always_enabled \<Rightarrow> ''wifi_get_scanning_always_enabled''
   | Real_wifi_set_scan_interval \<Rightarrow> ''wifi_set_scan_interval''
   | Real_wifi_get_scan_interval \<Rightarrow> ''wifi_get_scan_interval''
   | Real_wifi_set_fast_scan \<Rightarrow> ''wifi_set_fast_scan''
   | Real_wifi_get_fast_scan \<Rightarrow> ''wifi_get_fast_scan''
   | Real_wifi_set_band \<Rightarrow> ''wifi_set_band''
   | Real_wifi_get_band \<Rightarrow> ''wifi_get_band''
   | Real_wifi_set_country_code \<Rightarrow> ''wifi_set_country_code''
   | Real_wifi_get_country_code \<Rightarrow> ''wifi_get_country_code''
   | Real_wifi_set_p2p_listen_interval \<Rightarrow> ''wifi_set_p2p_listen_interval''
   | Real_wifi_set_p2p_device_name \<Rightarrow> ''wifi_set_p2p_device_name''
   | Real_wifi_get_p2p_device_name \<Rightarrow> ''wifi_get_p2p_device_name''
   | Real_wifi_set_p2p_ssid \<Rightarrow> ''wifi_set_p2p_ssid''
   | Real_wifi_get_p2p_ssid \<Rightarrow> ''wifi_get_p2p_ssid''
   | Real_wifi_set_p2p_wps_config \<Rightarrow> ''wifi_set_p2p_wps_config''
   | Real_wifi_get_p2p_wps_config \<Rightarrow> ''wifi_get_p2p_wps_config''
   | Real_wifi_set_p2p_go_intent \<Rightarrow> ''wifi_set_p2p_go_intent''
   | Real_wifi_get_p2p_go_intent \<Rightarrow> ''wifi_get_p2p_go_intent''
   | Real_wifi_set_p2p_listen_reg_class \<Rightarrow> ''wifi_set_p2p_listen_reg_class''
   | Real_wifi_get_p2p_listen_reg_class \<Rightarrow> ''wifi_get_p2p_listen_reg_class''
   | Real_wifi_set_p2p_oper_reg_class \<Rightarrow> ''wifi_set_p2p_oper_reg_class''
   | Real_wifi_get_p2p_oper_reg_class \<Rightarrow> ''wifi_get_p2p_oper_reg_class''
   | Real_wifi_set_p2p_oper_channel \<Rightarrow> ''wifi_set_p2p_oper_channel''
   | Real_wifi_get_p2p_oper_channel \<Rightarrow> ''wifi_get_p2p_oper_channel''
   | Real_wifi_set_p2p_go_negotiation_delay \<Rightarrow> ''wifi_set_p2p_go_negotiation_delay''
   | Real_wifi_get_p2p_go_negotiation_delay \<Rightarrow> ''wifi_get_p2p_go_negotiation_delay''
   | Real_wifi_set_ap_interface \<Rightarrow> ''wifi_set_ap_interface''
   | Real_wifi_get_ap_interface \<Rightarrow> ''wifi_get_ap_interface''
   | Real_wifi_set_ap_mac \<Rightarrow> ''wifi_set_ap_mac''
   | Real_wifi_get_ap_mac \<Rightarrow> ''wifi_get_ap_mac''
   | Real_wifi_set_nvram \<Rightarrow> ''wifi_set_nvram''
   | Real_wifi_get_nvram \<Rightarrow> ''wifi_get_nvram''
   | Real_wifi_set_supplicant_log_level \<Rightarrow> ''wifi_set_supplicant_log_level''
   | Real_wifi_get_supplicant_log_level \<Rightarrow> ''wifi_get_supplicant_log_level''
   | Real_ensure_entropy_file_exists \<Rightarrow> ''ensure_entropy_file_exists''
   | Real_ensure_config_file_exists \<Rightarrow> ''ensure_config_file_exists''
   | Real_bt_set_drvarg \<Rightarrow> ''bt_set_drvarg''
   | Real_bt_set_drv_arg \<Rightarrow> ''bt_set_drv_arg''
   | Real_setDbg \<Rightarrow> ''setDbg'')"

lemma symbol_table_exported: "list_all (\<lambda>(f, name). exported_name f = name) symbol_table"
  by (simp add: symbol_table_def exported_name_def)

lemma symbol_name_exported: "symbol_name f = exported_name f"
  using map_of_SomeD [OF map_of_symbol_table [of f]] symbol_table_exported
  by (fastforce simp: list_all_iff)

text \<open>The address at which the linker finds a name in the stock blob, if it loads one.\<close>

definition in_blob :: "hw_env \<Rightarrow> string \<Rightarrow> nat option" where
  "in_blob env name = (case ld_open env of None \<Rightarrow> None | Some h \<Rightarrow> ld_sym env h name)"

lemma hw_loaded_real: "hw_loaded env is = Some s \<Longrightarrow> real s f = in_blob env (exported_name f)"
  using hw_loaded_only_bound [of env "is" s]
  by (simp add: only_bound_def shim_init_real in_blob_def hw_initial_def symbol_name_exported
      split: option.split)

lemma fold_GET_REAL_FUNC_trace:
  "hw_trace (fold (GET_REAL_FUNC env h) tbl s) = hw_trace s @ map (\<lambda>e. Dlsym (snd e)) tbl"
proof (induction tbl arbitrary: s)
  case (Cons e tbl)
  have "hw_trace (GET_REAL_FUNC env h e s) = hw_trace s @ [Dlsym (snd e)]"
    by (simp add: GET_REAL_FUNC_def split_beta)
  with Cons show ?case by simp
qed simp

lemma shim_init_no_call: "Call p args \<notin> set (hw_trace (shim_init env hw_initial))"
  by (auto simp: shim_init_def Let_def hw_initial_def fold_GET_REAL_FUNC_trace split: option.split)

subsection \<open>A concrete blob\<close>

text \<open>It has the mode, stop and driver functions, at the addresses 10 to 13, and no others.\<close>

definition demo_blob :: hw_env where
  "demo_blob = \<lparr>ld_open = Some 1,
     ld_sym = (\<lambda>h name. map_of [(''wifi_stop_supplicant'', 10), (''is_wifi_driver_loaded'', 11),
        (''wifi_get_fw_path'', 12), (''wifi_start_supplicant'', 13)] name),
     call_int = (\<lambda>t p args. 1), call_ptr = (\<lambda>t p args. 77)\<rparr>"

lemma demo_blob_functions [simp]:
  "in_blob demo_blob ''wifi_stop_supplicant'' = Some 10"
  "in_blob demo_blob ''is_wifi_driver_loaded'' = Some 11"
  "in_blob demo_blob ''wifi_supplicant_connection_active'' = None"
  "in_blob demo_blob ''wifi_get_fw_path'' = Some 12"
  "in_blob demo_blob ''wifi_start_supplicant'' = Some 13"
  by (simp_all add: in_blob_def demo_blob_def)

lemma demo_blob_calls [simp]: "call_int demo_blob t p a = 1" "call_ptr demo_blob t p a = 77"
  by (simp_all add: demo_blob_def)

lemma hw_loaded_Nil: "hw_loaded env [] = Some (shim_init env hw_initial)"
  by (simp add: hw_loaded_def)

subsection \<open>Properties\<close>

text \<open>The arguments that the shim passes on: the caller's own, but for the mode of
  \<open>wifi_start_supplicant\<close>, which becomes the vendor's.\<close>

definition passed_on :: "hw_symbol \<Rightarrow> carg list \<Rightarrow> carg list" where
  "passed_on f args = (if f = Real_wifi_start_supplicant
     then map (\<lambda>a. if a = CInt 0 then CInt 0 else CInt 2) args else args)"

lemma call_export_start:
  "call_export env Real_wifi_start_supplicant [CInt m] s =
     Some (case real s Real_wifi_start_supplicant of
        None \<Rightarrow> (RInt (- 1), s)
      | Some p \<Rightarrow> (let args = [CInt (if m = 0 then 0 else 2)]
          in (RInt (call_int env (hw_trace s) p args), s\<lparr>hw_trace := hw_trace s @ [Call p args]\<rparr>)))"
  by (simp add: call_export_def wifi_start_supplicant_def forward_int_def call_real_int_def Let_def
      map_p2p_supported_to_vendor_mode_def split: option.split)

text \<open>C12. Faithful forwarding: once the shim is loaded and after any calls, every exported function
  but \<open>wifi_stop_supplicant\<close> (which has a property of its own), called with arguments of its
  declared types, calls the function that the blob exports under the same name exactly once and
  returns its answer; the arguments are the caller's own, except that \<open>wifi_start_supplicant\<close>
  passes 2 for a p2p request and 0 otherwise. Where the blob is missing or has no such function,
  nothing is called, nothing changes and the caller gets the default of the function.\<close>
theorem hw_forwards:
  assumes "hw_loaded env is = Some s" and "map ctype_of args = signature f"
    and "f \<noteq> Real_wifi_stop_supplicant"
  shows "call_export env f args s = Some (case in_blob env (exported_name f) of
      None \<Rightarrow> (fallback f, s)
    | Some p \<Rightarrow> (answer env f p (passed_on f args) s,
        s\<lparr>hw_trace := hw_trace s @ [Call p (passed_on f args)]\<rparr>))"
proof (cases "f = Real_wifi_start_supplicant")
  case True
  with assms(2) obtain m where "args = [CInt m]" by (auto simp: signature_def map_eq_Cons_conv)
  with True show ?thesis
    by (auto simp: call_export_start hw_loaded_real [OF assms(1)] passed_on_def fallback_def
        answer_def Let_def split: option.split)
next
  case False
  with call_export_plain [OF assms(2) False assms(3)] show ?thesis
    by (simp add: hw_loaded_real [OF assms(1)] passed_on_def split: option.split)
qed

theorem hw_forwards_witness:
  "\<exists>s. hw_loaded demo_blob [] = Some s \<and>
     call_export demo_blob Real_wifi_get_fw_path [CInt 2] s =
       Some (RPtr 77, s\<lparr>hw_trace := hw_trace s @ [Call 12 [CInt 2]]\<rparr>) \<and>
     call_export demo_blob Real_wifi_start_supplicant [CInt 5] s =
       Some (RInt 1, s\<lparr>hw_trace := hw_trace s @ [Call 13 [CInt 2]]\<rparr>)"
proof -
  have ty: "map ctype_of [CInt i] = signature Real_wifi_get_fw_path"
    "map ctype_of [CInt i] = signature Real_wifi_start_supplicant" for i
    by (simp_all add: signature_def)
  from hw_forwards [OF hw_loaded_Nil [of demo_blob] ty(1), of 2]
    hw_forwards [OF hw_loaded_Nil [of demo_blob] ty(2), of 5]
  show ?thesis by (simp add: hw_loaded_Nil answer_def exported_name_def passed_on_def)
qed

text \<open>C33. No null and no mistyped call: once loaded, every run of calls from outside only calls
  addresses that the dynamic linker returned for one of the shim's symbols, and with arguments
  of that symbol's declared types; with no blob it calls nothing.\<close>
theorem hw_calls_resolved:
  assumes "hw_loaded env is = Some s" and "Call p args \<in> set (hw_trace s)"
  shows "\<exists>h f. ld_open env = Some h \<and> ld_sym env h (symbol_name f) = Some p \<and>
     map ctype_of args = signature f"
proof -
  from hw_loaded_only_bound [OF assms(1)] obtain evs where
    "hw_trace s = hw_trace (shim_init env hw_initial) @ evs"
    "\<forall>ev \<in> set evs. bound_call (shim_init env hw_initial) ev" by (auto simp: only_bound_def)
  with assms(2) shim_init_no_call have "bound_call (shim_init env hw_initial) (Call p args)" by auto
  then show ?thesis
    by (auto simp: bound_call_def shim_init_real hw_initial_def split: option.splits)
qed

theorem hw_calls_resolved_witness:
  "\<exists>s h f. hw_loaded demo_blob [(Real_wifi_get_fw_path, [CInt 2])] = Some s \<and>
     Call 12 [CInt 2] \<in> set (hw_trace s) \<and> ld_sym demo_blob h (symbol_name f) = Some 12"
proof -
  let ?s = "shim_init demo_blob hw_initial"
  have ty: "map ctype_of [CInt 2] = signature Real_wifi_get_fw_path" by (simp add: signature_def)
  have r: "real ?s Real_wifi_get_fw_path = Some 12"
    by (simp add: hw_loaded_real [OF hw_loaded_Nil] exported_name_def)
  have l: "hw_loaded demo_blob [(Real_wifi_get_fw_path, [CInt 2])] =
      Some (?s\<lparr>hw_trace := hw_trace ?s @ [Call 12 [CInt 2]]\<rparr>)"
    using call_export_plain [OF ty, of demo_blob ?s] r by (simp add: hw_loaded_def hw_step_def)
  from hw_calls_resolved [OF l, of 12 "[CInt 2]"] l show ?thesis by auto
qed

text \<open>What is put to the blob when the shim asks a function without arguments, and whether the
  answer is no; a function that the blob lacks is not asked and denies nothing.\<close>

definition asked :: "hw_env \<Rightarrow> string \<Rightarrow> hw_event list" where
  "asked env name = (case in_blob env name of None \<Rightarrow> [] | Some p \<Rightarrow> [Call p []])"

definition says_no :: "hw_env \<Rightarrow> string \<Rightarrow> hw_event list \<Rightarrow> bool" where
  "says_no env name t = (case in_blob env name of None \<Rightarrow> False | Some p \<Rightarrow> call_int env t p [] = 0)"

lemma denies_loaded:
  assumes "\<And>g. real s g = in_blob env (exported_name g)"
  shows "denies env f s =
    (says_no env (exported_name f) (hw_trace s), s\<lparr>hw_trace := hw_trace s @ asked env (exported_name f)\<rparr>)"
  by (simp add: denies_eq assms says_no_def asked_def split: option.split)

lemmas stop_names = exported_name_def [of Real_wifi_stop_supplicant, simplified]
  exported_name_def [of Real_is_wifi_driver_loaded, simplified]
  exported_name_def [of Real_wifi_supplicant_connection_active, simplified]

text \<open>C30. The supplicant is stopped only when it may be. After any calls: a blob without
  \<open>wifi_stop_supplicant\<close> is not called and the result is 0. Otherwise it is asked, if it can
  answer, whether the driver is loaded and then whether the connection is active; the first no
  ends the call with result 0 and no stop. If neither is denied, stop is called last, once, with 2
  for a p2p request and 0 otherwise, and its answer is returned. A function that the blob lacks
  counts as a yes.\<close>
theorem hw_stop_guarded:
  assumes "hw_loaded env is = Some s" and "wifi_stop_supplicant env p2p s = (r, s')"
  shows "let t0 = hw_trace s;
      t1 = t0 @ asked env ''is_wifi_driver_loaded'';
      t2 = t1 @ asked env ''wifi_supplicant_connection_active'';
      mode = [CInt (if p2p = 0 then 0 else 2)]
    in case in_blob env ''wifi_stop_supplicant'' of
         None \<Rightarrow> r = 0 \<and> hw_trace s' = t0
       | Some stop \<Rightarrow>
           if says_no env ''is_wifi_driver_loaded'' t0 then r = 0 \<and> hw_trace s' = t1
           else if says_no env ''wifi_supplicant_connection_active'' t1 then r = 0 \<and> hw_trace s' = t2
           else r = call_int env t2 stop mode \<and> hw_trace s' = t2 @ [Call stop mode]"
proof -
  note real = hw_loaded_real [OF assms(1)]
  show ?thesis
    using assms(2)
    by (auto simp: wifi_stop_supplicant_def real denies_loaded stop_names call_real_int_def Let_def
        map_p2p_supported_to_vendor_mode_def split: option.splits if_splits)
qed

theorem hw_stop_guarded_witness:
  "\<exists>s r s'. hw_loaded demo_blob [] = Some s \<and> wifi_stop_supplicant demo_blob 3 s = (r, s') \<and>
     r = 1 \<and> hw_trace s' = hw_trace s @ [Call 11 [], Call 10 [CInt 2]]"
proof -
  let ?s = "shim_init demo_blob hw_initial"
  obtain r s' where r: "wifi_stop_supplicant demo_blob 3 ?s = (r, s')" by fastforce
  from hw_stop_guarded [OF hw_loaded_Nil [of demo_blob] r] r show ?thesis
    by (simp add: hw_loaded_Nil asked_def says_no_def)
qed

end
