(* ===== verification/Wifi_Buffer.thy ===== *)
theory Wifi_Buffer
  imports CString
begin

section \<open>Buffers of the Wi-Fi drivers\<close>

text \<open>
  The drivers build packets in arrays on the stack with \<open>buf[bp++] = c\<close> and hand blocks of
  memory to the kernel. A cell of an array that was never written is \<open>None\<close>; a write behind
  the end of an array makes the operation undefined. Appending to a list with a limit is the
  abstraction of the write position, and the lemma \<open>puts_cursor\<close> the refinement.
\<close>

type_synonym cell = "char option"

subsection \<open>Writing at a position\<close>

text \<open>\<open>buf[bp++] = c\<close>, and the same for a sequence (\<open>os_memcpy (&buf[bp], cs, n); bp += n\<close>).\<close>

definition put :: "char \<Rightarrow> nat \<times> cell list \<Rightarrow> (nat \<times> cell list) option" where
  "put c = (\<lambda>(bp, b). if bp < length b then Some (Suc bp, b[bp := Some c]) else None)"

fun puts :: "string \<Rightarrow> nat \<times> cell list \<Rightarrow> (nat \<times> cell list) option" where
  "puts [] w = Some w"
| "puts (c # cs) w = (case put c w of None \<Rightarrow> None | Some w' \<Rightarrow> puts cs w')"

lemma puts_append: "puts (xs @ ys) w = Option.bind (puts xs w) (puts ys)"
  by (induction xs arbitrary: w) (auto split: option.split)

text \<open>A buffer whose first cells hold a string and whose others are as they were.\<close>

definition cursor :: "string \<Rightarrow> cell list \<Rightarrow> nat \<times> cell list" where
  "cursor xs b = (length xs, map Some xs @ drop (length xs) b)"

lemma put_cursor:
  assumes "length xs \<le> length b"
  shows "put c (cursor xs b) = (if Suc (length xs) \<le> length b then Some (cursor (xs @ [c]) b) else None)"
proof (cases "Suc (length xs) \<le> length b")
  case True
  then have "drop (length xs) b = b ! length xs # drop (Suc (length xs)) b"
    by (simp add: Cons_nth_drop_Suc)
  with True show ?thesis by (simp add: put_def cursor_def list_update_append)
next
  case False
  with assms show ?thesis by (simp add: put_def cursor_def)
qed

lemma puts_cursor:
  assumes "length xs \<le> length b"
  shows "puts cs (cursor xs b) =
    (if length xs + length cs \<le> length b then Some (cursor (xs @ cs) b) else None)"
  using assms
proof (induction cs arbitrary: xs)
  case Nil
  then show ?case by simp
next
  case (Cons c cs)
  show ?case
  proof (cases "Suc (length xs) \<le> length b")
    case True
    with Cons.IH [of "xs @ [c]"] Cons.prems show ?thesis by (simp add: put_cursor)
  next
    case False
    with Cons.prems show ?thesis by (simp add: put_cursor)
  qed
qed

lemma put_puts: "put c w = puts [c] w"
  by (simp split: option.split)

lemma length_put: "put c w = Some w' \<Longrightarrow> length (snd w') = length (snd w)"
  by (cases w) (auto simp: put_def split: if_splits)

lemma cursor_Nil [simp]: "cursor [] b = (0, b)"
  by (simp add: cursor_def)

lemma length_cursor [simp]: "length xs \<le> length b \<Longrightarrow> length (snd (cursor xs b)) = length b"
  by (simp add: cursor_def)

subsection \<open>Strings and blocks in memory\<close>

text \<open>The C string at the start of a block, if it is terminated inside it.\<close>

fun cstr :: "cell list \<Rightarrow> string option" where
  "cstr [] = None"
| "cstr (None # b) = None"
| "cstr (Some c # b) = (if c = CHR 0x00 then Some [] else map_option (Cons c) (cstr b))"

definition no_nul :: "string \<Rightarrow> bool" where
  "no_nul s \<longleftrightarrow> CHR 0x00 \<notin> set s"

lemma cstr_terminated [simp]:
  "no_nul s \<Longrightarrow> cstr (map Some s @ Some (CHR 0x00) # b) = Some s"
  by (induction s) (auto simp: no_nul_def)

lemma cstr_SomeD: "cstr b = Some s \<Longrightarrow> no_nul s \<and> (\<exists>r. b = map Some s @ Some (CHR 0x00) # r)"
proof (induction b arbitrary: s rule: cstr.induct)
  case (3 c b)
  show ?case
  proof (cases "c = CHR 0x00")
    case True
    with 3 show ?thesis by (auto simp: no_nul_def)
  next
    case False
    with 3 obtain t where t: "cstr b = Some t" "s = c # t" by auto
    with 3(1) [OF False t(1)] False show ?thesis by (auto simp: no_nul_def)
  qed
qed auto

text \<open>\<open>os_memcpy\<close> to the start of a block.\<close>

definition blit :: "string \<Rightarrow> cell list \<Rightarrow> cell list option" where
  "blit cs b = (if length cs \<le> length b then Some (map Some cs @ drop (length cs) b) else None)"

text \<open>\<open>snprintf (buf, n, ...)\<close>: the text cut to fit, its terminator, the length of the whole text.\<close>

definition snprintf :: "nat \<Rightarrow> string \<Rightarrow> cell list \<Rightarrow> (int \<times> cell list) option" where
  "snprintf n txt b =
     (if n = 0 then Some (int (length txt), b)
      else map_option (\<lambda>b'. (int (length txt), b')) (blit (take (n - 1) txt @ [CHR 0x00]) b))"

lemma blit_same:
  "cstr b = Some s \<Longrightarrow> blit (s @ [CHR 0x00]) b = Some b"
  by (drule cstr_SomeD) (auto simp: blit_def)

text \<open>
  What the kernel writes back into a block of \<open>n\<close> bytes that it was given: at most \<open>n\<close> bytes.
\<close>

definition kernel_reply :: "string \<Rightarrow> nat \<Rightarrow> cell list \<Rightarrow> cell list option" where
  "kernel_reply reply n b = blit (take n reply) b"

text \<open>\<open>os_strncpy (ifr_name, ifname, IFNAMSIZ)\<close>: without its padding.\<close>

definition IFNAMSIZ :: nat where "IFNAMSIZ = 16"

definition ifr_name :: "string \<Rightarrow> string" where
  "ifr_name ifname = take IFNAMSIZ ifname"

subsection \<open>Counting errors\<close>

text \<open>
  Both drivers count failures in a row and report the driver as hung when a limit is
  exceeded, starting over then. The laws are those of one failure; the lemma is about a
  series.
\<close>

locale hang_counter =
  fixes errors :: "'s \<Rightarrow> int"
    and hangs :: "'s \<Rightarrow> nat"
    and failure :: "'s \<Rightarrow> 's \<Rightarrow> bool"
    and limit :: int
  assumes errors_failure: "failure s s' \<Longrightarrow> errors s' = (if errors s + 1 > limit then 0 else errors s + 1)"
    and hangs_failure: "failure s s' \<Longrightarrow> hangs s' = (if errors s + 1 > limit then hangs s + 1 else hangs s)"
begin

lemma bounded:
  "0 \<le> limit \<Longrightarrow> 0 \<le> errors s \<Longrightarrow> failure s s' \<Longrightarrow> 0 \<le> errors s' \<and> errors s' \<le> limit"
  by (simp add: errors_failure)

lemma series:
  assumes limit_nonneg: "0 \<le> limit" and "errors s = 0"
  shows "(failure ^^ n) s s' \<Longrightarrow> errors s' = int n mod (limit + 1) \<and>
    int (hangs s') = int (hangs s) + int n div (limit + 1)"
proof (induction n arbitrary: s')
  case 0
  with assms show ?case by simp
next
  case (Suc n)
  then obtain t where f: "failure t s'" and IH: "errors t = int n mod (limit + 1)"
    "int (hangs t) = int (hangs s) + int n div (limit + 1)" by auto
  let ?m = "limit + 1"
  have m: "0 < ?m" using limit_nonneg by simp
  have lt: "int n mod ?m < ?m" and ge: "0 \<le> int n mod ?m"
    using pos_mod_bound [OF m] pos_mod_sign [OF m] by blast+
  show ?case
  proof (cases "int n mod ?m + 1 > limit")
    case True
    with lt have "int n mod ?m = limit" by simp
    then have "int (Suc n) = (int n div ?m + 1) * ?m"
      using div_mult_mod_eq [of "int n" ?m] by (simp add: algebra_simps)
    then have "int (Suc n) mod ?m = 0" "int (Suc n) div ?m = int n div ?m + 1"
      using m by simp_all
    with IH f True show ?thesis by (simp add: errors_failure hangs_failure)
  next
    case False
    then have r: "int n mod ?m + 1 < ?m" by simp
    have e: "int (Suc n) = ?m * (int n div ?m) + (int n mod ?m + 1)"
      using mult_div_mod_eq [of ?m "int n"] by simp
    have "int (Suc n) mod ?m = int n mod ?m + 1"
      by (rule int_mod_pos_eq [OF e _ r]) (use ge in simp)
    moreover have "int (Suc n) div ?m = int n div ?m"
      by (rule int_div_pos_eq [OF e _ r]) (use ge in simp)
    ultimately show ?thesis using IH f False by (simp add: errors_failure hangs_failure)
  qed
qed

end

end
