(* ===== verification/Bgscan.thy ===== *)
theory Bgscan
  imports Wifi_Buffer
begin

section \<open>The background scan command\<close>

text \<open>
  \<open>wpa_driver_set_backgroundscan_params\<close> of \<open>wlan/driver_cmd_nl80211.c\<close>, up to the ioctl: the
  options of a \<open>BGSCAN-START\<close> command and the configured networks are packed into a buffer of
  720 bytes. The buffer is not initialised and the writes are not checked.
\<close>

definition NL80211_BGSCAN_HEADER :: string where "NL80211_BGSCAN_HEADER = ''BGSCAN-CONFIG ''"
definition NL80211_BGSCAN_HEADER_SIZE :: nat where "NL80211_BGSCAN_HEADER_SIZE = 14"
definition NL80211_SSID_AMOUNT :: nat where "NL80211_SSID_AMOUNT = 16"
definition NL80211_BGCAN_BUF_LEN :: nat where "NL80211_BGCAN_BUF_LEN = 720"
definition NL80211_CSCAN_SSID_SECTION :: char where "NL80211_CSCAN_SSID_SECTION = CHR ''S''"
definition NL80211_SSID_MAX_SIZE :: nat where "NL80211_SSID_MAX_SIZE = 32"
definition NL80211_BGSCAN_RSSI_SECTION :: char where "NL80211_BGSCAN_RSSI_SECTION = CHR ''R''"
definition NL80211_BGSCAN_INTERVAL_SECTION :: char where "NL80211_BGSCAN_INTERVAL_SECTION = CHR ''T''"
definition NL80211_BGSCAN_INTERVAL_DEF :: int where "NL80211_BGSCAN_INTERVAL_DEF = 30"
definition NL80211_BGSCAN_REPEAT_SECTION :: char where "NL80211_BGSCAN_REPEAT_SECTION = CHR ''E''"
definition NL80211_BGSCAN_REPEAT_DEF :: int where "NL80211_BGSCAN_REPEAT_DEF = 5"

lemmas bgscan_consts = NL80211_BGSCAN_HEADER_def NL80211_BGSCAN_HEADER_SIZE_def
  NL80211_SSID_AMOUNT_def NL80211_BGCAN_BUF_LEN_def NL80211_CSCAN_SSID_SECTION_def
  NL80211_SSID_MAX_SIZE_def NL80211_BGSCAN_RSSI_SECTION_def NL80211_BGSCAN_INTERVAL_SECTION_def
  NL80211_BGSCAN_INTERVAL_DEF_def NL80211_BGSCAN_REPEAT_SECTION_def NL80211_BGSCAN_REPEAT_DEF_def

text \<open>A configured network; \<open>ssid_len\<close> is the length of \<open>ssid\<close>.\<close>

record wpa_ssid =
  disabled :: bool
  ssid :: string

text \<open>\<open>getop\<close>: the token, the position that \<open>strtok\<close> keeps and \<open>first_time\<close> afterwards.\<close>

definition getop_delim :: string where
  "getop_delim = [CHR '' '', CHR 0x09, CHR 0x0A]"

definition getop :: "string \<Rightarrow> string \<Rightarrow> bool \<Rightarrow> string option \<times> string \<times> bool" where
  "getop s saved first_time =
     (if first_time then (let (p, saved) = strtok getop_delim s in (p, saved, False))
      else (let (p, saved) = strtok getop_delim saved in (p, saved, False)))"

record bg_state =
  bg_w :: "nat \<times> cell list"
  bg_i :: nat
  find_ssid :: bool
  find_interval :: bool
  find_repeat :: bool

text \<open>The body of the loop over the options.\<close>

definition bg_option :: "string \<Rightarrow> bg_state \<Rightarrow> bg_state option" where
  "bg_option opstr st =
     (case strstr opstr ''SSID='' of
        Some ptr \<Rightarrow>
          (let ptr = drop 5 ptr in do {
             w \<leftarrow> put NL80211_CSCAN_SSID_SECTION (bg_w st);
             w \<leftarrow> put (char_of (length ptr)) w;
             w \<leftarrow> puts ptr w;
             Some (st\<lparr>bg_i := bg_i st + 1, find_ssid := True, bg_w := w\<rparr>) })
      | None \<Rightarrow>
     (case strstr opstr ''RSSI='' of
        Some ptr \<Rightarrow>
          (let ptr = drop 5 ptr in do {
             w \<leftarrow> put NL80211_BGSCAN_RSSI_SECTION (bg_w st);
             w \<leftarrow> put (char_of (atoi ptr)) w;
             Some (st\<lparr>bg_w := w\<rparr>) })
      | None \<Rightarrow>
     (case strstr opstr ''INTERVAL='' of
        Some ptr \<Rightarrow>
          (let ptr = drop 9 ptr in do {
             w \<leftarrow> put NL80211_BGSCAN_INTERVAL_SECTION (bg_w st);
             w \<leftarrow> put (char_of (atoi ptr)) w;
             w \<leftarrow> put (char_of (drop_bit 8 (atoi ptr))) w;
             Some (st\<lparr>find_interval := True, bg_w := w\<rparr>) })
      | None \<Rightarrow>
     (case strstr opstr ''REPEAT='' of
        Some ptr \<Rightarrow>
          (let ptr = drop 7 ptr in do {
             w \<leftarrow> put NL80211_BGSCAN_REPEAT_SECTION (bg_w st);
             w \<leftarrow> put (char_of (atoi ptr)) w;
             Some (st\<lparr>find_repeat := True, bg_w := w\<rparr>) })
      | None \<Rightarrow> Some st))))"

function bg_options :: "string \<Rightarrow> bg_state \<Rightarrow> bg_state option" where
  "bg_options saved st =
     (case strtok getop_delim saved of
        (None, _) \<Rightarrow> Some st
      | (Some opstr, saved') \<Rightarrow>
          (case bg_option opstr st of
             None \<Rightarrow> None
           | Some st' \<Rightarrow> bg_options saved' st'))"
  by pat_completeness auto
termination
  by (relation "measure (\<lambda>(saved, st). length saved)") (auto dest: strtok_shrinks(2) [OF sym])

declare bg_options.simps [simp del]

text \<open>The loop over the configured networks.\<close>

fun bg_networks :: "wpa_ssid list \<Rightarrow> bg_state \<Rightarrow> bg_state option" where
  "bg_networks [] st = Some st"
| "bg_networks (c # ssid_conf) st =
     (if bg_i st < NL80211_SSID_AMOUNT then
        (if \<not> disabled c \<and> length (ssid c) \<le> NL80211_SSID_MAX_SIZE then
           (case (do { w \<leftarrow> put NL80211_CSCAN_SSID_SECTION (bg_w st);
                       w \<leftarrow> put (char_of (length (ssid c))) w;
                       w \<leftarrow> puts (ssid c) w;
                       Some (st\<lparr>bg_w := w, bg_i := bg_i st + 1\<rparr>) }) of
              None \<Rightarrow> None
            | Some st' \<Rightarrow> bg_networks ssid_conf st')
         else bg_networks ssid_conf st)
      else Some st)"

definition bg_build :: "string \<Rightarrow> wpa_ssid list \<Rightarrow> (nat \<times> cell list) option" where
  "bg_build cmd ssid_conf = do {
     w \<leftarrow> puts (take NL80211_BGSCAN_HEADER_SIZE NL80211_BGSCAN_HEADER) (0, replicate NL80211_BGCAN_BUF_LEN None);
     let (_, saved, first_time) = getop cmd [] True;
     st \<leftarrow> bg_options saved \<lparr>bg_w = w, bg_i = 0, find_ssid = False, find_interval = False, find_repeat = False\<rparr>;
     st \<leftarrow> (if \<not> find_ssid st then bg_networks ssid_conf st else Some st);
     w \<leftarrow> (if \<not> find_interval st
           then puts [NL80211_BGSCAN_INTERVAL_SECTION, char_of NL80211_BGSCAN_INTERVAL_DEF,
                  char_of (drop_bit 8 NL80211_BGSCAN_INTERVAL_DEF)] (bg_w st)
           else Some (bg_w st));
     (if \<not> find_repeat st
      then puts [NL80211_BGSCAN_REPEAT_SECTION, char_of NL80211_BGSCAN_REPEAT_DEF] w
      else Some w)
   }"

subsection \<open>The packet that it means\<close>

text \<open>
  The reference: the command's tokens after the first, the section of each, and the defaults.
\<close>

function tokens :: "string \<Rightarrow> string list" where
  "tokens s = (case strtok getop_delim s of (None, _) \<Rightarrow> [] | (Some t, r) \<Rightarrow> t # tokens r)"
  by pat_completeness auto
termination
  by (relation "measure length") (auto dest: strtok_shrinks(2) [OF sym])

declare tokens.simps [simp del]

datatype bg_section =
    is_Ssid: Ssid string
  | is_Rssi: Rssi int
  | is_Interval: Interval int
  | is_Repeat: Repeat int

definition section_of :: "string \<Rightarrow> bg_section option" where
  "section_of t =
     (case strstr t ''SSID='' of Some p \<Rightarrow> Some (Ssid (drop 5 p)) | None \<Rightarrow>
      case strstr t ''RSSI='' of Some p \<Rightarrow> Some (Rssi (atoi (drop 5 p))) | None \<Rightarrow>
      case strstr t ''INTERVAL='' of Some p \<Rightarrow> Some (Interval (atoi (drop 9 p))) | None \<Rightarrow>
      case strstr t ''REPEAT='' of Some p \<Rightarrow> Some (Repeat (atoi (drop 7 p))) | None \<Rightarrow> None)"

fun section_bytes :: "bg_section \<Rightarrow> string" where
  "section_bytes (Ssid s) = CHR ''S'' # char_of (length s) # s"
| "section_bytes (Rssi n) = [CHR ''R'', char_of n]"
| "section_bytes (Interval n) = [CHR ''T'', char_of n, char_of (drop_bit 8 n)]"
| "section_bytes (Repeat n) = [CHR ''E'', char_of n]"

definition usable_network :: "wpa_ssid \<Rightarrow> bool" where
  "usable_network c \<longleftrightarrow> \<not> disabled c \<and> length (ssid c) \<le> 32"

definition bg_sections :: "string \<Rightarrow> wpa_ssid list \<Rightarrow> bg_section list" where
  "bg_sections cmd conf =
     (let opts = List.map_filter section_of (drop 1 (tokens cmd))
      in opts @
         (if \<exists>x \<in> set opts. is_Ssid x then []
          else map (\<lambda>c. Ssid (ssid c)) (take 16 (filter usable_network conf))) @
         (if \<exists>x \<in> set opts. is_Interval x then [] else [Interval 30]) @
         (if \<exists>x \<in> set opts. is_Repeat x then [] else [Repeat 5]))"

definition bg_packet :: "string \<Rightarrow> wpa_ssid list \<Rightarrow> string" where
  "bg_packet cmd conf = ''BGSCAN-CONFIG '' @ concat (map section_bytes (bg_sections cmd conf))"

subsection \<open>The code builds the packet\<close>

lemma puts_puts: "Option.bind (puts xs w) (\<lambda>w. Option.bind (puts ys w) f) = Option.bind (puts (xs @ ys) w) f"
  by (simp add: puts_append)

definition record_section :: "bg_section \<Rightarrow> bg_state \<Rightarrow> bg_state" where
  "record_section x st = st\<lparr>bg_i := bg_i st + (if is_Ssid x then 1 else 0),
     find_ssid := find_ssid st \<or> is_Ssid x, find_interval := find_interval st \<or> is_Interval x,
     find_repeat := find_repeat st \<or> is_Repeat x\<rparr>"

lemma bg_option_puts:
  "bg_option t st = (case section_of t of
     None \<Rightarrow> Some st
   | Some x \<Rightarrow> Option.bind (puts (section_bytes x) (bg_w st))
       (\<lambda>w. Some (record_section x st\<lparr>bg_w := w\<rparr>)))"
proof -
  note defs = bg_option_def section_of_def put_puts puts_puts record_section_def bgscan_consts Let_def
  consider (ssid) p where "strstr t ''SSID='' = Some p"
    | (rssi) p where "strstr t ''SSID='' = None" "strstr t ''RSSI='' = Some p"
    | (interval) p where "strstr t ''SSID='' = None" "strstr t ''RSSI='' = None"
        "strstr t ''INTERVAL='' = Some p"
    | (repeat) p where "strstr t ''SSID='' = None" "strstr t ''RSSI='' = None"
        "strstr t ''INTERVAL='' = None" "strstr t ''REPEAT='' = Some p"
    | (other) "strstr t ''SSID='' = None" "strstr t ''RSSI='' = None"
        "strstr t ''INTERVAL='' = None" "strstr t ''REPEAT='' = None"
    by (metis not_None_eq)
  then show ?thesis
    by cases (simp_all add: defs del: bind_Some_iff puts.simps)
qed

lemma bg_option_spec:
  assumes "bg_w st = cursor xs b" and "length xs \<le> length b"
  shows "bg_option t st = (case section_of t of
     None \<Rightarrow> Some st
   | Some x \<Rightarrow>
       if length xs + length (section_bytes x) \<le> length b
       then Some (record_section x st\<lparr>bg_w := cursor (xs @ section_bytes x) b\<rparr>) else None)"
  unfolding bg_option_puts assms(1) puts_cursor [OF assms(2)] by (simp split: option.split)

definition record_sections :: "bg_section list \<Rightarrow> bg_state \<Rightarrow> bg_state" where
  "record_sections xs st = fold record_section xs st"

lemma record_section_w [simp]:
  "bg_w (record_section x st) = bg_w st" "record_section x (st\<lparr>bg_w := w\<rparr>) = record_section x st\<lparr>bg_w := w\<rparr>"
  by (simp_all add: record_section_def)

lemma fold_record_w [simp]:
  "fold record_section xs (st\<lparr>bg_w := w\<rparr>) = fold record_section xs st\<lparr>bg_w := w\<rparr>"
  by (induction xs arbitrary: st) simp_all

lemma fold_record_flags:
  "find_ssid (fold record_section xs st) = (find_ssid st \<or> (\<exists>x \<in> set xs. is_Ssid x))"
  "find_interval (fold record_section xs st) = (find_interval st \<or> (\<exists>x \<in> set xs. is_Interval x))"
  "find_repeat (fold record_section xs st) = (find_repeat st \<or> (\<exists>x \<in> set xs. is_Repeat x))"
  "\<forall>x \<in> set xs. \<not> is_Ssid x \<Longrightarrow> bg_i (fold record_section xs st) = bg_i st"
  by (induction xs arbitrary: st) (auto simp: record_section_def)

text \<open>All sections of the tokens, if they fit.\<close>

definition section_string :: "bg_section list \<Rightarrow> string" where
  "section_string xs = concat (map section_bytes xs)"

lemma section_string_simps [simp]:
  "section_string [] = []" "section_string (x # xs) = section_bytes x @ section_string xs"
  "section_string (xs @ ys) = section_string xs @ section_string ys"
  by (simp_all add: section_string_def)

lemma bg_options_spec:
  assumes "bg_w st = cursor xs b" and "length xs \<le> length b"
  shows "bg_options saved st =
    (let secs = List.map_filter section_of (tokens saved)
     in if length xs + length (section_string secs) \<le> length b
        then Some (fold record_section secs st\<lparr>bg_w := cursor (xs @ section_string secs) b\<rparr>) else None)"
  using assms
proof (induction saved arbitrary: st xs rule: tokens.induct)
  case (1 saved)
  show ?case
  proof (cases "strtok getop_delim saved")
    case (Pair p rest)
    show ?thesis
    proof (cases p)
      case None
      with Pair 1(2,3) show ?thesis
        by (subst bg_options.simps, subst tokens.simps) (simp add: map_filter_simps)
    next
      case (Some t)
      note tok = Pair [unfolded Some]
      have opts: "bg_options saved st =
          (case bg_option t st of None \<Rightarrow> None | Some st' \<Rightarrow> bg_options rest st')"
        by (subst bg_options.simps) (simp add: tok)
      have toks: "tokens saved = t # tokens rest"
        by (subst tokens.simps) (simp add: tok)
      show ?thesis
      proof (cases "section_of t")
        case None
        with opts toks bg_option_spec [OF 1(2,3), of t] 1(1) [OF tok [symmetric] refl 1(2,3)]
        show ?thesis by (simp add: map_filter_simps)
      next
        case (Some x)
        show ?thesis
        proof (cases "length xs + length (section_bytes x) \<le> length b")
          case True
          let ?st = "record_section x st\<lparr>bg_w := cursor (xs @ section_bytes x) b\<rparr>"
          have "bg_options rest ?st =
            (let secs = List.map_filter section_of (tokens rest)
             in if length (xs @ section_bytes x) + length (section_string secs) \<le> length b
                then Some (fold record_section secs ?st\<lparr>bg_w := cursor ((xs @ section_bytes x) @ section_string secs) b\<rparr>)
                else None)"
            by (rule 1(1) [OF tok [symmetric] refl]) (use True in simp_all)
          with opts toks Some True bg_option_spec [OF 1(2,3), of t] show ?thesis
            by (simp add: map_filter_simps Let_def)
        next
          case False
          with opts toks Some bg_option_spec [OF 1(2,3), of t] show ?thesis
            by (simp add: map_filter_simps Let_def)
        qed
      qed
    qed
  qed
qed

lemma bg_networks_stop: "16 \<le> bg_i st \<Longrightarrow> bg_networks conf st = Some st"
  by (cases conf) (simp_all add: bgscan_consts)

lemma bg_networks_spec:
  assumes "bg_w st = cursor xs b" and "length xs \<le> length b" and "bg_i st \<le> 16"
  shows "Option.bind (bg_networks conf st) (\<lambda>st. Some (bg_w st, find_interval st, find_repeat st)) =
    (let secs = map (\<lambda>c. Ssid (ssid c)) (take (16 - bg_i st) (filter usable_network conf))
     in if length xs + length (section_string secs) \<le> length b
        then Some (cursor (xs @ section_string secs) b, find_interval st, find_repeat st) else None)"
  using assms
proof (induction conf arbitrary: st xs)
  case Nil
  then show ?case by simp
next
  case (Cons c conf)
  consider (full) "16 \<le> bg_i st" | (skip) "bg_i st < 16" "\<not> usable_network c"
    | (use) "bg_i st < 16" "usable_network c" by linarith
  then show ?case
  proof cases
    case full
    with Cons.prems show ?thesis by (simp add: bg_networks_stop del: bg_networks.simps bind_Some_iff)
  next
    case skip
    then have "bg_networks (c # conf) st = bg_networks conf st"
      by (auto simp: usable_network_def bgscan_consts)
    with skip Cons.IH [OF Cons.prems] show ?thesis by simp
  next
    case use
    let ?x = "Ssid (ssid c)"
    have step: "bg_networks (c # conf) st =
        (case Option.bind (puts (section_bytes ?x) (bg_w st)) (\<lambda>w. Some (st\<lparr>bg_w := w, bg_i := bg_i st + 1\<rparr>)) of
           None \<Rightarrow> None | Some st' \<Rightarrow> bg_networks conf st')"
      using use by (simp add: usable_network_def bgscan_consts put_puts puts_puts del: bind_Some_iff puts.simps)
    from use have tk: "take (16 - bg_i st) (c # filter usable_network conf) =
        c # take (16 - (bg_i st + 1)) (filter usable_network conf)"
      by (simp add: take_Cons')
    show ?thesis
    proof (cases "length xs + length (section_bytes ?x) \<le> length b")
      case True
      let ?st = "st\<lparr>bg_w := cursor (xs @ section_bytes ?x) b, bg_i := bg_i st + 1\<rparr>"
      have "bg_networks (c # conf) st = bg_networks conf ?st"
        unfolding step Cons.prems(1) puts_cursor [OF Cons.prems(2)] using True by simp
      with Cons.IH [of ?st "xs @ section_bytes ?x"] True use tk show ?thesis by (simp add: Let_def)
    next
      case False
      have "bg_networks (c # conf) st = None"
        unfolding step Cons.prems(1) puts_cursor [OF Cons.prems(2)] using False by simp
      with False use tk show ?thesis by (simp add: Let_def)
    qed
  qed
qed

definition bg_defaults :: "bool \<Rightarrow> bool \<Rightarrow> bg_section list" where
  "bg_defaults fi fr = (if fi then [] else [Interval 30]) @ (if fr then [] else [Repeat 5])"

definition bg_tail :: "(nat \<times> cell list) \<times> bool \<times> bool \<Rightarrow> (nat \<times> cell list) option" where
  "bg_tail = (\<lambda>(w, fi, fr). do {
     w \<leftarrow> (if \<not> fi
           then puts [NL80211_BGSCAN_INTERVAL_SECTION, char_of NL80211_BGSCAN_INTERVAL_DEF,
                  char_of (drop_bit 8 NL80211_BGSCAN_INTERVAL_DEF)] w
           else Some w);
     (if \<not> fr
      then puts [NL80211_BGSCAN_REPEAT_SECTION, char_of NL80211_BGSCAN_REPEAT_DEF] w
      else Some w)
   })"

lemma bg_tail_spec:
  assumes "length xs \<le> length b"
  shows "bg_tail (cursor xs b, fi, fr) =
    (if length xs + length (section_string (bg_defaults fi fr)) \<le> length b
     then Some (cursor (xs @ section_string (bg_defaults fi fr)) b) else None)"
proof -
  have 1: "(if \<not> fi then puts (section_bytes (Interval 30)) (cursor xs b) else Some (cursor xs b)) =
      puts (section_string (if fi then [] else [Interval 30])) (cursor xs b)" by simp
  have 2: "(if \<not> fr then puts (section_bytes (Repeat 5)) w else Some w) =
      puts (section_string (if fr then [] else [Repeat 5])) w" for w by simp
  have "bg_tail (cursor xs b, fi, fr) = Option.bind
      (if \<not> fi then puts (section_bytes (Interval 30)) (cursor xs b) else Some (cursor xs b))
      (\<lambda>w. if \<not> fr then puts (section_bytes (Repeat 5)) w else Some w)"
    by (simp add: bg_tail_def bgscan_consts del: puts.simps bind_Some_iff)
  also have "\<dots> = puts (section_string (bg_defaults fi fr)) (cursor xs b)"
    unfolding 1 2 by (simp add: bg_defaults_def puts_append del: puts.simps)
  finally show ?thesis by (simp add: puts_cursor [OF assms] del: puts.simps)
qed

text \<open>Between the options of the command and the defaults: the configured networks, unless the
  command names some.\<close>

definition bg_middle :: "wpa_ssid list \<Rightarrow> bg_state \<Rightarrow> ((nat \<times> cell list) \<times> bool \<times> bool) option" where
  "bg_middle conf st =
     Option.bind (if \<not> find_ssid st then bg_networks conf st else Some st)
       (\<lambda>st. Some (bg_w st, find_interval st, find_repeat st))"

lemma bg_build_tail:
  "bg_build cmd conf = do {
     w \<leftarrow> puts (take NL80211_BGSCAN_HEADER_SIZE NL80211_BGSCAN_HEADER) (0, replicate NL80211_BGCAN_BUF_LEN None);
     let (_, saved, first_time) = getop cmd [] True;
     st \<leftarrow> bg_options saved \<lparr>bg_w = w, bg_i = 0, find_ssid = False, find_interval = False, find_repeat = False\<rparr>;
     t \<leftarrow> bg_middle conf st;
     bg_tail t }"
  by (simp add: bg_build_def bg_middle_def bg_tail_def del: puts.simps bind_Some_iff)

lemma bg_middle_spec:
  assumes "bg_w st = cursor xs b" "length xs \<le> length b" "\<not> find_ssid st \<Longrightarrow> bg_i st = 0"
  shows "bg_middle conf st =
    (let mid = section_string (if find_ssid st then [] else map (\<lambda>c. Ssid (ssid c)) (take 16 (filter usable_network conf)))
     in if length xs + length mid \<le> length b
        then Some (cursor (xs @ mid) b, find_interval st, find_repeat st) else None)"
proof (cases "find_ssid st")
  case True
  with assms show ?thesis by (simp add: bg_middle_def Let_def del: bind_Some_iff)
next
  case False
  with assms(3) have "bg_i st \<le> 16" by simp
  from bg_networks_spec [OF assms(1,2) this, of conf] assms(3) False
  show ?thesis by (simp add: bg_middle_def Let_def del: bind_Some_iff)
qed

lemma tokens_after_first: "tokens (snd (strtok getop_delim cmd)) = drop 1 (tokens cmd)"
  by (cases "strtok getop_delim cmd", subst (2) tokens.simps)
    (auto simp: strtok_def Let_def tokens.simps [of "[]"] split: if_splits option.split)

text \<open>The state after the header and the options of the command. The header and the empty buffer have
  names, so that they stay as they are.\<close>

definition bg_head :: string where "bg_head = ''BGSCAN-CONFIG ''"
definition bg_blank :: "cell list" where "bg_blank = replicate 720 None"

definition bg_start :: bg_state where
  "bg_start = \<lparr>bg_w = cursor bg_head bg_blank, bg_i = 0, find_ssid = False, find_interval = False, find_repeat = False\<rparr>"

lemma bg_sizes: "length bg_blank = 720" "length bg_head \<le> 720"
  by (simp_all add: bg_blank_def bg_head_def)

lemma bg_build_head: "puts (take NL80211_BGSCAN_HEADER_SIZE NL80211_BGSCAN_HEADER) (0, replicate NL80211_BGCAN_BUF_LEN None) =
    Some (cursor bg_head bg_blank)"
  using puts_cursor [of "[]" bg_blank bg_head]
  by (simp add: bgscan_consts bg_head_def bg_blank_def del: puts.simps)

lemma bg_build_options:
  assumes "opts = List.map_filter section_of (drop 1 (tokens cmd))"
    and "st = fold record_section opts bg_start\<lparr>bg_w := cursor (bg_head @ section_string opts) bg_blank\<rparr>"
  shows "bg_build cmd conf =
    (if length (bg_head @ section_string opts) \<le> 720 then Option.bind (bg_middle conf st) bg_tail else None)"
proof -
  let ?saved = "snd (strtok getop_delim cmd)"
  have start: "bg_w bg_start = cursor bg_head bg_blank" "length bg_head \<le> length bg_blank"
    by (simp_all add: bg_start_def bg_sizes)
  have options: "bg_options ?saved bg_start =
      (if length (bg_head @ section_string opts) \<le> 720 then Some st else None)"
    unfolding bg_options_spec [OF start] tokens_after_first assms Let_def bg_sizes(1) length_append ..
  have getop: "getop cmd [] True = (fst (strtok getop_delim cmd), ?saved, False)"
    by (simp add: getop_def split_beta)
  show ?thesis
    unfolding bg_build_tail bg_build_head getop by (simp add: options flip: bg_start_def del: bind_Some_iff)
qed

lemma bg_build_spec:
  "bg_build cmd conf =
    (if length (bg_packet cmd conf) \<le> 720
     then Some (cursor (bg_packet cmd conf) (replicate 720 None)) else None)"
proof -
  define opts where "opts = List.map_filter section_of (drop 1 (tokens cmd))"
  define xs where "xs = bg_head @ section_string opts"
  define st where "st = fold record_section opts bg_start\<lparr>bg_w := cursor xs bg_blank\<rparr>"
  define mid where "mid = section_string (if find_ssid st then []
    else map (\<lambda>c. Ssid (ssid c)) (take 16 (filter usable_network conf)))"
  let ?dflt = "section_string (bg_defaults (find_interval st) (find_repeat st))"
  have st: "bg_w st = cursor xs bg_blank" "find_ssid st = (\<exists>x \<in> set opts. is_Ssid x)"
    "find_interval st = (\<exists>x \<in> set opts. is_Interval x)" "find_repeat st = (\<exists>x \<in> set opts. is_Repeat x)"
    "\<not> find_ssid st \<Longrightarrow> bg_i st = 0"
    by (simp_all add: st_def bg_start_def fold_record_flags)
  have packet: "bg_packet cmd conf = xs @ mid @ ?dflt"
    by (simp add: bg_packet_def bg_sections_def Let_def section_string_def bg_defaults_def
        xs_def mid_def opts_def st(2-4) bg_head_def)
  have build: "bg_build cmd conf = (if length xs \<le> 720 then Option.bind (bg_middle conf st) bg_tail else None)"
    using bg_build_options [OF opts_def st_def [unfolded xs_def]] unfolding xs_def .
  note middle = bg_middle_spec [OF st(1) _ st(5), of conf, unfolded Let_def bg_sizes(1), folded mid_def]
  have "bg_build cmd conf =
    (if length (xs @ mid @ ?dflt) \<le> 720 then Some (cursor (xs @ mid @ ?dflt) bg_blank) else None)"
  proof (cases "length xs + length mid \<le> 720")
    case True
    then have "bg_build cmd conf = bg_tail (cursor (xs @ mid) bg_blank, find_interval st, find_repeat st)"
      using build middle by simp
    with bg_tail_spec [of "xs @ mid" bg_blank] True show ?thesis by (simp add: bg_sizes)
  next
    case False
    with build middle show ?thesis by simp
  qed
  then show ?thesis unfolding packet bg_blank_def .
qed

subsection \<open>Sizes\<close>

lemma networks_length:
  "length (section_string (map (\<lambda>c. Ssid (ssid c)) (take k (filter usable_network xs)))) \<le> 34 * k"
proof -
  have each: "length (section_string (map (\<lambda>c. Ssid (ssid c)) cs)) \<le> 34 * length cs"
    if "\<forall>c \<in> set cs. usable_network c" for cs
    using that by (induction cs) (auto simp: usable_network_def)
  have "\<forall>c \<in> set (take k (filter usable_network xs)). usable_network c"
    by (auto dest: in_set_takeD)
  from each [OF this]
  have "length (section_string (map (\<lambda>c. Ssid (ssid c)) (take k (filter usable_network xs)))) \<le>
      34 * length (take k (filter usable_network xs))" .
  also have "\<dots> \<le> 34 * k" by simp
  finally show ?thesis .
qed

text \<open>Without options the packet fits for every list of networks.\<close>

lemma bare_packet_length:
  assumes "drop 1 (tokens cmd) = []"
  shows "length (bg_packet cmd conf) \<le> 563"
proof -
  have "bg_packet cmd conf = ''BGSCAN-CONFIG '' @
      section_string (map (\<lambda>c. Ssid (ssid c)) (take 16 (filter usable_network conf))) @
      section_string [Interval 30, Repeat 5]"
    unfolding bg_packet_def bg_sections_def Let_def assms
    by (simp add: map_filter_simps section_string_def)
  with networks_length [of 16 conf] show ?thesis by simp
qed

lemma ssid_command_tokens:
  "tokens (''BGSCAN-START SSID='' @ replicate k CHR ''a'') =
     [''BGSCAN-START'', ''SSID='' @ replicate k CHR ''a'']"
proof -
  have 1: "strtok getop_delim (''BGSCAN-START SSID='' @ replicate k CHR ''a'') =
      (Some ''BGSCAN-START'', ''SSID='' @ replicate k CHR ''a'')"
    by (simp add: strtok_def getop_delim_def)
  have 2: "strtok getop_delim (''SSID='' @ replicate k CHR ''a'') =
      (Some (''SSID='' @ replicate k CHR ''a''), [])"
    by (simp add: strtok_def getop_delim_def)
  have 3: "strtok getop_delim [] = (None, [])" by (simp add: strtok_def)
  show ?thesis
    by (subst tokens.simps, simp only: 1 prod.case option.case, subst tokens.simps,
        simp only: 2 prod.case option.case, subst tokens.simps, simp add: 3)
qed

lemma ssid_command_packet:
  "length (bg_packet (''BGSCAN-START SSID='' @ replicate k CHR ''a'') conf) = k + 21"
proof -
  have "section_of (''SSID='' @ replicate k CHR ''a'') = Some (Ssid (replicate k CHR ''a''))"
    by (simp add: section_of_def)
  then have "bg_sections (''BGSCAN-START SSID='' @ replicate k CHR ''a'') conf =
      [Ssid (replicate k CHR ''a''), Interval 30, Repeat 5]"
    unfolding bg_sections_def ssid_command_tokens by (simp add: map_filter_simps)
  then show ?thesis unfolding bg_packet_def by simp
qed

end
