(* ===== verification/Nl80211_Driver.thy ===== *)
theory Nl80211_Driver
  imports Bgscan
begin

section \<open>The nl80211 driver commands\<close>

text \<open>
  \<open>wlan/driver_cmd_nl80211.c\<close>. Netlink, the ioctls and the supplicant are the record \<open>nl_env\<close>,
  whose answers may depend on everything done before; \<open>nl_state\<close> keeps the static error counter
  and the memory blocks that the pointer arguments of the functions point to, because \<open>cmd\<close> and
  \<open>buf\<close> may be the same block. Pure logging (\<open>wpa_printf\<close>) is left out.
\<close>

definition WPA_PS_ENABLED :: int where "WPA_PS_ENABLED = 0"
definition WPA_PS_DISABLED :: int where "WPA_PS_DISABLED = 1"
definition MAX_WPSP2PIE_CMD_SIZE :: nat where "MAX_WPSP2PIE_CMD_SIZE = 512"
definition ENOMEM :: int where "ENOMEM = 12"

datatype nl_cmd = NL80211_CMD_SET_POWER_SAVE | NL80211_CMD_GET_POWER_SAVE
datatype nl_attr = NL80211_ATTR_IFINDEX | NL80211_ATTR_PS_STATE

text \<open>\<open>android_wifi_priv_cmd\<close>: the bytes behind \<open>buf\<close> and the two lengths.\<close>

record android_wifi_priv_cmd =
  pc_buf :: "cell list"
  pc_used_len :: nat
  pc_total_len :: nat

datatype wifi_event =
    EvIfaceFlags string int
  | EvMsg string
  | EvGetHwaddr string
  | EvPrivIoctl string android_wifi_priv_cmd
  | EvSupplicantEvent
  | EvMsgAlloc "nat option"
  | EvGenlPut nat nl_cmd
  | EvNlaPut nat nl_attr int bool
  | EvCbAlloc "nat option"
  | EvCbSet nat
  | EvSend nat
  | EvRecv nat
  | EvCbPut nat
  | EvMsgFree "nat option"

record nl_env =
  nl_cb_alloc :: "wifi_event list \<Rightarrow> nat option"
  nlmsg_alloc :: "wifi_event list \<Rightarrow> nat option"
  nla_put_u32 :: "wifi_event list \<Rightarrow> nl_attr \<Rightarrow> int \<Rightarrow> bool"
  nl_send_auto_complete :: "wifi_event list \<Rightarrow> nat \<Rightarrow> int"
  nl_recvmsgs :: "wifi_event list \<Rightarrow> int \<times> int option list"
  priv_ioctl :: "wifi_event list \<Rightarrow> android_wifi_priv_cmd \<Rightarrow> int \<times> string"
  linux_get_ifhwaddr :: "wifi_event list \<Rightarrow> int \<times> u8 list"
  wpabuf_dup_ok :: "wifi_event list \<Rightarrow> bool"
  NL80211_PS_ENABLED :: int
  NL80211_PS_DISABLED :: int
  DRV_NUMBER_SEQUENTIAL_ERRORS :: int
  MAX_DRV_CMD_SIZE :: nat
  WPA_EVENT_DRIVER_STATE :: string
  MACSTR :: "u8 list \<Rightarrow> string"

text \<open>
  \<open>struct i802_bss\<close> and what it leads to: a null \<open>drv\<close>, \<open>ctx\<close> or \<open>conf\<close> is \<open>None\<close>.
\<close>

record wpa_supplicant =
  conf :: "wpa_ssid list option"

record wpa_driver_nl80211_data =
  ifindex :: int
  ctx :: "wpa_supplicant option"

record i802_bss =
  ifname :: string
  drv :: "wpa_driver_nl80211_data option"

record nl_state =
  drv_errors :: int
  mem :: "nat \<Rightarrow> cell list"
  next_block :: nat
  wtrace :: "wifi_event list"

definition wlog :: "wifi_event \<Rightarrow> nl_state \<Rightarrow> nl_state" where
  "wlog ev s = s\<lparr>wtrace := wtrace s @ [ev]\<rparr>"

definition set_block :: "nat \<Rightarrow> cell list \<Rightarrow> nl_state \<Rightarrow> nl_state" where
  "set_block p b s = s\<lparr>mem := (mem s)(p := b)\<rparr>"

text \<open>An array on the stack: a fresh block.\<close>

definition push_block :: "cell list \<Rightarrow> nl_state \<Rightarrow> nat \<times> nl_state" where
  "push_block b s = (next_block s, s\<lparr>mem := (mem s)(next_block s := b), next_block := next_block s + 1\<rparr>)"

lemma wlog_simps [simp]:
  "wtrace (wlog ev s) = wtrace s @ [ev]" "mem (wlog ev s) = mem s" "drv_errors (wlog ev s) = drv_errors s"
  "next_block (wlog ev s) = next_block s"
  by (simp_all add: wlog_def)

lemma set_block_simps [simp]:
  "wtrace (set_block p b s) = wtrace s" "mem (set_block p b s) = (mem s)(p := b)"
  "drv_errors (set_block p b s) = drv_errors s" "next_block (set_block p b s) = next_block s"
  by (simp_all add: set_block_def)

subsection \<open>Netlink\<close>

text \<open>
  The handler runs for every message that arrives, if one was set; \<open>valid_data\<close> is its argument.
\<close>

definition send_and_recv_msgs :: "nl_env \<Rightarrow> nat \<Rightarrow> ('d \<Rightarrow> int option \<Rightarrow> 'd) option \<Rightarrow> 'd \<Rightarrow> nl_state \<Rightarrow>
    int \<times> 'd \<times> nl_state" where
  "send_and_recv_msgs env msg valid_handler valid_data s =
     (let cb = nl_cb_alloc env (wtrace s);
          s = wlog (EvCbAlloc cb) s
      in case cb of
           None \<Rightarrow> (- ENOMEM, valid_data, s)
         | Some cb \<Rightarrow>
             (let s = (if valid_handler = None then s else wlog (EvCbSet cb) s);
                  ret = nl_send_auto_complete env (wtrace s) msg;
                  s = wlog (EvSend msg) s
              in if ret < 0 then (ret, valid_data, wlog (EvCbPut cb) s)
                 else
                   (let (ret, msgs) = nl_recvmsgs env (wtrace s);
                        s = wlog (EvRecv cb) s;
                        valid_data = (case valid_handler of
                            None \<Rightarrow> valid_data
                          | Some h \<Rightarrow> foldl h valid_data msgs)
                    in (ret, valid_data, wlog (EvCbPut cb) s))))"

definition wpa_driver_send_hang_msg :: "nl_env \<Rightarrow> nl_state \<Rightarrow> nl_state" where
  "wpa_driver_send_hang_msg env s =
     (let s = s\<lparr>drv_errors := drv_errors s + 1\<rparr>
      in if drv_errors s > DRV_NUMBER_SEQUENTIAL_ERRORS env
         then wlog (EvMsg (WPA_EVENT_DRIVER_STATE env @ ''HANGED'')) (s\<lparr>drv_errors := 0\<rparr>)
         else s)"

text \<open>
  \<open>NLA_PUT_U32\<close> jumps to \<open>nla_put_failure\<close> when the message has no room; \<open>msg\<close> is a null
  pointer there once the message has been sent.
\<close>

definition NLA_PUT_U32 :: "nl_env \<Rightarrow> nat \<Rightarrow> nl_attr \<Rightarrow> int \<Rightarrow> nl_state \<Rightarrow> bool \<times> nl_state" where
  "NLA_PUT_U32 env msg attr v s =
     (let ok = nla_put_u32 env (wtrace s) attr v in (ok, wlog (EvNlaPut msg attr v ok) s))"

definition nlmsg_free :: "nat option \<Rightarrow> nl_state \<Rightarrow> nl_state" where
  "nlmsg_free msg s = wlog (EvMsgFree msg) s"

definition wpa_driver_set_power_save :: "nl_env \<Rightarrow> wpa_driver_nl80211_data \<Rightarrow> int \<Rightarrow> nl_state \<Rightarrow> int \<times> nl_state" where
  "wpa_driver_set_power_save env dr state s =
     (let m = nlmsg_alloc env (wtrace s);
          s = wlog (EvMsgAlloc m) s
      in case m of
           None \<Rightarrow> (- 1, s)
         | Some msg \<Rightarrow>
             (let s = wlog (EvGenlPut msg NL80211_CMD_SET_POWER_SAVE) s;
                  ps_state = (if state = WPA_PS_ENABLED then NL80211_PS_ENABLED env
                              else NL80211_PS_DISABLED env);
                  (ok, s) = NLA_PUT_U32 env msg NL80211_ATTR_IFINDEX (ifindex dr) s
              in if \<not> ok then (- 1, nlmsg_free (Some msg) s)
                 else
                   (let (ok, s) = NLA_PUT_U32 env msg NL80211_ATTR_PS_STATE ps_state s
                    in if \<not> ok then (- 1, nlmsg_free (Some msg) s)
                       else
                         (let (ret, _, s) = send_and_recv_msgs env msg None () s
                          in (ret, nlmsg_free None s)))))"

text \<open>\<open>state\<close> points to an \<open>int\<close>; a message is the attribute that it carries, if any.\<close>

definition get_power_mode_handler :: "nl_env \<Rightarrow> int \<Rightarrow> int option \<Rightarrow> int" where
  "get_power_mode_handler env state msg =
     (case msg of
        None \<Rightarrow> state
      | Some v \<Rightarrow> if v = NL80211_PS_ENABLED env then WPA_PS_ENABLED else WPA_PS_DISABLED)"

definition wpa_driver_get_power_save :: "nl_env \<Rightarrow> wpa_driver_nl80211_data \<Rightarrow> int \<Rightarrow> nl_state \<Rightarrow>
    int \<times> int \<times> nl_state" where
  "wpa_driver_get_power_save env dr state s =
     (let m = nlmsg_alloc env (wtrace s);
          s = wlog (EvMsgAlloc m) s
      in case m of
           None \<Rightarrow> (- 1, state, s)
         | Some msg \<Rightarrow>
             (let s = wlog (EvGenlPut msg NL80211_CMD_GET_POWER_SAVE) s;
                  (ok, s) = NLA_PUT_U32 env msg NL80211_ATTR_IFINDEX (ifindex dr) s
              in if \<not> ok then (- 1, state, nlmsg_free (Some msg) s)
                 else
                   (let (ret, state, s) = send_and_recv_msgs env msg (Some (get_power_mode_handler env)) state s
                    in (ret, state, nlmsg_free None s))))"

subsection \<open>Private commands\<close>

text \<open>
  \<open>ioctl (ioctl_sock, SIOCDEVPRIVATE + 14, &ifr)\<close>: the driver reads the block that \<open>ifr_data\<close>
  leads to and may overwrite it with a reply of at most \<open>total_len\<close> bytes. The lengths are
  those of the call; a block that is shorter is an access outside it.
\<close>

definition private_ioctl :: "nl_env \<Rightarrow> i802_bss \<Rightarrow> nat \<Rightarrow> nat \<Rightarrow> nl_state \<Rightarrow> (int \<times> nl_state) option" where
  "private_ioctl env bss buf len s =
     (if length (mem s buf) < len then None
      else
        (let pc = \<lparr>pc_buf = take len (mem s buf), pc_used_len = len, pc_total_len = len\<rparr>;
             (ret, reply) = priv_ioctl env (wtrace s) pc;
             s = wlog (EvPrivIoctl (ifr_name (ifname bss)) pc) s
         in do { b \<leftarrow> kernel_reply reply len (mem s buf); Some (ret, set_block buf b s) }))"

definition wpa_driver_set_backgroundscan_params :: "nl_env \<Rightarrow> i802_bss \<Rightarrow> nat \<Rightarrow> nl_state \<Rightarrow>
    (int \<times> nl_state) option" where
  "wpa_driver_set_backgroundscan_params env bss cmd s =
     (case drv bss of
        None \<Rightarrow> Some (- 1, s)
      | Some dr \<Rightarrow>
     (case ctx dr of
        None \<Rightarrow> Some (- 1, s)
      | Some wpa_s \<Rightarrow>
     (case conf wpa_s of
        None \<Rightarrow> Some (- 1, s)
      | Some ssid_conf \<Rightarrow> do {
          c \<leftarrow> cstr (mem s cmd);
          (_, b) \<leftarrow> bg_build c ssid_conf;
          let (buf, s) = push_block b s;
          private_ioctl env bss buf NL80211_BGCAN_BUF_LEN s
        })))"

text \<open>The commands that the driver answers in \<open>buf\<close>, and those that change the channel list.\<close>

definition answers_in_buf :: "string \<Rightarrow> bool" where
  "answers_in_buf cmd \<longleftrightarrow> strcasecmp_eq cmd ''LINKSPEED'' \<or> strcasecmp_eq cmd ''RSSI'' \<or>
     strcasecmp_eq cmd ''GETBAND'' \<or> strncasecmp_eq cmd ''WLS_BATCHING'' 12"

definition changes_channels :: "string \<Rightarrow> bool" where
  "changes_channels cmd \<longleftrightarrow> strncasecmp_eq cmd ''COUNTRY'' 7 \<or> strncasecmp_eq cmd ''SETBAND'' 7"

text \<open>The last branch of the dispatcher: everything that it does not handle itself.\<close>

definition nl_private_cmd :: "nl_env \<Rightarrow> i802_bss \<Rightarrow> nat \<Rightarrow> nat \<Rightarrow> nat \<Rightarrow> nl_state \<Rightarrow> (int \<times> nl_state) option" where
  "nl_private_cmd env bss cmd buf buf_len s = do {
     c \<leftarrow> cstr (mem s cmd);
     (if strncasecmp_eq c ''BGSCAN-START'' 12 then wpa_driver_set_backgroundscan_params env bss cmd s
      else do {
        b \<leftarrow> blit (c @ [CHR 0x00]) (mem s buf);
        let s = set_block buf b s;
        _ \<leftarrow> drv bss;
        (ret, s) \<leftarrow> private_ioctl env bss buf buf_len s;
        let s = s\<lparr>drv_errors := 0\<rparr>;
        (if ret < 0 then Some (0, s)
         else do {
           c \<leftarrow> cstr (mem s cmd);
           (if answers_in_buf c then do { t \<leftarrow> cstr (mem s buf); Some (int (length t), s) }
            else if changes_channels c then Some (0, wlog EvSupplicantEvent s)
            else Some (0, s))
         })
      })
   }"

text \<open>
  The dispatcher. The commands that it handles itself go through a non-null \<open>drv\<close>; they are
  tried in this order before the rest is sent to the driver.
\<close>

definition nl_own_cmd :: "string \<Rightarrow> bool" where
  "nl_own_cmd c \<longleftrightarrow> strcasecmp_eq c ''STOP'' \<or> strcasecmp_eq c ''START'' \<or> strcasecmp_eq c ''MACADDR'' \<or>
     strcasecmp_eq c ''RELOAD'' \<or> strncasecmp_eq c ''POWERMODE '' 10 \<or> strncasecmp_eq c ''GETPOWER'' 8"

definition wpa_driver_nl80211_driver_cmd :: "nl_env \<Rightarrow> i802_bss \<Rightarrow> nat \<Rightarrow> nat \<Rightarrow> nat \<Rightarrow> nl_state \<Rightarrow>
    (int \<times> nl_state) option" where
  "wpa_driver_nl80211_driver_cmd env bss cmd buf buf_len s = do {
     c \<leftarrow> cstr (mem s cmd);
     (if \<not> nl_own_cmd c then nl_private_cmd env bss cmd buf buf_len s
      else do {
     dr \<leftarrow> drv bss;
     (if strcasecmp_eq c ''STOP'' then
        Some (0, wlog (EvMsg (WPA_EVENT_DRIVER_STATE env @ ''STOPPED'')) (wlog (EvIfaceFlags (ifname bss) 0) s))
      else if strcasecmp_eq c ''START'' then
        Some (0, wlog (EvMsg (WPA_EVENT_DRIVER_STATE env @ ''STARTED'')) (wlog (EvIfaceFlags (ifname bss) 1) s))
      else if strcasecmp_eq c ''MACADDR'' then
        (let (ret, macaddr) = linux_get_ifhwaddr env (wtrace s);
             s = wlog (EvGetHwaddr (ifname bss)) s
         in if ret = 0
            then do { (ret, b) \<leftarrow> snprintf buf_len (''Macaddr = '' @ MACSTR env macaddr @ [CHR 0x0A]) (mem s buf); Some (ret, set_block buf b s) }
            else Some (ret, s))
      else if strcasecmp_eq c ''RELOAD'' then
        Some (0, wlog (EvMsg (WPA_EVENT_DRIVER_STATE env @ ''HANGED'')) s)
      else if strncasecmp_eq c ''POWERMODE '' 10 then
        (let state = atoi (drop 10 c);
             (ret, s) = wpa_driver_set_power_save env dr state s
         in if ret < 0 then Some (ret, wpa_driver_send_hang_msg env s)
            else Some (ret, s\<lparr>drv_errors := 0\<rparr>))
      else
        (let (ret, state, s) = wpa_driver_get_power_save env dr (- 1) s
         in if ret = 0 \<and> state \<noteq> - 1
            then do {
              (ret, b) \<leftarrow> snprintf buf_len (''POWERMODE = '' @ dec_of_int state @ [CHR 0x0A]) (mem s buf);
              Some (ret, (set_block buf b s)\<lparr>drv_errors := 0\<rparr>)
            }
            else Some (ret, wpa_driver_send_hang_msg env s)))
      })
   }"

subsection \<open>P2P commands\<close>

definition p2p_command :: "nl_env \<Rightarrow> i802_bss \<Rightarrow> string \<Rightarrow> nl_state \<Rightarrow> (int \<times> nl_state) option" where
  "p2p_command env bss txt s = do {
     (_, b) \<leftarrow> snprintf (MAX_DRV_CMD_SIZE env) txt (replicate (MAX_DRV_CMD_SIZE env) (Some (CHR 0x00)));
     let (buf, s) = push_block b s;
     t \<leftarrow> cstr (mem s buf);
     wpa_driver_nl80211_driver_cmd env bss buf buf (length t + 1) s
   }"

definition wpa_driver_set_p2p_noa :: "nl_env \<Rightarrow> i802_bss \<Rightarrow> u8 \<Rightarrow> int \<Rightarrow> int \<Rightarrow> nl_state \<Rightarrow> (int \<times> nl_state) option" where
  "wpa_driver_set_p2p_noa env bss count start duration s =
     p2p_command env bss (''P2P_SET_NOA '' @ dec_of_int (uint count) @ '' '' @ dec_of_int start @ '' ''
       @ dec_of_int duration) s"

definition wpa_driver_get_p2p_noa :: "i802_bss \<Rightarrow> nl_state \<Rightarrow> int \<times> nl_state" where
  "wpa_driver_get_p2p_noa bss s = (0, s)"

definition wpa_driver_set_p2p_ps :: "nl_env \<Rightarrow> i802_bss \<Rightarrow> int \<Rightarrow> int \<Rightarrow> int \<Rightarrow> nl_state \<Rightarrow> (int \<times> nl_state) option" where
  "wpa_driver_set_p2p_ps env bss legacy_ps opp_ps ctwindow s =
     p2p_command env bss (''P2P_SET_PS '' @ dec_of_int legacy_ps @ '' '' @ dec_of_int opp_ps @ '' ''
       @ dec_of_int ctwindow) s"

text \<open>
  One turn of the loop over \<open>cmd_arr\<close>: the buffer is the same block in every turn. The result
  is the new \<open>ret\<close> and whether the loop is left.
\<close>

definition ap_ie_turn :: "nl_env \<Rightarrow> i802_bss \<Rightarrow> nat \<Rightarrow> int \<times> string option \<Rightarrow> int \<Rightarrow> nl_state \<Rightarrow>
    (int \<times> bool \<times> nl_state) option" where
  "ap_ie_turn env bss buf = (\<lambda>(cmd, src) ret s.
     (let head = ''SET_AP_WPS_P2P_IE '' @ dec_of_int cmd @ [CHR 0x00];
          b = replicate MAX_WPSP2PIE_CMD_SIZE (Some (CHR 0x00))
      in do {
        b \<leftarrow> blit head b;
        let s = set_block buf b s;
        (case (if wpabuf_dup_ok env (wtrace s) then src else None) of
           None \<Rightarrow> Some (ret, False, s)
         | Some ie \<Rightarrow> do {
             (_, b) \<leftarrow> puts ie (length head, mem s buf);
             let s = set_block buf b s;
             (ret, s) \<leftarrow> wpa_driver_nl80211_driver_cmd env bss buf buf (17 + 3 + length ie) s;
             Some (ret, ret < 0, s)
           })
      }))"

fun ap_ie_loop :: "nl_env \<Rightarrow> i802_bss \<Rightarrow> nat \<Rightarrow> (int \<times> string option) list \<Rightarrow> int \<Rightarrow> nl_state \<Rightarrow>
    (int \<times> nl_state) option" where
  "ap_ie_loop env bss buf [] ret s = Some (ret, s)"
| "ap_ie_loop env bss buf (e # es) ret s =
     (case ap_ie_turn env bss buf e ret s of
        None \<Rightarrow> None
      | Some (ret, stop, s) \<Rightarrow> if stop then Some (ret, s) else ap_ie_loop env bss buf es ret s)"

definition wpa_driver_set_ap_wps_p2p_ie :: "nl_env \<Rightarrow> i802_bss \<Rightarrow> string option \<Rightarrow> string option \<Rightarrow>
    string option \<Rightarrow> nl_state \<Rightarrow> (int \<times> nl_state) option" where
  "wpa_driver_set_ap_wps_p2p_ie env bss beacon proberesp assocresp s =
     (let (buf, s) = push_block (replicate MAX_WPSP2PIE_CMD_SIZE None) s
      in ap_ie_loop env bss buf [(1, beacon), (2, proberesp), (4, assocresp)] 0 s)"

end
