(* ===== verification/Nl80211_Correct.thy ===== *)
theory Nl80211_Correct
  imports Nl80211_Driver
begin

section \<open>The nl80211 driver commands: lemmas\<close>

text \<open>
  The private ioctl, the hang counter (an instance of \<open>hang_counter\<close>), the netlink exchanges
  and the commands that are built in buffers of the stack.
\<close>

subsection \<open>Ioctls of a run\<close>

fun ioctl_of :: "wifi_event \<Rightarrow> android_wifi_priv_cmd option" where
  "ioctl_of (EvPrivIoctl _ pc) = Some pc"
| "ioctl_of _ = None"

definition ioctls :: "nl_state \<Rightarrow> android_wifi_priv_cmd list" where
  "ioctls s = List.map_filter ioctl_of (wtrace s)"

lemma map_filter_append: "List.map_filter f (xs @ ys) = List.map_filter f xs @ List.map_filter f ys"
  by (simp add: List.map_filter_def)

lemma ioctls_simps [simp]:
  "ioctls (wlog ev s) = ioctls s @ (case ioctl_of ev of None \<Rightarrow> [] | Some pc \<Rightarrow> [pc])"
  "ioctls (set_block p b s) = ioctls s" "ioctls (s\<lparr>drv_errors := n\<rparr>) = ioctls s"
  "ioctls (s\<lparr>mem := m\<rparr>) = ioctls s" "ioctls (s\<lparr>mem := m, next_block := k\<rparr>) = ioctls s"
  by (simp_all add: ioctls_def map_filter_append map_filter_simps split: option.split)

definition request :: "cell list \<Rightarrow> android_wifi_priv_cmd" where
  "request b = \<lparr>pc_buf = b, pc_used_len = length b, pc_total_len = length b\<rparr>"

lemma private_ioctl_defined:
  assumes "len \<le> length (mem s buf)"
  obtains ret b where "private_ioctl env bss buf len s = Some (ret,
      set_block buf b (wlog (EvPrivIoctl (ifr_name (ifname bss)) (request (take len (mem s buf)))) s))"
    "length b = length (mem s buf)" "ret = fst (priv_ioctl env (wtrace s) (request (take len (mem s buf))))"
proof -
  let ?pc = "request (take len (mem s buf))"
  obtain ret reply where r: "priv_ioctl env (wtrace s) ?pc = (ret, reply)" by fastforce
  have pc: "\<lparr>pc_buf = take len (mem s buf), pc_used_len = len, pc_total_len = len\<rparr> = ?pc"
    using assms by (simp add: request_def min_absorb2)
  have k: "kernel_reply reply len (mem s buf) = Some (map Some (take len reply) @ drop (length (take len reply)) (mem s buf))"
    using assms by (simp add: kernel_reply_def blit_def)
  show thesis
    by (rule that [of ret "map Some (take len reply) @ drop (length (take len reply)) (mem s buf)"])
      (use assms r pc k in \<open>simp_all add: private_ioctl_def Let_def\<close>)
qed

lemma private_ioctl_effect:
  assumes "private_ioctl env bss buf len s = Some (ret, s')"
  shows "wtrace s' = wtrace s @ [EvPrivIoctl (ifr_name (ifname bss)) (request (take len (mem s buf)))]"
    "drv_errors s' = drv_errors s" "len \<le> length (mem s buf)"
proof -
  from assms show len: "len \<le> length (mem s buf)" by (simp add: private_ioctl_def split: if_splits)
  obtain ret' b where "private_ioctl env bss buf len s = Some (ret',
      set_block buf b (wlog (EvPrivIoctl (ifr_name (ifname bss)) (request (take len (mem s buf)))) s))"
    by (rule private_ioctl_defined [OF len])
  with assms show "wtrace s' = wtrace s @ [EvPrivIoctl (ifr_name (ifname bss)) (request (take len (mem s buf)))]"
    "drv_errors s' = drv_errors s" by auto
qed

subsection \<open>The hang counter\<close>

definition hang_msg :: "nl_env \<Rightarrow> wifi_event" where
  "hang_msg env = EvMsg (WPA_EVENT_DRIVER_STATE env @ ''HANGED'')"

definition hang_reports :: "nl_env \<Rightarrow> nl_state \<Rightarrow> nat" where
  "hang_reports env s = length (filter (\<lambda>ev. ev = hang_msg env) (wtrace s))"

subsection \<open>Netlink exchanges\<close>

definition nl_silent :: "wifi_event \<Rightarrow> bool" where
  "nl_silent ev = (case ev of EvIfaceFlags _ _ \<Rightarrow> False | EvMsg _ \<Rightarrow> False | EvGetHwaddr _ \<Rightarrow> False
     | EvPrivIoctl _ _ \<Rightarrow> False | EvSupplicantEvent \<Rightarrow> False | _ \<Rightarrow> True)"

text \<open>Callbacks are always given back; messages are counted apart.\<close>

definition cb_balance :: "wifi_event list \<Rightarrow> int" where
  "cb_balance evs = (\<Sum>ev \<leftarrow> evs. case ev of EvCbAlloc (Some _) \<Rightarrow> 1 | EvCbPut _ \<Rightarrow> - 1 | _ \<Rightarrow> 0)"

definition msg_balance :: "wifi_event list \<Rightarrow> int" where
  "msg_balance evs = (\<Sum>ev \<leftarrow> evs. case ev of EvMsgAlloc (Some _) \<Rightarrow> 1 | EvMsgFree (Some _) \<Rightarrow> - 1 | _ \<Rightarrow> 0)"

text \<open>The power-save states that were put into messages.\<close>

definition ps_puts :: "wifi_event list \<Rightarrow> int list" where
  "ps_puts evs = concat (map (\<lambda>ev. case ev of EvNlaPut _ NL80211_ATTR_PS_STATE v True \<Rightarrow> [v] | _ \<Rightarrow> []) evs)"

lemma ps_puts_append: "ps_puts (xs @ ys) = ps_puts xs @ ps_puts ys"
  by (simp add: ps_puts_def)

lemma balance_append:
  "cb_balance (xs @ ys) = cb_balance xs + cb_balance ys"
  "msg_balance (xs @ ys) = msg_balance xs + msg_balance ys"
  by (simp_all add: cb_balance_def msg_balance_def)

definition nl_effect :: "nl_state \<Rightarrow> nl_state \<Rightarrow> wifi_event list \<Rightarrow> bool" where
  "nl_effect s s' evs \<longleftrightarrow> wtrace s' = wtrace s @ evs \<and> mem s' = mem s \<and> drv_errors s' = drv_errors s \<and>
     next_block s' = next_block s \<and> (\<forall>ev \<in> set evs. nl_silent ev)"

lemma nl_effect_trans: "nl_effect s s1 e1 \<Longrightarrow> nl_effect s1 s2 e2 \<Longrightarrow> nl_effect s s2 (e1 @ e2)"
  by (auto simp: nl_effect_def)

lemma nl_effect_log: "nl_silent ev \<Longrightarrow> nl_effect s (wlog ev s) [ev]"
  by (simp add: nl_effect_def)

lemma send_and_recv_effect:
  assumes "send_and_recv_msgs env msg h d s = (ret, d', s')"
  obtains evs where "nl_effect s s' evs" "cb_balance evs = 0" "msg_balance evs = 0"
    "ps_puts evs = []"
proof (cases "nl_cb_alloc env (wtrace s)")
  case None
  with assms have "s' = wlog (EvCbAlloc None) s" by (simp add: send_and_recv_msgs_def Let_def)
  then show thesis
    by (intro that [of "[EvCbAlloc None]"])
      (simp_all add: nl_effect_log nl_silent_def cb_balance_def msg_balance_def ps_puts_def)
next
  case (Some cb)
  let ?set = "if h = None then [] else [EvCbSet cb]"
  let ?recv = "if nl_send_auto_complete env (wtrace s @ EvCbAlloc (Some cb) # ?set) msg < 0 then [] else [EvRecv cb]"
  let ?evs = "EvCbAlloc (Some cb) # ?set @ EvSend msg # ?recv @ [EvCbPut cb]"
  have "nl_effect s s' ?evs"
    using assms Some
    by (auto simp: send_and_recv_msgs_def Let_def nl_effect_def nl_silent_def split: if_splits prod.splits)
  then show thesis
    by (intro that [of ?evs]) (simp_all add: cb_balance_def msg_balance_def ps_puts_def)
qed

definition ps_value :: "nl_env \<Rightarrow> int \<Rightarrow> int" where
  "ps_value env state = (if state = WPA_PS_ENABLED then NL80211_PS_ENABLED env else NL80211_PS_DISABLED env)"

text \<open>The two ways a power-save request ends: given up before sending, or sent.\<close>

lemma set_power_save_cases:
  assumes "wpa_driver_set_power_save env dr state s = (ret, s')"
  obtains (no_msg) evs where "nl_effect s s' evs" "cb_balance evs = 0" "msg_balance evs = 0" "ret = - 1"
      "nlmsg_alloc env (wtrace s) = None \<or> \<not> (\<forall>t a v. nla_put_u32 env t a v)"
  | (sent) evs where "nl_effect s s' evs" "cb_balance evs = 0" "msg_balance evs = 1"
      "ps_puts evs = [ps_value env state]" "nlmsg_alloc env (wtrace s) \<noteq> None"
proof (cases "nlmsg_alloc env (wtrace s)")
  case None
  with assms have "s' = wlog (EvMsgAlloc None) s" "ret = - 1"
    by (simp_all add: wpa_driver_set_power_save_def Let_def)
  with None show thesis
    by (intro no_msg [of "[EvMsgAlloc None]"])
      (simp_all add: nl_effect_log nl_silent_def cb_balance_def msg_balance_def)
next
  case (Some msg)
  let ?s1 = "wlog (EvGenlPut msg NL80211_CMD_SET_POWER_SAVE) (wlog (EvMsgAlloc (Some msg)) s)"
  let ?ok1 = "nla_put_u32 env (wtrace ?s1) NL80211_ATTR_IFINDEX (ifindex dr)"
  let ?e1 = "[EvMsgAlloc (Some msg), EvGenlPut msg NL80211_CMD_SET_POWER_SAVE,
    EvNlaPut msg NL80211_ATTR_IFINDEX (ifindex dr) ?ok1]"
  let ?s2 = "wlog (EvNlaPut msg NL80211_ATTR_IFINDEX (ifindex dr) ?ok1) ?s1"
  let ?ok2 = "nla_put_u32 env (wtrace ?s2) NL80211_ATTR_PS_STATE (ps_value env state)"
  let ?e2 = "?e1 @ [EvNlaPut msg NL80211_ATTR_PS_STATE (ps_value env state) ?ok2]"
  let ?s3 = "wlog (EvNlaPut msg NL80211_ATTR_PS_STATE (ps_value env state) ?ok2) ?s2"
  have eff: "nl_effect s ?s2 ?e1" "nl_effect s ?s3 ?e2"
    by (simp_all add: nl_effect_def nl_silent_def)
  note defs = wpa_driver_set_power_save_def Let_def NLA_PUT_U32_def ps_value_def nlmsg_free_def
  consider (fail1) "\<not> ?ok1" | (fail2) "?ok1" "\<not> ?ok2" | (ok) "?ok1" "?ok2" by blast
  then show thesis
  proof cases
    case fail1
    with assms Some have "s' = wlog (EvMsgFree (Some msg)) ?s2" "ret = - 1" by (simp_all add: defs)
    with fail1 show thesis
      by (intro no_msg [of "?e1 @ [EvMsgFree (Some msg)]"])
        (auto simp: nl_effect_def nl_silent_def cb_balance_def msg_balance_def)
  next
    case fail2
    with assms Some have "s' = wlog (EvMsgFree (Some msg)) ?s3" "ret = - 1" by (simp_all add: defs)
    with fail2 show thesis
      by (intro no_msg [of "?e2 @ [EvMsgFree (Some msg)]"])
        (auto simp: nl_effect_def nl_silent_def cb_balance_def msg_balance_def)
  next
    case ok
    obtain r d s4 where x: "send_and_recv_msgs env msg None () ?s3 = (r, d, s4)" by (metis prod_cases3)
    with ok assms Some have s': "s' = wlog (EvMsgFree None) s4" by (simp add: defs)
    obtain evs where e: "nl_effect ?s3 s4 evs" "cb_balance evs = 0" "msg_balance evs = 0" "ps_puts evs = []"
      by (rule send_and_recv_effect [OF x])
    have "nl_effect s s' (?e2 @ evs @ [EvMsgFree None])"
      unfolding s' by (rule nl_effect_trans [OF eff(2) nl_effect_trans [OF e(1) nl_effect_log]])
        (simp add: nl_silent_def)
    with e(2-4) ok Some show thesis
      by (intro sent [of "?e2 @ evs @ [EvMsgFree None]"])
        (simp_all add: balance_append ps_puts_append, simp_all add: cb_balance_def msg_balance_def ps_puts_def)
  qed
qed

definition nl_failure :: "nl_env \<Rightarrow> nl_state \<Rightarrow> nl_state \<Rightarrow> bool" where
  "nl_failure env s s' \<longleftrightarrow> (\<exists>s1 evs. nl_effect s s1 evs \<and> s' = wpa_driver_send_hang_msg env s1)"

lemma silent_no_hang: "\<forall>ev \<in> set evs. nl_silent ev \<Longrightarrow> filter (\<lambda>ev. ev = hang_msg env) evs = []"
  by (induction evs) (auto simp: nl_silent_def hang_msg_def)

lemma nl_effect_hang_reports: "nl_effect s s1 evs \<Longrightarrow> hang_reports env s1 = hang_reports env s"
  by (simp add: nl_effect_def hang_reports_def silent_no_hang)

lemma send_hang_msg_counts:
  "drv_errors (wpa_driver_send_hang_msg env s) =
     (if drv_errors s + 1 > DRV_NUMBER_SEQUENTIAL_ERRORS env then 0 else drv_errors s + 1)"
  "hang_reports env (wpa_driver_send_hang_msg env s) =
     (if drv_errors s + 1 > DRV_NUMBER_SEQUENTIAL_ERRORS env then hang_reports env s + 1 else hang_reports env s)"
  by (simp_all add: wpa_driver_send_hang_msg_def hang_reports_def hang_msg_def Let_def)

interpretation nl_hang: hang_counter drv_errors "hang_reports env" "nl_failure env"
  "DRV_NUMBER_SEQUENTIAL_ERRORS env" for env
proof
  fix s s'
  assume "nl_failure env s s'"
  then obtain s1 evs where e: "nl_effect s s1 evs" and s': "s' = wpa_driver_send_hang_msg env s1"
    by (auto simp: nl_failure_def)
  from e have "drv_errors s1 = drv_errors s" by (simp add: nl_effect_def)
  with nl_effect_hang_reports [OF e, of env] s'
  show "drv_errors s' = (if drv_errors s + 1 > DRV_NUMBER_SEQUENTIAL_ERRORS env then 0 else drv_errors s + 1)"
    "hang_reports env s' = (if drv_errors s + 1 > DRV_NUMBER_SEQUENTIAL_ERRORS env
       then hang_reports env s + 1 else hang_reports env s)"
    by (simp_all add: send_hang_msg_counts)
qed

end
