(* ===== verification/Nl80211_Properties.thy ===== *)
theory Nl80211_Properties
  imports Nl80211_Correct
begin

section \<open>The nl80211 driver commands: properties\<close>

text \<open>The properties of \<open>wlan/driver_cmd_nl80211.c\<close>, each with an evaluation.\<close>

text \<open>A driver that answers a set command with its return value only.\<close>

definition quiet_driver :: "nl_env \<Rightarrow> bool" where
  "quiet_driver env \<longleftrightarrow> (\<forall>t pc. snd (priv_ioctl env t pc) = [])"

subsection \<open>A concrete driver\<close>

definition demo_nl :: nl_env where
  "demo_nl = \<lparr>nl_cb_alloc = \<lambda>t. Some 1, nlmsg_alloc = \<lambda>t. Some 2, nla_put_u32 = \<lambda>t a v. True,
     nl_send_auto_complete = \<lambda>t m. 0, nl_recvmsgs = \<lambda>t. (0, [Some 1]), priv_ioctl = \<lambda>t pc. (0, []),
     linux_get_ifhwaddr = \<lambda>t. (0, [1, 2, 3, 4, 5, 6]), wpabuf_dup_ok = \<lambda>t. True,
     NL80211_PS_ENABLED = 1, NL80211_PS_DISABLED = 0, DRV_NUMBER_SEQUENTIAL_ERRORS = 4,
     MAX_DRV_CMD_SIZE = 256, WPA_EVENT_DRIVER_STATE = ''CTRL-EVENT-DRIVER-STATE '', MACSTR = \<lambda>a. []\<rparr>"

definition demo_dr :: wpa_driver_nl80211_data where
  "demo_dr = \<lparr>ifindex = 3, ctx = Some \<lparr>conf = Some []\<rparr>\<rparr>"

definition demo_bss :: i802_bss where
  "demo_bss = \<lparr>ifname = ''wlan0'', drv = Some demo_dr\<rparr>"

text \<open>Every block holds the command, its terminator and some room.\<close>

definition demo_nl_state :: "string \<Rightarrow> nl_state" where
  "demo_nl_state c = \<lparr>drv_errors = 0, mem = (\<lambda>_. map Some c @ Some (CHR 0x00) # replicate 32 (Some (CHR 0x00))),
     next_block = 7, wtrace = []\<rparr>"

lemma demo_cstr [simp]: "no_nul c \<Longrightarrow> cstr (mem (demo_nl_state c) p) = Some c"
  by (simp add: demo_nl_state_def)

lemma demo_nl_simps [simp]:
  "drv demo_bss = Some demo_dr" "ctx demo_dr = Some \<lparr>conf = Some []\<rparr>" "drv_errors (demo_nl_state c) = 0"
  "wtrace (demo_nl_state c) = []" "length (mem (demo_nl_state c) p) = length c + 33"
  by (simp_all add: demo_bss_def demo_dr_def demo_nl_state_def)

lemma demo_quiet: "quiet_driver demo_nl"
  by (simp add: quiet_driver_def demo_nl_def)

subsection \<open>Dispatch\<close>

lemma powermode_dispatch:
  assumes "cstr (mem s cmd) = Some (''POWERMODE '' @ arg)" and "drv bss = Some dr"
    and "wpa_driver_set_power_save env dr (atoi arg) s = (ret, s1)"
  shows "wpa_driver_nl80211_driver_cmd env bss cmd buf n s = Some (ret,
    if ret < 0 then wpa_driver_send_hang_msg env s1 else s1\<lparr>drv_errors := 0\<rparr>)"
  using assms
  by (simp add: wpa_driver_nl80211_driver_cmd_def nl_own_cmd_def strcasecmp_eq_def strncasecmp_eq_def
      tolower_def del: bind_Some_iff)

lemma getpower_dispatch:
  assumes "cstr (mem s cmd) = Some ''GETPOWER''" and "drv bss = Some dr"
    and "wpa_driver_get_power_save env dr (- 1) s = (ret, state, s1)"
  shows "wpa_driver_nl80211_driver_cmd env bss cmd buf n s =
    (if ret = 0 \<and> state \<noteq> - 1
     then do { (ret, b) \<leftarrow> snprintf n (''POWERMODE = '' @ dec_of_int state @ [CHR 0x0A]) (mem s1 buf);
               Some (ret, (set_block buf b s1)\<lparr>drv_errors := 0\<rparr>) }
     else Some (ret, wpa_driver_send_hang_msg env s1))"
  using assms
  by (simp add: wpa_driver_nl80211_driver_cmd_def nl_own_cmd_def strcasecmp_eq_def strncasecmp_eq_def
      tolower_def del: bind_Some_iff)

lemma private_dispatch:
  assumes "cstr (mem s cmd) = Some c" and "\<not> nl_own_cmd c"
  shows "wpa_driver_nl80211_driver_cmd env bss cmd buf n s = nl_private_cmd env bss cmd buf n s"
  using assms by (simp add: wpa_driver_nl80211_driver_cmd_def del: bind_Some_iff)

subsection \<open>Background scan\<close>

lemma bgscan_cmd:
  assumes "cstr (mem s cmd) = Some c" and "strncasecmp_eq c ''BGSCAN-START'' 12" and "\<not> nl_own_cmd c"
    and "drv bss = Some dr" and "ctx dr = Some wpa_s" and "conf wpa_s = Some nets"
  shows "if 720 < length (bg_packet c nets)
    then wpa_driver_nl80211_driver_cmd env bss cmd buf n s = None
    else \<exists>r s'. wpa_driver_nl80211_driver_cmd env bss cmd buf n s = Some (r, s') \<and>
      ioctls s' = ioctls s @ [request (map Some (bg_packet c nets) @
        replicate (720 - length (bg_packet c nets)) None)] \<and>
      r = fst (priv_ioctl env (wtrace s) (last (ioctls s')))"
proof -
  let ?p = "bg_packet c nets"
  have cmd: "wpa_driver_nl80211_driver_cmd env bss cmd buf n s =
      do { (_, b) \<leftarrow> bg_build c nets; let (buf, s) = push_block b s; private_ioctl env bss buf 720 s }"
    using assms(1,2,4-6) unfolding private_dispatch [OF assms(1,3)]
    by (simp add: nl_private_cmd_def wpa_driver_set_backgroundscan_params_def bgscan_consts
        del: bind_Some_iff)
  show ?thesis
  proof (cases "720 < length ?p")
    case True
    with cmd show ?thesis by (simp add: bg_build_spec del: bind_Some_iff)
  next
    case False
    let ?b = "map Some ?p @ replicate (720 - length ?p) None"
    let ?s = "s\<lparr>mem := (mem s)(next_block s := ?b), next_block := next_block s + 1\<rparr>"
    have b: "bg_build c nets = Some (length ?p, ?b)"
      using False by (simp add: bg_build_spec cursor_def drop_replicate)
    have len: "length ?b = 720" using False by simp
    have blk: "mem ?s (next_block s) = ?b" by simp
    have "720 \<le> length (mem ?s (next_block s))" unfolding blk len by simp
    from private_ioctl_defined [OF this, of env bss] obtain ret b' where
      p: "private_ioctl env bss (next_block s) 720 ?s = Some (ret,
        set_block (next_block s) b' (wlog (EvPrivIoctl (ifr_name (ifname bss)) (request (take 720 (mem ?s (next_block s))))) ?s))"
      "ret = fst (priv_ioctl env (wtrace ?s) (request (take 720 (mem ?s (next_block s)))))" by blast
    have t: "take 720 (mem ?s (next_block s)) = ?b" unfolding blk using len by simp
    have "wpa_driver_nl80211_driver_cmd env bss cmd buf n s = private_ioctl env bss (next_block s) 720 ?s"
      using cmd b by (simp add: push_block_def del: bind_Some_iff)
    with p t False show ?thesis by simp
  qed
qed

text \<open>C5. The background scan command is exactly its packet: for every \<open>BGSCAN-START\<close> command
  and every list of networks, one private ioctl is made whose 720 bytes start with the header,
  the sections of the options in their order, the usable networks if no SSID was given and the
  defaults of interval and repeat; its remaining bytes are the uninitialised ones of the stack.
  When the packet is longer than 720 bytes, the code writes outside its buffer instead.\<close>
theorem nl_bgscan_packet:
  assumes "cstr (mem s cmd) = Some c" and "strncasecmp_eq c ''BGSCAN-START'' 12" and "\<not> nl_own_cmd c"
    and "drv bss = Some dr" and "ctx dr = Some wpa_s" and "conf wpa_s = Some nets"
  shows "if 720 < length (bg_packet c nets)
    then wpa_driver_nl80211_driver_cmd env bss cmd buf n s = None
    else \<exists>r s'. wpa_driver_nl80211_driver_cmd env bss cmd buf n s = Some (r, s') \<and>
      ioctls s' = ioctls s @ [request (map Some (bg_packet c nets) @
        replicate (720 - length (bg_packet c nets)) None)] \<and>
      r = fst (priv_ioctl env (wtrace s) (last (ioctls s')))"
  using bgscan_cmd [OF assms] .

theorem nl_bgscan_packet_witness:
  "\<exists>r s'. wpa_driver_nl80211_driver_cmd demo_nl demo_bss 0 0 13 (demo_nl_state ''BGSCAN-START'') = Some (r, s') \<and>
     length (ioctls s') = 1"
proof -
  let ?c = "''BGSCAN-START''"
  have c: "cstr (mem (demo_nl_state ?c) 0) = Some ?c" by (simp add: no_nul_def)
  have k: "strncasecmp_eq ?c ''BGSCAN-START'' 12" "\<not> nl_own_cmd ?c"
    by (simp_all add: nl_own_cmd_def strcasecmp_eq_def strncasecmp_eq_def tolower_def)
  have "conf \<lparr>conf = Some []\<rparr> = Some []" by simp
  note p = nl_bgscan_packet [OF c k demo_nl_simps(1,2) this, of demo_nl 0 13]
  have "drop 1 (tokens ?c) = []"
    by (simp add: tokens.simps [of ?c] tokens.simps [of "[]"] strtok_def getop_delim_def)
  from bare_packet_length [OF this, of "[]"] p show ?thesis
    by (auto simp: demo_nl_state_def ioctls_def map_filter_simps)
qed

text \<open>The plain command is always safe: without options, \<open>BGSCAN-START\<close> never leaves the
  buffer, whatever networks are configured.\<close>
theorem nl_bgscan_default_safe:
  assumes "cstr (mem s cmd) = Some c" and "strncasecmp_eq c ''BGSCAN-START'' 12" and "\<not> nl_own_cmd c"
    and "drop 1 (tokens c) = []"
    and "drv bss = Some dr" and "ctx dr = Some wpa_s" and "conf wpa_s = Some nets"
  shows "\<exists>r s'. wpa_driver_nl80211_driver_cmd env bss cmd buf n s = Some (r, s') \<and>
      length (ioctls s') = length (ioctls s) + 1"
  using bgscan_cmd [OF assms(1-3,5-7), of env buf n] bare_packet_length [OF assms(4), of nets]
  by auto

theorem nl_bgscan_default_safe_witness:
  "\<exists>r s'. wpa_driver_nl80211_driver_cmd demo_nl demo_bss 0 0 13 (demo_nl_state ''BGSCAN-START '') = Some (r, s')"
proof -
  let ?c = "''BGSCAN-START ''"
  have c: "cstr (mem (demo_nl_state ?c) 0) = Some ?c" by (simp add: no_nul_def)
  have k: "strncasecmp_eq ?c ''BGSCAN-START'' 12" "\<not> nl_own_cmd ?c"
    by (simp_all add: nl_own_cmd_def strcasecmp_eq_def strncasecmp_eq_def tolower_def)
  have t: "drop 1 (tokens ?c) = []"
    by (simp add: tokens.simps [of ?c] tokens.simps [of "[]"] strtok_def getop_delim_def)
  have "conf \<lparr>conf = Some []\<rparr> = Some []" by simp
  from nl_bgscan_default_safe [OF c k t demo_nl_simps(1,2) this, of demo_nl 0 13] show ?thesis by blast
qed

text \<open>The options are not checked: a single SSID option overflows the buffer on the stack
  exactly from 700 characters on, whatever the other arguments are.\<close>
theorem nl_bgscan_overflow:
  assumes "cstr (mem s cmd) = Some (''BGSCAN-START SSID='' @ replicate k CHR ''a'')"
    and "drv bss = Some dr" and "ctx dr = Some wpa_s" and "conf wpa_s = Some nets"
  shows "wpa_driver_nl80211_driver_cmd env bss cmd buf n s = None \<longleftrightarrow> 700 \<le> k"
proof -
  let ?c = "''BGSCAN-START SSID='' @ replicate k CHR ''a''"
  have c: "strncasecmp_eq ?c ''BGSCAN-START'' 12" "\<not> nl_own_cmd ?c"
    by (simp_all add: nl_own_cmd_def strcasecmp_eq_def strncasecmp_eq_def tolower_def)
  from bgscan_cmd [OF assms(1) c assms(2-4), of env buf n] ssid_command_packet [of k nets]
  show ?thesis by (auto split: if_splits)
qed

theorem nl_bgscan_overflow_witness:
  "wpa_driver_nl80211_driver_cmd demo_nl demo_bss 0 0 13
     (demo_nl_state (''BGSCAN-START SSID='' @ replicate 700 CHR ''a'')) = None"
proof -
  let ?c = "''BGSCAN-START SSID='' @ replicate 700 CHR ''a''"
  have "no_nul ?c" by (simp add: no_nul_def)
  then have c: "cstr (mem (demo_nl_state ?c) 0) = Some ?c" by (rule demo_cstr)
  have "conf \<lparr>conf = Some []\<rparr> = Some []" by simp
  from nl_bgscan_overflow [OF c demo_nl_simps(1,2) this] show ?thesis by simp
qed

subsection \<open>Power save and the error counter\<close>

text \<open>A power mode command asks for what it says: when a message can be built, \<open>POWERMODE n\<close>
  puts exactly one power-save state into it, enabled for 0 and disabled for every other number,
  and the error counter is cleared or advanced by the result. The callback is given back, but
  the message is not: every such command leaks one netlink message.\<close>
theorem nl_power_mode_set:
  assumes "cstr (mem s cmd) = Some (''POWERMODE '' @ dec_of_int i)" and "- (2 ^ 31) \<le> i" and "i < 2 ^ 31"
    and "drv bss = Some dr" and "nlmsg_alloc env (wtrace s) \<noteq> None" and "\<forall>t a v. nla_put_u32 env t a v"
  shows "\<exists>r s1 evs. wpa_driver_nl80211_driver_cmd env bss cmd buf n s = Some (r,
      if r < 0 then wpa_driver_send_hang_msg env s1 else s1\<lparr>drv_errors := 0\<rparr>) \<and>
    wtrace s1 = wtrace s @ evs \<and> drv_errors s1 = drv_errors s \<and>
    ps_puts evs = [if i = 0 then NL80211_PS_ENABLED env else NL80211_PS_DISABLED env] \<and>
    cb_balance evs = 0 \<and> msg_balance evs = 1"
proof -
  obtain r s1 where p: "wpa_driver_set_power_save env dr (atoi (dec_of_int i)) s = (r, s1)" by fastforce
  have i: "atoi (dec_of_int i) = i" using atoi_dec_of_int [of i "[]"] assms(2,3) by simp
  from p [unfolded i] show ?thesis
  proof (cases rule: set_power_save_cases)
    case (no_msg evs)
    from no_msg(5) assms(5,6) show ?thesis by simp
  next
    case (sent evs)
    from powermode_dispatch [OF assms(1,4) p] sent show ?thesis
      by (intro exI [of _ r] exI [of _ s1] exI [of _ evs])
        (simp add: nl_effect_def ps_value_def WPA_PS_ENABLED_def)
  qed
qed

theorem nl_power_mode_set_witness:
  "\<exists>r s1. wpa_driver_nl80211_driver_cmd demo_nl demo_bss 0 0 13 (demo_nl_state ''POWERMODE 1'') = Some (r,
      if r < 0 then wpa_driver_send_hang_msg demo_nl s1 else s1\<lparr>drv_errors := 0\<rparr>) \<and>
    ps_puts (wtrace s1) = [0] \<and> msg_balance (wtrace s1) = 1"
proof -
  have "''POWERMODE '' @ dec_of_int 1 = ''POWERMODE 1''"
    by (simp add: dec_of_int_def dec_of_nat.simps char_of_def bit_iff_odd)
  then have c: "cstr (mem (demo_nl_state ''POWERMODE 1'') 0) = Some (''POWERMODE '' @ dec_of_int 1)"
    by (simp add: no_nul_def)
  have "nlmsg_alloc demo_nl (wtrace (demo_nl_state ''POWERMODE 1'')) \<noteq> None" "\<forall>t a v. nla_put_u32 demo_nl t a v"
    by (simp_all add: demo_nl_def)
  moreover have "NL80211_PS_DISABLED demo_nl = 0" by (simp add: demo_nl_def)
  ultimately show ?thesis
    using nl_power_mode_set [OF c _ _ demo_nl_simps(1), of demo_nl 0 13]
    by (auto split del: if_split)
qed

lemma get_power_save_sent:
  assumes "nlmsg_alloc env (wtrace s) = Some m" and "\<forall>t a v. nla_put_u32 env t a v"
    and "\<forall>t. nl_cb_alloc env t \<noteq> None" and "\<forall>t m. 0 \<le> nl_send_auto_complete env t m"
    and "\<forall>t. nl_recvmsgs env t = (0, msgs)"
  shows "\<exists>s1 evs. wpa_driver_get_power_save env dr state s =
      (0, foldl (get_power_mode_handler env) state msgs, s1) \<and> nl_effect s s1 evs"
proof -
  obtain r d s1 where g: "wpa_driver_get_power_save env dr state s = (r, d, s1)" by (metis prod_cases3)
  let ?t = "wtrace s @ [EvMsgAlloc (Some m), EvGenlPut m NL80211_CMD_GET_POWER_SAVE,
      EvNlaPut m NL80211_ATTR_IFINDEX (ifindex dr) True]"
  obtain cb where cb: "nl_cb_alloc env ?t = Some cb" using assms(3) by blast
  note defs = wpa_driver_get_power_save_def send_and_recv_msgs_def NLA_PUT_U32_def nlmsg_free_def Let_def
  have "r = 0 \<and> d = foldl (get_power_mode_handler env) state msgs \<and>
    nl_effect s s1 [EvMsgAlloc (Some m), EvGenlPut m NL80211_CMD_GET_POWER_SAVE,
      EvNlaPut m NL80211_ATTR_IFINDEX (ifindex dr) True, EvCbAlloc (Some cb), EvCbSet cb, EvSend m, EvRecv cb,
      EvCbPut cb, EvMsgFree None]"
    using g assms cb by (auto simp: defs nl_effect_def nl_silent_def not_less [symmetric])
  with g show ?thesis by blast
qed

lemma handler_last: "foldl (get_power_mode_handler env) state (msgs @ [Some v]) =
    (if v = NL80211_PS_ENABLED env then 0 else 1)"
  by (simp add: get_power_mode_handler_def WPA_PS_ENABLED_def WPA_PS_DISABLED_def)

lemma snprintf_fits:
  assumes "length txt < n" and "n \<le> length b" and "no_nul txt"
  obtains b' where "snprintf n txt b = Some (int (length txt), b')" "cstr b' = Some txt"
    "length b' = length b"
proof -
  have "take (n - 1) txt = txt" using assms(1) by simp
  with assms show thesis
    by (intro that [of "map Some txt @ Some (CHR 0x00) # drop (length txt + 1) b"])
      (simp_all add: snprintf_def blit_def)
qed

text \<open>The power mode is read back: when the kernel's last message carries the power-save state,
  \<open>GETPOWER\<close> writes the line with 0 for an enabled and 1 for a disabled state into the caller's
  buffer, returns its length and clears the error counter.\<close>
theorem nl_power_mode_get:
  assumes "cstr (mem s cmd) = Some ''GETPOWER''" and "drv bss = Some dr"
    and "nlmsg_alloc env (wtrace s) = Some m" and "\<forall>t a v. nla_put_u32 env t a v"
    and "\<forall>t. nl_cb_alloc env t \<noteq> None" and "\<forall>t m. 0 \<le> nl_send_auto_complete env t m"
    and "\<forall>t. nl_recvmsgs env t = (0, msgs @ [Some v])" and "14 < n" and "n \<le> length (mem s buf)"
  shows "\<exists>s'. wpa_driver_nl80211_driver_cmd env bss cmd buf n s = Some (14, s') \<and>
    cstr (mem s' buf) = Some (''POWERMODE = '' @
      (if v = NL80211_PS_ENABLED env then ''0'' else ''1'') @ [CHR 0x0A]) \<and> drv_errors s' = 0"
proof -
  let ?st = "if v = NL80211_PS_ENABLED env then 0 else 1 :: int"
  let ?txt = "''POWERMODE = '' @ (if v = NL80211_PS_ENABLED env then ''0'' else ''1'') @ [CHR 0x0A]"
  from get_power_save_sent [OF assms(3-7), of dr "- 1"] obtain s1 evs where
    g: "wpa_driver_get_power_save env dr (- 1) s = (0, ?st, s1)" and e: "nl_effect s s1 evs"
    unfolding handler_last by blast
  have line: "''POWERMODE = '' @ dec_of_int ?st @ [CHR 0x0A] = ?txt"
    by (simp add: dec_of_int_def dec_of_nat.simps char_of_def bit_iff_odd)
  have len: "length ?txt = 14" and nul: "no_nul ?txt" by (simp_all add: no_nul_def)
  have "mem s1 buf = mem s buf" using e by (simp add: nl_effect_def)
  then have blk: "length ?txt < n" "n \<le> length (mem s1 buf)" using len assms(8,9) by simp_all
  obtain b where b: "snprintf n ?txt (mem s1 buf) = Some (int (length ?txt), b)" "cstr b = Some ?txt"
    by (rule snprintf_fits [OF blk nul])
  have l14: "int (length ?txt) = 14" using len by simp
  have "wpa_driver_nl80211_driver_cmd env bss cmd buf n s = Some (14, (set_block buf b s1)\<lparr>drv_errors := 0\<rparr>)"
    unfolding getpower_dispatch [OF assms(1,2) g] line b(1) l14 by simp
  with b(2) show ?thesis by simp
qed

theorem nl_power_mode_get_witness:
  "\<exists>s'. wpa_driver_nl80211_driver_cmd demo_nl demo_bss 0 1 20 (demo_nl_state ''GETPOWER'') = Some (14, s') \<and>
    cstr (mem s' 1) = Some (''POWERMODE = 0'' @ [CHR 0x0A])"
proof -
  have c: "cstr (mem (demo_nl_state ''GETPOWER'') 0) = Some ''GETPOWER''" by (simp add: no_nul_def)
  have d: "nlmsg_alloc demo_nl (wtrace (demo_nl_state ''GETPOWER'')) = Some 2" "\<forall>t a v. nla_put_u32 demo_nl t a v"
    "\<forall>t. nl_cb_alloc demo_nl t \<noteq> None" "\<forall>t m. 0 \<le> nl_send_auto_complete demo_nl t m"
    "\<forall>t. nl_recvmsgs demo_nl t = (0, [] @ [Some 1])" "NL80211_PS_ENABLED demo_nl = 1"
    by (simp_all add: demo_nl_def)
  from nl_power_mode_get [OF c demo_nl_simps(1) d(1-5), of 20 1] show ?thesis unfolding d(6) by auto
qed

fun repeat_cmd :: "nl_env \<Rightarrow> i802_bss \<Rightarrow> nat \<Rightarrow> nat \<Rightarrow> nat \<Rightarrow> nat \<Rightarrow> nl_state \<Rightarrow> nl_state option" where
  "repeat_cmd env bss cmd buf n 0 s = Some s"
| "repeat_cmd env bss cmd buf n (Suc k) s =
     Option.bind (repeat_cmd env bss cmd buf n k s)
       (\<lambda>s. map_option snd (wpa_driver_nl80211_driver_cmd env bss cmd buf n s))"

text \<open>The driver is reported as hung exactly when it should be: in any series of failing power
  mode commands, \<open>HANGED\<close> is sent once for every \<open>DRV_NUMBER_SEQUENTIAL_ERRORS + 1\<close> failures and
  the counter holds the rest.\<close>
theorem nl_hang_reports:
  assumes "cstr (mem s cmd) = Some (''POWERMODE '' @ arg)" and "drv bss = Some dr"
    and "\<forall>s. fst (wpa_driver_set_power_save env dr (atoi arg) s) < 0"
    and "0 \<le> DRV_NUMBER_SEQUENTIAL_ERRORS env" and "drv_errors s = 0"
  shows "\<exists>s'. repeat_cmd env bss cmd buf n k s = Some s' \<and>
    drv_errors s' = int k mod (DRV_NUMBER_SEQUENTIAL_ERRORS env + 1) \<and>
    int (hang_reports env s') = int (hang_reports env s) + int k div (DRV_NUMBER_SEQUENTIAL_ERRORS env + 1)"
proof -
  have "\<exists>s'. repeat_cmd env bss cmd buf n k s = Some s' \<and> mem s' = mem s \<and> (nl_failure env ^^ k) s s'"
  proof (induction k)
    case 0
    then show ?case by simp
  next
    case (Suc k)
    then obtain t where t: "repeat_cmd env bss cmd buf n k s = Some t" "mem t = mem s"
      "(nl_failure env ^^ k) s t" by blast
    obtain r s1 where p: "wpa_driver_set_power_save env dr (atoi arg) t = (r, s1)" by fastforce
    with assms(3) have neg: "r < 0" by (metis fst_conv)
    from p obtain evs where e: "nl_effect t s1 evs" by (cases rule: set_power_save_cases)
    let ?t = "wpa_driver_send_hang_msg env s1"
    from assms(1) t(2) have "cstr (mem t cmd) = Some (''POWERMODE '' @ arg)" by simp
    from powermode_dispatch [OF this assms(2) p] neg
    have "wpa_driver_nl80211_driver_cmd env bss cmd buf n t = Some (r, ?t)" by simp
    moreover have "nl_failure env t ?t" using e by (auto simp: nl_failure_def)
    moreover have "mem ?t = mem s" using e t(2)
      by (simp add: nl_effect_def wpa_driver_send_hang_msg_def Let_def)
    ultimately show ?case using t by auto
  qed
  then obtain s' where "repeat_cmd env bss cmd buf n k s = Some s'" "(nl_failure env ^^ k) s s'" by blast
  with nl_hang.series [OF assms(4,5)] show ?thesis by blast
qed

theorem nl_hang_reports_witness:
  "\<exists>s'. repeat_cmd (demo_nl\<lparr>nlmsg_alloc := \<lambda>t. None\<rparr>) demo_bss 0 0 13 7 (demo_nl_state ''POWERMODE 1'') = Some s' \<and>
    drv_errors s' = 2 \<and> hang_reports (demo_nl\<lparr>nlmsg_alloc := \<lambda>t. None\<rparr>) s' = 1"
proof -
  let ?e = "demo_nl\<lparr>nlmsg_alloc := \<lambda>t. None\<rparr>" and ?s = "demo_nl_state ''POWERMODE 1''"
  have c: "cstr (mem ?s 0) = Some (''POWERMODE '' @ ''1'')" by (simp add: no_nul_def)
  have f: "\<forall>s. fst (wpa_driver_set_power_save ?e demo_dr (atoi ''1'') s) < 0"
    by (simp add: wpa_driver_set_power_save_def Let_def)
  have n: "DRV_NUMBER_SEQUENTIAL_ERRORS ?e = 4" by (simp add: demo_nl_def)
  have "hang_reports ?e ?s = 0" by (simp add: hang_reports_def)
  moreover have "0 \<le> DRV_NUMBER_SEQUENTIAL_ERRORS ?e" unfolding n by simp
  ultimately show ?thesis
    using nl_hang_reports [OF c demo_nl_simps(1) f, of 0 13 7] unfolding n by auto
qed

subsection \<open>Private commands\<close>

lemma set_block_same [simp]: "set_block p (mem s p) s = s"
  by (simp add: set_block_def)

lemma private_same_block:
  assumes "cstr (mem s p) = Some c" and "\<not> nl_own_cmd c" and "\<not> strncasecmp_eq c ''BGSCAN-START'' 12"
    and "\<not> answers_in_buf c" and "drv bss = Some dr" and "n \<le> length (mem s p)" and "quiet_driver env"
  obtains s' where "wpa_driver_nl80211_driver_cmd env bss p p n s = Some (0, s')"
    "ioctls s' = ioctls s @ [request (take n (mem s p))]" "mem s' = mem s"
proof -
  let ?pc = "request (take n (mem s p))"
  let ?t = "wlog (EvPrivIoctl (ifr_name (ifname bss)) ?pc) s"
  obtain ret where ret: "priv_ioctl env (wtrace s) ?pc = (ret, [])"
    using assms(7) by (metis quiet_driver_def prod.exhaust_sel)
  have pc: "\<lparr>pc_buf = take n (mem s p), pc_used_len = n, pc_total_len = n\<rparr> = ?pc"
    using assms(6) by (simp add: request_def min_absorb2)
  have k: "kernel_reply [] n (mem s p) = Some (mem s p)" by (simp add: kernel_reply_def blit_def)
  have "set_block p (mem s p) ?t = ?t" using set_block_same [of p ?t] by simp
  then have i: "private_ioctl env bss p n s = Some (ret, ?t)"
    using assms(6) ret pc k by (simp add: private_ioctl_def Let_def)
  let ?s' = "if \<not> ret < 0 \<and> changes_channels c then wlog EvSupplicantEvent (?t\<lparr>drv_errors := 0\<rparr>)
    else ?t\<lparr>drv_errors := 0\<rparr>"
  have "wpa_driver_nl80211_driver_cmd env bss p p n s = Some (0, ?s')"
    unfolding private_dispatch [OF assms(1,2)]
    using assms(1,3-5) blit_same [OF assms(1)] i
    by (simp add: nl_private_cmd_def Let_def del: bind_Some_iff)
  then show thesis by (rule that) simp_all
qed

text \<open>C39. What becomes of the driver's errors, for every command that the library does not handle
  itself. A command other than \<open>BGSCAN-START\<close> never reports an error: whatever the driver answers,
  its result is at least 0 and the error counter is cleared, so that no number of failures is
  ever reported as a hang and the error branch of the callers is dead. \<open>BGSCAN-START\<close> is the
  exception: it returns what the ioctl returned, or -1 without an ioctl, and leaves the counter
  as it is.\<close>
theorem nl_private_never_fails:
  assumes "cstr (mem s cmd) = Some c" and "\<not> nl_own_cmd c"
    and "wpa_driver_nl80211_driver_cmd env bss cmd buf n s = Some (r, s')"
  shows "if strncasecmp_eq c ''BGSCAN-START'' 12
    then drv_errors s' = drv_errors s \<and>
      (r = - 1 \<and> wtrace s' = wtrace s \<or>
       (\<exists>pc. wtrace s' = wtrace s @ [EvPrivIoctl (ifr_name (ifname bss)) pc] \<and> r = fst (priv_ioctl env (wtrace s) pc)))
    else 0 \<le> r \<and> drv_errors s' = 0"
proof (cases "strncasecmp_eq c ''BGSCAN-START'' 12")
  case True
  have "wpa_driver_set_backgroundscan_params env bss cmd s = Some (r, s')"
    using assms True by (simp add: private_dispatch nl_private_cmd_def del: bind_Some_iff)
  then consider "r = - 1" "s' = s"
    | b where "private_ioctl env bss (next_block s) NL80211_BGCAN_BUF_LEN (snd (push_block b s)) = Some (r, s')"
    by (fastforce simp: wpa_driver_set_backgroundscan_params_def push_block_def Let_def split: option.splits)
  then show ?thesis
  proof cases
    case 2
    note e = private_ioctl_effect [OF 2]
    obtain b' where "r = fst (priv_ioctl env (wtrace (snd (push_block b s)))
        (request (take NL80211_BGCAN_BUF_LEN (mem (snd (push_block b s)) (next_block s)))))"
      by (rule private_ioctl_defined [OF e(3), of env bss]) (use 2 in auto)
    with e True show ?thesis by (auto simp: push_block_def)
  qed (use True in simp)
next
  case False
  with assms(3) obtain b ret s1 where
    "private_ioctl env bss buf n (set_block buf b s) = Some (ret, s1)" and
    fin: "(if ret < 0 then Some (0, s1\<lparr>drv_errors := 0\<rparr>)
       else do {
         c \<leftarrow> cstr (mem (s1\<lparr>drv_errors := 0\<rparr>) cmd);
         (if answers_in_buf c then do { t \<leftarrow> cstr (mem (s1\<lparr>drv_errors := 0\<rparr>) buf); Some (int (length t), s1\<lparr>drv_errors := 0\<rparr>) }
          else if changes_channels c then Some (0, wlog EvSupplicantEvent (s1\<lparr>drv_errors := 0\<rparr>))
          else Some (0, s1\<lparr>drv_errors := 0\<rparr>)) }) = Some (r, s')"
    unfolding private_dispatch [OF assms(1,2)] by (auto simp: nl_private_cmd_def assms(1) Let_def)
  with False show ?thesis by (auto split: if_splits)
qed

theorem nl_private_never_fails_witness:
  "\<exists>r s'. wpa_driver_nl80211_driver_cmd (demo_nl\<lparr>priv_ioctl := \<lambda>t pc. (- 1, [])\<rparr>) demo_bss 0 0 5
     (demo_nl_state ''SETX'') = Some (r, s') \<and> 0 \<le> r \<and> drv_errors s' = 0"
proof -
  let ?e = "demo_nl\<lparr>priv_ioctl := \<lambda>t pc. (- 1, [])\<rparr>"
  have c: "cstr (mem (demo_nl_state ''SETX'') 0) = Some ''SETX''" by (simp add: no_nul_def)
  have k: "\<not> nl_own_cmd ''SETX''" "\<not> strncasecmp_eq ''SETX'' ''BGSCAN-START'' 12" "\<not> answers_in_buf ''SETX''"
    by (simp_all add: nl_own_cmd_def answers_in_buf_def strcasecmp_eq_def strncasecmp_eq_def tolower_def)
  have q: "quiet_driver ?e" by (simp add: quiet_driver_def)
  have len: "5 \<le> length (mem (demo_nl_state ''SETX'') 0)" by simp
  obtain s' where run: "wpa_driver_nl80211_driver_cmd ?e demo_bss 0 0 5 (demo_nl_state ''SETX'') = Some (0, s')"
    by (rule private_same_block [OF c k demo_nl_simps(1) len q])
  have "0 \<le> (0 :: int) \<and> drv_errors s' = 0" using nl_private_never_fails [OF c k(1) run] k(2) by (simp only: if_False)
  with run show ?thesis by blast
qed

lemma quiet_commands:
  "\<not> nl_own_cmd (''P2P_SET_'' @ t)" "\<not> strncasecmp_eq (''P2P_SET_'' @ t) ''BGSCAN-START'' 12"
  "\<not> answers_in_buf (''P2P_SET_'' @ t)"
  "\<not> nl_own_cmd (''SET_AP_'' @ t)" "\<not> strncasecmp_eq (''SET_AP_'' @ t) ''BGSCAN-START'' 12"
  "\<not> answers_in_buf (''SET_AP_'' @ t)"
  by (simp_all add: nl_own_cmd_def answers_in_buf_def strcasecmp_eq_def strncasecmp_eq_def tolower_def)

lemma dec_no_nul: "no_nul (dec_of_int i)"
proof -
  have "no_nul (dec_of_nat n)" for n
    using dec_of_nat_digits [of n] by (auto simp: no_nul_def isdigit_def)
  then show ?thesis by (simp add: dec_of_int_def no_nul_def)
qed

lemma p2p_command_sent:
  assumes "no_nul t" and "length (''P2P_SET_'' @ t) < MAX_DRV_CMD_SIZE env" and "drv bss = Some dr"
    and "quiet_driver env"
  shows "\<exists>s'. p2p_command env bss (''P2P_SET_'' @ t) s = Some (0, s') \<and>
    ioctls s' = ioctls s @ [request (map Some ((''P2P_SET_'' @ t) @ [CHR 0x00]))]"
proof -
  let ?c = "''P2P_SET_'' @ t"
  let ?n = "MAX_DRV_CMD_SIZE env"
  let ?b = "map Some (?c @ [CHR 0x00]) @ replicate (?n - length ?c - 1) (Some (CHR 0x00))"
  have sn: "snprintf ?n ?c (replicate ?n (Some (CHR 0x00))) = Some (int (length ?c), ?b)"
    using assms(2) by (simp add: snprintf_def blit_def min_absorb2 drop_replicate)
  let ?s = "s\<lparr>mem := (mem s)(next_block s := ?b), next_block := next_block s + 1\<rparr>"
  have blk: "mem ?s (next_block s) = ?b" by simp
  have c: "cstr (mem ?s (next_block s)) = Some ?c"
    unfolding blk using cstr_terminated [of ?c] assms(1) by (simp add: no_nul_def)
  have len: "length ?c + 1 \<le> length (mem ?s (next_block s))" unfolding blk by simp
  obtain s' where s': "wpa_driver_nl80211_driver_cmd env bss (next_block s) (next_block s) (length ?c + 1) ?s = Some (0, s')"
    "ioctls s' = ioctls ?s @ [request (take (length ?c + 1) (mem ?s (next_block s)))]"
    by (rule private_same_block [OF c quiet_commands(1-3) assms(3) len assms(4)])
  have "take (length ?c + 1) ?b = map Some (?c @ [CHR 0x00])" by simp
  with s' blk have io: "ioctls s' = ioctls s @ [request (map Some (?c @ [CHR 0x00]))]" by simp
  have "p2p_command env bss ?c s = Some (0, s')"
    unfolding p2p_command_def sn using s'(1) c
    by (simp only: Option.bind.simps prod.case push_block_def Let_def)
  with io show ?thesis by blast
qed

text \<open>The P2P commands reach the driver as text: \<open>set_p2p_noa\<close> and \<open>set_p2p_ps\<close> make one private
  ioctl, whose bytes are the command's name and its three numbers in decimal with the
  terminating NUL and nothing else, and return 0.\<close>
theorem nl_p2p_commands:
  assumes "length (dec_of_int (uint count) @ dec_of_int a @ dec_of_int b) + 15 < MAX_DRV_CMD_SIZE env"
    and "length (dec_of_int l @ dec_of_int p @ dec_of_int w) + 14 < MAX_DRV_CMD_SIZE env"
    and "drv bss = Some dr" and "quiet_driver env"
  shows "(\<exists>s'. wpa_driver_set_p2p_noa env bss count a b s = Some (0, s') \<and>
      ioctls s' = ioctls s @ [request (map Some (''P2P_SET_NOA '' @ dec_of_int (uint count) @ '' '' @
        dec_of_int a @ '' '' @ dec_of_int b @ [CHR 0x00]))]) \<and>
    (\<exists>s'. wpa_driver_set_p2p_ps env bss l p w s = Some (0, s') \<and>
      ioctls s' = ioctls s @ [request (map Some (''P2P_SET_PS '' @ dec_of_int l @ '' '' @
        dec_of_int p @ '' '' @ dec_of_int w @ [CHR 0x00]))])"
proof -
  let ?n = "''NOA '' @ dec_of_int (uint count) @ '' '' @ dec_of_int a @ '' '' @ dec_of_int b"
  let ?p = "''PS '' @ dec_of_int l @ '' '' @ dec_of_int p @ '' '' @ dec_of_int w"
  have nul: "no_nul ?n" "no_nul ?p" using dec_no_nul by (auto simp: no_nul_def)
  have len: "length (''P2P_SET_'' @ ?n) < MAX_DRV_CMD_SIZE env" "length (''P2P_SET_'' @ ?p) < MAX_DRV_CMD_SIZE env"
    using assms(1,2) by simp_all
  from p2p_command_sent [OF nul(1) len(1) assms(3,4), of s] p2p_command_sent [OF nul(2) len(2) assms(3,4), of s]
  show ?thesis by (simp add: wpa_driver_set_p2p_noa_def wpa_driver_set_p2p_ps_def)
qed

theorem nl_p2p_commands_witness:
  "\<exists>s'. wpa_driver_set_p2p_noa demo_nl demo_bss 1 2 3 (demo_nl_state ''x'') = Some (0, s') \<and>
     ioctls s' = [request (map Some (''P2P_SET_NOA 1 2 3'' @ [CHR 0x00]))]"
proof -
  have d: "dec_of_int (uint (1 :: u8)) = ''1''" "dec_of_int 2 = ''2''" "dec_of_int 3 = ''3''"
    by (simp_all add: dec_of_int_def dec_of_nat.simps char_of_def bit_iff_odd)
  have m: "MAX_DRV_CMD_SIZE demo_nl = 256" by (simp add: demo_nl_def)
  have i: "ioctls (demo_nl_state ''x'') = []" by (simp add: ioctls_def map_filter_simps)
  have "length (dec_of_int (uint (1 :: u8)) @ dec_of_int 2 @ dec_of_int 3) + 15 < MAX_DRV_CMD_SIZE demo_nl"
    "length (dec_of_int 2 @ dec_of_int 2 @ dec_of_int 2) + 14 < MAX_DRV_CMD_SIZE demo_nl"
    unfolding d m by simp_all
  from nl_p2p_commands [OF this demo_nl_simps(1) demo_quiet, of "demo_nl_state ''x''"] show ?thesis
    unfolding d i by simp
qed

subsection \<open>The WPS and P2P elements of the access point\<close>

definition ie_command :: "int \<Rightarrow> string \<Rightarrow> string" where
  "ie_command k ie = ''SET_AP_WPS_P2P_IE '' @ dec_of_int k @ [CHR 0x00] @ ie"

lemma ap_head:
  assumes "k \<in> {1, 2, 4}"
  shows "length (dec_of_int k) = 1"
  using assms by (auto simp: dec_of_int_def dec_of_nat.simps)

lemma cstr_map_defined: "cstr (map Some w) \<noteq> None \<longleftrightarrow> CHR 0x00 \<in> set w"
  by (induction w) auto

text \<open>A private command in a block that still holds a terminated string after the answer.\<close>

lemma private_answered:
  assumes c: "cstr (mem s p) = Some c" and "\<not> nl_own_cmd c" and "\<not> strncasecmp_eq c ''BGSCAN-START'' 12"
    and "drv bss = Some dr" and len: "n \<le> length (mem s p)"
    and nul: "\<And>t pc. cstr (map Some (take n (snd (priv_ioctl env t pc))) @
      drop (length (take n (snd (priv_ioctl env t pc)))) (mem s p)) \<noteq> None"
  obtains r x s' where "wpa_driver_nl80211_driver_cmd env bss p p n s = Some (r, s')" "0 \<le> r"
    "quiet_driver env \<Longrightarrow> \<not> answers_in_buf c \<Longrightarrow> r = 0"
    "x = [] \<or> x = [EvSupplicantEvent]"
    "wtrace s' = wtrace s @ EvPrivIoctl (ifr_name (ifname bss)) (request (take n (mem s p))) # x"
proof -
  let ?pc = "request (take n (mem s p))"
  obtain ret reply where r: "priv_ioctl env (wtrace s) ?pc = (ret, reply)" by fastforce
  let ?b = "map Some (take n reply) @ drop (length (take n reply)) (mem s p)"
  let ?t = "(set_block p ?b (wlog (EvPrivIoctl (ifr_name (ifname bss)) ?pc) s))\<lparr>drv_errors := 0\<rparr>"
  have pc: "\<lparr>pc_buf = take n (mem s p), pc_used_len = n, pc_total_len = n\<rparr> = ?pc"
    using len by (simp add: request_def min_absorb2)
  have "kernel_reply reply n (mem s p) = Some ?b" using len by (simp add: kernel_reply_def blit_def)
  then have i: "private_ioctl env bss p n s =
      Some (ret, set_block p ?b (wlog (EvPrivIoctl (ifr_name (ifname bss)) ?pc) s))"
    using len r pc by (simp add: private_ioctl_def Let_def)
  obtain c' where c': "cstr ?b = Some c'" using nul [of "wtrace s" ?pc] r by auto
  have quiet: "c' = c" if "quiet_driver env"
  proof -
    have "reply = []" using that r by (metis snd_conv quiet_driver_def)
    with c c' show ?thesis by simp
  qed
  have "wpa_driver_nl80211_driver_cmd env bss p p n s =
    (if ret < 0 then Some (0, ?t)
     else if answers_in_buf c' then Some (int (length c'), ?t)
     else if changes_channels c' then Some (0, wlog EvSupplicantEvent ?t) else Some (0, ?t))"
    unfolding private_dispatch [OF c assms(2)]
    using c assms(3,4) blit_same [OF c] i c'
    by (simp add: nl_private_cmd_def Let_def del: bind_Some_iff)
  then show thesis
    using quiet
    by (intro that [of "if ret < 0 then 0 else if answers_in_buf c' then int (length c') else 0"
        "if ret < 0 \<or> answers_in_buf c' \<or> \<not> changes_channels c' then ?t else wlog EvSupplicantEvent ?t"
        "if ret < 0 \<or> answers_in_buf c' \<or> \<not> changes_channels c' then [] else [EvSupplicantEvent]"]) auto
qed

text \<open>The buffer of one turn: the command and the element, and zeros up to 512 bytes.\<close>

lemma ap_ie_turn_sent:
  assumes "k \<in> {1, 2, 4}" and "length ie \<le> 491" and "drv bss = Some dr" and "wpabuf_dup_ok env (wtrace s)"
  obtains r x s' where "ap_ie_turn env bss buf (k, Some ie) ret s = Some (r, False, s')" "0 \<le> r"
    "quiet_driver env \<Longrightarrow> r = 0" "x = [] \<or> x = [EvSupplicantEvent]"
    "wtrace s' = wtrace s @ EvPrivIoctl (ifr_name (ifname bss)) (request (map Some (ie_command k ie))) # x"
proof -
  let ?h = "''SET_AP_WPS_P2P_IE '' @ dec_of_int k @ [CHR 0x00]"
  let ?z = "replicate 512 (Some (CHR 0x00)) :: cell list"
  let ?n = "17 + 3 + length ie"
  have h: "length ?h = 20" using ap_head [OF assms(1)] by simp
  have b1: "blit ?h ?z = Some (map Some ?h @ drop 20 ?z)" using h by (simp add: blit_def)
  have cur: "(length ?h, map Some ?h @ drop 20 ?z) = cursor ?h ?z" using h by (simp add: cursor_def)
  let ?b = "map Some (?h @ ie) @ drop (20 + length ie) ?z"
  have "length ?h \<le> length ?z" using h by simp
  from puts_cursor [OF this, of ie]
  have b2: "puts ie (length ?h, map Some ?h @ drop 20 ?z) = Some (20 + length ie, ?b)"
    unfolding cur using h assms(2) by (simp add: cursor_def)
  let ?s = "set_block buf ?b (set_block buf (map Some ?h @ drop 20 ?z) s)"
  have blk: "mem ?s buf = ?b" by simp
  let ?c = "''SET_AP_WPS_P2P_IE '' @ dec_of_int k"
  have "mem ?s buf = map Some ?c @ Some (CHR 0x00) # (map Some ie @ drop (20 + length ie) ?z)"
    unfolding blk by simp
  moreover have nn: "no_nul ?c" using dec_no_nul by (simp add: no_nul_def)
  ultimately have c: "cstr (mem ?s buf) = Some (''SET_AP_'' @ ''WPS_P2P_IE '' @ dec_of_int k)"
    using cstr_terminated [OF nn] by simp
  have len: "?n \<le> length (mem ?s buf)" unfolding blk using h by simp
  have nul: "cstr (map Some (take ?n reply) @ drop (length (take ?n reply)) (mem ?s buf)) \<noteq> None" for reply
  proof -
    let ?w = "?h @ ie @ replicate (492 - length ie) (CHR 0x00)"
    have w: "mem ?s buf = map Some ?w" "length ?w = 512" "last ?w = CHR 0x00"
      unfolding blk using assms(2) h by (simp_all add: drop_replicate map_replicate_const)
    let ?m = "length (take ?n reply)"
    have "?m < length ?w" unfolding w(2) using assms(2) by simp
    then have "CHR 0x00 \<in> set (drop ?m ?w)" using w(3) by (metis drop_eq_Nil last_drop last_in_set not_less)
    then show ?thesis
      unfolding w(1) drop_map map_append [symmetric] cstr_map_defined by simp
  qed
  obtain r x s' where s': "wpa_driver_nl80211_driver_cmd env bss buf buf ?n ?s = Some (r, s')" "0 \<le> r"
    "quiet_driver env \<Longrightarrow> r = 0" "x = [] \<or> x = [EvSupplicantEvent]"
    "wtrace s' = wtrace ?s @ EvPrivIoctl (ifr_name (ifname bss)) (request (take ?n (mem ?s buf))) # x"
    by (rule private_answered [OF c quiet_commands(4,5) assms(3) len nul]) (use quiet_commands(6) in blast)
  have l: "length (ie_command k ie) = ?n" using h by (simp add: ie_command_def)
  have "?b = map Some (ie_command k ie) @ drop (20 + length ie) ?z" by (simp add: ie_command_def)
  then have "take ?n ?b = map Some (ie_command k ie)" using l by simp
  with s'(5) blk have tr: "wtrace s' = wtrace s @ EvPrivIoctl (ifr_name (ifname bss)) (request (map Some (ie_command k ie))) # x"
    by simp
  have "ap_ie_turn env bss buf (k, Some ie) ret s = Some (r, False, s')"
    using b1 b2 s'(1,2) assms(4)
    by (simp add: ap_ie_turn_def MAX_WPSP2PIE_CMD_SIZE_def Let_def del: bind_Some_iff puts.simps)
  then show thesis using s'(2-4) tr by (rule that)
qed

lemma ap_ie_turn_skip:
  assumes "k \<in> {1, 2, 4}" and "src = None \<or> \<not> wpabuf_dup_ok env (wtrace s)"
  obtains s' where "ap_ie_turn env bss buf (k, src) ret s = Some (ret, False, s')" "wtrace s' = wtrace s"
  using ap_head [OF assms(1)] assms(2)
  by (auto simp: ap_ie_turn_def MAX_WPSP2PIE_CMD_SIZE_def Let_def blit_def simp del: bind_Some_iff)

lemma ap_ie_turn_overflow:
  assumes "k \<in> {1, 2, 4}" and "492 < length ie" and "wpabuf_dup_ok env (wtrace s)"
  shows "ap_ie_turn env bss buf (k, Some ie) ret s = None"
proof -
  let ?h = "''SET_AP_WPS_P2P_IE '' @ dec_of_int k @ [CHR 0x00]"
  let ?z = "replicate 512 (Some (CHR 0x00)) :: cell list"
  have h: "length ?h = 20" using ap_head [OF assms(1)] by simp
  have b1: "blit ?h ?z = Some (map Some ?h @ drop 20 ?z)" using h by (simp add: blit_def)
  have cur: "(length ?h, map Some ?h @ drop 20 ?z) = cursor ?h ?z" using h by (simp add: cursor_def)
  have "length ?h \<le> length ?z" using h by simp
  from puts_cursor [OF this, of ie]
  have "puts ie (length ?h, map Some ?h @ drop 20 ?z) = None" unfolding cur using h assms(2) by simp
  with b1 assms(3) show ?thesis
    by (simp add: ap_ie_turn_def MAX_WPSP2PIE_CMD_SIZE_def Let_def del: bind_Some_iff puts.simps)
qed

text \<open>
  What goes out for a list of elements, from a history on: nothing for an element that is not given
  or that cannot be duplicated, and for every other one its command in a private ioctl of its own,
  after which the driver's answer may be taken for news of the channel list.
\<close>

inductive ap_sent :: "nl_env \<Rightarrow> string \<Rightarrow> wifi_event list \<Rightarrow> (int \<times> string option) list \<Rightarrow> wifi_event list \<Rightarrow> bool"
  for env name where
  ap_sent_end: "ap_sent env name t [] []"
| ap_sent_skip: "ie = None \<or> \<not> wpabuf_dup_ok env t \<Longrightarrow> ap_sent env name t es evs \<Longrightarrow> ap_sent env name t ((k, ie) # es) evs"
| ap_sent_send: "wpabuf_dup_ok env t \<Longrightarrow> x = [] \<or> x = [EvSupplicantEvent] \<Longrightarrow>
    ev = EvPrivIoctl name (request (map Some (ie_command k ie))) \<Longrightarrow>
    ap_sent env name (t @ ev # x) es evs \<Longrightarrow> ap_sent env name t ((k, Some ie) # es) (ev # x @ evs)"

lemma ap_ie_loop_sent:
  assumes "\<forall>(k, src) \<in> set es. k \<in> {1, 2, 4} \<and> (\<forall>ie. src = Some ie \<longrightarrow> length ie \<le> 491)" and "drv bss = Some dr"
    and "0 \<le> ret" "quiet_driver env \<longrightarrow> ret = 0"
  shows "\<exists>r s' evs. ap_ie_loop env bss buf es ret s = Some (r, s') \<and> 0 \<le> r \<and> (quiet_driver env \<longrightarrow> r = 0) \<and>
    wtrace s' = wtrace s @ evs \<and> ap_sent env (ifr_name (ifname bss)) (wtrace s) es evs"
  using assms(1,3,4)
proof (induction es arbitrary: s ret)
  case Nil
  then show ?case by (auto intro: ap_sent_end)
next
  case (Cons e es)
  obtain k src where e: "e = (k, src)" by (cases e)
  from Cons.prems e have k: "k \<in> {1, 2, 4}" by simp
  show ?case
  proof (cases "src = None \<or> \<not> wpabuf_dup_ok env (wtrace s)")
    case True
    obtain s1 where 1: "ap_ie_turn env bss buf (k, src) ret s = Some (ret, False, s1)" "wtrace s1 = wtrace s"
      by (rule ap_ie_turn_skip [OF k True])
    from Cons.IH [of ret s1] Cons.prems obtain r s' evs where
      "ap_ie_loop env bss buf es ret s1 = Some (r, s')" "0 \<le> r" "quiet_driver env \<longrightarrow> r = 0"
      "wtrace s' = wtrace s1 @ evs" "ap_sent env (ifr_name (ifname bss)) (wtrace s1) es evs" by auto
    with 1 True e show ?thesis by (auto intro!: exI [of _ evs] ap_sent_skip)
  next
    case False
    then obtain ie where ie: "src = Some ie" "wpabuf_dup_ok env (wtrace s)" by auto
    with Cons.prems e have len: "length ie \<le> 491" by simp
    let ?ev = "EvPrivIoctl (ifr_name (ifname bss)) (request (map Some (ie_command k ie)))"
    obtain r1 x s1 where 1: "ap_ie_turn env bss buf (k, Some ie) ret s = Some (r1, False, s1)" "0 \<le> r1"
      "quiet_driver env \<Longrightarrow> r1 = 0" "x = [] \<or> x = [EvSupplicantEvent]" "wtrace s1 = wtrace s @ ?ev # x"
      using ap_ie_turn_sent [OF k len assms(2) ie(2), of buf ret] by blast
    from Cons.IH [of r1 s1] Cons.prems 1 obtain r s' evs where
      2: "ap_ie_loop env bss buf es r1 s1 = Some (r, s')" "0 \<le> r" "quiet_driver env \<longrightarrow> r = 0"
      "wtrace s' = wtrace s1 @ evs" "ap_sent env (ifr_name (ifname bss)) (wtrace s1) es evs" by auto
    have "ap_sent env (ifr_name (ifname bss)) (wtrace s) (e # es) (?ev # x @ evs)"
      unfolding e ie(1) using ie(2) 1(4) 2(5) unfolding 1(5) by (intro ap_sent_send) simp_all
    with 1 2 e ie show ?thesis by (intro exI [of _ r] exI [of _ s'] exI [of _ "?ev # x @ evs"]) simp
  qed
qed

text \<open>C21. The information elements of the access point. With elements of at most 491 bytes the
  function is defined whatever the driver answers and whichever duplications fail: in the order
  beacon, probe response, association response, each element that is given and can be
  duplicated goes out in a private ioctl of its own, as the command with its frame number, a NUL
  and the element, byte for byte; one that cannot be duplicated is left out without an error. The
  result is never negative, and 0 for a driver that answers with its return value only. A beacon
  element of more than 492 bytes that can be duplicated is written past the end of the buffer.\<close>
theorem nl_ap_elements:
  assumes "drv bss = Some dr"
  shows "((\<forall>ie \<in> Option.these {b, p, a}. length ie \<le> 491) \<longrightarrow>
     (\<exists>r s' evs. wpa_driver_set_ap_wps_p2p_ie env bss b p a s = Some (r, s') \<and>
        0 \<le> r \<and> (quiet_driver env \<longrightarrow> r = 0) \<and> wtrace s' = wtrace s @ evs \<and>
        ap_sent env (ifr_name (ifname bss)) (wtrace s) [(1, b), (2, p), (4, a)] evs)) \<and>
    (\<forall>ie. b = Some ie \<and> 492 < length ie \<and> wpabuf_dup_ok env (wtrace s) \<longrightarrow>
       wpa_driver_set_ap_wps_p2p_ie env bss b p a s = None)"
proof -
  obtain s1 where push: "push_block (replicate MAX_WPSP2PIE_CMD_SIZE None) s = (next_block s, s1)"
    "wtrace s1 = wtrace s" by (simp add: push_block_def)
  let ?es = "[(1, b), (2, p), (4, a)] :: (int \<times> string option) list"
  have start: "wpa_driver_set_ap_wps_p2p_ie env bss b p a s = ap_ie_loop env bss (next_block s) ?es 0 s1"
    unfolding wpa_driver_set_ap_wps_p2p_ie_def push(1) Let_def prod.case by (rule refl)
  have "\<exists>r s' evs. ap_ie_loop env bss (next_block s) ?es 0 s1 = Some (r, s') \<and> 0 \<le> r \<and> (quiet_driver env \<longrightarrow> r = 0) \<and>
        wtrace s' = wtrace s @ evs \<and> ap_sent env (ifr_name (ifname bss)) (wtrace s) ?es evs"
    if len: "\<forall>ie \<in> Option.these {b, p, a}. length ie \<le> 491"
  proof -
    from len have "\<forall>(k, src) \<in> set ?es. k \<in> {1, 2, 4} \<and> (\<forall>ie. src = Some ie \<longrightarrow> length ie \<le> 491)"
      by (auto simp: in_these_eq)
    from ap_ie_loop_sent [OF this assms, of 0 env "next_block s" s1] show ?thesis unfolding push(2) by simp
  qed
  moreover have "ap_ie_loop env bss (next_block s) ?es 0 s1 = None"
    if "b = Some ie" "492 < length ie" "wpabuf_dup_ok env (wtrace s)" for ie
    using ap_ie_turn_overflow [of 1 ie env s1 bss "next_block s" 0] that push(2) by simp
  ultimately show ?thesis unfolding start by (intro conjI impI allI) simp_all
qed

theorem nl_ap_elements_witness:
  "\<exists>s' x. wpa_driver_set_ap_wps_p2p_ie demo_nl demo_bss (Some ''ab'') None None (demo_nl_state ''x'') = Some (0, s') \<and>
     wtrace s' = EvPrivIoctl ''wlan0'' (request (map Some (ie_command 1 ''ab''))) # x"
proof -
  have dup: "wpabuf_dup_ok demo_nl t" for t by (simp add: demo_nl_def)
  have name: "ifr_name (ifname demo_bss) = ''wlan0''" by (simp add: ifr_name_def demo_bss_def IFNAMSIZ_def)
  from nl_ap_elements [OF demo_nl_simps(1), of "Some ''ab''" None None demo_nl "demo_nl_state ''x''"] demo_quiet
  obtain s' evs where
    run: "wpa_driver_set_ap_wps_p2p_ie demo_nl demo_bss (Some ''ab'') None None (demo_nl_state ''x'') = Some (0, s')"
    "wtrace s' = evs" and sent: "ap_sent demo_nl ''wlan0'' [] [(1, Some ''ab''), (2, None), (4, None)] evs"
    by (auto simp: in_these_eq name)
  from sent obtain x where "evs = EvPrivIoctl ''wlan0'' (request (map Some (ie_command 1 ''ab''))) # x"
    by (cases rule: ap_sent.cases) (auto simp: dup)
  with run show ?thesis by blast
qed

end
