(* ===== verification/Gc_Layout.thy ===== *)
theory Gc_Layout
  imports CPrelude
begin

section \<open>Layout of the structures of the GPU headers\<close>

text \<open>
  The structures of the GPU headers are shared by the kernel module and the user libraries: what
  matters of them is where their members lie. A C type is a value of \<open>ctype\<close>; size, alignment and
  member offsets follow the rules of C on the usual binary interfaces: members in order, each at the
  next multiple of its alignment, the whole padded to its own alignment, the largest of its
  members'. The interface, an argument, gives the width of a pointer and the alignment of a
  scalar of each width. The macros \<open>gcmSIZEOF\<close>, \<open>gcmCOUNTOF\<close> and \<open>gcmOFFSETOF\<close> read the layout.
\<close>

subsection \<open>Types and binary interfaces\<close>

datatype signedness = Signed | Unsigned

datatype ctype =
    CInt signedness nat
  | CFloat nat
  | CSize
  | CPtr
  | CArray nat ctype
  | CStruct "(string \<times> ctype) list"
  | CUnion "(string \<times> ctype) list"

record abi =
  ptr_bytes :: nat
  scalar_align :: "nat \<Rightarrow> nat"

text \<open>The 32-bit and the 64-bit ARM interfaces, and that of i386, which aligns to words.\<close>

definition arm32 :: abi where "arm32 = \<lparr>ptr_bytes = 4, scalar_align = (\<lambda>n. n)\<rparr>"
definition arm64 :: abi where "arm64 = \<lparr>ptr_bytes = 8, scalar_align = (\<lambda>n. n)\<rparr>"
definition i386 :: abi where "i386 = \<lparr>ptr_bytes = 4, scalar_align = (\<lambda>n. min n 4)\<rparr>"

definition pow2 :: "nat \<Rightarrow> bool" where
  "pow2 a \<longleftrightarrow> a \<in> {1, 2, 4, 8}"

definition abi_ok :: "abi \<Rightarrow> bool" where
  "abi_ok abi \<longleftrightarrow> ptr_bytes abi \<in> {4, 8} \<and>
     (\<forall>n\<in>{1, 2, 4, 8}. pow2 (scalar_align abi n) \<and> scalar_align abi n dvd n)"

lemma abi_ok_instances [simp]: "abi_ok arm32" "abi_ok arm64" "abi_ok i386"
  by (simp_all add: abi_ok_def pow2_def arm32_def arm64_def i386_def)

definition align_up :: "nat \<Rightarrow> nat \<Rightarrow> nat" where
  "align_up n a = (n + a - 1) div a * a"

fun c_align :: "abi \<Rightarrow> ctype \<Rightarrow> nat"
  and fields_align :: "abi \<Rightarrow> (string \<times> ctype) list \<Rightarrow> nat" where
  "c_align abi (CInt sg n) = scalar_align abi n"
| "c_align abi (CFloat n) = scalar_align abi n"
| "c_align abi CSize = scalar_align abi (ptr_bytes abi)"
| "c_align abi CPtr = scalar_align abi (ptr_bytes abi)"
| "c_align abi (CArray n t) = c_align abi t"
| "c_align abi (CStruct fs) = fields_align abi fs"
| "c_align abi (CUnion fs) = fields_align abi fs"
| "fields_align abi [] = 1"
| "fields_align abi ((f, t) # fs) = max (c_align abi t) (fields_align abi fs)"

fun c_size :: "abi \<Rightarrow> ctype \<Rightarrow> nat"
  and fields_end :: "abi \<Rightarrow> nat \<Rightarrow> (string \<times> ctype) list \<Rightarrow> nat"
  and fields_max :: "abi \<Rightarrow> (string \<times> ctype) list \<Rightarrow> nat" where
  "c_size abi (CInt sg n) = n"
| "c_size abi (CFloat n) = n"
| "c_size abi CSize = ptr_bytes abi"
| "c_size abi CPtr = ptr_bytes abi"
| "c_size abi (CArray n t) = n * c_size abi t"
| "c_size abi (CStruct fs) = align_up (fields_end abi 0 fs) (fields_align abi fs)"
| "c_size abi (CUnion fs) = align_up (fields_max abi fs) (fields_align abi fs)"
| "fields_end abi off [] = off"
| "fields_end abi off ((f, t) # fs) = fields_end abi (align_up off (c_align abi t) + c_size abi t) fs"
| "fields_max abi [] = 0"
| "fields_max abi ((f, t) # fs) = max (c_size abi t) (fields_max abi fs)"

text \<open>The members of a structure with their offsets, from an offset on.\<close>

fun layout :: "abi \<Rightarrow> nat \<Rightarrow> (string \<times> ctype) list \<Rightarrow> (string \<times> nat \<times> ctype) list" where
  "layout abi off [] = []"
| "layout abi off ((f, t) # fs) =
     (let off = align_up off (c_align abi t) in (f, off, t) # layout abi (off + c_size abi t) fs)"

text \<open>
  \<open>None\<close>: not an array, or no such member. The offset is the address of the member of a structure
  at the null pointer, as a \<open>gctUINT32\<close>.
\<close>

definition gcmSIZEOF :: "abi \<Rightarrow> ctype \<Rightarrow> nat" where
  "gcmSIZEOF abi a = c_size abi a"

definition gcmCOUNTOF :: "abi \<Rightarrow> ctype \<Rightarrow> nat option" where
  "gcmCOUNTOF abi a = (case a of CArray n t \<Rightarrow> Some (c_size abi a div c_size abi t) | _ \<Rightarrow> None)"

definition gcmOFFSETOF :: "abi \<Rightarrow> (string \<times> ctype) list \<Rightarrow> string \<Rightarrow> u32 option" where
  "gcmOFFSETOF abi s field = map_option (\<lambda>(off, t). of_nat off) (map_of (layout abi 0 s) field)"

text \<open>
  Pointers as integers: a \<open>gctUINTPTR_T\<close> has the width of a pointer, whatever is cast to it is cut
  to that width, and a 64-bit member holds it in full.
\<close>

definition uintptr :: "abi \<Rightarrow> nat \<Rightarrow> nat" where
  "uintptr abi v = v mod 2 ^ (8 * ptr_bytes abi)"

definition gcmPTR2INT :: "abi \<Rightarrow> nat \<Rightarrow> nat" where "gcmPTR2INT abi p = uintptr abi p"
definition gcmPTR2INT32 :: "abi \<Rightarrow> nat \<Rightarrow> u32" where "gcmPTR2INT32 abi p = of_nat (uintptr abi p)"
definition gcmINT2PTR :: "abi \<Rightarrow> nat \<Rightarrow> nat" where "gcmINT2PTR abi i = uintptr abi i"
definition gcmALL_TO_UINT32 :: "abi \<Rightarrow> nat \<Rightarrow> u32" where "gcmALL_TO_UINT32 abi t = of_nat (uintptr abi t)"
definition gcmPTR_TO_UINT64 :: "abi \<Rightarrow> nat \<Rightarrow> 64 word" where "gcmPTR_TO_UINT64 abi p = of_nat (uintptr abi p)"
definition gcmUINT64_TO_PTR :: "abi \<Rightarrow> 64 word \<Rightarrow> nat" where "gcmUINT64_TO_PTR abi u = uintptr abi (unat u)"

definition gcvMAXUINTPTR_T :: "abi \<Rightarrow> nat" where "gcvMAXUINTPTR_T abi = 2 ^ (8 * ptr_bytes abi) - 1"
definition gcvINVALID_HANDLE :: "abi \<Rightarrow> nat" where "gcvINVALID_HANDLE abi = uintptr abi (2 ^ 32 - 1)"

text \<open>The invalid handle is the last address of a 32-bit interface, but not of a 64-bit one.\<close>

lemma invalid_handle: "gcvINVALID_HANDLE arm32 = gcvMAXUINTPTR_T arm32" "gcvINVALID_HANDLE arm64 < gcvMAXUINTPTR_T arm64"
  by (simp_all add: gcvINVALID_HANDLE_def gcvMAXUINTPTR_T_def uintptr_def arm32_def arm64_def)

text \<open>
  A pointer comes back from a 64-bit member on every interface, and from a 32-bit integer on a
  32-bit interface; on a 64-bit one two pointers 4 GB apart have the same 32-bit integer.
\<close>

lemma pointer_in_64:
  assumes "abi_ok abi" "p < 2 ^ (8 * ptr_bytes abi)"
  shows "gcmUINT64_TO_PTR abi (gcmPTR_TO_UINT64 abi p) = p"
proof -
  from assms have "p < 2 ^ 64" by (auto simp: abi_ok_def)
  with assms(2) show ?thesis
    by (simp add: gcmUINT64_TO_PTR_def gcmPTR_TO_UINT64_def uintptr_def unat_of_nat)
qed

lemma pointer_in_32:
  "p < 2 ^ 32 \<Longrightarrow> gcmINT2PTR arm32 (unat (gcmPTR2INT32 arm32 p)) = p"
  "gcmPTR2INT32 arm64 p = gcmPTR2INT32 arm64 (p + 2 ^ 32)"
  "gcmALL_TO_UINT32 abi p = gcmPTR2INT32 abi p"
proof -
  show "p < 2 ^ 32 \<Longrightarrow> gcmINT2PTR arm32 (unat (gcmPTR2INT32 arm32 p)) = p"
    by (simp add: gcmINT2PTR_def gcmPTR2INT32_def uintptr_def arm32_def unat_of_nat)
  have "(p mod 2 ^ 64) mod 2 ^ 32 = ((p + 2 ^ 32) mod 2 ^ 64) mod 2 ^ 32"
    by (simp add: mod_mod_cancel)
  then show "gcmPTR2INT32 arm64 p = gcmPTR2INT32 arm64 (p + 2 ^ 32)"
    unfolding gcmPTR2INT32_def uintptr_def arm64_def by (simp add: word_unat_eq_iff unat_of_nat)
qed (simp add: gcmALL_TO_UINT32_def gcmPTR2INT32_def)

subsection \<open>Alignment\<close>

lemma pow2_dvd: "pow2 a \<Longrightarrow> pow2 b \<Longrightarrow> a \<le> b \<Longrightarrow> a dvd b"
  by (auto simp: pow2_def)

lemma pow2_pos: "pow2 a \<Longrightarrow> 0 < a"
  by (auto simp: pow2_def)

lemma pow2_max: "pow2 a \<Longrightarrow> pow2 b \<Longrightarrow> pow2 (max a b)"
  by (simp add: max_def)

lemma align_up_dvd [simp]: "a dvd align_up n a"
  by (simp add: align_up_def)

lemma align_up_0 [simp]: "align_up 0 a = 0"
  by (cases "a = 0") (simp_all add: align_up_def)

lemma align_up_same:
  assumes "a dvd n" "0 < a"
  shows "align_up n a = n"
proof -
  from assms have "(n + (a - 1)) div a = n div a" by (intro div_plus_div_distrib_dvd_left [THEN trans]) simp_all
  with assms show ?thesis by (simp add: align_up_def)
qed

lemma align_up_8: "pow2 a \<Longrightarrow> align_up 8 a = 8"
  by (auto simp: pow2_def align_up_same)

lemma align_up_ge: "0 < a \<Longrightarrow> n \<le> align_up n a"
proof -
  assume a: "0 < a"
  have "(n + a - 1) div a * a = n + a - 1 - (n + a - 1) mod a" by (simp add: minus_mod_eq_div_mult)
  with a mod_less_divisor [OF a, of "n + a - 1"] show ?thesis unfolding align_up_def by linarith
qed

subsection \<open>Well-formed types\<close>

fun wf_ctype :: "ctype \<Rightarrow> bool" and wf_fields :: "(string \<times> ctype) list \<Rightarrow> bool" where
  "wf_ctype (CInt sg n) \<longleftrightarrow> n \<in> {1, 2, 4, 8}"
| "wf_ctype (CFloat n) \<longleftrightarrow> n \<in> {4, 8}"
| "wf_ctype CSize \<longleftrightarrow> True"
| "wf_ctype CPtr \<longleftrightarrow> True"
| "wf_ctype (CArray n t) \<longleftrightarrow> wf_ctype t"
| "wf_ctype (CStruct fs) \<longleftrightarrow> wf_fields fs \<and> distinct (map fst fs)"
| "wf_ctype (CUnion fs) \<longleftrightarrow> wf_fields fs \<and> distinct (map fst fs)"
| "wf_fields [] \<longleftrightarrow> True"
| "wf_fields ((f, t) # fs) \<longleftrightarrow> wf_ctype t \<and> wf_fields fs"

lemma wf_fields_all: "wf_fields fs \<longleftrightarrow> (\<forall>(f, t)\<in>set fs. wf_ctype t)"
  by (induction fs) auto

lemma pow2_align:
  shows "abi_ok abi \<Longrightarrow> wf_ctype t \<Longrightarrow> pow2 (c_align abi t)"
    and "abi_ok abi \<Longrightarrow> wf_fields fs \<Longrightarrow> pow2 (fields_align abi fs)"
proof (induction abi t and abi fs rule: c_align_fields_align.induct)
  case (3 abi)
  then show ?case by (auto simp: abi_ok_def)
next
  case (4 abi)
  then show ?case by (auto simp: abi_ok_def)
qed (auto simp: abi_ok_def pow2_max pow2_def [of "Suc 0"])

lemma align_member:
  assumes "abi_ok abi" "wf_fields fs" "(f, t) \<in> set fs"
  shows "c_align abi t dvd fields_align abi fs"
proof (rule pow2_dvd)
  show "pow2 (c_align abi t)" using assms by (auto simp: wf_fields_all pow2_align)
  show "pow2 (fields_align abi fs)" using assms(1,2) by (rule pow2_align)
  show "c_align abi t \<le> fields_align abi fs" using assms(3)
  proof (induction fs)
    case (Cons x fs)
    then show ?case by (cases x) (auto simp: max.coboundedI1 max.coboundedI2)
  qed simp
qed

lemma size_aligned: "abi_ok abi \<Longrightarrow> wf_ctype t \<Longrightarrow> c_align abi t dvd c_size abi t"
proof (induction t)
  case CSize
  then show ?case by (auto simp: abi_ok_def)
next
  case CPtr
  then show ?case by (auto simp: abi_ok_def)
qed (auto simp: abi_ok_def)

subsection \<open>The laws of a layout\<close>

lemma fields_end_ge: "abi_ok abi \<Longrightarrow> wf_fields fs \<Longrightarrow> off \<le> fields_end abi off fs"
proof (induction fs arbitrary: off)
  case (Cons x fs)
  obtain f t where x: "x = (f, t)" by (cases x)
  with Cons.prems have "off \<le> align_up off (c_align abi t)"
    by (intro align_up_ge pow2_pos pow2_align) auto
  also have "\<dots> \<le> fields_end abi (align_up off (c_align abi t) + c_size abi t) fs"
    using Cons.IH [of "align_up off (c_align abi t) + c_size abi t"] Cons.prems x by simp
  finally show ?case by (simp add: x)
qed simp

lemma layout_member:
  assumes "abi_ok abi" "wf_fields fs" "(f, o', t) \<in> set (layout abi off fs)"
  shows "c_align abi t dvd o' \<and> off \<le> o' \<and> o' + c_size abi t \<le> fields_end abi off fs \<and> (f, t) \<in> set fs"
  using assms(2,3)
proof (induction fs arbitrary: off)
  case (Cons x fs)
  obtain g u where x: "x = (g, u)" by (cases x)
  let ?o = "align_up off (c_align abi u)"
  have ge: "off \<le> ?o" using Cons.prems assms(1) x by (intro align_up_ge pow2_pos pow2_align) auto
  have rest: "?o + c_size abi u \<le> fields_end abi (?o + c_size abi u) fs"
    using assms(1) Cons.prems x by (intro fields_end_ge) auto
  from Cons.prems x consider "(f, o', t) = (g, ?o, u)" | "(f, o', t) \<in> set (layout abi (?o + c_size abi u) fs)"
    by (auto simp: Let_def)
  then show ?case
  proof cases
    case 1
    then show ?thesis using ge rest by (simp add: x)
  next
    case 2
    from Cons.IH [OF _ this] Cons.prems x ge show ?thesis by auto
  qed
qed simp

lemma layout_ordered:
  assumes "abi_ok abi" "wf_fields fs"
  shows "sorted_wrt (\<lambda>(_, o1, t1) (_, o2, _). o1 + c_size abi t1 \<le> o2) (layout abi off fs)"
  using assms(2)
proof (induction fs arbitrary: off)
  case (Cons x fs)
  obtain f t where x: "x = (f, t)" by (cases x)
  with Cons show ?case using layout_member [OF assms(1)] by (fastforce simp: Let_def)
qed simp

lemma layout_names: "map fst (layout abi off fs) = map fst fs"
  by (induction abi off fs rule: layout.induct) (simp_all add: Let_def)

lemma layout_complete: "(f, t) \<in> set fs \<Longrightarrow> \<exists>off'. (f, off', t) \<in> set (layout abi off fs)"
  by (induction abi off fs rule: layout.induct) (auto simp: Let_def)

text \<open>The array count is the number of elements, if these have a size.\<close>

lemma gc_countof: "0 < c_size abi t \<Longrightarrow> gcmCOUNTOF abi (CArray n t) = Some n"
  by (simp add: gcmCOUNTOF_def)

subsection \<open>Types that do not depend on the width of a pointer\<close>

fun fixed_type :: "ctype \<Rightarrow> bool" and fixed_fields :: "(string \<times> ctype) list \<Rightarrow> bool" where
  "fixed_type (CInt sg n) \<longleftrightarrow> True"
| "fixed_type (CFloat n) \<longleftrightarrow> True"
| "fixed_type CSize \<longleftrightarrow> False"
| "fixed_type CPtr \<longleftrightarrow> False"
| "fixed_type (CArray n t) \<longleftrightarrow> fixed_type t"
| "fixed_type (CStruct fs) \<longleftrightarrow> fixed_fields fs"
| "fixed_type (CUnion fs) \<longleftrightarrow> fixed_fields fs"
| "fixed_fields [] \<longleftrightarrow> True"
| "fixed_fields ((f, t) # fs) \<longleftrightarrow> fixed_type t \<and> fixed_fields fs"

text \<open>
  Two interfaces that align scalars alike, such as those of a 32-bit library and a 64-bit kernel
  on one ARM processor.
\<close>

locale same_scalars =
  fixes a b :: abi
  assumes same: "scalar_align a = scalar_align b"
begin

lemma fixed_align:
  shows "fixed_type t \<Longrightarrow> c_align a t = c_align b t"
    and "fixed_fields fs \<Longrightarrow> fields_align a fs = fields_align b fs"
  by (induction t and fs rule: fixed_type_fixed_fields.induct) (simp_all add: same)

lemma fixed_size:
  shows "fixed_type t \<Longrightarrow> c_size a t = c_size b t"
    and "fixed_fields fs \<Longrightarrow> fields_max a fs = fields_max b fs \<and> (\<forall>off. fields_end a off fs = fields_end b off fs)"
  by (induction t and fs rule: fixed_type_fixed_fields.induct) (simp_all add: fixed_align)

lemma fixed_layout: "fixed_fields fs \<Longrightarrow> layout a off fs = layout b off fs"
proof (induction fs arbitrary: off)
  case (Cons x fs)
  then show ?case by (cases x) (simp add: Let_def fixed_align fixed_size)
qed simp

end

interpretation arm: same_scalars arm32 arm64
  by unfold_locales (simp add: arm32_def arm64_def)

end
