(* ===== verification/Bit_Fields.thy ===== *)
theory Bit_Fields
  imports Gc_Layout
begin

section \<open>Layout of structures with bit-fields\<close>

text \<open>
  The layout of \<open>Gc_Layout\<close> for structures some of whose members are bit-fields of \<open>unsigned int\<close>:
  positions are counted in bits. By the ARM and the System V interfaces a bit-field comes right
  after what is before it, unless it would then cross from one aligned 32-bit unit into the next:
  then it begins the next. What follows begins at its own next alignment, which may be the very
  next byte.
\<close>

datatype member =
    Member string ctype
  | Bit_Field string nat
  | Nested string "member list"

fun member_name :: "member \<Rightarrow> string" where
  "member_name (Member f t) = f"
| "member_name (Bit_Field f w) = f"
| "member_name (Nested f ms) = f"

fun member_align :: "abi \<Rightarrow> member \<Rightarrow> nat" and members_align :: "abi \<Rightarrow> member list \<Rightarrow> nat" where
  "member_align abi (Member f t) = c_align abi t"
| "member_align abi (Bit_Field f w) = scalar_align abi 4"
| "member_align abi (Nested f ms) = members_align abi ms"
| "members_align abi [] = 1"
| "members_align abi (m # ms) = max (member_align abi m) (members_align abi ms)"

definition bit_field_start :: "nat \<Rightarrow> nat \<Rightarrow> nat" where
  "bit_field_start pos w = (if pos mod 32 + w > 32 then align_up pos 32 else pos)"

definition member_start :: "abi \<Rightarrow> nat \<Rightarrow> member \<Rightarrow> nat" where
  "member_start abi pos m =
     (case m of Bit_Field f w \<Rightarrow> bit_field_start pos w | _ \<Rightarrow> align_up pos (8 * member_align abi m))"

fun member_bits :: "abi \<Rightarrow> member \<Rightarrow> nat" and members_end :: "abi \<Rightarrow> nat \<Rightarrow> member list \<Rightarrow> nat" where
  "member_bits abi (Member f t) = 8 * c_size abi t"
| "member_bits abi (Bit_Field f w) = w"
| "member_bits abi (Nested f ms) = align_up (members_end abi 0 ms) (8 * members_align abi ms)"
| "members_end abi pos [] = pos"
| "members_end abi pos (m # ms) = members_end abi (member_start abi pos m + member_bits abi m) ms"

text \<open>Name, first bit and number of bits of each member.\<close>

fun bit_layout :: "abi \<Rightarrow> nat \<Rightarrow> member list \<Rightarrow> (string \<times> nat \<times> nat) list" where
  "bit_layout abi pos [] = []"
| "bit_layout abi pos (m # ms) =
     (let pos = member_start abi pos m
      in (member_name m, pos, member_bits abi m) # bit_layout abi (pos + member_bits abi m) ms)"

text \<open>To compute with, the position first.\<close>

lemma bit_layout_Cons:
  "bit_layout abi pos (m # ms) =
     (member_name m, member_start abi pos m, member_bits abi m) #
       bit_layout abi (member_start abi pos m + member_bits abi m) ms"
  by (simp add: Let_def)

definition plain :: "(string \<times> ctype) list \<Rightarrow> member list" where
  "plain = map (\<lambda>(f, t). Member f t)"

text \<open>The first bit of a member.\<close>

definition bit_offset :: "abi \<Rightarrow> member list \<Rightarrow> string \<Rightarrow> nat option" where
  "bit_offset abi ms f = map_option fst (map_of (bit_layout abi 0 ms) f)"

subsection \<open>Without bit-fields it is the layout in bytes\<close>

lemma align_up_bits: "align_up (8 * n) (8 * a) = 8 * align_up n a"
proof (cases "a = 0")
  case False
  have "(8 * n + 8 * a - 1) div 8 = n + a - 1" using False by simp
  then show ?thesis by (simp add: align_up_def div_mult2_eq)
qed (simp add: align_up_def)

lemma plain_layout:
  "bit_layout abi (8 * off) (plain fs) = map (\<lambda>(f, off, t). (f, 8 * off, 8 * c_size abi t)) (layout abi off fs)"
proof (induction fs arbitrary: off)
  case (Cons x fs)
  obtain f t where x: "x = (f, t)" by (cases x)
  show ?case
    using Cons [of "align_up off (c_align abi t) + c_size abi t"]
    by (simp add: x plain_def member_start_def align_up_bits Let_def distrib_left)
qed (simp add: plain_def)

lemma plain_end: "members_end abi (8 * off) (plain fs) = 8 * fields_end abi off fs"
proof (induction fs arbitrary: off)
  case (Cons x fs)
  obtain f t where x: "x = (f, t)" by (cases x)
  show ?case
    using Cons [of "align_up off (c_align abi t) + c_size abi t"]
    by (simp add: x plain_def member_start_def align_up_bits distrib_left)
qed (simp add: plain_def)

lemma bit_layout_append:
  "bit_layout abi pos (xs @ ys) = bit_layout abi pos xs @ bit_layout abi (members_end abi pos xs) ys"
  by (induction xs arbitrary: pos) (simp_all add: Let_def)

text \<open>Members before the first bit-field lie where the layout in bytes has them.\<close>

lemma bit_offset_plain:
  assumes "f \<in> fst ` set fs"
  shows "bit_offset abi (plain fs @ ms) f = map_option (\<lambda>(off, t). 8 * off) (map_of (layout abi 0 fs) f)"
proof -
  have "f \<in> fst ` set (layout abi 0 fs)" using assms layout_names [of abi 0 fs] by (metis list.set_map)
  then obtain off t where v: "map_of (layout abi 0 fs) f = Some (off, t)"
    by (metis domD dom_map_of_conv_image_fst surj_pair)
  have "map_of (map (\<lambda>(f, off, t). (f, 8 * off :: nat, 8 * c_size abi t)) l) f =
      map_option (\<lambda>(off, t). (8 * off, 8 * c_size abi t)) (map_of l f)" for l
    by (induction l) auto
  then have "map_of (bit_layout abi 0 (plain fs)) f = Some (8 * off, 8 * c_size abi t)"
    using plain_layout [of abi 0 fs] v by simp
  with v show ?thesis by (simp add: bit_offset_def bit_layout_append map_add_Some_iff)
qed

lemma bit_layout_names: "map fst (bit_layout abi pos ms) = map member_name ms"
  by (induction ms arbitrary: pos) (simp_all add: Let_def)

text \<open>What comes before a member moves it by where it ends; what comes after does not.\<close>

lemma bit_offset_between:
  assumes "f \<notin> member_name ` set xs" "map_of (bit_layout abi (members_end abi 0 xs) ys) f = Some v"
  shows "bit_offset abi (xs @ ys @ zs) f = Some (fst v)"
proof -
  have "f \<notin> fst ` set (bit_layout abi 0 xs)"
    using assms(1) bit_layout_names [of abi 0 xs] by (metis list.set_map)
  then have "map_of (bit_layout abi 0 xs) f = None" by (simp add: map_of_eq_None_iff)
  with assms(2) show ?thesis by (simp add: bit_offset_def bit_layout_append map_add_def)
qed

subsection \<open>The laws of the layout\<close>

fun wf_member :: "member \<Rightarrow> bool" and wf_members :: "member list \<Rightarrow> bool" where
  "wf_member (Member f t) \<longleftrightarrow> wf_ctype t"
| "wf_member (Bit_Field f w) \<longleftrightarrow> 0 < w \<and> w \<le> 32"
| "wf_member (Nested f ms) \<longleftrightarrow> wf_members ms"
| "wf_members [] \<longleftrightarrow> True"
| "wf_members (m # ms) \<longleftrightarrow> wf_member m \<and> wf_members ms"

lemma pow2_member_align:
  shows "abi_ok abi \<Longrightarrow> wf_member m \<Longrightarrow> pow2 (member_align abi m)"
    and "abi_ok abi \<Longrightarrow> wf_members ms \<Longrightarrow> pow2 (members_align abi ms)"
proof (induction abi m and abi ms rule: member_align_members_align.induct)
  case (2 abi f w)
  then show ?case by (auto simp: abi_ok_def)
qed (auto simp: pow2_align pow2_max pow2_def [of "Suc 0"])

lemma member_start_ge:
  assumes "abi_ok abi" "wf_member m"
  shows "pos \<le> member_start abi pos m"
proof -
  have "0 < 8 * member_align abi m" using pow2_pos [OF pow2_member_align(1) [OF assms]] by simp
  then show ?thesis
    by (auto simp: member_start_def bit_field_start_def align_up_ge split: member.split)
qed

lemma bit_layout_from:
  assumes "abi_ok abi" "wf_members ms"
  shows "\<forall>(g, q, c)\<in>set (bit_layout abi pos ms). pos \<le> q"
  using assms(2)
proof (induction ms arbitrary: pos)
  case (Cons m ms)
  have "pos \<le> member_start abi pos m" using Cons.prems assms(1) by (intro member_start_ge) simp_all
  with Cons.IH [of "member_start abi pos m + member_bits abi m"] Cons.prems show ?case
    by (fastforce simp: Let_def)
qed simp

text \<open>No two members overlap, bit-fields included: each begins when the ones before have ended.\<close>

lemma bits_disjoint:
  assumes "abi_ok abi" "wf_members ms"
  shows "sorted_wrt (\<lambda>(f, p, b) (g, q, c). p + b \<le> q) (bit_layout abi pos ms)"
  using assms(2)
proof (induction ms arbitrary: pos)
  case (Cons m ms)
  let ?next = "member_start abi pos m + member_bits abi m"
  have "\<forall>(g, q, c)\<in>set (bit_layout abi ?next ms). ?next \<le> q"
    using Cons.prems assms(1) by (intro bit_layout_from) simp_all
  with Cons show ?case by (auto simp: Let_def)
qed simp

text \<open>A bit-field lies within one aligned unit, which one load reads.\<close>

lemma bit_field_unit:
  assumes "w \<le> 32" "0 < w"
  shows "bit_field_start pos w div 32 = (bit_field_start pos w + w - 1) div 32"
proof -
  have unit: "n div 32 = (n + w - 1) div 32" if "n mod 32 + w \<le> 32" for n
  proof -
    have "n + w - 1 = n div 32 * 32 + (n mod 32 + w - 1)" "n mod 32 + w - 1 < 32"
      using assms that div_mult_mod_eq [of n 32] by linarith+
    then show ?thesis by simp
  qed
  have "bit_field_start pos w mod 32 + w \<le> 32"
  proof (cases "pos mod 32 + w > 32")
    case True
    have "align_up pos 32 mod 32 = 0" by (simp only: dvd_imp_mod_0 align_up_dvd)
    with True assms show ?thesis by (simp add: bit_field_start_def)
  qed (simp add: bit_field_start_def)
  then show ?thesis by (rule unit)
qed

end
