(* ===== verification/Nl80211_Layout.thy ===== *)
theory Nl80211_Layout
  imports Bit_Fields
begin

section \<open>The structures of the nl80211 driver\<close>

text \<open>
  The driver commands are a library of their own: they reach into the structures of the supplicant's
  driver through the copy of its declarations in \<open>wlan/driver_nl80211.h\<close>. Here are these
  structures: up to their first bit-field as C types with their layout in bytes (\<open>Gc_Layout\<close>), then
  whole, with their layout in bits (\<open>Bit_Fields\<close>), and where the members lie that
  \<open>wlan/driver_cmd_nl80211.c\<close> uses. The types of other headers are the record \<open>nl_types\<close>.
\<close>

record nl_types =
  struct_dl_list :: "(string \<times> ctype) list"
  struct_wpa_driver_capa :: "(string \<times> ctype) list"
  IFNAMSIZ :: nat
  ETH_ALEN :: nat

text \<open>Interface flags and states, where the headers of the system do not have them.\<close>

definition IFF_LOWER_UP :: "nat option \<Rightarrow> nat" where
  "IFF_LOWER_UP defined = (case defined of Some v \<Rightarrow> v | None \<Rightarrow> 0x10000)"

definition IFF_DORMANT :: "nat option \<Rightarrow> nat" where
  "IFF_DORMANT defined = (case defined of Some v \<Rightarrow> v | None \<Rightarrow> 0x20000)"

definition IF_OPER_DORMANT :: "nat option \<Rightarrow> nat" where
  "IF_OPER_DORMANT defined = (case defined of Some v \<Rightarrow> v | None \<Rightarrow> 5)"

definition IF_OPER_UP :: "nat option \<Rightarrow> nat" where
  "IF_OPER_UP defined = (case defined of Some v \<Rightarrow> v | None \<Rightarrow> 6)"

definition c_int :: ctype where "c_int = CInt Signed 4"
definition c_u8 :: ctype where "c_u8 = CInt Unsigned 1"

definition struct_nl80211_global :: "nl_types \<Rightarrow> (string \<times> ctype) list" where
  "struct_nl80211_global t =
     [(''interfaces'', CStruct (struct_dl_list t)), (''if_add_ifindex'', c_int), (''netlink'', CPtr),
      (''nl_cb'', CPtr), (''nl'', CPtr), (''nl80211_id'', c_int), (''ioctl_sock'', c_int),
      (''nl_event'', CPtr)]"

definition struct_nl80211_wiphy_data :: "nl_types \<Rightarrow> (string \<times> ctype) list" where
  "struct_nl80211_wiphy_data t =
     [(''list'', CStruct (struct_dl_list t)), (''bsss'', CStruct (struct_dl_list t)),
      (''drvs'', CStruct (struct_dl_list t)), (''nl_beacons'', CPtr), (''nl_cb'', CPtr),
      (''wiphy_idx'', c_int)]"

definition struct_i802_bss :: "nl_types \<Rightarrow> (string \<times> ctype) list" where
  "struct_i802_bss t =
     [(''drv'', CPtr), (''next'', CPtr), (''ifindex'', c_int), (''ifname'', CArray (IFNAMSIZ t + 1) c_u8),
      (''brname'', CArray (IFNAMSIZ t) c_u8)]"

definition struct_wpa_driver_nl80211_data :: "nl_types \<Rightarrow> (string \<times> ctype) list" where
  "struct_wpa_driver_nl80211_data t =
     [(''global'', CPtr), (''list'', CStruct (struct_dl_list t)), (''wiphy_list'', CStruct (struct_dl_list t)),
      (''phyname'', CArray 32 c_u8), (''ctx'', CPtr), (''ifindex'', c_int), (''if_removed'', c_int),
      (''if_disabled'', c_int), (''ignore_if_down_event'', c_int), (''rfkill'', CPtr),
      (''capa'', CStruct (struct_wpa_driver_capa t)), (''has_capability'', c_int), (''operstate'', c_int),
      (''scan_complete_events'', c_int), (''nl_cb'', CPtr), (''auth_bssid'', CArray (ETH_ALEN t) c_u8),
      (''bssid'', CArray (ETH_ALEN t) c_u8), (''associated'', c_int), (''ssid'', CArray 32 c_u8),
      (''ssid_len'', CSize), (''nlmode'', CInt Unsigned 4), (''ap_scan_as_station'', CInt Unsigned 4),
      (''assoc_freq'', CInt Unsigned 4), (''monitor_sock'', c_int), (''monitor_ifidx'', c_int),
      (''monitor_refcount'', c_int)]"

lemmas nl_structs = struct_nl80211_global_def struct_nl80211_wiphy_data_def struct_i802_bss_def
  struct_wpa_driver_nl80211_data_def c_int_def c_u8_def

text \<open>A list node is two pointers, as the supplicant's \<open>utils/list.h\<close> has it.\<close>

definition list_node :: "(string \<times> ctype) list" where
  "list_node = [(''next'', CPtr), (''prev'', CPtr)]"

text \<open>The members that the driver commands use, with their offsets.\<close>

definition used_members :: "abi \<Rightarrow> nl_types \<Rightarrow> u32 option list" where
  "used_members abi t =
     map (gcmOFFSETOF abi (struct_i802_bss t)) [''drv'', ''ifname''] @
     map (gcmOFFSETOF abi (struct_wpa_driver_nl80211_data t)) [''global'', ''ctx'', ''ifindex''] @
     map (gcmOFFSETOF abi (struct_nl80211_global t)) [''nl'', ''nl80211_id'', ''ioctl_sock'']"

text \<open>What comes after a member does not move it.\<close>

lemma layout_append: "layout abi off (xs @ ys) = layout abi off xs @ layout abi (fields_end abi off xs) ys"
  by (induction abi off xs rule: layout.induct) (simp_all add: Let_def)

lemma offset_prefix:
  assumes "f \<in> fst ` set xs"
  shows "gcmOFFSETOF abi (xs @ ys) f = gcmOFFSETOF abi xs f"
proof -
  have "f \<in> fst ` set (layout abi 0 xs)" using assms layout_names [of abi 0 xs] by (metis list.set_map)
  then obtain v where "map_of (layout abi 0 xs) f = Some v" by (metis domD dom_map_of_conv_image_fst)
  then show ?thesis by (simp add: gcmOFFSETOF_def layout_append map_add_Some_iff)
qed

lemma used_in_prefix:
  "used_members abi t =
     map (gcmOFFSETOF abi (take 4 (struct_i802_bss t))) [''drv'', ''ifname''] @
     map (gcmOFFSETOF abi (take 6 (struct_wpa_driver_nl80211_data t))) [''global'', ''ctx'', ''ifindex''] @
     map (gcmOFFSETOF abi (struct_nl80211_global t)) [''nl'', ''nl80211_id'', ''ioctl_sock'']"
proof -
  have prefix: "map (gcmOFFSETOF abi xs) ns = map (gcmOFFSETOF abi (take n xs)) ns"
    if "set ns \<subseteq> fst ` set (take n xs)" for xs n ns
    using offset_prefix [of _ "take n xs" abi "drop n xs"] that
    unfolding append_take_drop_id map_eq_conv by blast
  have "set [''drv'', ''ifname''] \<subseteq> fst ` set (take 4 (struct_i802_bss t))"
    "set [''global'', ''ctx'', ''ifindex''] \<subseteq> fst ` set (take 6 (struct_wpa_driver_nl80211_data t))"
    by (simp_all add: struct_i802_bss_def struct_wpa_driver_nl80211_data_def)
  from this [THEN prefix] show ?thesis by (simp only: used_members_def)
qed

text \<open>
  They are where a supplicant that was built with the same list nodes and interface names has them,
  whatever the capabilities of its drivers look like.
\<close>

lemma used_member_offsets:
  assumes "struct_dl_list t = list_node"
  shows "used_members arm32 t = map Some [0, 12, 0, 52, 56, 20, 24, 28]"
    and "used_members arm64 t = map Some [0, 20, 0, 72, 80, 40, 48, 52]"
proof -
  show "used_members arm32 t = map Some [0, 12, 0, 52, 56, 20, 24, 28]"
    unfolding used_in_prefix
    using assms by (simp add: nl_structs list_node_def gcmOFFSETOF_def arm32_def Let_def align_up_def)
  show "used_members arm64 t = map Some [0, 20, 0, 72, 80, 40, 48, 52]"
    unfolding used_in_prefix
    using assms by (simp add: nl_structs list_node_def gcmOFFSETOF_def arm64_def Let_def align_up_def)
qed

lemma used_members_layout:
  assumes "struct_dl_list t = struct_dl_list t'" "IFNAMSIZ t = IFNAMSIZ t'"
  shows "used_members abi t = used_members abi t'"
proof -
  have "take 4 (struct_i802_bss t) = take 4 (struct_i802_bss t')"
    "take 6 (struct_wpa_driver_nl80211_data t) = take 6 (struct_wpa_driver_nl80211_data t')"
    "struct_nl80211_global t = struct_nl80211_global t'"
    using assms by (simp_all add: nl_structs)
  then show ?thesis unfolding used_in_prefix by simp
qed

subsection \<open>The whole structures\<close>

definition bits_1 :: "string list \<Rightarrow> member list" where
  "bits_1 = map (\<lambda>f. Bit_Field f 1)"

definition i802_bss_members :: "nl_types \<Rightarrow> member list" where
  "i802_bss_members t =
     plain (struct_i802_bss t) @ bits_1 [''beacon_set'', ''added_if_into_bridge'', ''added_bridge''] @
     plain [(''addr'', CArray (ETH_ALEN t) c_u8), (''freq'', c_int), (''nl_preq'', CPtr), (''nl_mgmt'', CPtr),
       (''nl_cb'', CPtr), (''wiphy_data'', CPtr), (''wiphy_list'', CStruct (struct_dl_list t))]"

definition nl80211_data_flags :: "member list" where
  "nl80211_data_flags =
     bits_1 [''disabled_11b_rates'', ''pending_remain_on_chan'', ''in_interface_list'', ''device_ap_sme'',
       ''poll_command_supported'', ''data_tx_status'', ''scan_for_auth'', ''retry_auth'', ''use_monitor'']"

definition nl80211_data_hostapd :: "(string \<times> ctype) list" where
  "nl80211_data_hostapd =
     [(''eapol_sock'', c_int), (''default_if_indices'', CArray 16 c_int), (''if_indices'', CPtr),
      (''num_if_indices'', c_int), (''last_freq'', c_int), (''last_freq_ht'', c_int)]"

definition nl80211_data_auth :: "nl_types \<Rightarrow> (string \<times> ctype) list" where
  "nl80211_data_auth t =
     [(''auth_freq'', c_int), (''auth_bssid_'', CArray (ETH_ALEN t) c_u8), (''auth_ssid'', CArray 32 c_u8),
      (''auth_ssid_len'', CSize), (''auth_alg'', c_int), (''auth_ie'', CPtr), (''auth_ie_len'', CSize),
      (''auth_wep_key'', CArray 4 (CArray 16 c_u8)), (''auth_wep_key_len'', CArray 4 CSize),
      (''auth_wep_tx_keyidx'', c_int), (''auth_local_state_change'', c_int), (''auth_p2p'', c_int)]"

text \<open>With \<open>HOSTAPD\<close> defined or not.\<close>

definition nl80211_data_members :: "bool \<Rightarrow> nl_types \<Rightarrow> member list" where
  "nl80211_data_members hostapd t =
     plain (struct_wpa_driver_nl80211_data t) @ nl80211_data_flags @
     plain [(''remain_on_chan_cookie'', CInt Unsigned 8), (''send_action_cookie'', CInt Unsigned 8),
       (''last_mgmt_freq'', CInt Unsigned 4), (''filter_ssids'', CPtr), (''num_filter_ssids'', CSize)] @
     [Nested ''first_bss'' (i802_bss_members t)] @ plain [(''eapol_tx_sock'', c_int)] @
     (if hostapd then plain nl80211_data_hostapd else []) @ plain (nl80211_data_auth t)"

lemmas nl_members = i802_bss_members_def nl80211_data_members_def nl80211_data_flags_def bits_1_def
  nl80211_data_hostapd_def nl80211_data_auth_def plain_def

text \<open>
  The three flags of an interface share the byte after its names, and its address is the very next
  byte: it is not aligned. The first member after the nine flags of the driver is aligned.
\<close>

lemma bss_bits:
  assumes "IFNAMSIZ t = 16" "f \<in> {''beacon_set'', ''added_if_into_bridge'', ''added_bridge'', ''addr''}"
  shows "bit_offset arm32 (i802_bss_members t) f = Some (8 * 45 + (if f = ''addr'' then 8 else if f = ''beacon_set'' then 0 else if f = ''added_bridge'' then 2 else 1))"
    and "bit_offset arm64 (i802_bss_members t) f = Some (8 * 53 + (if f = ''addr'' then 8 else if f = ''beacon_set'' then 0 else if f = ''added_bridge'' then 2 else 1))"
proof -
  let ?flags = "bits_1 [''beacon_set'', ''added_if_into_bridge'', ''added_bridge''] @ [Member ''addr'' (CArray (ETH_ALEN t) c_u8)]"
  obtain rest where whole: "i802_bss_members t = plain (struct_i802_bss t) @ ?flags @ rest"
    by (simp add: i802_bss_members_def plain_def)
  have new: "f \<notin> member_name ` set (plain (struct_i802_bss t))"
    using assms(2) by (auto simp: plain_def nl_structs)
  have at: "members_end arm32 0 (plain (struct_i802_bss t)) = 360" "members_end arm64 0 (plain (struct_i802_bss t)) = 424"
    using plain_end [of _ 0 "struct_i802_bss t"] assms(1)
    by (simp_all add: nl_structs arm32_def arm64_def align_up_def)
  have lay: "bit_layout arm32 360 ?flags = [(''beacon_set'', 360, 1), (''added_if_into_bridge'', 361, 1),
      (''added_bridge'', 362, 1), (''addr'', 368, 8 * ETH_ALEN t)]"
    "bit_layout arm64 424 ?flags = [(''beacon_set'', 424, 1), (''added_if_into_bridge'', 425, 1),
      (''added_bridge'', 426, 1), (''addr'', 432, 8 * ETH_ALEN t)]"
    by (simp_all del: bit_layout.simps(2)
        add: bit_layout_Cons bits_1_def member_start_def bit_field_start_def align_up_def c_u8_def arm32_def arm64_def)
  have step: "bit_offset abi (i802_bss_members t) f = map_option fst (map_of (bit_layout abi p ?flags) f)"
    if "members_end abi 0 (plain (struct_i802_bss t)) = p" for abi p
  proof -
    have "f \<in> member_name ` set ?flags" using assms(2) by (auto simp: bits_1_def)
    then have "f \<in> fst ` set (bit_layout abi p ?flags)"
      using bit_layout_names [of abi p ?flags] by (metis list.set_map)
    then obtain v where "map_of (bit_layout abi p ?flags) f = Some v"
      by (metis domD dom_map_of_conv_image_fst)
    with bit_offset_between [OF new, of abi ?flags v rest] that show ?thesis unfolding whole by simp
  qed
  show "bit_offset arm32 (i802_bss_members t) f = Some (8 * 45 + (if f = ''addr'' then 8 else if f = ''beacon_set'' then 0 else if f = ''added_bridge'' then 2 else 1))"
    unfolding step [OF at(1)] using assms(2) by (elim insertE emptyE) (simp_all add: lay)
  show "bit_offset arm64 (i802_bss_members t) f = Some (8 * 53 + (if f = ''addr'' then 8 else if f = ''beacon_set'' then 0 else if f = ''added_bridge'' then 2 else 1))"
    unfolding step [OF at(2)] using assms(2) by (elim insertE emptyE) (simp_all add: lay)
qed

text \<open>The members that the driver commands use lie in the whole structures where they lie in the
  part before the bit-fields, with \<open>HOSTAPD\<close> or without.\<close>

lemma used_in_whole:
  "f \<in> fst ` set (struct_i802_bss t) \<Longrightarrow>
     bit_offset abi (i802_bss_members t) f =
     map_option (\<lambda>(off, t). 8 * off) (map_of (layout abi 0 (struct_i802_bss t)) f)"
  "f \<in> fst ` set (struct_wpa_driver_nl80211_data t) \<Longrightarrow>
     bit_offset abi (nl80211_data_members hostapd t) f =
     map_option (\<lambda>(off, t). 8 * off) (map_of (layout abi 0 (struct_wpa_driver_nl80211_data t)) f)"
  unfolding i802_bss_members_def nl80211_data_members_def by (rule bit_offset_plain, assumption)+

lemma wf_plain [simp]: "wf_members (plain fs) \<longleftrightarrow> wf_fields fs"
  by (induction fs) (auto simp: plain_def)

lemma wf_members_append [simp]: "wf_members (xs @ ys) \<longleftrightarrow> wf_members xs \<and> wf_members ys"
  by (induction xs) auto

lemma wf_bits_1 [simp]: "wf_members (bits_1 fs)"
  by (induction fs) (auto simp: bits_1_def)

text \<open>All members are apart, whatever the types of the other headers are.\<close>

lemma nl_members_disjoint:
  assumes "abi_ok abi" "wf_fields (struct_dl_list t)" "distinct (map fst (struct_dl_list t))"
    "wf_fields (struct_wpa_driver_capa t)" "distinct (map fst (struct_wpa_driver_capa t))"
  shows "sorted_wrt (\<lambda>(f, p, b) (g, q, c). p + b \<le> q) (bit_layout abi 0 (i802_bss_members t))"
    and "sorted_wrt (\<lambda>(f, p, b) (g, q, c). p + b \<le> q) (bit_layout abi 0 (nl80211_data_members hostapd t))"
proof -
  have "wf_members (i802_bss_members t)"
    using assms by (simp add: i802_bss_members_def nl_structs)
  moreover from this have "wf_members (nl80211_data_members hostapd t)"
    using assms by (simp add: nl80211_data_members_def nl_structs nl80211_data_flags_def
        nl80211_data_hostapd_def nl80211_data_auth_def)
  ultimately show "sorted_wrt (\<lambda>(f, p, b) (g, q, c). p + b \<le> q) (bit_layout abi 0 (i802_bss_members t))"
    "sorted_wrt (\<lambda>(f, p, b) (g, q, c). p + b \<le> q) (bit_layout abi 0 (nl80211_data_members hostapd t))"
    using bits_disjoint [OF assms(1)] by blast+
qed

end
