(* ===== verification/Wext_Driver.thy ===== *)
theory Wext_Driver
  imports Bgscan
begin

section \<open>The wireless extensions driver commands\<close>

text \<open>
  \<open>wlan/driver_cmd_wext.c\<close> and its header. The parts under \<open>#ifndef HOSTAPD\<close> call
  \<open>os_strncasecmp\<close> and \<open>wpa_driver_set_backgroundscan_params\<close> with missing arguments, so the file
  only compiles with \<open>HOSTAPD\<close> defined: that is the program modelled here. The copy of the
  background scan function that it holds is in \<open>Wext_Bgscan\<close>.
\<close>

subsection \<open>Constants\<close>

definition WEXT_NUMBER_SCAN_CHANNELS_FCC :: int where "WEXT_NUMBER_SCAN_CHANNELS_FCC = 11"
definition WEXT_NUMBER_SCAN_CHANNELS_ETSI :: int where "WEXT_NUMBER_SCAN_CHANNELS_ETSI = 13"
definition WEXT_NUMBER_SCAN_CHANNELS_MKK1 :: int where "WEXT_NUMBER_SCAN_CHANNELS_MKK1 = 14"
definition WPA_DRIVER_WEXT_WAIT_US :: nat where "WPA_DRIVER_WEXT_WAIT_US = 400000"
definition WEXT_CSCAN_BUF_LEN :: nat where "WEXT_CSCAN_BUF_LEN = 360"
definition WEXT_CSCAN_HEADER :: string where
  "WEXT_CSCAN_HEADER = ''CSCAN S'' @ [CHR 0x01, CHR 0x00, CHR 0x00, CHR ''S'', CHR 0x00]"
definition WEXT_CSCAN_HEADER_SIZE :: nat where "WEXT_CSCAN_HEADER_SIZE = 12"
definition WEXT_CSCAN_SSID_SECTION :: char where "WEXT_CSCAN_SSID_SECTION = CHR ''S''"
definition WEXT_CSCAN_CHANNEL_SECTION :: char where "WEXT_CSCAN_CHANNEL_SECTION = CHR ''C''"
definition WEXT_CSCAN_NPROBE_SECTION :: char where "WEXT_CSCAN_NPROBE_SECTION = CHR ''N''"
definition WEXT_CSCAN_ACTV_DWELL_SECTION :: char where "WEXT_CSCAN_ACTV_DWELL_SECTION = CHR ''A''"
definition WEXT_CSCAN_PASV_DWELL_SECTION :: char where "WEXT_CSCAN_PASV_DWELL_SECTION = CHR ''P''"
definition WEXT_CSCAN_HOME_DWELL_SECTION :: char where "WEXT_CSCAN_HOME_DWELL_SECTION = CHR ''H''"
definition WEXT_CSCAN_TYPE_SECTION :: char where "WEXT_CSCAN_TYPE_SECTION = CHR ''T''"
definition WEXT_CSCAN_TYPE_DEFAULT :: char where "WEXT_CSCAN_TYPE_DEFAULT = CHR 0x00"
definition WEXT_CSCAN_TYPE_PASSIVE :: char where "WEXT_CSCAN_TYPE_PASSIVE = CHR 0x01"
definition WEXT_CSCAN_PASV_DWELL_TIME :: int where "WEXT_CSCAN_PASV_DWELL_TIME = 130"
definition WEXT_CSCAN_PASV_DWELL_TIME_DEF :: u16 where "WEXT_CSCAN_PASV_DWELL_TIME_DEF = 250"
definition WEXT_CSCAN_PASV_DWELL_TIME_MAX :: u16 where "WEXT_CSCAN_PASV_DWELL_TIME_MAX = 3000"
definition WEXT_CSCAN_HOME_DWELL_TIME :: int where "WEXT_CSCAN_HOME_DWELL_TIME = 130"
definition RSSI_CMD :: string where "RSSI_CMD = ''RSSI''"
definition LINKSPEED_CMD :: string where "LINKSPEED_CMD = ''LINKSPEED''"
definition IW_ESSID_MAX_SIZE :: nat where "IW_ESSID_MAX_SIZE = 32"

lemmas wext_consts = WEXT_NUMBER_SCAN_CHANNELS_FCC_def WEXT_NUMBER_SCAN_CHANNELS_ETSI_def
  WEXT_NUMBER_SCAN_CHANNELS_MKK1_def WEXT_CSCAN_BUF_LEN_def WEXT_CSCAN_HEADER_def
  WEXT_CSCAN_HEADER_SIZE_def WEXT_CSCAN_SSID_SECTION_def WEXT_CSCAN_CHANNEL_SECTION_def
  WEXT_CSCAN_PASV_DWELL_SECTION_def WEXT_CSCAN_HOME_DWELL_SECTION_def WEXT_CSCAN_TYPE_SECTION_def
  WEXT_CSCAN_TYPE_PASSIVE_def WEXT_CSCAN_PASV_DWELL_TIME_def WEXT_CSCAN_PASV_DWELL_TIME_DEF_def
  WEXT_CSCAN_PASV_DWELL_TIME_MAX_def WEXT_CSCAN_HOME_DWELL_TIME_def RSSI_CMD_def LINKSPEED_CMD_def
  IW_ESSID_MAX_SIZE_def

subsection \<open>State\<close>

text \<open>The request of an ioctl: the bytes that \<open>data.pointer\<close> leads to and \<open>data.length\<close>.\<close>

datatype wext_event =
    WxIoctl string "cell list" nat
  | WxIfaceFlags string int
  | WxMsg string
  | WxCancelTimeout
  | WxRegisterTimeout int
  | WxNotifyScanning int

record wext_env =
  wx_ioctl :: "wext_event list \<Rightarrow> cell list \<Rightarrow> nat \<Rightarrow> int \<times> string"
  wx_hang_limit :: int
  wx_max_cmd :: nat
  wx_driver_state :: string
  WPA_SCANNING :: int
  WPA_COMPLETED :: int

record wext_drv =
  wx_ifname :: string
  driver_is_started :: bool
  bgscan_enabled :: bool
  scan_complete_events :: bool
  errors :: int
  scanning :: bool
  wpa_state :: int
  wx_mem :: "nat \<Rightarrow> cell list"
  wx_next :: nat
  wx_trace :: "wext_event list"

definition wxlog :: "wext_event \<Rightarrow> wext_drv \<Rightarrow> wext_drv" where
  "wxlog ev s = s\<lparr>wx_trace := wx_trace s @ [ev]\<rparr>"

definition wx_set :: "nat \<Rightarrow> cell list \<Rightarrow> wext_drv \<Rightarrow> wext_drv" where
  "wx_set p b s = s\<lparr>wx_mem := (wx_mem s)(p := b)\<rparr>"

lemma wxlog_simps [simp]:
  "wx_trace (wxlog ev s) = wx_trace s @ [ev]" "wx_mem (wxlog ev s) = wx_mem s"
  "errors (wxlog ev s) = errors s" "driver_is_started (wxlog ev s) = driver_is_started s"
  "wx_ifname (wxlog ev s) = wx_ifname s" "bgscan_enabled (wxlog ev s) = bgscan_enabled s"
  "scanning (wxlog ev s) = scanning s" "wpa_state (wxlog ev s) = wpa_state s"
  "scan_complete_events (wxlog ev s) = scan_complete_events s"
  by (simp_all add: wxlog_def)

lemma wx_set_simps [simp]:
  "wx_trace (wx_set p b s) = wx_trace s" "wx_mem (wx_set p b s) = (wx_mem s)(p := b)"
  "errors (wx_set p b s) = errors s" "driver_is_started (wx_set p b s) = driver_is_started s"
  "wx_ifname (wx_set p b s) = wx_ifname s" "bgscan_enabled (wx_set p b s) = bgscan_enabled s"
  "scanning (wx_set p b s) = scanning s" "wpa_state (wx_set p b s) = wpa_state s"
  "scan_complete_events (wx_set p b s) = scan_complete_events s"
  by (simp_all add: wx_set_def)

subsection \<open>Scanning\<close>

definition wpa_driver_wext_set_scan_timeout :: "wext_drv \<Rightarrow> wext_drv" where
  "wpa_driver_wext_set_scan_timeout s =
     (let timeout = (if scan_complete_events s then 30 else 10)
      in wxlog (WxRegisterTimeout timeout) (wxlog WxCancelTimeout s))"

text \<open>
  The ioctl on a local buffer: the driver reads \<open>len\<close> bytes at the pointer; what it may write
  there is not used again.
\<close>

definition scan_ioctl :: "wext_env \<Rightarrow> cell list \<Rightarrow> nat \<Rightarrow> wext_drv \<Rightarrow> int \<times> wext_drv" where
  "scan_ioctl env b len s =
     (fst (wx_ioctl env (wx_trace s) (take len b) len), wxlog (WxIoctl (ifr_name (wx_ifname s)) (take len b) len) s)"

text \<open>The loop over the SSIDs of the scan parameters.\<close>

fun combo_ssids :: "string list \<Rightarrow> nat \<times> cell list \<Rightarrow> (nat \<times> cell list) option" where
  "combo_ssids [] w = Some w"
| "combo_ssids (x # xs) w =
     (if fst w + IW_ESSID_MAX_SIZE + 10 \<ge> WEXT_CSCAN_BUF_LEN then Some w
      else (case (do { w \<leftarrow> put WEXT_CSCAN_SSID_SECTION w;
                       w \<leftarrow> put (char_of (length x)) w;
                       puts x w }) of
              None \<Rightarrow> None
            | Some w \<Rightarrow> combo_ssids xs w))"

definition combo_build :: "string list \<Rightarrow> (nat \<times> cell list) option" where
  "combo_build ssids = do {
     w \<leftarrow> puts (take WEXT_CSCAN_HEADER_SIZE WEXT_CSCAN_HEADER) (0, replicate WEXT_CSCAN_BUF_LEN None);
     w \<leftarrow> combo_ssids ssids w;
     w \<leftarrow> puts [WEXT_CSCAN_CHANNEL_SECTION, CHR 0x00] w;
     w \<leftarrow> puts [WEXT_CSCAN_PASV_DWELL_SECTION, char_of WEXT_CSCAN_PASV_DWELL_TIME,
             char_of (drop_bit 8 WEXT_CSCAN_PASV_DWELL_TIME)] w;
     puts [WEXT_CSCAN_HOME_DWELL_SECTION, char_of WEXT_CSCAN_HOME_DWELL_TIME,
             char_of (drop_bit 8 WEXT_CSCAN_HOME_DWELL_TIME)] w
   }"

definition wpa_driver_wext_combo_scan :: "wext_env \<Rightarrow> string list \<Rightarrow> wext_drv \<Rightarrow> (int \<times> wext_drv) option" where
  "wpa_driver_wext_combo_scan env ssids s =
     (if \<not> driver_is_started s then Some (0, s)
      else do {
        (bp, b) \<leftarrow> combo_build ssids;
        let (ret, s) = scan_ioctl env b bp s;
        (if ret < 0 \<and> bgscan_enabled s then Some (0, s) else Some (ret, s))
      })"

text \<open>The channel loop of the passive scan: \<open>n\<close> counts down, the buffer's length limits it.\<close>

fun cscan_channels :: "char \<Rightarrow> nat \<Rightarrow> nat \<Rightarrow> nat \<times> cell list \<Rightarrow> (nat \<times> cell list) option" where
  "cscan_channels channel buf_len 0 w = Some w"
| "cscan_channels channel buf_len (Suc n) w =
     (if fst w + 12 \<ge> buf_len then Some w
      else (case puts [WEXT_CSCAN_CHANNEL_SECTION, channel] w of
              None \<Rightarrow> None
            | Some w \<Rightarrow> cscan_channels channel buf_len n w))"

text \<open>
  \<open>cmd\<close> is the text behind the pointer, \<open>b\<close> the caller's buffer. The result is the position, the
  buffer and the command, which is cut at \<open>,TIME=\<close>.
\<close>

definition cscan_time :: "string \<Rightarrow> u16 \<times> string" where
  "cscan_time cmd =
     (case strstr cmd '',TIME='' of
        None \<Rightarrow> (WEXT_CSCAN_PASV_DWELL_TIME_DEF, cmd)
      | Some pasv_ptr \<Rightarrow>
          (let t = (of_int (atoi (drop 6 pasv_ptr)) :: u16)
           in (if t = 0 then WEXT_CSCAN_PASV_DWELL_TIME_DEF else t,
               take (length cmd - length pasv_ptr) cmd)))"

definition wpa_driver_wext_set_cscan_params :: "cell list \<Rightarrow> nat \<Rightarrow> string \<Rightarrow> ((nat \<times> cell list) \<times> string) option" where
  "wpa_driver_wext_set_cscan_params b buf_len cmd =
     (let (pasv_dwell, cmd) = cscan_time cmd in
      if length cmd < 5 then None
      else
        (let channel = (char_of (atoi (drop 5 cmd)) :: char) in do {
           w \<leftarrow> puts (take WEXT_CSCAN_HEADER_SIZE WEXT_CSCAN_HEADER) (0, b);
           w \<leftarrow> puts [WEXT_CSCAN_CHANNEL_SECTION, channel] w;
           w \<leftarrow> (if channel \<noteq> CHR 0x00
                 then cscan_channels channel buf_len
                        ((unat pasv_dwell - 1) div unat WEXT_CSCAN_PASV_DWELL_TIME_DEF) w
                 else Some w);
           let pasv_dwell = (if channel = CHR 0x00 \<and> pasv_dwell > WEXT_CSCAN_PASV_DWELL_TIME_MAX
                             then WEXT_CSCAN_PASV_DWELL_TIME_MAX else pasv_dwell);
           let dwell = (if channel \<noteq> CHR 0x00 then WEXT_CSCAN_PASV_DWELL_TIME_DEF else pasv_dwell);
           w \<leftarrow> puts [WEXT_CSCAN_PASV_DWELL_SECTION, char_of (uint dwell), char_of (drop_bit 8 (uint dwell))] w;
           w \<leftarrow> puts [WEXT_CSCAN_HOME_DWELL_SECTION, char_of WEXT_CSCAN_HOME_DWELL_TIME,
                   char_of (drop_bit 8 WEXT_CSCAN_HOME_DWELL_TIME)] w;
           w \<leftarrow> puts [WEXT_CSCAN_TYPE_SECTION, WEXT_CSCAN_TYPE_PASSIVE] w;
           Some (w, cmd)
         }))"

definition wpa_driver_get_country_code :: "int \<Rightarrow> string" where
  "wpa_driver_get_country_code channels =
     (if channels = WEXT_NUMBER_SCAN_CHANNELS_ETSI then ''EU''
      else if channels = WEXT_NUMBER_SCAN_CHANNELS_MKK1 then ''JP''
      else ''US'')"

subsection \<open>The dispatcher\<close>

text \<open>
  \<open>ioctl (ioctl_sock, SIOCSIWPRIV, &iwr)\<close> on the caller's block. The length field of the
  request has 16 bits. \<open>cmd\<close> and \<open>buf\<close> are different blocks, as in every call of this driver.
\<close>

definition priv_call :: "wext_env \<Rightarrow> nat \<Rightarrow> nat \<Rightarrow> wext_drv \<Rightarrow> (int \<times> wext_drv) option" where
  "priv_call env buf len s =
     (if length (wx_mem s buf) < len then None
      else
        (let (ret, reply) = wx_ioctl env (wx_trace s) (take len (wx_mem s buf)) len;
             s = wxlog (WxIoctl (ifr_name (wx_ifname s)) (take len (wx_mem s buf)) len) s
         in do { b \<leftarrow> kernel_reply reply len (wx_mem s buf); Some (ret, wx_set buf b s) }))"

text \<open>What happens after a failed and after a successful private call.\<close>

definition wext_failed :: "wext_env \<Rightarrow> wext_drv \<Rightarrow> wext_drv" where
  "wext_failed env s =
     (let s = s\<lparr>errors := errors s + 1\<rparr>
      in if errors s > wx_hang_limit env
         then wxlog (WxMsg (wx_driver_state env @ ''HANGED'')) (s\<lparr>errors := 0\<rparr>)
         else s)"

definition wext_reply_cmd :: "string \<Rightarrow> bool" where
  "wext_reply_cmd c \<longleftrightarrow> strcasecmp_eq c RSSI_CMD \<or> strcasecmp_eq c LINKSPEED_CMD \<or>
     strcasecmp_eq c ''MACADDR'' \<or> strcasecmp_eq c ''GETPOWER'' \<or> strcasecmp_eq c ''GETBAND''"

definition wext_done :: "wext_env \<Rightarrow> nat \<Rightarrow> nat \<Rightarrow> wext_drv \<Rightarrow> (int \<times> wext_drv) option" where
  "wext_done env cmd buf s = do {
     let s = s\<lparr>errors := 0\<rparr>;
     c \<leftarrow> cstr (wx_mem s cmd);
     (if wext_reply_cmd c then do { t \<leftarrow> cstr (wx_mem s buf); Some (int (length t), s) }
      else if strcasecmp_eq c ''START'' then
        Some (0, wxlog (WxIfaceFlags (wx_ifname s) 1) (s\<lparr>driver_is_started := True\<rparr>))
      else if strcasecmp_eq c ''STOP'' then Some (0, s\<lparr>driver_is_started := False\<rparr>)
      else if strncasecmp_eq c ''CSCAN'' 5 then
        Some (0, wxlog (WxNotifyScanning 1) (wpa_driver_wext_set_scan_timeout s))
      else Some (0, s))
   }"

text \<open>The commands that are rewritten in place before they are sent.\<close>

definition wext_rewrite :: "wext_env \<Rightarrow> nat \<Rightarrow> string \<Rightarrow> wext_drv \<Rightarrow> wext_drv option" where
  "wext_rewrite env cmd c s =
     (if strcasecmp_eq c ''RSSI-APPROX'' then do {
        b \<leftarrow> blit (take (wx_max_cmd env) (RSSI_CMD @ replicate (wx_max_cmd env - length RSSI_CMD) (CHR 0x00))) (wx_mem s cmd);
        Some (wx_set cmd b s) }
      else if strncasecmp_eq c ''SCAN-CHANNELS'' 13 then do {
        (_, b) \<leftarrow> snprintf (wx_max_cmd env) (''COUNTRY '' @ wpa_driver_get_country_code (atoi (drop 13 c))) (wx_mem s cmd);
        Some (wx_set cmd b s) }
      else if strcasecmp_eq c ''STOP'' then Some (wxlog (WxIfaceFlags (wx_ifname s) 0) s)
      else Some s)"

definition wpa_driver_wext_driver_cmd :: "wext_env \<Rightarrow> nat \<Rightarrow> nat \<Rightarrow> nat \<Rightarrow> wext_drv \<Rightarrow> (int \<times> wext_drv) option" where
  "wpa_driver_wext_driver_cmd env cmd buf buf_len s = do {
     c \<leftarrow> cstr (wx_mem s cmd);
     (if \<not> driver_is_started s \<and> \<not> strcasecmp_eq c ''START'' then Some (- 1, s)
      else if strcasecmp_eq c ''RELOAD'' then
        Some (0, wxlog (WxMsg (wx_driver_state env @ ''HANGED'')) s)
      else do {
        s \<leftarrow> wext_rewrite env cmd c s;
        c \<leftarrow> cstr (wx_mem s cmd);
        b \<leftarrow> blit (c @ [CHR 0x00]) (wx_mem s buf);
        let s = wx_set buf b s;
        (if strncasecmp_eq c ''CSCAN'' 5 \<and>
            \<not> (\<not> scanning s \<and> (wpa_state s \<le> WPA_SCANNING env \<or> wpa_state s \<ge> WPA_COMPLETED env))
         then Some (0, s)
         else do {
           (len, s) \<leftarrow>
             (if strncasecmp_eq c ''CSCAN'' 5 then do {
                ((bp, b), c') \<leftarrow> wpa_driver_wext_set_cscan_params (wx_mem s buf) buf_len c;
                cb \<leftarrow> (if c' = c then Some (wx_mem s cmd) else blit (c' @ [CHR 0x00]) (wx_mem s cmd));
                Some (bp, wx_set buf b (wx_set cmd cb s)) }
              else Some (buf_len mod 65536, s));
           (ret, s) \<leftarrow> priv_call env buf len s;
           (if ret < 0 then Some (ret, wext_failed env s) else wext_done env cmd buf s)
         })
      })
   }"

subsection \<open>Signal strength\<close>

fun strcasestr :: "string \<Rightarrow> string \<Rightarrow> string option" where
  "strcasestr [] n = (if n = [] then Some [] else None)"
| "strcasestr (c # h) n =
     (if map tolower (take (length n) (c # h)) = map tolower n then Some (c # h) else strcasestr h n)"

record wpa_signal_info =
  current_signal :: int
  current_txrate :: int

text \<open>A string literal and a local array: fresh blocks.\<close>

definition wx_push :: "cell list \<Rightarrow> wext_drv \<Rightarrow> nat \<times> wext_drv" where
  "wx_push b s = (wx_next s, s\<lparr>wx_mem := (wx_mem s)(wx_next s := b), wx_next := wx_next s + 1\<rparr>)"

definition literal :: "string \<Rightarrow> cell list" where
  "literal c = map Some (c @ [CHR 0x00])"

definition skip :: "nat \<Rightarrow> string \<Rightarrow> string option" where
  "skip n t = (if n \<le> length t then Some (drop n t) else None)"

definition wpa_driver_signal_poll :: "wext_env \<Rightarrow> wext_drv \<Rightarrow> (int \<times> wpa_signal_info \<times> wext_drv) option" where
  "wpa_driver_signal_poll env s = do {
     let si = \<lparr>current_signal = 0, current_txrate = 0\<rparr>;
     let (buf, s) = wx_push (replicate (wx_max_cmd env) None) s;
     let (rssi, s) = wx_push (literal RSSI_CMD) s;
     (res, s) \<leftarrow> wpa_driver_wext_driver_cmd env rssi buf (wx_max_cmd env) s;
     (if res < 0 then Some (res, si, s)
      else do {
        t \<leftarrow> cstr (wx_mem s buf);
        (case strcasestr t RSSI_CMD of
           None \<Rightarrow> Some (- 1, si, s)
         | Some prssi \<Rightarrow> do {
             v \<leftarrow> skip (length RSSI_CMD + 1) prssi;
             let si = si\<lparr>current_signal := atoi v\<rparr>;
             let (speed, s) = wx_push (literal LINKSPEED_CMD) s;
             (res, s) \<leftarrow> wpa_driver_wext_driver_cmd env speed buf (wx_max_cmd env) s;
             (if res < 0 then Some (res, si, s)
              else do {
                t \<leftarrow> cstr (wx_mem s buf);
                v \<leftarrow> skip (length LINKSPEED_CMD + 1) t;
                Some (0, si\<lparr>current_txrate := signed_take_bit 31 (atoi v * 1000)\<rparr>, s)
              })
           })
      })
   }"

end
