(* ===== verification/Wext_Properties.thy ===== *)
theory Wext_Properties
  imports Wext_Driver
begin

section \<open>The wireless extensions driver commands: properties\<close>

text \<open>
  The scan packets stay inside their buffers, the driver's state machine, the error counter (a
  second instance of \<open>hang_counter\<close>) and what a signal poll reads out of the driver's answers.
\<close>

subsection \<open>The error counter\<close>

definition wext_hangs :: "wext_env \<Rightarrow> wext_drv \<Rightarrow> nat" where
  "wext_hangs env s = length (filter (\<lambda>ev. ev = WxMsg (wx_driver_state env @ ''HANGED'')) (wx_trace s))"

interpretation wext_hang: hang_counter errors "wext_hangs env" "\<lambda>s s'. s' = wext_failed env s"
  "wx_hang_limit env" for env
  by standard (simp_all add: wext_failed_def wext_hangs_def Let_def)

subsection \<open>The combo scan\<close>

lemma puts_append_fun: "puts (xs @ ys) = (\<lambda>w. Option.bind (puts xs w) (puts ys))"
  by (simp add: fun_eq_iff puts_append)

definition ssid_section :: "string \<Rightarrow> string" where
  "ssid_section x = CHR ''S'' # char_of (length x) # x"

definition combo_tail :: string where
  "combo_tail = [CHR ''C'', CHR 0x00, CHR ''P'', CHR 0x82, CHR 0x00, CHR ''H'', CHR 0x82, CHR 0x00]"

lemma combo_ssids_spec:
  assumes "length xs \<le> 351" and "\<forall>x \<in> set ssids. length x \<le> 32" and "length b = 360"
  shows "\<exists>k. combo_ssids ssids (cursor xs b) =
      Some (cursor (xs @ concat (map ssid_section (take k ssids))) b) \<and>
    length (xs @ concat (map ssid_section (take k ssids))) \<le> 351 \<and> k \<le> length ssids \<and>
    (k = length ssids \<or> 360 \<le> length (xs @ concat (map ssid_section (take k ssids))) + 42)"
  using assms
proof (induction ssids arbitrary: xs)
  case Nil
  then show ?case by simp
next
  case (Cons x ssids)
  show ?case
  proof (cases "length xs + 42 \<ge> 360")
    case True
    then show ?thesis
      using Cons.prems by (intro exI [of _ 0]) (simp add: wext_consts cursor_def)
  next
    case False
    let ?xs = "xs @ ssid_section x"
    have len: "length ?xs \<le> 351" "length xs \<le> length b" "length xs + length (ssid_section x) \<le> length b"
      using False Cons.prems by (auto simp: ssid_section_def)
    have put: "(do { w \<leftarrow> put WEXT_CSCAN_SSID_SECTION (cursor xs b);
         w \<leftarrow> put (char_of (length x)) w; puts x w }) = Some (cursor ?xs b)"
      using puts_cursor [OF len(2), of "ssid_section x"] len(3)
      by (simp add: put_puts puts_append [symmetric] ssid_section_def wext_consts puts_puts
          del: puts.simps bind_Some_iff)
    obtain k where k: "combo_ssids ssids (cursor ?xs b) =
        Some (cursor (?xs @ concat (map ssid_section (take k ssids))) b)"
      "length (?xs @ concat (map ssid_section (take k ssids))) \<le> 351" "k \<le> length ssids"
      "k = length ssids \<or> 360 \<le> length (?xs @ concat (map ssid_section (take k ssids))) + 42"
      using Cons.IH [OF len(1)] Cons.prems by auto
    have "fst (cursor xs b) = length xs" by (simp add: cursor_def)
    with False put have "combo_ssids (x # ssids) (cursor xs b) = combo_ssids ssids (cursor ?xs b)"
      by (simp add: wext_consts del: bind_Some_iff)
    with k show ?thesis by (intro exI [of _ "Suc k"]) simp
  qed
qed

lemma combo_build_spec:
  assumes "\<forall>x \<in> set ssids. length x \<le> 32"
  shows "\<exists>k. combo_build ssids = Some (cursor (WEXT_CSCAN_HEADER @ concat (map ssid_section (take k ssids)) @ combo_tail)
      (replicate 360 None)) \<and> k \<le> length ssids \<and>
    length (WEXT_CSCAN_HEADER @ concat (map ssid_section (take k ssids)) @ combo_tail) \<le> 359 \<and>
    (k = length ssids \<or> 318 \<le> length (WEXT_CSCAN_HEADER @ concat (map ssid_section (take k ssids))))"
proof -
  let ?b = "replicate 360 None :: cell list"
  have b: "length ?b = 360" and h: "length WEXT_CSCAN_HEADER = 12" by (simp_all add: wext_consts)
  have head: "puts (take WEXT_CSCAN_HEADER_SIZE WEXT_CSCAN_HEADER) (0, replicate WEXT_CSCAN_BUF_LEN None) =
      Some (cursor WEXT_CSCAN_HEADER ?b)"
    using puts_cursor [of "[]" ?b WEXT_CSCAN_HEADER] h
    by (simp add: WEXT_CSCAN_HEADER_SIZE_def WEXT_CSCAN_BUF_LEN_def del: puts.simps)
  have "length WEXT_CSCAN_HEADER \<le> 351" using h by simp
  from combo_ssids_spec [OF this assms b] obtain k where
    k: "combo_ssids ssids (cursor WEXT_CSCAN_HEADER ?b) =
        Some (cursor (WEXT_CSCAN_HEADER @ concat (map ssid_section (take k ssids))) ?b)"
      "length (WEXT_CSCAN_HEADER @ concat (map ssid_section (take k ssids))) \<le> 351" "k \<le> length ssids"
      "k = length ssids \<or> 360 \<le> length (WEXT_CSCAN_HEADER @ concat (map ssid_section (take k ssids))) + 42"
    by blast
  let ?xs = "WEXT_CSCAN_HEADER @ concat (map ssid_section (take k ssids))"
  have tail: "combo_tail = [WEXT_CSCAN_CHANNEL_SECTION, CHR 0x00] @
      [WEXT_CSCAN_PASV_DWELL_SECTION, char_of WEXT_CSCAN_PASV_DWELL_TIME,
        char_of (drop_bit 8 WEXT_CSCAN_PASV_DWELL_TIME)] @
      [WEXT_CSCAN_HOME_DWELL_SECTION, char_of WEXT_CSCAN_HOME_DWELL_TIME,
        char_of (drop_bit 8 WEXT_CSCAN_HOME_DWELL_TIME)]"
    by (simp add: combo_tail_def wext_consts char_of_def bit_iff_odd)
  have t8: "length combo_tail = 8" by (simp add: combo_tail_def)
  have "combo_build ssids = puts combo_tail (cursor ?xs ?b)"
    unfolding combo_build_def head tail puts_append_fun Option.bind.simps k(1) by (rule refl)
  also have "\<dots> = Some (cursor (?xs @ combo_tail) ?b)"
    using puts_cursor [of ?xs ?b combo_tail] k(2) t8 by simp
  finally show ?thesis using k t8 by (intro exI [of _ k]) auto
qed

text \<open>C22. The combo scan never leaves its buffer: for any number of SSIDs of at most 32 bytes,
  the scan of a started driver makes one ioctl with at most 359 initialised bytes: the header,
  a section for each of the first SSIDs in order, the channel and the two dwell times. SSIDs
  are only dropped when less than 43 bytes are left.\<close>
theorem wext_combo_scan:
  assumes "driver_is_started s" and "\<forall>x \<in> set ssids. length x \<le> 32"
  shows "\<exists>r s' k p. wpa_driver_wext_combo_scan env ssids s = Some (r, s') \<and>
    p = WEXT_CSCAN_HEADER @ concat (map ssid_section (take k ssids)) @ combo_tail \<and>
    wx_trace s' = wx_trace s @ [WxIoctl (ifr_name (wx_ifname s)) (map Some p) (length p)] \<and>
    length p \<le> 359 \<and> (k = length ssids \<or> 318 \<le> length p - 8)"
proof -
  obtain k where k: "combo_build ssids = Some (cursor (WEXT_CSCAN_HEADER @ concat (map ssid_section (take k ssids)) @ combo_tail)
      (replicate 360 None))"
    "length (WEXT_CSCAN_HEADER @ concat (map ssid_section (take k ssids)) @ combo_tail) \<le> 359"
    "k = length ssids \<or> 318 \<le> length (WEXT_CSCAN_HEADER @ concat (map ssid_section (take k ssids)))"
    using combo_build_spec [OF assms(2)] by blast
  define p where "p = WEXT_CSCAN_HEADER @ concat (map ssid_section (take k ssids)) @ combo_tail"
  have l: "length p - 8 = length (WEXT_CSCAN_HEADER @ concat (map ssid_section (take k ssids)))"
    by (simp add: p_def combo_tail_def)
  from k(1) have b: "combo_build ssids = Some (length p, map Some p @ drop (length p) (replicate 360 None))"
    by (simp add: p_def cursor_def)
  obtain r s' where "wpa_driver_wext_combo_scan env ssids s = Some (r, s')"
    "wx_trace s' = wx_trace s @ [WxIoctl (ifr_name (wx_ifname s)) (map Some p) (length p)]"
    using assms(1) b
    by (cases "fst (wx_ioctl env (wx_trace s) (map Some p) (length p)) < 0 \<and> bgscan_enabled s")
      (auto simp: wpa_driver_wext_combo_scan_def scan_ioctl_def Let_def simp del: bind_Some_iff)
  with k(2,3) show ?thesis unfolding l [symmetric] p_def [symmetric] by (auto simp: p_def)
qed

subsection \<open>The passive scan\<close>

lemma cscan_channels_spec:
  assumes "length xs + 8 \<le> buf_len" and "buf_len \<le> length b"
  shows "\<exists>m. cscan_channels ch buf_len n (cursor xs b) =
      Some (cursor (xs @ concat (replicate m [CHR ''C'', ch])) b) \<and> m \<le> n \<and>
    length xs + 2 * m + 8 \<le> buf_len \<and> (m = n \<or> buf_len \<le> length xs + 2 * m + 12)"
  using assms
proof (induction n arbitrary: xs)
  case 0
  then show ?case by (simp add: cursor_def)
next
  case (Suc n)
  have f: "fst (cursor xs b) = length xs" by (simp add: cursor_def)
  show ?case
  proof (cases "length xs + 12 \<ge> buf_len")
    case True
    with Suc.prems f show ?thesis by (intro exI [of _ 0]) simp
  next
    case False
    let ?xs = "xs @ [CHR ''C'', ch]"
    have p: "puts [WEXT_CSCAN_CHANNEL_SECTION, ch] (cursor xs b) = Some (cursor ?xs b)"
      using puts_cursor [of xs b "[CHR ''C'', ch]"] False Suc.prems
      by (simp add: WEXT_CSCAN_CHANNEL_SECTION_def del: puts.simps)
    have "length ?xs + 8 \<le> buf_len" using False by simp
    from Suc.IH [OF this Suc.prems(2)] obtain m where
      m: "cscan_channels ch buf_len n (cursor ?xs b) = Some (cursor (?xs @ concat (replicate m [CHR ''C'', ch])) b)"
        "m \<le> n" "length ?xs + 2 * m + 8 \<le> buf_len" "m = n \<or> buf_len \<le> length ?xs + 2 * m + 12"
      by blast
    have "cscan_channels ch buf_len (Suc n) (cursor xs b) = cscan_channels ch buf_len n (cursor ?xs b)"
      using False f p by (simp del: puts.simps)
    with m show ?thesis by (intro exI [of _ "Suc m"]) auto
  qed
qed

text \<open>The dwell time that the packet carries, and how often the channel is listed.\<close>

definition cscan_dwell :: "char \<Rightarrow> u16 \<Rightarrow> u16" where
  "cscan_dwell ch t = (if ch \<noteq> CHR 0x00 then 250 else if t > 3000 then 3000 else t)"

definition cscan_repeats :: "char \<Rightarrow> u16 \<Rightarrow> nat" where
  "cscan_repeats ch t = (if ch \<noteq> CHR 0x00 then (unat t - 1) div 250 else 0)"

definition cscan_tail :: "char \<Rightarrow> u16 \<Rightarrow> string" where
  "cscan_tail ch t = [CHR ''P'', char_of (uint (cscan_dwell ch t)), char_of (drop_bit 8 (uint (cscan_dwell ch t))),
     CHR ''H'', CHR 0x82, CHR 0x00, CHR ''T'', CHR 0x01]"

lemma cscan_tail_eq:
  "cscan_tail ch t =
    (let t' = (if ch = CHR 0x00 \<and> t > WEXT_CSCAN_PASV_DWELL_TIME_MAX then WEXT_CSCAN_PASV_DWELL_TIME_MAX else t);
         dwell = (if ch \<noteq> CHR 0x00 then WEXT_CSCAN_PASV_DWELL_TIME_DEF else t')
     in [WEXT_CSCAN_PASV_DWELL_SECTION, char_of (uint dwell), char_of (drop_bit 8 (uint dwell))] @
        [WEXT_CSCAN_HOME_DWELL_SECTION, char_of WEXT_CSCAN_HOME_DWELL_TIME,
           char_of (drop_bit 8 WEXT_CSCAN_HOME_DWELL_TIME)] @
        [WEXT_CSCAN_TYPE_SECTION, WEXT_CSCAN_TYPE_PASSIVE])"
  by (simp add: cscan_tail_def cscan_dwell_def wext_consts Let_def char_of_def bit_iff_odd)

text \<open>The passive scan packet stays inside the caller's buffer: for every command and every
  buffer of at least 22 bytes, the bytes written are the header, the channel, as many copies of
  the channel as its dwell time asks for and the buffer has room for, the dwell times and the
  passive type; their number is the result and is at most \<open>buf_len\<close>.\<close>
theorem wext_cscan_params:
  assumes "cscan_time cmd = (t, cmd')" and "5 \<le> length cmd'" and "22 \<le> buf_len" and "buf_len \<le> length b"
  shows "\<exists>m p. wpa_driver_wext_set_cscan_params b buf_len cmd = Some (cursor p b, cmd') \<and>
    p = WEXT_CSCAN_HEADER @ concat (replicate (Suc m) [CHR ''C'', char_of (atoi (drop 5 cmd'))]) @
      cscan_tail (char_of (atoi (drop 5 cmd'))) t \<and>
    length p \<le> buf_len \<and> m \<le> cscan_repeats (char_of (atoi (drop 5 cmd'))) t \<and>
    (m = cscan_repeats (char_of (atoi (drop 5 cmd'))) t \<or> buf_len \<le> length p + 4)"
proof -
  define ch where "ch = (char_of (atoi (drop 5 cmd')) :: char)"
  have h: "length WEXT_CSCAN_HEADER = 12" by (simp add: WEXT_CSCAN_HEADER_def)
  let ?xs = "WEXT_CSCAN_HEADER @ [CHR ''C'', ch]"
  have xs: "length ?xs = 14" using h by simp
  have head: "puts (take WEXT_CSCAN_HEADER_SIZE WEXT_CSCAN_HEADER) (0, b) = Some (cursor WEXT_CSCAN_HEADER b)"
    using puts_cursor [of "[]" b WEXT_CSCAN_HEADER] h assms(3,4)
    by (simp add: WEXT_CSCAN_HEADER_SIZE_def del: puts.simps)
  have chan: "puts [WEXT_CSCAN_CHANNEL_SECTION, ch] (cursor WEXT_CSCAN_HEADER b) = Some (cursor ?xs b)"
    using puts_cursor [of WEXT_CSCAN_HEADER b "[CHR ''C'', ch]"] h assms(3,4)
    by (simp add: WEXT_CSCAN_CHANNEL_SECTION_def del: puts.simps)
  have fits: "length ?xs + 8 \<le> buf_len" using xs assms(3) by simp
  obtain m where m: "(if ch \<noteq> CHR 0x00
        then cscan_channels ch buf_len ((unat t - 1) div unat WEXT_CSCAN_PASV_DWELL_TIME_DEF) (cursor ?xs b)
        else Some (cursor ?xs b)) = Some (cursor (?xs @ concat (replicate m [CHR ''C'', ch])) b)"
    "m \<le> cscan_repeats ch t" "14 + 2 * m + 8 \<le> buf_len"
    "m = cscan_repeats ch t \<or> buf_len \<le> 14 + 2 * m + 12"
  proof (cases "ch = CHR 0x00")
    case True
    with fits xs show thesis by (intro that [of 0]) (simp_all add: cscan_repeats_def)
  next
    case False
    have "unat WEXT_CSCAN_PASV_DWELL_TIME_DEF = 250" by (simp add: WEXT_CSCAN_PASV_DWELL_TIME_DEF_def)
    with cscan_channels_spec [OF fits assms(4), of ch "(unat t - 1) div 250"] False xs show thesis
      by (auto simp: cscan_repeats_def intro: that)
  qed
  let ?ys = "?xs @ concat (replicate m [CHR ''C'', ch])"
  have len: "length ?ys = 14 + 2 * m" using xs by (simp add: length_concat sum_list_replicate)
  have t8: "length (cscan_tail ch t) = 8" by (simp add: cscan_tail_def)
  have "wpa_driver_wext_set_cscan_params b buf_len cmd =
      Option.bind (puts (cscan_tail ch t) (cursor ?ys b)) (\<lambda>w. Some (w, cmd'))"
    using assms(1,2) head chan m(1)
    by (simp add: wpa_driver_wext_set_cscan_params_def ch_def [symmetric] cscan_tail_eq puts_puts Let_def
        del: puts.simps bind_Some_iff)
  moreover have "puts (cscan_tail ch t) (cursor ?ys b) = Some (cursor (?ys @ cscan_tail ch t) b)"
    using puts_cursor [of ?ys b "cscan_tail ch t"] len t8 m(3) assms(4) by simp
  moreover have "?ys @ cscan_tail ch t =
      WEXT_CSCAN_HEADER @ concat (replicate (Suc m) [CHR ''C'', ch]) @ cscan_tail ch t" by simp
  ultimately show ?thesis
    using m(2-4) len t8 unfolding ch_def [symmetric]
    by (intro exI [of _ m] exI [of _ "?ys @ cscan_tail ch t"]) auto
qed

subsection \<open>The dispatcher\<close>

definition rewritten :: "string \<Rightarrow> string" where
  "rewritten c =
     (if strcasecmp_eq c ''RSSI-APPROX'' then ''RSSI''
      else if strncasecmp_eq c ''SCAN-CHANNELS'' 13
      then ''COUNTRY '' @ wpa_driver_get_country_code (atoi (drop 13 c)) else c)"

lemma country_code_cases: "wpa_driver_get_country_code n \<in> {''US'', ''EU'', ''JP''}"
  by (simp add: wpa_driver_get_country_code_def)

lemma lower_literals:
  "tolower CHR ''A'' = CHR ''a''" "tolower CHR ''B'' = CHR ''b''" "tolower CHR ''C'' = CHR ''c''"
  "tolower CHR ''D'' = CHR ''d''" "tolower CHR ''E'' = CHR ''e''" "tolower CHR ''G'' = CHR ''g''"
  "tolower CHR ''I'' = CHR ''i''" "tolower CHR ''K'' = CHR ''k''" "tolower CHR ''L'' = CHR ''l''"
  "tolower CHR ''N'' = CHR ''n''" "tolower CHR ''M'' = CHR ''m''" "tolower CHR ''O'' = CHR ''o''"
  "tolower CHR ''P'' = CHR ''p''" "tolower CHR ''R'' = CHR ''r''" "tolower CHR ''S'' = CHR ''s''"
  "tolower CHR ''T'' = CHR ''t''" "tolower CHR ''U'' = CHR ''u''" "tolower CHR ''X'' = CHR ''x''"
  "tolower CHR ''Y'' = CHR ''y''" "tolower CHR ''-'' = CHR ''-''" "tolower CHR '' '' = CHR '' ''"
  by (simp_all add: tolower_def char_of_def bit_iff_odd)

lemmas lower_simps = strcasecmp_eq_def strncasecmp_eq_def lower_literals

lemma wext_rewrite_effect:
  assumes "wext_rewrite env cmd c s = Some s1" and "cstr (wx_mem s cmd) = Some c" and "12 \<le> wx_max_cmd env"
  shows "cstr (wx_mem s1 cmd) = Some (rewritten c)" "driver_is_started s1 = driver_is_started s"
proof -
  have "cstr (wx_mem s1 cmd) = Some (rewritten c) \<and> driver_is_started s1 = driver_is_started s"
  proof (cases "strcasecmp_eq c ''RSSI-APPROX''")
    case True
    let ?n = "wx_max_cmd env"
    have "take ?n (RSSI_CMD @ replicate (?n - length RSSI_CMD) (CHR 0x00)) =
        ''RSSI'' @ CHR 0x00 # replicate (?n - 5) (CHR 0x00)"
    proof -
      have "?n = (?n - 5) + 5" using assms(3) by simp
      then obtain k where "?n = k + 5" by blast
      then show ?thesis by (simp add: RSSI_CMD_def)
    qed
    with True assms(1) have "\<exists>r. wx_mem s1 cmd = map Some ''RSSI'' @ Some (CHR 0x00) # r"
      "driver_is_started s1 = driver_is_started s"
      using assms(3) by (auto simp: wext_rewrite_def blit_def split: if_splits)
    moreover have "no_nul ''RSSI''" by (simp add: no_nul_def)
    ultimately show ?thesis using True cstr_terminated [of "''RSSI''"] by (auto simp: rewritten_def)
  next
    case False
    show ?thesis
    proof (cases "strncasecmp_eq c ''SCAN-CHANNELS'' 13")
      case True
      let ?t = "''COUNTRY '' @ wpa_driver_get_country_code (atoi (drop 13 c))"
      have len: "length ?t = 10" and nul: "no_nul ?t"
        using country_code_cases [of "atoi (drop 13 c)"] by (auto simp: no_nul_def)
      have "take (wx_max_cmd env - 1) ?t = ?t" using len assms(3) by simp
      with True False assms(1,3) have "wx_mem s1 cmd = map Some ?t @ Some (CHR 0x00) # drop (length ?t + 1) (wx_mem s cmd)"
        "driver_is_started s1 = driver_is_started s"
        by (auto simp: wext_rewrite_def snprintf_def blit_def split: if_splits)
      with True False cstr_terminated [OF nul] show ?thesis by (simp only: rewritten_def if_True if_False)
    next
      case notscan: False
      with False assms(1,2) show ?thesis by (auto simp: wext_rewrite_def rewritten_def split: if_splits)
    qed
  qed
  then show "cstr (wx_mem s1 cmd) = Some (rewritten c)" "driver_is_started s1 = driver_is_started s" by simp_all
qed

lemma priv_call_effect:
  assumes "priv_call env buf len s = Some (ret, s')"
  shows "driver_is_started s' = driver_is_started s" "p \<noteq> buf \<Longrightarrow> wx_mem s' p = wx_mem s p"
  using assms by (auto simp: priv_call_def Let_def split: if_splits prod.splits)

lemma wext_done_started:
  assumes "wext_done env cmd buf s = Some (r, s')" and "cstr (wx_mem s cmd) = Some c"
  shows "driver_is_started s' =
      (if strcasecmp_eq c ''START'' then True else if strcasecmp_eq c ''STOP'' then False else driver_is_started s)"
    "strcasecmp_eq c ''START'' \<or> strcasecmp_eq c ''STOP'' \<Longrightarrow> r = 0"
proof -
  have reply: "\<not> strcasecmp_eq c ''START'' \<and> \<not> strcasecmp_eq c ''STOP''" if "wext_reply_cmd c"
    using that by (auto simp: wext_reply_cmd_def RSSI_CMD_def LINKSPEED_CMD_def lower_simps)
  have stop: "\<not> strcasecmp_eq c ''STOP''" if "strcasecmp_eq c ''START''"
    using that by (simp add: lower_simps)
  from assms reply stop show "driver_is_started s' =
      (if strcasecmp_eq c ''START'' then True else if strcasecmp_eq c ''STOP'' then False else driver_is_started s)"
    "strcasecmp_eq c ''START'' \<or> strcasecmp_eq c ''STOP'' \<Longrightarrow> r = 0"
    by (auto simp: wext_done_def Let_def wpa_driver_wext_set_scan_timeout_def split: if_splits)
qed

lemma wext_failed_started [simp]: "driver_is_started (wext_failed env s) = driver_is_started s"
  by (simp add: wext_failed_def Let_def)

lemma cscan_prefix:
  assumes "wpa_driver_wext_set_cscan_params b n c = Some (w, c')"
  obtains k where "c' = take k c" "5 \<le> length c'"
proof -
  from assms have "c' = snd (cscan_time c)" "5 \<le> length c'"
    by (auto simp: wpa_driver_wext_set_cscan_params_def Let_def split: prod.splits if_splits)
  moreover have "\<exists>k. snd (cscan_time c) = take k c"
  proof (cases "strstr c '',TIME=''")
    case None
    then show ?thesis by (intro exI [of _ "length c"]) (simp add: cscan_time_def)
  next
    case (Some p)
    then show ?thesis
      by (intro exI [of _ "length c - length p"]) (simp add: cscan_time_def Let_def)
  qed
  ultimately show thesis using that by metis
qed

lemma cscan_cut:
  assumes "wpa_driver_wext_set_cscan_params b n c = Some (w, c')" and "strncasecmp_eq c ''CSCAN'' 5"
  shows "\<not> strcasecmp_eq c' ''START'' \<and> \<not> strcasecmp_eq c' ''STOP''"
proof -
  obtain k where c': "c' = take k c" "5 \<le> length c'" by (rule cscan_prefix [OF assms(1)])
  then have "take 5 c' = take 5 c" by (simp add: min_absorb1)
  with assms(2) have "take 5 (map tolower c') = ''cscan''" by (simp add: lower_simps take_map)
  then show ?thesis by (auto simp: lower_simps)
qed

lemma rewritten_not_start_stop:
  assumes "\<not> strcasecmp_eq c ''START''" and "\<not> strcasecmp_eq c ''STOP''"
  shows "\<not> strcasecmp_eq (rewritten c) ''START'' \<and> \<not> strcasecmp_eq (rewritten c) ''STOP''"
  using assms by (auto simp: rewritten_def lower_simps)

lemma start_stop_not_rewritten:
  assumes "strcasecmp_eq c ''START'' \<or> strcasecmp_eq c ''STOP''"
  shows "rewritten c = c" "\<not> strncasecmp_eq c ''CSCAN'' 5" "\<not> strcasecmp_eq c ''RELOAD''"
proof -
  from assms have l: "map tolower c = ''start'' \<or> map tolower c = ''stop''"
    by (simp add: lower_simps)
  then have "\<not> strcasecmp_eq c ''RSSI-APPROX''" "\<not> strcasecmp_eq c ''RELOAD''"
    by (auto simp: lower_simps)
  moreover have "\<not> strncasecmp_eq c ''CSCAN'' 5" "\<not> strncasecmp_eq c ''SCAN-CHANNELS'' 13"
    using l by (auto simp: lower_simps take_map [symmetric])
  ultimately show "rewritten c = c" "\<not> strncasecmp_eq c ''CSCAN'' 5" "\<not> strcasecmp_eq c ''RELOAD''"
    by (simp_all add: rewritten_def)
qed

text \<open>A private call on a block other than the command's, and what its result does to the state.\<close>

lemma wext_send_started:
  assumes "priv_call env buf len s = Some (ret, s1)" and "cmd \<noteq> buf" and "cstr (wx_mem s cmd) = Some c"
    and "(if ret < 0 then Some (ret, wext_failed env s1) else wext_done env cmd buf s1) = Some (r, s')"
  shows "driver_is_started s' =
    (if ret < 0 then driver_is_started s else if strcasecmp_eq c ''START'' then True
     else if strcasecmp_eq c ''STOP'' then False else driver_is_started s)"
    "ret < 0 \<Longrightarrow> r = ret"
    "\<not> ret < 0 \<Longrightarrow> strcasecmp_eq c ''START'' \<or> strcasecmp_eq c ''STOP'' \<Longrightarrow> r = 0"
proof -
  from priv_call_effect(2) [OF assms(1,2)] assms(3) have c: "cstr (wx_mem s1 cmd) = Some c" by simp
  note st = priv_call_effect(1) [OF assms(1)]
  have "driver_is_started s' =
    (if ret < 0 then driver_is_started s else if strcasecmp_eq c ''START'' then True
     else if strcasecmp_eq c ''STOP'' then False else driver_is_started s) \<and> (ret < 0 \<longrightarrow> r = ret) \<and>
    (\<not> ret < 0 \<longrightarrow> strcasecmp_eq c ''START'' \<or> strcasecmp_eq c ''STOP'' \<longrightarrow> r = 0)"
  proof (cases "ret < 0")
    case True
    with assms(4) st show ?thesis by auto
  next
    case False
    with assms(4) have "wext_done env cmd buf s1 = Some (r, s')" by simp
    from wext_done_started [OF this c] False st show ?thesis by simp
  qed
  then show "driver_is_started s' =
    (if ret < 0 then driver_is_started s else if strcasecmp_eq c ''START'' then True
     else if strcasecmp_eq c ''STOP'' then False else driver_is_started s)"
    "ret < 0 \<Longrightarrow> r = ret"
    "\<not> ret < 0 \<Longrightarrow> strcasecmp_eq c ''START'' \<or> strcasecmp_eq c ''STOP'' \<Longrightarrow> r = 0" by simp_all
qed

text \<open>The dispatcher after its two early exits, with the rewritten command.\<close>

lemma wext_cmd_unfold:
  assumes "cstr (wx_mem s cmd) = Some c" and "driver_is_started s \<or> strcasecmp_eq c ''START''"
    and "\<not> strcasecmp_eq c ''RELOAD''" and "wpa_driver_wext_driver_cmd env cmd buf n s = Some (r, s')"
    and "12 \<le> wx_max_cmd env" and "cmd \<noteq> buf"
  obtains (idle) "strncasecmp_eq (rewritten c) ''CSCAN'' 5" "driver_is_started s' = driver_is_started s"
  | (plain) t len ret s1 where "\<not> strncasecmp_eq (rewritten c) ''CSCAN'' 5" "cstr (wx_mem t cmd) = Some (rewritten c)"
      "driver_is_started t = driver_is_started s" "priv_call env buf len t = Some (ret, s1)"
      "(if ret < 0 then Some (ret, wext_failed env s1) else wext_done env cmd buf s1) = Some (r, s')"
  | (cscan) t len ret s1 c' where "strncasecmp_eq (rewritten c) ''CSCAN'' 5" "cstr (wx_mem t cmd) = Some c'"
      "\<not> strcasecmp_eq c' ''START''" "\<not> strcasecmp_eq c' ''STOP''"
      "driver_is_started t = driver_is_started s" "priv_call env buf len t = Some (ret, s1)"
      "(if ret < 0 then Some (ret, wext_failed env s1) else wext_done env cmd buf s1) = Some (r, s')"
proof -
  let ?c = "rewritten c"
  from assms(1-4) obtain s0 where rw: "wext_rewrite env cmd c s = Some s0"
    by (cases "wext_rewrite env cmd c s") (auto simp: wpa_driver_wext_driver_cmd_def simp del: bind_Some_iff)
  note rwe = wext_rewrite_effect [OF rw assms(1,5)]
  obtain b where b: "blit (?c @ [CHR 0x00]) (wx_mem s0 buf) = Some b"
    using assms(1-4) rw rwe(1)
    by (cases "blit (?c @ [CHR 0x00]) (wx_mem s0 buf)")
      (auto simp: wpa_driver_wext_driver_cmd_def simp del: bind_Some_iff)
  let ?s1 = "wx_set buf b s0"
  have c1: "cstr (wx_mem ?s1 cmd) = Some ?c" using rwe(1) assms(6) by simp
  show thesis
  proof (cases "strncasecmp_eq ?c ''CSCAN'' 5")
    case False
    with assms(1-4) rw rwe(1) b obtain ret s2 where
      "priv_call env buf (n mod 65536) ?s1 = Some (ret, s2)"
      "(if ret < 0 then Some (ret, wext_failed env s2) else wext_done env cmd buf s2) = Some (r, s')"
      by (auto simp: wpa_driver_wext_driver_cmd_def Let_def)
    with False c1 rwe(2) show thesis by (intro plain [of ?s1]) auto
  next
    case cs: True
    show thesis
    proof (cases "\<not> scanning ?s1 \<and> (wpa_state ?s1 \<le> WPA_SCANNING env \<or> wpa_state ?s1 \<ge> WPA_COMPLETED env)")
      case False
      with cs assms(1-4) rw rwe b have "s' = ?s1"
        by (simp add: wpa_driver_wext_driver_cmd_def Let_def del: bind_Some_iff split: if_splits)
      with cs rwe(2) show thesis by (intro idle) simp_all
    next
      case True
      with cs assms(1-4) rw rwe(1) b obtain bp b' c' cb ret s2 where
        p: "wpa_driver_wext_set_cscan_params (wx_mem ?s1 buf) n ?c = Some ((bp, b'), c')" and
        cb: "(if c' = ?c then Some (wx_mem ?s1 cmd) else blit (c' @ [CHR 0x00]) (wx_mem ?s1 cmd)) = Some cb" and
        call: "priv_call env buf bp (wx_set buf b' (wx_set cmd cb ?s1)) = Some (ret, s2)" and
        fin: "(if ret < 0 then Some (ret, wext_failed env s2) else wext_done env cmd buf s2) = Some (r, s')"
        by (auto simp: wpa_driver_wext_driver_cmd_def Let_def simp del: wx_set_simps(2))
      have "no_nul c'"
      proof -
        obtain k where "c' = take k ?c" by (rule cscan_prefix [OF p])
        moreover have "no_nul ?c" using cstr_SomeD [OF c1] by blast
        ultimately show ?thesis by (auto simp: no_nul_def dest: in_set_takeD)
      qed
      then have "cstr (wx_mem (wx_set buf b' (wx_set cmd cb ?s1)) cmd) = Some c'"
        using cb c1 assms(6) by (auto simp: blit_def split: if_splits)
      with cs cscan_cut [OF p cs] rwe(2) call fin show thesis by (intro cscan) auto
    qed
  qed
qed

text \<open>C11. The driver is started and stopped by the commands of that name only: a stopped driver
  refuses every command but \<open>START\<close> without touching the device, \<open>START\<close> and \<open>STOP\<close> change the
  state exactly when the device accepts them, and no other command, rewritten or not, changes
  it.\<close>
theorem wext_start_stop:
  assumes "cstr (wx_mem s cmd) = Some c" and "wpa_driver_wext_driver_cmd env cmd buf n s = Some (r, s')"
    and "12 \<le> wx_max_cmd env" and "cmd \<noteq> buf"
  shows "if \<not> driver_is_started s \<and> \<not> strcasecmp_eq c ''START'' then r = - 1 \<and> s' = s
    else driver_is_started s' =
      (if strcasecmp_eq c ''START'' then driver_is_started s \<or> 0 \<le> r
       else if strcasecmp_eq c ''STOP'' then r < 0
       else True)"
proof (cases "driver_is_started s \<or> strcasecmp_eq c ''START''")
  case False
  with assms(1,2) show ?thesis by (simp add: wpa_driver_wext_driver_cmd_def del: bind_Some_iff)
next
  case active: True
  show ?thesis
  proof (cases "strcasecmp_eq c ''RELOAD''")
    case True
    with start_stop_not_rewritten(3) [of c] active assms(1,2) show ?thesis
      by (auto simp: wpa_driver_wext_driver_cmd_def simp del: bind_Some_iff)
  next
    case False
    show ?thesis
      using assms(1) active False assms(2-4)
    proof (cases rule: wext_cmd_unfold)
      case idle
      with start_stop_not_rewritten(1,2) [of c] active show ?thesis by auto
    next
      case (plain t len ret s1)
      note st = wext_send_started [OF plain(4) assms(4) plain(2,5)]
      from start_stop_not_rewritten(1) [of c] rewritten_not_start_stop [of c] st plain(3) active show ?thesis
        by (cases "ret < 0"; cases "strcasecmp_eq c ''START''"; cases "strcasecmp_eq c ''STOP''") auto
    next
      case (cscan t len ret s1 c')
      note st = wext_send_started [OF cscan(6) assms(4) cscan(2,7)]
      from start_stop_not_rewritten(1,2) [of c] cscan(1,3-5) st(1) active show ?thesis by auto
    qed
  qed
qed

subsection \<open>Signal polls\<close>

text \<open>A device that answers a command with a text.\<close>

definition answers :: "wext_env \<Rightarrow> string \<Rightarrow> string \<Rightarrow> bool" where
  "answers env c t \<longleftrightarrow> no_nul t \<and> length t < wx_max_cmd env \<and>
     (\<forall>h b n. wx_ioctl env h (literal c @ b) n = (0, t @ [CHR 0x00]))"

lemma poll_cmd:
  assumes "c \<in> {''RSSI'', ''LINKSPEED''}" and "answers env c t" and "driver_is_started s"
    and "wx_mem s cmd = literal c" and "length (wx_mem s buf) = wx_max_cmd env" and "cmd \<noteq> buf"
    and "12 \<le> wx_max_cmd env" and "wx_max_cmd env < 65536"
  obtains s' where "wpa_driver_wext_driver_cmd env cmd buf (wx_max_cmd env) s = Some (int (length t), s')"
    "cstr (wx_mem s' buf) = Some t" "driver_is_started s'" "length (wx_mem s' buf) = wx_max_cmd env"
    "wx_next s' = wx_next s"
proof -
  let ?n = "wx_max_cmd env"
  from assms(1) have nul: "no_nul c" and len: "length c < 12" by (auto simp: no_nul_def)
  have c: "cstr (wx_mem s cmd) = Some c"
    using cstr_terminated [OF nul, of "[]"] assms(4) by (simp add: literal_def)
  from assms(1) have cases: "\<not> strcasecmp_eq c ''RELOAD''" "\<not> strncasecmp_eq c ''CSCAN'' 5"
    "\<not> strcasecmp_eq c ''RSSI-APPROX''" "\<not> strncasecmp_eq c ''SCAN-CHANNELS'' 13" "\<not> strcasecmp_eq c ''STOP''"
    "wext_reply_cmd c"
    by (auto simp: lower_simps wext_reply_cmd_def RSSI_CMD_def LINKSPEED_CMD_def)
  let ?r = "drop (length c + 1) (wx_mem s buf)"
  let ?s1 = "wx_set buf (literal c @ ?r) s"
  have b: "blit (c @ [CHR 0x00]) (wx_mem s buf) = Some (literal c @ ?r)"
    using len assms(5,7) by (simp add: blit_def literal_def)
  have l1: "length (literal c @ ?r) = ?n" using len assms(5,7) by (simp add: literal_def)
  let ?b2 = "map Some (t @ [CHR 0x00]) @ drop (length t + 1) (literal c @ ?r)"
  let ?s2 = "wx_set buf ?b2 (wxlog (WxIoctl (ifr_name (wx_ifname s)) (literal c @ ?r) ?n) ?s1)"
  have tlen: "length t < ?n" and tnul: "no_nul t" using assms(2) by (simp_all add: answers_def)
  have io: "wx_ioctl env (wx_trace s) (literal c @ ?r) ?n = (0, t @ [CHR 0x00])"
    using assms(2) by (simp add: answers_def)
  have blk: "wx_mem ?s1 buf = literal c @ ?r" by simp
  have "take ?n (wx_mem ?s1 buf) = literal c @ ?r" unfolding blk using l1 by simp
  moreover have "kernel_reply (t @ [CHR 0x00]) ?n (wx_mem ?s1 buf) = Some ?b2"
    unfolding kernel_reply_def blit_def blk using tlen l1 by (simp add: min_absorb1)
  moreover have "\<not> length (wx_mem ?s1 buf) < ?n" unfolding blk using l1 by simp
  ultimately have call: "priv_call env buf ?n ?s1 = Some (0, ?s2)"
    using io by (simp add: priv_call_def Let_def del: bind_Some_iff wx_set_simps(2))
  let ?s3 = "?s2\<lparr>errors := 0\<rparr>"
  have blk2: "wx_mem ?s3 buf = ?b2" by simp
  have t: "cstr (wx_mem ?s3 buf) = Some t"
    unfolding blk2 using cstr_terminated [OF tnul] by simp
  have c2: "cstr (wx_mem ?s3 cmd) = Some c" using c assms(6) by simp
  have fin: "wext_done env cmd buf ?s2 = Some (int (length t), ?s3)"
    using c2 t cases(6) by (simp add: wext_done_def Let_def del: bind_Some_iff wx_set_simps(2))
  have c1: "cstr (wx_mem ?s1 cmd) = Some c" using c assms(6) by simp
  have "wpa_driver_wext_driver_cmd env cmd buf ?n s = Some (int (length t), ?s3)"
    using assms(3,8) c cases b call fin
    by (simp add: wpa_driver_wext_driver_cmd_def wext_rewrite_def Let_def del: bind_Some_iff wx_set_simps(2))
  moreover have "length ?b2 = ?n" using tlen l1 by simp
  ultimately show thesis
    using t assms(3) by (intro that [of ?s3]) (simp_all add: wx_set_def wxlog_def)
qed

lemma signal_poll_value:
  assumes "answers env ''RSSI'' t" and "answers env ''LINKSPEED'' u" and "driver_is_started s"
    and "12 \<le> wx_max_cmd env" and "wx_max_cmd env < 65536"
    and "strcasestr t ''RSSI'' = Some p" and "5 \<le> length p" and "10 \<le> length u"
  shows "\<exists>s'. wpa_driver_signal_poll env s =
    Some (0, \<lparr>current_signal = atoi (drop 5 p), current_txrate = signed_take_bit 31 (atoi (drop 10 u) * 1000)\<rparr>, s')"
proof -
  let ?n = "wx_max_cmd env"
  obtain buf s1 where 1: "wx_push (replicate ?n None) s = (buf, s1)" by fastforce
  obtain rssi s2 where 2: "wx_push (literal ''RSSI'') s1 = (rssi, s2)" by fastforce
  from 1 2 have s2: "driver_is_started s2" "wx_mem s2 rssi = literal ''RSSI''" "length (wx_mem s2 buf) = ?n"
    "rssi \<noteq> buf" "wx_next s2 = Suc (Suc buf)"
    using assms(3) by (auto simp: wx_push_def)
  obtain s3 where 3: "wpa_driver_wext_driver_cmd env rssi buf ?n s2 = Some (int (length t), s3)"
    "cstr (wx_mem s3 buf) = Some t" "driver_is_started s3" "length (wx_mem s3 buf) = ?n" "wx_next s3 = Suc (Suc buf)"
    by (rule poll_cmd [OF _ assms(1) s2(1-4) assms(4,5)]) (auto simp: s2(5))
  obtain speed s4 where 4: "wx_push (literal ''LINKSPEED'') s3 = (speed, s4)" by fastforce
  from 4 3 have s4: "driver_is_started s4" "wx_mem s4 speed = literal ''LINKSPEED''" "length (wx_mem s4 buf) = ?n"
    "speed \<noteq> buf"
    by (auto simp: wx_push_def)
  obtain s5 where 5: "wpa_driver_wext_driver_cmd env speed buf ?n s4 = Some (int (length u), s5)"
    "cstr (wx_mem s5 buf) = Some u"
    by (rule poll_cmd [OF _ assms(2) s4 assms(4,5)]) auto
  show ?thesis
    using 1 2 3(1,2) 4 5 assms(6-8)
    by (simp add: wpa_driver_signal_poll_def RSSI_CMD_def LINKSPEED_CMD_def skip_def del: bind_Some_iff)
      (simp add: eval_nat_numeral)
qed

lemma strcasestr_after_ssid:
  assumes "strcasestr netw ''RSSI'' = None"
  shows "strcasestr (netw @ '' rssi '' @ x) ''RSSI'' = Some (''rssi '' @ x)"
  using assms
proof (induction netw)
  case Nil
  show ?case by (simp add: lower_literals) (simp add: tolower_def char_of_def bit_iff_odd)
next
  case (Cons c h)
  from Cons.prems have none: "strcasestr h ''RSSI'' = None"
    and ne: "map tolower (take 4 (c # h)) \<noteq> map tolower ''RSSI''"
    by (simp_all add: eval_nat_numeral split: if_splits del: list.map map_eq_Cons_conv)
  have "map tolower (take 4 (c # h @ '' rssi '' @ x)) \<noteq> map tolower ''RSSI''"
  proof (cases "4 \<le> length (c # h)")
    case True
    then have "take 4 (c # h @ '' rssi '' @ x) = take 4 (c # h)"
      using take_append [of 4 "c # h" "'' rssi '' @ x"] by simp
    with ne show ?thesis by simp
  next
    case False
    then have "CHR '' '' \<in> set (take 4 (c # h @ '' rssi '' @ x))"
      by (cases h; cases "tl h") (auto simp: take_Cons')
    then have "CHR '' '' \<in> set (map tolower (take 4 (c # h @ '' rssi '' @ x)))"
      using lower_literals by force
    moreover have "CHR '' '' \<notin> set (map tolower ''RSSI'')" by (simp add: lower_literals)
    ultimately show ?thesis by metis
  qed
  with Cons.IH [OF none] show ?case by (simp add: eval_nat_numeral)
qed

text \<open>A signal poll reads what the device answers: from the texts \<open>SSID rssi v\<close> and
  \<open>LinkSpeed w\<close> it returns the signal \<open>v\<close> and the rate \<open>1000 w\<close>, for every network whose name
  does not contain \<open>rssi\<close>.\<close>
theorem wext_signal_poll:
  assumes "answers env ''RSSI'' (netw @ '' rssi '' @ dec_of_int v)"
    and "answers env ''LINKSPEED'' (''LinkSpeed '' @ dec_of_int w)"
    and "strcasestr netw ''RSSI'' = None" and "driver_is_started s"
    and "12 \<le> wx_max_cmd env" and "wx_max_cmd env < 65536"
    and "- (2 ^ 31) \<le> v" and "v < 2 ^ 31" and "0 \<le> w" and "w * 1000 < 2 ^ 31"
  shows "\<exists>s'. wpa_driver_signal_poll env s = Some (0, \<lparr>current_signal = v, current_txrate = w * 1000\<rparr>, s')"
proof -
  have v: "atoi (drop 5 (''rssi '' @ dec_of_int v)) = v"
    using atoi_dec_of_int [of v "[]"] assms(7,8) by simp
  have w: "atoi (drop 10 (''LinkSpeed '' @ dec_of_int w)) = w"
    using atoi_dec_of_int [of w "[]"] assms(9,10) by simp
  have "signed_take_bit 31 (w * 1000) = w * 1000"
    using assms(9,10) by (simp add: signed_take_bit_int_eq_self)
  with signal_poll_value [OF assms(1,2,4-6) strcasestr_after_ssid [OF assms(3)]] v w show ?thesis by simp
qed

text \<open>A network's name can hide its signal: the poll takes the first \<open>rssi\<close> of the answer, so
  for a network called \<open>rssi-\<close> the signal reported is 0, whatever the device measured.\<close>
theorem wext_signal_poll_hidden:
  assumes "answers env ''RSSI'' (''rssi-'' @ '' rssi '' @ dec_of_int v)"
    and "answers env ''LINKSPEED'' (''LinkSpeed '' @ dec_of_int w)"
    and "driver_is_started s" and "12 \<le> wx_max_cmd env" and "wx_max_cmd env < 65536"
  shows "\<exists>si s'. wpa_driver_signal_poll env s = Some (0, si, s') \<and> current_signal si = 0"
proof -
  let ?t = "''rssi-'' @ '' rssi '' @ dec_of_int v"
  have p: "strcasestr ?t ''RSSI'' = Some ?t" by (simp add: tolower_def char_of_def bit_iff_odd)
  have "atoi ('' rssi '' @ dec_of_int v) = 0"
    by (simp add: atoi_def strtol10_def parse_dec_def isspace_def isdigit_def digits_val_def)
  with signal_poll_value [OF assms p] show ?thesis by auto
qed

subsection \<open>A concrete device\<close>

text \<open>A device that accepts every private command, measures -57 and runs at 65.\<close>

definition demo_wext :: "string \<Rightarrow> wext_env" where
  "demo_wext name = \<lparr>
     wx_ioctl = (\<lambda>h b n. if take 5 b = literal ''RSSI'' then (0, name @ '' rssi '' @ dec_of_int (- 57) @ [CHR 0x00])
                         else (0, ''LinkSpeed '' @ dec_of_int 65 @ [CHR 0x00])),
     wx_hang_limit = 4, wx_max_cmd = 256, wx_driver_state = ''CTRL-EVENT-DRIVER-STATE '',
     WPA_SCANNING = 3, WPA_COMPLETED = 9\<rparr>"

definition demo_wext_state :: "bool \<Rightarrow> string \<Rightarrow> wext_drv" where
  "demo_wext_state started c = \<lparr>
     wx_ifname = ''wlan0'', driver_is_started = started, bgscan_enabled = False, scan_complete_events = False,
     errors = 0, scanning = False, wpa_state = 9,
     wx_mem = (\<lambda>p. if p = 0 then literal c else replicate 256 None), wx_next = 2, wx_trace = []\<rparr>"

lemma demo_wext_state_simps [simp]:
  "driver_is_started (demo_wext_state b c) = b" "wx_trace (demo_wext_state b c) = []"
  "wx_ifname (demo_wext_state b c) = ''wlan0''" "wx_mem (demo_wext_state b c) 0 = literal c"
  "wx_mem (demo_wext_state b c) (Suc 0) = replicate 256 None"
  by (simp_all add: demo_wext_state_def)

lemma demo_wext_simps [simp]: "wx_max_cmd (demo_wext name) = 256"
  by (simp add: demo_wext_def)

lemma demo_numbers: "dec_of_int (- 57) = ''-57''" "dec_of_int 65 = ''65''"
  by code_simp+

lemma demo_answers:
  assumes "no_nul name" and "length name \<le> 200"
  shows "answers (demo_wext name) ''RSSI'' (name @ '' rssi '' @ dec_of_int (- 57))"
    and "answers (demo_wext name) ''LINKSPEED'' (''LinkSpeed '' @ dec_of_int 65)"
  using assms by (simp_all add: answers_def demo_wext_def demo_numbers literal_def no_nul_def)

theorem wext_combo_scan_witness:
  "\<exists>r s' k p. wpa_driver_wext_combo_scan (demo_wext ''ap'') [''ab''] (demo_wext_state True ''x'') = Some (r, s') \<and>
     p = WEXT_CSCAN_HEADER @ concat (map ssid_section (take k [''ab''])) @ combo_tail \<and>
     wx_trace s' = [WxIoctl (ifr_name ''wlan0'') (map Some p) (length p)]"
  using wext_combo_scan [of "demo_wext_state True ''x''" "[''ab'']" "demo_wext ''ap''"] by auto

theorem wext_cscan_params_witness:
  "\<exists>m p. wpa_driver_wext_set_cscan_params (replicate 64 None) 64 ''CSCAN6'' =
      Some (cursor p (replicate 64 None), ''CSCAN6'') \<and> length p \<le> 64 \<and> m = (0::nat)"
proof -
  have t: "cscan_time ''CSCAN6'' = (250, ''CSCAN6'')" by code_simp
  have "cscan_repeats c 250 = 0" for c by (simp add: cscan_repeats_def)
  with wext_cscan_params [OF t, of 64 "replicate 64 None"] show ?thesis by auto
qed

lemma demo_start:
  "\<exists>s'. wpa_driver_wext_driver_cmd (demo_wext ''ap'') 0 1 256 (demo_wext_state False ''START'') = Some (0, s')"
proof -
  let ?s = "demo_wext_state False ''START''"
  have c: "cstr (literal ''START'') = Some ''START''"
    using cstr_terminated [of "''START''" "[]"] by (simp add: literal_def no_nul_def)
  let ?b = "literal ''START'' @ replicate 250 None"
  have b: "blit (''START'' @ [CHR 0x00]) (replicate 256 None) = Some ?b"
    by (simp add: blit_def literal_def)
  let ?r = "''LinkSpeed '' @ dec_of_int 65 @ [CHR 0x00]"
  have l: "length ?b = 256" by (simp add: literal_def)
  have io: "wx_ioctl (demo_wext ''ap'') h ?b n = (0, ?r)" for h n
    by (simp add: demo_wext_def literal_def)
  have "\<exists>b'. kernel_reply ?r 256 ?b = Some b'"
    unfolding kernel_reply_def blit_def using l by (simp add: demo_numbers)
  then obtain b' where k: "kernel_reply ?r 256 ?b = Some b'" by blast
  have t: "take 256 ?b = ?b" using l by simp
  have p: "\<exists>s1. priv_call (demo_wext ''ap'') 1 256 (wx_set 1 ?b ?s) = Some (0, s1) \<and> wx_mem s1 0 = literal ''START''"
    using io [of "[]" 256] k t l
    by (simp add: priv_call_def Let_def del: bind_Some_iff wx_set_simps(2)) (simp add: wx_set_def wxlog_def)
  then obtain s1 where s1: "priv_call (demo_wext ''ap'') 1 256 (wx_set 1 ?b ?s) = Some (0, s1)"
    "wx_mem s1 0 = literal ''START''" by blast
  have w: "wx_mem (wx_set 1 ?b ?s) 0 = literal ''START''" by (simp add: wx_set_def)
  have "\<exists>s2. wext_done (demo_wext ''ap'') 0 1 s1 = Some (0, s2)"
    using s1(2) c by (simp add: wext_done_def lower_simps wext_reply_cmd_def RSSI_CMD_def LINKSPEED_CMD_def
        del: bind_Some_iff)
  with s1 show ?thesis
    using c b w
    by (simp add: wpa_driver_wext_driver_cmd_def wext_rewrite_def lower_simps Let_def del: bind_Some_iff)
qed

theorem wext_start_stop_witness:
  "\<exists>s'. wpa_driver_wext_driver_cmd (demo_wext ''ap'') 0 1 256 (demo_wext_state False ''START'') = Some (0, s') \<and>
     driver_is_started s'"
proof -
  obtain s' where s': "wpa_driver_wext_driver_cmd (demo_wext ''ap'') 0 1 256 (demo_wext_state False ''START'') = Some (0, s')"
    using demo_start by blast
  have c: "cstr (wx_mem (demo_wext_state False ''START'') 0) = Some ''START''"
    using cstr_terminated [of "''START''" "[]"] by (simp add: literal_def no_nul_def)
  from wext_start_stop [OF c s'] s' show ?thesis by (simp add: strcasecmp_eq_def)
qed

theorem wext_signal_poll_witness:
  "\<exists>s'. wpa_driver_signal_poll (demo_wext ''ap'') (demo_wext_state True ''x'') =
     Some (0, \<lparr>current_signal = - 57, current_txrate = 65000\<rparr>, s')"
proof -
  have n: "no_nul ''ap''" by (simp add: no_nul_def)
  have "strcasestr ''ap'' ''RSSI'' = None" by (simp add: lower_literals)
  from wext_signal_poll [OF demo_answers [OF n] this, of "demo_wext_state True ''x''"] show ?thesis by simp
qed

theorem wext_signal_poll_hidden_witness:
  "\<exists>si s'. wpa_driver_signal_poll (demo_wext ''rssi-'') (demo_wext_state True ''x'') = Some (0, si, s') \<and>
     current_signal si = 0"
proof -
  have n: "no_nul ''rssi-''" by (simp add: no_nul_def)
  from wext_signal_poll_hidden [OF demo_answers [OF n], of "demo_wext_state True ''x''"] show ?thesis by simp
qed

end
