(* ===== verification/Wext_Bgscan.thy ===== *)
theory Wext_Bgscan
  imports Nl80211_Driver
begin

section \<open>The copy of the background scan in the wireless extensions driver\<close>

text \<open>
  \<open>wpa_driver_set_backgroundscan_params\<close> of \<open>wlan/driver_cmd_wext.c\<close>, the part under
  \<open>#ifndef HOSTAPD\<close>. It takes the driver data of the nl80211 driver, so its state is that of
  \<open>Nl80211_Driver\<close>. The lemmas show step by step that it is the function of
  \<open>wlan/driver_cmd_nl80211.c\<close>: every claim about that function is one about this copy.
\<close>

definition WEXT_BGSCAN_HEADER :: string where "WEXT_BGSCAN_HEADER = ''BGSCAN-CONFIG ''"
definition WEXT_BGSCAN_HEADER_SIZE :: nat where "WEXT_BGSCAN_HEADER_SIZE = 14"
definition WEXT_SSID_AMOUNT :: nat where "WEXT_SSID_AMOUNT = 16"
definition WEXT_BGCAN_BUF_LEN :: nat where "WEXT_BGCAN_BUF_LEN = 720"
definition WEXT_BGSCAN_SSID_SECTION :: char where "WEXT_BGSCAN_SSID_SECTION = CHR ''S''"
definition SSID_MAX_SIZE :: nat where "SSID_MAX_SIZE = 32"
definition WEXT_BGSCAN_RSSI_SECTION :: char where "WEXT_BGSCAN_RSSI_SECTION = CHR ''R''"
definition WEXT_BGSCAN_INTERVAL_SECTION :: char where "WEXT_BGSCAN_INTERVAL_SECTION = CHR ''T''"
definition WEXT_BGSCAN_INTERVAL_DEF :: int where "WEXT_BGSCAN_INTERVAL_DEF = 30"
definition WEXT_BGSCAN_REPEAT_SECTION :: char where "WEXT_BGSCAN_REPEAT_SECTION = CHR ''E''"
definition WEXT_BGSCAN_REPEAT_DEF :: int where "WEXT_BGSCAN_REPEAT_DEF = 5"

lemma wext_bgscan_consts:
  "WEXT_BGSCAN_HEADER = NL80211_BGSCAN_HEADER" "WEXT_BGSCAN_HEADER_SIZE = NL80211_BGSCAN_HEADER_SIZE"
  "WEXT_SSID_AMOUNT = NL80211_SSID_AMOUNT" "WEXT_BGCAN_BUF_LEN = NL80211_BGCAN_BUF_LEN"
  "WEXT_BGSCAN_SSID_SECTION = NL80211_CSCAN_SSID_SECTION" "SSID_MAX_SIZE = NL80211_SSID_MAX_SIZE"
  "WEXT_BGSCAN_RSSI_SECTION = NL80211_BGSCAN_RSSI_SECTION"
  "WEXT_BGSCAN_INTERVAL_SECTION = NL80211_BGSCAN_INTERVAL_SECTION"
  "WEXT_BGSCAN_INTERVAL_DEF = NL80211_BGSCAN_INTERVAL_DEF"
  "WEXT_BGSCAN_REPEAT_SECTION = NL80211_BGSCAN_REPEAT_SECTION"
  "WEXT_BGSCAN_REPEAT_DEF = NL80211_BGSCAN_REPEAT_DEF"
  by (simp_all add: bgscan_consts WEXT_BGSCAN_HEADER_def WEXT_BGSCAN_HEADER_SIZE_def
      WEXT_SSID_AMOUNT_def WEXT_BGCAN_BUF_LEN_def WEXT_BGSCAN_SSID_SECTION_def SSID_MAX_SIZE_def
      WEXT_BGSCAN_RSSI_SECTION_def WEXT_BGSCAN_INTERVAL_SECTION_def WEXT_BGSCAN_INTERVAL_DEF_def
      WEXT_BGSCAN_REPEAT_SECTION_def WEXT_BGSCAN_REPEAT_DEF_def)

definition wext_getop :: "string \<Rightarrow> string \<Rightarrow> bool \<Rightarrow> string option \<times> string \<times> bool" where
  "wext_getop s saved first_time =
     (if first_time then (let (p, saved) = strtok getop_delim s in (p, saved, False))
      else (let (p, saved) = strtok getop_delim saved in (p, saved, False)))"

text \<open>The body of the loop over the options.\<close>

definition wext_bg_option :: "string \<Rightarrow> bg_state \<Rightarrow> bg_state option" where
  "wext_bg_option opstr st =
     (case strstr opstr ''SSID='' of
        Some ptr \<Rightarrow>
          (let ptr = drop 5 ptr in do {
             w \<leftarrow> put WEXT_BGSCAN_SSID_SECTION (bg_w st);
             w \<leftarrow> put (char_of (length ptr)) w;
             w \<leftarrow> puts ptr w;
             Some (st\<lparr>bg_i := bg_i st + 1, find_ssid := True, bg_w := w\<rparr>) })
      | None \<Rightarrow>
     (case strstr opstr ''RSSI='' of
        Some ptr \<Rightarrow>
          (let ptr = drop 5 ptr in do {
             w \<leftarrow> put WEXT_BGSCAN_RSSI_SECTION (bg_w st);
             w \<leftarrow> put (char_of (atoi ptr)) w;
             Some (st\<lparr>bg_w := w\<rparr>) })
      | None \<Rightarrow>
     (case strstr opstr ''INTERVAL='' of
        Some ptr \<Rightarrow>
          (let ptr = drop 9 ptr in do {
             w \<leftarrow> put WEXT_BGSCAN_INTERVAL_SECTION (bg_w st);
             w \<leftarrow> put (char_of (atoi ptr)) w;
             w \<leftarrow> put (char_of (drop_bit 8 (atoi ptr))) w;
             Some (st\<lparr>find_interval := True, bg_w := w\<rparr>) })
      | None \<Rightarrow>
     (case strstr opstr ''REPEAT='' of
        Some ptr \<Rightarrow>
          (let ptr = drop 7 ptr in do {
             w \<leftarrow> put WEXT_BGSCAN_REPEAT_SECTION (bg_w st);
             w \<leftarrow> put (char_of (atoi ptr)) w;
             Some (st\<lparr>find_repeat := True, bg_w := w\<rparr>) })
      | None \<Rightarrow> Some st))))"

text \<open>The loop over the options: \<open>getop\<close> is called with \<open>first_time\<close> cleared.\<close>

lemma wext_getop_shrinks:
  "wext_getop s saved False = (Some t, saved', ft) \<Longrightarrow> length saved' < length saved"
  by (auto simp: wext_getop_def split: prod.splits dest: strtok_shrinks(2))

function wext_bg_options :: "string \<Rightarrow> string \<Rightarrow> bg_state \<Rightarrow> bg_state option" where
  "wext_bg_options cmd saved st =
     (case wext_getop cmd saved False of
        (None, _, _) \<Rightarrow> Some st
      | (Some opstr, saved', _) \<Rightarrow>
          (case wext_bg_option opstr st of
             None \<Rightarrow> None
           | Some st' \<Rightarrow> wext_bg_options cmd saved' st'))"
  by pat_completeness auto
termination
  by (relation "measure (\<lambda>(cmd, saved, st). length saved)") (auto dest: wext_getop_shrinks [OF sym])

declare wext_bg_options.simps [simp del]

text \<open>The loop over the configured networks.\<close>

fun wext_bg_networks :: "wpa_ssid list \<Rightarrow> bg_state \<Rightarrow> bg_state option" where
  "wext_bg_networks [] st = Some st"
| "wext_bg_networks (c # ssid_conf) st =
     (if bg_i st < WEXT_SSID_AMOUNT then
        (if \<not> disabled c \<and> length (ssid c) \<le> SSID_MAX_SIZE then
           (case (do { w \<leftarrow> put WEXT_BGSCAN_SSID_SECTION (bg_w st);
                       w \<leftarrow> put (char_of (length (ssid c))) w;
                       w \<leftarrow> puts (ssid c) w;
                       Some (st\<lparr>bg_w := w, bg_i := bg_i st + 1\<rparr>) }) of
              None \<Rightarrow> None
            | Some st' \<Rightarrow> wext_bg_networks ssid_conf st')
         else wext_bg_networks ssid_conf st)
      else Some st)"

definition wext_bg_build :: "string \<Rightarrow> wpa_ssid list \<Rightarrow> (nat \<times> cell list) option" where
  "wext_bg_build cmd ssid_conf = do {
     w \<leftarrow> puts (take WEXT_BGSCAN_HEADER_SIZE WEXT_BGSCAN_HEADER) (0, replicate WEXT_BGCAN_BUF_LEN None);
     let (_, saved, first_time) = wext_getop cmd [] True;
     st \<leftarrow> wext_bg_options cmd saved
            \<lparr>bg_w = w, bg_i = 0, find_ssid = False, find_interval = False, find_repeat = False\<rparr>;
     st \<leftarrow> (if \<not> find_ssid st then wext_bg_networks ssid_conf st else Some st);
     w \<leftarrow> (if \<not> find_interval st
           then puts [WEXT_BGSCAN_INTERVAL_SECTION, char_of WEXT_BGSCAN_INTERVAL_DEF,
                  char_of (drop_bit 8 WEXT_BGSCAN_INTERVAL_DEF)] (bg_w st)
           else Some (bg_w st));
     (if \<not> find_repeat st
      then puts [WEXT_BGSCAN_REPEAT_SECTION, char_of WEXT_BGSCAN_REPEAT_DEF] w
      else Some w)
   }"

definition wext_set_backgroundscan_params :: "nl_env \<Rightarrow> i802_bss \<Rightarrow> nat \<Rightarrow> nl_state \<Rightarrow>
    (int \<times> nl_state) option" where
  "wext_set_backgroundscan_params env bss cmd s =
     (case drv bss of
        None \<Rightarrow> Some (- 1, s)
      | Some dr \<Rightarrow>
     (case ctx dr of
        None \<Rightarrow> Some (- 1, s)
      | Some wpa_s \<Rightarrow>
     (case conf wpa_s of
        None \<Rightarrow> Some (- 1, s)
      | Some ssid_conf \<Rightarrow> do {
          c \<leftarrow> cstr (mem s cmd);
          (_, b) \<leftarrow> wext_bg_build c ssid_conf;
          let (buf, s) = push_block b s;
          private_ioctl env bss buf WEXT_BGCAN_BUF_LEN s
        })))"

subsection \<open>The copy is the original\<close>

lemma wext_getop_eq: "wext_getop = getop"
  by (simp add: fun_eq_iff wext_getop_def getop_def)

lemma wext_bg_option_eq: "wext_bg_option = bg_option"
  unfolding fun_eq_iff wext_bg_option_def bg_option_def wext_bgscan_consts by simp

lemma wext_bg_options_eq: "wext_bg_options cmd saved st = bg_options saved st"
proof (induction cmd saved st rule: wext_bg_options.induct)
  case (1 cmd saved st)
  obtain t saved' where tok: "strtok getop_delim saved = (t, saved')" by (cases "strtok getop_delim saved")
  then have op: "wext_getop cmd saved False = (t, saved', False)" by (simp add: wext_getop_def)
  show ?case
  proof (cases t)
    case None
    then show ?thesis using op tok
      by (subst wext_bg_options.simps, subst bg_options.simps) simp
  next
    case (Some opstr)
    have "wext_bg_option opstr st = Some st' \<Longrightarrow> wext_bg_options cmd saved' st' = bg_options saved' st'" for st'
      by (rule "1.IH" [OF op [symmetric] Some refl])
    then show ?thesis using op tok Some
      by (subst wext_bg_options.simps, subst bg_options.simps)
        (simp add: wext_bg_option_eq split: option.splits)
  qed
qed

lemma wext_bg_networks_eq: "wext_bg_networks nets st = bg_networks nets st"
proof (induction nets arbitrary: st)
  case (Cons c nets)
  show ?case
    unfolding wext_bg_networks.simps bg_networks.simps wext_bgscan_consts Cons.IH by simp
qed simp

lemma wext_bg_build_eq: "wext_bg_build = bg_build"
  unfolding fun_eq_iff wext_bg_build_def bg_build_def wext_bgscan_consts wext_getop_eq
    wext_bg_options_eq wext_bg_networks_eq by simp

lemma wext_set_backgroundscan_params_eq:
  "wext_set_backgroundscan_params = wpa_driver_set_backgroundscan_params"
  unfolding fun_eq_iff wext_set_backgroundscan_params_def wpa_driver_set_backgroundscan_params_def
    wext_bgscan_consts wext_bg_build_eq by simp

end
