(* ===== verification/CStdio.thy ===== *)
theory CStdio
  imports CString
begin

section \<open>Reading lines\<close>

text \<open>
  \<open>fgets\<close> of the C library as the programs here use it: into an array of \<open>n\<close> bytes it reads at
  most \<open>n - 1\<close> bytes, up to a newline, which it keeps. \<open>None\<close> is the null pointer for a stream with
  nothing to read. What the program then sees of the array is the C string in it.
\<close>

definition LF :: char where "LF = CHR 0x0A"
definition CR :: char where "CR = CHR 0x0D"

definition first_line :: "string \<Rightarrow> string" where
  "first_line t = (let p = takeWhile (\<lambda>c. c \<noteq> LF) t in p @ take 1 (drop (length p) t))"

definition fgets :: "nat \<Rightarrow> string \<Rightarrow> string option" where
  "fgets n t = (if t = [] then None else Some (takeWhile (\<lambda>c. c \<noteq> CHR 0x00) (first_line (take (n - 1) t))))"

lemma first_line_complete:
  assumes "LF \<notin> set l"
  shows "first_line (l @ LF # r) = l @ [LF]" and "first_line l = l"
proof -
  have "\<forall>c \<in> set l. c \<noteq> LF" using assms by auto
  then have tw: "takeWhile (\<lambda>c. c \<noteq> LF) (l @ LF # r) = l" "takeWhile (\<lambda>c. c \<noteq> LF) l = l"
    by (simp_all add: takeWhile_append2 takeWhile_eq_all_conv)
  show "first_line (l @ LF # r) = l @ [LF]" and "first_line l = l"
    unfolding first_line_def Let_def tw by simp_all
qed

text \<open>A line that fits is read as it stands.\<close>

lemma fgets_line:
  assumes "LF \<notin> set l" and "CHR 0x00 \<notin> set l" and "length l + 2 \<le> n"
  shows "fgets n (l @ LF # r) = Some (l @ [LF])"
proof -
  have "take (n - 1) (l @ LF # r) = l @ LF # take (n - 2 - length l) r"
    using assms(3) by (simp add: take_Cons' numeral_2_eq_2)
  moreover have "takeWhile (\<lambda>c. c \<noteq> CHR 0x00) (l @ [LF]) = l @ [LF]"
    using assms(2) by (simp add: takeWhile_eq_all_conv LF_def) blast
  ultimately show ?thesis by (simp add: fgets_def first_line_complete(1) [OF assms(1)])
qed

end
