(* ===== verification/Perfd.thy ===== *)
theory Perfd
  imports CStdio
begin

section \<open>The performance daemon\<close>

text \<open>
  \<open>fixsys/perfd.cpp\<close>. What the program finds on the device is the record \<open>perf_env\<close>, whose
  answers may depend on everything done before; what it does is a list of events, which every
  function takes and extends. A \<open>std::string\<close> is a string without NUL, as it always comes from a
  C string here. The lines that only log are left out.
\<close>

subsection \<open>Files\<close>

text \<open>An attempt to set a file to a value: \<open>None\<close> when it could not be opened, and otherwise what
  \<open>write\<close> returned.\<close>

datatype perf_event =
    PfSet string string "int option"
  | PfRead string
  | PfList string

record perf_env =
  fs_open :: "perf_event list \<Rightarrow> string \<Rightarrow> bool"
  fs_write :: "perf_event list \<Rightarrow> string \<Rightarrow> string \<Rightarrow> int"
  fs_text :: "perf_event list \<Rightarrow> string \<Rightarrow> string option"
  fs_dir :: "perf_event list \<Rightarrow> string \<Rightarrow> string list option"

definition write_sysfs :: "perf_env \<Rightarrow> string \<Rightarrow> string \<Rightarrow> perf_event list \<Rightarrow> bool \<times> perf_event list" where
  "write_sysfs env path value h =
     (if \<not> fs_open env h path then (False, h @ [PfSet path value None])
      else (let written = fs_write env h path value
            in (written = int (length value), h @ [PfSet path value (Some written)])))"

text \<open>A call whose result is not used.\<close>

definition put_sysfs :: "perf_env \<Rightarrow> string \<Rightarrow> string \<Rightarrow> perf_event list \<Rightarrow> perf_event list" where
  "put_sysfs env path value h = snd (write_sysfs env path value h)"

definition strip_eol :: "string \<Rightarrow> string" where
  "strip_eol s = rev (dropWhile (\<lambda>c. c = LF \<or> c = CR) (rev s))"

definition read_sysfs :: "perf_env \<Rightarrow> string \<Rightarrow> perf_event list \<Rightarrow> string \<times> perf_event list" where
  "read_sysfs env path h =
     (case fs_text env h path of
        None \<Rightarrow> [] | Some t \<Rightarrow> (case fgets 256 t of None \<Rightarrow> [] | Some buf \<Rightarrow> strip_eol buf),
      h @ [PfRead path])"

definition contains_token :: "string \<Rightarrow> string \<Rightarrow> bool" where
  "contains_token haystack token \<longleftrightarrow> strstr haystack token \<noteq> None"

text \<open>\<open>name.compare (0, n, prefix) == 0\<close>\<close>

definition starts_with :: "nat \<Rightarrow> string \<Rightarrow> string \<Rightarrow> bool" where
  "starts_with n prefix name \<longleftrightarrow> take n name = prefix"

definition list_dir :: "perf_env \<Rightarrow> string \<Rightarrow> string \<Rightarrow> perf_event list \<Rightarrow> string list \<times> perf_event list" where
  "list_dir env base prefix h =
     (case fs_dir env h base of
        None \<Rightarrow> []
      | Some names \<Rightarrow>
          filter (\<lambda>name. \<not> (name = ''.'' \<or> name = ''..'') \<and> (prefix = [] \<or> starts_with (length prefix) prefix name)) names,
      h @ [PfList base])"

subsection \<open>CPU frequency\<close>

text \<open>The body of the loop over the CPUs, and the loop.\<close>

definition optimize_cpu :: "perf_env \<Rightarrow> string \<Rightarrow> perf_event list \<Rightarrow> perf_event list" where
  "optimize_cpu env cpu h =
     (if length cpu < 4 \<or> \<not> isdigit (cpu ! 3) then h
      else
        (let base = ''/sys/devices/system/cpu/'' @ cpu @ ''/cpufreq'';
             (available, h) = read_sysfs env (base @ ''/scaling_available_governors'') h;
             (max_freq, h) = read_sysfs env (base @ ''/cpuinfo_max_freq'') h
         in if contains_token available ''performance'' then
              put_sysfs env (base @ ''/scaling_governor'') ''performance'' h
            else if contains_token available ''ondemand'' then
              (let h = put_sysfs env (base @ ''/scaling_governor'') ''ondemand'' h
               in if max_freq \<noteq> [] then
                    (let h = put_sysfs env (base @ ''/scaling_min_freq'') max_freq h
                     in put_sysfs env (base @ ''/scaling_max_freq'') max_freq h)
                  else h)
            else if contains_token available ''userspace'' then
              (let h = put_sysfs env (base @ ''/scaling_governor'') ''userspace'' h
               in if max_freq \<noteq> [] then
                    (let h = put_sysfs env (base @ ''/scaling_min_freq'') max_freq h;
                         h = put_sysfs env (base @ ''/scaling_max_freq'') max_freq h
                     in put_sysfs env (base @ ''/scaling_setspeed'') max_freq h)
                  else h)
            else h))"

definition optimize_cpufreq :: "perf_env \<Rightarrow> perf_event list \<Rightarrow> perf_event list" where
  "optimize_cpufreq env h =
     (let (cpus, h) = list_dir env ''/sys/devices/system/cpu'' ''cpu'' h
      in fold (optimize_cpu env) cpus h)"

subsection \<open>GPU frequency\<close>

definition optimize_gpu :: "perf_env \<Rightarrow> string \<Rightarrow> perf_event list \<Rightarrow> perf_event list" where
  "optimize_gpu env core h =
     (let base = ''/sys/devices/platform/galcore/gpu/'' @ core @ ''/gpufreq'';
          (available, h) = read_sysfs env (base @ ''/scaling_available_governors'') h;
          (max_freq, h) = read_sysfs env (base @ ''/cpuinfo_max_freq'') h;
          (max_freq, h) = (if max_freq = [] then read_sysfs env (base @ ''/scaling_max_freq'') h else (max_freq, h))
      in if max_freq = [] then h
         else
           (let (governor_set, h) =
                  (if available = [] \<or> contains_token available ''performance''
                   then write_sysfs env (base @ ''/scaling_governor'') ''performance'' h else (False, h));
                (governor_set, h) =
                  (if \<not> governor_set \<and> (available = [] \<or> contains_token available ''ondemand'')
                   then write_sysfs env (base @ ''/scaling_governor'') ''ondemand'' h else (governor_set, h));
                h = (if \<not> governor_set then put_sysfs env (base @ ''/scaling_governor'') ''userspace'' h else h);
                h = put_sysfs env (base @ ''/scaling_min_freq'') max_freq h;
                h = put_sysfs env (base @ ''/scaling_max_freq'') max_freq h
            in put_sysfs env (base @ ''/scaling_setspeed'') max_freq h))"

definition optimize_gpufreq :: "perf_env \<Rightarrow> perf_event list \<Rightarrow> perf_event list" where
  "optimize_gpufreq env h = fold (optimize_gpu env) [''gpu0'', ''gpu1'', ''gpu2''] h"

subsection \<open>Bus and memory frequency\<close>

definition long_to_string :: "int \<Rightarrow> string" where
  "long_to_string value = take 31 (dec_of_int value)"

text \<open>C's division by 1000 rounds towards zero.\<close>

definition parse_khz :: "string \<Rightarrow> int" where
  "parse_khz hz_str =
     (if hz_str = [] then 0
      else (let hz = strtol10 64 hz_str in if hz < 0 then - (- hz div 1000) else hz div 1000))"

definition optimize_dev :: "perf_env \<Rightarrow> string \<Rightarrow> perf_event list \<Rightarrow> perf_event list" where
  "optimize_dev env dev h =
     (let base = ''/sys/class/devfreq/'' @ dev;
          (max_freq_hz, h) = read_sysfs env (base @ ''/max_freq'') h
      in if starts_with 11 ''devfreq-ddr'' dev then
           (let max_khz = parse_khz max_freq_hz
            in if max_khz > 0 then
                 (let h = put_sysfs env (base @ ''/disable_ddr_fc'') ''1'' h
                  in put_sysfs env (base @ ''/ddr_freq'') (long_to_string max_khz) h)
               else h)
         else
           (let (available, h) = read_sysfs env (base @ ''/available_governors'') h
            in if contains_token available ''performance'' then
                 put_sysfs env (base @ ''/governor'') ''performance'' h
               else if contains_token available ''userspace'' then
                 (if max_freq_hz \<noteq> [] then
                    (let h = put_sysfs env (base @ ''/governor'') ''userspace'' h
                     in put_sysfs env (base @ ''/userspace/set_freq'') max_freq_hz h)
                  else h)
               else h))"

definition optimize_devfreq :: "perf_env \<Rightarrow> perf_event list \<Rightarrow> perf_event list" where
  "optimize_devfreq env h =
     (let (devices, h) = list_dir env ''/sys/class/devfreq'' [] h
      in fold (optimize_dev env) devices h)"

subsection \<open>Block devices\<close>

definition optimize_block :: "perf_env \<Rightarrow> string \<Rightarrow> perf_event list \<Rightarrow> perf_event list" where
  "optimize_block env block h =
     (if starts_with 4 ''loop'' block \<or> starts_with 3 ''ram'' block then h
      else
        (let sched_path = ''/sys/block/'' @ block @ ''/queue/scheduler'';
             (available, h) = read_sysfs env sched_path h;
             h = (if contains_token available ''noop'' then put_sysfs env sched_path ''noop'' h
                  else if contains_token available ''deadline'' then put_sysfs env sched_path ''deadline'' h
                  else h)
         in put_sysfs env (''/sys/block/'' @ block @ ''/queue/read_ahead_kb'') ''512'' h))"

definition optimize_io_scheduler :: "perf_env \<Rightarrow> perf_event list \<Rightarrow> perf_event list" where
  "optimize_io_scheduler env h =
     (let (blocks, h) = list_dir env ''/sys/block'' [] h
      in fold (optimize_block env) blocks h)"

subsection \<open>Fixed settings\<close>

definition optimize_vm :: "perf_env \<Rightarrow> perf_event list \<Rightarrow> perf_event list" where
  "optimize_vm env h =
     (let h = put_sysfs env ''/proc/sys/vm/swappiness'' ''10'' h;
          h = put_sysfs env ''/proc/sys/vm/vfs_cache_pressure'' ''50'' h;
          h = put_sysfs env ''/proc/sys/vm/dirty_ratio'' ''20'' h;
          h = put_sysfs env ''/proc/sys/vm/dirty_background_ratio'' ''5'' h
      in put_sysfs env ''/proc/sys/vm/min_free_kbytes'' ''8192'' h)"

definition optimize_lmk :: "perf_env \<Rightarrow> perf_event list \<Rightarrow> perf_event list" where
  "optimize_lmk env h =
     (let h = put_sysfs env ''/sys/module/lowmemorykiller/parameters/minfree'' ''8192,10240,12288,16384,20480,24576'' h
      in put_sysfs env ''/sys/module/lowmemorykiller/parameters/adj'' ''0,1,2,4,9,15'' h)"

definition perfd_main :: "perf_env \<Rightarrow> perf_event list \<Rightarrow> int \<times> perf_event list" where
  "perfd_main env h =
     (let h = optimize_cpufreq env h;
          h = optimize_gpufreq env h;
          h = optimize_devfreq env h;
          h = optimize_io_scheduler env h;
          h = optimize_vm env h;
          h = optimize_lmk env h
      in (0, h))"

end
