(* ===== verification/Perfd_Properties.thy ===== *)
theory Perfd_Properties
  imports Perfd "HOL-Library.Sublist"
begin

section \<open>What the performance daemon sets\<close>

text \<open>
  The files that the daemon sets, in order and with the values, read off the events; the policy of
  the CPUs as a table; and, as a relation between the history of a run and a setting, everything
  that the daemon may set. A file can hold something else each time it is read: a value that
  was read is a value with the history at which it was read.
\<close>

subsection \<open>Settings of a run\<close>

fun settings_of :: "perf_event \<Rightarrow> (string \<times> string) list" where
  "settings_of (PfSet path value r) = [(path, value)]"
| "settings_of (PfRead path) = []"
| "settings_of (PfList path) = []"

definition settings :: "perf_event list \<Rightarrow> (string \<times> string) list" where
  "settings h = concat (map settings_of h)"

definition line_of :: "string option \<Rightarrow> string" where
  "line_of f = (case f of None \<Rightarrow> [] | Some t \<Rightarrow> (case fgets 256 t of None \<Rightarrow> [] | Some buf \<Rightarrow> strip_eol buf))"

lemma settings_append [simp]:
  "settings (h @ h') = settings h @ settings h'" "settings [] = []" "settings (e # h) = settings_of e @ settings h"
  by (simp_all add: settings_def)

lemma settings_steps [simp]:
  "settings (snd (write_sysfs env p v h)) = settings h @ [(p, v)]"
  "settings (put_sysfs env p v h) = settings h @ [(p, v)]"
  "settings (snd (read_sysfs env p h)) = settings h"
  "settings (snd (list_dir env b x h)) = settings h"
  by (simp_all add: put_sysfs_def write_sysfs_def read_sysfs_def list_dir_def Let_def)

text \<open>Every function only extends the history.\<close>

lemma prefix_steps:
  "prefix h (snd (write_sysfs env p v h))" "prefix h (put_sysfs env p v h)"
  "prefix h (snd (read_sysfs env p h))" "prefix h (snd (list_dir env b x h))"
  by (simp_all add: put_sysfs_def write_sysfs_def read_sysfs_def list_dir_def Let_def)

lemma grows:
  "prefix h h' \<Longrightarrow> prefix h (snd (write_sysfs env p v h'))" "prefix h h' \<Longrightarrow> prefix h (put_sysfs env p v h')"
  "prefix h h' \<Longrightarrow> prefix h (snd (read_sysfs env p h'))" "prefix h h' \<Longrightarrow> prefix h (snd (list_dir env b x h'))"
  "prefix h h' \<Longrightarrow> prefix h (h' @ evs)"
  by (rule prefix_order.trans, assumption, simp add: prefix_steps)+

lemma prefix_fold:
  assumes "\<And>x h. prefix h (f x h)"
  shows "prefix h (fold f xs h)"
proof (induction xs arbitrary: h)
  case (Cons x xs)
  have "prefix (f x h) (fold f xs (f x h))" by (rule Cons.IH)
  with assms [of h x] show ?case by (auto intro: prefix_order.trans)
qed simp

lemma contains_token_sublist: "contains_token line g \<longleftrightarrow> sublist g line"
proof -
  have "strstr line g \<noteq> None \<longleftrightarrow> sublist g line"
  proof (induction line)
    case (Cons c line)
    have "take (length g) (c # line) = g \<longleftrightarrow> prefix g (c # line)"
      by (auto simp: prefix_def) (metis append_take_drop_id)
    with Cons show ?case by (auto simp: sublist_Cons_right)
  qed simp
  then show ?thesis by (simp add: contains_token_def)
qed

lemma starts_with_prefix: "starts_with (length x) x name \<longleftrightarrow> prefix x name"
  by (auto simp: starts_with_def prefix_def) (metis append_take_drop_id)

lemma read_sysfs_eq: "read_sysfs env p h = (line_of (fs_text env h p), h @ [PfRead p])"
  by (simp add: read_sysfs_def line_of_def)

subsection \<open>CPU policy\<close>

definition governors :: "string list" where
  "governors = [''performance'', ''ondemand'', ''userspace'']"

text \<open>The frequency files that go with a governor.\<close>

definition frequency_files :: "string \<Rightarrow> string list" where
  "frequency_files gov =
     (if gov = ''performance'' then []
      else [''/scaling_min_freq'', ''/scaling_max_freq''] @ (if gov = ''userspace'' then [''/scaling_setspeed''] else []))"

text \<open>What is tried for a CPU whose two files are read from the history \<open>t\<close> on: the first governor
  whose name occurs somewhere in the text of the list.\<close>

definition cpu_dir :: "string \<Rightarrow> string" where
  "cpu_dir cpu = ''/sys/devices/system/cpu/'' @ cpu @ ''/cpufreq''"

definition cpu_plan :: "perf_env \<Rightarrow> perf_event list \<Rightarrow> string \<Rightarrow> (string \<times> string) list" where
  "cpu_plan env t cpu =
     (let list_file = cpu_dir cpu @ ''/scaling_available_governors'';
          available = line_of (fs_text env t list_file);
          max_freq = line_of (fs_text env (t @ [PfRead list_file]) (cpu_dir cpu @ ''/cpuinfo_max_freq''))
      in case find (\<lambda>gov. sublist gov available) governors of
           None \<Rightarrow> []
         | Some gov \<Rightarrow>
             (cpu_dir cpu @ ''/scaling_governor'', gov) #
             (if max_freq = [] then [] else map (\<lambda>f. (cpu_dir cpu @ f, max_freq)) (frequency_files gov)))"

definition cpu_entry :: "string \<Rightarrow> bool" where
  "cpu_entry name \<longleftrightarrow> prefix ''cpu'' name \<and> 3 < length name \<and> isdigit (name ! 3)"

text \<open>The CPUs among the entries of the directory, in its order.\<close>

definition listed_cpus :: "perf_env \<Rightarrow> perf_event list \<Rightarrow> string list" where
  "listed_cpus env t =
     (case fs_dir env t ''/sys/devices/system/cpu'' of None \<Rightarrow> [] | Some names \<Rightarrow> filter cpu_entry names)"

lemma optimize_cpu_plan:
  "settings (optimize_cpu env cpu h) = settings h @
     (if length cpu < 4 \<or> \<not> isdigit (cpu ! 3) then [] else cpu_plan env h cpu)"
  by (simp add: optimize_cpu_def read_sysfs_eq cpu_plan_def cpu_dir_def governors_def frequency_files_def
      contains_token_sublist Let_def split: prod.split)

lemma prefix_optimize_cpu: "prefix h (optimize_cpu env cpu h)"
  by (simp add: optimize_cpu_def read_sysfs_eq Let_def grows)

lemma list_dir_cpus:
  "fold (optimize_cpu env) (fst (list_dir env ''/sys/devices/system/cpu'' ''cpu'' h)) h' =
   fold (optimize_cpu env) (listed_cpus env h) h'"
proof -
  have entry: "cpu_entry x \<Longrightarrow> x \<noteq> ''.'' \<and> x \<noteq> ''..'' \<and> starts_with 3 ''cpu'' x" for x
    using starts_with_prefix [of "''cpu''" x] by (auto simp: cpu_entry_def eval_nat_numeral)
  have skip: "optimize_cpu env x g = g" if "\<not> cpu_entry x" "starts_with 3 ''cpu'' x" for x g
    using that starts_with_prefix [of "''cpu''" x]
    by (auto simp: optimize_cpu_def cpu_entry_def eval_nat_numeral not_less)
  have "fold (optimize_cpu env)
      (filter (\<lambda>name. \<not> (name = ''.'' \<or> name = ''..'') \<and> starts_with 3 ''cpu'' name) names) g =
    fold (optimize_cpu env) (filter cpu_entry names) g" for names g
    by (induction names arbitrary: g) (auto simp: skip entry)
  then show ?thesis
    by (simp add: list_dir_def listed_cpus_def eval_nat_numeral split: option.split)
qed

text \<open>A loop whose body makes the settings of a plan, as of the history at which the body starts.\<close>

lemma fold_plans:
  assumes "\<And>x h. settings (f x h) = settings h @ plan h x" and "\<And>x h. prefix h (f x h)"
  shows "\<exists>ts. length ts = length xs \<and> settings (fold f xs h) = settings h @ concat (map2 plan ts xs) \<and>
    (\<forall>i < length ts. prefix h (ts ! i) \<and> prefix (ts ! i) (fold f xs h) \<and>
       settings (ts ! i) = settings h @ concat (take i (map2 plan ts xs)))"
proof (induction xs arbitrary: h)
  case (Cons x xs)
  from Cons.IH [of "f x h"] obtain ts where ts: "length ts = length xs"
    "settings (fold f xs (f x h)) = settings (f x h) @ concat (map2 plan ts xs)"
    "\<forall>i < length ts. prefix (f x h) (ts ! i) \<and> prefix (ts ! i) (fold f xs (f x h)) \<and>
       settings (ts ! i) = settings (f x h) @ concat (take i (map2 plan ts xs))" by blast
  have "prefix h (fold f xs (f x h))"
    using assms(2) prefix_fold [OF assms(2)] by (rule prefix_order.trans)
  moreover have "prefix h (ts ! i)" if "i < length ts" for i
    using assms(2) [of h x] ts(3) that by (blast intro: prefix_order.trans)
  ultimately show ?case
    using ts assms(1) by (intro exI [of _ "h # ts"]) (auto simp: less_Suc_eq_0_disj)
qed simp

text \<open>C14. The CPU policy, on every device: one CPU after the other in the order of the directory,
  the daemon tries the first of performance, ondemand and userspace whose name occurs in the text
  of the CPU's list of governors (nothing if none does) and, where the maximum frequency can be
  read, the frequency files that go with that governor. The two files are taken as they are when
  the CPU's turn comes, after the settings of the CPUs before it; no failure of a setting changes
  what is tried.\<close>
theorem perfd_cpu_plan:
  "\<exists>ts. length ts = length (listed_cpus env h) \<and>
     settings (optimize_cpufreq env h) = settings h @ concat (map2 (cpu_plan env) ts (listed_cpus env h)) \<and>
     (\<forall>i < length ts. prefix h (ts ! i) \<and> prefix (ts ! i) (optimize_cpufreq env h) \<and>
        settings (ts ! i) = settings h @ concat (take i (map2 (cpu_plan env) ts (listed_cpus env h))))"
proof -
  let ?h = "h @ [PfList ''/sys/devices/system/cpu'']"
  let ?plan = "\<lambda>t cpu. if length cpu < 4 \<or> \<not> isdigit (cpu ! 3) then [] else cpu_plan env t cpu"
  have run: "optimize_cpufreq env h = fold (optimize_cpu env) (listed_cpus env h) ?h"
    using list_dir_cpus [of env h] by (simp add: optimize_cpufreq_def list_dir_def)
  have plan: "map2 ?plan ts (listed_cpus env h) = map2 (cpu_plan env) ts (listed_cpus env h)" for ts
    by (rule map_cong [OF refl])
      (auto simp: listed_cpus_def cpu_entry_def dest!: set_zip_rightD split: option.splits)
  from fold_plans [of "optimize_cpu env" ?plan "listed_cpus env h" ?h, OF optimize_cpu_plan prefix_optimize_cpu]
  show ?thesis unfolding run plan by (auto dest: append_prefixD)
qed

subsection \<open>GPU policy\<close>





lemma gpu_unknown_frequency:
  assumes "\<And>h p. line_of (fs_text env h p) = []"
  shows "settings (optimize_gpufreq env h) = settings h"
  by (simp add: optimize_gpufreq_def optimize_gpu_def read_sysfs_eq assms Let_def settings_def)

subsection \<open>Memory frequency\<close>

lemma length_dec_of_nat: "n < 10 ^ Suc k \<Longrightarrow> length (dec_of_nat n) \<le> Suc k"
proof (induction n arbitrary: k rule: dec_of_nat.induct)
  case (1 n)
  show ?case
  proof (cases "n < 10")
    case False
    then obtain j where j: "k = Suc j" using 1(2) by (cases k) auto
    with 1(2) have "n div 10 < 10 ^ Suc j" by simp
    with 1(1) [OF False] have "length (dec_of_nat (n div 10)) \<le> Suc j" by blast
    with False j show ?thesis by (subst dec_of_nat.simps) simp
  qed (simp add: dec_of_nat.simps)
qed

lemma khz_text:
  assumes "0 \<le> k" and "k < 2 ^ 63"
  shows "long_to_string k = dec_of_int k"
proof -
  have "nat k < 2 ^ 63" using assms by (simp add: nat_less_iff)
  then have "nat k < 10 ^ Suc 18" by (rule less_trans) simp
  then have "length (dec_of_nat (nat k)) \<le> Suc 18" by (rule length_dec_of_nat)
  with assms(1) show ?thesis by (simp add: long_to_string_def dec_of_int_def)
qed

text \<open>The memory is set to its maximum in kHz, written in full.\<close>

lemma ddr_frequency:
  assumes "starts_with 11 ''devfreq-ddr'' dev" and "1000 \<le> hz" and "hz < 2 ^ 63"
    and "\<And>h. line_of (fs_text env h (''/sys/class/devfreq/'' @ dev @ ''/max_freq'')) = dec_of_int hz"
  shows "settings (optimize_dev env dev h) = settings h @
    [(''/sys/class/devfreq/'' @ dev @ ''/disable_ddr_fc'', ''1''),
     (''/sys/class/devfreq/'' @ dev @ ''/ddr_freq'', dec_of_int (hz div 1000))]"
proof -
  have ne: "dec_of_int hz \<noteq> []"
    using dec_of_nat_hd [of "nat hz"] assms(2) by (auto simp: dec_of_int_def)
  have "strtol10 64 (dec_of_int hz) = hz"
    using parse_dec_of_int [of "[]" hz] assms(2,3) by (simp add: strtol10_def)
  with ne assms(2) have "parse_khz (dec_of_int hz) = hz div 1000" by (simp add: parse_khz_def)
  moreover have "long_to_string (hz div 1000) = dec_of_int (hz div 1000)"
    using assms(2,3) by (intro khz_text) (simp_all add: div_less_iff_less_mult)
  moreover have "0 < hz div 1000" using assms(2) by (simp add: pos_imp_zdiv_pos_iff)
  ultimately show ?thesis
    using assms(1) by (simp add: optimize_dev_def read_sysfs_eq assms(4) [simplified] Let_def)
qed

subsection \<open>Nothing else is set\<close>

text \<open>What a run has read and listed: the line of a file, and an entry of a directory, as they were
  at one point of the history.\<close>

definition was_read :: "perf_env \<Rightarrow> perf_event list \<Rightarrow> string \<Rightarrow> string \<Rightarrow> bool" where
  "was_read env h path line \<longleftrightarrow> (\<exists>t. prefix (t @ [PfRead path]) h \<and> line = line_of (fs_text env t path))"

definition was_listed :: "perf_env \<Rightarrow> perf_event list \<Rightarrow> string \<Rightarrow> string \<Rightarrow> bool" where
  "was_listed env h dir name \<longleftrightarrow>
     (\<exists>t names. prefix (t @ [PfList dir]) h \<and> fs_dir env t dir = Some names \<and> name \<in> set names \<and>
        name \<noteq> ''.'' \<and> name \<noteq> ''..'')"

lemma was_read_mono: "was_read env h p l \<Longrightarrow> prefix h h' \<Longrightarrow> was_read env h' p l"
  by (auto simp: was_read_def intro: prefix_order.trans)

lemma was_listed_mono: "was_listed env h d n \<Longrightarrow> prefix h h' \<Longrightarrow> was_listed env h' d n"
  by (auto simp: was_listed_def intro: prefix_order.trans)

definition gpu_dir :: "string \<Rightarrow> string" where
  "gpu_dir core = ''/sys/devices/platform/galcore/gpu/'' @ core @ ''/gpufreq''"

definition dev_dir :: "string \<Rightarrow> string" where
  "dev_dir dev = ''/sys/class/devfreq/'' @ dev"

definition queue_dir :: "string \<Rightarrow> string" where
  "queue_dir block = ''/sys/block/'' @ block @ ''/queue''"

text \<open>The settings that a daemon with a given history may try.\<close>

inductive tunable :: "perf_env \<Rightarrow> perf_event list \<Rightarrow> string \<times> string \<Rightarrow> bool" for env h where
  cpu_governor:
    "was_listed env h ''/sys/devices/system/cpu'' cpu \<Longrightarrow> cpu_entry cpu \<Longrightarrow>
     was_read env h (cpu_dir cpu @ ''/scaling_available_governors'') line \<Longrightarrow>
     g \<in> set governors \<Longrightarrow> sublist g line \<Longrightarrow> tunable env h (cpu_dir cpu @ ''/scaling_governor'', g)"
| cpu_frequency:
    "was_listed env h ''/sys/devices/system/cpu'' cpu \<Longrightarrow> cpu_entry cpu \<Longrightarrow>
     was_read env h (cpu_dir cpu @ ''/cpuinfo_max_freq'') v \<Longrightarrow> v \<noteq> [] \<Longrightarrow>
     f \<in> {''/scaling_min_freq'', ''/scaling_max_freq'', ''/scaling_setspeed''} \<Longrightarrow>
     tunable env h (cpu_dir cpu @ f, v)"
| gpu_governor:
    "core \<in> {''gpu0'', ''gpu1'', ''gpu2''} \<Longrightarrow>
     was_read env h (gpu_dir core @ ''/scaling_available_governors'') line \<Longrightarrow>
     g \<in> set governors \<Longrightarrow> line = [] \<or> sublist g line \<or> g = ''userspace'' \<Longrightarrow>
     tunable env h (gpu_dir core @ ''/scaling_governor'', g)"
| gpu_frequency:
    "core \<in> {''gpu0'', ''gpu1'', ''gpu2''} \<Longrightarrow>
     was_read env h (gpu_dir core @ ''/cpuinfo_max_freq'') v \<or> was_read env h (gpu_dir core @ ''/scaling_max_freq'') v \<Longrightarrow>
     v \<noteq> [] \<Longrightarrow> f \<in> {''/scaling_min_freq'', ''/scaling_max_freq'', ''/scaling_setspeed''} \<Longrightarrow>
     tunable env h (gpu_dir core @ f, v)"
| ddr_unlock:
    "was_listed env h ''/sys/class/devfreq'' dev \<Longrightarrow> prefix ''devfreq-ddr'' dev \<Longrightarrow>
     tunable env h (dev_dir dev @ ''/disable_ddr_fc'', ''1'')"
| ddr_frequency:
    "was_listed env h ''/sys/class/devfreq'' dev \<Longrightarrow> prefix ''devfreq-ddr'' dev \<Longrightarrow>
     was_read env h (dev_dir dev @ ''/max_freq'') line \<Longrightarrow> 1000 \<le> strtol10 64 line \<Longrightarrow>
     tunable env h (dev_dir dev @ ''/ddr_freq'', dec_of_int (strtol10 64 line div 1000))"
| dev_governor:
    "was_listed env h ''/sys/class/devfreq'' dev \<Longrightarrow> \<not> prefix ''devfreq-ddr'' dev \<Longrightarrow>
     was_read env h (dev_dir dev @ ''/available_governors'') line \<Longrightarrow>
     g \<in> {''performance'', ''userspace''} \<Longrightarrow> sublist g line \<Longrightarrow> tunable env h (dev_dir dev @ ''/governor'', g)"
| dev_frequency:
    "was_listed env h ''/sys/class/devfreq'' dev \<Longrightarrow> \<not> prefix ''devfreq-ddr'' dev \<Longrightarrow>
     was_read env h (dev_dir dev @ ''/max_freq'') v \<Longrightarrow> v \<noteq> [] \<Longrightarrow>
     tunable env h (dev_dir dev @ ''/userspace/set_freq'', v)"
| block_scheduler:
    "was_listed env h ''/sys/block'' block \<Longrightarrow> \<not> prefix ''loop'' block \<Longrightarrow> \<not> prefix ''ram'' block \<Longrightarrow>
     was_read env h (queue_dir block @ ''/scheduler'') line \<Longrightarrow>
     g \<in> {''noop'', ''deadline''} \<Longrightarrow> sublist g line \<Longrightarrow> tunable env h (queue_dir block @ ''/scheduler'', g)"
| block_read_ahead:
    "was_listed env h ''/sys/block'' block \<Longrightarrow> \<not> prefix ''loop'' block \<Longrightarrow> \<not> prefix ''ram'' block \<Longrightarrow>
     tunable env h (queue_dir block @ ''/read_ahead_kb'', ''512'')"

lemma tunable_mono: "tunable env h pv \<Longrightarrow> prefix h h' \<Longrightarrow> tunable env h' pv"
  by (induction rule: tunable.induct; rule tunable.intros)
    (assumption | (erule (1) was_read_mono) | (erule (1) was_listed_mono) | (blast intro: was_read_mono))+


text \<open>A step that only makes such settings.\<close>

definition tunes :: "perf_env \<Rightarrow> perf_event list \<Rightarrow> perf_event list \<Rightarrow> bool" where
  "tunes env h h' \<longleftrightarrow> prefix h h' \<and> (\<exists>xs. settings h' = settings h @ xs \<and> list_all (tunable env h') xs)"

named_theorems tunes


lemma tunes_trans: "tunes env h h' \<Longrightarrow> tunes env h' h'' \<Longrightarrow> tunes env h h''"
  unfolding tunes_def list_all_iff by (fastforce intro: prefix_order.trans dest: tunable_mono)

lemma tunes_set:
  assumes "tunes env h h'" and "tunable env h' (p, v)"
  shows "tunes env h (h' @ [PfSet p v r])"
proof (rule tunes_trans [OF assms(1)])
  have "tunable env (h' @ [PfSet p v r]) (p, v)" by (rule tunable_mono [OF assms(2)]) simp
  then show "tunes env h' (h' @ [PfSet p v r])" by (simp add: tunes_def)
qed

lemma tunes_write [tunes]:
  "tunes env h h' \<Longrightarrow> tunable env h' (p, v) \<Longrightarrow> tunes env h (snd (write_sysfs env p v h'))"
  by (simp add: write_sysfs_def Let_def tunes_set)

lemma tunes_put [tunes]: "tunes env h h' \<Longrightarrow> tunable env h' (p, v) \<Longrightarrow> tunes env h (put_sysfs env p v h')"
  by (simp add: put_sysfs_def tunes_write)

lemma tunes_look [tunes]:
  "tunes env h h' \<Longrightarrow> tunes env h (h' @ [PfRead p])" "tunes env h h' \<Longrightarrow> tunes env h (h' @ [PfList p])"
  by (erule tunes_trans, simp add: tunes_def)+
















subsection \<open>A concrete device\<close>

definition demo_device :: perf_env where
  "demo_device = \<lparr>
     fs_open = (\<lambda>h p. True), fs_write = (\<lambda>h p v. int (length v)),
     fs_text = (\<lambda>h p. if p = ''/sys/devices/system/cpu/cpu0/cpufreq/scaling_available_governors'' then Some ''ondemand userspace''
                      else if p = ''/sys/devices/system/cpu/cpu0/cpufreq/cpuinfo_max_freq'' then Some ''1248000''
                      else None),
     fs_dir = (\<lambda>h p. if p = ''/sys/devices/system/cpu'' then Some [''.'', ''..'', ''cpu0'', ''cpuidle''] else None)\<rparr>"

theorem perfd_cpu_plan_witness:
  "settings (optimize_cpufreq demo_device []) =
    [(''/sys/devices/system/cpu/cpu0/cpufreq/scaling_governor'', ''ondemand''),
     (''/sys/devices/system/cpu/cpu0/cpufreq/scaling_min_freq'', ''1248000''),
     (''/sys/devices/system/cpu/cpu0/cpufreq/scaling_max_freq'', ''1248000'')]"
proof -
  have cpus: "listed_cpus demo_device [] = [''cpu0'']"
    by (simp add: listed_cpus_def demo_device_def cpu_entry_def isdigit_def)
  have same: "cpu_plan demo_device t = cpu_plan demo_device []" for t
  proof -
    obtain files where "\<And>u. fs_text demo_device u = files" by (simp add: demo_device_def)
    then show ?thesis unfolding cpu_plan_def by (simp only:)
  qed
  from perfd_cpu_plan [of demo_device "[]"] obtain ts where ts: "length ts = length [''cpu0'']"
    "settings (optimize_cpufreq demo_device []) = settings [] @ concat (map2 (cpu_plan demo_device) ts [''cpu0''])"
    unfolding cpus by (elim exE conjE)
  from ts(1) obtain t where t: "ts = [t]" by (cases ts) simp_all
  have "settings (optimize_cpufreq demo_device []) = cpu_plan demo_device t ''cpu0''"
    unfolding ts(2) t by simp
  also have "\<dots> = cpu_plan demo_device [] ''cpu0''" by (simp only: same [of t])
  also have "\<dots> =
    [(''/sys/devices/system/cpu/cpu0/cpufreq/scaling_governor'', ''ondemand''),
     (''/sys/devices/system/cpu/cpu0/cpufreq/scaling_min_freq'', ''1248000''),
     (''/sys/devices/system/cpu/cpu0/cpufreq/scaling_max_freq'', ''1248000'')]"
  proof -
    have "line_of (Some ''ondemand userspace'') = ''ondemand userspace''" "line_of (Some ''1248000'') = ''1248000''"
      by code_simp+
    moreover have "\<not> contains_token ''ondemand userspace'' ''performance''" "contains_token ''ondemand userspace'' ''ondemand''"
      by code_simp+
    ultimately show ?thesis
      by (simp add: cpu_plan_def cpu_dir_def demo_device_def governors_def frequency_files_def contains_token_sublist Let_def)
  qed
  finally show ?thesis .
qed

text \<open>
  The governor is looked for as a piece of the line, not as a word: a device that only has a
  governor whose name contains \<open>performance\<close> is told to use \<open>performance\<close>.
\<close>

theorem perfd_token_is_substring: "contains_token ''interactive performance_lite'' ''performance''"
  by code_simp

end
