(* ===== verification/Camera_Parameters.thy ===== *)
theory Camera_Parameters
  imports Pthread_Once
begin

section \<open>The camera parameters shim\<close>

text \<open>
  \<open>camera/camera_parameters_shim.cpp\<close>: \<open>android::CameraParameters::get\<close> in front of the function
  of the same symbol that the next library in the search order has. The dynamic linker and that
  function are the record \<open>cam_env\<close>; a null pointer is \<open>None\<close>, an object and a function are
  addresses. The lines that only log are left out.
\<close>

subsection \<open>The model\<close>

datatype cam_event = CamDlsym string | CamCall nat nat "string option"

record cam_env =
  cam_dlsym :: "cam_event list \<Rightarrow> string \<Rightarrow> nat option"
  cam_call :: "cam_event list \<Rightarrow> nat \<Rightarrow> nat \<Rightarrow> string option \<Rightarrow> string option"

record cam_state =
  g_orig_camera_parameters_get :: "nat option"
  g_resolve_once :: bool
  cam_trace :: "cam_event list"

definition cam_initial :: cam_state where
  "cam_initial = \<lparr>g_orig_camera_parameters_get = None, g_resolve_once = False, cam_trace = []\<rparr>"

text \<open>The static member, which the library defines only so that it can be linked against.\<close>

definition PIXEL_FORMAT_YUV420P_I420 :: string where
  "PIXEL_FORMAT_YUV420P_I420 = ''yuv420p''"

definition get_symbol :: string where
  "get_symbol = ''_ZNK7android15CameraParameters3getEPKc''"

definition camera_params_shim_resolve_original :: "cam_env \<Rightarrow> cam_state \<Rightarrow> cam_state" where
  "camera_params_shim_resolve_original env s =
     s\<lparr>g_orig_camera_parameters_get := cam_dlsym env (cam_trace s) get_symbol,
       cam_trace := cam_trace s @ [CamDlsym get_symbol]\<rparr>"

text \<open>\<open>pthread_once\<close>\<close>

definition cam_resolve_once :: "cam_env \<Rightarrow> cam_state \<Rightarrow> cam_state" where
  "cam_resolve_once env s =
     (if g_resolve_once s then s
      else (camera_params_shim_resolve_original env s)\<lparr>g_resolve_once := True\<rparr>)"

definition CameraParameters_get :: "cam_env \<Rightarrow> nat \<Rightarrow> string option \<Rightarrow> cam_state \<Rightarrow> string option \<times> cam_state" where
  "CameraParameters_get env this key s =
     (let s = cam_resolve_once env s;
          (original_value, s) =
            (case g_orig_camera_parameters_get s of
               None \<Rightarrow> (None, s)
             | Some f \<Rightarrow> (cam_call env (cam_trace s) f this key, s\<lparr>cam_trace := cam_trace s @ [CamCall f this key]\<rparr>))
      in if original_value = Some ''yuv422i-uyvy'' then (Some ''yuv422i-yuyv'', s) else (original_value, s))"

interpretation cam_once: pthread_once g_resolve_once "cam_resolve_once env"
  "\<lambda>s. (camera_params_shim_resolve_original env s)\<lparr>g_resolve_once := True\<rparr>" for env
  by unfold_locales (simp_all add: cam_resolve_once_def)

text \<open>A sequence of calls, as an application makes them.\<close>

fun cam_run :: "cam_env \<Rightarrow> (nat \<times> string option) list \<Rightarrow> cam_state \<Rightarrow> string option list \<times> cam_state" where
  "cam_run env [] s = ([], s)"
| "cam_run env ((this, key) # calls) s =
     (let (r, s) = CameraParameters_get env this key s;
          (rs, s) = cam_run env calls s
      in (r # rs, s))"

subsection \<open>What applications see\<close>

definition remap :: "string option \<Rightarrow> string option" where
  "remap v = (if v = Some ''yuv422i-uyvy'' then Some ''yuv422i-yuyv'' else v)"

lemma remap_fixes: "remap v \<noteq> Some ''yuv422i-uyvy''" "remap (remap v) = remap v"
  by (simp_all add: remap_def)

abbreviation cam_calls :: "nat \<Rightarrow> (nat \<times> string option) list \<Rightarrow> cam_event list" where
  "cam_calls f \<equiv> map (\<lambda>(this, key). CamCall f this key)"

lemma cam_run_unresolved:
  assumes "g_resolve_once s" and "g_orig_camera_parameters_get s = None"
  shows "cam_run env calls s = (map (\<lambda>_. None) calls, s)"
  using assms by (induction calls) (auto simp: CameraParameters_get_def cam_once.once_again)

text \<open>The \<open>i\<close>-th answer is that of the original at that point of the history.\<close>

lemma cam_run_resolved:
  assumes "g_resolve_once s" and "g_orig_camera_parameters_get s = Some f"
  shows "cam_run env calls s =
    (map (\<lambda>i. remap (cam_call env (cam_trace s @ cam_calls f (take i calls)) f (fst (calls ! i)) (snd (calls ! i))))
       [0..<length calls],
     s\<lparr>cam_trace := cam_trace s @ cam_calls f calls\<rparr>)"
  using assms
proof (induction calls arbitrary: s)
  case (Cons c calls)
  obtain t k where c: "c = (t, k)" by (cases c)
  let ?s = "s\<lparr>cam_trace := cam_trace s @ [CamCall f t k]\<rparr>"
  from Cons.prems c have "CameraParameters_get env t k s = (remap (cam_call env (cam_trace s) f t k), ?s)"
    by (simp add: CameraParameters_get_def cam_once.once_again remap_def)
  with Cons.IH [of ?s] Cons.prems c show ?case by (simp add: map_upt_Suc del: upt_Suc)
qed simp

text \<open>C35. The unsupported format is never seen. Any series of calls asks the dynamic linker once, in
  the first call, for the symbol of the original function, and then calls the function found once
  for each call, with the caller's object and key and nothing in between; whatever that function
  answers, now or later, each answer comes back as it is, but for \<open>yuv422i-uyvy\<close>, which comes back
  as \<open>yuv422i-yuyv\<close>. Where the symbol is not found, every answer is null and nothing is called.\<close>
theorem camera_get_remaps:
  "\<exists>rs s. cam_run env (c # calls) cam_initial = (rs, s) \<and>
    (case cam_dlsym env [] ''_ZNK7android15CameraParameters3getEPKc'' of
       None \<Rightarrow> cam_trace s = [CamDlsym ''_ZNK7android15CameraParameters3getEPKc''] \<and> rs = map (\<lambda>_. None) (c # calls)
     | Some f \<Rightarrow>
         cam_trace s = CamDlsym ''_ZNK7android15CameraParameters3getEPKc'' # cam_calls f (c # calls) \<and>
         rs = map (\<lambda>i. remap (cam_call env (take (Suc i) (cam_trace s)) f (fst ((c # calls) ! i)) (snd ((c # calls) ! i))))
           [0..<length (c # calls)]) \<and>
    Some ''yuv422i-uyvy'' \<notin> set rs"
proof -
  obtain t k where c: "c = (t, k)" by (cases c)
  let ?s = "cam_resolve_once env cam_initial"
  note once = cam_once.once_ran [of env cam_initial] cam_once.once_idem [of env cam_initial]
  have found: "g_orig_camera_parameters_get ?s = cam_dlsym env [] get_symbol" "cam_trace ?s = [CamDlsym get_symbol]"
    by (simp_all add: cam_resolve_once_def camera_params_shim_resolve_original_def cam_initial_def)
  have run: "cam_run env (c # calls) cam_initial = cam_run env (c # calls) ?s"
    unfolding c cam_run.simps CameraParameters_get_def once(2) ..
  have unseen: "Some ''yuv422i-uyvy'' \<notin> range (\<lambda>i. remap (v i))" for v :: "nat \<Rightarrow> string option"
    using remap_fixes(1) [THEN not_sym] by blast
  show ?thesis
  proof (cases "cam_dlsym env [] get_symbol")
    case None
    with cam_run_unresolved [OF once(1), of env "c # calls"] found run show ?thesis
      by (intro exI [of _ "map (\<lambda>_. None) (c # calls)"] exI [of _ ?s]) (auto simp: get_symbol_def simp del: cam_run.simps)
  next
    case (Some f)
    let ?cs = "c # calls"
    let ?t = "CamDlsym get_symbol # cam_calls f ?cs"
    let ?v = "\<lambda>i. cam_call env (take (Suc i) ?t) f (fst (?cs ! i)) (snd (?cs ! i))"
    have "take (Suc i) ?t = [CamDlsym get_symbol] @ cam_calls f (take i ?cs)" for i
      by (simp only: take_Suc_Cons take_map append_Cons append_Nil)
    with cam_run_resolved [OF once(1) found(1) [unfolded Some], of env ?cs]
    have "cam_run env ?cs cam_initial = (map (\<lambda>i. remap (?v i)) [0..<length ?cs], ?s\<lparr>cam_trace := ?t\<rparr>)"
      unfolding run found(2) by (simp only: append_Cons append_Nil)
    moreover have "Some ''yuv422i-uyvy'' \<notin> set (map (\<lambda>i. remap (?v i)) [0..<length ?cs])"
      using unseen [of ?v] unfolding set_map by blast
    ultimately show ?thesis
      unfolding Some [unfolded get_symbol_def] option.case
      by - (intro exI conjI, assumption, simp_all del: cam_run.simps upt_Suc add: get_symbol_def)
  qed
qed

definition demo_camera :: cam_env where
  "demo_camera = \<lparr>cam_dlsym = (\<lambda>h n. Some 7),
     cam_call = (\<lambda>h f t k. if k = Some ''preview-format'' then Some ''yuv422i-uyvy'' else None)\<rparr>"

lemma demo_camera_run:
  "fst (cam_run demo_camera [(1, Some ''preview-format''), (1, None)] cam_initial) = [Some ''yuv422i-yuyv'', None]"
  by code_simp

end
