(* ===== verification/Camera_Threads.thy ===== *)
theory Camera_Threads
  imports Camera_Parameters Interleaving "HOL-Library.Sublist"
begin

section \<open>The camera parameters shim: calls from several threads\<close>

text \<open>
  \<open>CameraParameters::get\<close> as a program of atomic actions: \<open>pthread_once\<close>, the look at the pointer that
  it set, the call of the original function. Run alone it is the function of \<open>Camera_Parameters\<close>;
  the locale \<open>interference\<close> gives what holds for every schedule of several threads.
\<close>

definition mt_CameraParameters_get :: "cam_env \<Rightarrow> nat \<Rightarrow> string option \<Rightarrow> (cam_state, string option) prog" where
  "mt_CameraParameters_get env this key =
     pbind (act_upd (cam_resolve_once env)) (\<lambda>_.
     pbind (act_read g_orig_camera_parameters_get) (\<lambda>f.
     pbind (case f of
         None \<Rightarrow> Return None
       | Some f \<Rightarrow> act (\<lambda>s. Some (cam_call env (cam_trace s) f this key,
           s\<lparr>cam_trace := cam_trace s @ [CamCall f this key]\<rparr>))) (\<lambda>original_value.
     Return (if original_value = Some ''yuv422i-uyvy'' then Some ''yuv422i-yuyv'' else original_value))))"

abbreviation cam_sched :: "nat list \<Rightarrow> ((cam_state, 'x) prog \<times> unit) list \<times> cam_state \<Rightarrow>
    (((cam_state, 'x) prog \<times> unit) list \<times> cam_state) option" where
  "cam_sched \<equiv> sched (\<lambda>_ s. s) (\<lambda>_. ())"

lemma run_CameraParameters_get:
  "run (mt_CameraParameters_get env this key) s = Some (CameraParameters_get env this key s)"
  by (cases "g_orig_camera_parameters_get (cam_resolve_once env s)")
     (simp_all add: mt_CameraParameters_get_def CameraParameters_get_def Let_def del: bind_Some_iff)

subsection \<open>Invariant and interference\<close>

text \<open>
  Before \<open>pthread_once\<close> ran nothing has happened; after it the pointer is what the linker answered
  to the first and only question, and nothing else was called.
\<close>

definition cam_inv :: "cam_env \<Rightarrow> cam_state \<Rightarrow> bool" where
  "cam_inv env s \<longleftrightarrow>
     (if g_resolve_once s
      then g_orig_camera_parameters_get s = cam_dlsym env [] get_symbol \<and>
        (\<exists>calls. cam_trace s = CamDlsym get_symbol # calls \<and>
           (\<forall>e \<in> set calls. \<exists>f t k. cam_dlsym env [] get_symbol = Some f \<and> e = CamCall f t k))
      else cam_trace s = [])"

definition cam_rel :: "cam_state \<Rightarrow> cam_state \<Rightarrow> bool" where
  "cam_rel s s' \<longleftrightarrow> (g_resolve_once s \<longrightarrow> g_resolve_once s') \<and> prefix (cam_trace s) (cam_trace s')"

interpretation cam: interference "cam_inv env" cam_rel "\<lambda>_ s. s" "\<lambda>_. ()" for env
  by unfold_locales (auto simp: cam_rel_def)

lemma cam_inv_initial: "cam_inv env cam_initial"
  by (simp add: cam_inv_def cam_initial_def)

lemma keeps_cam_once: "cam_inv env s \<Longrightarrow> cam_inv env (cam_resolve_once env s) \<and>
  cam_rel s (cam_resolve_once env s) \<and> g_resolve_once (cam_resolve_once env s)"
  by (auto simp: cam_inv_def cam_rel_def cam_resolve_once_def camera_params_shim_resolve_original_def)

lemma keeps_cam_call:
  assumes "cam_inv env s" "g_resolve_once s" "cam_dlsym env [] get_symbol = Some f"
  shows "cam_inv env (s\<lparr>cam_trace := cam_trace s @ [CamCall f t k]\<rparr>) \<and>
    cam_rel s (s\<lparr>cam_trace := cam_trace s @ [CamCall f t k]\<rparr>)"
  using assms by (auto simp: cam_inv_def cam_rel_def)

text \<open>What one call may return: null if the original is not there, else the answer that the
  original gave to this object and key at some point of the history, remapped.\<close>

definition cam_answer :: "cam_env \<Rightarrow> nat \<Rightarrow> string option \<Rightarrow> string option \<Rightarrow> cam_state \<Rightarrow> bool" where
  "cam_answer env this key v s \<longleftrightarrow>
     (case cam_dlsym env [] get_symbol of
        None \<Rightarrow> v = None
      | Some f \<Rightarrow> \<exists>h. prefix (h @ [CamCall f this key]) (cam_trace s) \<and> v = remap (cam_call env h f this key))"

lemma cam_answer_later: "cam_answer env this key v s \<Longrightarrow> cam_rel s s' \<Longrightarrow> cam_answer env this key v s'"
  by (auto simp: cam_answer_def cam_rel_def split: option.splits intro: prefix_order.trans)

text \<open>The answer before it is remapped.\<close>

definition cam_original :: "cam_env \<Rightarrow> nat \<Rightarrow> string option \<Rightarrow> string option \<Rightarrow> cam_state \<Rightarrow> bool" where
  "cam_original env this key v s \<longleftrightarrow>
     (case cam_dlsym env [] get_symbol of
        None \<Rightarrow> v = None
      | Some f \<Rightarrow> \<exists>h. prefix (h @ [CamCall f this key]) (cam_trace s) \<and> v = cam_call env h f this key)"

lemma cam_original_later: "cam_original env this key v s \<Longrightarrow> cam_rel s s' \<Longrightarrow> cam_original env this key v s'"
  by (auto simp: cam_original_def cam_rel_def split: option.splits intro: prefix_order.trans)

lemma cam_original_remap: "cam_original env this key v s \<Longrightarrow> cam_answer env this key (remap v) s"
  by (auto simp: cam_original_def cam_answer_def remap_def split: option.splits)

abbreviation call_original :: "cam_env \<Rightarrow> nat \<Rightarrow> string option \<Rightarrow> nat option \<Rightarrow> (cam_state, string option) prog" where
  "call_original env this key f \<equiv>
     (case f of
        None \<Rightarrow> Return None
      | Some f \<Rightarrow> act (\<lambda>s. Some (cam_call env (cam_trace s) f this key,
          s\<lparr>cam_trace := cam_trace s @ [CamCall f this key]\<rparr>)))"

lemma call_original_safe:
  assumes "g_resolve_once s" and f: "f = cam_dlsym env [] get_symbol"
  shows "safe True (cam_inv env) cam_rel (cam_original env this key) (call_original env this key f) s"
proof (cases f)
  case None
  with f show ?thesis by (simp add: cam_original_def)
next
  case (Some g)
  show ?thesis unfolding Some option.case
  proof (rule cam.safe_act)
    fix s1 assume s1: "cam_rel s s1" "cam_inv env s1"
    let ?s2 = "s1\<lparr>cam_trace := cam_trace s1 @ [CamCall g this key]\<rparr>"
    have "cam_dlsym env [] get_symbol = Some g" using f Some by simp
    then have "cam_original env this key (cam_call env (cam_trace s1) g this key) ?s2"
      by (auto simp: cam_original_def)
    moreover have "cam_inv env ?s2 \<and> cam_rel s1 ?s2"
      using s1 assms Some by (intro keeps_cam_call) (auto simp: cam_rel_def)
    ultimately show "case Some (cam_call env (cam_trace s1) g this key, ?s2) of
        None \<Rightarrow> \<not> True
      | Some (a, s2) \<Rightarrow> cam_inv env s2 \<and> cam_rel s1 s2 \<and>
          (\<forall>s3. cam_rel s2 s3 \<longrightarrow> cam_inv env s3 \<longrightarrow> cam_original env this key a s3)"
      using cam_original_later by auto
  qed
qed

lemma cam_get_safe:
  assumes "cam_inv env s"
  shows "safe True (cam_inv env) cam_rel (cam_answer env this key) (mt_CameraParameters_get env this key) s"
  unfolding mt_CameraParameters_get_def
proof (rule cam.safe_bind [OF _ _ assms])
  show "safe True (cam_inv env) cam_rel (\<lambda>_ s. g_resolve_once s) (act_upd (cam_resolve_once env)) s"
    unfolding act_upd_def using keeps_cam_once by (intro cam.safe_act) (auto simp: cam_rel_def)
next
  fix s1 assume s1: "cam_inv env s1" "g_resolve_once s1"
  show "safe True (cam_inv env) cam_rel (cam_answer env this key)
    (pbind (act_read g_orig_camera_parameters_get) (\<lambda>f.
     pbind (call_original env this key f) (\<lambda>original_value.
     Return (if original_value = Some ''yuv422i-uyvy'' then Some ''yuv422i-yuyv'' else original_value)))) s1"
  proof (rule cam.safe_bind [OF _ _ s1(1)])
    show "safe True (cam_inv env) cam_rel (\<lambda>f s. g_resolve_once s \<and> f = cam_dlsym env [] get_symbol)
      (act_read g_orig_camera_parameters_get) s1"
      unfolding act_read_def using s1(2) by (intro cam.safe_act) (auto simp: cam_rel_def cam_inv_def)
  next
    fix f s2 assume s2: "cam_inv env s2" "g_resolve_once s2 \<and> f = cam_dlsym env [] get_symbol"
    show "safe True (cam_inv env) cam_rel (cam_answer env this key)
     (pbind (call_original env this key f) (\<lambda>original_value.
     Return (if original_value = Some ''yuv422i-uyvy'' then Some ''yuv422i-yuyv'' else original_value))) s2"
    proof (rule cam.safe_bind [OF call_original_safe _ s2(1)])
      fix v s3 assume "cam_original env this key v s3"
      then have "cam_answer env this key (remap v) s3" by (rule cam_original_remap)
      then show "safe True (cam_inv env) cam_rel (cam_answer env this key)
        (Return (if v = Some ''yuv422i-uyvy'' then Some ''yuv422i-yuyv'' else v)) s3"
        using cam_answer_later by (simp add: remap_def [symmetric])
    qed (use s2 in simp_all)
  qed
qed

subsection \<open>Properties\<close>

text \<open>C36. However many threads ask for parameters and however their actions interleave: no step goes
  wrong; nothing happens before the linker was asked for the symbol of the original function, it
  is asked once, and everything after that is a call of the function that it found; and what a
  thread gets is null if there is none, and otherwise the answer that the original gave at some
  point to that thread's object and key, with the unsupported format replaced. (\<open>pthread_once\<close>
  is one action of the model, so that a thread never sees it half done.)\<close>
theorem camera_threads:
  "\<exists>ts s. cam_sched is (map (\<lambda>(this, key). (mt_CameraParameters_get env this key, ())) calls, cam_initial) = Some (ts, s) \<and>
    (cam_trace s = [] \<or>
     (\<exists>evs. cam_trace s = CamDlsym ''_ZNK7android15CameraParameters3getEPKc'' # evs \<and>
       (\<forall>e \<in> set evs. \<exists>f t k.
          cam_dlsym env [] ''_ZNK7android15CameraParameters3getEPKc'' = Some f \<and> e = CamCall f t k))) \<and>
    length ts = length calls \<and>
    (\<forall>i < length calls. \<forall>v. fst (ts ! i) = Return v \<longrightarrow> v \<noteq> Some ''yuv422i-uyvy'' \<and>
       (case cam_dlsym env [] ''_ZNK7android15CameraParameters3getEPKc'' of
          None \<Rightarrow> v = None
        | Some f \<Rightarrow> \<exists>h. prefix (h @ [CamCall f (fst (calls ! i)) (snd (calls ! i))]) (cam_trace s) \<and>
            v = remap (cam_call env h f (fst (calls ! i)) (snd (calls ! i)))))"
proof -
  let ?ts = "map (\<lambda>(this, key). (mt_CameraParameters_get env this key, ())) calls"
  let ?Q = "\<lambda>i. cam_answer env (fst (calls ! i)) (snd (calls ! i))"
  have safe: "safe True (cam_inv env) cam_rel (?Q i) (fst (?ts ! i)) cam_initial" if "i < length ?ts" for i
    using that by (simp add: case_prod_beta cam_get_safe cam_inv_initial)
  from cam.sched_safe [OF cam_inv_initial safe, of "is"] obtain ts s where
    run: "cam_sched is (?ts, cam_initial) = Some (ts, s)" and inv: "cam_inv env s" and len: "length ts = length calls"
    by (auto split: option.splits)
  have result: "?Q i v s" if "i < length calls" "fst (ts ! i) = Return v" for i v
    by (rule cam.sched_result [OF cam_inv_initial safe run _ that(2)]) (use that(1) in simp_all)
  have "v \<noteq> Some ''yuv422i-uyvy''" if "?Q i v s" for i v
    using that by (auto simp: cam_answer_def remap_fixes(1) split: option.splits)
  with run inv len result show ?thesis
    unfolding cam_answer_def cam_inv_def get_symbol_def by - (intro exI conjI, assumption, auto split: if_splits)
qed

lemma demo_camera_returns:
  "\<exists>v w s. cam_sched [0, 1, 1, 0, 0, 1] (map (\<lambda>(this, key). (mt_CameraParameters_get demo_camera this key, ()))
      [(1, Some ''preview-format''), (2, None)], cam_initial) = Some ([(Return v, ()), (Return w, ())], s)"
  by (simp add: mt_CameraParameters_get_def act_def act_upd_def act_read_def cam_resolve_once_def
      camera_params_shim_resolve_original_def cam_initial_def demo_camera_def)

theorem camera_threads_witness:
  "\<exists>ts s. cam_sched [0, 1, 1, 0, 0, 1] (map (\<lambda>(this, key). (mt_CameraParameters_get demo_camera this key, ()))
      [(1, Some ''preview-format''), (2, None)], cam_initial) = Some (ts, s) \<and>
    fst (ts ! 0) = Return (Some ''yuv422i-yuyv'')"
proof -
  let ?calls = "[(1 :: nat, Some ''preview-format''), (2, None)]"
  obtain v w s where run: "cam_sched [0, 1, 1, 0, 0, 1]
      (map (\<lambda>(this, key). (mt_CameraParameters_get demo_camera this key, ())) ?calls, cam_initial) =
      Some ([(Return v, ()), (Return w, ())], s)"
    using demo_camera_returns by blast
  have demo: "cam_dlsym demo_camera [] n = Some 7" "cam_call demo_camera h f t (Some ''preview-format'') = Some ''yuv422i-uyvy''"
    for n h f t by (simp_all add: demo_camera_def)
  from camera_threads [of "[0, 1, 1, 0, 0, 1]" demo_camera ?calls]
  have "\<exists>h. v = remap (cam_call demo_camera h 7 1 (Some ''preview-format''))"
    unfolding run by (clarsimp simp: demo(1) All_less_Suc2) blast
  then have "v = Some ''yuv422i-yuyv''" by (simp add: demo(2) remap_def)
  with run show ?thesis by simp
qed

end
