(* ===== verification/Settings_Country.thy ===== *)
theory Settings_Country
  imports CStdio
begin

section \<open>The country code setter\<close>

text \<open>
  \<open>country/settings_country.cpp\<close>: asks for the country code with a shell command and sets it when
  there is none. Whether \<open>popen\<close> gives a stream, and what can be read from it, are the record
  \<open>country_env\<close>; the result is the exit code and the calls made.
\<close>

definition SETTINGS_CMD_GET :: string where
  "SETTINGS_CMD_GET = ''settings get global wifi_country_code''"

definition SETTINGS_CMD_PUT :: string where
  "SETTINGS_CMD_PUT = ''settings put global wifi_country_code JP''"

datatype country_event = Popen string | System string | Pclose

record country_env =
  popen_ok :: bool
  popen_text :: string

text \<open>The newline at the end of the array is replaced by NUL.\<close>

definition chop_newline :: "string \<Rightarrow> string" where
  "chop_newline result =
     (let len = length result in if len > 0 \<and> result ! (len - 1) = LF then take (len - 1) result else result)"

definition country_main :: "country_env \<Rightarrow> int \<times> country_event list" where
  "country_main env =
     (let evs = [Popen SETTINGS_CMD_GET]
      in if \<not> popen_ok env then (1, evs)
         else
           (let evs =
              (case fgets 64 (popen_text env) of
                 None \<Rightarrow> evs
               | Some result \<Rightarrow>
                   (let result = chop_newline result
                    in if length result = 0 \<or> result = ''null'' then evs @ [System SETTINGS_CMD_PUT] else evs))
            in (0, evs @ [Pclose])))"

subsection \<open>When the code is set\<close>

text \<open>The text of the first line, as C sees it.\<close>

definition line_text :: "string \<Rightarrow> string" where
  "line_text t = takeWhile (\<lambda>c. c \<noteq> LF \<and> c \<noteq> CHR 0x00) t"

lemma takeWhile_both: "takeWhile P (takeWhile Q xs) = takeWhile (\<lambda>x. Q x \<and> P x) xs"
  by (induction xs) auto

lemma takeWhile_take: "takeWhile P (take n xs) = take n (takeWhile P xs)"
  by (induction xs arbitrary: n) (auto simp: take_Cons')

lemma chop_newline_line:
  "chop_newline (takeWhile (\<lambda>c. c \<noteq> CHR 0x00) (first_line t)) = line_text t"
proof -
  let ?p = "takeWhile (\<lambda>c. c \<noteq> LF) t" and ?nn = "\<lambda>c. c \<noteq> CHR 0x00"
  have line: "line_text t = takeWhile ?nn ?p" by (simp add: line_text_def takeWhile_both)
  have noLF: "LF \<notin> set (takeWhile ?nn ?p)" by (auto dest: set_takeWhileD)
  have keep: "chop_newline x = x" if "LF \<notin> set x" for x
    using that by (cases x rule: rev_cases) (auto simp: chop_newline_def nth_append)
  show ?thesis
  proof (cases "dropWhile (\<lambda>c. c \<noteq> LF) t")
    case Nil
    then have "first_line t = ?p" by (simp add: first_line_def Let_def dropWhile_eq_drop [symmetric])
    with line noLF keep show ?thesis by simp
  next
    case (Cons x r)
    then have "x = LF" using hd_dropWhile [of "\<lambda>c. c \<noteq> LF" t] by simp
    with Cons have f: "first_line t = ?p @ [LF]"
      by (simp add: first_line_def Let_def dropWhile_eq_drop [symmetric])
    show ?thesis
    proof (cases "\<forall>c \<in> set ?p. ?nn c")
      case True
      then have w: "takeWhile ?nn (first_line t) = ?p @ [LF]" "takeWhile ?nn ?p = ?p"
        by (simp_all add: f LF_def takeWhile_append2)
      show ?thesis unfolding line w by (simp add: chop_newline_def)
    next
      case False
      then have "takeWhile ?nn (first_line t) = takeWhile ?nn ?p"
        unfolding f by (auto simp: takeWhile_append1)
      with line noLF keep show ?thesis by simp
    qed
  qed
qed

text \<open>C34. The country code is set to JP exactly when it has to be: when the command can be started
  and answers, and the first line of its answer is empty or \<open>null\<close>, however long the answer is.
  The stream is closed in every case, and the exit code is 1 only when there was none.\<close>
theorem country_default:
  "country_main env =
    (if \<not> popen_ok env then (1, [Popen SETTINGS_CMD_GET])
     else (0, [Popen SETTINGS_CMD_GET] @
       (if popen_text env \<noteq> [] \<and> (line_text (popen_text env) = [] \<or> line_text (popen_text env) = ''null'')
        then [System SETTINGS_CMD_PUT] else []) @ [Pclose]))"
proof -
  have "line_text (take 63 t) = take 63 (line_text t)" for t by (simp add: line_text_def takeWhile_take)
  moreover have "take 63 x = ''null'' \<longleftrightarrow> x = ''null''" for x :: string
    by (cases "length x \<le> 63") (auto dest: arg_cong [of _ _ length])
  moreover have "take 63 x = [] \<longleftrightarrow> x = []" for x :: string by simp
  ultimately show ?thesis
    by (simp add: country_main_def fgets_def chop_newline_line)
qed

end
