(* ===== verification/Gc_Fields.thy ===== *)
theory Gc_Fields
  imports CPrelude
begin

unbundle bit_operations_syntax

section \<open>Register fields\<close>

text \<open>
  The field macros of \<open>include/hardware/gc_hal_types.h\<close>. A field is written \<open>msb : lsb\<close> in a
  register description, which the macros take apart with a conditional expression: \<open>0 ? msb : lsb\<close>
  is its start and \<open>1 ? msb : lsb\<close> its end. A field is a pair here, and the arguments \<open>reg\<close> and
  \<open>field\<close> of a macro are the field that they name. The names that start with two underscores
  have none here.
\<close>

subsection \<open>The macros\<close>

type_synonym reg_field = "nat \<times> nat"

definition gcm_START :: "reg_field \<Rightarrow> nat" where
  "gcm_START reg_field = (case reg_field of (msb, lsb) \<Rightarrow> if False then msb else lsb)"

definition gcm_END :: "reg_field \<Rightarrow> nat" where
  "gcm_END reg_field = (case reg_field of (msb, lsb) \<Rightarrow> if True then msb else lsb)"

definition gcm_GETSIZE :: "reg_field \<Rightarrow> nat" where
  "gcm_GETSIZE reg_field = gcm_END reg_field - gcm_START reg_field + 1"

definition gcm_ALIGN :: "u32 \<Rightarrow> reg_field \<Rightarrow> u32" where
  "gcm_ALIGN data reg_field = push_bit (gcm_START reg_field) data"

definition gcm_MASK :: "reg_field \<Rightarrow> u32" where
  "gcm_MASK reg_field =
     (if gcm_GETSIZE reg_field = 32 then NOT 0 else NOT (push_bit (gcm_GETSIZE reg_field) (NOT 0)))"

definition gcmFIELDMASK :: "reg_field \<Rightarrow> u32" where
  "gcmFIELDMASK field = gcm_ALIGN (gcm_MASK field) field"

definition gcmGETFIELD :: "u32 \<Rightarrow> reg_field \<Rightarrow> u32" where
  "gcmGETFIELD data field = drop_bit (gcm_START field) data AND gcm_MASK field"

definition gcmSETFIELD :: "u32 \<Rightarrow> reg_field \<Rightarrow> u32 \<Rightarrow> u32" where
  "gcmSETFIELD data field value =
     (data AND NOT (gcm_ALIGN (gcm_MASK field) field)) OR gcm_ALIGN (value AND gcm_MASK field) field"

text \<open>The value of the next macro is the constant that \<open>reg##_##field##_##value\<close> names.\<close>

definition gcmSETFIELDVALUE :: "u32 \<Rightarrow> reg_field \<Rightarrow> u32 \<Rightarrow> u32" where
  "gcmSETFIELDVALUE data field value =
     (data AND NOT (gcm_ALIGN (gcm_MASK field) field)) OR gcm_ALIGN (value AND gcm_MASK field) field"

text \<open>
  A masked field has a second field of the name \<open>MASK_field\<close> whose constant \<open>ENABLED\<close> makes the
  hardware take the value.
\<close>

definition gcmGETMASKEDFIELDMASK :: "reg_field \<Rightarrow> reg_field \<Rightarrow> u32" where
  "gcmGETMASKEDFIELDMASK field mask_field =
     gcmSETFIELD 0 field (NOT 0) OR gcmSETFIELD 0 mask_field (NOT 0)"

definition gcmSETMASKEDFIELD :: "reg_field \<Rightarrow> reg_field \<Rightarrow> u32 \<Rightarrow> u32 \<Rightarrow> u32" where
  "gcmSETMASKEDFIELD field mask_field enabled value =
     gcmSETFIELD (NOT 0) field value AND gcmSETFIELDVALUE (NOT 0) mask_field enabled"

definition gcmSETMASKEDFIELDVALUE :: "reg_field \<Rightarrow> reg_field \<Rightarrow> u32 \<Rightarrow> u32 \<Rightarrow> u32" where
  "gcmSETMASKEDFIELDVALUE field mask_field enabled value =
     gcmSETFIELDVALUE (NOT 0) field value AND gcmSETFIELDVALUE (NOT 0) mask_field enabled"

definition gcmVERIFYFIELDVALUE :: "u32 \<Rightarrow> reg_field \<Rightarrow> u32 \<Rightarrow> bool" where
  "gcmVERIFYFIELDVALUE data field value \<longleftrightarrow>
     drop_bit (gcm_START field) data AND gcm_MASK field = value AND gcm_MASK field"

text \<open>
  The bit field macros take a field \<open>start : size\<close>; \<open>Type\<close> is \<open>gctUINT32\<close> here.
\<close>

definition gcm_STARTBIT :: "nat \<times> nat \<Rightarrow> nat" where
  "gcm_STARTBIT field = (case field of (start, len) \<Rightarrow> if True then start else len)"

definition gcm_BITSIZE :: "nat \<times> nat \<Rightarrow> nat" where
  "gcm_BITSIZE field = (case field of (start, len) \<Rightarrow> if False then start else len)"

definition gcm_BITMASK :: "nat \<times> nat \<Rightarrow> u32" where
  "gcm_BITMASK field = push_bit (gcm_BITSIZE field) 1 - 1"

definition gcmGETBITS :: "u32 \<Rightarrow> nat \<times> nat \<Rightarrow> u32" where
  "gcmGETBITS value field = drop_bit (gcm_STARTBIT field) value AND gcm_BITMASK field"

definition gcmSETBITS :: "u32 \<Rightarrow> nat \<times> nat \<Rightarrow> u32 \<Rightarrow> u32" where
  "gcmSETBITS value field new_value =
     (value AND NOT (push_bit (gcm_STARTBIT field) (gcm_BITMASK field))) OR
     push_bit (gcm_STARTBIT field) (new_value AND gcm_BITMASK field)"

subsection \<open>What they do to each bit\<close>

text \<open>The fields of a 32-bit register, for which no shift of the macros leaves its range.\<close>

definition field_ok :: "reg_field \<Rightarrow> bool" where
  "field_ok f \<longleftrightarrow> snd f \<le> fst f \<and> fst f < 32"

definition fields_apart :: "reg_field \<Rightarrow> reg_field \<Rightarrow> bool" where
  "fields_apart f g \<longleftrightarrow> fst f < snd g \<or> fst g < snd f"

lemma field_ends: "gcm_START f = snd f" "gcm_END f = fst f"
  by (simp_all add: gcm_START_def gcm_END_def split: prod.split)

lemma bit_gcm_MASK:
  assumes "field_ok f"
  shows "bit (gcm_MASK f) n \<longleftrightarrow> n \<le> fst f - snd f"
  using assms
  by (auto simp: gcm_MASK_def gcm_GETSIZE_def field_ends field_ok_def bit_simps)

lemma bit_gcmSETFIELD:
  assumes "field_ok f" and "n < 32"
  shows "bit (gcmSETFIELD d f v) n \<longleftrightarrow> (if snd f \<le> n \<and> n \<le> fst f then bit v (n - snd f) else bit d n)"
proof -
  have "bit (gcmSETFIELD d f v) n \<longleftrightarrow>
      bit d n \<and> \<not> (snd f \<le> n \<and> n - snd f \<le> fst f - snd f) \<or>
      snd f \<le> n \<and> bit v (n - snd f) \<and> n - snd f \<le> fst f - snd f"
    using assms(2) bit_gcm_MASK [OF assms(1)]
    by (simp add: gcmSETFIELD_def gcm_ALIGN_def field_ends bit_or_iff bit_and_iff bit_not_iff bit_push_bit_iff) blast
  moreover have "n - snd f \<le> fst f - snd f \<longleftrightarrow> n \<le> fst f" if "snd f \<le> n"
    using that assms(1) by (auto simp: field_ok_def)
  ultimately show ?thesis by auto
qed

lemma bit_gcmGETFIELD:
  assumes "field_ok f"
  shows "bit (gcmGETFIELD d f) n \<longleftrightarrow> n \<le> fst f - snd f \<and> bit d (snd f + n)"
  using bit_gcm_MASK [OF assms] by (auto simp: gcmGETFIELD_def field_ends bit_simps)

lemma setfieldvalue_eq: "gcmSETFIELDVALUE = gcmSETFIELD"
  by (intro ext) (simp add: gcmSETFIELDVALUE_def gcmSETFIELD_def)

lemma get_set_same:
  assumes "field_ok f"
  shows "gcmGETFIELD (gcmSETFIELD d f v) f = v AND gcm_MASK f"
proof (rule bit_word_eqI)
  fix n :: nat
  assume "n < LENGTH(32)"
  show "bit (gcmGETFIELD (gcmSETFIELD d f v) f) n \<longleftrightarrow> bit (v AND gcm_MASK f) n"
  proof (cases "n \<le> fst f - snd f")
    case True
    with assms have "snd f + n < 32" "snd f + n \<le> fst f" by (auto simp: field_ok_def)
    with assms True show ?thesis by (simp add: bit_gcmGETFIELD bit_gcmSETFIELD bit_gcm_MASK bit_simps)
  next
    case False
    with assms show ?thesis by (simp add: bit_gcmGETFIELD bit_gcm_MASK bit_simps)
  qed
qed

lemma get_set_other:
  assumes "field_ok f" and "field_ok g" and "fields_apart f g"
  shows "gcmGETFIELD (gcmSETFIELD d f v) g = gcmGETFIELD d g"
proof (rule bit_word_eqI)
  fix n :: nat
  assume "n < LENGTH(32)"
  show "bit (gcmGETFIELD (gcmSETFIELD d f v) g) n \<longleftrightarrow> bit (gcmGETFIELD d g) n"
  proof (cases "n \<le> fst g - snd g")
    case True
    with assms have "snd g + n < 32" "\<not> (snd f \<le> snd g + n \<and> snd g + n \<le> fst f)"
      by (auto simp: field_ok_def fields_apart_def)
    with assms show ?thesis by (simp add: bit_gcmGETFIELD bit_gcmSETFIELD del: de_Morgan_conj)
  next
    case False
    with assms show ?thesis by (simp add: bit_gcmGETFIELD)
  qed
qed

lemma set_get_same:
  assumes "field_ok f"
  shows "gcmSETFIELD d f (gcmGETFIELD d f) = d"
  using assms by (intro bit_word_eqI) (auto simp: bit_gcmSETFIELD bit_gcmGETFIELD field_ok_def)

text \<open>C13. A register field holds what is put into it: after a field has been set, it reads as the
  value cut to the field's size (and the comparison macro agrees), every field apart from it
  reads as before, and setting a field to what it reads changes nothing.\<close>
theorem gc_field_roundtrip:
  assumes "field_ok f" and "field_ok g" and "fields_apart f g"
  shows "gcmGETFIELD (gcmSETFIELD d f v) f = v AND gcm_MASK f \<and>
    gcmVERIFYFIELDVALUE (gcmSETFIELDVALUE d f v) f v \<and>
    gcmGETFIELD (gcmSETFIELD d f v) g = gcmGETFIELD d g \<and>
    gcmSETFIELD d f (gcmGETFIELD d f) = d"
  using get_set_same [OF assms(1)] get_set_other [OF assms] set_get_same [OF assms(1)]
  by (simp add: gcmVERIFYFIELDVALUE_def setfieldvalue_eq gcmGETFIELD_def)

theorem gc_field_roundtrip_witness:
  "gcmGETFIELD (gcmSETFIELD 0xFFFF (7, 4) 0x35) (7, 4) = 0x35 AND gcm_MASK (7, 4) \<and>
   gcmGETFIELD (gcmSETFIELD 0xFFFF (7, 4) 0x35) (31, 8) = gcmGETFIELD 0xFFFF (31, 8)"
  using gc_field_roundtrip [of "(7, 4)" "(31, 8)" "0xFFFF" "0x35"]
  by (simp add: field_ok_def fields_apart_def)

text \<open>A masked write touches one field: the word that it writes holds the value in the field
  and the constant that enables it in the mask field, and every other bit is one, which leaves the
  other fields of the register disabled. The mask macro gives exactly the bits of the two
  fields.\<close>
theorem gc_masked_field:
  assumes "field_ok f" and "field_ok m" and "fields_apart f m"
  shows "gcmGETFIELD (gcmSETMASKEDFIELD f m e v) f = v AND gcm_MASK f \<and>
    gcmGETFIELD (gcmSETMASKEDFIELD f m e v) m = e AND gcm_MASK m \<and>
    gcmSETMASKEDFIELD f m e v OR gcmGETMASKEDFIELDMASK f m = NOT 0 \<and>
    gcmGETMASKEDFIELDMASK f m = gcmFIELDMASK f OR gcmFIELDMASK m"
proof -
  have b: "bit (gcmSETMASKEDFIELD f m e v) n \<longleftrightarrow>
      (if snd f \<le> n \<and> n \<le> fst f then bit v (n - snd f)
       else if snd m \<le> n \<and> n \<le> fst m then bit e (n - snd m) else True)" if "n < 32" for n
    using assms that
    by (auto simp: gcmSETMASKEDFIELD_def setfieldvalue_eq bit_gcmSETFIELD bit_and_iff bit_not_iff
        field_ok_def fields_apart_def)
  have f: "gcmGETFIELD (gcmSETMASKEDFIELD f m e v) f = gcmGETFIELD (gcmSETFIELD 0 f v) f"
    using assms
    by (intro bit_word_eqI) (auto simp: bit_gcmGETFIELD bit_gcmSETFIELD b field_ok_def)
  have m: "gcmGETFIELD (gcmSETMASKEDFIELD f m e v) m = gcmGETFIELD (gcmSETFIELD 0 m e) m"
    using assms
    by (intro bit_word_eqI) (auto simp: bit_gcmGETFIELD bit_gcmSETFIELD b field_ok_def fields_apart_def)
  have "gcmSETMASKEDFIELD f m e v OR gcmGETMASKEDFIELDMASK f m = NOT 0"
    using assms
    by (intro bit_word_eqI)
      (auto simp: b gcmGETMASKEDFIELDMASK_def bit_gcmSETFIELD bit_or_iff bit_not_iff field_ok_def fields_apart_def)
  moreover have "gcmGETMASKEDFIELDMASK f m = gcmFIELDMASK f OR gcmFIELDMASK m"
    by (simp add: gcmGETMASKEDFIELDMASK_def gcmSETFIELD_def gcmFIELDMASK_def)
  ultimately show ?thesis
    unfolding f m get_set_same [OF assms(1)] get_set_same [OF assms(2)] by blast
qed

theorem gc_masked_field_witness:
  "gcmGETFIELD (gcmSETMASKEDFIELD (7, 4) (8, 8) 0 0x35) (7, 4) = 0x35 AND gcm_MASK (7, 4) \<and>
   gcmSETMASKEDFIELD (7, 4) (8, 8) 0 0x35 OR gcmGETMASKEDFIELDMASK (7, 4) (8, 8) = NOT 0"
  using gc_masked_field [of "(7, 4)" "(8, 8)" 0 "0x35"] unfolding field_ok_def fields_apart_def by fastforce

subsection \<open>Bit fields\<close>

lemma bit_gcm_BITMASK: "bit (gcm_BITMASK (start, len)) n \<longleftrightarrow> n < len \<and> n < 32"
  by (auto simp add: gcm_BITMASK_def gcm_BITSIZE_def push_bit_of_1 bit_mask_iff mask_eq_decr_exp [symmetric])

lemma gc_bits_roundtrip:
  assumes "start + len \<le> 32"
  shows "gcmGETBITS (gcmSETBITS value (start, len) x) (start, len) = x AND gcm_BITMASK (start, len)"
    and "gcmSETBITS value (start, len) (gcmGETBITS value (start, len)) = value"
  using assms
  by (auto intro!: bit_word_eqI simp: gcmGETBITS_def gcmSETBITS_def gcm_STARTBIT_def bit_gcm_BITMASK bit_simps)

text \<open>The two notations name the same fields.\<close>

lemma gc_bits_are_fields:
  assumes "field_ok f"
  shows "gcmGETBITS value (snd f, fst f - snd f + 1) = gcmGETFIELD value f"
    and "gcmSETBITS value (snd f, fst f - snd f + 1) x = gcmSETFIELD value f x"
proof -
  have "gcm_BITMASK (snd f, fst f - snd f + 1) = gcm_MASK f"
    using assms by (intro bit_word_eqI) (auto simp: bit_gcm_BITMASK bit_gcm_MASK field_ok_def)
  then show "gcmGETBITS value (snd f, fst f - snd f + 1) = gcmGETFIELD value f"
    and "gcmSETBITS value (snd f, fst f - snd f + 1) x = gcmSETFIELD value f x"
    by (simp_all add: gcmGETBITS_def gcmGETFIELD_def gcmSETBITS_def gcmSETFIELD_def gcm_STARTBIT_def
        gcm_ALIGN_def field_ends)
qed

end
