(* ===== verification/Gc_Arith.thy ===== *)
theory Gc_Arith
  imports CPrelude
begin

unbundle bit_operations_syntax

section \<open>Arithmetic of the GPU headers\<close>

text \<open>
  The arithmetic macros of \<open>include/hardware/gc_hal_types.h\<close> and the alignment macros of
  \<open>include/hardware/gc_hal.h\<close>. \<open>gctUINT32\<close> is a 32-bit word; a C \<open>int\<close> is an integer, and a
  result that does not fit in 32 bits is \<open>None\<close>.
\<close>

subsection \<open>Limits\<close>

definition gcvMAXINT8 :: int where "gcvMAXINT8 = 0x7f"
definition gcvMININT8 :: int where "gcvMININT8 = 0x80"
definition gcvMAXINT16 :: int where "gcvMAXINT16 = 0x7fff"
definition gcvMININT16 :: int where "gcvMININT16 = 0x8000"
definition gcvMAXINT32 :: int where "gcvMAXINT32 = 0x7fffffff"
definition gcvMININT32 :: int where "gcvMININT32 = 0x80000000"
definition gcvMAXINT64 :: int where "gcvMAXINT64 = 0x7fffffffffffffff"
definition gcvMININT64 :: int where "gcvMININT64 = 0x8000000000000000"
definition gcvMAXUINT8 :: int where "gcvMAXUINT8 = 0xff"
definition gcvMINUINT8 :: int where "gcvMINUINT8 = 0x0"
definition gcvMAXUINT16 :: int where "gcvMAXUINT16 = 0xffff"
definition gcvMINUINT16 :: int where "gcvMINUINT16 = 0x8000"
definition gcvMAXUINT32 :: int where "gcvMAXUINT32 = 0xffffffff"
definition gcvMINUINT32 :: int where "gcvMINUINT32 = 0x80000000"
definition gcvMAXUINT64 :: int where "gcvMAXUINT64 = 0xffffffffffffffff"
definition gcvMINUINT64 :: int where "gcvMINUINT64 = 0x8000000000000000"

definition gcvINFINITE :: u32 where "gcvINFINITE = NOT 0"
definition gcvINVALID_ADDRESS :: u32 where "gcvINVALID_ADDRESS = NOT 0"

lemmas limit_defs = gcvMAXINT8_def gcvMININT8_def gcvMAXINT16_def gcvMININT16_def gcvMAXINT32_def
  gcvMININT32_def gcvMAXINT64_def gcvMININT64_def gcvMAXUINT8_def gcvMINUINT8_def gcvMAXUINT16_def
  gcvMINUINT16_def gcvMAXUINT32_def gcvMINUINT32_def gcvMAXUINT64_def gcvMINUINT64_def

text \<open>Stored in a variable of its width, each signed limit is the limit of its type.\<close>

lemma gc_signed_limits:
  "signed_take_bit 7 gcvMAXINT8 = 2 ^ 7 - 1" "signed_take_bit 7 gcvMININT8 = - (2 ^ 7)"
  "signed_take_bit 15 gcvMAXINT16 = 2 ^ 15 - 1" "signed_take_bit 15 gcvMININT16 = - (2 ^ 15)"
  "signed_take_bit 31 gcvMAXINT32 = 2 ^ 31 - 1" "signed_take_bit 31 gcvMININT32 = - (2 ^ 31)"
  "signed_take_bit 63 gcvMAXINT64 = 2 ^ 63 - 1" "signed_take_bit 63 gcvMININT64 = - (2 ^ 63)"
  by (simp_all add: limit_defs signed_take_bit_eq_if_positive signed_take_bit_eq_if_negative
      bit_iff_odd take_bit_eq_mod mask_eq_exp_minus_1)

text \<open>Of the unsigned minima only the first is the least value of its type.\<close>

lemma gc_unsigned_minima:
  "gcvMINUINT8 = 0" "0 < gcvMINUINT16" "0 < gcvMINUINT32" "0 < gcvMINUINT64"
  "gcvMINUINT16 = 2 ^ 15" "gcvMINUINT32 = 2 ^ 31" "gcvMINUINT64 = 2 ^ 63"
  by (simp_all add: limit_defs)

subsection \<open>Fixed point\<close>

text \<open>\<open>gctFIXED_POINT\<close> is an \<open>int\<close> with 16 fraction bits; the casts wrap.\<close>

definition fixed_point :: "int \<Rightarrow> int" where
  "fixed_point x = signed_take_bit 31 x"

definition gcvZERO_X :: int where "gcvZERO_X = fixed_point 0x00000000"
definition gcvHALF_X :: int where "gcvHALF_X = fixed_point 0x00008000"
definition gcvONE_X :: int where "gcvONE_X = fixed_point 0x00010000"
definition gcvNEGONE_X :: int where "gcvNEGONE_X = fixed_point 0xFFFF0000"
definition gcvTWO_X :: int where "gcvTWO_X = fixed_point 0x00020000"

definition gcmFIXEDCLAMP_NEG1_TO_1 :: "int \<Rightarrow> int" where
  "gcmFIXEDCLAMP_NEG1_TO_1 x =
     (if x < gcvNEGONE_X then gcvNEGONE_X else if x > gcvONE_X then gcvONE_X else x)"

definition gcmFIXEDCLAMP_0_TO_1 :: "int \<Rightarrow> int" where
  "gcmFIXEDCLAMP_0_TO_1 x = (if x < 0 then 0 else if x > gcvONE_X then gcvONE_X else x)"

subsection \<open>Minimum, maximum, sign\<close>

definition gcmMIN :: "int \<Rightarrow> int \<Rightarrow> int" where
  "gcmMIN x y = (if x \<le> y then x else y)"

definition gcmMAX :: "int \<Rightarrow> int \<Rightarrow> int" where
  "gcmMAX x y = (if x \<ge> y then x else y)"

definition gcmCLAMP :: "int \<Rightarrow> int \<Rightarrow> int \<Rightarrow> int" where
  "gcmCLAMP x mn mx = (if x < mn then mn else if x > mx then mx else x)"

text \<open>C's unary minus: the least \<open>int\<close> has no negative.\<close>

definition c_minus :: "int \<Rightarrow> int option" where
  "c_minus x = (if x = - (2 ^ 31) then None else Some (- x))"

definition gcmABS :: "int \<Rightarrow> int option" where
  "gcmABS x = (if x < 0 then c_minus x else Some x)"

definition gcmNEG :: "int \<Rightarrow> int option" where
  "gcmNEG x = (if x < 0 then Some x else c_minus x)"

definition gcmBITSET :: "u32 \<Rightarrow> u32 \<Rightarrow> u32" where
  "gcmBITSET x y = x AND y"

lemma fixed_values [simp]:
  "gcvZERO_X = 0" "gcvHALF_X = 2 ^ 15" "gcvONE_X = 2 ^ 16" "gcvNEGONE_X = - (2 ^ 16)" "gcvTWO_X = 2 ^ 17"
  by (simp_all add: gcvZERO_X_def gcvHALF_X_def gcvONE_X_def gcvNEGONE_X_def gcvTWO_X_def fixed_point_def
      signed_take_bit_eq_if_positive signed_take_bit_eq_if_negative bit_iff_odd take_bit_eq_mod mask_eq_exp_minus_1)

lemma gcmCLAMP_nearest:
  assumes "mn \<le> mx"
  shows "gcmCLAMP x mn mx = gcmMIN (gcmMAX x mn) mx" and "mn \<le> gcmCLAMP x mn mx" and "gcmCLAMP x mn mx \<le> mx"
    and "mn \<le> y \<Longrightarrow> y \<le> mx \<Longrightarrow> \<bar>x - gcmCLAMP x mn mx\<bar> \<le> \<bar>x - y\<bar>"
  using assms by (auto simp: gcmCLAMP_def gcmMIN_def gcmMAX_def)

lemma fixedclamp_is_clamp:
  "gcmFIXEDCLAMP_NEG1_TO_1 x = gcmCLAMP x gcvNEGONE_X gcvONE_X"
  "gcmFIXEDCLAMP_0_TO_1 x = gcmCLAMP x gcvZERO_X gcvONE_X"
  by (simp_all add: gcmFIXEDCLAMP_NEG1_TO_1_def gcmFIXEDCLAMP_0_TO_1_def gcmCLAMP_def)

text \<open>\<open>gcmNEG\<close> never overflows on a negative number, which is what it is for.\<close>

lemma gc_abs_neg:
  assumes "- (2 ^ 31) \<le> x" and "x < 2 ^ 31"
  shows "gcmNEG x = Some (- \<bar>x\<bar>)" and "gcmABS x = (if x = - (2 ^ 31) then None else Some \<bar>x\<bar>)"
  using assms by (auto simp: gcmNEG_def gcmABS_def c_minus_def)

subsection \<open>Byte order\<close>

definition gcmSWAB32 :: "u32 \<Rightarrow> u32" where
  "gcmSWAB32 x =
     push_bit 24 (x AND 0x000000FF) OR push_bit 8 (x AND 0x0000FF00) OR
     drop_bit 8 (x AND 0x00FF0000) OR drop_bit 24 (x AND 0xFF000000)"

lemma bit_byte_masks:
  "bit (0xFF :: u32) n \<longleftrightarrow> n < 8" "bit (0xFF00 :: u32) n \<longleftrightarrow> 8 \<le> n \<and> n < 16"
  "bit (0xFF0000 :: u32) n \<longleftrightarrow> 16 \<le> n \<and> n < 24" "bit (0xFF000000 :: u32) n \<longleftrightarrow> 24 \<le> n \<and> n < 32"
proof -
  have m: "(0xFF :: u32) = mask 8" "(0xFF00 :: u32) = push_bit 8 (mask 8)"
    "(0xFF0000 :: u32) = push_bit 16 (mask 8)" "(0xFF000000 :: u32) = push_bit 24 (mask 8)"
    by (simp_all add: mask_eq_exp_minus_1 push_bit_eq_mult)
  show "bit (0xFF :: u32) n \<longleftrightarrow> n < 8" "bit (0xFF00 :: u32) n \<longleftrightarrow> 8 \<le> n \<and> n < 16"
    "bit (0xFF0000 :: u32) n \<longleftrightarrow> 16 \<le> n \<and> n < 24" "bit (0xFF000000 :: u32) n \<longleftrightarrow> 24 \<le> n \<and> n < 32"
    unfolding m by (auto simp: bit_push_bit_iff bit_mask_iff)
qed

text \<open>Where each bit of the swapped word comes from.\<close>

definition swab_source :: "nat \<Rightarrow> nat" where
  "swab_source n = (if n < 8 then n + 24 else if n < 16 then n + 8 else if n < 24 then n - 8 else n - 24)"

lemma bit_gcmSWAB32:
  assumes "n < 32"
  shows "bit (gcmSWAB32 x) n \<longleftrightarrow> bit x (swab_source n)"
  unfolding gcmSWAB32_def bit_or_iff bit_push_bit_iff bit_drop_bit_eq comp_apply bit_and_iff bit_byte_masks
  using assms by (auto simp: swab_source_def add.commute)

theorem gc_swab_involution: "gcmSWAB32 (gcmSWAB32 x) = x"
  by (rule bit_word_eqI) (auto simp: bit_gcmSWAB32 swab_source_def)

subsection \<open>Alignment\<close>

definition gcmALIGN_NP2 :: "u32 \<Rightarrow> u32 \<Rightarrow> u32" where
  "gcmALIGN_NP2 n align = (n + align - 1) - ((n + align - 1) mod align)"

definition gcmALIGN :: "u32 \<Rightarrow> u32 \<Rightarrow> u32" where
  "gcmALIGN n align = (n + (align - 1)) AND NOT (align - 1)"

definition gcmALIGN_BASE :: "u32 \<Rightarrow> u32 \<Rightarrow> u32" where
  "gcmALIGN_BASE n align = n AND NOT (align - 1)"

lemma and_not_mask: "x AND NOT (mask k) = x - take_bit k x" for x :: u32
proof -
  have "x - take_bit k x = x AND NOT (take_bit k x)"
    by (rule disjunctive_diff_eq_and_not) (auto intro: bit_word_eqI simp: bit_simps)
  also have "\<dots> = x AND NOT (mask k)"
    by (rule bit_word_eqI) (auto simp: bit_simps)
  finally show ?thesis by simp
qed

lemma unat_mask:
  assumes "k < 32"
  shows "unat (mask k :: u32) = 2 ^ k - 1"
proof -
  have "unat (mask k :: u32) = unat (of_nat (mask k) :: u32)" by (simp only: of_nat_mask_eq)
  also have "\<dots> = take_bit 32 (mask k)" by (simp only: unsigned_of_nat) simp
  also have "\<dots> = 2 ^ k - 1" using assms by (simp only: take_bit_of_mask min_def) (simp add: mask_eq_exp_minus_1)
  finally show ?thesis .
qed

lemma unat_take_bit: "unat (take_bit k x) = unat x mod 2 ^ k" for x :: u32
  by (simp only: unsigned_take_bit_eq take_bit_eq_mod [where 'a = nat])

lemma unat_and_not_mask: "unat (x AND NOT (mask k)) = unat x div 2 ^ k * 2 ^ k" for x :: u32
proof -
  note t = unat_take_bit [of k x]
  then have "take_bit k x \<le> x" by (simp add: word_le_nat_alt)
  then show ?thesis
    unfolding and_not_mask by (simp add: unat_sub t minus_mod_eq_div_mult)
qed

lemma least_multiple:
  fixes n a :: nat
  assumes "0 < a"
  shows "(LEAST m. n \<le> m \<and> a dvd m) = (n + a - 1) div a * a"
proof (rule Least_equality)
  have "(n + a - 1) div a * a + (n + a - 1) mod a = n + a - 1" by simp
  moreover have "(n + a - 1) mod a < a" using assms by simp
  ultimately have "n \<le> (n + a - 1) div a * a" by linarith
  then show "n \<le> (n + a - 1) div a * a \<and> a dvd (n + a - 1) div a * a" by simp
next
  fix m
  assume "n \<le> m \<and> a dvd m"
  then obtain q where q: "m = a * q" "n \<le> a * q" by (auto elim: dvdE)
  then have "n + a - 1 < (q + 1) * a" using assms by (simp add: algebra_simps)
  then have "(n + a - 1) div a < q + 1" using assms by (simp add: div_less_iff_less_mult)
  then show "(n + a - 1) div a * a \<le> m" using q(1) by simp
qed

lemma greatest_multiple:
  fixes n a :: nat
  assumes "0 < a"
  shows "(GREATEST m. m \<le> n \<and> a dvd m) = n div a * a"
proof (rule Greatest_equality)
  show "n div a * a \<le> n \<and> a dvd n div a * a" by simp
next
  fix m
  assume "m \<le> n \<and> a dvd m"
  then obtain q where q: "m = a * q" "a * q \<le> n" by (auto elim: dvdE)
  then have "q \<le> n div a" using assms by (simp add: less_eq_div_iff_mult_less_eq mult.commute)
  then show "m \<le> n div a * a" using q(1) by (simp add: mult.commute)
qed

lemma gc_align_masks:
  "gcmALIGN n (2 ^ k) = (n + mask k) AND NOT (mask k)" "gcmALIGN_BASE n (2 ^ k) = n AND NOT (mask k)"
  "gcmALIGN_NP2 n (2 ^ k) = (n + mask k) - take_bit k (n + mask k)"
  by (simp_all add: gcmALIGN_def gcmALIGN_BASE_def gcmALIGN_NP2_def mask_eq_exp_minus_1 take_bit_eq_mod
      add_diff_eq)

text \<open>C38. Alignment to a power of two: the masking macro gives the same as the macro with the
  remainder; below the top of the address space that is the least multiple of the alignment that
  is not below the value, and above it the result wraps to 0. The base macro gives the greatest
  multiple that is not above the value.\<close>
theorem gc_align:
  assumes "k < 32"
  shows "gcmALIGN n (2 ^ k) = gcmALIGN_NP2 n (2 ^ k) \<and>
    unat (gcmALIGN n (2 ^ k)) =
      (if unat n \<le> 2 ^ 32 - 2 ^ k then (LEAST m. unat n \<le> m \<and> 2 ^ k dvd m) else 0) \<and>
    unat (gcmALIGN_BASE n (2 ^ k)) = (GREATEST m. m \<le> unat n \<and> 2 ^ k dvd m)"
proof -
  let ?a = "2 ^ k :: nat"
  have a: "0 < ?a" "?a < 2 ^ 32" using assms by (simp_all only: power_strict_increasing_iff) simp_all
  have m: "unat (mask k :: u32) = ?a - 1" by (rule unat_mask [OF assms])
  have n: "unat n < 2 ^ 32" using unsigned_less [of n] by simp
  have sum: "unat (n + mask k) = (unat n + ?a - 1) mod 2 ^ 32"
    using a(1) by (simp add: unat_word_ariths m add_diff_assoc)
  have "(unat n + ?a - 1) mod 2 ^ 32 div ?a * ?a =
      (if unat n \<le> 2 ^ 32 - ?a then (LEAST m. unat n \<le> m \<and> ?a dvd m) else 0)"
  proof (cases "unat n \<le> 2 ^ 32 - ?a")
    case True
    then have "(unat n + ?a - 1) mod 2 ^ 32 = unat n + ?a - 1" using a by (intro mod_less) linarith
    with True show ?thesis unfolding least_multiple [OF a(1)] by simp
  next
    case False
    then have "(unat n + ?a - 1) mod 2 ^ 32 = unat n + ?a - 1 - 2 ^ 32"
      using a n by (subst le_mod_geq) auto
    also have "\<dots> < ?a" using n a by linarith
    finally show ?thesis using False by simp
  qed
  then show ?thesis
    by (simp only: gc_align_masks unat_and_not_mask and_not_mask [symmetric] sum greatest_multiple [OF a(1)])
qed

theorem gc_align_witness:
  "unat (gcmALIGN 0x1001 (2 ^ 12)) = 0x2000 \<and> unat (gcmALIGN 0xFFFFF001 (2 ^ 12)) = 0"
proof -
  have "unat (gcmALIGN 0x1001 (2 ^ 12)) = (LEAST m. 0x1001 \<le> m \<and> 2 ^ 12 dvd m)"
    using conjunct1 [OF conjunct2 [OF gc_align [of 12 "0x1001"]]] by simp
  also have "\<dots> = 0x2000" using least_multiple [of "2 ^ 12" "0x1001"] by simp
  finally show ?thesis
    using conjunct1 [OF conjunct2 [OF gc_align [of 12 "0xFFFFF001"]]] by simp
qed

subsection \<open>Register ranges\<close>

text \<open>\<open>Name_LSB\<close> and \<open>Name_Address\<close> of the register are arguments; addresses are in bytes in the
  register description and in words in \<open>Address\<close>.\<close>

definition gcmISINREGRANGE :: "u32 \<Rightarrow> nat \<Rightarrow> u32 \<Rightarrow> bool" where
  "gcmISINREGRANGE address lsb reg_address \<longleftrightarrow>
     address AND push_bit lsb (NOT 0) = drop_bit 2 reg_address"

text \<open>The range check of a register accepts exactly the word addresses of its window: those
  from the register's word address on, as many as its \<open>LSB\<close> says, when the register is aligned to
  its window. A register that is not aligned to it is never matched.\<close>
theorem gc_register_range:
  assumes "lsb < 32"
  shows "gcmISINREGRANGE address lsb reg_address \<longleftrightarrow>
    2 ^ lsb dvd unat reg_address div 4 \<and>
    unat reg_address div 4 \<le> unat address \<and> unat address < unat reg_address div 4 + 2 ^ lsb"
proof -
  let ?a = "2 ^ lsb :: nat" and ?r = "unat reg_address div 4" and ?x = "unat address"
  have "push_bit lsb (NOT 0) = NOT (mask lsb :: u32)"
    by (simp add: push_bit_minus_one_eq_not_mask)
  moreover have "unat (drop_bit 2 reg_address) = ?r"
    by (simp only: unat_drop_bit_eq drop_bit_eq_div [where 'a = nat]) simp
  ultimately have "gcmISINREGRANGE address lsb reg_address \<longleftrightarrow> ?x div ?a * ?a = ?r"
    by (simp add: gcmISINREGRANGE_def unat_and_not_mask word_unat_eq_iff)
  also have "\<dots> \<longleftrightarrow> ?a dvd ?r \<and> ?r \<le> ?x \<and> ?x < ?r + ?a"
  proof
    assume "?x div ?a * ?a = ?r"
    moreover have "?x div ?a * ?a \<le> ?x" "?x < ?x div ?a * ?a + ?a"
      using dividend_less_div_times [of ?a ?x] by (simp_all add: mult.commute)
    ultimately show "?a dvd ?r \<and> ?r \<le> ?x \<and> ?x < ?r + ?a" by (metis dvd_triv_right)
  next
    assume r: "?a dvd ?r \<and> ?r \<le> ?x \<and> ?x < ?r + ?a"
    then obtain q where q: "?r = ?a * q" by (auto elim: dvdE)
    with r have "?x div ?a = q" by (intro div_nat_eqI) (simp_all add: algebra_simps)
    then show "?x div ?a * ?a = ?r" using q by (simp add: mult.commute)
  qed
  finally show ?thesis .
qed

theorem gc_register_range_witness: "gcmISINREGRANGE 0x1FF 8 0x400 \<and> \<not> gcmISINREGRANGE 0x200 8 0x400"
  using gc_register_range [of 8 "0x1FF" "0x400"] gc_register_range [of 8 "0x200" "0x400"]
  by simp

end
