(* ===== verification/Gc_Status.thy ===== *)
theory Gc_Status
  imports CPrelude
begin

unbundle bit_operations_syntax

section \<open>Status codes of the GPU library\<close>

text \<open>
  \<open>gceSTATUS\<close> and its tests in \<open>include/hardware/gc_hal_types.h\<close>, and the macros of
  \<open>include/hardware/gc_hal_vg.h\<close> that leave a function when a call failed. A status is the
  enumeration constant, \<open>status_code\<close> its value.
\<close>

datatype (plugins only: size) gceSTATUS =
    gcvSTATUS_OK
  | gcvSTATUS_FALSE
  | gcvSTATUS_TRUE
  | gcvSTATUS_NO_MORE_DATA
  | gcvSTATUS_CACHED
  | gcvSTATUS_MIPMAP_TOO_LARGE
  | gcvSTATUS_NAME_NOT_FOUND
  | gcvSTATUS_NOT_OUR_INTERRUPT
  | gcvSTATUS_MISMATCH
  | gcvSTATUS_MIPMAP_TOO_SMALL
  | gcvSTATUS_LARGER
  | gcvSTATUS_SMALLER
  | gcvSTATUS_CHIP_NOT_READY
  | gcvSTATUS_NEED_CONVERSION
  | gcvSTATUS_SKIP
  | gcvSTATUS_DATA_TOO_LARGE
  | gcvSTATUS_INVALID_CONFIG
  | gcvSTATUS_CHANGED
  | gcvSTATUS_NOT_SUPPORT_DITHER
  | gcvSTATUS_EXECUTED
  | gcvSTATUS_TERMINATE
  | gcvSTATUS_INVALID_ARGUMENT
  | gcvSTATUS_INVALID_OBJECT
  | gcvSTATUS_OUT_OF_MEMORY
  | gcvSTATUS_MEMORY_LOCKED
  | gcvSTATUS_MEMORY_UNLOCKED
  | gcvSTATUS_HEAP_CORRUPTED
  | gcvSTATUS_GENERIC_IO
  | gcvSTATUS_INVALID_ADDRESS
  | gcvSTATUS_CONTEXT_LOSSED
  | gcvSTATUS_TOO_COMPLEX
  | gcvSTATUS_BUFFER_TOO_SMALL
  | gcvSTATUS_INTERFACE_ERROR
  | gcvSTATUS_NOT_SUPPORTED
  | gcvSTATUS_MORE_DATA
  | gcvSTATUS_TIMEOUT
  | gcvSTATUS_OUT_OF_RESOURCES
  | gcvSTATUS_INVALID_DATA
  | gcvSTATUS_INVALID_MIPMAP
  | gcvSTATUS_NOT_FOUND
  | gcvSTATUS_NOT_ALIGNED
  | gcvSTATUS_INVALID_REQUEST
  | gcvSTATUS_GPU_NOT_RESPONDING
  | gcvSTATUS_TIMER_OVERFLOW
  | gcvSTATUS_VERSION_MISMATCH
  | gcvSTATUS_LOCKED
  | gcvSTATUS_INTERRUPTED
  | gcvSTATUS_DEVICE
  | gcvSTATUS_NOT_MULTI_PIPE_ALIGNED
  | gcvSTATUS_INTERRUPTED_TIMEOUT
  | gcvSTATUS_GLOBAL_TYPE_MISMATCH
  | gcvSTATUS_TOO_MANY_ATTRIBUTES
  | gcvSTATUS_TOO_MANY_UNIFORMS
  | gcvSTATUS_TOO_MANY_VARYINGS
  | gcvSTATUS_UNDECLARED_VARYING
  | gcvSTATUS_VARYING_TYPE_MISMATCH
  | gcvSTATUS_MISSING_MAIN
  | gcvSTATUS_NAME_MISMATCH
  | gcvSTATUS_INVALID_INDEX
  | gcvSTATUS_UNIFORM_MISMATCH
  | gcvSTATUS_UNSAT_LIB_SYMBOL
  | gcvSTATUS_TOO_MANY_SHADERS
  | gcvSTATUS_LINK_INVALID_SHADERS
  | gcvSTATUS_CS_NO_WORKGROUP_SIZE
  | gcvSTATUS_LINK_LIB_ERROR
  | gcvSTATUS_SHADER_VERSION_MISMATCH
  | gcvSTATUS_TOO_MANY_INSTRUCTION
  | gcvSTATUS_SSBO_MISMATCH
  | gcvSTATUS_TOO_MANY_OUTPUT
  | gcvSTATUS_TOO_MANY_INPUT
  | gcvSTATUS_NOT_SUPPORT_CL
  | gcvSTATUS_NOT_SUPPORT_INTEGER
  | gcvSTATUS_UNIFORM_TYPE_MISMATCH
  | gcvSTATUS_TOO_MANY_SAMPLER
  | gcvSTATUS_COMPILER_FE_PREPROCESSOR_ERROR
  | gcvSTATUS_COMPILER_FE_PARSER_ERROR
  | gcvSTATUS_RECOMPILER_CONVERT_UNIMPLEMENTED

primrec status_code :: "gceSTATUS \<Rightarrow> int" where
  "status_code gcvSTATUS_OK = 0"
| "status_code gcvSTATUS_FALSE = 0"
| "status_code gcvSTATUS_TRUE = 1"
| "status_code gcvSTATUS_NO_MORE_DATA = 2"
| "status_code gcvSTATUS_CACHED = 3"
| "status_code gcvSTATUS_MIPMAP_TOO_LARGE = 4"
| "status_code gcvSTATUS_NAME_NOT_FOUND = 5"
| "status_code gcvSTATUS_NOT_OUR_INTERRUPT = 6"
| "status_code gcvSTATUS_MISMATCH = 7"
| "status_code gcvSTATUS_MIPMAP_TOO_SMALL = 8"
| "status_code gcvSTATUS_LARGER = 9"
| "status_code gcvSTATUS_SMALLER = 10"
| "status_code gcvSTATUS_CHIP_NOT_READY = 11"
| "status_code gcvSTATUS_NEED_CONVERSION = 12"
| "status_code gcvSTATUS_SKIP = 13"
| "status_code gcvSTATUS_DATA_TOO_LARGE = 14"
| "status_code gcvSTATUS_INVALID_CONFIG = 15"
| "status_code gcvSTATUS_CHANGED = 16"
| "status_code gcvSTATUS_NOT_SUPPORT_DITHER = 17"
| "status_code gcvSTATUS_EXECUTED = 18"
| "status_code gcvSTATUS_TERMINATE = 19"
| "status_code gcvSTATUS_INVALID_ARGUMENT = - 1"
| "status_code gcvSTATUS_INVALID_OBJECT = - 2"
| "status_code gcvSTATUS_OUT_OF_MEMORY = - 3"
| "status_code gcvSTATUS_MEMORY_LOCKED = - 4"
| "status_code gcvSTATUS_MEMORY_UNLOCKED = - 5"
| "status_code gcvSTATUS_HEAP_CORRUPTED = - 6"
| "status_code gcvSTATUS_GENERIC_IO = - 7"
| "status_code gcvSTATUS_INVALID_ADDRESS = - 8"
| "status_code gcvSTATUS_CONTEXT_LOSSED = - 9"
| "status_code gcvSTATUS_TOO_COMPLEX = - 10"
| "status_code gcvSTATUS_BUFFER_TOO_SMALL = - 11"
| "status_code gcvSTATUS_INTERFACE_ERROR = - 12"
| "status_code gcvSTATUS_NOT_SUPPORTED = - 13"
| "status_code gcvSTATUS_MORE_DATA = - 14"
| "status_code gcvSTATUS_TIMEOUT = - 15"
| "status_code gcvSTATUS_OUT_OF_RESOURCES = - 16"
| "status_code gcvSTATUS_INVALID_DATA = - 17"
| "status_code gcvSTATUS_INVALID_MIPMAP = - 18"
| "status_code gcvSTATUS_NOT_FOUND = - 19"
| "status_code gcvSTATUS_NOT_ALIGNED = - 20"
| "status_code gcvSTATUS_INVALID_REQUEST = - 21"
| "status_code gcvSTATUS_GPU_NOT_RESPONDING = - 22"
| "status_code gcvSTATUS_TIMER_OVERFLOW = - 23"
| "status_code gcvSTATUS_VERSION_MISMATCH = - 24"
| "status_code gcvSTATUS_LOCKED = - 25"
| "status_code gcvSTATUS_INTERRUPTED = - 26"
| "status_code gcvSTATUS_DEVICE = - 27"
| "status_code gcvSTATUS_NOT_MULTI_PIPE_ALIGNED = - 28"
| "status_code gcvSTATUS_INTERRUPTED_TIMEOUT = - 29"
| "status_code gcvSTATUS_GLOBAL_TYPE_MISMATCH = - 1000"
| "status_code gcvSTATUS_TOO_MANY_ATTRIBUTES = - 1001"
| "status_code gcvSTATUS_TOO_MANY_UNIFORMS = - 1002"
| "status_code gcvSTATUS_TOO_MANY_VARYINGS = - 1003"
| "status_code gcvSTATUS_UNDECLARED_VARYING = - 1004"
| "status_code gcvSTATUS_VARYING_TYPE_MISMATCH = - 1005"
| "status_code gcvSTATUS_MISSING_MAIN = - 1006"
| "status_code gcvSTATUS_NAME_MISMATCH = - 1007"
| "status_code gcvSTATUS_INVALID_INDEX = - 1008"
| "status_code gcvSTATUS_UNIFORM_MISMATCH = - 1009"
| "status_code gcvSTATUS_UNSAT_LIB_SYMBOL = - 1010"
| "status_code gcvSTATUS_TOO_MANY_SHADERS = - 1011"
| "status_code gcvSTATUS_LINK_INVALID_SHADERS = - 1012"
| "status_code gcvSTATUS_CS_NO_WORKGROUP_SIZE = - 1013"
| "status_code gcvSTATUS_LINK_LIB_ERROR = - 1014"
| "status_code gcvSTATUS_SHADER_VERSION_MISMATCH = - 1015"
| "status_code gcvSTATUS_TOO_MANY_INSTRUCTION = - 1016"
| "status_code gcvSTATUS_SSBO_MISMATCH = - 1017"
| "status_code gcvSTATUS_TOO_MANY_OUTPUT = - 1018"
| "status_code gcvSTATUS_TOO_MANY_INPUT = - 1019"
| "status_code gcvSTATUS_NOT_SUPPORT_CL = - 1020"
| "status_code gcvSTATUS_NOT_SUPPORT_INTEGER = - 1021"
| "status_code gcvSTATUS_UNIFORM_TYPE_MISMATCH = - 1022"
| "status_code gcvSTATUS_TOO_MANY_SAMPLER = - 1023"
| "status_code gcvSTATUS_COMPILER_FE_PREPROCESSOR_ERROR = - 2000"
| "status_code gcvSTATUS_COMPILER_FE_PARSER_ERROR = - 2001"
| "status_code gcvSTATUS_RECOMPILER_CONVERT_UNIMPLEMENTED = - 3000"

definition gcmIS_ERROR :: "int \<Rightarrow> bool" where
  "gcmIS_ERROR status \<longleftrightarrow> status < 0"

definition gcmNO_ERROR :: "int \<Rightarrow> bool" where
  "gcmNO_ERROR status \<longleftrightarrow> status \<ge> 0"

definition gcmIS_SUCCESS :: "int \<Rightarrow> bool" where
  "gcmIS_SUCCESS status \<longleftrightarrow> status = status_code gcvSTATUS_OK"

definition gcmkIS_ERROR :: "int \<Rightarrow> bool" where
  "gcmkIS_ERROR status \<longleftrightarrow> status < 0"

subsection \<open>Leaving on an error\<close>

text \<open>
  What a checking macro does: the calls that it makes, in order, and where control goes. The
  functions behind the prefixes \<open>gcm\<close> and \<open>gcmk\<close> are not in the repository: a call is recorded
  with its arguments.
\<close>

datatype hal_action =
    HalTrace string string
  | HalAssert bool
  | HalFooterArg string int
  | HalPrintVersion

datatype hal_next = Continue | Return int | Goto string | OnError int

text \<open>
  \<open>status\<close> is what the call returned, \<open>name\<close> its text by \<open>gcoOS_DebugStatus2Name\<close>, and \<open>place\<close>
  stands for the function's name and the line.
\<close>

definition gcm_ERROR_RETURN :: "string \<Rightarrow> string \<Rightarrow> int \<Rightarrow> hal_action list \<times> hal_next" where
  "gcm_ERROR_RETURN prefix place status =
     (if gcmIS_ERROR status
      then ([HalPrintVersion, HalTrace (prefix @ ''ERR_RETURN: status=%d(%s) @ %s(%d)'') place], Return status)
      else ([], Continue))"

definition gcmERR_GOTO :: "string \<Rightarrow> int \<Rightarrow> hal_action list \<times> hal_next" where
  "gcmERR_GOTO place status =
     (if gcmIS_ERROR status
      then ([HalTrace ''gcmERR_GOTO: status=%d @ line=%d in function %s.\<newline>'' place], Goto ''ErrorHandler'')
      else ([], Continue))"

subsection \<open>Debugging\<close>

text \<open>The flags of \<open>gcdDEBUG\<close>, an option of the build, and the check of a boolean in debug builds.\<close>

definition gcdDEBUG_NONE :: u32 where "gcdDEBUG_NONE = 0"
definition gcdDEBUG_ALL :: u32 where "gcdDEBUG_ALL = push_bit 0 1"
definition gcdDEBUG_FATAL :: u32 where "gcdDEBUG_FATAL = push_bit 1 1"
definition gcdDEBUG_TRACE :: u32 where "gcdDEBUG_TRACE = push_bit 2 1"
definition gcdDEBUG_BREAK :: u32 where "gcdDEBUG_BREAK = push_bit 3 1"
definition gcdDEBUG_ASSERT :: u32 where "gcdDEBUG_ASSERT = push_bit 4 1"
definition gcdDEBUG_CODE :: u32 where "gcdDEBUG_CODE = push_bit 5 1"
definition gcdDEBUG_STACK :: u32 where "gcdDEBUG_STACK = push_bit 6 1"

lemmas debug_flags = gcdDEBUG_NONE_def gcdDEBUG_ALL_def gcdDEBUG_FATAL_def gcdDEBUG_TRACE_def
  gcdDEBUG_BREAK_def gcdDEBUG_ASSERT_def gcdDEBUG_CODE_def gcdDEBUG_STACK_def

definition gcmIS_DEBUG :: "u32 \<Rightarrow> u32 \<Rightarrow> u32" where
  "gcmIS_DEBUG gcdDEBUG flag = gcdDEBUG AND (flag OR gcdDEBUG_ALL)"

definition gcmVERIFY_BOOLEAN :: "bool \<Rightarrow> int \<Rightarrow> hal_action list" where
  "gcmVERIFY_BOOLEAN debug e = (if debug then [HalAssert (e = 0 \<or> e = 1)] else [])"

text \<open>A build with \<open>gcdDEBUG_ALL\<close> has every kind of debugging, any other the kinds of its flags.\<close>

lemma is_debug: "gcmIS_DEBUG g f \<noteq> 0 \<longleftrightarrow> bit g 0 \<or> g AND f \<noteq> 0"
proof -
  have "gcmIS_DEBUG g f = (g AND f) OR (g AND 1)" by (simp add: gcmIS_DEBUG_def gcdDEBUG_ALL_def bit.conj_disj_distrib)
  moreover have "g AND 1 = 0 \<longleftrightarrow> \<not> bit g 0" by (simp add: and_one_eq bit_0 mod_2_eq_odd)
  ultimately show ?thesis by (auto simp: or_eq_0_iff)
qed

subsection \<open>Codes\<close>

text \<open>Every status has a code of its own, but for \<open>gcvSTATUS_FALSE\<close>, which is \<open>gcvSTATUS_OK\<close>.\<close>

definition all_statuses :: "gceSTATUS list" where
  "all_statuses =
     [gcvSTATUS_OK, gcvSTATUS_FALSE, gcvSTATUS_TRUE,
      gcvSTATUS_NO_MORE_DATA, gcvSTATUS_CACHED, gcvSTATUS_MIPMAP_TOO_LARGE,
      gcvSTATUS_NAME_NOT_FOUND, gcvSTATUS_NOT_OUR_INTERRUPT, gcvSTATUS_MISMATCH,
      gcvSTATUS_MIPMAP_TOO_SMALL, gcvSTATUS_LARGER, gcvSTATUS_SMALLER,
      gcvSTATUS_CHIP_NOT_READY, gcvSTATUS_NEED_CONVERSION, gcvSTATUS_SKIP,
      gcvSTATUS_DATA_TOO_LARGE, gcvSTATUS_INVALID_CONFIG, gcvSTATUS_CHANGED,
      gcvSTATUS_NOT_SUPPORT_DITHER, gcvSTATUS_EXECUTED, gcvSTATUS_TERMINATE,
      gcvSTATUS_INVALID_ARGUMENT, gcvSTATUS_INVALID_OBJECT, gcvSTATUS_OUT_OF_MEMORY,
      gcvSTATUS_MEMORY_LOCKED, gcvSTATUS_MEMORY_UNLOCKED, gcvSTATUS_HEAP_CORRUPTED,
      gcvSTATUS_GENERIC_IO, gcvSTATUS_INVALID_ADDRESS, gcvSTATUS_CONTEXT_LOSSED,
      gcvSTATUS_TOO_COMPLEX, gcvSTATUS_BUFFER_TOO_SMALL, gcvSTATUS_INTERFACE_ERROR,
      gcvSTATUS_NOT_SUPPORTED, gcvSTATUS_MORE_DATA, gcvSTATUS_TIMEOUT,
      gcvSTATUS_OUT_OF_RESOURCES, gcvSTATUS_INVALID_DATA, gcvSTATUS_INVALID_MIPMAP,
      gcvSTATUS_NOT_FOUND, gcvSTATUS_NOT_ALIGNED, gcvSTATUS_INVALID_REQUEST,
      gcvSTATUS_GPU_NOT_RESPONDING, gcvSTATUS_TIMER_OVERFLOW, gcvSTATUS_VERSION_MISMATCH,
      gcvSTATUS_LOCKED, gcvSTATUS_INTERRUPTED, gcvSTATUS_DEVICE,
      gcvSTATUS_NOT_MULTI_PIPE_ALIGNED, gcvSTATUS_INTERRUPTED_TIMEOUT, gcvSTATUS_GLOBAL_TYPE_MISMATCH,
      gcvSTATUS_TOO_MANY_ATTRIBUTES, gcvSTATUS_TOO_MANY_UNIFORMS, gcvSTATUS_TOO_MANY_VARYINGS,
      gcvSTATUS_UNDECLARED_VARYING, gcvSTATUS_VARYING_TYPE_MISMATCH, gcvSTATUS_MISSING_MAIN,
      gcvSTATUS_NAME_MISMATCH, gcvSTATUS_INVALID_INDEX, gcvSTATUS_UNIFORM_MISMATCH,
      gcvSTATUS_UNSAT_LIB_SYMBOL, gcvSTATUS_TOO_MANY_SHADERS, gcvSTATUS_LINK_INVALID_SHADERS,
      gcvSTATUS_CS_NO_WORKGROUP_SIZE, gcvSTATUS_LINK_LIB_ERROR, gcvSTATUS_SHADER_VERSION_MISMATCH,
      gcvSTATUS_TOO_MANY_INSTRUCTION, gcvSTATUS_SSBO_MISMATCH, gcvSTATUS_TOO_MANY_OUTPUT,
      gcvSTATUS_TOO_MANY_INPUT, gcvSTATUS_NOT_SUPPORT_CL, gcvSTATUS_NOT_SUPPORT_INTEGER,
      gcvSTATUS_UNIFORM_TYPE_MISMATCH, gcvSTATUS_TOO_MANY_SAMPLER, gcvSTATUS_COMPILER_FE_PREPROCESSOR_ERROR,
      gcvSTATUS_COMPILER_FE_PARSER_ERROR, gcvSTATUS_RECOMPILER_CONVERT_UNIMPLEMENTED]"

definition status_of :: "int \<Rightarrow> gceSTATUS option" where
  "status_of c = find (\<lambda>s. status_code s = c) all_statuses"

lemma status_of_code: "status_of (status_code s) = Some (if s = gcvSTATUS_FALSE then gcvSTATUS_OK else s)"
  by (cases s) (simp_all add: status_of_def all_statuses_def)

theorem gc_status_codes:
  "status_code s = status_code t \<longleftrightarrow>
     s = t \<or> s = gcvSTATUS_OK \<and> t = gcvSTATUS_FALSE \<or> s = gcvSTATUS_FALSE \<and> t = gcvSTATUS_OK"
proof
  assume "status_code s = status_code t"
  then have "status_of (status_code s) = status_of (status_code t)" by simp
  then show "s = t \<or> s = gcvSTATUS_OK \<and> t = gcvSTATUS_FALSE \<or> s = gcvSTATUS_FALSE \<and> t = gcvSTATUS_OK"
    by (simp add: status_of_code split: if_splits)
qed auto

lemma gc_status_tests:
  "gcmNO_ERROR c \<longleftrightarrow> \<not> gcmIS_ERROR c" "gcmIS_SUCCESS (status_code s) \<longleftrightarrow> s = gcvSTATUS_OK \<or> s = gcvSTATUS_FALSE"
  using gc_status_codes [of s gcvSTATUS_OK]
  by (auto simp: gcmNO_ERROR_def gcmIS_ERROR_def gcmIS_SUCCESS_def)

end
