(* ===== verification/Gc_Objects.thy ===== *)
theory Gc_Objects
  imports Gc_Arith Gc_Status
begin

unbundle bit_operations_syntax

section \<open>Objects of the GPU library\<close>

text \<open>
  The character codes of \<open>include/hardware/gc_hal_types.h\<close> and the object types and object
  checks of \<open>include/hardware/gc_hal.h\<close>. \<open>char\<close> has no sign, as on the device's processor.
\<close>

subsection \<open>Character codes\<close>

definition c_char :: "char \<Rightarrow> u32" where
  "c_char c = of_nat (of_char c)"

definition gcmCC :: "char \<Rightarrow> char \<Rightarrow> char \<Rightarrow> char \<Rightarrow> u32" where
  "gcmCC c1 c2 c3 c4 = c_char c1 OR push_bit 8 (c_char c2) OR push_bit 16 (c_char c3) OR push_bit 24 (c_char c4)"

definition gcmPRINTABLE :: "char \<Rightarrow> char" where
  "gcmPRINTABLE c =
     (if of_char c \<ge> (0x20 :: nat) \<and> of_char c \<le> (0x7D :: nat) then (if c \<noteq> CHR ''%'' then c else CHR '' '') else CHR '' '')"

definition gcmCC_PRINT :: "u32 \<Rightarrow> string" where
  "gcmCC_PRINT cc =
     [gcmPRINTABLE (char_of (unat (cc AND 0xFF))),
      gcmPRINTABLE (char_of (unat (drop_bit 8 cc AND 0xFF))),
      gcmPRINTABLE (char_of (unat (drop_bit 16 cc AND 0xFF))),
      gcmPRINTABLE (char_of (unat (drop_bit 24 cc AND 0xFF)))]"

lemma bit_c_char: "bit (c_char c) n \<longleftrightarrow> n < 8 \<and> bit (of_char c :: nat) n"
proof -
  have "(of_char c :: nat) = take_bit 8 (of_char c)" by (simp add: of_char_mod_256 take_bit_eq_mod)
  then have "bit (of_char c :: nat) n \<longleftrightarrow> bit (take_bit 8 (of_char c :: nat)) n" by simp
  then show ?thesis by (auto simp: c_char_def bit_simps)
qed

lemma cc_bytes:
  "gcmCC c1 c2 c3 c4 AND 0xFF = c_char c1" "drop_bit 8 (gcmCC c1 c2 c3 c4) AND 0xFF = c_char c2"
  "drop_bit 16 (gcmCC c1 c2 c3 c4) AND 0xFF = c_char c3" "drop_bit 24 (gcmCC c1 c2 c3 c4) AND 0xFF = c_char c4"
  unfolding gcmCC_def
  by (rule bit_word_eqI,
      simp only: bit_or_iff bit_and_iff bit_push_bit_iff bit_drop_bit_eq comp_apply bit_byte_masks bit_c_char,
      fastforce)+

lemma char_of_c_char: "char_of (unat (c_char c)) = c"
proof -
  have "(of_char c :: nat) < 256"
    using mod_less_divisor [of 256 "of_char c :: nat"] unfolding of_char_mod_256 by simp
  then have "(of_char c :: nat) < 2 ^ 32" by (rule less_le_trans) simp
  then show ?thesis by (simp add: c_char_def unsigned_of_nat take_bit_nat_eq_self)
qed

text \<open>Printing gives the characters of a code back, where they can be printed.\<close>

lemma gcmCC_PRINT_gcmCC:
  "gcmCC_PRINT (gcmCC c1 c2 c3 c4) = map gcmPRINTABLE [c1, c2, c3, c4]"
  by (simp add: gcmCC_PRINT_def cc_bytes char_of_c_char del: drop_bit_and)

subsection \<open>Object types\<close>

datatype (plugins only: size) gceOBJECT_TYPE =
    gcvOBJ_UNKNOWN
  | gcvOBJ_2D
  | gcvOBJ_3D
  | gcvOBJ_ATTRIBUTE
  | gcvOBJ_BRUSHCACHE
  | gcvOBJ_BRUSHNODE
  | gcvOBJ_BRUSH
  | gcvOBJ_BUFFER
  | gcvOBJ_COMMAND
  | gcvOBJ_COMMANDBUFFER
  | gcvOBJ_CONTEXT
  | gcvOBJ_DEVICE
  | gcvOBJ_DUMP
  | gcvOBJ_EVENT
  | gcvOBJ_FUNCTION
  | gcvOBJ_HAL
  | gcvOBJ_HARDWARE
  | gcvOBJ_HEAP
  | gcvOBJ_INDEX
  | gcvOBJ_INTERRUPT
  | gcvOBJ_KERNEL
  | gcvOBJ_KERNEL_FUNCTION
  | gcvOBJ_MEMORYBUFFER
  | gcvOBJ_MMU
  | gcvOBJ_OS
  | gcvOBJ_OUTPUT
  | gcvOBJ_PAINT
  | gcvOBJ_PATH
  | gcvOBJ_QUEUE
  | gcvOBJ_SAMPLER
  | gcvOBJ_SHADER
  | gcvOBJ_STREAM
  | gcvOBJ_SURF
  | gcvOBJ_TEXTURE
  | gcvOBJ_UNIFORM
  | gcvOBJ_VARIABLE
  | gcvOBJ_VERTEX
  | gcvOBJ_VIDMEM
  | gcvOBJ_VG
  | gcvOBJ_BUFOBJ
  | gcvOBJ_UNIFORM_BLOCK
  | gcvOBJ_CL

primrec object_code :: "gceOBJECT_TYPE \<Rightarrow> u32" where
  "object_code gcvOBJ_UNKNOWN = 0"
| "object_code gcvOBJ_2D = gcmCC CHR ''2'' CHR ''D'' CHR '' '' CHR '' ''"
| "object_code gcvOBJ_3D = gcmCC CHR ''3'' CHR ''D'' CHR '' '' CHR '' ''"
| "object_code gcvOBJ_ATTRIBUTE = gcmCC CHR ''A'' CHR ''T'' CHR ''T'' CHR ''R''"
| "object_code gcvOBJ_BRUSHCACHE = gcmCC CHR ''B'' CHR ''R'' CHR ''U'' CHR ''$''"
| "object_code gcvOBJ_BRUSHNODE = gcmCC CHR ''B'' CHR ''R'' CHR ''U'' CHR ''n''"
| "object_code gcvOBJ_BRUSH = gcmCC CHR ''B'' CHR ''R'' CHR ''U'' CHR ''o''"
| "object_code gcvOBJ_BUFFER = gcmCC CHR ''B'' CHR ''U'' CHR ''F'' CHR ''R''"
| "object_code gcvOBJ_COMMAND = gcmCC CHR ''C'' CHR ''M'' CHR ''D'' CHR '' ''"
| "object_code gcvOBJ_COMMANDBUFFER = gcmCC CHR ''C'' CHR ''M'' CHR ''D'' CHR ''B''"
| "object_code gcvOBJ_CONTEXT = gcmCC CHR ''C'' CHR ''T'' CHR ''X'' CHR ''T''"
| "object_code gcvOBJ_DEVICE = gcmCC CHR ''D'' CHR ''E'' CHR ''V'' CHR '' ''"
| "object_code gcvOBJ_DUMP = gcmCC CHR ''D'' CHR ''U'' CHR ''M'' CHR ''P''"
| "object_code gcvOBJ_EVENT = gcmCC CHR ''E'' CHR ''V'' CHR ''N'' CHR ''T''"
| "object_code gcvOBJ_FUNCTION = gcmCC CHR ''F'' CHR ''U'' CHR ''N'' CHR ''C''"
| "object_code gcvOBJ_HAL = gcmCC CHR ''H'' CHR ''A'' CHR ''L'' CHR '' ''"
| "object_code gcvOBJ_HARDWARE = gcmCC CHR ''H'' CHR ''A'' CHR ''R'' CHR ''D''"
| "object_code gcvOBJ_HEAP = gcmCC CHR ''H'' CHR ''E'' CHR ''A'' CHR ''P''"
| "object_code gcvOBJ_INDEX = gcmCC CHR ''I'' CHR ''N'' CHR ''D'' CHR ''X''"
| "object_code gcvOBJ_INTERRUPT = gcmCC CHR ''I'' CHR ''N'' CHR ''T'' CHR ''R''"
| "object_code gcvOBJ_KERNEL = gcmCC CHR ''K'' CHR ''E'' CHR ''R'' CHR ''N''"
| "object_code gcvOBJ_KERNEL_FUNCTION = gcmCC CHR ''K'' CHR ''F'' CHR ''C'' CHR ''N''"
| "object_code gcvOBJ_MEMORYBUFFER = gcmCC CHR ''M'' CHR ''E'' CHR ''M'' CHR ''B''"
| "object_code gcvOBJ_MMU = gcmCC CHR ''M'' CHR ''M'' CHR ''U'' CHR '' ''"
| "object_code gcvOBJ_OS = gcmCC CHR ''O'' CHR ''S'' CHR '' '' CHR '' ''"
| "object_code gcvOBJ_OUTPUT = gcmCC CHR ''O'' CHR ''U'' CHR ''T'' CHR ''P''"
| "object_code gcvOBJ_PAINT = gcmCC CHR ''P'' CHR ''N'' CHR ''T'' CHR '' ''"
| "object_code gcvOBJ_PATH = gcmCC CHR ''P'' CHR ''A'' CHR ''T'' CHR ''H''"
| "object_code gcvOBJ_QUEUE = gcmCC CHR ''Q'' CHR ''U'' CHR ''E'' CHR '' ''"
| "object_code gcvOBJ_SAMPLER = gcmCC CHR ''S'' CHR ''A'' CHR ''M'' CHR ''P''"
| "object_code gcvOBJ_SHADER = gcmCC CHR ''S'' CHR ''H'' CHR ''D'' CHR ''R''"
| "object_code gcvOBJ_STREAM = gcmCC CHR ''S'' CHR ''T'' CHR ''R'' CHR ''M''"
| "object_code gcvOBJ_SURF = gcmCC CHR ''S'' CHR ''U'' CHR ''R'' CHR ''F''"
| "object_code gcvOBJ_TEXTURE = gcmCC CHR ''T'' CHR ''X'' CHR ''T'' CHR ''R''"
| "object_code gcvOBJ_UNIFORM = gcmCC CHR ''U'' CHR ''N'' CHR ''I'' CHR ''F''"
| "object_code gcvOBJ_VARIABLE = gcmCC CHR ''V'' CHR ''A'' CHR ''R'' CHR ''I''"
| "object_code gcvOBJ_VERTEX = gcmCC CHR ''V'' CHR ''R'' CHR ''T'' CHR ''X''"
| "object_code gcvOBJ_VIDMEM = gcmCC CHR ''V'' CHR ''M'' CHR ''E'' CHR ''M''"
| "object_code gcvOBJ_VG = gcmCC CHR ''V'' CHR ''G'' CHR '' '' CHR '' ''"
| "object_code gcvOBJ_BUFOBJ = gcmCC CHR ''B'' CHR ''U'' CHR ''F'' CHR ''O''"
| "object_code gcvOBJ_UNIFORM_BLOCK = gcmCC CHR ''U'' CHR ''B'' CHR ''L'' CHR ''K''"
| "object_code gcvOBJ_CL = gcmCC CHR ''C'' CHR ''L'' CHR '' '' CHR '' ''"

record gcsOBJECT =
  obj_type :: u32

subsection \<open>Object checks\<close>

text \<open>
  The three checks. The null pointer is \<open>None\<close>; \<open>prefix\<close> is the text \<open>gcm\<close> or \<open>gcmk\<close> that the
  macro pastes in front of the functions it calls.
\<close>

definition gcmVERIFY_OBJECT :: "string \<Rightarrow> gcsOBJECT option \<Rightarrow> u32 \<Rightarrow> hal_action list \<times> hal_next" where
  "gcmVERIFY_OBJECT prefix obj t =
     (case obj of
        None \<Rightarrow>
          ([HalTrace (prefix @ ''VERIFY_OBJECT failed: NULL'') [],
            HalTrace ''  expected: %c%c%c%c'' (gcmCC_PRINT t),
            HalAssert (obj \<noteq> None),
            HalFooterArg ''status=%d'' (status_code gcvSTATUS_INVALID_OBJECT)],
           Return (status_code gcvSTATUS_INVALID_OBJECT))
      | Some p \<Rightarrow>
          if obj_type p \<noteq> t then
            ([HalTrace (prefix @ ''VERIFY_OBJECT failed: %c%c%c%c'') (gcmCC_PRINT (obj_type p)),
              HalTrace ''  expected: %c%c%c%c'' (gcmCC_PRINT t),
              HalAssert (obj_type p = t),
              HalFooterArg ''status=%d'' (status_code gcvSTATUS_INVALID_OBJECT)],
             Return (status_code gcvSTATUS_INVALID_OBJECT))
          else ([], Continue))"

definition gcmVERIFY_OBJECT_NO_RETURN :: "string \<Rightarrow> gcsOBJECT option \<Rightarrow> u32 \<Rightarrow> hal_action list \<times> hal_next" where
  "gcmVERIFY_OBJECT_NO_RETURN prefix obj t =
     (case obj of
        None \<Rightarrow>
          ([HalTrace (prefix @ ''VERIFY_OBJECT failed: NULL   expected: %c%c%c%c'') (gcmCC_PRINT t),
            HalAssert (obj \<noteq> None)],
           OnError (status_code gcvSTATUS_INVALID_OBJECT))
      | Some p \<Rightarrow>
          if obj_type p \<noteq> t then
            ([HalTrace (prefix @ ''VERIFY_OBJECT failed: %c%c%c%c   expected: %c%c%c%c'')
                (gcmCC_PRINT (obj_type p) @ gcmCC_PRINT t),
              HalAssert (obj_type p = t)],
             OnError (status_code gcvSTATUS_INVALID_OBJECT))
          else ([], Continue))"

definition gcmVERIFY_OBJECT_RETURN :: "string \<Rightarrow> gcsOBJECT option \<Rightarrow> u32 \<Rightarrow> int \<Rightarrow> hal_action list \<times> hal_next" where
  "gcmVERIFY_OBJECT_RETURN prefix obj t retVal =
     (case obj of
        None \<Rightarrow>
          ([HalPrintVersion,
            HalTrace (prefix @ ''VERIFY_OBJECT_RETURN failed: NULL'') [],
            HalTrace ''  expected: %c%c%c%c'' (gcmCC_PRINT t),
            HalAssert (obj \<noteq> None),
            HalFooterArg ''retVal=%d'' retVal],
           Return retVal)
      | Some p \<Rightarrow>
          if obj_type p \<noteq> t then
            ([HalPrintVersion,
              HalTrace (prefix @ ''VERIFY_OBJECT_RETURN failed: %c%c%c%c'') (gcmCC_PRINT (obj_type p)),
              HalTrace ''  expected: %c%c%c%c'' (gcmCC_PRINT t),
              HalAssert (obj_type p = t),
              HalFooterArg ''retVal=%d'' retVal],
             Return retVal)
          else ([], Continue))"

subsection \<open>Types are told apart\<close>

text \<open>The letters that a type's code prints as.\<close>

primrec object_letters :: "gceOBJECT_TYPE \<Rightarrow> string" where
  "object_letters gcvOBJ_UNKNOWN = ''    ''"
| "object_letters gcvOBJ_2D = ''2D  ''"
| "object_letters gcvOBJ_3D = ''3D  ''"
| "object_letters gcvOBJ_ATTRIBUTE = ''ATTR''"
| "object_letters gcvOBJ_BRUSHCACHE = ''BRU$''"
| "object_letters gcvOBJ_BRUSHNODE = ''BRUn''"
| "object_letters gcvOBJ_BRUSH = ''BRUo''"
| "object_letters gcvOBJ_BUFFER = ''BUFR''"
| "object_letters gcvOBJ_COMMAND = ''CMD ''"
| "object_letters gcvOBJ_COMMANDBUFFER = ''CMDB''"
| "object_letters gcvOBJ_CONTEXT = ''CTXT''"
| "object_letters gcvOBJ_DEVICE = ''DEV ''"
| "object_letters gcvOBJ_DUMP = ''DUMP''"
| "object_letters gcvOBJ_EVENT = ''EVNT''"
| "object_letters gcvOBJ_FUNCTION = ''FUNC''"
| "object_letters gcvOBJ_HAL = ''HAL ''"
| "object_letters gcvOBJ_HARDWARE = ''HARD''"
| "object_letters gcvOBJ_HEAP = ''HEAP''"
| "object_letters gcvOBJ_INDEX = ''INDX''"
| "object_letters gcvOBJ_INTERRUPT = ''INTR''"
| "object_letters gcvOBJ_KERNEL = ''KERN''"
| "object_letters gcvOBJ_KERNEL_FUNCTION = ''KFCN''"
| "object_letters gcvOBJ_MEMORYBUFFER = ''MEMB''"
| "object_letters gcvOBJ_MMU = ''MMU ''"
| "object_letters gcvOBJ_OS = ''OS  ''"
| "object_letters gcvOBJ_OUTPUT = ''OUTP''"
| "object_letters gcvOBJ_PAINT = ''PNT ''"
| "object_letters gcvOBJ_PATH = ''PATH''"
| "object_letters gcvOBJ_QUEUE = ''QUE ''"
| "object_letters gcvOBJ_SAMPLER = ''SAMP''"
| "object_letters gcvOBJ_SHADER = ''SHDR''"
| "object_letters gcvOBJ_STREAM = ''STRM''"
| "object_letters gcvOBJ_SURF = ''SURF''"
| "object_letters gcvOBJ_TEXTURE = ''TXTR''"
| "object_letters gcvOBJ_UNIFORM = ''UNIF''"
| "object_letters gcvOBJ_VARIABLE = ''VARI''"
| "object_letters gcvOBJ_VERTEX = ''VRTX''"
| "object_letters gcvOBJ_VIDMEM = ''VMEM''"
| "object_letters gcvOBJ_VG = ''VG  ''"
| "object_letters gcvOBJ_BUFOBJ = ''BUFO''"
| "object_letters gcvOBJ_UNIFORM_BLOCK = ''UBLK''"
| "object_letters gcvOBJ_CL = ''CL  ''"

definition all_objects :: "gceOBJECT_TYPE list" where
  "all_objects =
     [gcvOBJ_UNKNOWN, gcvOBJ_2D, gcvOBJ_3D,
      gcvOBJ_ATTRIBUTE, gcvOBJ_BRUSHCACHE, gcvOBJ_BRUSHNODE,
      gcvOBJ_BRUSH, gcvOBJ_BUFFER, gcvOBJ_COMMAND,
      gcvOBJ_COMMANDBUFFER, gcvOBJ_CONTEXT, gcvOBJ_DEVICE,
      gcvOBJ_DUMP, gcvOBJ_EVENT, gcvOBJ_FUNCTION,
      gcvOBJ_HAL, gcvOBJ_HARDWARE, gcvOBJ_HEAP,
      gcvOBJ_INDEX, gcvOBJ_INTERRUPT, gcvOBJ_KERNEL,
      gcvOBJ_KERNEL_FUNCTION, gcvOBJ_MEMORYBUFFER, gcvOBJ_MMU,
      gcvOBJ_OS, gcvOBJ_OUTPUT, gcvOBJ_PAINT,
      gcvOBJ_PATH, gcvOBJ_QUEUE, gcvOBJ_SAMPLER,
      gcvOBJ_SHADER, gcvOBJ_STREAM, gcvOBJ_SURF,
      gcvOBJ_TEXTURE, gcvOBJ_UNIFORM, gcvOBJ_VARIABLE,
      gcvOBJ_VERTEX, gcvOBJ_VIDMEM, gcvOBJ_VG,
      gcvOBJ_BUFOBJ, gcvOBJ_UNIFORM_BLOCK, gcvOBJ_CL]"

lemma object_letters_inj: "inj object_letters"
proof -
  have "distinct
     [''    '', ''2D  '', ''3D  '', ''ATTR'', ''BRU$'',
      ''BRUn'', ''BRUo'', ''BUFR'', ''CMD '', ''CMDB'',
      ''CTXT'', ''DEV '', ''DUMP'', ''EVNT'', ''FUNC'',
      ''HAL '', ''HARD'', ''HEAP'', ''INDX'', ''INTR'',
      ''KERN'', ''KFCN'', ''MEMB'', ''MMU '', ''OS  '',
      ''OUTP'', ''PNT '', ''PATH'', ''QUE '', ''SAMP'',
      ''SHDR'', ''STRM'', ''SURF'', ''TXTR'', ''UNIF'',
      ''VARI'', ''VRTX'', ''VMEM'', ''VG  '', ''BUFO'',
      ''UBLK'', ''CL  '']"
    by code_simp
  also have "\<dots> = map object_letters all_objects" by (simp add: all_objects_def)
  finally have "inj_on object_letters (set all_objects)" by (simp only: distinct_map)
  moreover have "t \<in> set all_objects" for t by (cases t) (simp_all add: all_objects_def)
  ultimately show ?thesis by (auto simp: inj_on_def)
qed

lemma printable_letters: "map gcmPRINTABLE (object_letters t) = object_letters t"
  by (cases t) (simp_all add: gcmPRINTABLE_def)

lemma object_code_prints: "gcmCC_PRINT (object_code t) = object_letters t"
proof (cases t)
  case gcvOBJ_UNKNOWN
  then show ?thesis by (simp add: gcmCC_PRINT_def gcmPRINTABLE_def)
qed (use printable_letters [of t] in \<open>simp_all add: gcmCC_PRINT_gcmCC\<close>)

lemma object_code_inj: "object_code a = object_code b \<longleftrightarrow> a = b"
proof
  assume "object_code a = object_code b"
  then have "object_letters a = object_letters b" by (simp add: object_code_prints flip: object_code_prints)
  then show "a = b" using object_letters_inj by (simp add: inj_eq)
qed simp

text \<open>C25. The object check lets exactly the objects of the expected type pass, and types are never
  confused: no two of them have the same code. An object of another type, or the null pointer,
  makes the function return \<open>gcvSTATUS_INVALID_OBJECT\<close> after it traced the letters of both types
  and failed its assertion.\<close>
theorem gc_verify_object:
  "gcmVERIFY_OBJECT prefix (Some \<lparr>obj_type = object_code a\<rparr>) (object_code b) =
     (if a = b then ([], Continue)
      else ([HalTrace (prefix @ ''VERIFY_OBJECT failed: %c%c%c%c'') (object_letters a),
             HalTrace ''  expected: %c%c%c%c'' (object_letters b),
             HalAssert False, HalFooterArg ''status=%d'' (- 2)], Return (- 2))) \<and>
   gcmVERIFY_OBJECT prefix None (object_code b) =
     ([HalTrace (prefix @ ''VERIFY_OBJECT failed: NULL'') [],
       HalTrace ''  expected: %c%c%c%c'' (object_letters b),
       HalAssert False, HalFooterArg ''status=%d'' (- 2)], Return (- 2))"
  by (simp add: gcmVERIFY_OBJECT_def object_code_inj object_code_prints)

text \<open>The three checks agree on which objects pass.\<close>

lemma gc_checks_agree:
  "snd (gcmVERIFY_OBJECT_NO_RETURN p obj t) = Continue \<longleftrightarrow> snd (gcmVERIFY_OBJECT p obj t) = Continue"
  "snd (gcmVERIFY_OBJECT_RETURN p obj t r) = Continue \<longleftrightarrow> snd (gcmVERIFY_OBJECT p obj t) = Continue"
  by (simp_all add: gcmVERIFY_OBJECT_def gcmVERIFY_OBJECT_NO_RETURN_def gcmVERIFY_OBJECT_RETURN_def split: option.split)

subsection \<open>Rotation flags and flush flags\<close>

text \<open>The two flip flags of a rotation are constants of a header that is not in the repository.\<close>

definition gcmGET_PRE_ROTATION :: "u32 \<Rightarrow> u32 \<Rightarrow> u32 \<Rightarrow> u32" where
  "gcmGET_PRE_ROTATION flip_x flip_y rot = rot AND NOT (flip_x OR flip_y)"

definition gcmGET_POST_ROTATION :: "u32 \<Rightarrow> u32 \<Rightarrow> u32 \<Rightarrow> u32" where
  "gcmGET_POST_ROTATION flip_x flip_y rot = rot AND (flip_x OR flip_y)"

lemma gc_rotation_split:
  "gcmGET_PRE_ROTATION x y r OR gcmGET_POST_ROTATION x y r = r"
  "gcmGET_PRE_ROTATION x y r AND gcmGET_POST_ROTATION x y r = 0"
  by (auto intro!: bit_word_eqI simp: gcmGET_PRE_ROTATION_def gcmGET_POST_ROTATION_def bit_simps)

datatype gceKERNEL_FLUSH =
  gcvFLUSH_COLOR | gcvFLUSH_DEPTH | gcvFLUSH_TEXTURE | gcvFLUSH_2D | gcvFLUSH_L2 | gcvFLUSH_TILE_STATUS | gcvFLUSH_ALL

text \<open>\<open>multi_gpu\<close> is the option \<open>gcdMULTI_GPU\<close>; without it there is no \<open>gcvFLUSH_L2\<close>.\<close>

primrec flush_code :: "bool \<Rightarrow> gceKERNEL_FLUSH \<Rightarrow> u32" where
  "flush_code multi_gpu gcvFLUSH_COLOR = 0x01"
| "flush_code multi_gpu gcvFLUSH_DEPTH = 0x02"
| "flush_code multi_gpu gcvFLUSH_TEXTURE = 0x04"
| "flush_code multi_gpu gcvFLUSH_2D = 0x08"
| "flush_code multi_gpu gcvFLUSH_L2 = (if multi_gpu then 0x10 else 0)"
| "flush_code multi_gpu gcvFLUSH_TILE_STATUS = 0x20"
| "flush_code multi_gpu gcvFLUSH_ALL =
     0x01 OR 0x02 OR 0x04 OR 0x08 OR (if multi_gpu then 0x10 else 0) OR 0x20"

lemma gc_flush_all:
  "gcmBITSET (flush_code m gcvFLUSH_ALL) (flush_code m f) = flush_code m f"
  by (cases f; cases m) (simp_all add: gcmBITSET_def)

end
