(* ===== verification/Gc_Enums.thy ===== *)
theory Gc_Enums
  imports CPrelude
begin

unbundle bit_operations_syntax

section \<open>Enumerations of the GPU library\<close>

text \<open>
  The remaining enumerations of \<open>include/hardware/gc_hal_types.h\<close> and
  \<open>include/hardware/gc_hal.h\<close>: the constants are constructors, and a function gives the value of
  each. The library that works with them is not in the repository; what is shown is that the
  values tell the constants apart and that the flags of a value type combine without loss.
\<close>

subsection \<open>Value types\<close>

datatype (plugins only: size) gceVALUE_TYPE =
    gcvVALUE_UINT
  | gcvVALUE_FIXED
  | gcvVALUE_FLOAT
  | gcvVALUE_INT
  | gcvVALUE_FLAG_UNSIGNED_DENORM
  | gcvVALUE_FLAG_SIGNED_DENORM
  | gcvVALUE_FLAG_GAMMAR
  | gcvVALUE_FLAG_FLOAT_TO_FLOAT16
  | gcvVALUE_FLAG_MASK

primrec value_type_code :: "gceVALUE_TYPE \<Rightarrow> u32" where
  "value_type_code gcvVALUE_UINT = 0x0"
| "value_type_code gcvVALUE_FIXED = 1"
| "value_type_code gcvVALUE_FLOAT = 2"
| "value_type_code gcvVALUE_INT = 3"
| "value_type_code gcvVALUE_FLAG_UNSIGNED_DENORM = 0x00010000"
| "value_type_code gcvVALUE_FLAG_SIGNED_DENORM = 0x00020000"
| "value_type_code gcvVALUE_FLAG_GAMMAR = 0x00040000"
| "value_type_code gcvVALUE_FLAG_FLOAT_TO_FLOAT16 = 0x0080000"
| "value_type_code gcvVALUE_FLAG_MASK = 0xFFFF0000"

definition value_flags :: "gceVALUE_TYPE list" where
  "value_flags =
     [gcvVALUE_FLAG_UNSIGNED_DENORM, gcvVALUE_FLAG_SIGNED_DENORM, gcvVALUE_FLAG_GAMMAR, gcvVALUE_FLAG_FLOAT_TO_FLOAT16]"

definition value_bases :: "gceVALUE_TYPE list" where
  "value_bases = [gcvVALUE_UINT, gcvVALUE_FIXED, gcvVALUE_FLOAT, gcvVALUE_INT]"

text \<open>A type with flags: the mask takes it apart again.\<close>

lemma gc_value_type_split:
  assumes "b \<in> set value_bases" and "set fs \<subseteq> set value_flags"
  shows "(value_type_code b OR foldr (\<lambda>f w. value_type_code f OR w) fs 0) AND NOT (value_type_code gcvVALUE_FLAG_MASK) =
      value_type_code b"
    and "(value_type_code b OR foldr (\<lambda>f w. value_type_code f OR w) fs 0) AND value_type_code gcvVALUE_FLAG_MASK =
      foldr (\<lambda>f w. value_type_code f OR w) fs 0"
proof -
  let ?m = "value_type_code gcvVALUE_FLAG_MASK" and ?f = "foldr (\<lambda>f w. value_type_code f OR w) fs 0"
  have flags: "?f AND ?m = ?f"
    using assms(2)
  proof (induction fs)
    case (Cons f fs)
    then have "value_type_code f AND ?m = value_type_code f" by (auto simp: value_flags_def)
    with Cons show ?case by (simp add: bit.conj_disj_distrib2)
  qed simp
  have base: "value_type_code b AND ?m = 0" using assms(1) by (auto simp: value_bases_def)
  from base flags show "(value_type_code b OR ?f) AND ?m = ?f" by (simp add: bit.conj_disj_distrib2)
  have "value_type_code b AND NOT ?m = value_type_code b"
    using assms(1) by (auto simp: value_bases_def)
  moreover have "?f AND NOT ?m = 0"
    by (subst flags [symmetric]) (simp add: and.assoc)
  ultimately show "(value_type_code b OR ?f) AND NOT ?m = value_type_code b"
    by (simp only: bit.conj_disj_distrib2 or.right_neutral)
qed

lemma gc_value_flags_apart:
  "f \<in> set value_flags \<Longrightarrow> g \<in> set value_flags \<Longrightarrow> f \<noteq> g \<Longrightarrow> value_type_code f AND value_type_code g = 0"
  by (auto simp: value_flags_def)

subsection \<open>Cores\<close>

datatype (plugins only: size) gceCORE =
    gcvCORE_MAJOR
  | gcvCORE_2D
  | gcvCORE_VG
  | gcvCORE_SH
  | gcvCORE_OCL

primrec core_code :: "gceCORE \<Rightarrow> int" where
  "core_code gcvCORE_MAJOR = 0x0"
| "core_code gcvCORE_2D = 0x1"
| "core_code gcvCORE_VG = 0x2"
| "core_code gcvCORE_SH = 0x2"
| "core_code gcvCORE_OCL = 0x3"

text \<open>\<open>gcvCORE_OCL\<close> is there with the option \<open>gcdMULTI_GPU_AFFINITY\<close>, which also sets the number
  of cores.\<close>

definition gcdMAX_GPU_COUNT :: "bool \<Rightarrow> int" where
  "gcdMAX_GPU_COUNT multi_gpu_affinity = (if multi_gpu_affinity then 4 else 3)"

text \<open>The core constants stay below the number of cores; two of them are the same.\<close>

lemma gc_core_in_range:
  assumes "c = gcvCORE_OCL \<longrightarrow> affinity"
  shows "0 \<le> core_code c \<and> core_code c < gcdMAX_GPU_COUNT affinity"
  using assms by (cases c) (simp_all add: gcdMAX_GPU_COUNT_def)

lemma gc_core_codes:
  "core_code c = core_code d \<longleftrightarrow> c = d \<or> {c, d} = {gcvCORE_VG, gcvCORE_SH}"
  by (cases c; cases d) (simp_all add: doubleton_eq_iff)

subsection \<open>Events and modes\<close>

datatype (plugins only: size) gceBROADCAST =
    gcvBROADCAST_GPU_IDLE
  | gcvBROADCAST_GPU_COMMIT
  | gcvBROADCAST_GPU_STUCK
  | gcvBROADCAST_FIRST_PROCESS
  | gcvBROADCAST_LAST_PROCESS
  | gcvBROADCAST_IDLE_PROFILE
  | gcvBROADCAST_AXI_BUS_ERROR
  | gcvBROADCAST_OUT_OF_MEMORY

primrec broadcast_code :: "gceBROADCAST \<Rightarrow> int" where
  "broadcast_code gcvBROADCAST_GPU_IDLE = 0"
| "broadcast_code gcvBROADCAST_GPU_COMMIT = 1"
| "broadcast_code gcvBROADCAST_GPU_STUCK = 2"
| "broadcast_code gcvBROADCAST_FIRST_PROCESS = 3"
| "broadcast_code gcvBROADCAST_LAST_PROCESS = 4"
| "broadcast_code gcvBROADCAST_IDLE_PROFILE = 5"
| "broadcast_code gcvBROADCAST_AXI_BUS_ERROR = 6"
| "broadcast_code gcvBROADCAST_OUT_OF_MEMORY = 7"

datatype (plugins only: size) gceGPUFreqEvent =
    GPUFREQ_GPU_EVENT_INIT
  | GPUFREQ_GPU_EVENT_DESTORY
  | GPUFREQ_GPU_EVENT_POWER_ON
  | GPUFREQ_GPU_EVENT_POWER_OFF

primrec gpufreq_event_code :: "gceGPUFreqEvent \<Rightarrow> int" where
  "gpufreq_event_code GPUFREQ_GPU_EVENT_INIT = 0x0"
| "gpufreq_event_code GPUFREQ_GPU_EVENT_DESTORY = 0x1"
| "gpufreq_event_code GPUFREQ_GPU_EVENT_POWER_ON = 0x2"
| "gpufreq_event_code GPUFREQ_GPU_EVENT_POWER_OFF = 0x3"

datatype (plugins only: size) gceNOTIFY =
    gcvNOTIFY_INTERRUPT
  | gcvNOTIFY_COMMAND_QUEUE

primrec notify_code :: "gceNOTIFY \<Rightarrow> int" where
  "notify_code gcvNOTIFY_INTERRUPT = 0"
| "notify_code gcvNOTIFY_COMMAND_QUEUE = 1"

datatype (plugins only: size) gcePulseEaterDomain =
    gcvPulse_Core
  | gcvPulse_Shader
  | gcvPulse_Invali

primrec pulse_domain_code :: "gcePulseEaterDomain \<Rightarrow> int" where
  "pulse_domain_code gcvPulse_Core = 0"
| "pulse_domain_code gcvPulse_Shader = 1"
| "pulse_domain_code gcvPulse_Invali = - 1"

datatype (plugins only: size) gceTRACEMODE =
    gcvTRACEMODE_NONE
  | gcvTRACEMODE_FULL
  | gcvTRACEMODE_LOGGER
  | gcvTRACEMODE_PRE
  | gcvTRACEMODE_POST
  | gcvTRACEMODE_SYSTRACE

primrec tracemode_code :: "gceTRACEMODE \<Rightarrow> int" where
  "tracemode_code gcvTRACEMODE_NONE = 0"
| "tracemode_code gcvTRACEMODE_FULL = 1"
| "tracemode_code gcvTRACEMODE_LOGGER = 2"
| "tracemode_code gcvTRACEMODE_PRE = 3"
| "tracemode_code gcvTRACEMODE_POST = 4"
| "tracemode_code gcvTRACEMODE_SYSTRACE = 5"

lemma broadcast_code_eq [simp]: "broadcast_code a = broadcast_code b \<longleftrightarrow> a = b"
  by (cases a; cases b) simp_all

lemma gpufreq_event_code_eq [simp]: "gpufreq_event_code a = gpufreq_event_code b \<longleftrightarrow> a = b"
  by (cases a; cases b) simp_all

lemma notify_code_eq [simp]: "notify_code a = notify_code b \<longleftrightarrow> a = b"
  by (cases a; cases b) simp_all

lemma pulse_domain_code_eq [simp]: "pulse_domain_code a = pulse_domain_code b \<longleftrightarrow> a = b"
  by (cases a; cases b) simp_all

lemma tracemode_code_eq [simp]: "tracemode_code a = tracemode_code b \<longleftrightarrow> a = b"
  by (cases a; cases b) simp_all

end
