(* ===== verification/Gc_Vg.thy ===== *)
theory Gc_Vg
  imports Gc_Fields Gc_Arith Gc_Status
begin

unbundle bit_operations_syntax

section \<open>Vector graphics macros\<close>

text \<open>
  The macros of \<open>include/hardware/gc_hal_vg.h\<close> that do not work on floats, and the one that looks
  at the bits of a float.
\<close>

subsection \<open>The macros\<close>

definition gcmALIGNDOWN :: "u32 \<Rightarrow> u32 \<Rightarrow> u32" where
  "gcmALIGNDOWN n align = n AND NOT (align - 1)"

text \<open>The index is cast to an unsigned number; \<open>n\<close> is the number of elements of the array.\<close>

definition gcmIS_VALID_INDEX :: "int \<Rightarrow> u32 \<Rightarrow> bool" where
  "gcmIS_VALID_INDEX index n \<longleftrightarrow> (of_int index :: u32) < n"

text \<open>The argument is the word that the float is stored in.\<close>

definition gcmIS_NAN :: "u32 \<Rightarrow> bool" where
  "gcmIS_NAN x \<longleftrightarrow> x AND 0x7FFFFFFF = 0x7FFFFFFF"

text \<open>The difference is an \<open>int\<close>: the result is \<open>None\<close> where it or its negation overflows.\<close>

definition gcmINTERSECT :: "int \<Rightarrow> int \<Rightarrow> int \<Rightarrow> bool option" where
  "gcmINTERSECT start1 start2 len =
     (let d = start1 - start2
      in if d < - (2 ^ 31) \<or> d \<ge> 2 ^ 31 then None
         else (case gcmABS d of None \<Rightarrow> None | Some a \<Rightarrow> Some (a < len)))"

definition gcmFIELDMAX :: "reg_field \<Rightarrow> u32" where
  "gcmFIELDMAX field =
     (if gcm_GETSIZE field = 32 then NOT 0 else NOT (push_bit (gcm_GETSIZE field) (NOT 0)))"

text \<open>What \<open>gcmVERIFYFIELDFIT\<close> asserts.\<close>

definition gcmVERIFYFIELDFIT :: "reg_field \<Rightarrow> u32 \<Rightarrow> hal_action" where
  "gcmVERIFYFIELDFIT field value = HalAssert (value \<le> gcmFIELDMAX field)"

definition gcvMAX_POS_INT :: int where "gcvMAX_POS_INT = signed_take_bit 31 0x7FFFFFFF"
definition gcvMAX_NEG_INT :: int where "gcvMAX_NEG_INT = signed_take_bit 31 0x80000000"

definition gcmKB2BYTES :: "u32 \<Rightarrow> u32" where
  "gcmKB2BYTES kilobyte = push_bit 10 kilobyte"

definition gcmMB2BYTES :: "u32 \<Rightarrow> u32" where
  "gcmMB2BYTES megabyte = push_bit 20 megabyte"

text \<open>A matrix is an array of rows of three; an access outside the array is \<open>None\<close>.\<close>

definition gcmMAT :: "'a list \<Rightarrow> nat \<Rightarrow> nat \<Rightarrow> 'a option" where
  "gcmMAT matrix row column =
     (if row * 3 + column < length matrix then Some (matrix ! (row * 3 + column)) else None)"

definition gcmMAKE2CHAR :: "u8 \<Rightarrow> u8 \<Rightarrow> u16" where
  "gcmMAKE2CHAR char1 char2 = push_bit 0 (ucast char1) OR push_bit 8 (ucast char2)"

definition gcmMAKE4CHAR :: "u8 \<Rightarrow> u8 \<Rightarrow> u8 \<Rightarrow> u8 \<Rightarrow> u32" where
  "gcmMAKE4CHAR char1 char2 char3 char4 =
     push_bit 0 (ucast char1) OR push_bit 8 (ucast char2) OR
     push_bit 16 (ucast char3) OR push_bit 24 (ucast char4)"

subsection \<open>What they compute\<close>

lemma gcmALIGNDOWN_is_base: "gcmALIGNDOWN = gcmALIGN_BASE"
  by (intro ext) (simp add: gcmALIGNDOWN_def gcmALIGN_BASE_def)

lemma gc_int_limits: "gcvMAX_POS_INT = 2 ^ 31 - 1" "gcvMAX_NEG_INT = - (2 ^ 31)"
  by (simp_all add: gcvMAX_POS_INT_def gcvMAX_NEG_INT_def signed_take_bit_eq_if_positive
      signed_take_bit_eq_if_negative bit_iff_odd take_bit_eq_mod mask_eq_exp_minus_1)

text \<open>A negative index is never valid, as long as the array has at most \<open>2\<^sup>3\<^sup>1\<close> elements.\<close>

lemma gc_valid_index:
  assumes "- (2 ^ 31) \<le> index" and "index < 2 ^ 31" and "n \<le> 2 ^ 31"
  shows "gcmIS_VALID_INDEX index n \<longleftrightarrow> 0 \<le> index \<and> index < uint n"
proof (cases "0 \<le> index")
  case True
  with assms(2) have "uint (of_int index :: u32) = index"
    by (simp add: uint_word_of_int take_bit_eq_mod)
  with True show ?thesis by (simp add: gcmIS_VALID_INDEX_def word_less_def)
next
  case False
  have "index mod 2 ^ 32 = index + 2 ^ 32"
    using False assms(1) mod_add_self2 [of index "2 ^ 32"] mod_pos_pos_trivial [of "index + 2 ^ 32" "2 ^ 32"]
    by simp
  then have "uint (of_int index :: u32) = index + 2 ^ 32"
    by (simp add: uint_word_of_int take_bit_eq_mod)
  moreover have "uint n \<le> 2 ^ 31" using assms(3) by (simp add: word_le_def)
  ultimately show ?thesis using False assms(1) by (simp add: gcmIS_VALID_INDEX_def word_less_def)
qed

text \<open>Two ranges of the same length meet exactly when the macro says so.\<close>

lemma gc_intersect:
  assumes "\<bar>start1 - start2\<bar> < 2 ^ 31" and "0 < len"
  shows "gcmINTERSECT start1 start2 len =
    Some ({start1..<start1 + len} \<inter> {start2..<start2 + len} \<noteq> {})"
proof -
  have d: "- (2 ^ 31) < start1 - start2" "start1 - start2 < 2 ^ 31" using assms(1) by linarith+
  have "\<bar>start1 - start2\<bar> < len \<longleftrightarrow> max start1 start2 \<in> {start1..<start1 + len} \<inter> {start2..<start2 + len}"
    using assms(2) by auto
  also have "\<dots> \<longleftrightarrow> {start1..<start1 + len} \<inter> {start2..<start2 + len} \<noteq> {}" by auto
  finally show ?thesis using d gc_abs_neg(2) [of "start1 - start2"] by (simp add: gcmINTERSECT_def Let_def)
qed

text \<open>A value fits in a field exactly when setting the field and reading it gives the value.\<close>

lemma gc_field_fit:
  assumes "field_ok f"
  shows "gcmVERIFYFIELDFIT f v = HalAssert (gcmGETFIELD (gcmSETFIELD d f v) f = v)"
proof -
  let ?n = "fst f - snd f + 1"
  have m: "gcm_MASK f = mask ?n"
    using assms by (intro bit_word_eqI) (auto simp: bit_gcm_MASK bit_mask_iff field_ok_def)
  have x: "gcmFIELDMAX f = gcm_MASK f" by (simp add: gcmFIELDMAX_def gcm_MASK_def)
  have "v \<le> mask ?n \<longleftrightarrow> v AND mask ?n = v"
  proof
    assume "v AND mask ?n = v"
    then show "v \<le> mask ?n" by (metis word_and_le1)
  next
    assume le: "v \<le> mask ?n"
    show "v AND mask ?n = v"
    proof (cases "?n < 32")
      case True
      from le have "unat v \<le> 2 ^ ?n - 1" using unat_mask [OF True] by (simp only: word_le_nat_alt)
      then have "unat v < 2 ^ ?n" using zero_less_power [of "2::nat" ?n] by linarith
      then have "unat (take_bit ?n v) = unat v" by (simp only: unat_take_bit mod_less)
      then show ?thesis by (simp only: take_bit_eq_mask word_unat_eq_iff)
    next
      case False
      then show ?thesis by (intro bit_word_eqI) (simp add: bit_simps)
    qed
  qed
  then show ?thesis by (simp add: gcmVERIFYFIELDFIT_def x m get_set_same [OF assms])
qed

text \<open>
  The NaN test accepts only the two words whose fraction is all ones. A float is a NaN when its
  exponent is all ones and its fraction is not zero: the quiet NaN that arithmetic produces is
  one, and the test denies it.
\<close>

definition float_is_nan :: "u32 \<Rightarrow> bool" where
  "float_is_nan x \<longleftrightarrow> drop_bit 23 x AND 0xFF = 0xFF \<and> x AND 0x7FFFFF \<noteq> 0"

lemma gc_nan_sound: "gcmIS_NAN 0x7FFFFFFF \<and> float_is_nan 0x7FFFFFFF"
  by (simp add: gcmIS_NAN_def float_is_nan_def)

theorem gc_nan_missed: "float_is_nan 0x7FC00000 \<and> \<not> gcmIS_NAN 0x7FC00000"
  by (simp add: gcmIS_NAN_def float_is_nan_def)

text \<open>The two ways to make a number of four characters are the same, byte by byte.\<close>

lemma gc_make4char_bytes:
  "ucast (gcmMAKE4CHAR a b c d) = a" "ucast (drop_bit 8 (gcmMAKE4CHAR a b c d)) = b"
  "ucast (drop_bit 16 (gcmMAKE4CHAR a b c d)) = c" "ucast (drop_bit 24 (gcmMAKE4CHAR a b c d)) = d"
  unfolding gcmMAKE4CHAR_def
  by (rule bit_word_eqI,
      simp only: bit_or_iff bit_push_bit_iff bit_drop_bit_eq comp_apply bit_ucast_iff,
      auto dest: bit_imp_le_length)+

end
