(* ===== verification/C_Float.thy ===== *)
theory C_Float
  imports CPrelude
begin

section \<open>Floats of C\<close>

text \<open>
  \<open>float\<close> is the binary32 format of IEEE 754: a word with a sign, eight bits of exponent and 23 of
  fraction. Every finite float is an integer number of units of \<open>2 ^ - 149\<close>, the least positive
  one, so that values are integers here. An operation computes the exact value and rounds it to the
  nearest float, to the even one of two that are equally near. Infinity is the next number after
  the greatest float, \<open>2 ^ 277\<close> units.
\<close>

type_synonym f32 = u32

subsection \<open>Bits and values\<close>

definition f32_neg :: "f32 \<Rightarrow> bool" where
  "f32_neg x \<longleftrightarrow> 2 ^ 31 \<le> unat x"

text \<open>The word without its sign.\<close>

definition f32_abs_bits :: "f32 \<Rightarrow> nat" where
  "f32_abs_bits x = unat x mod 2 ^ 31"

definition mag :: "nat \<Rightarrow> nat" where
  "mag b = (if b < 2 ^ 23 then b else (2 ^ 23 + b mod 2 ^ 23) * 2 ^ (b div 2 ^ 23 - 1))"

abbreviation inf_bits :: nat where
  "inf_bits \<equiv> 0x7F800000"

definition f32_nan :: "f32 \<Rightarrow> bool" where
  "f32_nan x \<longleftrightarrow> inf_bits < f32_abs_bits x"

definition f32_finite :: "f32 \<Rightarrow> bool" where
  "f32_finite x \<longleftrightarrow> f32_abs_bits x < inf_bits"

definition units :: "f32 \<Rightarrow> int" where
  "units x = (if f32_neg x then - int (mag (f32_abs_bits x)) else int (mag (f32_abs_bits x)))"

definition f32_make :: "bool \<Rightarrow> nat \<Rightarrow> f32" where
  "f32_make neg b = of_nat (if neg then 2 ^ 31 + b else b)"

abbreviation f32_one :: f32 where "f32_one \<equiv> 0x3F800000"
abbreviation f32_minus_one :: f32 where "f32_minus_one \<equiv> 0xBF800000"

text \<open>The NaN that an operation makes.\<close>

abbreviation f32_default_nan :: f32 where "f32_default_nan \<equiv> 0x7FC00000"

subsection \<open>Rounding\<close>

fun bitlen :: "nat \<Rightarrow> nat" where
  "bitlen n = (if n = 0 then 0 else Suc (bitlen (n div 2)))"

declare bitlen.simps [simp del]

definition half_even :: "nat \<Rightarrow> nat \<Rightarrow> nat" where
  "half_even n s =
     (let q = n div 2 ^ s; r = n mod 2 ^ s
      in if 2 ^ s < 2 * r \<or> 2 ^ s = 2 * r \<and> odd q then q + 1 else q)"

text \<open>
  The float nearest to \<open>n\<close> units of \<open>2 ^ - (149 + k)\<close>. A fraction that rounds up to the next power of
  two carries into the exponent, as it should.
\<close>

definition round_bits :: "nat \<Rightarrow> nat \<Rightarrow> nat" where
  "round_bits n k =
     (let s = max k (bitlen n - 24) in min inf_bits ((s - k) * 2 ^ 23 + half_even n s))"

definition f32_round :: "bool \<Rightarrow> nat \<Rightarrow> nat \<Rightarrow> f32" where
  "f32_round neg n k = f32_make neg (round_bits n k)"

subsection \<open>Operations\<close>

definition f32_minus :: "f32 \<Rightarrow> f32" where
  "f32_minus x = f32_make (\<not> f32_neg x) (f32_abs_bits x)"

definition f32_add :: "f32 \<Rightarrow> f32 \<Rightarrow> f32" where
  "f32_add x y =
     (if f32_nan x \<or> f32_nan y then f32_default_nan
      else if \<not> f32_finite x then
        (if \<not> f32_finite y \<and> f32_neg x \<noteq> f32_neg y then f32_default_nan else x)
      else if \<not> f32_finite y then y
      else (let z = units x + units y
            in if z = 0 then f32_make (f32_neg x \<and> f32_neg y) 0
               else f32_round (z < 0) (nat \<bar>z\<bar>) 0))"

definition f32_sub :: "f32 \<Rightarrow> f32 \<Rightarrow> f32" where
  "f32_sub x y = f32_add x (f32_minus y)"

definition f32_mul :: "f32 \<Rightarrow> f32 \<Rightarrow> f32" where
  "f32_mul x y =
     (let neg = (f32_neg x \<noteq> f32_neg y)
      in if f32_nan x \<or> f32_nan y then f32_default_nan
         else if \<not> f32_finite x \<or> \<not> f32_finite y then
           (if units x = 0 \<or> units y = 0 then f32_default_nan else f32_make neg inf_bits)
         else f32_round neg (mag (f32_abs_bits x) * mag (f32_abs_bits y)) 149)"

definition f32_less :: "f32 \<Rightarrow> f32 \<Rightarrow> bool" where
  "f32_less x y \<longleftrightarrow> \<not> f32_nan x \<and> \<not> f32_nan y \<and> units x < units y"

definition f32_eq :: "f32 \<Rightarrow> f32 \<Rightarrow> bool" where
  "f32_eq x y \<longleftrightarrow> \<not> f32_nan x \<and> \<not> f32_nan y \<and> units x = units y"

text \<open>
  The conversions to and from \<open>unsigned int\<close>; the one from a float drops the fraction and is
  undefined when what is left does not fit.
\<close>

definition f32_to_u32 :: "f32 \<Rightarrow> u32 option" where
  "f32_to_u32 x =
     (if f32_finite x \<and> - (2 ^ 149) < units x \<and> units x < 2 ^ 181
      then Some (of_nat (if f32_neg x then 0 else mag (f32_abs_bits x) div 2 ^ 149)) else None)"

definition u32_to_f32 :: "u32 \<Rightarrow> f32" where
  "u32_to_f32 n = f32_round False (unat n * 2 ^ 149) 0"

subsection \<open>Bits\<close>

lemma make_bits [simp]:
  assumes "b < 2 ^ 31"
  shows "f32_neg (f32_make neg b) = neg" "f32_abs_bits (f32_make neg b) = b"
proof -
  from assms have "unat (f32_make neg b) = (if neg then 2 ^ 31 + b else b)"
    by (simp add: f32_make_def unat_of_nat)
  with assms show "f32_neg (f32_make neg b) = neg" "f32_abs_bits (f32_make neg b) = b"
    by (simp_all add: f32_neg_def f32_abs_bits_def)
qed

lemma units_make [simp]:
  "b < 2 ^ 31 \<Longrightarrow> units (f32_make neg b) = (if neg then - int (mag b) else int (mag b))"
  by (simp add: units_def)

lemma abs_bits_less [simp]: "f32_abs_bits x < 2 ^ 31"
  by (simp add: f32_abs_bits_def)

lemma make_of_bits [simp]: "f32_make (f32_neg x) (f32_abs_bits x) = x"
proof -
  have "unat x < 2 ^ 32" using unsigned_less [of x] by simp
  then have "unat x mod 2 ^ 31 = (if 2 ^ 31 \<le> unat x then unat x - 2 ^ 31 else unat x)"
    by (auto simp: mod_if [of "unat x"])
  then have "(if f32_neg x then 2 ^ 31 + f32_abs_bits x else f32_abs_bits x) = unat x"
    by (simp add: f32_neg_def f32_abs_bits_def)
  then show ?thesis by (simp add: f32_make_def)
qed

subsection \<open>Every float is an integer of 24 bits, shifted\<close>

definition shifted :: "nat \<Rightarrow> nat \<Rightarrow> bool" where
  "shifted q e \<longleftrightarrow> q \<le> 2 ^ 24 \<and> (e = 0 \<or> 2 ^ 23 \<le> q)"

lemma mag_shifted:
  assumes "shifted q e"
  shows "mag (e * 2 ^ 23 + q) = q * 2 ^ e"
proof -
  consider "e = 0" "q < 2 ^ 23" | "2 ^ 23 \<le> q" "q < 2 ^ 24" | "q = 2 ^ 24"
    using assms unfolding shifted_def by linarith
  then show ?thesis
  proof cases
    case 1
    then show ?thesis by (simp add: mag_def)
  next
    case 2
    have "q = 2 ^ 23 + (q - 2 ^ 23)" "q - 2 ^ 23 < 2 ^ 23" using 2 by auto
    then obtain f where "q = 2 ^ 23 + f" "f < 2 ^ 23" by blast
    then show ?thesis by (simp add: mag_def)
  next
    case 3
    then show ?thesis by (simp add: mag_def)
  qed
qed

lemma float_shifted:
  obtains e q where "shifted q e" "b = e * 2 ^ 23 + q" "q < 2 ^ 24" "mag b = q * 2 ^ e"
proof
  let ?e = "b div 2 ^ 23 - 1" and ?q = "if b < 2 ^ 23 then b else 2 ^ 23 + b mod 2 ^ 23"
  have "b mod 2 ^ 23 < 2 ^ 23" by simp
  then show sh: "shifted ?q ?e" and "?q < 2 ^ 24" unfolding shifted_def by auto
  show b: "b = ?e * 2 ^ 23 + ?q"
  proof (cases "b div 2 ^ 23")
    case (Suc n)
    with div_mult_mod_eq [of b "2 ^ 23"] have "b = Suc n * 2 ^ 23 + b mod 2 ^ 23" by (simp only:)
    with Suc show ?thesis by auto
  next
    case 0
    then have "b < 2 ^ 23" by (simp add: div_eq_0_iff)
    with 0 show ?thesis by simp
  qed
  show "mag b = ?q * 2 ^ ?e" using mag_shifted [OF sh] b by simp
qed

lemma mag_less: "b < c \<Longrightarrow> mag b < mag c"
proof -
  assume less: "b < c"
  obtain e q where b: "shifted q e" "b = e * 2 ^ 23 + q" "q < 2 ^ 24" "mag b = q * 2 ^ e" by (rule float_shifted)
  obtain d p where c: "shifted p d" "c = d * 2 ^ 23 + p" "p < 2 ^ 24" "mag c = p * 2 ^ d" by (rule float_shifted)
  consider "e = d" | "e < d" | "d < e" by linarith
  then show ?thesis
  proof cases
    case 1
    with b c less show ?thesis by simp
  next
    case 2
    then obtain k where d: "d = Suc (e + k)" using less_imp_Suc_add by blast
    with c(1) have p: "2 ^ 23 \<le> p" by (simp add: shifted_def)
    have "q * 2 ^ e < 2 ^ 24 * 2 ^ e" using b(3) by simp
    also have "\<dots> \<le> 2 ^ 24 * 2 ^ e * 2 ^ k" by simp
    also have "\<dots> = 2 ^ 23 * 2 ^ d" by (simp add: d power_add)
    also have "\<dots> \<le> p * 2 ^ d" using p by simp
    finally show ?thesis using b(4) c(4) by simp
  next
    case 3
    with b(1) have "2 ^ 23 \<le> q" by (auto simp: shifted_def)
    moreover from 3 have "(d + 1) * 2 ^ 23 \<le> e * 2 ^ 23" by (intro mult_le_mono1) simp
    ultimately have "c < b" using b(2) c(2,3) by simp
    with less show ?thesis by simp
  qed
qed

lemma mag_eq_iff: "mag b = mag c \<longleftrightarrow> b = c"
  using mag_less [of b c] mag_less [of c b] by (cases b c rule: linorder_cases) auto

lemma mag_less_iff: "mag b < mag c \<longleftrightarrow> b < c"
  using mag_less [of b c] mag_less [of c b] mag_eq_iff [of b c] by (cases b c rule: linorder_cases) auto

lemma mag_0 [simp]: "mag 0 = 0"
  by (simp add: mag_def)

lemma mag_inf: "mag inf_bits = 2 ^ 277"
  by (simp add: mag_def)

lemma mag_one: "mag 0x3F800000 = 2 ^ 149"
  by (simp add: mag_def)

subsection \<open>Rounding\<close>

lemma bitlen_0 [simp]: "bitlen 0 = 0"
  by (simp add: bitlen.simps)

lemma bitlen_le: "bitlen n \<le> k \<longleftrightarrow> n < 2 ^ k"
proof (induction n arbitrary: k rule: bitlen.induct)
  case (1 n)
  show ?case
  proof (cases "n = 0")
    case False
    have "n div 2 < 2 ^ j \<longleftrightarrow> n < 2 ^ Suc j" for j by (simp add: less_mult_imp_div_less div_less_iff_less_mult mult.commute)
    with 1 [OF False] False show ?thesis by (cases k) (simp_all add: bitlen.simps [of n])
  qed simp
qed

lemma bitlen_eq: "2 ^ k \<le> n \<Longrightarrow> n < 2 ^ Suc k \<Longrightarrow> bitlen n = Suc k"
  using bitlen_le [of n k] bitlen_le [of n "Suc k"] by linarith

lemma half_even_exact [simp]: "half_even (q * 2 ^ s) s = q"
  by (simp add: half_even_def Let_def)

text \<open>What has a float of its own is rounded to it.\<close>

lemma round_exact:
  assumes "shifted q e" "q < 2 ^ 24"
  shows "round_bits (q * 2 ^ e * 2 ^ k) k = min inf_bits (e * 2 ^ 23 + q)"
proof (cases "e = 0")
  case True
  have "q * 2 ^ k < 2 ^ 24 * 2 ^ k" using assms(2) by simp
  then have "bitlen (q * 2 ^ k) \<le> 24 + k" by (simp only: bitlen_le power_add)
  then have "max k (bitlen (q * 2 ^ k) - 24) = k" by simp
  with True show ?thesis by (simp add: round_bits_def)
next
  case False
  let ?n = "q * 2 ^ (e + k)"
  from False assms have q: "2 ^ 23 \<le> q" "q < 2 ^ 24" by (auto simp: shifted_def)
  have "2 ^ (23 + (e + k)) \<le> ?n" "?n < 2 ^ (24 + (e + k))"
    unfolding power_add [of 2 23] power_add [of 2 24] using q by simp_all
  then have "bitlen ?n = 24 + (e + k)" using bitlen_eq [of "23 + (e + k)" ?n] by simp
  then have "max k (bitlen ?n - 24) = e + k" by simp
  then have "round_bits ?n k = min inf_bits (e * 2 ^ 23 + q)" by (simp add: round_bits_def Let_def)
  then show ?thesis by (simp add: power_add mult.assoc)
qed

lemma round_mag: "round_bits (mag b * 2 ^ k) k = min inf_bits b"
proof -
  obtain e q where "shifted q e" "b = e * 2 ^ 23 + q" "q < 2 ^ 24" "mag b = q * 2 ^ e" by (rule float_shifted)
  with round_exact [of q e k] show ?thesis by simp
qed

lemma round_bits_less [simp]: "round_bits n k < 2 ^ 31"
  by (simp add: round_bits_def Let_def)

lemma round_fields [simp]:
  "f32_neg (f32_round neg n k) = neg" "f32_abs_bits (f32_round neg n k) = round_bits n k"
  "units (f32_round neg n k) = (if neg then - int (mag (round_bits n k)) else int (mag (round_bits n k)))"
  unfolding f32_round_def by (rule make_bits units_make, rule round_bits_less)+

lemma round_mag_0: "round_bits (mag b) 0 = min inf_bits b"
  using round_mag [of b 0] by simp

text \<open>The rounded quotient is the nearest one.\<close>

lemma multiple_distance:
  fixes h q r j :: int
  assumes "0 \<le> r" "r < h"
  shows "min r (h - r) \<le> \<bar>j * h - (q * h + r)\<bar>"
proof -
  have e: "j * h - (q * h + r) = (j - q) * h - r" by (simp add: left_diff_distrib)
  show ?thesis
  proof (cases "j \<le> q")
    case True
    then have "(j - q) * h \<le> 0" using assms by (simp add: mult_nonpos_nonneg)
    with assms e show ?thesis by linarith
  next
    case False
    then have "1 * h \<le> (j - q) * h" using assms by (intro mult_right_mono) linarith+
    with assms e show ?thesis by linarith
  qed
qed

lemma half_even_near:
  "\<bar>int (half_even n s) * 2 ^ s - int n\<bar> \<le> \<bar>j * 2 ^ s - int n\<bar>"
proof -
  define q r h where "q = n div 2 ^ s" and "r = n mod 2 ^ s" and "h = (2 ^ s :: nat)"
  have n: "n = q * h + r" unfolding q_def r_def h_def by (simp only: div_mult_mod_eq)
  have r: "r < h" by (simp add: r_def h_def)
  have near: "min (int r) (int h - int r) \<le> \<bar>j * int h - int n\<bar>"
    using multiple_distance [of "int r" "int h" j "int q"] r n by simp
  have up: "half_even n s = (if h < 2 * r \<or> h = 2 * r \<and> odd q then q + 1 else q)"
    by (simp add: half_even_def Let_def q_def r_def h_def)
  have "\<bar>int (half_even n s) * int h - int n\<bar> \<le> min (int r) (int h - int r)"
  proof (cases "h < 2 * r \<or> h = 2 * r \<and> odd q")
    case True
    then have "int (half_even n s) * int h - int n = int h - int r" using up n by (simp add: distrib_right)
    with True r show ?thesis by linarith
  next
    case False
    then have "int (half_even n s) * int h - int n = - int r" "2 * r \<le> h" using up n by auto
    with r show ?thesis by linarith
  qed
  from order_trans [OF this near] show ?thesis by (simp add: h_def)
qed

lemma half_even_bound:
  assumes "bitlen n \<le> s + 24"
  shows "half_even n s \<le> 2 ^ 24"
proof -
  have "n < 2 ^ (s + 24)" using assms by (simp only: bitlen_le)
  then have "n div 2 ^ s < 2 ^ 24" by (simp add: div_less_iff_less_mult power_add mult.commute)
  then show ?thesis by (auto simp: half_even_def Let_def)
qed

text \<open>
  No float is nearer to \<open>n\<close> units of \<open>2 ^ - (149 + k)\<close> than the one that rounding gives, as long as
  this is below infinity.
\<close>

lemma round_nearest:
  assumes "n < 2 ^ (277 + k)"
  shows "\<bar>int (mag (round_bits n k)) * 2 ^ k - int n\<bar> \<le> \<bar>int (mag b) * 2 ^ k - int n\<bar>"
proof -
  define s where "s = max k (bitlen n - 24)"
  then have s: "k \<le> s" "bitlen n \<le> s + 24" by auto
  have len: "bitlen n \<le> 277 + k" using assms by (simp only: bitlen_le)
  let ?q = "half_even n s"
  have big: "2 ^ (23 + s) \<le> n" if "k < s"
  proof -
    from that have "\<not> bitlen n \<le> 23 + s" by (auto simp: s_def)
    then show ?thesis unfolding bitlen_le by (simp only: not_less)
  qed
  have q: "?q \<le> 2 ^ 24" using s(2) by (rule half_even_bound)
  have "2 ^ 23 \<le> ?q" if "k < s"
  proof -
    have "2 ^ 23 * 2 ^ s \<le> n" using big [OF that] by (simp add: power_add)
    then have "2 ^ 23 \<le> n div 2 ^ s" by (simp add: less_eq_div_iff_mult_less_eq)
    then show ?thesis by (auto simp: half_even_def Let_def)
  qed
  with q s have sh: "shifted ?q (s - k)" unfolding shifted_def by (cases "k < s") auto
  have "s - k \<le> 253" using len by (auto simp: s_def)
  then have "(s - k) * 2 ^ 23 \<le> 253 * 2 ^ 23" by (intro mult_le_mono1)
  with q have "(s - k) * 2 ^ 23 + ?q \<le> inf_bits" by simp
  then have "round_bits n k = (s - k) * 2 ^ 23 + ?q" by (simp add: round_bits_def Let_def flip: s_def)
  then have res: "int (mag (round_bits n k)) * 2 ^ k = int ?q * 2 ^ s"
    using mag_shifted [OF sh] s(1) by (simp add: mult.assoc flip: power_add)
  obtain e p where b: "p < 2 ^ 24" "mag b = p * 2 ^ e" by (rule float_shifted [of b])
  show ?thesis
  proof (cases "s \<le> e + k")
    case True
    then have "int (mag b) * 2 ^ k = (int p * 2 ^ (e + k - s)) * 2 ^ s"
      using b(2) by (simp add: mult.assoc flip: power_add)
    then show ?thesis unfolding res using half_even_near by metis
  next
    case False
    then have "k < s" "e + k \<le> s - 1" by auto
    have "mag b * 2 ^ k \<le> 2 ^ 24 * 2 ^ (e + k)" using b by (simp add: power_add mult.assoc)
    also have "\<dots> \<le> 2 ^ 24 * 2 ^ (s - 1)" using \<open>e + k \<le> s - 1\<close> by simp
    also have "\<dots> = 2 ^ (23 + s)" using \<open>k < s\<close> by (cases s) (simp_all add: power_add)
    finally have le: "mag b * 2 ^ k \<le> 2 ^ (23 + s)" .
    have "\<bar>int ?q * 2 ^ s - int n\<bar> \<le> \<bar>2 ^ 23 * 2 ^ s - int n\<bar>" by (rule half_even_near)
    also have "2 ^ 23 * 2 ^ s = int (2 ^ (23 + s))" by (simp add: power_add)
    also have "\<bar>int (2 ^ (23 + s)) - int n\<bar> \<le> \<bar>int (mag b * 2 ^ k) - int n\<bar>"
      using le big [OF \<open>k < s\<close>] by linarith
    also have "int (mag b * 2 ^ k) = int (mag b) * 2 ^ k" by simp
    finally show ?thesis unfolding res .
  qed
qed

subsection \<open>Exact results\<close>

lemma mag_less_inf: "mag b < 2 ^ 277 \<longleftrightarrow> b < inf_bits"
  using mag_less_iff [of b inf_bits] by (simp only: mag_inf)

lemma shifted_is_mag: "t < 2 ^ 24 \<Longrightarrow> \<exists>c. mag c = t * 2 ^ j"
proof (induction j arbitrary: t)
  case 0
  then have "shifted t 0" by (simp add: shifted_def)
  from mag_shifted [OF this] show ?case by auto
next
  case (Suc j)
  show ?case
  proof (cases "2 ^ 23 \<le> t")
    case True
    with Suc.prems have "shifted t (Suc j)" by (simp add: shifted_def)
    from mag_shifted [OF this] show ?thesis by blast
  next
    case False
    with Suc.IH [of "2 * t"] show ?thesis by (simp add: ac_simps)
  qed
qed

lemma round_make: "mag c < 2 ^ 277 \<Longrightarrow> f32_round neg (mag c) 0 = f32_make neg c"
  using mag_less_inf [of c] by (simp add: f32_round_def round_mag_0)

text \<open>A whole number next to a float is a float.\<close>

lemma whole_is_mag:
  assumes "t = mag b div 2 ^ 149 \<or> t = mag b div 2 ^ 149 + 1 \<and> mag b mod 2 ^ 149 \<noteq> 0"
  shows "\<exists>c. mag c = t * 2 ^ 149"
proof -
  obtain e q where b: "q < 2 ^ 24" "mag b = q * 2 ^ e" by (rule float_shifted [of b])
  show ?thesis
  proof (cases "149 \<le> e")
    case True
    then obtain d where "e = 149 + d" using le_Suc_ex by blast
    then have "mag b = q * 2 ^ d * 2 ^ 149" using b(2) by (simp only: power_add ac_simps)
    then have "mag b mod 2 ^ 149 = 0" "mag b div 2 ^ 149 * 2 ^ 149 = mag b" by (metis mod_mult_self2_is_0, metis nonzero_mult_div_cancel_right power_not_zero zero_neq_numeral)
    with assms show ?thesis by metis
  next
    case False
    have "(2 :: nat) ^ e \<le> 2 ^ 148" using False by (intro power_increasing) auto
    then have "mag b \<le> q * 2 ^ 148" unfolding b(2) by (rule mult_le_mono2)
    also have "\<dots> < 2 ^ 24 * 2 ^ 148" using b(1) by simp
    also have "\<dots> = 2 ^ 23 * 2 ^ 149" by simp
    finally have "mag b div 2 ^ 149 < 2 ^ 23" by (simp only: div_less_iff_less_mult zero_less_power zero_less_numeral)
    with assms have "t < 2 ^ 24" by auto
    then show ?thesis by (rule shifted_is_mag)
  qed
qed

lemma round_pos: "0 < n \<Longrightarrow> 0 < round_bits n 0"
proof -
  assume n: "0 < n"
  show ?thesis
  proof (cases "bitlen n - 24")
    case 0
    with n show ?thesis by (simp add: round_bits_def Let_def half_even_def)
  qed (simp add: round_bits_def Let_def)
qed

lemma round_units_pos: "0 < n \<Longrightarrow> units (f32_round neg n 0) \<noteq> 0"
  using mag_less_iff [of 0 "round_bits n 0"] round_pos [of n] by simp

lemma finite_abs_units: "nat \<bar>units x\<bar> = mag (f32_abs_bits x)"
  by (simp add: units_def)

lemma units_zero: "units x = 0 \<longleftrightarrow> f32_abs_bits x = 0"
  using mag_eq_iff [of "f32_abs_bits x" 0] by (simp add: units_def)

lemma units_neg: "units x < 0 \<longleftrightarrow> f32_neg x \<and> f32_abs_bits x \<noteq> 0"
  using mag_less_iff [of 0 "f32_abs_bits x"] by (auto simp: units_def)

lemma finite_mag: "f32_finite x \<longleftrightarrow> mag (f32_abs_bits x) < 2 ^ 277"
  unfolding f32_finite_def mag_less_inf ..

lemma finite_not_nan: "f32_finite x \<Longrightarrow> \<not> f32_nan x"
  by (simp add: f32_finite_def f32_nan_def)

text \<open>Adding a zero changes nothing but perhaps the sign of a zero.\<close>

lemma add_zero:
  assumes "f32_finite x" "f32_finite y" "units y = 0"
  shows "f32_eq (f32_add x y) x" "f32_eq (f32_add y x) x"
proof -
  have "f32_round (units x < 0) (nat \<bar>units x\<bar>) 0 = x" if "units x \<noteq> 0"
    using that assms(1) round_make [of "f32_abs_bits x" "units x < 0"] make_of_bits [of x]
    by (simp add: finite_abs_units units_zero units_neg finite_mag)
  note round = this
  show "f32_eq (f32_add x y) x" "f32_eq (f32_add y x) x"
  proof (atomize (full), cases "units x = 0")
    case True
    then show "f32_eq (f32_add x y) x \<and> f32_eq (f32_add y x) x"
      using assms by (simp add: f32_add_def f32_eq_def finite_not_nan) (simp add: f32_nan_def f32_finite_def)
  next
    case False
    then have "f32_add x y = x" "f32_add y x = x"
      using assms round by (simp_all add: f32_add_def finite_not_nan Let_def)
    then show "f32_eq (f32_add x y) x \<and> f32_eq (f32_add y x) x"
      using finite_not_nan [OF assms(1)] by (simp add: f32_eq_def)
  qed
qed

text \<open>Multiplying by one changes nothing, by zero gives a zero.\<close>

lemma one_bits: "f32_abs_bits f32_one = 0x3F800000" "\<not> f32_neg f32_one" "units f32_one = 2 ^ 149"
  "f32_finite f32_one"
  by (simp_all add: f32_abs_bits_def f32_neg_def units_def mag_one f32_finite_def)

lemma zero_bits [simp]: "f32_abs_bits 0 = 0" "\<not> f32_neg 0" "units 0 = 0" "f32_finite 0"
  by (simp_all add: f32_abs_bits_def f32_neg_def units_def f32_finite_def)

lemma mul_one: "f32_finite x \<Longrightarrow> f32_mul x f32_one = x"
  using round_mag [of "f32_abs_bits x" 149] one_bits
  by (simp add: f32_mul_def finite_not_nan f32_round_def mag_one f32_finite_def)

lemma mul_zero: "f32_finite x \<Longrightarrow> f32_finite y \<Longrightarrow> units y = 0 \<Longrightarrow> f32_finite (f32_mul x y) \<and> units (f32_mul x y) = 0"
  using round_mag [of 0 149]
  by (simp add: f32_mul_def finite_not_nan f32_round_def units_zero f32_finite_def Let_def)

end
