(* ===== verification/C_Double.thy ===== *)
theory C_Double
  imports C_Float
begin

section \<open>Doubles of C\<close>

text \<open>
  \<open>double\<close> is the binary64 format of IEEE 754, here as far as the code meets it: a float widens
  when it is the argument of a function of the mathematical library, and the result is rounded back
  to a float by a cast. Finite doubles are integers in units of \<open>2 ^ - 1074\<close>.
\<close>

type_synonym f64 = "64 word"

definition f64_neg :: "f64 \<Rightarrow> bool" where
  "f64_neg x \<longleftrightarrow> 2 ^ 63 \<le> unat x"

definition f64_abs_bits :: "f64 \<Rightarrow> nat" where
  "f64_abs_bits x = unat x mod 2 ^ 63"

definition mag64 :: "nat \<Rightarrow> nat" where
  "mag64 b = (if b < 2 ^ 52 then b else (2 ^ 52 + b mod 2 ^ 52) * 2 ^ (b div 2 ^ 52 - 1))"

abbreviation inf_bits64 :: nat where
  "inf_bits64 \<equiv> 0x7FF0000000000000"

definition f64_nan :: "f64 \<Rightarrow> bool" where
  "f64_nan x \<longleftrightarrow> inf_bits64 < f64_abs_bits x"

definition f64_finite :: "f64 \<Rightarrow> bool" where
  "f64_finite x \<longleftrightarrow> f64_abs_bits x < inf_bits64"

definition f64_make :: "bool \<Rightarrow> nat \<Rightarrow> f64" where
  "f64_make neg b = of_nat (if neg then 2 ^ 63 + b else b)"

abbreviation f64_default_nan :: f64 where "f64_default_nan \<equiv> 0x7FF8000000000000"

text \<open>
  The double of \<open>m\<close> units of \<open>2 ^ - 149\<close>: the leading bit gives the exponent, the others are the
  fraction. It is exact for what has at most 53 bits but for trailing zeros.
\<close>

definition widen_bits :: "nat \<Rightarrow> nat" where
  "widen_bits m = (if m = 0 then 0 else (bitlen m + 872) * 2 ^ 52 + m * 2 ^ 53 div 2 ^ bitlen m)"

definition f32_to_f64 :: "f32 \<Rightarrow> f64" where
  "f32_to_f64 x =
     (if f32_nan x then f64_default_nan
      else f64_make (f32_neg x) (if f32_finite x then widen_bits (mag (f32_abs_bits x)) else inf_bits64))"

definition f64_to_f32 :: "f64 \<Rightarrow> f32" where
  "f64_to_f32 x =
     (if f64_nan x then f32_default_nan
      else if f64_finite x then f32_round (f64_neg x) (mag64 (f64_abs_bits x)) 925
      else f32_make (f64_neg x) inf_bits)"

lemma make_bits64 [simp]:
  assumes "b < 2 ^ 63"
  shows "f64_neg (f64_make neg b) = neg" "f64_abs_bits (f64_make neg b) = b"
proof -
  have "(if neg then 2 ^ 63 + b else b) < 2 ^ 64" using assms by simp
  then have "unat (f64_make neg b) = (if neg then 2 ^ 63 + b else b)"
    by (simp add: f64_make_def unat_of_nat)
  with assms show "f64_neg (f64_make neg b) = neg" "f64_abs_bits (f64_make neg b) = b"
    by (simp_all add: f64_neg_def f64_abs_bits_def)
qed

subsection \<open>Widening keeps the value\<close>

lemma widen_normal:
  assumes "2 ^ 52 \<le> f" "f < 2 ^ 53"
  shows "mag64 (h * 2 ^ 52 + f) = f * 2 ^ h"
proof -
  from assms obtain g where "f = 2 ^ 52 + g" "g < 2 ^ 52" by (auto simp: le_iff_add)
  then show ?thesis by (simp add: mag64_def)
qed

lemma bitlen_bounds: "m \<noteq> 0 \<Longrightarrow> 2 ^ (bitlen m - 1) \<le> m" "m < 2 ^ bitlen m"
proof -
  show "m < 2 ^ bitlen m" using bitlen_le [of m "bitlen m"] by simp
  show "2 ^ (bitlen m - 1) \<le> m" if "m \<noteq> 0"
  proof -
    from that have "\<not> bitlen m \<le> 0" using bitlen_le [of m 0] by simp
    then have "\<not> bitlen m \<le> bitlen m - 1" by linarith
    then show ?thesis unfolding bitlen_le not_less .
  qed
qed

lemma widen_value:
  assumes "q < 2 ^ 24"
  shows "mag64 (widen_bits (q * 2 ^ e)) = q * 2 ^ e * 2 ^ 925"
proof (cases "q = 0")
  case False
  let ?m = "q * 2 ^ e" and ?l = "bitlen (q * 2 ^ e)"
  from False have m: "?m \<noteq> 0" by simp
  note b = bitlen_bounds(1) [OF m] bitlen_bounds(2) [of ?m]
  have "?m < 2 ^ (24 + e)" unfolding power_add using assms by simp
  then have l: "?l \<le> 24 + e" by (simp only: bitlen_le)
  have pos: "0 < ?l" using b m by (cases ?l) auto
  have "2 ^ ?l dvd (2 :: nat) ^ (53 + e)" using l by (intro le_imp_power_dvd) simp
  then have "2 ^ ?l dvd ?m * 2 ^ 53" unfolding power_add by (simp add: ac_simps)
  then obtain f where f: "?m * 2 ^ 53 = 2 ^ ?l * f" by blast
  have "2 ^ ?l * 2 ^ 52 \<le> ?m * 2 ^ 53" using mult_le_mono1 [OF b(1), of "2 ^ 53"] pos
    by (cases ?l) simp_all
  then have f1: "2 ^ 52 \<le> f" unfolding f by simp
  have "?m * 2 ^ 53 < 2 ^ ?l * 2 ^ 53" using b(2) by simp
  then have f2: "f < 2 ^ 53" unfolding f by simp
  have "widen_bits ?m = (?l + 872) * 2 ^ 52 + f" using m f by (simp add: widen_bits_def)
  then have "mag64 (widen_bits ?m) = f * 2 ^ (?l + 872)" by (simp only: widen_normal [OF f1 f2])
  also have "\<dots> = (2 ^ ?l * f) * 2 ^ 872" by (simp add: power_add)
  also have "\<dots> = ?m * 2 ^ (53 + 872)" unfolding f [symmetric] power_add by simp
  finally show ?thesis by simp
qed (simp add: widen_bits_def mag64_def)

lemma widen_mag: "mag64 (widen_bits (mag b)) = mag b * 2 ^ 925"
proof -
  obtain e q where "q < 2 ^ 24" "mag b = q * 2 ^ e" by (rule float_shifted [of b])
  with widen_value show ?thesis by simp
qed

lemma widen_less:
  assumes "m < 2 ^ 277"
  shows "widen_bits m < inf_bits64"
proof -
  have "bitlen m \<le> 277" using assms by (simp only: bitlen_le)
  moreover have "m * 2 ^ 53 div 2 ^ bitlen m < 2 ^ 53"
    using bitlen_bounds(2) [of m] by (simp add: div_less_iff_less_mult)
  ultimately have "(bitlen m + 872) * 2 ^ 52 + m * 2 ^ 53 div 2 ^ bitlen m < (277 + 872) * 2 ^ 52 + 2 ^ 53"
    by (intro add_le_less_mono) simp_all
  then show ?thesis by (simp add: widen_bits_def)
qed

lemma widen_fields:
  assumes "f32_finite x"
  shows "f64_finite (f32_to_f64 x)" "\<not> f64_nan (f32_to_f64 x)" "f64_neg (f32_to_f64 x) = f32_neg x"
    "mag64 (f64_abs_bits (f32_to_f64 x)) = mag (f32_abs_bits x) * 2 ^ 925"
proof -
  have less: "widen_bits (mag (f32_abs_bits x)) < inf_bits64" using assms by (intro widen_less) (simp add: finite_mag)
  then have "f32_to_f64 x = f64_make (f32_neg x) (widen_bits (mag (f32_abs_bits x)))"
    using assms finite_not_nan by (simp add: f32_to_f64_def)
  with less widen_mag show "f64_finite (f32_to_f64 x)" "\<not> f64_nan (f32_to_f64 x)"
    "f64_neg (f32_to_f64 x) = f32_neg x"
    "mag64 (f64_abs_bits (f32_to_f64 x)) = mag (f32_abs_bits x) * 2 ^ 925"
    by (simp_all add: f64_finite_def f64_nan_def)
qed

text \<open>A float comes back from a double as it was; a NaN comes back as the default one.\<close>

lemma widen_narrow: "f64_to_f32 (f32_to_f64 x) = (if f32_nan x then f32_default_nan else x)"
proof -
  consider "f32_nan x" | "f32_finite x" | "\<not> f32_nan x" "\<not> f32_finite x" by blast
  then show ?thesis
  proof cases
    case 1
    have "f64_nan f64_default_nan" by (simp add: f64_nan_def f64_abs_bits_def)
    with 1 show ?thesis by (simp add: f32_to_f64_def f64_to_f32_def)
  next
    case 2
    then have "f32_abs_bits x < inf_bits" by (simp add: f32_finite_def)
    then have "round_bits (mag (f32_abs_bits x) * 2 ^ 925) 925 = f32_abs_bits x" by (simp only: round_mag)
    with 2 finite_not_nan show ?thesis
      by (simp add: f64_to_f32_def widen_fields f32_round_def)
  next
    case 3
    then have inf: "f32_abs_bits x = inf_bits" by (simp add: f32_nan_def f32_finite_def)
    have "f32_to_f64 x = f64_make (f32_neg x) inf_bits64" using 3 by (simp add: f32_to_f64_def)
    with 3 make_of_bits [of x] show ?thesis by (simp add: f64_to_f32_def f64_nan_def f64_finite_def inf)
  qed
qed

text \<open>Narrowing does not cross a float.\<close>

lemma round_below:
  assumes "n \<le> mag c * 2 ^ k" "mag c < 2 ^ 277"
  shows "mag (round_bits n k) \<le> mag c"
proof -
  have "mag c * 2 ^ k < 2 ^ 277 * 2 ^ k" using assms(2) by simp
  then have "n < 2 ^ (277 + k)" unfolding power_add using assms(1) by linarith
  from round_nearest [OF this, of c] have
    "\<bar>int (mag (round_bits n k) * 2 ^ k) - int n\<bar> \<le> \<bar>int (mag c * 2 ^ k) - int n\<bar>" by simp
  with assms(1) have "mag (round_bits n k) * 2 ^ k \<le> mag c * 2 ^ k" by linarith
  then show ?thesis by simp
qed

lemma cast_bound:
  assumes "f64_finite d" "mag64 (f64_abs_bits d) \<le> mag c * 2 ^ 925" "mag c < 2 ^ 277"
  shows "f32_finite (f64_to_f32 d) \<and> \<bar>units (f64_to_f32 d)\<bar> \<le> int (mag c)"
proof -
  have "f64_to_f32 d = f32_round (f64_neg d) (mag64 (f64_abs_bits d)) 925"
    using assms(1) by (simp add: f64_to_f32_def f64_nan_def f64_finite_def)
  with round_below [OF assms(2,3)] assms(3) show ?thesis by (simp add: finite_mag)
qed

end
