(* ===== verification/Gc_Float.thy ===== *)
theory Gc_Float
  imports C_Double Gc_Arith Gc_Vg
begin

unbundle bit_operations_syntax

section \<open>Float macros of the GPU headers\<close>

text \<open>
  The macros of \<open>include/hardware/gc_hal_types.h\<close> and \<open>include/hardware/gc_hal_vg.h\<close> that compute
  with floats, on the floats of \<open>C_Float\<close>: each operation is rounded, none is fused with another.
  The functions of the mathematical library whose results are not laid down to the last bit (\<open>sin\<close>,
  \<open>cos\<close>, \<open>asin\<close>, \<open>acos\<close>) are arguments, functions on doubles.
\<close>

subsection \<open>The macros\<close>

definition gcmFLOATCLAMP_NEG1_TO_1 :: "f32 \<Rightarrow> f32" where
  "gcmFLOATCLAMP_NEG1_TO_1 f =
     (if f32_less f f32_minus_one then f32_minus_one else if f32_less f32_one f then f32_one else f)"

definition gcmFLOATCLAMP_0_TO_1 :: "f32 \<Rightarrow> f32" where
  "gcmFLOATCLAMP_0_TO_1 f =
     (if f32_less f 0 then 0 else if f32_less f32_one f then f32_one else f)"

text \<open>For a float; \<open>None\<close> is the undefined conversion. The sum wraps.\<close>

definition gcmCEIL :: "f32 \<Rightarrow> u32 option" where
  "gcmCEIL x =
     (case f32_to_u32 x of
        None \<Rightarrow> None
      | Some n \<Rightarrow> Some (if f32_eq (f32_sub x (u32_to_f32 n)) 0 then n else n + 1))"

definition gcmLERP :: "f32 \<Rightarrow> f32 \<Rightarrow> f32 \<Rightarrow> f32" where
  "gcmLERP v1 v2 w = f32_add (f32_mul v1 w) (f32_mul v2 (f32_sub f32_one w))"

text \<open>
  The replacements for \<open>fabsf\<close>, \<open>ceilf\<close>, \<open>floorf\<close> and \<open>fmodf\<close> go through \<open>double\<close>, which holds every float and
  the results exactly.
\<close>

definition gcmFABSF :: "f32 \<Rightarrow> f32" where
  "gcmFABSF x = f32_make False (f32_abs_bits x)"

definition whole :: "f32 \<Rightarrow> int \<Rightarrow> f32" where
  "whole x i = (if f32_finite x then f32_round (f32_neg x) (nat \<bar>i\<bar> * 2 ^ 149) 0 else x)"

definition gcmFLOORF :: "f32 \<Rightarrow> f32" where
  "gcmFLOORF x = whole x (units x div 2 ^ 149)"

definition gcmCEILF :: "f32 \<Rightarrow> f32" where
  "gcmCEILF x = whole x (- ((- units x) div 2 ^ 149))"

definition gcmFMODF :: "f32 \<Rightarrow> f32 \<Rightarrow> f32" where
  "gcmFMODF x y =
     (if f32_nan x \<or> f32_nan y \<or> \<not> f32_finite x \<or> units y = 0 then f32_default_nan
      else if \<not> f32_finite y then x
      else f32_round (f32_neg x) (mag (f32_abs_bits x) mod mag (f32_abs_bits y)) 0)"

text \<open>The rounding of a \<open>double\<close>, to 53 bits, away from its limits.\<close>

definition double_of_nat :: "nat \<Rightarrow> nat" where
  "double_of_nat n = (let s = bitlen n - 53 in half_even n s * 2 ^ s)"

text \<open>
  \<open>sqrt\<close> rounds the exact root to a \<open>double\<close>, the macro then to a float. The root is computed to more
  bits than a \<open>double\<close> has; whether anything is left over is one more bit.
\<close>

fun isqrt :: "nat \<Rightarrow> nat" where
  "isqrt n =
     (if n = 0 then 0
      else let r = 2 * isqrt (n div 4) in if (r + 1) * (r + 1) \<le> n then r + 1 else r)"

declare isqrt.simps [simp del]

definition sqrt_double :: "nat \<Rightarrow> nat" where
  "sqrt_double m =
     (let n = m * 2 ^ 445; r = isqrt n in double_of_nat (2 * r + (if r * r = n then 0 else 1)))"

definition gcmSQRTF :: "f32 \<Rightarrow> f32" where
  "gcmSQRTF x =
     (if f32_nan x \<or> f32_neg x \<and> units x \<noteq> 0 then f32_default_nan
      else if units x = 0 \<or> \<not> f32_finite x then x
      else f32_round False (sqrt_double (mag (f32_abs_bits x))) 149)"

definition gcmSINF :: "(f64 \<Rightarrow> f64) \<Rightarrow> f32 \<Rightarrow> f32" where "gcmSINF sin x = f64_to_f32 (sin (f32_to_f64 x))"
definition gcmCOSF :: "(f64 \<Rightarrow> f64) \<Rightarrow> f32 \<Rightarrow> f32" where "gcmCOSF cos x = f64_to_f32 (cos (f32_to_f64 x))"
definition gcmASINF :: "(f64 \<Rightarrow> f64) \<Rightarrow> f32 \<Rightarrow> f32" where "gcmASINF asin x = f64_to_f32 (asin (f32_to_f64 x))"
definition gcmACOSF :: "(f64 \<Rightarrow> f64) \<Rightarrow> f32 \<Rightarrow> f32" where "gcmACOSF acos x = f64_to_f32 (acos (f32_to_f64 x))"

text \<open>
  The limits: the decimal \<open>34028235 * 10 ^ 31\<close> is rounded to the 53 bits of a \<open>double\<close>, then to a
  float.
\<close>

definition gcvMAX_POS_FLOAT :: f32 where
  "gcvMAX_POS_FLOAT = f32_round False (double_of_nat (34028235 * 10 ^ 31) * 2 ^ 149) 0"

definition gcvMAX_NEG_FLOAT :: f32 where
  "gcvMAX_NEG_FLOAT = f32_round True (double_of_nat (34028235 * 10 ^ 31) * 2 ^ 149) 0"

subsection \<open>Clamping\<close>

lemma clamp_bounds:
  "units f32_minus_one = - (2 ^ 149)" "\<not> f32_nan f32_minus_one" "\<not> f32_nan f32_one" "\<not> f32_nan 0"
  by (simp_all add: units_def f32_abs_bits_def f32_neg_def mag_one f32_nan_def)

text \<open>C27. Clamping gives the nearest value of the range, for every float, infinities included. A
  NaN is not clamped: it passes through both macros.\<close>
theorem gc_float_clamp:
  "if f32_nan f then gcmFLOATCLAMP_NEG1_TO_1 f = f \<and> gcmFLOATCLAMP_0_TO_1 f = f
   else \<not> f32_nan (gcmFLOATCLAMP_NEG1_TO_1 f) \<and> \<not> f32_nan (gcmFLOATCLAMP_0_TO_1 f) \<and>
     units (gcmFLOATCLAMP_NEG1_TO_1 f) = max (- (2 ^ 149)) (min (2 ^ 149) (units f)) \<and>
     units (gcmFLOATCLAMP_0_TO_1 f) = max 0 (min (2 ^ 149) (units f))"
  using clamp_bounds one_bits(3)
  by (auto simp: gcmFLOATCLAMP_NEG1_TO_1_def gcmFLOATCLAMP_0_TO_1_def f32_less_def)

subsection \<open>The ceiling\<close>

lemma whole_part_float:
  assumes "mag b < 2 ^ 181"
  obtains c where "mag c = mag b div 2 ^ 149 * 2 ^ 149" "c < inf_bits"
    "u32_to_f32 (of_nat (mag b div 2 ^ 149)) = f32_make False c"
proof -
  obtain c where c: "mag c = mag b div 2 ^ 149 * 2 ^ 149" using whole_is_mag by blast
  have "mag b div 2 ^ 149 < 2 ^ 32" using assms by (simp add: div_less_iff_less_mult)
  then have n: "unat (of_nat (mag b div 2 ^ 149) :: u32) = mag b div 2 ^ 149" by (simp add: unat_of_nat)
  have "mag c \<le> mag b" unfolding c by (rule div_times_less_eq_dividend)
  then have small: "mag c < 2 ^ 277" using assms by (rule le_less_trans [OF _ less_trans]) simp
  then have "u32_to_f32 (of_nat (mag b div 2 ^ 149)) = f32_make False c"
    unfolding u32_to_f32_def n using round_make [of c False] c by simp
  with c small mag_less_inf that show thesis by blast
qed

text \<open>Taking the whole part away leaves the fraction; it is zero only if it was.\<close>

lemma sub_whole_zero:
  assumes "f32_finite x" "\<not> f32_neg x" "mag c \<le> mag (f32_abs_bits x)" "c < inf_bits"
  shows "f32_eq (f32_sub x (f32_make False c)) 0 \<longleftrightarrow> mag (f32_abs_bits x) = mag c"
proof -
  let ?y = "f32_minus (f32_make False c)"
  have c: "c < 2 ^ 31" using assms(4) by simp
  then have y: "?y = f32_make True c" by (simp add: f32_minus_def)
  have fin: "f32_finite ?y" using c assms(4) unfolding y f32_finite_def by simp
  let ?z = "int (mag (f32_abs_bits x)) - int (mag c)"
  have z: "units x + units ?y = ?z" using assms(2) c by (simp add: y units_def)
  have sum: "f32_sub x (f32_make False c) =
      (if ?z = 0 then f32_make (f32_neg x \<and> f32_neg ?y) 0 else f32_round (?z < 0) (nat \<bar>?z\<bar>) 0)"
    unfolding f32_sub_def f32_add_def z [symmetric]
    using assms(1) fin finite_not_nan [OF assms(1)] finite_not_nan [OF fin] by (simp add: Let_def)
  show ?thesis
  proof (cases "?z = 0")
    case True
    then show ?thesis using sum by (simp add: f32_eq_def f32_nan_def)
  next
    case False
    with assms(3) have pos: "0 < nat \<bar>?z\<bar>" by linarith
    have "units (f32_round (?z < 0) (nat \<bar>?z\<bar>) 0) \<noteq> 0" using pos by (rule round_units_pos)
    then have "\<not> f32_eq (f32_round (?z < 0) (nat \<bar>?z\<bar>) 0) 0" unfolding f32_eq_def zero_bits by blast
    moreover have "mag (f32_abs_bits x) \<noteq> mag c" using False by simp
    ultimately show ?thesis unfolding sum if_not_P [OF False] by blast
  qed
qed

lemma ceil_nonneg:
  assumes "f32_finite x" "\<not> f32_neg x" "units x < 2 ^ 181"
  shows "gcmCEIL x = Some (of_int (- ((- units x) div 2 ^ 149)))"
proof -
  let ?m = "mag (f32_abs_bits x)"
  have u: "units x = int ?m" using assms(2) by (simp add: units_def)
  with assms(3) have "int ?m < int (2 ^ 181)" by simp
  then have lt: "?m < 2 ^ 181" by (simp only: of_nat_less_iff)
  obtain c where c: "mag c = ?m div 2 ^ 149 * 2 ^ 149" "c < inf_bits"
    "u32_to_f32 (of_nat (?m div 2 ^ 149)) = f32_make False c" using whole_part_float [OF lt] .
  have conv: "f32_to_u32 x = Some (of_nat (?m div 2 ^ 149))"
    using assms u by (simp add: f32_to_u32_def)
  have "mag c \<le> ?m" unfolding c by (rule div_times_less_eq_dividend)
  from sub_whole_zero [OF assms(1,2) this c(2)] have eq: "f32_eq (f32_sub x (f32_make False c)) 0 \<longleftrightarrow> ?m mod 2 ^ 149 = 0"
    unfolding c using div_mult_mod_eq [of ?m "2 ^ 149"] by linarith
  have "- ((- int ?m) div 2 ^ 149) = int (?m div 2 ^ 149) + (if ?m mod 2 ^ 149 = 0 then 0 else 1)"
    using zdiv_zminus1_eq_if [of "2 ^ 149" "int ?m"] zdiv_int [of ?m "2 ^ 149"] zmod_int [of ?m "2 ^ 149"] by simp
  then show ?thesis unfolding gcmCEIL_def conv option.case c(3) eq u by (auto simp: of_nat_of_int_iff)
qed

text \<open>C26. The ceiling macro, on every float: from zero up to \<open>2 ^ 32\<close> it is the ceiling. Between
  \<open>-1\<close> and zero, where the ceiling is zero, it gives 1; on everything else, NaNs and infinities
  included, the conversion is undefined.\<close>
theorem gc_ceil:
  "gcmCEIL x =
     (if f32_finite x \<and> - (2 ^ 149) < units x \<and> units x < 2 ^ 181
      then Some (if units x < 0 then 1 else of_int (- ((- units x) div 2 ^ 149)))
      else None)"
proof (cases "f32_finite x \<and> - (2 ^ 149) < units x \<and> units x < 2 ^ 181")
  case False
  then show ?thesis by (auto simp: gcmCEIL_def f32_to_u32_def)
next
  case True
  show ?thesis
  proof (cases "f32_neg x")
    case False
    then have "\<not> units x < 0" by (simp add: units_neg)
    with False True ceil_nonneg [of x] show ?thesis by simp
  next
    case neg: True
    have zero: "u32_to_f32 0 = 0" by (simp add: u32_to_f32_def f32_round_def round_bits_def half_even_def f32_make_def)
    have "f32_minus 0 = f32_make True 0" by (simp add: f32_minus_def)
    then have "f32_finite (f32_minus 0)" "units (f32_minus 0) = 0" by (simp_all add: f32_finite_def)
    then have "f32_eq (f32_sub x 0) x" using True by (simp add: f32_sub_def add_zero)
    then have "f32_eq (f32_sub x 0) 0 \<longleftrightarrow> units x = 0" by (auto simp: f32_eq_def clamp_bounds)
    moreover have "units x \<le> 0" using neg by (simp add: units_def)
    ultimately show ?thesis using True neg zero
      by (auto simp: gcmCEIL_def f32_to_u32_def)
  qed
qed

subsection \<open>Interpolation\<close>

lemma sub_from_one: "f32_sub f32_one 0 = f32_one" "units (f32_sub f32_one f32_one) = 0"
  "f32_finite (f32_sub f32_one f32_one)"
proof -
  have z: "f32_minus 0 = f32_make True 0" "units (f32_minus 0) = 0" "f32_finite (f32_minus 0)"
    by (simp_all add: f32_minus_def f32_finite_def)
  have "f32_round False (mag 0x3F800000) 0 = f32_make False 0x3F800000" by (rule round_make) (simp add: mag_one)
  moreover have "f32_make False 0x3F800000 = f32_one" by (simp add: f32_make_def)
  ultimately have one: "f32_round False (2 ^ 149) 0 = f32_one" by (simp only: mag_one)
  show "f32_sub f32_one 0 = f32_one"
    unfolding f32_sub_def f32_add_def using z one one_bits finite_not_nan by (simp add: Let_def)
  have m: "f32_minus f32_one = f32_make True 0x3F800000" by (simp add: f32_minus_def one_bits)
  then have "units (f32_minus f32_one) = - (2 ^ 149)" "f32_finite (f32_minus f32_one)"
    by (simp_all add: mag_one f32_finite_def)
  then have "f32_sub f32_one f32_one = f32_make (f32_neg f32_one \<and> f32_neg (f32_minus f32_one)) 0"
    unfolding f32_sub_def f32_add_def using one_bits finite_not_nan by (simp add: Let_def)
  then show "units (f32_sub f32_one f32_one) = 0" "f32_finite (f32_sub f32_one f32_one)"
    by (simp_all add: f32_finite_def)
qed

text \<open>Interpolation meets its ends exactly, for all finite values, however far apart they are:
  with weight one it is the first value, with weight zero the second.\<close>
theorem gc_lerp_ends:
  assumes "f32_finite v1" "f32_finite v2"
  shows "f32_eq (gcmLERP v1 v2 f32_one) v1 \<and> f32_eq (gcmLERP v1 v2 0) v2"
proof
  have "f32_finite (f32_mul v2 (f32_sub f32_one f32_one))" "units (f32_mul v2 (f32_sub f32_one f32_one)) = 0"
    using mul_zero [OF assms(2)] sub_from_one by simp_all
  then show "f32_eq (gcmLERP v1 v2 f32_one) v1"
    unfolding gcmLERP_def mul_one [OF assms(1)] by (intro add_zero assms)
  have "f32_finite (f32_mul v1 0)" "units (f32_mul v1 0) = 0"
    using mul_zero [OF assms(1)] by simp_all
  then show "f32_eq (gcmLERP v1 v2 0) v2"
    unfolding gcmLERP_def sub_from_one mul_one [OF assms(2)] by (intro add_zero assms)
qed

theorem gc_lerp_ends_witness:
  "f32_eq (gcmLERP 0x40000000 0x7F7FFFFF f32_one) 0x40000000 \<and> f32_eq (gcmLERP 0x40000000 0x7F7FFFFF 0) 0x7F7FFFFF"
  by (rule gc_lerp_ends) (simp_all add: f32_finite_def f32_abs_bits_def)

subsection \<open>Whole numbers, absolute value, limits\<close>

lemma whole_units:
  assumes "f32_finite x" "nat \<bar>i\<bar> * 2 ^ 149 = mag c" "mag c < 2 ^ 277" "f32_neg x \<longleftrightarrow> i < 0 \<or> i = 0 \<and> f32_neg x"
  shows "units (whole x i) = i * 2 ^ 149"
proof -
  have "whole x i = f32_make (f32_neg x) c" "c < 2 ^ 31"
    using assms round_make [of c] mag_less_inf [of c] by (simp_all add: whole_def)
  then have "units (whole x i) = (if f32_neg x then - int (mag c) else int (mag c))" by simp
  also have "int (mag c) = \<bar>i\<bar> * 2 ^ 149" unfolding assms(2) [symmetric] by simp
  finally show ?thesis using assms(4) by auto
qed

text \<open>The test of \<open>gc_hal_vg.h\<close> finds only NaNs.\<close>

lemma is_nan_sound: "gcmIS_NAN x \<Longrightarrow> f32_nan x"
proof -
  assume "gcmIS_NAN x"
  then have "x AND mask 31 = mask 31" by (simp add: gcmIS_NAN_def mask_eq_exp_minus_1)
  then have "take_bit 31 x = mask 31" by (simp add: take_bit_eq_mask)
  then have "unat (take_bit 31 x) = 2 ^ 31 - 1" by (simp add: unat_mask)
  then show ?thesis by (simp add: f32_nan_def f32_abs_bits_def unat_take_bit)
qed

lemma fabs_units: "units (gcmFABSF x) = \<bar>units x\<bar>"
  unfolding gcmFABSF_def units_make [OF abs_bits_less] by (simp add: units_def)

text \<open>The decimal limit is the greatest finite float; the next number is infinity.\<close>

lemma float_limits:
  "gcvMAX_POS_FLOAT = 0x7F7FFFFF" "gcvMAX_NEG_FLOAT = 0xFF7FFFFF"
proof -
  let ?n = "34028235 * 10 ^ 31 :: nat" and ?d = "340282349999999991754788743781432688640 :: nat"
  have "bitlen ?n = 128" using bitlen_eq [of 127 ?n] by simp
  then have d: "double_of_nat ?n = ?d" by (simp add: double_of_nat_def half_even_def Let_def)
  have "bitlen (?d * 2 ^ 149) = 277" using bitlen_eq [of 276 "?d * 2 ^ 149"] by simp
  then have "round_bits (?d * 2 ^ 149) 0 = 0x7F7FFFFF" by (simp add: round_bits_def half_even_def Let_def)
  then show "gcvMAX_POS_FLOAT = 0x7F7FFFFF" "gcvMAX_NEG_FLOAT = 0xFF7FFFFF"
    unfolding gcvMAX_POS_FLOAT_def gcvMAX_NEG_FLOAT_def d f32_round_def by (simp_all add: f32_make_def)
qed

lemma greatest_float: "f32_finite x \<Longrightarrow> \<bar>units x\<bar> \<le> units gcvMAX_POS_FLOAT"
proof -
  assume "f32_finite x"
  then have "f32_abs_bits x \<le> 0x7F7FFFFF" by (simp add: f32_finite_def)
  then have "mag (f32_abs_bits x) \<le> mag 0x7F7FFFFF" using mag_less_iff [of "0x7F7FFFFF" "f32_abs_bits x"] by linarith
  moreover have "f32_abs_bits 0x7F7FFFFF = 0x7F7FFFFF" "\<not> f32_neg 0x7F7FFFFF" by (simp_all add: f32_abs_bits_def f32_neg_def)
  ultimately show ?thesis unfolding float_limits by (simp add: units_def)
qed

lemma whole_exact:
  assumes "f32_finite x" "if f32_neg x then i \<le> 0 else 0 \<le> i"
    and "nat \<bar>i\<bar> = mag (f32_abs_bits x) div 2 ^ 149 \<or>
      nat \<bar>i\<bar> = mag (f32_abs_bits x) div 2 ^ 149 + 1 \<and> mag (f32_abs_bits x) mod 2 ^ 149 \<noteq> 0"
  shows "units (whole x i) = i * 2 ^ 149"
proof -
  let ?m = "mag (f32_abs_bits x)"
  obtain c where c: "mag c = nat \<bar>i\<bar> * 2 ^ 149" using whole_is_mag [OF assms(3)] by blast
  have "f32_abs_bits x \<le> 0x7F7FFFFF" using assms(1) by (simp add: f32_finite_def)
  then have "?m \<le> mag 0x7F7FFFFF" using mag_less_iff [of "0x7F7FFFFF" "f32_abs_bits x"] by linarith
  moreover have "mag 0x7F7FFFFF + 2 ^ 149 < 2 ^ 277" by (simp add: mag_def)
  moreover have "mag c \<le> ?m + 2 ^ 149"
  proof -
    have "nat \<bar>i\<bar> \<le> ?m div 2 ^ 149 + 1" using assms(3) by linarith
    then have "mag c \<le> (?m div 2 ^ 149 + 1) * 2 ^ 149" unfolding c by (rule mult_le_mono1)
    also have "\<dots> = ?m div 2 ^ 149 * 2 ^ 149 + 2 ^ 149" by (simp only: distrib_right mult_1)
    also have "\<dots> \<le> ?m + 2 ^ 149" by (rule add_right_mono, rule div_times_less_eq_dividend)
    finally show ?thesis .
  qed
  ultimately have "mag c < 2 ^ 277" by linarith
  moreover have "f32_neg x \<longleftrightarrow> i < 0 \<or> i = 0 \<and> f32_neg x" using assms(2) by (cases "f32_neg x") auto
  ultimately show ?thesis by (rule whole_units [OF assms(1) c [symmetric]])
qed

text \<open>Rounding down and up to whole numbers is exact.\<close>

lemma floor_ceil_units:
  assumes "f32_finite x"
  shows "units (gcmFLOORF x) = units x div 2 ^ 149 * 2 ^ 149"
    and "units (gcmCEILF x) = - ((- units x) div 2 ^ 149) * 2 ^ 149"
proof -
  define m P where "m = mag (f32_abs_bits x)" and "P = (2 :: nat) ^ 149"
  have p: "(2 :: int) ^ 149 = int P" by (simp add: P_def)
  have down: "int m div int P = int (m div P)" by (simp only: zdiv_int)
  have up: "(- int m) div int P = - int (m div P) - (if m mod P = 0 then 0 else 1)"
    using zdiv_zminus1_eq_if [of "int P" "int m"] zmod_int [of m P] down by (auto simp: P_def)
  note exact = whole_exact [OF assms, folded m_def P_def, unfolded p]
  show "units (gcmFLOORF x) = units x div 2 ^ 149 * 2 ^ 149"
    unfolding gcmFLOORF_def p by (rule exact) (auto simp: units_def down up simp flip: m_def)
  show "units (gcmCEILF x) = - ((- units x) div 2 ^ 149) * 2 ^ 149"
    unfolding gcmCEILF_def p by (rule exact) (auto simp: units_def down up simp flip: m_def)
qed

text \<open>So is the remainder: it has the sign of the first number and is less than the second.\<close>

lemma remainder_is_mag: "\<exists>c. mag c = mag a mod mag b"
proof -
  obtain e q where a: "q < 2 ^ 24" "mag a = q * 2 ^ e" by (rule float_shifted [of a])
  obtain d p where b: "p < 2 ^ 24" "mag b = p * 2 ^ d" by (rule float_shifted [of b])
  show ?thesis
  proof (cases "p = 0")
    case True
    with b(2) show ?thesis by auto
  next
    case p: False
    show ?thesis
    proof (cases "d \<le> e")
      case True
      then obtain k where e: "e = d + k" using le_Suc_ex by blast
      have "mag a mod mag b = (q * 2 ^ k) mod p * 2 ^ d"
        unfolding a(2) b(2) e by (simp add: power_add mult.assoc mult.left_commute mult.commute flip: mult_mod_right)
      moreover have "(q * 2 ^ k) mod p < 2 ^ 24" using p b(1) by (meson less_trans mod_less_divisor neq0_conv)
      ultimately show ?thesis using shifted_is_mag by metis
    next
      case False
      then obtain k where d: "d = e + k" using le_Suc_ex nat_le_linear by metis
      have "mag a mod mag b = q mod (p * 2 ^ k) * 2 ^ e"
        unfolding a(2) b(2) d by (simp add: power_add mult.assoc mult.left_commute mult.commute flip: mult_mod_right)
      moreover have "q mod (p * 2 ^ k) < 2 ^ 24" using a(1) by (meson le_less_trans mod_less_eq_dividend)
      ultimately show ?thesis using shifted_is_mag by metis
    qed
  qed
qed

lemma fmod_units:
  assumes "f32_finite x" "f32_finite y" "units y \<noteq> 0"
  shows "units (gcmFMODF x y) = (if f32_neg x then - 1 else 1) * (\<bar>units x\<bar> mod \<bar>units y\<bar>)"
proof -
  let ?a = "f32_abs_bits x" and ?b = "f32_abs_bits y"
  obtain c where c: "mag c = mag ?a mod mag ?b" using remainder_is_mag by blast
  have "mag c \<le> mag ?a" unfolding c by (rule mod_less_eq_dividend)
  moreover have "mag ?a < 2 ^ 277" using assms(1) by (simp only: finite_mag)
  ultimately have small: "mag c < 2 ^ 277" by linarith
  then have "gcmFMODF x y = f32_make (f32_neg x) c" "c < 2 ^ 31"
    using assms finite_not_nan round_make [of c] mag_less_inf [of c] unfolding gcmFMODF_def c [symmetric] by auto
  then have "units (gcmFMODF x y) = (if f32_neg x then - int (mag c) else int (mag c))" by simp
  moreover have "\<bar>units x\<bar> = int (mag ?a)" "\<bar>units y\<bar> = int (mag ?b)" by (simp_all add: units_def)
  ultimately show ?thesis by (simp add: c zmod_int)
qed

text \<open>The root of a square is exact.\<close>

lemma isqrt_bounds: "isqrt n * isqrt n \<le> n \<and> n < (isqrt n + 1) * (isqrt n + 1)"
proof (induction n rule: isqrt.induct)
  case (1 n)
  show ?case
  proof (cases "n = 0")
    case False
    define q where "q = isqrt (n div 4)"
    have "q * q \<le> n div 4" "n div 4 < (q + 1) * (q + 1)" using 1 [OF False] by (simp_all only: q_def)
    then have "4 * (q * q) \<le> n" "n < 4 * ((q + 1) * (q + 1))" by linarith+
    then have "2 * q * (2 * q) \<le> n" "n < (2 * q + 2) * (2 * q + 2)" by (simp_all add: algebra_simps)
    with False show ?thesis by (simp add: isqrt.simps [of n] Let_def flip: q_def)
  qed (simp add: isqrt.simps)
qed

lemma isqrt_square: "isqrt (r * r) = r"
proof -
  have "(isqrt (r * r))\<^sup>2 \<le> r\<^sup>2" "\<not> (isqrt (r * r) + 1)\<^sup>2 \<le> r\<^sup>2"
    using isqrt_bounds [of "r * r"] by (simp_all only: power2_eq_square not_le)
  then show ?thesis unfolding power2_nat_le_eq_le by linarith
qed

lemma double_exact:
  assumes "q < 2 ^ 24"
  shows "double_of_nat (q * 2 ^ j) = q * 2 ^ j"
proof -
  let ?n = "q * 2 ^ j"
  have "?n < 2 ^ 24 * 2 ^ j" using assms by simp
  then have "bitlen ?n \<le> 24 + j" by (simp only: bitlen_le power_add)
  then have "bitlen ?n - 53 \<le> j" by simp
  then obtain k where j: "j = bitlen ?n - 53 + k" using le_Suc_ex by blast
  then have n: "?n = q * 2 ^ k * 2 ^ (bitlen ?n - 53)" by (metis mult.assoc mult.commute power_add)
  then show ?thesis unfolding double_of_nat_def Let_def using half_even_exact by metis
qed

lemma sqrt_of_square:
  assumes "f32_finite x" "f32_finite y" "\<not> f32_neg x" "\<not> f32_neg y" "units y \<noteq> 0" "units x * 2 ^ 149 = units y * units y"
  shows "gcmSQRTF x = y"
proof -
  let ?a = "mag (f32_abs_bits x)" and ?b = "mag (f32_abs_bits y)"
  have "int (?a * 2 ^ 149) = int (?b * ?b)" using assms(3,4,6) by (simp add: units_def)
  then have sq: "?a * 2 ^ 149 = ?b * ?b" by (simp only: of_nat_eq_iff)
  have "?a * 2 ^ 445 = ?a * 2 ^ 149 * 2 ^ 296" by (simp only: mult.assoc flip: power_add) simp
  also have "\<dots> = (?b * 2 ^ 148) * (?b * 2 ^ 148)" unfolding sq by (simp only: ac_simps flip: power_add) simp
  finally have r: "isqrt (?a * 2 ^ 445) = ?b * 2 ^ 148" "?b * 2 ^ 148 * (?b * 2 ^ 148) = ?a * 2 ^ 445"
    by (simp_all only: isqrt_square)
  obtain e q where b: "q < 2 ^ 24" "?b = q * 2 ^ e" by (rule float_shifted)
  have "2 * (?b * 2 ^ 148) + 0 = ?b * 2 ^ 149" by simp
  moreover have "double_of_nat (?b * 2 ^ 149) = ?b * 2 ^ 149"
    using double_exact [OF b(1), of "e + 149"] by (simp only: b(2) mult.assoc power_add)
  ultimately have "sqrt_double ?a = ?b * 2 ^ 149"
    unfolding sqrt_double_def Let_def r by (simp only: r simp_thms if_True)
  then have "f32_round False (sqrt_double ?a) 149 = y"
    using round_mag [of "f32_abs_bits y" 149] assms(2,4) make_of_bits [of y]
    by (simp add: f32_round_def f32_finite_def)
  moreover have "units x \<noteq> 0" using assms(5,6) by auto
  ultimately show ?thesis using assms(1,3) finite_not_nan [of x] by (simp add: gcmSQRTF_def)
qed

subsection \<open>Functions of the mathematical library\<close>

text \<open>
  A function that maps finite doubles into [-1, 1], as sine and cosine do, still does so after
  both conversions, so that clamping the result changes nothing.
\<close>

lemma unit_range:
  assumes "\<And>d. f64_finite d \<Longrightarrow> f64_finite (f d) \<and> mag64 (f64_abs_bits (f d)) \<le> 2 ^ 1074" "f32_finite x"
  shows "f32_finite (gcmSINF f x)" "\<bar>units (gcmSINF f x)\<bar> \<le> 2 ^ 149"
    "gcmFLOATCLAMP_NEG1_TO_1 (gcmSINF f x) = gcmSINF f x" "gcmCOSF f x = gcmSINF f x"
proof -
  have "mag 0x3F800000 * 2 ^ 925 = 2 ^ 1074" "mag 0x3F800000 < 2 ^ 277"
    unfolding mag_one by (simp_all flip: power_add)
  with assms(1) [OF widen_fields(1) [OF assms(2)]] cast_bound [of "f (f32_to_f64 x)" "0x3F800000"]
  have "f32_finite (gcmSINF f x) \<and> \<bar>units (gcmSINF f x)\<bar> \<le> int (mag 0x3F800000)"
    by (simp only: gcmSINF_def)
  then show fin: "f32_finite (gcmSINF f x)" and bound: "\<bar>units (gcmSINF f x)\<bar> \<le> 2 ^ 149"
    by (simp_all add: mag_one)
  from bound show "gcmFLOATCLAMP_NEG1_TO_1 (gcmSINF f x) = gcmSINF f x"
    using clamp_bounds one_bits by (auto simp: gcmFLOATCLAMP_NEG1_TO_1_def f32_less_def)
  show "gcmCOSF f x = gcmSINF f x" by (simp add: gcmSINF_def gcmCOSF_def)
qed

end
