(* ===== verification/Gc_Structures.thy ===== *)
theory Gc_Structures
  imports Gc_Layout
begin

section \<open>The structures of the GPU headers\<close>

text \<open>
  Every structure and union that the headers define, as the list of its members, and what their
  layout guarantees. \<open>hal_config\<close> has what the headers take from elsewhere: the conditions of
  their \<open>#if\<close> lines, two array lengths and the type \<open>gcsHAL_INTERFACE\<close>.
\<close>

subsection \<open>Types\<close>

type_synonym fields = "(string \<times> ctype) list"

record hal_config =
  gcdDEBUG_CODE :: bool
  gcdSECURE_USER :: bool
  qnxnto :: bool
  gcdLINK_QUEUE_SIZE :: nat
  gcvBLOCK_COUNT :: nat
  hal_interface :: ctype

definition gctBOOL :: ctype where "gctBOOL = CInt Signed 4"
definition gctINT :: ctype where "gctINT = CInt Signed 4"
definition gctINT32 :: ctype where "gctINT32 = CInt Signed 4"
definition gctUINT :: ctype where "gctUINT = CInt Unsigned 4"
definition gctUINT32 :: ctype where "gctUINT32 = CInt Unsigned 4"
definition gctUINT64 :: ctype where "gctUINT64 = CInt Unsigned 8"
definition gctSIZE_T :: ctype where "gctSIZE_T = CSize"
definition gctFLOAT :: ctype where "gctFLOAT = CFloat 4"
definition gctFIXED_POINT :: ctype where "gctFIXED_POINT = CInt Signed 4"
definition gctPHYS_ADDR :: ctype where "gctPHYS_ADDR = CPtr"
definition gctHANDLE :: ctype where "gctHANDLE = CPtr"
definition gctSIGNAL :: ctype where "gctSIGNAL = CPtr"
definition gctPOINTER :: ctype where "gctPOINTER = CPtr"

text \<open>An enumeration has the size of an \<open>int\<close>.\<close>

definition c_enum :: ctype where "c_enum = CInt Unsigned 4"

definition gcdENTRY_QUEUE_SIZE :: nat where "gcdENTRY_QUEUE_SIZE = 256"

lemmas gct_types [simp] = gctBOOL_def gctINT_def gctINT32_def gctUINT_def gctUINT32_def gctUINT64_def
  gctSIZE_T_def gctFLOAT_def gctFIXED_POINT_def gctPHYS_ADDR_def gctHANDLE_def gctSIGNAL_def
  gctPOINTER_def c_enum_def

subsection \<open>\<open>gc_hal_types.h\<close>\<close>

definition gcsCOUNT_STRING :: fields where
  "gcsCOUNT_STRING =
     [(''Length'', gctSIZE_T), (''String'', CPtr)]"

definition gcuFLOAT_UINT32 :: fields where
  "gcuFLOAT_UINT32 =
     [(''f'', gctFLOAT), (''u'', gctUINT32)]"

definition gcuVALUE :: fields where
  "gcuVALUE =
     [(''uintValue'', gctUINT), (''fixedValue'', gctFIXED_POINT), (''floatValue'', gctFLOAT),
      (''intValue'', gctINT)]"

definition gcs2D_PROFILE :: fields where
  "gcs2D_PROFILE =
     [(''cycleCount'', gctUINT32), (''pixelsRendered'', gctUINT32)]"

definition gcsDATABASE_COUNTERS :: fields where
  "gcsDATABASE_COUNTERS =
     [(''bytes'', gctUINT64), (''maxBytes'', gctUINT64), (''totalBytes'', gctUINT64)]"

definition gcuDATABASE_INFO :: fields where
  "gcuDATABASE_INFO =
     [(''counters'', CStruct gcsDATABASE_COUNTERS), (''time'', gctUINT64),
      (''dutycycle'', gctUINT32)]"

definition gcsHAL_FRAME_INFO :: fields where
  "gcsHAL_FRAME_INFO =
     [(''ticks'', gctUINT64), (''readBytes8'', CArray 8 gctUINT),
      (''writeBytes8'', CArray 8 gctUINT), (''cycles'', CArray 8 gctUINT),
      (''idleCycles'', CArray 8 gctUINT), (''mcCycles'', CArray 8 gctUINT),
      (''readRequests'', CArray 8 gctUINT), (''writeRequests'', CArray 8 gctUINT),
      (''vertexCount'', gctUINT), (''primitiveCount'', gctUINT),
      (''rejectedPrimitives'', gctUINT), (''culledPrimitives'', gctUINT),
      (''clippedPrimitives'', gctUINT), (''outPrimitives'', gctUINT),
      (''inPrimitives'', gctUINT), (''culledQuadCount'', gctUINT), (''totalQuadCount'', gctUINT),
      (''quadCount'', gctUINT), (''totalPixelCount'', gctUINT),
      (''colorKilled'', CArray 8 gctUINT), (''colorDrawn'', CArray 8 gctUINT),
      (''depthKilled'', CArray 8 gctUINT), (''depthDrawn'', CArray 8 gctUINT),
      (''shaderCycles'', gctUINT), (''vsInstructionCount'', gctUINT),
      (''vsTextureCount'', gctUINT), (''psInstructionCount'', gctUINT),
      (''psTextureCount'', gctUINT), (''bilinearRequests'', gctUINT),
      (''trilinearRequests'', gctUINT), (''txBytes8'', gctUINT), (''txHitCount'', gctUINT),
      (''txMissCount'', gctUINT)]"

definition gckLINKDATA :: fields where
  "gckLINKDATA =
     [(''start'', gctUINT32), (''end'', gctUINT32), (''pid'', gctUINT32),
      (''linkLow'', gctUINT32), (''linkHigh'', gctUINT32)]"

definition gckLINKQUEUE :: "hal_config \<Rightarrow> fields" where
  "gckLINKQUEUE cfg =
     [(''data'', CArray (gcdLINK_QUEUE_SIZE cfg) (CStruct gckLINKDATA)), (''rear'', gctUINT32),
      (''front'', gctUINT32), (''count'', gctUINT32)]"

definition gckENTRYDATA :: fields where
  "gckENTRYDATA =
     [(''physical'', gctUINT32), (''bytes'', gctUINT32)]"

definition gckENTRYQUEUE :: fields where
  "gckENTRYQUEUE =
     [(''data'', CArray gcdENTRY_QUEUE_SIZE (CStruct gckENTRYDATA)), (''rear'', gctUINT32),
      (''front'', gctUINT32), (''count'', gctUINT32)]"

subsection \<open>\<open>gc_hal.h\<close>\<close>

definition gcsOBJECT_members :: fields where
  "gcsOBJECT_members =
     [(''type'', c_enum)]"

definition gcsDEVOBJECT :: fields where
  "gcsDEVOBJECT =
     [(''id'', gctINT32), (''kobj'', gctPOINTER), (''freqt'', gctPOINTER)]"

subsection \<open>\<open>gc_hal_kernel_buffer.h\<close>\<close>

definition gcsSTATE_DELTA_RECORD :: fields where
  "gcsSTATE_DELTA_RECORD =
     [(''address'', gctUINT), (''mask'', gctUINT32), (''data'', gctUINT32)]"

definition gcsSTATE_DELTA :: "hal_config \<Rightarrow> fields" where
  "gcsSTATE_DELTA cfg =
     (if gcdDEBUG_CODE cfg then [(''num'', gctUINT)] else []) @
     [(''id'', gctUINT), (''refCount'', gctINT), (''elementCount'', gctUINT),
      (''recordCount'', gctUINT), (''recordArray'', gctUINT64), (''mapEntryID'', gctUINT64),
      (''mapEntryIDSize'', gctUINT), (''mapEntryIndex'', gctUINT64), (''prev'', gctUINT64),
      (''next'', gctUINT64)]"

definition gcsPATCH :: fields where
  "gcsPATCH =
     [(''pointer'', CPtr), (''data'', gctUINT32)]"

definition gcsPATCH_LIST :: fields where
  "gcsPATCH_LIST =
     [(''patch'', CArray 1024 (CStruct gcsPATCH)), (''count'', gctUINT), (''next'', CPtr)]"

definition gcoCMDBUF :: "hal_config \<Rightarrow> fields" where
  "gcoCMDBUF cfg =
     [(''object'', CStruct gcsOBJECT_members), (''commitCount'', gctUINT64),
      (''entryPipe'', c_enum), (''exitPipe'', c_enum), (''using2D'', gctBOOL),
      (''using3D'', gctBOOL), (''usingFilterBlit'', gctBOOL), (''usingPalette'', gctBOOL),
      (''physical'', gctUINT32), (''logical'', gctUINT64), (''bytes'', gctUINT32),
      (''startOffset'', gctUINT32), (''offset'', gctUINT32), (''free'', gctUINT32),
      (''lastReserve'', gctUINT64), (''lastOffset'', gctUINT32)] @
     (if gcdSECURE_USER cfg
      then [(''hintArraySize'', gctUINT), (''hintArray'', gctUINT64), (''hintArrayTail'', gctUINT64)]
      else []) @
     (if gcdDEBUG_CODE cfg
      then [(''lastLoadStatePtr'', gctUINT64), (''lastLoadStateAddress'', gctUINT32),
            (''lastLoadStateCount'', gctUINT32)]
      else []) @
     [(''signal'', gctSIGNAL), (''patchHead'', CPtr), (''patchTail'', CPtr), (''prev'', CPtr),
      (''next'', CPtr)]"

definition gcsQUEUE :: "hal_config \<Rightarrow> fields" where
  "gcsQUEUE cfg =
     [(''next'', gctUINT64), (''iface'', hal_interface cfg)]"

definition gcoQUEUE :: fields where
  "gcoQUEUE =
     [(''object'', CStruct gcsOBJECT_members), (''head'', CPtr), (''tail'', CPtr),
      (''chunks'', gctPOINTER), (''freeList'', CPtr), (''recordCount'', gctUINT32)]"

definition gcsTEMPCMDBUF :: fields where
  "gcsTEMPCMDBUF =
     [(''currentByteSize'', gctUINT32), (''buffer'', gctPOINTER), (''inUse'', gctBOOL)]"

subsection \<open>\<open>gc_hal_driver_vg.h\<close>\<close>

definition gcsCOMMAND_BUFFER_INFO :: fields where
  "gcsCOMMAND_BUFFER_INFO =
     [(''feBufferInt'', gctINT32), (''tsOverflowInt'', gctINT32), (''addressMask'', gctUINT),
      (''addressAlignment'', gctUINT32), (''commandAlignment'', gctUINT32),
      (''stateCommandSize'', gctUINT32), (''restartCommandSize'', gctUINT32),
      (''fetchCommandSize'', gctUINT32), (''callCommandSize'', gctUINT32),
      (''returnCommandSize'', gctUINT32), (''eventCommandSize'', gctUINT32),
      (''endCommandSize'', gctUINT32), (''staticTailSize'', gctUINT32),
      (''dynamicTailSize'', gctUINT32)]"

definition gcsTASK_HEADER :: fields where
  "gcsTASK_HEADER =
     [(''id'', c_enum)]"

definition gcsTASK_LINK :: fields where
  "gcsTASK_LINK =
     [(''id'', c_enum), (''cotainer'', gctPOINTER), (''task'', CPtr)]"

definition gcsTASK_CLUSTER :: fields where
  "gcsTASK_CLUSTER =
     [(''id'', c_enum), (''taskCount'', gctUINT)]"

definition gcsTASK_INCREMENT :: fields where
  "gcsTASK_INCREMENT =
     [(''id'', c_enum), (''address'', gctUINT32)]"

definition gcsTASK_DECREMENT :: fields where
  "gcsTASK_DECREMENT =
     [(''id'', c_enum), (''address'', gctUINT32)]"

definition gcsTASK_SIGNAL :: "hal_config \<Rightarrow> fields" where
  "gcsTASK_SIGNAL cfg =
     [(''id'', c_enum), (''process'', gctHANDLE), (''signal'', gctSIGNAL)] @
     (if qnxnto cfg then [(''coid'', gctINT32), (''rcvid'', gctINT32)] else [])"

definition gcsTASK_LOCKDOWN :: fields where
  "gcsTASK_LOCKDOWN =
     [(''id'', c_enum), (''userCounter'', gctUINT32), (''kernelCounter'', gctUINT32),
      (''process'', gctHANDLE), (''signal'', gctSIGNAL)]"

definition gcsTASK_UNLOCK_VIDEO_MEMORY :: fields where
  "gcsTASK_UNLOCK_VIDEO_MEMORY =
     [(''id'', c_enum), (''node'', gctUINT64)]"

definition gcsTASK_FREE_VIDEO_MEMORY :: fields where
  "gcsTASK_FREE_VIDEO_MEMORY =
     [(''id'', c_enum), (''node'', gctUINT32)]"

definition gcsTASK_FREE_CONTIGUOUS_MEMORY :: fields where
  "gcsTASK_FREE_CONTIGUOUS_MEMORY =
     [(''id'', c_enum), (''bytes'', gctSIZE_T), (''physical'', gctPHYS_ADDR),
      (''logical'', gctPOINTER)]"

definition gcsTASK_UNMAP_USER_MEMORY :: fields where
  "gcsTASK_UNMAP_USER_MEMORY =
     [(''id'', c_enum), (''memory'', gctPOINTER), (''size'', gctSIZE_T), (''info'', gctPOINTER),
      (''address'', gctUINT32)]"

subsection \<open>\<open>gc_hal_vg.h\<close>\<close>

definition gcsCMDBUFFER :: fields where
  "gcsCMDBUFFER =
     [(''completion'', CPtr), (''node'', CPtr), (''address'', gctUINT32),
      (''bufferOffset'', gctUINT32), (''size'', gctUINT32), (''offset'', gctUINT),
      (''dataCount'', gctUINT32), (''nextAllocated'', CPtr), (''nextSubBuffer'', CPtr)]"

definition gcsVGCMDQUEUE :: fields where
  "gcsVGCMDQUEUE =
     [(''commandBuffer'', CPtr), (''dynamic'', gctBOOL)]"

definition gcsVGCONTEXT_MAP :: fields where
  "gcsVGCONTEXT_MAP =
     [(''index'', gctUINT32), (''data'', gctUINT32), (''next'', CPtr)]"

definition gcsVGCONTEXT :: "hal_config \<Rightarrow> fields" where
  "gcsVGCONTEXT cfg =
     [(''id'', gctUINT64), (''stateCachingEnabled'', gctBOOL), (''currentPipe'', gctUINT32),
      (''mapFirst'', gctUINT32), (''mapLast'', gctUINT32), (''mapContainer'', CPtr),
      (''mapPrev'', CPtr), (''mapCurr'', CPtr), (''firstPrevMap'', CPtr),
      (''firstCurrMap'', CPtr), (''header'', CPtr), (''buffer'', CPtr), (''process'', gctHANDLE),
      (''signal'', gctSIGNAL)] @
     (if qnxnto cfg then [(''userSignal'', gctSIGNAL), (''coid'', gctINT32), (''rcvid'', gctINT32)] else [])"

definition gcsTASK :: fields where
  "gcsTASK =
     [(''next'', CPtr), (''size'', gctUINT)]"

definition gcsTASK_MASTER_ENTRY :: fields where
  "gcsTASK_MASTER_ENTRY =
     [(''head'', CPtr), (''tail'', CPtr)]"

definition gcsTASK_MASTER_TABLE :: "hal_config \<Rightarrow> fields" where
  "gcsTASK_MASTER_TABLE cfg =
     [(''table'', CArray (gcvBLOCK_COUNT cfg) (CStruct gcsTASK_MASTER_ENTRY)),
      (''count'', gctUINT), (''size'', gctUINT)] @
     (if qnxnto cfg then [(''coid'', gctINT32), (''rcvid'', gctINT32)] else [])"

subsection \<open>All structures\<close>

text \<open>The tasks of the vector graphics driver, and all structures but \<open>gcsQUEUE\<close>, whose layout
  depends on a type that is not in the headers.\<close>

definition task_structures :: "hal_config \<Rightarrow> (string \<times> fields) list" where
  "task_structures cfg =
     [(''gcsTASK_HEADER'', gcsTASK_HEADER), (''gcsTASK_LINK'', gcsTASK_LINK),
      (''gcsTASK_CLUSTER'', gcsTASK_CLUSTER), (''gcsTASK_INCREMENT'', gcsTASK_INCREMENT),
      (''gcsTASK_DECREMENT'', gcsTASK_DECREMENT), (''gcsTASK_SIGNAL'', gcsTASK_SIGNAL cfg),
      (''gcsTASK_LOCKDOWN'', gcsTASK_LOCKDOWN),
      (''gcsTASK_UNLOCK_VIDEO_MEMORY'', gcsTASK_UNLOCK_VIDEO_MEMORY),
      (''gcsTASK_FREE_VIDEO_MEMORY'', gcsTASK_FREE_VIDEO_MEMORY),
      (''gcsTASK_FREE_CONTIGUOUS_MEMORY'', gcsTASK_FREE_CONTIGUOUS_MEMORY),
      (''gcsTASK_UNMAP_USER_MEMORY'', gcsTASK_UNMAP_USER_MEMORY)]"

definition hal_structures :: "hal_config \<Rightarrow> (string \<times> fields) list" where
  "hal_structures cfg = task_structures cfg @
     [(''gcsCOUNT_STRING'', gcsCOUNT_STRING), (''gcs2D_PROFILE'', gcs2D_PROFILE),
      (''gcsDATABASE_COUNTERS'', gcsDATABASE_COUNTERS), (''gcuDATABASE_INFO'', gcuDATABASE_INFO),
      (''gcsHAL_FRAME_INFO'', gcsHAL_FRAME_INFO), (''gckLINKDATA'', gckLINKDATA),
      (''gckLINKQUEUE'', gckLINKQUEUE cfg), (''gckENTRYDATA'', gckENTRYDATA),
      (''gckENTRYQUEUE'', gckENTRYQUEUE), (''gcsOBJECT'', gcsOBJECT_members),
      (''gcsDEVOBJECT'', gcsDEVOBJECT), (''gcsSTATE_DELTA_RECORD'', gcsSTATE_DELTA_RECORD),
      (''gcsSTATE_DELTA'', gcsSTATE_DELTA cfg), (''gcsPATCH'', gcsPATCH),
      (''gcsPATCH_LIST'', gcsPATCH_LIST), (''gcoCMDBUF'', gcoCMDBUF cfg),
      (''gcoQUEUE'', gcoQUEUE), (''gcsTEMPCMDBUF'', gcsTEMPCMDBUF),
      (''gcsCOMMAND_BUFFER_INFO'', gcsCOMMAND_BUFFER_INFO), (''gcsCMDBUFFER'', gcsCMDBUFFER),
      (''gcsVGCMDQUEUE'', gcsVGCMDQUEUE), (''gcsVGCONTEXT_MAP'', gcsVGCONTEXT_MAP),
      (''gcsVGCONTEXT'', gcsVGCONTEXT cfg), (''gcsTASK'', gcsTASK),
      (''gcsTASK_MASTER_ENTRY'', gcsTASK_MASTER_ENTRY),
      (''gcsTASK_MASTER_TABLE'', gcsTASK_MASTER_TABLE cfg)]"

lemmas structure_defs = gcsCOUNT_STRING_def gcs2D_PROFILE_def gcsDATABASE_COUNTERS_def
  gcuDATABASE_INFO_def gcsHAL_FRAME_INFO_def gckLINKDATA_def gckLINKQUEUE_def gckENTRYDATA_def
  gckENTRYQUEUE_def gcsOBJECT_members_def gcsDEVOBJECT_def gcsSTATE_DELTA_RECORD_def
  gcsSTATE_DELTA_def gcsPATCH_def gcsPATCH_LIST_def gcoCMDBUF_def gcoQUEUE_def gcsTEMPCMDBUF_def
  gcsCOMMAND_BUFFER_INFO_def gcsTASK_HEADER_def gcsTASK_LINK_def gcsTASK_CLUSTER_def
  gcsTASK_INCREMENT_def gcsTASK_DECREMENT_def gcsTASK_SIGNAL_def gcsTASK_LOCKDOWN_def
  gcsTASK_UNLOCK_VIDEO_MEMORY_def gcsTASK_FREE_VIDEO_MEMORY_def gcsTASK_FREE_CONTIGUOUS_MEMORY_def
  gcsTASK_UNMAP_USER_MEMORY_def gcsCMDBUFFER_def gcsVGCMDQUEUE_def gcsVGCONTEXT_MAP_def
  gcsVGCONTEXT_def gcsTASK_def gcsTASK_MASTER_ENTRY_def gcsTASK_MASTER_TABLE_def
  gcdENTRY_QUEUE_SIZE_def

definition shared_structures :: "string list" where
  "shared_structures =
     [''gcs2D_PROFILE'', ''gcsDATABASE_COUNTERS'', ''gcuDATABASE_INFO'', ''gcsHAL_FRAME_INFO'',
      ''gckLINKDATA'', ''gckLINKQUEUE'', ''gckENTRYDATA'', ''gckENTRYQUEUE'', ''gcsOBJECT'',
      ''gcsSTATE_DELTA_RECORD'', ''gcsSTATE_DELTA'', ''gcsCOMMAND_BUFFER_INFO'',
      ''gcsTASK_HEADER'', ''gcsTASK_CLUSTER'', ''gcsTASK_INCREMENT'', ''gcsTASK_DECREMENT'',
      ''gcsTASK_UNLOCK_VIDEO_MEMORY'', ''gcsTASK_FREE_VIDEO_MEMORY'']"

subsection \<open>Every structure is well formed\<close>

definition wf_structure :: "fields \<Rightarrow> bool" where
  "wf_structure fs \<longleftrightarrow> wf_fields fs \<and> distinct (map fst fs)"

lemma wf_structures_plain:
  "wf_structure gcsCOUNT_STRING" "wf_structure gcs2D_PROFILE"
  "wf_structure gcsDATABASE_COUNTERS" "wf_structure gcuDATABASE_INFO"
  "wf_structure gcsHAL_FRAME_INFO" "wf_structure gckLINKDATA" "wf_structure gckENTRYDATA"
  "wf_structure gckENTRYQUEUE" "wf_structure gcsOBJECT_members" "wf_structure gcsDEVOBJECT"
  "wf_structure gcsSTATE_DELTA_RECORD" "wf_structure gcsPATCH" "wf_structure gcsPATCH_LIST"
  "wf_structure gcoQUEUE" "wf_structure gcsTEMPCMDBUF" "wf_structure gcsCOMMAND_BUFFER_INFO"
  "wf_structure gcsTASK_HEADER" "wf_structure gcsTASK_LINK" "wf_structure gcsTASK_CLUSTER"
  "wf_structure gcsTASK_INCREMENT" "wf_structure gcsTASK_DECREMENT"
  "wf_structure gcsTASK_LOCKDOWN" "wf_structure gcsTASK_UNLOCK_VIDEO_MEMORY"
  "wf_structure gcsTASK_FREE_VIDEO_MEMORY" "wf_structure gcsTASK_FREE_CONTIGUOUS_MEMORY"
  "wf_structure gcsTASK_UNMAP_USER_MEMORY" "wf_structure gcsCMDBUFFER"
  "wf_structure gcsVGCMDQUEUE" "wf_structure gcsVGCONTEXT_MAP" "wf_structure gcsTASK"
  "wf_structure gcsTASK_MASTER_ENTRY"
  by (simp_all add: wf_structure_def structure_defs)

lemma wf_structures_configured:
  "wf_structure (gckLINKQUEUE cfg) \<and> wf_structure (gcsSTATE_DELTA cfg) \<and> wf_structure (gcoCMDBUF cfg) \<and>
   wf_structure (gcsTASK_SIGNAL cfg) \<and> wf_structure (gcsVGCONTEXT cfg) \<and> wf_structure (gcsTASK_MASTER_TABLE cfg)"
  by (cases "gcdDEBUG_CODE cfg"; cases "gcdSECURE_USER cfg"; cases "qnxnto cfg";
      simp add: wf_structure_def structure_defs)

lemma hal_structures_wf: "(S, fs) \<in> set (hal_structures cfg) \<Longrightarrow> wf_structure fs"
  by (auto simp: hal_structures_def task_structures_def wf_structures_plain wf_structures_configured)

subsection \<open>What a layout guarantees\<close>

lemma sorted_wrt_pair: "sorted_wrt R xs \<Longrightarrow> x \<in> set xs \<Longrightarrow> y \<in> set xs \<Longrightarrow> x \<noteq> y \<Longrightarrow> R x y \<or> R y x"
  by (induction xs) auto

text \<open>A member of a structure of less than 4 GB: \<open>gcmOFFSETOF\<close> is its place in the layout.\<close>

lemma offset_of_member:
  assumes "abi_ok abi" "wf_structure fs" "gcmSIZEOF abi (CStruct fs) < 2 ^ 32" "(f, t) \<in> set fs"
  obtains off where "(f, off, t) \<in> set (layout abi 0 fs)" "gcmOFFSETOF abi fs f = Some (of_nat off)"
    "unat (of_nat off :: u32) = off" "c_align abi t dvd off" "off + c_size abi t \<le> gcmSIZEOF abi (CStruct fs)"
proof -
  from layout_complete [OF assms(4)] obtain off where m: "(f, off, t) \<in> set (layout abi 0 fs)" by blast
  from layout_member [OF assms(1) _ m] assms(2)
  have law: "c_align abi t dvd off" "off + c_size abi t \<le> fields_end abi 0 fs" by (auto simp: wf_structure_def)
  have "0 < fields_align abi fs" using assms(1,2) by (auto simp: wf_structure_def intro: pow2_pos pow2_align)
  then have "fields_end abi 0 fs \<le> gcmSIZEOF abi (CStruct fs)" by (simp add: gcmSIZEOF_def align_up_ge)
  with law(2) have le: "off + c_size abi t \<le> gcmSIZEOF abi (CStruct fs)" by linarith
  with assms(3) have "off < 2 ^ 32" by linarith
  then have un: "unat (of_nat off :: u32) = off" by (simp add: unat_of_nat)
  have "distinct (map fst (layout abi 0 fs))" using assms(2) by (simp add: layout_names wf_structure_def)
  with m have "map_of (layout abi 0 fs) f = Some (off, t)" by simp
  then have "gcmOFFSETOF abi fs f = Some (of_nat off)" by (simp add: gcmOFFSETOF_def)
  from that [OF m this un law(1) le] show thesis .
qed

lemma members_disjoint:
  assumes "abi_ok abi" "wf_structure fs" "(f, o1, t) \<in> set (layout abi 0 fs)" "(g, o2, u) \<in> set (layout abi 0 fs)" "f \<noteq> g"
  shows "o1 + c_size abi t \<le> o2 \<or> o2 + c_size abi u \<le> o1"
  using sorted_wrt_pair [OF layout_ordered [OF assms(1), of fs] assms(3,4)] assms(2,5) by (auto simp: wf_structure_def)

subsection \<open>The structures that both sides see alike\<close>

lemma shared_fixed:
  "\<forall>(S, fs)\<in>set (hal_structures cfg). S \<in> set shared_structures \<longrightarrow> fixed_fields fs"
  by (simp add: hal_structures_def task_structures_def shared_structures_def structure_defs)

lemma pointer_sizes:
  "gcmSIZEOF arm32 (CStruct gcsCOUNT_STRING) \<noteq> gcmSIZEOF arm64 (CStruct gcsCOUNT_STRING)"
  "gcmSIZEOF arm32 (CStruct gcsDEVOBJECT) \<noteq> gcmSIZEOF arm64 (CStruct gcsDEVOBJECT)"
  "gcmSIZEOF arm32 (CStruct gcsPATCH) \<noteq> gcmSIZEOF arm64 (CStruct gcsPATCH)"
  "gcmSIZEOF arm32 (CStruct gcsPATCH_LIST) \<noteq> gcmSIZEOF arm64 (CStruct gcsPATCH_LIST)"
  "gcmSIZEOF arm32 (CStruct (gcoCMDBUF cfg)) \<noteq> gcmSIZEOF arm64 (CStruct (gcoCMDBUF cfg))"
  "gcmSIZEOF arm32 (CStruct gcoQUEUE) \<noteq> gcmSIZEOF arm64 (CStruct gcoQUEUE)"
  "gcmSIZEOF arm32 (CStruct gcsTEMPCMDBUF) \<noteq> gcmSIZEOF arm64 (CStruct gcsTEMPCMDBUF)"
  "gcmSIZEOF arm32 (CStruct gcsTASK_LINK) \<noteq> gcmSIZEOF arm64 (CStruct gcsTASK_LINK)"
  "gcmSIZEOF arm32 (CStruct (gcsTASK_SIGNAL cfg)) \<noteq> gcmSIZEOF arm64 (CStruct (gcsTASK_SIGNAL cfg))"
  "gcmSIZEOF arm32 (CStruct gcsTASK_LOCKDOWN) \<noteq> gcmSIZEOF arm64 (CStruct gcsTASK_LOCKDOWN)"
  "gcmSIZEOF arm32 (CStruct gcsTASK_FREE_CONTIGUOUS_MEMORY) \<noteq> gcmSIZEOF arm64 (CStruct gcsTASK_FREE_CONTIGUOUS_MEMORY)"
  "gcmSIZEOF arm32 (CStruct gcsTASK_UNMAP_USER_MEMORY) \<noteq> gcmSIZEOF arm64 (CStruct gcsTASK_UNMAP_USER_MEMORY)"
  "gcmSIZEOF arm32 (CStruct gcsCMDBUFFER) \<noteq> gcmSIZEOF arm64 (CStruct gcsCMDBUFFER)"
  "gcmSIZEOF arm32 (CStruct gcsVGCMDQUEUE) \<noteq> gcmSIZEOF arm64 (CStruct gcsVGCMDQUEUE)"
  "gcmSIZEOF arm32 (CStruct gcsVGCONTEXT_MAP) \<noteq> gcmSIZEOF arm64 (CStruct gcsVGCONTEXT_MAP)"
  "gcmSIZEOF arm32 (CStruct (gcsVGCONTEXT cfg)) \<noteq> gcmSIZEOF arm64 (CStruct (gcsVGCONTEXT cfg))"
  "gcmSIZEOF arm32 (CStruct gcsTASK) \<noteq> gcmSIZEOF arm64 (CStruct gcsTASK)"
  "gcmSIZEOF arm32 (CStruct gcsTASK_MASTER_ENTRY) \<noteq> gcmSIZEOF arm64 (CStruct gcsTASK_MASTER_ENTRY)"
  by (simp_all add: gcmSIZEOF_def structure_defs arm32_def arm64_def align_up_def)

lemma master_table_size:
  "0 < gcvBLOCK_COUNT cfg \<Longrightarrow>
   gcmSIZEOF arm32 (CStruct (gcsTASK_MASTER_TABLE cfg)) < gcmSIZEOF arm64 (CStruct (gcsTASK_MASTER_TABLE cfg))"
  by (cases "qnxnto cfg"; simp add: gcmSIZEOF_def structure_defs arm32_def arm64_def align_up_def; presburger)

lemma unshared_differ:
  assumes "0 < gcvBLOCK_COUNT cfg"
  shows "\<forall>(S, fs)\<in>set (hal_structures cfg). S \<notin> set shared_structures \<longrightarrow>
    gcmSIZEOF arm32 (CStruct fs) \<noteq> gcmSIZEOF arm64 (CStruct fs)"
  using master_table_size [OF assms]
  by (simp add: hal_structures_def task_structures_def shared_structures_def pointer_sizes)

subsection \<open>Tasks\<close>

text \<open>
  \<open>gcsTASK_HEADER\<close> is how a task is read whose kind is not known yet: every task begins with it,
  on every interface.
\<close>

lemma tasks_begin_with_header:
  "\<forall>(S, fs)\<in>set (task_structures cfg). take (length gcsTASK_HEADER) fs = gcsTASK_HEADER"
  by (simp add: task_structures_def structure_defs)

lemma task_id_first:
  "\<forall>(S, fs)\<in>set (task_structures cfg).
     gcmOFFSETOF abi fs ''id'' = Some 0 \<and> map_of fs ''id'' = Some c_enum"
  by (simp add: task_structures_def structure_defs gcmOFFSETOF_def Let_def)

datatype (plugins only: size) gceTASK =
    gcvTASK_LINK
  | gcvTASK_CLUSTER
  | gcvTASK_INCREMENT
  | gcvTASK_DECREMENT
  | gcvTASK_SIGNAL
  | gcvTASK_LOCKDOWN
  | gcvTASK_UNLOCK_VIDEO_MEMORY
  | gcvTASK_FREE_VIDEO_MEMORY
  | gcvTASK_FREE_CONTIGUOUS_MEMORY
  | gcvTASK_UNMAP_USER_MEMORY

text \<open>The structure that a task of each kind has, by the name that its comment gives it.\<close>

primrec task_fields :: "hal_config \<Rightarrow> gceTASK \<Rightarrow> fields" where
  "task_fields cfg gcvTASK_LINK = gcsTASK_LINK"
| "task_fields cfg gcvTASK_CLUSTER = gcsTASK_CLUSTER"
| "task_fields cfg gcvTASK_INCREMENT = gcsTASK_INCREMENT"
| "task_fields cfg gcvTASK_DECREMENT = gcsTASK_DECREMENT"
| "task_fields cfg gcvTASK_SIGNAL = gcsTASK_SIGNAL cfg"
| "task_fields cfg gcvTASK_LOCKDOWN = gcsTASK_LOCKDOWN"
| "task_fields cfg gcvTASK_UNLOCK_VIDEO_MEMORY = gcsTASK_UNLOCK_VIDEO_MEMORY"
| "task_fields cfg gcvTASK_FREE_VIDEO_MEMORY = gcsTASK_FREE_VIDEO_MEMORY"
| "task_fields cfg gcvTASK_FREE_CONTIGUOUS_MEMORY = gcsTASK_FREE_CONTIGUOUS_MEMORY"
| "task_fields cfg gcvTASK_UNMAP_USER_MEMORY = gcsTASK_UNMAP_USER_MEMORY"

lemma task_fields_listed: "task_fields cfg k \<in> snd ` set (task_structures cfg)"
  by (cases k; simp add: task_structures_def)

subsection \<open>Some layouts\<close>

text \<open>
  A state delta without the debug counter, on ARM and on i386, whose interface has no padding
  before a 64-bit member; the event of a queue element; the unions.
\<close>

lemma state_delta_layout:
  assumes "\<not> gcdDEBUG_CODE cfg"
  shows "map (\<lambda>(f, off, t). off) (layout arm32 0 (gcsSTATE_DELTA cfg)) = [0, 4, 8, 12, 16, 24, 32, 40, 48, 56]"
    and "gcmSIZEOF arm32 (CStruct (gcsSTATE_DELTA cfg)) = 64"
    and "map (\<lambda>(f, off, t). off) (layout i386 0 (gcsSTATE_DELTA cfg)) = [0, 4, 8, 12, 16, 24, 32, 36, 44, 52]"
    and "gcmSIZEOF i386 (CStruct (gcsSTATE_DELTA cfg)) = 60"
  using assms by (simp_all add: gcsSTATE_DELTA_def gcmSIZEOF_def Let_def align_up_def arm32_def i386_def)

lemma queue_iface_offset:
  assumes "abi_ok abi" "wf_ctype (hal_interface cfg)"
  shows "gcmOFFSETOF abi (gcsQUEUE cfg) ''iface'' = Some 8"
proof -
  have "align_up 8 (c_align abi (hal_interface cfg)) = 8" using assms by (intro align_up_8 pow2_align)
  then show ?thesis by (simp add: gcsQUEUE_def gcmOFFSETOF_def Let_def)
qed

lemma union_sizes:
  assumes "abi_ok abi"
  shows "gcmSIZEOF abi (CUnion gcuFLOAT_UINT32) = 4" "gcmSIZEOF abi (CUnion gcuVALUE) = 4"
proof -
  have "scalar_align abi 4 dvd 4" "0 < scalar_align abi 4" using assms by (auto simp: abi_ok_def intro: pow2_pos)
  then show "gcmSIZEOF abi (CUnion gcuFLOAT_UINT32) = 4" "gcmSIZEOF abi (CUnion gcuVALUE) = 4"
    by (simp_all add: gcuFLOAT_UINT32_def gcuVALUE_def gcmSIZEOF_def max_def align_up_same)
qed

subsection \<open>Properties\<close>

text \<open>The layout rule is sound for every structure of the GPU headers but \<open>gcsQUEUE\<close>, on every usual
  binary interface, as long as it is smaller than 4 GB: the offset that \<open>gcmOFFSETOF\<close> gives for a member is aligned for its type wherever the structure is
  aligned, the member ends inside the structure, no two members share a byte, and the size is a
  multiple of the alignment, so that arrays of the structure keep it.\<close>
theorem gc_struct_layout:
  assumes "abi_ok abi" "(S, fs) \<in> set (hal_structures cfg)" "gcmSIZEOF abi (CStruct fs) < 2 ^ 32" "(f, t) \<in> set fs"
  shows "c_align abi (CStruct fs) dvd gcmSIZEOF abi (CStruct fs) \<and>
    (\<exists>o1. gcmOFFSETOF abi fs f = Some o1 \<and>
      (\<forall>p. c_align abi (CStruct fs) dvd p \<longrightarrow> c_align abi t dvd p + unat o1) \<and>
      unat o1 + gcmSIZEOF abi t \<le> gcmSIZEOF abi (CStruct fs) \<and>
      (\<forall>(g, u)\<in>set fs. g \<noteq> f \<longrightarrow> (\<exists>o2. gcmOFFSETOF abi fs g = Some o2 \<and>
         (unat o1 + gcmSIZEOF abi t \<le> unat o2 \<or> unat o2 + gcmSIZEOF abi u \<le> unat o1))))"
proof -
  have wf: "wf_structure fs" using assms(2) by (rule hal_structures_wf)
  obtain o1 where o1: "(f, o1, t) \<in> set (layout abi 0 fs)" "gcmOFFSETOF abi fs f = Some (of_nat o1)"
    "unat (of_nat o1 :: u32) = o1" "c_align abi t dvd o1" "o1 + c_size abi t \<le> gcmSIZEOF abi (CStruct fs)"
    using offset_of_member [OF assms(1) wf assms(3,4)] .
  have al: "c_align abi t dvd c_align abi (CStruct fs)"
    using wf align_member [OF assms(1) _ assms(4)] by (simp add: wf_structure_def)
  have "\<exists>o2. gcmOFFSETOF abi fs g = Some o2 \<and>
      (o1 + gcmSIZEOF abi t \<le> unat o2 \<or> unat o2 + gcmSIZEOF abi u \<le> o1)" if mem: "(g, u) \<in> set fs" and ne: "g \<noteq> f" for g u
  proof -
    obtain o2 where "(g, o2, u) \<in> set (layout abi 0 fs)" "gcmOFFSETOF abi fs g = Some (of_nat o2)"
      "unat (of_nat o2 :: u32) = o2" by (rule offset_of_member [OF assms(1) wf assms(3) mem])
    with members_disjoint [OF assms(1) wf o1(1)] ne show ?thesis by (simp add: gcmSIZEOF_def)
  qed
  with o1 al show ?thesis by (auto simp: gcmSIZEOF_def intro: dvd_trans)
qed

definition demo_config :: hal_config where
  "demo_config = \<lparr>gcdDEBUG_CODE = False, gcdSECURE_USER = False, qnxnto = False,
     gcdLINK_QUEUE_SIZE = 64, gcvBLOCK_COUNT = 4, hal_interface = CPtr\<rparr>"

theorem gc_struct_layout_witness:
  "\<exists>o1. gcmOFFSETOF arm64 gcsTASK_UNMAP_USER_MEMORY ''info'' = Some o1 \<and> unat o1 + 8 \<le> 40"
proof -
  let ?fs = gcsTASK_UNMAP_USER_MEMORY
  have size: "gcmSIZEOF arm64 (CStruct ?fs) = 40"
    by (simp add: gcsTASK_UNMAP_USER_MEMORY_def gcmSIZEOF_def arm64_def align_up_def)
  have mem: "(''gcsTASK_UNMAP_USER_MEMORY'', ?fs) \<in> set (hal_structures demo_config)"
    by (simp add: hal_structures_def task_structures_def)
  have info: "(''info'', CPtr) \<in> set ?fs" by (simp add: gcsTASK_UNMAP_USER_MEMORY_def)
  have bound: "gcmSIZEOF arm64 (CStruct ?fs) < 2 ^ 32" by (simp add: size)
  from gc_struct_layout [OF abi_ok_instances(2) mem bound info] obtain o1 where
    "gcmOFFSETOF arm64 ?fs ''info'' = Some o1" "unat o1 + gcmSIZEOF arm64 CPtr \<le> gcmSIZEOF arm64 (CStruct ?fs)"
    by blast
  then show ?thesis unfolding size by (simp add: gcmSIZEOF_def arm64_def)
qed

text \<open>C29. Kernel and user side: a 32-bit library and a 64-bit kernel on ARM see the same size and the
  same members of a structure exactly if it is one of the eighteen that hold no pointer and no
  \<open>gctSIZE_T\<close>, the state delta and the counters among them; of the others even the sizes differ.\<close>
theorem gc_shared_layout:
  assumes "(S, fs) \<in> set (hal_structures cfg)" "0 < gcvBLOCK_COUNT cfg"
  shows "(gcmSIZEOF arm32 (CStruct fs) = gcmSIZEOF arm64 (CStruct fs) \<and>
      (\<forall>f. gcmOFFSETOF arm32 fs f = gcmOFFSETOF arm64 fs f)) \<longleftrightarrow> S \<in> set shared_structures"
proof (cases "S \<in> set shared_structures")
  case True
  with shared_fixed [of cfg] assms(1) have "fixed_fields fs" by fast
  then show ?thesis
    using True by (simp add: gcmSIZEOF_def gcmOFFSETOF_def arm.fixed_layout arm.fixed_align arm.fixed_size)
next
  case False
  with unshared_differ [OF assms(2)] assms(1) show ?thesis by fast
qed

theorem gc_shared_layout_witness:
  "\<forall>f. gcmOFFSETOF arm32 (gcsSTATE_DELTA demo_config) f = gcmOFFSETOF arm64 (gcsSTATE_DELTA demo_config) f"
proof -
  have "(''gcsSTATE_DELTA'', gcsSTATE_DELTA demo_config) \<in> set (hal_structures demo_config)"
    by (simp add: hal_structures_def)
  moreover have "0 < gcvBLOCK_COUNT demo_config" by (simp add: demo_config_def)
  ultimately have "gcmSIZEOF arm32 (CStruct (gcsSTATE_DELTA demo_config)) = gcmSIZEOF arm64 (CStruct (gcsSTATE_DELTA demo_config)) \<and>
      (\<forall>f. gcmOFFSETOF arm32 (gcsSTATE_DELTA demo_config) f = gcmOFFSETOF arm64 (gcsSTATE_DELTA demo_config) f)"
    using gc_shared_layout [of "''gcsSTATE_DELTA''" "gcsSTATE_DELTA demo_config" demo_config]
    by (simp add: shared_structures_def)
  then show ?thesis ..
qed

end
