(* ===== verification/Gc_Api_Types.thy ===== *)
theory Gc_Api_Types
  imports Gc_Layout
begin

section \<open>The interface of the GPU kernel driver: types\<close>

text \<open>
  The functions of the GPU kernel driver are declared in \<open>include/hardware/gc_hal.h\<close> and
  \<open>include/hardware/gc_hal_vg.h\<close> and defined elsewhere. What the repository has of each is its
  prototype: the type of the result and, for each parameter, its type and the direction mark
  (\<open>IN\<close>, \<open>OUT\<close>, both or none), and the \<open>#if\<close> lines around it. Here are these types; a type name of C
  has the suffix \<open>_t\<close>.
\<close>

subsection \<open>Types and prototypes\<close>

text \<open>A \<open>Foreign\<close> type is declared in a header that is not in the repository.\<close>

datatype hal_type =
    Void
  | Scalar ctype
  | Enum string
  | Struct string
  | Ptr hal_type
  | Const hal_type
  | Function hal_type "hal_type list"
  | Foreign string

datatype direction = Unmarked | IN | OUT | INOUT

text \<open>The options that the \<open>#if\<close> lines test; \<open>QNXNTO\<close> is \<open>__QNXNTO__\<close>.\<close>

datatype build_flag =
    gcdENABLE_VG
  | gcdMULTI_GPU
  | gcdSECURITY
  | USE_NEW_LINUX_SIGNAL
  | gcdPOWEROFF_TIMEOUT
  | QNXNTO
  | MRVL_CONFIG_ENABLE_GPUFREQ
  | gcdENABLE_FSCALE_VAL_ADJUST
  | MRVL_USE_GPU_RESERVE_MEM
  | VIVANTE_PROFILER_CONTEXT
  | MRVL_OLD_FLUSHCACHE
  | gcdPROCESS_ADDRESS_SPACE
  | VIVANTE_PROFILER
  | VIVANTE_PROFILER_NEW

record prototype =
  proto_when :: "(build_flag \<times> bool) list"
  proto_result :: hal_type
  proto_name :: string
  proto_params :: "(direction \<times> hal_type \<times> string) list"

definition proto :: "(build_flag \<times> bool) list \<Rightarrow> hal_type \<Rightarrow> string \<Rightarrow>
    (direction \<times> hal_type \<times> string) list \<Rightarrow> prototype" where
  "proto cs r n ps = \<lparr>proto_when = cs, proto_result = r, proto_name = n, proto_params = ps\<rparr>"

text \<open>The compiler sees a prototype when the conditions around it hold.\<close>

definition declared :: "(build_flag \<Rightarrow> bool) \<Rightarrow> prototype \<Rightarrow> bool" where
  "declared build p \<longleftrightarrow> (\<forall>(f, v)\<in>set (proto_when p). build f = v)"

subsection \<open>Scalars and untyped pointers\<close>

definition gctBOOL_t :: hal_type where "gctBOOL_t = Scalar (CInt Signed 4)"
definition gctINT_t :: hal_type where "gctINT_t = Scalar (CInt Signed 4)"
definition gctINT32_t :: hal_type where "gctINT32_t = Scalar (CInt Signed 4)"
definition gctUINT_t :: hal_type where "gctUINT_t = Scalar (CInt Unsigned 4)"
definition gctUINT8_t :: hal_type where "gctUINT8_t = Scalar (CInt Unsigned 1)"
definition gctUINT32_t :: hal_type where "gctUINT32_t = Scalar (CInt Unsigned 4)"
definition gctUINT64_t :: hal_type where "gctUINT64_t = Scalar (CInt Unsigned 8)"
definition gctSIZE_T_t :: hal_type where "gctSIZE_T_t = Scalar CSize"
definition gctPHYS_ADDR_t :: hal_type where "gctPHYS_ADDR_t = Ptr Void"
definition gctHANDLE_t :: hal_type where "gctHANDLE_t = Ptr Void"
definition gctSIGNAL_t :: hal_type where "gctSIGNAL_t = Ptr Void"
definition gctSYNC_POINT_t :: hal_type where "gctSYNC_POINT_t = Ptr Void"
definition gctSEMAPHORE_t :: hal_type where "gctSEMAPHORE_t = Ptr Void"
definition gctPOINTER_t :: hal_type where "gctPOINTER_t = Ptr Void"
definition gctCONST_POINTER_t :: hal_type where "gctCONST_POINTER_t = Ptr (Const Void)"
definition gctCONST_STRING_t :: hal_type where "gctCONST_STRING_t = Ptr (Const (Scalar (CInt Unsigned 1)))"
definition gctPHYS_ADDR_T_t :: hal_type where "gctPHYS_ADDR_T_t = gctUINT64_t"
definition gctBOOL_PTR_t :: hal_type where "gctBOOL_PTR_t = Ptr gctBOOL_t"
definition gctINT32_PTR_t :: hal_type where "gctINT32_PTR_t = Ptr gctINT32_t"
definition gctUINT8_PTR_t :: hal_type where "gctUINT8_PTR_t = Ptr gctUINT8_t"
definition gctUINT32_PTR_t :: hal_type where "gctUINT32_PTR_t = Ptr gctUINT32_t"
definition gctUINT64_PTR_t :: hal_type where "gctUINT64_PTR_t = Ptr gctUINT64_t"

subsection \<open>Enumerations and objects of these headers\<close>

definition gceSTATUS_t :: hal_type where "gceSTATUS_t = Enum ''gceSTATUS''"
definition gceBROADCAST_t :: hal_type where "gceBROADCAST_t = Enum ''gceBROADCAST''"
definition gceCORE_t :: hal_type where "gceCORE_t = Enum ''gceCORE''"
definition gceGPUFreqEvent_t :: hal_type where "gceGPUFreqEvent_t = Enum ''gceGPUFreqEvent''"
definition gceKERNEL_FLUSH_t :: hal_type where "gceKERNEL_FLUSH_t = Enum ''gceKERNEL_FLUSH''"
definition gceNOTIFY_t :: hal_type where "gceNOTIFY_t = Enum ''gceNOTIFY''"
definition gcePulseEaterDomain_t :: hal_type where "gcePulseEaterDomain_t = Enum ''gcePulseEaterDomain''"
definition struct_gcsHAL_INTERFACE_t :: hal_type where "struct_gcsHAL_INTERFACE_t = Struct ''_gcsHAL_INTERFACE''"
definition gckCOMMAND_t :: hal_type where "gckCOMMAND_t = Ptr (Struct ''_gckCOMMAND'')"
definition gckDB_t :: hal_type where "gckDB_t = Ptr (Struct ''_gckDB'')"
definition gckDVFS_t :: hal_type where "gckDVFS_t = Ptr (Struct ''_gckDVFS'')"
definition gckEVENT_t :: hal_type where "gckEVENT_t = Ptr (Struct ''_gckEVENT'')"
definition gckHARDWARE_t :: hal_type where "gckHARDWARE_t = Ptr (Struct ''_gckHARDWARE'')"
definition gckHEAP_t :: hal_type where "gckHEAP_t = Ptr (Struct ''_gckHEAP'')"
definition gckINTERRUPT_t :: hal_type where "gckINTERRUPT_t = Ptr (Struct ''_gckINTERRUPT'')"
definition gckKERNEL_t :: hal_type where "gckKERNEL_t = Ptr (Struct ''_gckKERNEL'')"
definition gckMMU_t :: hal_type where "gckMMU_t = Ptr (Struct ''_gckMMU'')"
definition gckVGCOMMAND_t :: hal_type where "gckVGCOMMAND_t = Ptr (Struct ''_gckVGCOMMAND'')"
definition gckVGINTERRUPT_t :: hal_type where "gckVGINTERRUPT_t = Ptr (Struct ''_gckVGINTERRUPT'')"
definition gckVGMMU_t :: hal_type where "gckVGMMU_t = Ptr (Struct ''_gckVGMMU'')"
definition gckVIDMEM_t :: hal_type where "gckVIDMEM_t = Ptr (Struct ''_gckVIDMEM'')"
definition gcsCMDBUFFER_PTR_t :: hal_type where "gcsCMDBUFFER_PTR_t = Ptr (Struct ''_gcsCMDBUFFER'')"
definition gcsCOMMAND_BUFFER_INFO_PTR_t :: hal_type where "gcsCOMMAND_BUFFER_INFO_PTR_t = Ptr (Struct ''_gcsCOMMAND_BUFFER_INFO'')"

subsection \<open>Types of other headers\<close>

definition gceCHIPMODEL_t :: hal_type where "gceCHIPMODEL_t = Foreign ''gceCHIPMODEL''"
definition gceCHIPPOWERSTATE_t :: hal_type where "gceCHIPPOWERSTATE_t = Foreign ''gceCHIPPOWERSTATE''"
definition gceCORE_3D_MASK_t :: hal_type where "gceCORE_3D_MASK_t = Foreign ''gceCORE_3D_MASK''"
definition gceFEATURE_t :: hal_type where "gceFEATURE_t = Foreign ''gceFEATURE''"
definition gceHARDWARE_TYPE_t :: hal_type where "gceHARDWARE_TYPE_t = Foreign ''gceHARDWARE_TYPE''"
definition gceKERNEL_WHERE_t :: hal_type where "gceKERNEL_WHERE_t = Foreign ''gceKERNEL_WHERE''"
definition gceMMU_MODE_t :: hal_type where "gceMMU_MODE_t = Foreign ''gceMMU_MODE''"
definition gcePIPE_SELECT_t :: hal_type where "gcePIPE_SELECT_t = Foreign ''gcePIPE_SELECT''"
definition gcePOOL_t :: hal_type where "gcePOOL_t = Foreign ''gcePOOL''"
definition gceSURF_FORMAT_t :: hal_type where "gceSURF_FORMAT_t = Foreign ''gceSURF_FORMAT''"
definition gceSURF_TYPE_t :: hal_type where "gceSURF_TYPE_t = Foreign ''gceSURF_TYPE''"
definition gckCONTEXT_t :: hal_type where "gckCONTEXT_t = Foreign ''gckCONTEXT''"
definition gckOS_t :: hal_type where "gckOS_t = Foreign ''gckOS''"
definition gckRecursiveMutex_t :: hal_type where "gckRecursiveMutex_t = Foreign ''gckRecursiveMutex''"
definition gckVGHARDWARE_t :: hal_type where "gckVGHARDWARE_t = Foreign ''gckVGHARDWARE''"
definition gckVGKERNEL_t :: hal_type where "gckVGKERNEL_t = Foreign ''gckVGKERNEL''"
definition gckVIDMEM_NODE_t :: hal_type where "gckVIDMEM_NODE_t = Foreign ''gckVIDMEM_NODE''"
definition gcoCMDBUF_t :: hal_type where "gcoCMDBUF_t = Foreign ''gcoCMDBUF''"
definition gcs2D_PROFILE_PTR_t :: hal_type where "gcs2D_PROFILE_PTR_t = Foreign ''gcs2D_PROFILE_PTR''"
definition gcsHAL_COMPOSE_PTR_t :: hal_type where "gcsHAL_COMPOSE_PTR_t = Foreign ''gcsHAL_COMPOSE_PTR''"
definition gcsHAL_INTERFACE_t :: hal_type where "gcsHAL_INTERFACE_t = Foreign ''gcsHAL_INTERFACE''"
definition gcsHAL_INTERFACE_PTR_t :: hal_type where "gcsHAL_INTERFACE_PTR_t = Foreign ''gcsHAL_INTERFACE_PTR''"
definition gcsHAL_QUERY_CHIP_IDENTITY_PTR_t :: hal_type where "gcsHAL_QUERY_CHIP_IDENTITY_PTR_t = Foreign ''gcsHAL_QUERY_CHIP_IDENTITY_PTR''"
definition gcsKERNEL_SETTINGS_t :: hal_type where "gcsKERNEL_SETTINGS_t = Foreign ''gcsKERNEL_SETTINGS''"
definition gcsPROFILER_COUNTERS_t :: hal_type where "gcsPROFILER_COUNTERS_t = Foreign ''gcsPROFILER_COUNTERS''"
definition gcsQUEUE_PTR_t :: hal_type where "gcsQUEUE_PTR_t = Foreign ''gcsQUEUE_PTR''"
definition gcsSTATE_DELTA_PTR_t :: hal_type where "gcsSTATE_DELTA_PTR_t = Foreign ''gcsSTATE_DELTA_PTR''"
definition gcsTASK_MASTER_TABLE_PTR_t :: hal_type where "gcsTASK_MASTER_TABLE_PTR_t = Foreign ''gcsTASK_MASTER_TABLE_PTR''"
definition gcsTA_INTERFACE_t :: hal_type where "gcsTA_INTERFACE_t = Foreign ''gcsTA_INTERFACE''"
definition gcsVGCMDQUEUE_PTR_t :: hal_type where "gcsVGCMDQUEUE_PTR_t = Foreign ''gcsVGCMDQUEUE_PTR''"
definition gcsVGCONTEXT_PTR_t :: hal_type where "gcsVGCONTEXT_PTR_t = Foreign ''gcsVGCONTEXT_PTR''"
definition gctTHREAD_t :: hal_type where "gctTHREAD_t = Foreign ''gctTHREAD''"
definition gcuVIDMEM_NODE_PTR_t :: hal_type where "gcuVIDMEM_NODE_PTR_t = Foreign ''gcuVIDMEM_NODE_PTR''"

subsection \<open>Callbacks\<close>

text \<open>A thread function as on Linux. The handler of interrupts has another argument with
  \<open>gcdENABLE_VG\<close>.\<close>

definition gctTIMERFUNCTION_t :: hal_type where "gctTIMERFUNCTION_t = Ptr (Function Void [gctPOINTER_t])"
definition gctISRMANAGERFUNC_t :: hal_type where "gctISRMANAGERFUNC_t = Ptr (Function gceSTATUS_t [gctPOINTER_t])"
definition gctINTERRUPT_HANDLER_t :: hal_type where "gctINTERRUPT_HANDLER_t = Ptr (Function gceSTATUS_t [gckKERNEL_t])"
definition gctINTERRUPT_HANDLER_vg_t :: hal_type where "gctINTERRUPT_HANDLER_vg_t = Ptr (Function gceSTATUS_t [gckVGKERNEL_t])"
definition gctTHREADFUNC_t :: hal_type where "gctTHREADFUNC_t = Ptr (Function gctINT_t [gctPOINTER_t])"

lemmas hal_types [simp] =
  gctBOOL_t_def gctINT_t_def gctINT32_t_def gctUINT_t_def gctUINT8_t_def gctUINT32_t_def
  gctUINT64_t_def gctSIZE_T_t_def gctPHYS_ADDR_t_def gctHANDLE_t_def gctSIGNAL_t_def
  gctSYNC_POINT_t_def gctSEMAPHORE_t_def gctPOINTER_t_def gctCONST_POINTER_t_def
  gctCONST_STRING_t_def gctPHYS_ADDR_T_t_def gctBOOL_PTR_t_def gctINT32_PTR_t_def
  gctUINT8_PTR_t_def gctUINT32_PTR_t_def gctUINT64_PTR_t_def gceSTATUS_t_def gceBROADCAST_t_def
  gceCORE_t_def gceGPUFreqEvent_t_def gceKERNEL_FLUSH_t_def gceNOTIFY_t_def
  gcePulseEaterDomain_t_def struct_gcsHAL_INTERFACE_t_def gckCOMMAND_t_def gckDB_t_def
  gckDVFS_t_def gckEVENT_t_def gckHARDWARE_t_def gckHEAP_t_def gckINTERRUPT_t_def gckKERNEL_t_def
  gckMMU_t_def gckVGCOMMAND_t_def gckVGINTERRUPT_t_def gckVGMMU_t_def gckVIDMEM_t_def
  gcsCMDBUFFER_PTR_t_def gcsCOMMAND_BUFFER_INFO_PTR_t_def gceCHIPMODEL_t_def
  gceCHIPPOWERSTATE_t_def gceCORE_3D_MASK_t_def gceFEATURE_t_def gceHARDWARE_TYPE_t_def
  gceKERNEL_WHERE_t_def gceMMU_MODE_t_def gcePIPE_SELECT_t_def gcePOOL_t_def gceSURF_FORMAT_t_def
  gceSURF_TYPE_t_def gckCONTEXT_t_def gckOS_t_def gckRecursiveMutex_t_def gckVGHARDWARE_t_def
  gckVGKERNEL_t_def gckVIDMEM_NODE_t_def gcoCMDBUF_t_def gcs2D_PROFILE_PTR_t_def
  gcsHAL_COMPOSE_PTR_t_def gcsHAL_INTERFACE_t_def gcsHAL_INTERFACE_PTR_t_def
  gcsHAL_QUERY_CHIP_IDENTITY_PTR_t_def gcsKERNEL_SETTINGS_t_def gcsPROFILER_COUNTERS_t_def
  gcsQUEUE_PTR_t_def gcsSTATE_DELTA_PTR_t_def gcsTASK_MASTER_TABLE_PTR_t_def
  gcsTA_INTERFACE_t_def gcsVGCMDQUEUE_PTR_t_def gcsVGCONTEXT_PTR_t_def gctTHREAD_t_def
  gcuVIDMEM_NODE_PTR_t_def gctTIMERFUNCTION_t_def gctISRMANAGERFUNC_t_def
  gctINTERRUPT_HANDLER_t_def gctINTERRUPT_HANDLER_vg_t_def gctTHREADFUNC_t_def

end
