(* ===== verification/Gc_Platform.thy ===== *)
theory Gc_Platform
  imports Gc_Structures Gc_Api_Types Gc_Status
begin

section \<open>What the GPU headers take from the platform\<close>

text \<open>
  The \<open>#if\<close> lines at the top of \<open>gc_hal_types.h\<close> and \<open>gc_hal_vg.h\<close>, as functions of the macros that the
  compiler and the build define: \<open>None\<close> is \<open>#error\<close>, or no definition at all. Then the scalar types
  and constants that no structure and no prototype of the headers uses.
\<close>

subsection \<open>Macros of the compiler and the build\<close>

text \<open>
  A macro that may be undefined and has a value is an option; the others are only tested for being
  defined. \<open>underscore_DEBUG\<close> is \<open>_DEBUG\<close>, \<open>preset_gcdDEBUG\<close> a value of \<open>gcdDEBUG\<close> given by the build.
\<close>

record platform =
  p_GNUC :: bool
  p_STDC_VERSION :: "nat option"
  p_MSC_VER :: "nat option"
  p_UNDER_CE :: "nat option"
  p_APPLE :: bool
  p_ANDROID :: bool
  p_BIONIC_FORTIFY :: bool
  p_LINUX :: bool
  p_WIN32 :: bool
  p_QNXNTO :: bool
  p_USRDLL :: bool
  p_HAL_EXPORTS :: bool
  p_DBG :: "int option"
  p_DEBUG :: bool
  p_underscore_DEBUG :: bool
  p_preset_gcdDEBUG :: "u32 option"

definition at_least :: "nat option \<Rightarrow> nat \<Rightarrow> bool" where
  "at_least macro n = (case macro of None \<Rightarrow> False | Some v \<Rightarrow> n \<le> v)"

text \<open>An undefined name counts as 0 in \<open>#if\<close>.\<close>

definition nonzero :: "int option \<Rightarrow> bool" where
  "nonzero macro = (case macro of None \<Rightarrow> False | Some v \<Rightarrow> v \<noteq> 0)"

definition gcdHAS_ELLIPSIS :: "platform \<Rightarrow> bool option" where
  "gcdHAS_ELLIPSIS p =
     (if p_GNUC p then Some True
      else if at_least (p_STDC_VERSION p) 199901 then Some True
      else if at_least (p_MSC_VER p) 1500 then Some True
      else case p_UNDER_CE p of
        Some v \<Rightarrow> Some (600 \<le> v)
      | None \<Rightarrow> None)"

text \<open>The keyword for a function that is defined in a header.\<close>

datatype inline_keyword = Bionic_inline | Inline | GNU_inline | Microsoft_inline

definition gcmINLINE :: "platform \<Rightarrow> inline_keyword option" where
  "gcmINLINE p =
     (if p_ANDROID p \<and> p_BIONIC_FORTIFY p then Some Bionic_inline
      else if at_least (p_STDC_VERSION p) 199901 \<or> p_APPLE p then Some Inline
      else if p_GNUC p then Some GNU_inline
      else if p_MSC_VER p \<noteq> None \<or> p_UNDER_CE p \<noteq> None then Some Microsoft_inline
      else None)"

text \<open>A build that has chosen a value of \<open>gcdDEBUG\<close> keeps it; \<open>gc_hal_vg.h\<close> always chooses anew.\<close>

definition gcdDEBUG :: "platform \<Rightarrow> u32" where
  "gcdDEBUG p =
     (case p_preset_gcdDEBUG p of
        Some v \<Rightarrow> v
      | None \<Rightarrow> if nonzero (p_DBG p) \<or> p_DEBUG p \<or> p_underscore_DEBUG p then gcdDEBUG_ALL else gcdDEBUG_NONE)"

definition gcdFORCE_DEBUG :: int where "gcdFORCE_DEBUG = 0"

definition gcvDEBUG :: "platform \<Rightarrow> bool" where
  "gcvDEBUG p \<longleftrightarrow> nonzero (p_DBG p) \<or> p_DEBUG p \<or> p_underscore_DEBUG p \<or> gcdFORCE_DEBUG \<noteq> 0"

definition HALAPI :: "platform \<Rightarrow> string" where
  "HALAPI p =
     (if p_USRDLL p
      then if p_MSC_VER p \<noteq> None
           then (if p_HAL_EXPORTS p then ''__declspec(dllexport)'' else ''__declspec(dllimport)'')
           else (if p_HAL_EXPORTS p then '''' else ''extern'')
      else '''')"

text \<open>\<open>None\<close>: neither branch defines it.\<close>

definition HALDECL :: "platform \<Rightarrow> string option" where
  "HALDECL p =
     (if p_USRDLL p then if p_MSC_VER p \<noteq> None then Some ''__cdecl'' else None else Some '''')"

definition gctTHREADFUNCRESULT :: "platform \<Rightarrow> ctype option" where
  "gctTHREADFUNCRESULT p =
     (if p_LINUX p then Some gctINT else if p_WIN32 p then Some gctUINT
      else if p_QNXNTO p then Some CPtr else None)"

definition gctTHREADFUNCPARAMETER :: "platform \<Rightarrow> ctype option" where
  "gctTHREADFUNCPARAMETER p =
     (if p_LINUX p \<or> p_WIN32 p \<or> p_QNXNTO p then Some gctPOINTER else None)"

definition gctTHREADFUNCTYPE :: "platform \<Rightarrow> string option" where
  "gctTHREADFUNCTYPE p =
     (if p_LINUX p then Some '''' else if p_WIN32 p then Some ''__stdcall''
      else if p_QNXNTO p then Some '''' else None)"

text \<open>
  Wherever the headers know about argument lists they know a keyword. The converse fails for an old
  Microsoft compiler and for an Apple or Android compiler that is not GNU's.
\<close>

lemma inline_known: "gcdHAS_ELLIPSIS p \<noteq> None \<Longrightarrow> gcmINLINE p \<noteq> None"
  by (auto simp: gcdHAS_ELLIPSIS_def gcmINLINE_def at_least_def split: if_splits option.splits)

lemma ellipsis_unknown:
  "gcdHAS_ELLIPSIS p = None \<longleftrightarrow> \<not> p_GNUC p \<and> \<not> at_least (p_STDC_VERSION p) 199901 \<and>
     \<not> at_least (p_MSC_VER p) 1500 \<and> p_UNDER_CE p = None"
  by (auto simp: gcdHAS_ELLIPSIS_def split: option.split)

text \<open>
  The two debug switches agree unless the build sets \<open>gcdDEBUG\<close>: then a debug build can have
  \<open>gcvDEBUG\<close> without any \<open>gcdDEBUG\<close>, and the other way round.
\<close>

lemma debug_agree:
  assumes "p_preset_gcdDEBUG p = None"
  shows "gcvDEBUG p \<longleftrightarrow> gcmIS_DEBUG (gcdDEBUG p) flag \<noteq> 0"
  using assms by (simp add: is_debug gcvDEBUG_def gcdDEBUG_def gcdFORCE_DEBUG_def debug_flags)

lemma debug_differ:
  "p_preset_gcdDEBUG p = Some gcdDEBUG_NONE \<Longrightarrow> p_DEBUG p \<Longrightarrow>
     gcvDEBUG p \<and> gcmIS_DEBUG (gcdDEBUG p) flag = 0"
  by (simp add: gcvDEBUG_def gcdDEBUG_def gcmIS_DEBUG_def debug_flags)

lemma thread_types:
  "gctTHREADFUNCRESULT p = None \<longleftrightarrow> gctTHREADFUNCTYPE p = None"
  "gctTHREADFUNCPARAMETER p = None \<longleftrightarrow> gctTHREADFUNCTYPE p = None"
  by (auto simp: gctTHREADFUNCRESULT_def gctTHREADFUNCPARAMETER_def gctTHREADFUNCTYPE_def)

subsection \<open>Scalar types\<close>

text \<open>\<open>char\<close> is unsigned on ARM. \<open>uintptr_t\<close> has the width of a pointer.\<close>

definition gctINT8_t :: hal_type where "gctINT8_t = Scalar (CInt Signed 1)"
definition gctINT16_t :: hal_type where "gctINT16_t = Scalar (CInt Signed 2)"
definition gctINT64_t :: hal_type where "gctINT64_t = Scalar (CInt Signed 8)"
definition gctUINT16_t :: hal_type where "gctUINT16_t = Scalar (CInt Unsigned 2)"
definition gctUINTPTR_T_t :: "abi \<Rightarrow> hal_type" where "gctUINTPTR_T_t abi = Scalar (CInt Unsigned (ptr_bytes abi))"
definition gctTRACE_t :: hal_type where "gctTRACE_t = gctUINT32_t"
definition gctFLOAT_t :: hal_type where "gctFLOAT_t = Scalar (CFloat 4)"
definition gctCHAR_t :: hal_type where "gctCHAR_t = Scalar (CInt Unsigned 1)"
definition gctSTRING_t :: hal_type where "gctSTRING_t = Ptr gctCHAR_t"
definition gctINT_PTR_t :: hal_type where "gctINT_PTR_t = Ptr gctINT_t"
definition gctINT8_PTR_t :: hal_type where "gctINT8_PTR_t = Ptr gctINT8_t"
definition gctINT16_PTR_t :: hal_type where "gctINT16_PTR_t = Ptr gctINT16_t"
definition gctINT64_PTR_t :: hal_type where "gctINT64_PTR_t = Ptr gctINT64_t"
definition gctUINT_PTR_t :: hal_type where "gctUINT_PTR_t = Ptr gctUINT_t"
definition gctUINT16_PTR_t :: hal_type where "gctUINT16_PTR_t = Ptr gctUINT16_t"
definition gctSIZE_T_PTR_t :: hal_type where "gctSIZE_T_PTR_t = Ptr gctSIZE_T_t"
definition gctFLOAT_PTR_t :: hal_type where "gctFLOAT_PTR_t = Ptr gctFLOAT_t"
definition gctFILE_t :: hal_type where "gctFILE_t = Ptr Void"
definition gctWINDOW_t :: hal_type where "gctWINDOW_t = Ptr Void"
definition gctIMAGE_t :: hal_type where "gctIMAGE_t = Ptr Void"
definition gctSHBUF_t :: hal_type where "gctSHBUF_t = Ptr Void"

definition gcvFALSE :: int where "gcvFALSE = 0"
definition gcvTRUE :: int where "gcvTRUE = 1"

subsection \<open>Casts from 64 bits\<close>

text \<open>
  \<open>gcmUINT64_TO_TYPE\<close> for an integer type: through \<open>gctUINTPTR_T\<close>, so that a type wider than a pointer
  gets no more than the low bits.
\<close>

definition gcmUINT64_TO_TYPE :: "abi \<Rightarrow> 64 word \<Rightarrow> signedness \<Rightarrow> nat \<Rightarrow> int" where
  "gcmUINT64_TO_TYPE abi u sg bytes =
     (let v = int (uintptr abi (unat u))
      in case sg of Unsigned \<Rightarrow> take_bit (8 * bytes) v | Signed \<Rightarrow> signed_take_bit (8 * bytes - 1) v)"

lemma uint64_to_type_32:
  assumes "abi_ok abi"
  shows "gcmUINT64_TO_TYPE abi (gcmPTR_TO_UINT64 abi p) Unsigned 4 = uint (gcmALL_TO_UINT32 abi p)"
proof -
  from assms have "ptr_bytes abi = 4 \<or> ptr_bytes abi = 8" by (simp add: abi_ok_def)
  then have "p mod 2 ^ (8 * ptr_bytes abi) mod 2 ^ 64 = p mod 2 ^ (8 * ptr_bytes abi)"
    by (auto intro: mod_less less_trans [OF mod_less_divisor])
  then show ?thesis
    by (simp add: gcmUINT64_TO_TYPE_def gcmPTR_TO_UINT64_def gcmALL_TO_UINT32_def uintptr_def
        unat_of_nat unsigned_of_nat take_bit_eq_mod zmod_int)
qed

text \<open>On a 32-bit interface the high half of a 64-bit integer type is lost.\<close>

lemma uint64_to_type_loses: "gcmUINT64_TO_TYPE arm32 0x100000001 Unsigned 8 = 1"
  by (simp add: gcmUINT64_TO_TYPE_def uintptr_def arm32_def)

subsection \<open>Constants\<close>

definition gcdMAX_SURF_LAYERS :: nat where "gcdMAX_SURF_LAYERS = 4"
definition gcdMAX_DRAW_BUFFERS :: nat where "gcdMAX_DRAW_BUFFERS = 8"
definition gcdCONTEXT_BUFFER_COUNT :: nat where "gcdCONTEXT_BUFFER_COUNT = 2"
definition DEF_MIN_SAMPLING_RATE :: nat where "DEF_MIN_SAMPLING_RATE = 50"
definition gcvHAL_CLASS :: string where "gcvHAL_CLASS = ''galcore''"
definition IOCTL_GCHAL_INTERFACE :: nat where "IOCTL_GCHAL_INTERFACE = 30000"

text \<open>The marker of a vacant command buffer is an address that no object has.\<close>

definition gcvVACANT_BUFFER :: nat where "gcvVACANT_BUFFER = 1"

end
