(* ===== verification/Gc_Api.thy ===== *)
theory Gc_Api
  imports Gc_Api_Types
begin

section \<open>The interface of the GPU kernel driver: \<open>gc_hal.h\<close>\<close>

text \<open>
  The prototypes of \<open>include/hardware/gc_hal.h\<close>, in the order of the file. A function with two
  prototypes, each in a branch of an \<open>#if\<close>, has a definition for each.
\<close>

subsection \<open>\<open>gckOS\<close>\<close>

definition gckOS_Construct :: prototype where
  "gckOS_Construct = proto [] gceSTATUS_t ''gckOS_Construct''
     [(IN, gctPOINTER_t, ''Context''), (OUT, Ptr gckOS_t, ''Os'')]"

definition gckOS_Destroy :: prototype where
  "gckOS_Destroy = proto [] gceSTATUS_t ''gckOS_Destroy''
     [(IN, gckOS_t, ''Os'')]"

definition gckOS_QueryPlatPerformance :: prototype where
  "gckOS_QueryPlatPerformance = proto [] gceSTATUS_t ''gckOS_QueryPlatPerformance''
     [(IN, gckOS_t, ''Os''), (OUT, Ptr gctBOOL_t, ''isHighPerfPlat'')]"

definition gckOS_QueryVideoMemory :: prototype where
  "gckOS_QueryVideoMemory = proto [] gceSTATUS_t ''gckOS_QueryVideoMemory''
     [(IN, gckOS_t, ''Os''), (OUT, Ptr gctPHYS_ADDR_t, ''InternalAddress''),
      (OUT, Ptr gctSIZE_T_t, ''InternalSize''), (OUT, Ptr gctPHYS_ADDR_t, ''ExternalAddress''),
      (OUT, Ptr gctSIZE_T_t, ''ExternalSize''), (OUT, Ptr gctPHYS_ADDR_t, ''ContiguousAddress''),
      (OUT, Ptr gctSIZE_T_t, ''ContiguousSize'')]"

definition gckOS_Allocate :: prototype where
  "gckOS_Allocate = proto [] gceSTATUS_t ''gckOS_Allocate''
     [(IN, gckOS_t, ''Os''), (IN, gctSIZE_T_t, ''Bytes''), (OUT, Ptr gctPOINTER_t, ''Memory'')]"

definition gckOS_Free :: prototype where
  "gckOS_Free = proto [] gceSTATUS_t ''gckOS_Free''
     [(IN, gckOS_t, ''Os''), (IN, gctPOINTER_t, ''Memory'')]"

definition gckOS_AllocateMemory :: prototype where
  "gckOS_AllocateMemory = proto [] gceSTATUS_t ''gckOS_AllocateMemory''
     [(IN, gckOS_t, ''Os''), (IN, gctSIZE_T_t, ''Bytes''), (OUT, Ptr gctPOINTER_t, ''Memory'')]"

definition gckOS_FreeMemory :: prototype where
  "gckOS_FreeMemory = proto [] gceSTATUS_t ''gckOS_FreeMemory''
     [(IN, gckOS_t, ''Os''), (IN, gctPOINTER_t, ''Memory'')]"

definition gckOS_AllocatePagedMemory :: prototype where
  "gckOS_AllocatePagedMemory = proto [] gceSTATUS_t ''gckOS_AllocatePagedMemory''
     [(IN, gckOS_t, ''Os''), (IN, gctSIZE_T_t, ''Bytes''), (OUT, Ptr gctPHYS_ADDR_t, ''Physical'')]"

definition gckOS_AllocatePagedMemoryEx :: prototype where
  "gckOS_AllocatePagedMemoryEx = proto [] gceSTATUS_t ''gckOS_AllocatePagedMemoryEx''
     [(IN, gckOS_t, ''Os''), (IN, gctUINT32_t, ''Flag''), (IN, gctSIZE_T_t, ''Bytes''),
      (OUT, Ptr gctUINT32_t, ''Gid''), (OUT, Ptr gctPHYS_ADDR_t, ''Physical'')]"

definition gckOS_LockPages :: prototype where
  "gckOS_LockPages = proto [] gceSTATUS_t ''gckOS_LockPages''
     [(IN, gckOS_t, ''Os''), (IN, gctPHYS_ADDR_t, ''Physical''), (IN, gctSIZE_T_t, ''Bytes''),
      (IN, gctBOOL_t, ''Cacheable''), (OUT, Ptr gctPOINTER_t, ''Logical''),
      (OUT, Ptr gctSIZE_T_t, ''PageCount'')]"

definition gckOS_MapPages :: prototype where
  "gckOS_MapPages = proto [] gceSTATUS_t ''gckOS_MapPages''
     [(IN, gckOS_t, ''Os''), (IN, gctPHYS_ADDR_t, ''Physical''), (IN, gctSIZE_T_t, ''PageCount''),
      (IN, gctPOINTER_t, ''PageTable'')]"

definition gckOS_MapPagesEx :: prototype where
  "gckOS_MapPagesEx = proto [] gceSTATUS_t ''gckOS_MapPagesEx''
     [(IN, gckOS_t, ''Os''), (IN, gceCORE_t, ''Core''), (IN, gctPHYS_ADDR_t, ''Physical''),
      (IN, gctSIZE_T_t, ''PageCount''), (IN, gctUINT32_t, ''Address''),
      (IN, gctPOINTER_t, ''PageTable'')]"

definition gckOS_UnmapPages :: prototype where
  "gckOS_UnmapPages = proto [] gceSTATUS_t ''gckOS_UnmapPages''
     [(IN, gckOS_t, ''Os''), (IN, gctSIZE_T_t, ''PageCount''), (IN, gctUINT32_t, ''Address'')]"

definition gckOS_UnlockPages :: prototype where
  "gckOS_UnlockPages = proto [] gceSTATUS_t ''gckOS_UnlockPages''
     [(IN, gckOS_t, ''Os''), (IN, gctPHYS_ADDR_t, ''Physical''), (IN, gctSIZE_T_t, ''Bytes''),
      (IN, gctPOINTER_t, ''Logical'')]"

definition gckOS_FreePagedMemory :: prototype where
  "gckOS_FreePagedMemory = proto [] gceSTATUS_t ''gckOS_FreePagedMemory''
     [(IN, gckOS_t, ''Os''), (IN, gctPHYS_ADDR_t, ''Physical''), (IN, gctSIZE_T_t, ''Bytes'')]"

definition gckOS_AllocateNonPagedMemory :: prototype where
  "gckOS_AllocateNonPagedMemory = proto [] gceSTATUS_t ''gckOS_AllocateNonPagedMemory''
     [(IN, gckOS_t, ''Os''), (IN, gctBOOL_t, ''InUserSpace''), (INOUT, Ptr gctSIZE_T_t, ''Bytes''),
      (OUT, Ptr gctPHYS_ADDR_t, ''Physical''), (OUT, Ptr gctPOINTER_t, ''Logical'')]"

definition gckOS_FreeNonPagedMemory :: prototype where
  "gckOS_FreeNonPagedMemory = proto [] gceSTATUS_t ''gckOS_FreeNonPagedMemory''
     [(IN, gckOS_t, ''Os''), (IN, gctSIZE_T_t, ''Bytes''), (IN, gctPHYS_ADDR_t, ''Physical''),
      (IN, gctPOINTER_t, ''Logical'')]"

definition gckOS_AllocateVidmemFromMemblock :: prototype where
  "gckOS_AllocateVidmemFromMemblock = proto [(MRVL_USE_GPU_RESERVE_MEM, True)] gceSTATUS_t ''gckOS_AllocateVidmemFromMemblock''
     [(IN, gckOS_t, ''Os''), (IN, gctSIZE_T_t, ''Bytes''), (IN, gctPHYS_ADDR_t, ''Base''),
      (OUT, Ptr gctPHYS_ADDR_t, ''Physical'')]"

definition gckOS_FreeVidmemFromMemblock :: prototype where
  "gckOS_FreeVidmemFromMemblock = proto [(MRVL_USE_GPU_RESERVE_MEM, True)] gceSTATUS_t ''gckOS_FreeVidmemFromMemblock''
     [(IN, gckOS_t, ''Os''), (IN, gctPHYS_ADDR_t, ''Physical'')]"

definition gckOS_AllocateContiguous :: prototype where
  "gckOS_AllocateContiguous = proto [] gceSTATUS_t ''gckOS_AllocateContiguous''
     [(IN, gckOS_t, ''Os''), (IN, gctBOOL_t, ''InUserSpace''), (INOUT, Ptr gctSIZE_T_t, ''Bytes''),
      (OUT, Ptr gctPHYS_ADDR_t, ''Physical''), (OUT, Ptr gctPOINTER_t, ''Logical'')]"

definition gckOS_FreeContiguous :: prototype where
  "gckOS_FreeContiguous = proto [] gceSTATUS_t ''gckOS_FreeContiguous''
     [(IN, gckOS_t, ''Os''), (IN, gctPHYS_ADDR_t, ''Physical''), (IN, gctPOINTER_t, ''Logical''),
      (IN, gctSIZE_T_t, ''Bytes'')]"

definition gckOS_GetPageSize :: prototype where
  "gckOS_GetPageSize = proto [] gceSTATUS_t ''gckOS_GetPageSize''
     [(IN, gckOS_t, ''Os''), (OUT, Ptr gctSIZE_T_t, ''PageSize'')]"

definition gckOS_GetPhysicalAddress :: prototype where
  "gckOS_GetPhysicalAddress = proto [] gceSTATUS_t ''gckOS_GetPhysicalAddress''
     [(IN, gckOS_t, ''Os''), (IN, gctPOINTER_t, ''Logical''), (OUT, Ptr gctPHYS_ADDR_T_t, ''Address'')]"

definition gckOS_UserLogicalToPhysical :: prototype where
  "gckOS_UserLogicalToPhysical = proto [] gceSTATUS_t ''gckOS_UserLogicalToPhysical''
     [(IN, gckOS_t, ''Os''), (IN, gctPOINTER_t, ''Logical''), (OUT, Ptr gctUINT64_t, ''Address'')]"

definition gckOS_MapPhysical :: prototype where
  "gckOS_MapPhysical = proto [] gceSTATUS_t ''gckOS_MapPhysical''
     [(IN, gckOS_t, ''Os''), (IN, gctUINT32_t, ''Physical''), (IN, gctSIZE_T_t, ''Bytes''),
      (OUT, Ptr gctPOINTER_t, ''Logical'')]"

definition gckOS_UnmapPhysical :: prototype where
  "gckOS_UnmapPhysical = proto [] gceSTATUS_t ''gckOS_UnmapPhysical''
     [(IN, gckOS_t, ''Os''), (IN, gctPOINTER_t, ''Logical''), (IN, gctSIZE_T_t, ''Bytes'')]"

definition gckOS_PhysicalToPhysicalAddress :: prototype where
  "gckOS_PhysicalToPhysicalAddress = proto [] gceSTATUS_t ''gckOS_PhysicalToPhysicalAddress''
     [(IN, gckOS_t, ''Os''), (IN, gctPOINTER_t, ''Physical''),
      (OUT, Ptr gctPHYS_ADDR_T_t, ''PhysicalAddress'')]"

definition gckOS_GetFreqTablePointer :: prototype where
  "gckOS_GetFreqTablePointer = proto [] gceSTATUS_t ''gckOS_GetFreqTablePointer''
     [(IN, gckOS_t, ''Os''), (Unmarked, Ptr gctPOINTER_t, ''tf''), (Unmarked, gceCORE_t, ''Core'')]"

definition gckOS_ReadRegister :: prototype where
  "gckOS_ReadRegister = proto [] gceSTATUS_t ''gckOS_ReadRegister''
     [(IN, gckOS_t, ''Os''), (IN, gctUINT32_t, ''Address''), (OUT, Ptr gctUINT32_t, ''Data'')]"

definition gckOS_ReadRegisterEx :: prototype where
  "gckOS_ReadRegisterEx = proto [] gceSTATUS_t ''gckOS_ReadRegisterEx''
     [(IN, gckOS_t, ''Os''), (IN, gceCORE_t, ''Core''), (IN, gctUINT32_t, ''Address''),
      (OUT, Ptr gctUINT32_t, ''Data'')]"

definition gckOS_DirectReadRegister :: prototype where
  "gckOS_DirectReadRegister = proto [] gceSTATUS_t ''gckOS_DirectReadRegister''
     [(IN, gckOS_t, ''Os''), (IN, gceCORE_t, ''Core''), (IN, gctUINT32_t, ''Address''),
      (OUT, Ptr gctUINT32_t, ''Data'')]"

definition gckOS_WriteRegister :: prototype where
  "gckOS_WriteRegister = proto [] gceSTATUS_t ''gckOS_WriteRegister''
     [(IN, gckOS_t, ''Os''), (IN, gctUINT32_t, ''Address''), (IN, gctUINT32_t, ''Data'')]"

definition gckOS_WriteRegisterEx :: prototype where
  "gckOS_WriteRegisterEx = proto [] gceSTATUS_t ''gckOS_WriteRegisterEx''
     [(IN, gckOS_t, ''Os''), (IN, gceCORE_t, ''Core''), (IN, gctUINT32_t, ''Address''),
      (IN, gctUINT32_t, ''Data'')]"

definition gckOS_DirectWriteRegister :: prototype where
  "gckOS_DirectWriteRegister = proto [] gceSTATUS_t ''gckOS_DirectWriteRegister''
     [(IN, gckOS_t, ''Os''), (IN, gceCORE_t, ''Core''), (IN, gctUINT32_t, ''Address''),
      (IN, gctUINT32_t, ''Data'')]"

definition gckOS_ReadRegisterByCoreId :: prototype where
  "gckOS_ReadRegisterByCoreId = proto [(gcdMULTI_GPU, True)] gceSTATUS_t ''gckOS_ReadRegisterByCoreId''
     [(IN, gckOS_t, ''Os''), (IN, gceCORE_t, ''Core''), (IN, gctUINT32_t, ''CoreId''),
      (IN, gctUINT32_t, ''Address''), (OUT, Ptr gctUINT32_t, ''Data'')]"

definition gckOS_DirectReadRegisterByCoreId :: prototype where
  "gckOS_DirectReadRegisterByCoreId = proto [(gcdMULTI_GPU, True)] gceSTATUS_t ''gckOS_DirectReadRegisterByCoreId''
     [(IN, gckOS_t, ''Os''), (IN, gceCORE_t, ''Core''), (IN, gctUINT32_t, ''CoreId''),
      (IN, gctUINT32_t, ''Address''), (OUT, Ptr gctUINT32_t, ''Data'')]"

definition gckOS_WriteRegisterByCoreId :: prototype where
  "gckOS_WriteRegisterByCoreId = proto [(gcdMULTI_GPU, True)] gceSTATUS_t ''gckOS_WriteRegisterByCoreId''
     [(IN, gckOS_t, ''Os''), (IN, gceCORE_t, ''Core''), (IN, gctUINT32_t, ''CoreId''),
      (IN, gctUINT32_t, ''Address''), (IN, gctUINT32_t, ''Data'')]"

definition gckOS_WriteMemory :: prototype where
  "gckOS_WriteMemory = proto [] gceSTATUS_t ''gckOS_WriteMemory''
     [(IN, gckOS_t, ''Os''), (IN, gctPOINTER_t, ''Address''), (IN, gctUINT32_t, ''Data'')]"

definition gckOS_MapMemory :: prototype where
  "gckOS_MapMemory = proto [] gceSTATUS_t ''gckOS_MapMemory''
     [(IN, gckOS_t, ''Os''), (IN, gctPHYS_ADDR_t, ''Physical''), (IN, gctSIZE_T_t, ''Bytes''),
      (OUT, Ptr gctPOINTER_t, ''Logical'')]"

definition gckOS_UnmapMemoryEx :: prototype where
  "gckOS_UnmapMemoryEx = proto [] gceSTATUS_t ''gckOS_UnmapMemoryEx''
     [(IN, gckOS_t, ''Os''), (IN, gctPHYS_ADDR_t, ''Physical''), (IN, gctSIZE_T_t, ''Bytes''),
      (IN, gctPOINTER_t, ''Logical''), (IN, gctUINT32_t, ''PID'')]"

definition gckOS_UnmapMemory :: prototype where
  "gckOS_UnmapMemory = proto [] gceSTATUS_t ''gckOS_UnmapMemory''
     [(IN, gckOS_t, ''Os''), (IN, gctPHYS_ADDR_t, ''Physical''), (IN, gctSIZE_T_t, ''Bytes''),
      (IN, gctPOINTER_t, ''Logical'')]"

definition gckOS_UnmapUserLogical :: prototype where
  "gckOS_UnmapUserLogical = proto [] gceSTATUS_t ''gckOS_UnmapUserLogical''
     [(IN, gckOS_t, ''Os''), (IN, gctPHYS_ADDR_t, ''Physical''), (IN, gctSIZE_T_t, ''Bytes''),
      (IN, gctPOINTER_t, ''Logical'')]"

definition gckOS_DeleteMutex :: prototype where
  "gckOS_DeleteMutex = proto [] gceSTATUS_t ''gckOS_DeleteMutex''
     [(IN, gckOS_t, ''Os''), (IN, gctPOINTER_t, ''Mutex'')]"

definition gckOS_AcquireMutex :: prototype where
  "gckOS_AcquireMutex = proto [] gceSTATUS_t ''gckOS_AcquireMutex''
     [(IN, gckOS_t, ''Os''), (IN, gctPOINTER_t, ''Mutex''), (IN, gctUINT32_t, ''Timeout'')]"

definition gckOS_ReleaseMutex :: prototype where
  "gckOS_ReleaseMutex = proto [] gceSTATUS_t ''gckOS_ReleaseMutex''
     [(IN, gckOS_t, ''Os''), (IN, gctPOINTER_t, ''Mutex'')]"

definition gckOS_CreateRecMutex :: prototype where
  "gckOS_CreateRecMutex = proto [] gceSTATUS_t ''gckOS_CreateRecMutex''
     [(IN, gckOS_t, ''Os''), (OUT, Ptr gckRecursiveMutex_t, ''Mutex'')]"

definition gckOS_DeleteRecMutex :: prototype where
  "gckOS_DeleteRecMutex = proto [] gceSTATUS_t ''gckOS_DeleteRecMutex''
     [(IN, gckOS_t, ''Os''), (IN, gckRecursiveMutex_t, ''Mutex'')]"

definition gckOS_AcquireRecMutex :: prototype where
  "gckOS_AcquireRecMutex = proto [] gceSTATUS_t ''gckOS_AcquireRecMutex''
     [(IN, gckOS_t, ''Os''), (IN, gckRecursiveMutex_t, ''Mutex''), (IN, gctUINT32_t, ''Timeout'')]"

definition gckOS_ReleaseRecMutex :: prototype where
  "gckOS_ReleaseRecMutex = proto [] gceSTATUS_t ''gckOS_ReleaseRecMutex''
     [(IN, gckOS_t, ''Os''), (IN, gckRecursiveMutex_t, ''Mutex'')]"

definition gckOS_AcquireClockMutex :: prototype where
  "gckOS_AcquireClockMutex = proto [] gceSTATUS_t ''gckOS_AcquireClockMutex''
     [(IN, gckOS_t, ''Os''), (IN, gceCORE_t, ''Core'')]"

definition gckOS_ReleaseClockMutex :: prototype where
  "gckOS_ReleaseClockMutex = proto [] gceSTATUS_t ''gckOS_ReleaseClockMutex''
     [(IN, gckOS_t, ''Os''), (IN, gceCORE_t, ''Core'')]"

definition gckOS_AtomicExchange :: prototype where
  "gckOS_AtomicExchange = proto [] gceSTATUS_t ''gckOS_AtomicExchange''
     [(IN, gckOS_t, ''Os''), (INOUT, gctUINT32_PTR_t, ''Target''), (IN, gctUINT32_t, ''NewValue''),
      (OUT, gctUINT32_PTR_t, ''OldValue'')]"

definition gckOS_AtomicExchangePtr :: prototype where
  "gckOS_AtomicExchangePtr = proto [] gceSTATUS_t ''gckOS_AtomicExchangePtr''
     [(IN, gckOS_t, ''Os''), (INOUT, Ptr gctPOINTER_t, ''Target''), (IN, gctPOINTER_t, ''NewValue''),
      (OUT, Ptr gctPOINTER_t, ''OldValue'')]"

definition gckOS_AtomSetMask :: prototype where
  "gckOS_AtomSetMask = proto [] gceSTATUS_t ''gckOS_AtomSetMask''
     [(IN, gctPOINTER_t, ''Atom''), (IN, gctUINT32_t, ''Mask'')]"

definition gckOS_AtomClearMask :: prototype where
  "gckOS_AtomClearMask = proto [] gceSTATUS_t ''gckOS_AtomClearMask''
     [(IN, gctPOINTER_t, ''Atom''), (IN, gctUINT32_t, ''Mask'')]"

definition gckOS_DumpCallStack :: prototype where
  "gckOS_DumpCallStack = proto [] gceSTATUS_t ''gckOS_DumpCallStack''
     [(IN, gckOS_t, ''Os'')]"

definition gckOS_GetProcessNameByPid :: prototype where
  "gckOS_GetProcessNameByPid = proto [] gceSTATUS_t ''gckOS_GetProcessNameByPid''
     [(IN, gctINT_t, ''Pid''), (IN, gctSIZE_T_t, ''Length''), (OUT, gctUINT8_PTR_t, ''String'')]"

definition gckOS_ModifyPulseEaterPollingPeriod :: prototype where
  "gckOS_ModifyPulseEaterPollingPeriod = proto [] gceSTATUS_t ''gckOS_ModifyPulseEaterPollingPeriod''
     [(IN, gckOS_t, ''Os''), (IN, gctUINT32_t, ''Freq''), (IN, gctUINT32_t, ''Core'')]"

definition gckOS_AtomConstruct :: prototype where
  "gckOS_AtomConstruct = proto [] gceSTATUS_t ''gckOS_AtomConstruct''
     [(IN, gckOS_t, ''Os''), (OUT, Ptr gctPOINTER_t, ''Atom'')]"

definition gckOS_AtomDestroy :: prototype where
  "gckOS_AtomDestroy = proto [] gceSTATUS_t ''gckOS_AtomDestroy''
     [(IN, gckOS_t, ''Os''), (OUT, gctPOINTER_t, ''Atom'')]"

definition gckOS_AtomGet :: prototype where
  "gckOS_AtomGet = proto [] gceSTATUS_t ''gckOS_AtomGet''
     [(IN, gckOS_t, ''Os''), (IN, gctPOINTER_t, ''Atom''), (OUT, gctINT32_PTR_t, ''Value'')]"

definition gckOS_AtomSet :: prototype where
  "gckOS_AtomSet = proto [] gceSTATUS_t ''gckOS_AtomSet''
     [(IN, gckOS_t, ''Os''), (IN, gctPOINTER_t, ''Atom''), (IN, gctINT32_t, ''Value'')]"

definition gckOS_AtomIncrement :: prototype where
  "gckOS_AtomIncrement = proto [] gceSTATUS_t ''gckOS_AtomIncrement''
     [(IN, gckOS_t, ''Os''), (IN, gctPOINTER_t, ''Atom''), (OUT, gctINT32_PTR_t, ''Value'')]"

definition gckOS_AtomDecrement :: prototype where
  "gckOS_AtomDecrement = proto [] gceSTATUS_t ''gckOS_AtomDecrement''
     [(IN, gckOS_t, ''Os''), (IN, gctPOINTER_t, ''Atom''), (OUT, gctINT32_PTR_t, ''Value'')]"

definition gckOS_Delay :: prototype where
  "gckOS_Delay = proto [] gceSTATUS_t ''gckOS_Delay''
     [(IN, gckOS_t, ''Os''), (IN, gctUINT32_t, ''Delay'')]"

definition gckOS_Udelay :: prototype where
  "gckOS_Udelay = proto [] gceSTATUS_t ''gckOS_Udelay''
     [(IN, gckOS_t, ''Os''), (IN, gctUINT32_t, ''Delay'')]"

definition gckOS_GetTicks :: prototype where
  "gckOS_GetTicks = proto [] gceSTATUS_t ''gckOS_GetTicks''
     [(OUT, gctUINT32_PTR_t, ''Time'')]"

definition gckOS_TicksAfter :: prototype where
  "gckOS_TicksAfter = proto [] gceSTATUS_t ''gckOS_TicksAfter''
     [(IN, gctUINT32_t, ''Time1''), (IN, gctUINT32_t, ''Time2''), (OUT, gctBOOL_PTR_t, ''IsAfter'')]"

definition gckOS_GetTime :: prototype where
  "gckOS_GetTime = proto [] gceSTATUS_t ''gckOS_GetTime''
     [(OUT, gctUINT64_PTR_t, ''Time'')]"

definition gckOS_MemoryBarrier :: prototype where
  "gckOS_MemoryBarrier = proto [] gceSTATUS_t ''gckOS_MemoryBarrier''
     [(IN, gckOS_t, ''Os''), (IN, gctPOINTER_t, ''Address'')]"

definition gckOS_UpdateVidMemUsage :: prototype where
  "gckOS_UpdateVidMemUsage = proto [] gceSTATUS_t ''gckOS_UpdateVidMemUsage''
     [(IN, gckOS_t, ''Os''), (IN, gctBOOL_t, ''IsAllocated''), (IN, gctSIZE_T_t, ''Bytes''),
      (IN, gceSURF_TYPE_t, ''Type'')]"

definition gckOS_MapUserPointer :: prototype where
  "gckOS_MapUserPointer = proto [] gceSTATUS_t ''gckOS_MapUserPointer''
     [(IN, gckOS_t, ''Os''), (IN, gctPOINTER_t, ''Pointer''), (IN, gctSIZE_T_t, ''Size''),
      (OUT, Ptr gctPOINTER_t, ''KernelPointer'')]"

definition gckOS_ShowVidMemUsage :: prototype where
  "gckOS_ShowVidMemUsage = proto [] gceSTATUS_t ''gckOS_ShowVidMemUsage''
     [(IN, gckOS_t, ''Os''), (IN, gctPOINTER_t, ''Buffer''), (OUT, gctUINT32_PTR_t, ''Length'')]"

definition gckOS_UnmapUserPointer :: prototype where
  "gckOS_UnmapUserPointer = proto [] gceSTATUS_t ''gckOS_UnmapUserPointer''
     [(IN, gckOS_t, ''Os''), (IN, gctPOINTER_t, ''Pointer''), (IN, gctSIZE_T_t, ''Size''),
      (IN, gctPOINTER_t, ''KernelPointer'')]"

definition gckOS_QueryNeedCopy :: prototype where
  "gckOS_QueryNeedCopy = proto [] gceSTATUS_t ''gckOS_QueryNeedCopy''
     [(IN, gckOS_t, ''Os''), (IN, gctUINT32_t, ''ProcessID''), (OUT, gctBOOL_PTR_t, ''NeedCopy'')]"

definition gckOS_CopyFromUserData :: prototype where
  "gckOS_CopyFromUserData = proto [] gceSTATUS_t ''gckOS_CopyFromUserData''
     [(IN, gckOS_t, ''Os''), (IN, gctPOINTER_t, ''KernelPointer''), (IN, gctPOINTER_t, ''Pointer''),
      (IN, gctSIZE_T_t, ''Size'')]"

definition gckOS_CopyToUserData :: prototype where
  "gckOS_CopyToUserData = proto [] gceSTATUS_t ''gckOS_CopyToUserData''
     [(IN, gckOS_t, ''Os''), (IN, gctPOINTER_t, ''KernelPointer''), (IN, gctPOINTER_t, ''Pointer''),
      (IN, gctSIZE_T_t, ''Size'')]"

definition gckOS_SuspendInterrupt :: prototype where
  "gckOS_SuspendInterrupt = proto [] gceSTATUS_t ''gckOS_SuspendInterrupt''
     [(IN, gckOS_t, ''Os'')]"

definition gckOS_SuspendInterruptEx :: prototype where
  "gckOS_SuspendInterruptEx = proto [] gceSTATUS_t ''gckOS_SuspendInterruptEx''
     [(IN, gckOS_t, ''Os''), (IN, gceCORE_t, ''Core'')]"

definition gckOS_ResumeInterrupt :: prototype where
  "gckOS_ResumeInterrupt = proto [] gceSTATUS_t ''gckOS_ResumeInterrupt''
     [(IN, gckOS_t, ''Os'')]"

definition gckOS_ResumeInterruptEx :: prototype where
  "gckOS_ResumeInterruptEx = proto [] gceSTATUS_t ''gckOS_ResumeInterruptEx''
     [(IN, gckOS_t, ''Os''), (IN, gceCORE_t, ''Core'')]"

definition gckOS_GetBaseAddress :: prototype where
  "gckOS_GetBaseAddress = proto [] gceSTATUS_t ''gckOS_GetBaseAddress''
     [(IN, gckOS_t, ''Os''), (OUT, gctUINT32_PTR_t, ''BaseAddress'')]"

definition gckOS_GetMmuVersion :: prototype where
  "gckOS_GetMmuVersion = proto [] gceSTATUS_t ''gckOS_GetMmuVersion''
     [(IN, gckOS_t, ''Os''), (OUT, gctUINT32_PTR_t, ''mmuVersion'')]"

definition gckOS_MemCopy :: prototype where
  "gckOS_MemCopy = proto [] gceSTATUS_t ''gckOS_MemCopy''
     [(IN, gctPOINTER_t, ''Destination''), (IN, gctCONST_POINTER_t, ''Source''),
      (IN, gctSIZE_T_t, ''Bytes'')]"

definition gckOS_ZeroMemory :: prototype where
  "gckOS_ZeroMemory = proto [] gceSTATUS_t ''gckOS_ZeroMemory''
     [(IN, gctPOINTER_t, ''Memory''), (IN, gctSIZE_T_t, ''Bytes'')]"

definition gckOS_DeviceControl :: prototype where
  "gckOS_DeviceControl = proto [] gceSTATUS_t ''gckOS_DeviceControl''
     [(IN, gckOS_t, ''Os''), (IN, gctBOOL_t, ''FromUser''), (IN, gctUINT32_t, ''IoControlCode''),
      (IN, gctPOINTER_t, ''InputBuffer''), (IN, gctSIZE_T_t, ''InputBufferSize''),
      (OUT, gctPOINTER_t, ''OutputBuffer''), (IN, gctSIZE_T_t, ''OutputBufferSize'')]"

definition gckOS_GetProcessID :: prototype where
  "gckOS_GetProcessID = proto [] gceSTATUS_t ''gckOS_GetProcessID''
     [(OUT, gctUINT32_PTR_t, ''ProcessID'')]"

definition gckOS_GetCurrentProcessID :: prototype where
  "gckOS_GetCurrentProcessID = proto [] gceSTATUS_t ''gckOS_GetCurrentProcessID''
     [(OUT, gctUINT32_PTR_t, ''ProcessID'')]"

definition gckOS_GetThreadID :: prototype where
  "gckOS_GetThreadID = proto [] gceSTATUS_t ''gckOS_GetThreadID''
     [(OUT, gctUINT32_PTR_t, ''ThreadID'')]"

definition gckOS_OpenSecurityChannel :: prototype where
  "gckOS_OpenSecurityChannel = proto [(gcdSECURITY, True)] gceSTATUS_t ''gckOS_OpenSecurityChannel''
     [(IN, gckOS_t, ''Os''), (IN, gceCORE_t, ''Core''), (OUT, Ptr gctUINT32_t, ''Channel'')]"

definition gckOS_CloseSecurityChannel :: prototype where
  "gckOS_CloseSecurityChannel = proto [(gcdSECURITY, True)] gceSTATUS_t ''gckOS_CloseSecurityChannel''
     [(IN, gctUINT32_t, ''Channel'')]"

definition gckOS_CallSecurityService :: prototype where
  "gckOS_CallSecurityService = proto [(gcdSECURITY, True)] gceSTATUS_t ''gckOS_CallSecurityService''
     [(IN, gctUINT32_t, ''Channel''), (IN, Ptr gcsTA_INTERFACE_t, ''Interface'')]"

definition gckOS_InitSecurityChannel :: prototype where
  "gckOS_InitSecurityChannel = proto [(gcdSECURITY, True)] gceSTATUS_t ''gckOS_InitSecurityChannel''
     [(OUT, gctUINT32_t, ''Channel'')]"

definition gckOS_AllocatePageArray :: prototype where
  "gckOS_AllocatePageArray = proto [(gcdSECURITY, True)] gceSTATUS_t ''gckOS_AllocatePageArray''
     [(IN, gckOS_t, ''Os''), (IN, gctPHYS_ADDR_t, ''Physical''), (IN, gctSIZE_T_t, ''PageCount''),
      (OUT, Ptr gctPOINTER_t, ''PageArrayLogical''), (OUT, Ptr gctPHYS_ADDR_t, ''PageArrayPhysical'')]"

definition gckOS_CreateSignal :: prototype where
  "gckOS_CreateSignal = proto [] gceSTATUS_t ''gckOS_CreateSignal''
     [(IN, gckOS_t, ''Os''), (IN, gctBOOL_t, ''ManualReset''), (OUT, Ptr gctSIGNAL_t, ''Signal'')]"

definition gckOS_DestroySignal :: prototype where
  "gckOS_DestroySignal = proto [] gceSTATUS_t ''gckOS_DestroySignal''
     [(IN, gckOS_t, ''Os''), (IN, gctSIGNAL_t, ''Signal'')]"

definition gckOS_Signal :: prototype where
  "gckOS_Signal = proto [] gceSTATUS_t ''gckOS_Signal''
     [(IN, gckOS_t, ''Os''), (IN, gctSIGNAL_t, ''Signal''), (IN, gctBOOL_t, ''State'')]"

definition gckOS_WaitSignal :: prototype where
  "gckOS_WaitSignal = proto [] gceSTATUS_t ''gckOS_WaitSignal''
     [(IN, gckOS_t, ''Os''), (IN, gctSIGNAL_t, ''Signal''), (IN, gctUINT32_t, ''Wait'')]"

definition gckOS_SignalPulse :: prototype where
  "gckOS_SignalPulse = proto [(QNXNTO, True)] gceSTATUS_t ''gckOS_SignalPulse''
     [(IN, gckOS_t, ''Os''), (IN, gctSIGNAL_t, ''Signal'')]"

definition gckOS_SignalPending :: prototype where
  "gckOS_SignalPending = proto [(QNXNTO, True)] gceSTATUS_t ''gckOS_SignalPending''
     [(IN, gckOS_t, ''Os''), (IN, gctSIGNAL_t, ''Signal'')]"

definition gckOS_MapSignal :: prototype where
  "gckOS_MapSignal = proto [] gceSTATUS_t ''gckOS_MapSignal''
     [(IN, gckOS_t, ''Os''), (IN, gctSIGNAL_t, ''Signal''), (IN, gctHANDLE_t, ''Process''),
      (OUT, Ptr gctSIGNAL_t, ''MappedSignal'')]"

definition gckOS_UnmapSignal :: prototype where
  "gckOS_UnmapSignal = proto [] gceSTATUS_t ''gckOS_UnmapSignal''
     [(IN, gckOS_t, ''Os''), (IN, gctSIGNAL_t, ''Signal'')]"

definition gckOS_MapUserMemory :: prototype where
  "gckOS_MapUserMemory = proto [] gceSTATUS_t ''gckOS_MapUserMemory''
     [(IN, gckOS_t, ''Os''), (IN, gceCORE_t, ''Core''), (IN, gctPOINTER_t, ''Memory''),
      (IN, gctUINT32_t, ''Physical''), (IN, gctSIZE_T_t, ''Size''),
      (OUT, Ptr gctPOINTER_t, ''Info''), (OUT, gctUINT32_PTR_t, ''Address'')]"

definition gckOS_UnmapUserMemory :: prototype where
  "gckOS_UnmapUserMemory = proto [] gceSTATUS_t ''gckOS_UnmapUserMemory''
     [(IN, gckOS_t, ''Os''), (IN, gceCORE_t, ''Core''), (IN, gctPOINTER_t, ''Memory''),
      (IN, gctSIZE_T_t, ''Size''), (IN, gctPOINTER_t, ''Info''), (IN, gctUINT32_t, ''Address'')]"

definition gckOS_CreateSyncTimeline :: prototype where
  "gckOS_CreateSyncTimeline = proto [] gceSTATUS_t ''gckOS_CreateSyncTimeline''
     [(IN, gckOS_t, ''Os''), (OUT, Ptr gctHANDLE_t, ''Timeline'')]"

definition gckOS_DestroySyncTimeline :: prototype where
  "gckOS_DestroySyncTimeline = proto [] gceSTATUS_t ''gckOS_DestroySyncTimeline''
     [(IN, gckOS_t, ''Os''), (IN, gctHANDLE_t, ''Timeline'')]"

definition gckOS_CreateSyncPoint :: prototype where
  "gckOS_CreateSyncPoint = proto [] gceSTATUS_t ''gckOS_CreateSyncPoint''
     [(IN, gckOS_t, ''Os''), (OUT, Ptr gctSYNC_POINT_t, ''SyncPoint'')]"

definition gckOS_ReferenceSyncPoint :: prototype where
  "gckOS_ReferenceSyncPoint = proto [] gceSTATUS_t ''gckOS_ReferenceSyncPoint''
     [(IN, gckOS_t, ''Os''), (IN, gctSYNC_POINT_t, ''SyncPoint'')]"

definition gckOS_DestroySyncPoint :: prototype where
  "gckOS_DestroySyncPoint = proto [] gceSTATUS_t ''gckOS_DestroySyncPoint''
     [(IN, gckOS_t, ''Os''), (IN, gctSYNC_POINT_t, ''SyncPoint'')]"

definition gckOS_SignalSyncPoint :: prototype where
  "gckOS_SignalSyncPoint = proto [] gceSTATUS_t ''gckOS_SignalSyncPoint''
     [(IN, gckOS_t, ''Os''), (IN, gctSYNC_POINT_t, ''SyncPoint'')]"

definition gckOS_QuerySyncPoint :: prototype where
  "gckOS_QuerySyncPoint = proto [] gceSTATUS_t ''gckOS_QuerySyncPoint''
     [(IN, gckOS_t, ''Os''), (IN, gctSYNC_POINT_t, ''SyncPoint''), (OUT, gctBOOL_PTR_t, ''State'')]"

definition gckOS_CreateNativeFence :: prototype where
  "gckOS_CreateNativeFence = proto [] gceSTATUS_t ''gckOS_CreateNativeFence''
     [(IN, gckOS_t, ''Os''), (IN, gctHANDLE_t, ''Timeline''), (IN, gctSYNC_POINT_t, ''SyncPoint''),
      (OUT, Ptr gctINT_t, ''FenceFD'')]"

definition gckOS_CreateUserSignal :: prototype where
  "gckOS_CreateUserSignal = proto [(USE_NEW_LINUX_SIGNAL, False)] gceSTATUS_t ''gckOS_CreateUserSignal''
     [(IN, gckOS_t, ''Os''), (IN, gctBOOL_t, ''ManualReset''), (OUT, Ptr gctINT_t, ''SignalID'')]"

definition gckOS_DestroyUserSignal :: prototype where
  "gckOS_DestroyUserSignal = proto [(USE_NEW_LINUX_SIGNAL, False)] gceSTATUS_t ''gckOS_DestroyUserSignal''
     [(IN, gckOS_t, ''Os''), (IN, gctINT_t, ''SignalID'')]"

definition gckOS_WaitUserSignal :: prototype where
  "gckOS_WaitUserSignal = proto [(USE_NEW_LINUX_SIGNAL, False)] gceSTATUS_t ''gckOS_WaitUserSignal''
     [(IN, gckOS_t, ''Os''), (IN, gctINT_t, ''SignalID''), (IN, gctUINT32_t, ''Wait'')]"

definition gckOS_SignalUserSignal :: prototype where
  "gckOS_SignalUserSignal = proto [(USE_NEW_LINUX_SIGNAL, False)] gceSTATUS_t ''gckOS_SignalUserSignal''
     [(IN, gckOS_t, ''Os''), (IN, gctINT_t, ''SignalID''), (IN, gctBOOL_t, ''State'')]"

definition gckOS_UserSignal_qnx :: prototype where
  "gckOS_UserSignal_qnx = proto [(QNXNTO, True)] gceSTATUS_t ''gckOS_UserSignal''
     [(IN, gckOS_t, ''Os''), (IN, gctSIGNAL_t, ''Signal''), (IN, gctINT_t, ''Recvid''),
      (IN, gctINT_t, ''Coid'')]"

definition gckOS_UserSignal :: prototype where
  "gckOS_UserSignal = proto [(QNXNTO, False)] gceSTATUS_t ''gckOS_UserSignal''
     [(IN, gckOS_t, ''Os''), (IN, gctSIGNAL_t, ''Signal''), (IN, gctHANDLE_t, ''Process'')]"

definition gckOS_CacheClean :: prototype where
  "gckOS_CacheClean = proto [] gceSTATUS_t ''gckOS_CacheClean''
     [(Unmarked, gckOS_t, ''Os''), (Unmarked, gctUINT32_t, ''ProcessID''),
      (Unmarked, gctPHYS_ADDR_t, ''Handle''), (Unmarked, gctPHYS_ADDR_T_t, ''Physical''),
      (Unmarked, gctPOINTER_t, ''Logical''), (Unmarked, gctSIZE_T_t, ''Bytes'')]"

definition gckOS_CacheFlush :: prototype where
  "gckOS_CacheFlush = proto [] gceSTATUS_t ''gckOS_CacheFlush''
     [(Unmarked, gckOS_t, ''Os''), (Unmarked, gctUINT32_t, ''ProcessID''),
      (Unmarked, gctPHYS_ADDR_t, ''Handle''), (Unmarked, gctPHYS_ADDR_T_t, ''Physical''),
      (Unmarked, gctPOINTER_t, ''Logical''), (Unmarked, gctSIZE_T_t, ''Bytes'')]"

definition gckOS_CacheInvalidate :: prototype where
  "gckOS_CacheInvalidate = proto [] gceSTATUS_t ''gckOS_CacheInvalidate''
     [(Unmarked, gckOS_t, ''Os''), (Unmarked, gctUINT32_t, ''ProcessID''),
      (Unmarked, gctPHYS_ADDR_t, ''Handle''), (Unmarked, gctPHYS_ADDR_T_t, ''Physical''),
      (Unmarked, gctPOINTER_t, ''Logical''), (Unmarked, gctSIZE_T_t, ''Bytes'')]"

definition gckOS_FlushCache_old :: prototype where
  "gckOS_FlushCache_old = proto [(MRVL_OLD_FLUSHCACHE, True)] gceSTATUS_t ''gckOS_FlushCache''
     [(IN, gctSIZE_T_t, ''start''), (IN, gctSIZE_T_t, ''length''), (IN, gctINT_t, ''direction'')]"

definition gckOS_FlushCache :: prototype where
  "gckOS_FlushCache = proto [(MRVL_OLD_FLUSHCACHE, False)] gceSTATUS_t ''gckOS_FlushCache''
     [(IN, gckOS_t, ''Os''), (IN, gceCORE_t, ''Core''), (IN, gctSIZE_T_t, ''start''),
      (IN, gctSIZE_T_t, ''length''), (IN, gctINT_t, ''direction'')]"

definition gckOS_CPUPhysicalToGPUPhysical :: prototype where
  "gckOS_CPUPhysicalToGPUPhysical = proto [] gceSTATUS_t ''gckOS_CPUPhysicalToGPUPhysical''
     [(IN, gckOS_t, ''Os''), (IN, gctPHYS_ADDR_T_t, ''CPUPhysical''),
      (IN, Ptr gctPHYS_ADDR_T_t, ''GPUPhysical'')]"

definition gckOS_GPUPhysicalToCPUPhysical :: prototype where
  "gckOS_GPUPhysicalToCPUPhysical = proto [] gceSTATUS_t ''gckOS_GPUPhysicalToCPUPhysical''
     [(IN, gckOS_t, ''Os''), (IN, gctUINT32_t, ''GPUPhysical''),
      (IN, gctUINT32_PTR_t, ''CPUPhysical'')]"

definition gckOS_QueryOption :: prototype where
  "gckOS_QueryOption = proto [] gceSTATUS_t ''gckOS_QueryOption''
     [(IN, gckOS_t, ''Os''), (IN, gctCONST_STRING_t, ''Option''), (OUT, Ptr gctUINT32_t, ''Value'')]"

definition gckOS_SetDebugLevel :: prototype where
  "gckOS_SetDebugLevel = proto [] Void ''gckOS_SetDebugLevel''
     [(IN, gctUINT32_t, ''Level'')]"

definition gckOS_SetDebugZone :: prototype where
  "gckOS_SetDebugZone = proto [] Void ''gckOS_SetDebugZone''
     [(IN, gctUINT32_t, ''Zone'')]"

definition gckOS_SetDebugLevelZone :: prototype where
  "gckOS_SetDebugLevelZone = proto [] Void ''gckOS_SetDebugLevelZone''
     [(IN, gctUINT32_t, ''Level''), (IN, gctUINT32_t, ''Zone'')]"

definition gckOS_SetDebugZones :: prototype where
  "gckOS_SetDebugZones = proto [] Void ''gckOS_SetDebugZones''
     [(IN, gctUINT32_t, ''Zones''), (IN, gctBOOL_t, ''Enable'')]"

definition gckOS_SetDebugFile :: prototype where
  "gckOS_SetDebugFile = proto [] Void ''gckOS_SetDebugFile''
     [(IN, gctCONST_STRING_t, ''FileName'')]"

definition gckOS_Broadcast :: prototype where
  "gckOS_Broadcast = proto [] gceSTATUS_t ''gckOS_Broadcast''
     [(IN, gckOS_t, ''Os''), (IN, gckHARDWARE_t, ''Hardware''), (IN, gceBROADCAST_t, ''Reason'')]"

definition gckOS_BroadcastHurry :: prototype where
  "gckOS_BroadcastHurry = proto [] gceSTATUS_t ''gckOS_BroadcastHurry''
     [(IN, gckOS_t, ''Os''), (IN, gckHARDWARE_t, ''Hardware''), (IN, gctUINT_t, ''Urgency'')]"

definition gckOS_BroadcastCalibrateSpeed :: prototype where
  "gckOS_BroadcastCalibrateSpeed = proto [] gceSTATUS_t ''gckOS_BroadcastCalibrateSpeed''
     [(IN, gckOS_t, ''Os''), (IN, gckHARDWARE_t, ''Hardware''), (IN, gctUINT_t, ''Idle''),
      (IN, gctUINT_t, ''Time'')]"

definition gckOS_SetGPUPower :: prototype where
  "gckOS_SetGPUPower = proto [] gceSTATUS_t ''gckOS_SetGPUPower''
     [(IN, gckOS_t, ''Os''), (IN, gceCORE_t, ''Core''), (IN, gctBOOL_t, ''Clock''),
      (IN, gctBOOL_t, ''Power'')]"

definition gckOS_GetIfaceMapping :: prototype where
  "gckOS_GetIfaceMapping = proto [] gceSTATUS_t ''gckOS_GetIfaceMapping''
     [(IN, gckOS_t, ''Os''), (IN, gceCORE_t, ''Core''), (IN, gctBOOL_t, ''Axi''),
      (OUT, Ptr gctPOINTER_t, ''Iface'')]"

definition gckOS_SetGPUPowerOnBeforeInit :: prototype where
  "gckOS_SetGPUPowerOnBeforeInit = proto [] gceSTATUS_t ''gckOS_SetGPUPowerOnBeforeInit''
     [(IN, gctPOINTER_t, ''Ptr4dev''), (IN, gceCORE_t, ''Core''), (IN, gctBOOL_t, ''EnableClk''),
      (IN, gctBOOL_t, ''EnablePwr''), (IN, gctUINT_t, ''clkRate'')]"

definition gckOS_SetGPUPowerOnMRVL :: prototype where
  "gckOS_SetGPUPowerOnMRVL = proto [] gceSTATUS_t ''gckOS_SetGPUPowerOnMRVL''
     [(IN, gckOS_t, ''Os''), (IN, gceCORE_t, ''Core''), (IN, gctBOOL_t, ''EnableClk''),
      (IN, gctBOOL_t, ''EnablePwr''), (IN, gctBOOL_t, ''Hint'')]"

definition gckOS_SetGPUPowerOffMRVL :: prototype where
  "gckOS_SetGPUPowerOffMRVL = proto [] gceSTATUS_t ''gckOS_SetGPUPowerOffMRVL''
     [(IN, gckOS_t, ''Os''), (IN, gceCORE_t, ''Core''), (IN, gctBOOL_t, ''DisableClk''),
      (IN, gctBOOL_t, ''DisablePwr''), (IN, gctBOOL_t, ''Hint'')]"

definition gckOS_SetClkOffWhenIdle :: prototype where
  "gckOS_SetClkOffWhenIdle = proto [] gceSTATUS_t ''gckOS_SetClkOffWhenIdle''
     [(IN, gckOS_t, ''Os''), (IN, gctBOOL_t, ''enable'')]"

definition gckOS_ResetGPU :: prototype where
  "gckOS_ResetGPU = proto [] gceSTATUS_t ''gckOS_ResetGPU''
     [(IN, gckOS_t, ''Os''), (IN, gceCORE_t, ''Core'')]"

definition gckOS_QueryIdleProfile :: prototype where
  "gckOS_QueryIdleProfile = proto [] gceSTATUS_t ''gckOS_QueryIdleProfile''
     [(IN, gckOS_t, ''Os''), (IN, gceCORE_t, ''Core''), (INOUT, gctUINT32_PTR_t, ''Timeslice''),
      (OUT, gctUINT32_PTR_t, ''IdleTime'')]"

definition gckOS_QueryPulseCountProfile :: prototype where
  "gckOS_QueryPulseCountProfile = proto [] gceSTATUS_t ''gckOS_QueryPulseCountProfile''
     [(IN, gckOS_t, ''Os''), (IN, gceCORE_t, ''Core''), (IN, gcePulseEaterDomain_t, ''Domain''),
      (OUT, gctUINT32_PTR_t, ''DutyCycle'')]"

definition gckOS_PowerOffWhenIdle :: prototype where
  "gckOS_PowerOffWhenIdle = proto [] gceSTATUS_t ''gckOS_PowerOffWhenIdle''
     [(IN, gckOS_t, ''Os''), (IN, gctBOOL_t, ''NeedProfile'')]"

definition gckOS_QueryClkRate :: prototype where
  "gckOS_QueryClkRate = proto [] gceSTATUS_t ''gckOS_QueryClkRate''
     [(IN, gckOS_t, ''Os''), (IN, gceCORE_t, ''Core''), (IN, gctBOOL_t, ''Axi''),
      (OUT, gctUINT32_PTR_t, ''Rate'')]"

definition gckOS_SetClkRate :: prototype where
  "gckOS_SetClkRate = proto [] gceSTATUS_t ''gckOS_SetClkRate''
     [(IN, gckOS_t, ''Os''), (IN, gceCORE_t, ''Core''), (IN, gctBOOL_t, ''Axi''),
      (IN, gctUINT32_t, ''Rate'')]"

definition gckOS_GPUFreqNotifierRegister :: prototype where
  "gckOS_GPUFreqNotifierRegister = proto [(MRVL_CONFIG_ENABLE_GPUFREQ, True)] gceSTATUS_t ''gckOS_GPUFreqNotifierRegister''
     [(IN, gckOS_t, ''Os''), (IN, gctPOINTER_t, ''NotifierBlockHandler'')]"

definition gckOS_GPUFreqNotifierUnregister :: prototype where
  "gckOS_GPUFreqNotifierUnregister = proto [(MRVL_CONFIG_ENABLE_GPUFREQ, True)] gceSTATUS_t ''gckOS_GPUFreqNotifierUnregister''
     [(IN, gckOS_t, ''Os''), (IN, gctPOINTER_t, ''NotifierBlockHandler'')]"

definition gckOS_GPUFreqNotifierCallChain :: prototype where
  "gckOS_GPUFreqNotifierCallChain = proto [(MRVL_CONFIG_ENABLE_GPUFREQ, True)] gceSTATUS_t ''gckOS_GPUFreqNotifierCallChain''
     [(IN, gckOS_t, ''Os''), (IN, gceGPUFreqEvent_t, ''Event''), (IN, gctPOINTER_t, ''Data'')]"

definition gckOS_PrepareGPUFrequency :: prototype where
  "gckOS_PrepareGPUFrequency = proto [] gceSTATUS_t ''gckOS_PrepareGPUFrequency''
     [(IN, gckOS_t, ''Os''), (IN, gceCORE_t, ''Core'')]"

definition gckOS_FinishGPUFrequency :: prototype where
  "gckOS_FinishGPUFrequency = proto [] gceSTATUS_t ''gckOS_FinishGPUFrequency''
     [(IN, gckOS_t, ''Os''), (IN, gceCORE_t, ''Core'')]"

definition gckOS_QueryGPUFrequency :: prototype where
  "gckOS_QueryGPUFrequency = proto [] gceSTATUS_t ''gckOS_QueryGPUFrequency''
     [(IN, gckOS_t, ''Os''), (IN, gceCORE_t, ''Core''), (OUT, Ptr gctUINT32_t, ''Frequency''),
      (OUT, Ptr gctUINT8_t, ''Scale'')]"

definition gckOS_SetGPUFrequency :: prototype where
  "gckOS_SetGPUFrequency = proto [] gceSTATUS_t ''gckOS_SetGPUFrequency''
     [(IN, gckOS_t, ''Os''), (IN, gceCORE_t, ''Core''), (IN, gctUINT8_t, ''Scale'')]"

definition gckOS_CreateSemaphore :: prototype where
  "gckOS_CreateSemaphore = proto [] gceSTATUS_t ''gckOS_CreateSemaphore''
     [(IN, gckOS_t, ''Os''), (OUT, Ptr gctPOINTER_t, ''Semaphore'')]"

definition gckOS_CreateSemaphoreVG :: prototype where
  "gckOS_CreateSemaphoreVG = proto [(gcdENABLE_VG, True)] gceSTATUS_t ''gckOS_CreateSemaphoreVG''
     [(IN, gckOS_t, ''Os''), (OUT, Ptr gctPOINTER_t, ''Semaphore'')]"

definition gckOS_DestroySemaphore :: prototype where
  "gckOS_DestroySemaphore = proto [] gceSTATUS_t ''gckOS_DestroySemaphore''
     [(IN, gckOS_t, ''Os''), (IN, gctPOINTER_t, ''Semaphore'')]"

definition gckOS_AcquireSemaphore :: prototype where
  "gckOS_AcquireSemaphore = proto [] gceSTATUS_t ''gckOS_AcquireSemaphore''
     [(IN, gckOS_t, ''Os''), (IN, gctPOINTER_t, ''Semaphore'')]"

definition gckOS_AcquireSemaphoreTimeout :: prototype where
  "gckOS_AcquireSemaphoreTimeout = proto [] gceSTATUS_t ''gckOS_AcquireSemaphoreTimeout''
     [(IN, gckOS_t, ''Os''), (IN, gctPOINTER_t, ''Semaphore''), (IN, gctUINT32_t, ''Wait'')]"

definition gckOS_TryAcquireSemaphore :: prototype where
  "gckOS_TryAcquireSemaphore = proto [] gceSTATUS_t ''gckOS_TryAcquireSemaphore''
     [(IN, gckOS_t, ''Os''), (IN, gctPOINTER_t, ''Semaphore'')]"

definition gckOS_ReleaseSemaphore :: prototype where
  "gckOS_ReleaseSemaphore = proto [] gceSTATUS_t ''gckOS_ReleaseSemaphore''
     [(IN, gckOS_t, ''Os''), (IN, gctPOINTER_t, ''Semaphore'')]"

definition gckOS_CreateTimer :: prototype where
  "gckOS_CreateTimer = proto [] gceSTATUS_t ''gckOS_CreateTimer''
     [(IN, gckOS_t, ''Os''), (IN, gctTIMERFUNCTION_t, ''Function''), (IN, gctPOINTER_t, ''Data''),
      (OUT, Ptr gctPOINTER_t, ''Timer'')]"

definition gckOS_DestroyTimer :: prototype where
  "gckOS_DestroyTimer = proto [] gceSTATUS_t ''gckOS_DestroyTimer''
     [(IN, gckOS_t, ''Os''), (IN, gctPOINTER_t, ''Timer'')]"

definition gckOS_StartTimer :: prototype where
  "gckOS_StartTimer = proto [] gceSTATUS_t ''gckOS_StartTimer''
     [(IN, gckOS_t, ''Os''), (IN, gctPOINTER_t, ''Timer''), (IN, gctUINT32_t, ''Delay'')]"

definition gckOS_StopTimer :: prototype where
  "gckOS_StopTimer = proto [] gceSTATUS_t ''gckOS_StopTimer''
     [(IN, gckOS_t, ''Os''), (IN, gctPOINTER_t, ''Timer'')]"

subsection \<open>\<open>gckHEAP\<close>\<close>

definition gckHEAP_Construct :: prototype where
  "gckHEAP_Construct = proto [] gceSTATUS_t ''gckHEAP_Construct''
     [(IN, gckOS_t, ''Os''), (IN, gctSIZE_T_t, ''AllocationSize''), (OUT, Ptr gckHEAP_t, ''Heap'')]"

definition gckHEAP_Destroy :: prototype where
  "gckHEAP_Destroy = proto [] gceSTATUS_t ''gckHEAP_Destroy''
     [(IN, gckHEAP_t, ''Heap'')]"

definition gckHEAP_Allocate :: prototype where
  "gckHEAP_Allocate = proto [] gceSTATUS_t ''gckHEAP_Allocate''
     [(IN, gckHEAP_t, ''Heap''), (IN, gctSIZE_T_t, ''Bytes''), (OUT, Ptr gctPOINTER_t, ''Node'')]"

definition gckHEAP_Free :: prototype where
  "gckHEAP_Free = proto [] gceSTATUS_t ''gckHEAP_Free''
     [(IN, gckHEAP_t, ''Heap''), (IN, gctPOINTER_t, ''Node'')]"

definition gckHEAP_ProfileStart :: prototype where
  "gckHEAP_ProfileStart = proto [] gceSTATUS_t ''gckHEAP_ProfileStart''
     [(IN, gckHEAP_t, ''Heap'')]"

definition gckHEAP_ProfileEnd :: prototype where
  "gckHEAP_ProfileEnd = proto [] gceSTATUS_t ''gckHEAP_ProfileEnd''
     [(IN, gckHEAP_t, ''Heap''), (IN, gctCONST_STRING_t, ''Title'')]"

subsection \<open>\<open>gckVIDMEM\<close>\<close>

definition gckVIDMEM_Construct :: prototype where
  "gckVIDMEM_Construct = proto [] gceSTATUS_t ''gckVIDMEM_Construct''
     [(IN, gckOS_t, ''Os''), (IN, gctUINT32_t, ''BaseAddress''), (IN, gctSIZE_T_t, ''Bytes''),
      (IN, gctSIZE_T_t, ''Threshold''), (IN, gctSIZE_T_t, ''Banking''),
      (OUT, Ptr gckVIDMEM_t, ''Memory'')]"

definition gckVIDMEM_Destroy :: prototype where
  "gckVIDMEM_Destroy = proto [] gceSTATUS_t ''gckVIDMEM_Destroy''
     [(IN, gckVIDMEM_t, ''Memory'')]"

definition gckVIDMEM_AllocateLinear :: prototype where
  "gckVIDMEM_AllocateLinear = proto [] gceSTATUS_t ''gckVIDMEM_AllocateLinear''
     [(IN, gckKERNEL_t, ''Kernel''), (IN, gckVIDMEM_t, ''Memory''), (IN, gctSIZE_T_t, ''Bytes''),
      (IN, gctUINT32_t, ''Alignment''), (IN, gceSURF_TYPE_t, ''Type''),
      (IN, gctBOOL_t, ''Specified''), (OUT, Ptr gcuVIDMEM_NODE_PTR_t, ''Node'')]"

definition gckVIDMEM_Free :: prototype where
  "gckVIDMEM_Free = proto [] gceSTATUS_t ''gckVIDMEM_Free''
     [(IN, gckKERNEL_t, ''Kernel''), (IN, gcuVIDMEM_NODE_PTR_t, ''Node'')]"

definition gckVIDMEM_Lock :: prototype where
  "gckVIDMEM_Lock = proto [] gceSTATUS_t ''gckVIDMEM_Lock''
     [(IN, gckKERNEL_t, ''Kernel''), (IN, gckVIDMEM_NODE_t, ''Node''),
      (IN, gctBOOL_t, ''Cacheable''), (OUT, Ptr gctUINT32_t, ''Address''),
      (OUT, Ptr gctUINT32_t, ''Gid''), (OUT, Ptr gctUINT64_t, ''PhysicalAddress'')]"

definition gckVIDMEM_Unlock :: prototype where
  "gckVIDMEM_Unlock = proto [] gceSTATUS_t ''gckVIDMEM_Unlock''
     [(IN, gckKERNEL_t, ''Kernel''), (IN, gckVIDMEM_NODE_t, ''Node''),
      (IN, gceSURF_TYPE_t, ''Type''), (INOUT, Ptr gctBOOL_t, ''Asynchroneous'')]"

definition gckVIDMEM_ConstructVirtual :: prototype where
  "gckVIDMEM_ConstructVirtual = proto [] gceSTATUS_t ''gckVIDMEM_ConstructVirtual''
     [(IN, gckKERNEL_t, ''Kernel''), (IN, gctUINT32_t, ''Flag''), (IN, gctSIZE_T_t, ''Bytes''),
      (OUT, Ptr gcuVIDMEM_NODE_PTR_t, ''Node'')]"

definition gckVIDMEM_DestroyVirtual :: prototype where
  "gckVIDMEM_DestroyVirtual = proto [] gceSTATUS_t ''gckVIDMEM_DestroyVirtual''
     [(IN, gcuVIDMEM_NODE_PTR_t, ''Node'')]"

subsection \<open>\<open>gckKERNEL\<close>\<close>

definition gckKERNEL_Construct :: prototype where
  "gckKERNEL_Construct = proto [] gceSTATUS_t ''gckKERNEL_Construct''
     [(IN, gckOS_t, ''Os''), (IN, gceCORE_t, ''Core''), (IN, gctPOINTER_t, ''Context''),
      (IN, gckDB_t, ''SharedDB''), (OUT, Ptr gckKERNEL_t, ''Kernel'')]"

definition gckKERNEL_Destroy :: prototype where
  "gckKERNEL_Destroy = proto [] gceSTATUS_t ''gckKERNEL_Destroy''
     [(IN, gckKERNEL_t, ''Kernel'')]"

definition gckKERNEL_Dispatch :: prototype where
  "gckKERNEL_Dispatch = proto [] gceSTATUS_t ''gckKERNEL_Dispatch''
     [(IN, gckKERNEL_t, ''Kernel''), (IN, gctBOOL_t, ''FromUser''),
      (INOUT, Ptr struct_gcsHAL_INTERFACE_t, ''Interface'')]"

definition gckKERNEL_QueryDatabase :: prototype where
  "gckKERNEL_QueryDatabase = proto [] gceSTATUS_t ''gckKERNEL_QueryDatabase''
     [(IN, gckKERNEL_t, ''Kernel''), (IN, gctUINT32_t, ''ProcessID''),
      (INOUT, Ptr gcsHAL_INTERFACE_t, ''Interface'')]"

definition gckKERNEL_QueryVideoMemory :: prototype where
  "gckKERNEL_QueryVideoMemory = proto [] gceSTATUS_t ''gckKERNEL_QueryVideoMemory''
     [(IN, gckKERNEL_t, ''Kernel''), (OUT, Ptr struct_gcsHAL_INTERFACE_t, ''Interface'')]"

definition gckKERNEL_GetVideoMemoryPool :: prototype where
  "gckKERNEL_GetVideoMemoryPool = proto [] gceSTATUS_t ''gckKERNEL_GetVideoMemoryPool''
     [(IN, gckKERNEL_t, ''Kernel''), (IN, gcePOOL_t, ''Pool''),
      (OUT, Ptr gckVIDMEM_t, ''VideoMemory'')]"

definition gckKERNEL_AllocateLinearMemory :: prototype where
  "gckKERNEL_AllocateLinearMemory = proto [] gceSTATUS_t ''gckKERNEL_AllocateLinearMemory''
     [(IN, gckKERNEL_t, ''Kernel''), (IN, gctUINT32_t, ''ProcessID''),
      (INOUT, Ptr gcePOOL_t, ''Pool''), (IN, gctSIZE_T_t, ''Bytes''),
      (IN, gctUINT32_t, ''Alignment''), (IN, gceSURF_TYPE_t, ''Type''), (IN, gctUINT32_t, ''Flag''),
      (OUT, Ptr gctUINT32_t, ''Node'')]"

definition gckKERNEL_ReleaseVideoMemory :: prototype where
  "gckKERNEL_ReleaseVideoMemory = proto [] gceSTATUS_t ''gckKERNEL_ReleaseVideoMemory''
     [(IN, gckKERNEL_t, ''Kernel''), (IN, gctUINT32_t, ''ProcessID''), (IN, gctUINT32_t, ''Handle'')]"

definition gckKERNEL_LockVideoMemory :: prototype where
  "gckKERNEL_LockVideoMemory = proto [] gceSTATUS_t ''gckKERNEL_LockVideoMemory''
     [(IN, gckKERNEL_t, ''Kernel''), (IN, gceCORE_t, ''Core''), (IN, gctUINT32_t, ''ProcessID''),
      (IN, gctBOOL_t, ''FromUser''), (INOUT, Ptr gcsHAL_INTERFACE_t, ''Interface'')]"

definition gckKERNEL_UnlockVideoMemory :: prototype where
  "gckKERNEL_UnlockVideoMemory = proto [] gceSTATUS_t ''gckKERNEL_UnlockVideoMemory''
     [(IN, gckKERNEL_t, ''Kernel''), (IN, gctUINT32_t, ''ProcessID''),
      (INOUT, Ptr gcsHAL_INTERFACE_t, ''Interface'')]"

definition gckKERNEL_MapVideoMemory :: prototype where
  "gckKERNEL_MapVideoMemory = proto [(QNXNTO, False)] gceSTATUS_t ''gckKERNEL_MapVideoMemory''
     [(IN, gckKERNEL_t, ''Kernel''), (IN, gctBOOL_t, ''InUserSpace''),
      (IN, gctUINT32_t, ''Address''), (OUT, Ptr gctPOINTER_t, ''Logical'')]"

definition gckKERNEL_MapVideoMemory_qnx :: prototype where
  "gckKERNEL_MapVideoMemory_qnx = proto [(QNXNTO, True)] gceSTATUS_t ''gckKERNEL_MapVideoMemory''
     [(IN, gckKERNEL_t, ''Kernel''), (IN, gctBOOL_t, ''InUserSpace''),
      (IN, gctUINT32_t, ''Address''), (IN, gctUINT32_t, ''Pid''), (IN, gctUINT32_t, ''Bytes''),
      (OUT, Ptr gctPOINTER_t, ''Logical'')]"

definition gckKERNEL_MapVideoMemoryEx :: prototype where
  "gckKERNEL_MapVideoMemoryEx = proto [(QNXNTO, False)] gceSTATUS_t ''gckKERNEL_MapVideoMemoryEx''
     [(IN, gckKERNEL_t, ''Kernel''), (IN, gceCORE_t, ''Core''), (IN, gctBOOL_t, ''InUserSpace''),
      (IN, gctUINT32_t, ''Address''), (OUT, Ptr gctPOINTER_t, ''Logical'')]"

definition gckKERNEL_MapVideoMemoryEx_qnx :: prototype where
  "gckKERNEL_MapVideoMemoryEx_qnx = proto [(QNXNTO, True)] gceSTATUS_t ''gckKERNEL_MapVideoMemoryEx''
     [(IN, gckKERNEL_t, ''Kernel''), (IN, gceCORE_t, ''Core''), (IN, gctBOOL_t, ''InUserSpace''),
      (IN, gctUINT32_t, ''Address''), (IN, gctUINT32_t, ''Pid''), (IN, gctUINT32_t, ''Bytes''),
      (OUT, Ptr gctPOINTER_t, ''Logical'')]"

definition gckKERNEL_UnmapVideoMemory :: prototype where
  "gckKERNEL_UnmapVideoMemory = proto [(QNXNTO, True)] gceSTATUS_t ''gckKERNEL_UnmapVideoMemory''
     [(IN, gckKERNEL_t, ''Kernel''), (IN, gctPOINTER_t, ''Logical''), (IN, gctUINT32_t, ''Pid''),
      (IN, gctUINT32_t, ''Bytes'')]"

definition gckKERNEL_MapMemory :: prototype where
  "gckKERNEL_MapMemory = proto [] gceSTATUS_t ''gckKERNEL_MapMemory''
     [(IN, gckKERNEL_t, ''Kernel''), (IN, gctPHYS_ADDR_t, ''Physical''),
      (IN, gctSIZE_T_t, ''Bytes''), (OUT, Ptr gctPOINTER_t, ''Logical'')]"

definition gckKERNEL_UnmapMemory :: prototype where
  "gckKERNEL_UnmapMemory = proto [] gceSTATUS_t ''gckKERNEL_UnmapMemory''
     [(IN, gckKERNEL_t, ''Kernel''), (IN, gctPHYS_ADDR_t, ''Physical''),
      (IN, gctSIZE_T_t, ''Bytes''), (IN, gctPOINTER_t, ''Logical'')]"

definition gckKERNEL_Notify :: prototype where
  "gckKERNEL_Notify = proto [(gcdMULTI_GPU, False)] gceSTATUS_t ''gckKERNEL_Notify''
     [(IN, gckKERNEL_t, ''Kernel''), (IN, gceNOTIFY_t, ''Notifcation''), (IN, gctBOOL_t, ''Data'')]"

definition gckKERNEL_Notify_multi :: prototype where
  "gckKERNEL_Notify_multi = proto [(gcdMULTI_GPU, True)] gceSTATUS_t ''gckKERNEL_Notify''
     [(IN, gckKERNEL_t, ''Kernel''), (IN, gctUINT_t, ''CoreId''), (IN, gceNOTIFY_t, ''Notifcation''),
      (IN, gctBOOL_t, ''Data'')]"

definition gckKERNEL_QuerySettings :: prototype where
  "gckKERNEL_QuerySettings = proto [] gceSTATUS_t ''gckKERNEL_QuerySettings''
     [(IN, gckKERNEL_t, ''Kernel''), (OUT, Ptr gcsKERNEL_SETTINGS_t, ''Settings'')]"

definition gckKERNEL_Recovery :: prototype where
  "gckKERNEL_Recovery = proto [] gceSTATUS_t ''gckKERNEL_Recovery''
     [(IN, gckKERNEL_t, ''Kernel'')]"

definition gckKERNEL_SetTimeOut :: prototype where
  "gckKERNEL_SetTimeOut = proto [] Void ''gckKERNEL_SetTimeOut''
     [(IN, gckKERNEL_t, ''Kernel''), (IN, gctUINT32_t, ''timeOut'')]"

definition gckKERNEL_OpenUserData :: prototype where
  "gckKERNEL_OpenUserData = proto [] gceSTATUS_t ''gckKERNEL_OpenUserData''
     [(IN, gckKERNEL_t, ''Kernel''), (IN, gctBOOL_t, ''NeedCopy''),
      (IN, gctPOINTER_t, ''StaticStorage''), (IN, gctPOINTER_t, ''UserPointer''),
      (IN, gctSIZE_T_t, ''Size''), (OUT, Ptr gctPOINTER_t, ''KernelPointer'')]"

definition gckKERNEL_CloseUserData :: prototype where
  "gckKERNEL_CloseUserData = proto [] gceSTATUS_t ''gckKERNEL_CloseUserData''
     [(IN, gckKERNEL_t, ''Kernel''), (IN, gctBOOL_t, ''NeedCopy''), (IN, gctBOOL_t, ''FlushData''),
      (IN, gctPOINTER_t, ''UserPointer''), (IN, gctSIZE_T_t, ''Size''),
      (OUT, Ptr gctPOINTER_t, ''KernelPointer'')]"

definition gckKERNEL_ShowVidMemUsageDetails :: prototype where
  "gckKERNEL_ShowVidMemUsageDetails = proto [] gceSTATUS_t ''gckKERNEL_ShowVidMemUsageDetails''
     [(IN, gckKERNEL_t, ''Kernel''), (IN, gctBOOL_t, ''ListByPID''), (IN, gctINT_t, ''Value''),
      (OUT, gctPOINTER_t, ''Buffer''), (OUT, gctUINT32_PTR_t, ''Length'')]"

subsection \<open>\<open>gckDVFS\<close>\<close>

definition gckDVFS_Construct :: prototype where
  "gckDVFS_Construct = proto [] gceSTATUS_t ''gckDVFS_Construct''
     [(IN, gckHARDWARE_t, ''Hardware''), (OUT, Ptr gckDVFS_t, ''Frequency'')]"

definition gckDVFS_Destroy :: prototype where
  "gckDVFS_Destroy = proto [] gceSTATUS_t ''gckDVFS_Destroy''
     [(IN, gckDVFS_t, ''Dvfs'')]"

definition gckDVFS_Start :: prototype where
  "gckDVFS_Start = proto [] gceSTATUS_t ''gckDVFS_Start''
     [(IN, gckDVFS_t, ''Dvfs'')]"

definition gckDVFS_Stop :: prototype where
  "gckDVFS_Stop = proto [] gceSTATUS_t ''gckDVFS_Stop''
     [(IN, gckDVFS_t, ''Dvfs'')]"

subsection \<open>\<open>gckHARDWARE\<close>\<close>

definition gckHARDWARE_Construct :: prototype where
  "gckHARDWARE_Construct = proto [] gceSTATUS_t ''gckHARDWARE_Construct''
     [(IN, gckOS_t, ''Os''), (IN, gceCORE_t, ''Core''), (OUT, Ptr gckHARDWARE_t, ''Hardware'')]"

definition gckHARDWARE_Destroy :: prototype where
  "gckHARDWARE_Destroy = proto [] gceSTATUS_t ''gckHARDWARE_Destroy''
     [(IN, gckHARDWARE_t, ''Hardware'')]"

definition gckHARDWARE_GetType :: prototype where
  "gckHARDWARE_GetType = proto [] gceSTATUS_t ''gckHARDWARE_GetType''
     [(IN, gckHARDWARE_t, ''Hardware''), (OUT, Ptr gceHARDWARE_TYPE_t, ''Type'')]"

definition gckHARDWARE_QuerySystemMemory :: prototype where
  "gckHARDWARE_QuerySystemMemory = proto [] gceSTATUS_t ''gckHARDWARE_QuerySystemMemory''
     [(IN, gckHARDWARE_t, ''Hardware''), (OUT, Ptr gctSIZE_T_t, ''SystemSize''),
      (OUT, Ptr gctUINT32_t, ''SystemBaseAddress'')]"

definition gckHARDWARE_BuildVirtualAddress :: prototype where
  "gckHARDWARE_BuildVirtualAddress = proto [] gceSTATUS_t ''gckHARDWARE_BuildVirtualAddress''
     [(IN, gckHARDWARE_t, ''Hardware''), (IN, gctUINT32_t, ''Index''), (IN, gctUINT32_t, ''Offset''),
      (OUT, Ptr gctUINT32_t, ''Address'')]"

definition gckHARDWARE_QueryCommandBuffer :: prototype where
  "gckHARDWARE_QueryCommandBuffer = proto [] gceSTATUS_t ''gckHARDWARE_QueryCommandBuffer''
     [(IN, gckHARDWARE_t, ''Hardware''), (OUT, Ptr gctUINT32_t, ''Alignment''),
      (OUT, Ptr gctUINT32_t, ''ReservedHead''), (OUT, Ptr gctUINT32_t, ''ReservedTail'')]"

definition gckHARDWARE_WaitLink :: prototype where
  "gckHARDWARE_WaitLink = proto [] gceSTATUS_t ''gckHARDWARE_WaitLink''
     [(IN, gckHARDWARE_t, ''Hardware''), (IN, gctPOINTER_t, ''Logical''),
      (IN, gctUINT32_t, ''Offset''), (INOUT, Ptr gctUINT32_t, ''Bytes''),
      (OUT, Ptr gctUINT32_t, ''WaitOffset''), (OUT, Ptr gctUINT32_t, ''WaitBytes'')]"

definition gckHARDWARE_Execute :: prototype where
  "gckHARDWARE_Execute = proto [] gceSTATUS_t ''gckHARDWARE_Execute''
     [(IN, gckHARDWARE_t, ''Hardware''), (IN, gctUINT32_t, ''Address''),
      (IN, gctSIZE_T_t, ''Bytes''), (IN, gctBOOL_t, ''FromIsr'')]"

definition gckHARDWARE_End :: prototype where
  "gckHARDWARE_End = proto [] gceSTATUS_t ''gckHARDWARE_End''
     [(IN, gckHARDWARE_t, ''Hardware''), (IN, gctPOINTER_t, ''Logical''),
      (INOUT, Ptr gctUINT32_t, ''Bytes'')]"

definition gckHARDWARE_ChipEnable :: prototype where
  "gckHARDWARE_ChipEnable = proto [(gcdMULTI_GPU, True)] gceSTATUS_t ''gckHARDWARE_ChipEnable''
     [(IN, gckHARDWARE_t, ''Hardware''), (IN, gctPOINTER_t, ''Logical''),
      (IN, gceCORE_3D_MASK_t, ''ChipEnable''), (INOUT, Ptr gctSIZE_T_t, ''Bytes'')]"

definition gckHARDWARE_Nop :: prototype where
  "gckHARDWARE_Nop = proto [] gceSTATUS_t ''gckHARDWARE_Nop''
     [(IN, gckHARDWARE_t, ''Hardware''), (IN, gctPOINTER_t, ''Logical''),
      (INOUT, Ptr gctSIZE_T_t, ''Bytes'')]"

definition gckHARDWARE_PipeSelect :: prototype where
  "gckHARDWARE_PipeSelect = proto [] gceSTATUS_t ''gckHARDWARE_PipeSelect''
     [(IN, gckHARDWARE_t, ''Hardware''), (IN, gctPOINTER_t, ''Logical''),
      (IN, gcePIPE_SELECT_t, ''Pipe''), (INOUT, Ptr gctUINT32_t, ''Bytes'')]"

definition gckHARDWARE_Link :: prototype where
  "gckHARDWARE_Link = proto [] gceSTATUS_t ''gckHARDWARE_Link''
     [(IN, gckHARDWARE_t, ''Hardware''), (IN, gctPOINTER_t, ''Logical''),
      (IN, gctUINT32_t, ''FetchAddress''), (IN, gctUINT32_t, ''FetchSize''),
      (INOUT, Ptr gctUINT32_t, ''Bytes''), (OUT, Ptr gctUINT32_t, ''Low''),
      (OUT, Ptr gctUINT32_t, ''High'')]"

definition gckHARDWARE_Event :: prototype where
  "gckHARDWARE_Event = proto [] gceSTATUS_t ''gckHARDWARE_Event''
     [(IN, gckHARDWARE_t, ''Hardware''), (IN, gctPOINTER_t, ''Logical''),
      (IN, gctUINT8_t, ''Event''), (IN, gceKERNEL_WHERE_t, ''FromWhere''),
      (INOUT, Ptr gctUINT32_t, ''Bytes'')]"

definition gckHARDWARE_QueryMemory :: prototype where
  "gckHARDWARE_QueryMemory = proto [] gceSTATUS_t ''gckHARDWARE_QueryMemory''
     [(IN, gckHARDWARE_t, ''Hardware''), (OUT, Ptr gctSIZE_T_t, ''InternalSize''),
      (OUT, Ptr gctUINT32_t, ''InternalBaseAddress''), (OUT, Ptr gctUINT32_t, ''InternalAlignment''),
      (OUT, Ptr gctSIZE_T_t, ''ExternalSize''), (OUT, Ptr gctUINT32_t, ''ExternalBaseAddress''),
      (OUT, Ptr gctUINT32_t, ''ExternalAlignment''), (OUT, Ptr gctUINT32_t, ''HorizontalTileSize''),
      (OUT, Ptr gctUINT32_t, ''VerticalTileSize'')]"

definition gckHARDWARE_QueryChipIdentity :: prototype where
  "gckHARDWARE_QueryChipIdentity = proto [] gceSTATUS_t ''gckHARDWARE_QueryChipIdentity''
     [(IN, gckHARDWARE_t, ''Hardware''), (OUT, gcsHAL_QUERY_CHIP_IDENTITY_PTR_t, ''Identity'')]"

definition gckHARDWARE_QueryShaderCaps :: prototype where
  "gckHARDWARE_QueryShaderCaps = proto [] gceSTATUS_t ''gckHARDWARE_QueryShaderCaps''
     [(IN, gckHARDWARE_t, ''Hardware''), (OUT, Ptr gctUINT_t, ''VertexUniforms''),
      (OUT, Ptr gctUINT_t, ''FragmentUniforms''), (OUT, Ptr gctBOOL_t, ''UnifiedUnforms'')]"

definition gckHARDWARE_SplitMemory :: prototype where
  "gckHARDWARE_SplitMemory = proto [] gceSTATUS_t ''gckHARDWARE_SplitMemory''
     [(IN, gckHARDWARE_t, ''Hardware''), (IN, gctUINT32_t, ''Address''),
      (OUT, Ptr gcePOOL_t, ''Pool''), (OUT, Ptr gctUINT32_t, ''Offset'')]"

definition gckHARDWARE_UpdateQueueTail :: prototype where
  "gckHARDWARE_UpdateQueueTail = proto [] gceSTATUS_t ''gckHARDWARE_UpdateQueueTail''
     [(IN, gckHARDWARE_t, ''Hardware''), (IN, gctPOINTER_t, ''Logical''),
      (IN, gctUINT32_t, ''Offset'')]"

definition gckHARDWARE_ConvertLogical :: prototype where
  "gckHARDWARE_ConvertLogical = proto [] gceSTATUS_t ''gckHARDWARE_ConvertLogical''
     [(IN, gckHARDWARE_t, ''Hardware''), (IN, gctPOINTER_t, ''Logical''),
      (IN, gctBOOL_t, ''InUserSpace''), (OUT, Ptr gctUINT32_t, ''Address'')]"

definition gckHARDWARE_Interrupt :: prototype where
  "gckHARDWARE_Interrupt = proto [(gcdMULTI_GPU, False)] gceSTATUS_t ''gckHARDWARE_Interrupt''
     [(IN, gckHARDWARE_t, ''Hardware''), (IN, gctBOOL_t, ''InterruptValid'')]"

definition gckHARDWARE_Interrupt_multi :: prototype where
  "gckHARDWARE_Interrupt_multi = proto [(gcdMULTI_GPU, True)] gceSTATUS_t ''gckHARDWARE_Interrupt''
     [(IN, gckHARDWARE_t, ''Hardware''), (IN, gctUINT_t, ''CoreId''),
      (IN, gctBOOL_t, ''InterruptValid'')]"

definition gckHARDWARE_SetMMU :: prototype where
  "gckHARDWARE_SetMMU = proto [] gceSTATUS_t ''gckHARDWARE_SetMMU''
     [(IN, gckHARDWARE_t, ''Hardware''), (IN, gctPOINTER_t, ''Logical'')]"

definition gckHARDWARE_FlushMMU :: prototype where
  "gckHARDWARE_FlushMMU = proto [] gceSTATUS_t ''gckHARDWARE_FlushMMU''
     [(IN, gckHARDWARE_t, ''Hardware'')]"

definition gckHARDWARE_SetMMUv2 :: prototype where
  "gckHARDWARE_SetMMUv2 = proto [] gceSTATUS_t ''gckHARDWARE_SetMMUv2''
     [(IN, gckHARDWARE_t, ''Hardware''), (IN, gctBOOL_t, ''Enable''),
      (IN, gctPOINTER_t, ''MtlbAddress''), (IN, gceMMU_MODE_t, ''Mode''),
      (IN, gctPOINTER_t, ''SafeAddress''), (IN, gctBOOL_t, ''FromPower'')]"

definition gckHARDWARE_ConfigMMU :: prototype where
  "gckHARDWARE_ConfigMMU = proto [(gcdPROCESS_ADDRESS_SPACE, True)] gceSTATUS_t ''gckHARDWARE_ConfigMMU''
     [(IN, gckHARDWARE_t, ''Hardware''), (IN, gctPOINTER_t, ''Logical''),
      (IN, gctPOINTER_t, ''MtlbLogical''), (IN, gctUINT32_t, ''Offset''),
      (INOUT, Ptr gctSIZE_T_t, ''Bytes''), (OUT, Ptr gctSIZE_T_t, ''WaitLinkOffset''),
      (OUT, Ptr gctSIZE_T_t, ''WaitLinkBytes'')]"

definition gckHARDWARE_GetIdle :: prototype where
  "gckHARDWARE_GetIdle = proto [] gceSTATUS_t ''gckHARDWARE_GetIdle''
     [(IN, gckHARDWARE_t, ''Hardware''), (IN, gctBOOL_t, ''Wait''), (OUT, Ptr gctUINT32_t, ''Data'')]"

definition gckHARDWARE_Flush :: prototype where
  "gckHARDWARE_Flush = proto [] gceSTATUS_t ''gckHARDWARE_Flush''
     [(IN, gckHARDWARE_t, ''Hardware''), (IN, gceKERNEL_FLUSH_t, ''Flush''),
      (IN, gctPOINTER_t, ''Logical''), (INOUT, Ptr gctUINT32_t, ''Bytes'')]"

definition gckHARDWARE_SetFastClear :: prototype where
  "gckHARDWARE_SetFastClear = proto [] gceSTATUS_t ''gckHARDWARE_SetFastClear''
     [(IN, gckHARDWARE_t, ''Hardware''), (IN, gctINT_t, ''Enable''), (IN, gctINT_t, ''Compression'')]"

definition gckHARDWARE_ReadInterrupt :: prototype where
  "gckHARDWARE_ReadInterrupt = proto [] gceSTATUS_t ''gckHARDWARE_ReadInterrupt''
     [(IN, gckHARDWARE_t, ''Hardware''), (OUT, gctUINT32_PTR_t, ''IDs'')]"

definition gckHARDWARE_SetPowerManagementState :: prototype where
  "gckHARDWARE_SetPowerManagementState = proto [] gceSTATUS_t ''gckHARDWARE_SetPowerManagementState''
     [(IN, gckHARDWARE_t, ''Hardware''), (IN, gceCHIPPOWERSTATE_t, ''State'')]"

definition gckHARDWARE_QueryPowerManagementState :: prototype where
  "gckHARDWARE_QueryPowerManagementState = proto [] gceSTATUS_t ''gckHARDWARE_QueryPowerManagementState''
     [(IN, gckHARDWARE_t, ''Hardware''), (OUT, Ptr gceCHIPPOWERSTATE_t, ''State'')]"

definition gckHARDWARE_SetPowerManagement :: prototype where
  "gckHARDWARE_SetPowerManagement = proto [] gceSTATUS_t ''gckHARDWARE_SetPowerManagement''
     [(IN, gckHARDWARE_t, ''Hardware''), (IN, gctBOOL_t, ''PowerManagement'')]"

definition gckHARDWARE_SetGpuProfiler :: prototype where
  "gckHARDWARE_SetGpuProfiler = proto [] gceSTATUS_t ''gckHARDWARE_SetGpuProfiler''
     [(IN, gckHARDWARE_t, ''Hardware''), (IN, gctBOOL_t, ''GpuProfiler'')]"

definition gckHARDWARE_SetFscaleValue :: prototype where
  "gckHARDWARE_SetFscaleValue = proto [(gcdENABLE_FSCALE_VAL_ADJUST, True)] gceSTATUS_t ''gckHARDWARE_SetFscaleValue''
     [(IN, gckHARDWARE_t, ''Hardware''), (IN, gctUINT32_t, ''FscaleValue'')]"

definition gckHARDWARE_GetFscaleValue :: prototype where
  "gckHARDWARE_GetFscaleValue = proto [(gcdENABLE_FSCALE_VAL_ADJUST, True)] gceSTATUS_t ''gckHARDWARE_GetFscaleValue''
     [(IN, gckHARDWARE_t, ''Hardware''), (IN, Ptr gctUINT_t, ''FscaleValue''),
      (IN, Ptr gctUINT_t, ''MinFscaleValue''), (IN, Ptr gctUINT_t, ''MaxFscaleValue'')]"

definition gckHARDWARE_SetMinFscaleValue :: prototype where
  "gckHARDWARE_SetMinFscaleValue = proto [(gcdENABLE_FSCALE_VAL_ADJUST, True)] gceSTATUS_t ''gckHARDWARE_SetMinFscaleValue''
     [(IN, gckHARDWARE_t, ''Hardware''), (IN, gctUINT_t, ''MinFscaleValue'')]"

definition gckHARDWARE_SetPowerOffTimeout :: prototype where
  "gckHARDWARE_SetPowerOffTimeout = proto [(gcdPOWEROFF_TIMEOUT, True)] gceSTATUS_t ''gckHARDWARE_SetPowerOffTimeout''
     [(IN, gckHARDWARE_t, ''Hardware''), (IN, gctUINT32_t, ''Timeout'')]"

definition gckHARDWARE_QueryPowerOffTimeout :: prototype where
  "gckHARDWARE_QueryPowerOffTimeout = proto [(gcdPOWEROFF_TIMEOUT, True)] gceSTATUS_t ''gckHARDWARE_QueryPowerOffTimeout''
     [(IN, gckHARDWARE_t, ''Hardware''), (OUT, Ptr gctUINT32_t, ''Timeout'')]"

definition gckHARDWARE_SetPowerOffTimeoutEnable :: prototype where
  "gckHARDWARE_SetPowerOffTimeoutEnable = proto [(gcdPOWEROFF_TIMEOUT, True)] gceSTATUS_t ''gckHARDWARE_SetPowerOffTimeoutEnable''
     [(IN, gckHARDWARE_t, ''Hardware''), (IN, gctBOOL_t, ''Enable'')]"

definition gckHARDWARE_QueryPowerOffTimeoutEnable :: prototype where
  "gckHARDWARE_QueryPowerOffTimeoutEnable = proto [(gcdPOWEROFF_TIMEOUT, True)] gceSTATUS_t ''gckHARDWARE_QueryPowerOffTimeoutEnable''
     [(IN, gckHARDWARE_t, ''Hardware''), (OUT, Ptr gctBOOL_t, ''Enable'')]"

definition gckHARDWARE_ProfileEngine2D :: prototype where
  "gckHARDWARE_ProfileEngine2D = proto [] gceSTATUS_t ''gckHARDWARE_ProfileEngine2D''
     [(IN, gckHARDWARE_t, ''Hardware''), (OUT, gcs2D_PROFILE_PTR_t, ''Profile'')]"

definition gckHARDWARE_InitializeHardware :: prototype where
  "gckHARDWARE_InitializeHardware = proto [] gceSTATUS_t ''gckHARDWARE_InitializeHardware''
     [(IN, gckHARDWARE_t, ''Hardware'')]"

definition gckHARDWARE_Reset :: prototype where
  "gckHARDWARE_Reset = proto [] gceSTATUS_t ''gckHARDWARE_Reset''
     [(IN, gckHARDWARE_t, ''Hardware'')]"

definition gckHARDWARE_SetIsrManager :: prototype where
  "gckHARDWARE_SetIsrManager = proto [] gceSTATUS_t ''gckHARDWARE_SetIsrManager''
     [(IN, gckHARDWARE_t, ''Hardware''), (IN, gctISRMANAGERFUNC_t, ''StartIsr''),
      (IN, gctISRMANAGERFUNC_t, ''StopIsr''), (IN, gctPOINTER_t, ''Context'')]"

definition gckHARDWARE_Compose :: prototype where
  "gckHARDWARE_Compose = proto [] gceSTATUS_t ''gckHARDWARE_Compose''
     [(IN, gckHARDWARE_t, ''Hardware''), (IN, gctUINT32_t, ''ProcessID''),
      (IN, gctPHYS_ADDR_t, ''Physical''), (IN, gctPOINTER_t, ''Logical''),
      (IN, gctSIZE_T_t, ''Offset''), (IN, gctSIZE_T_t, ''Size''), (IN, gctUINT8_t, ''EventID'')]"

definition gckHARDWARE_IsFeatureAvailable :: prototype where
  "gckHARDWARE_IsFeatureAvailable = proto [] gceSTATUS_t ''gckHARDWARE_IsFeatureAvailable''
     [(IN, gckHARDWARE_t, ''Hardware''), (IN, gceFEATURE_t, ''Feature'')]"

definition gckHARDWARE_DumpMMUException :: prototype where
  "gckHARDWARE_DumpMMUException = proto [] gceSTATUS_t ''gckHARDWARE_DumpMMUException''
     [(IN, gckHARDWARE_t, ''Hardware'')]"

definition gckHARDWARE_DumpGPUState :: prototype where
  "gckHARDWARE_DumpGPUState = proto [] gceSTATUS_t ''gckHARDWARE_DumpGPUState''
     [(IN, gckHARDWARE_t, ''Hardware'')]"

definition gckHARDWARE_InitDVFS :: prototype where
  "gckHARDWARE_InitDVFS = proto [] gceSTATUS_t ''gckHARDWARE_InitDVFS''
     [(IN, gckHARDWARE_t, ''Hardware'')]"

definition gckHARDWARE_QueryLoad :: prototype where
  "gckHARDWARE_QueryLoad = proto [] gceSTATUS_t ''gckHARDWARE_QueryLoad''
     [(IN, gckHARDWARE_t, ''Hardware''), (OUT, Ptr gctUINT32_t, ''Load'')]"

definition gckHARDWARE_SetDVFSPeroid :: prototype where
  "gckHARDWARE_SetDVFSPeroid = proto [] gceSTATUS_t ''gckHARDWARE_SetDVFSPeroid''
     [(IN, gckHARDWARE_t, ''Hardware''), (IN, gctUINT32_t, ''Frequency'')]"

definition gckHARDWARE_PrepareFunctions :: prototype where
  "gckHARDWARE_PrepareFunctions = proto [] gceSTATUS_t ''gckHARDWARE_PrepareFunctions''
     [(Unmarked, gckHARDWARE_t, ''Hardware'')]"

definition gckHARDWARE_SetMMUStates :: prototype where
  "gckHARDWARE_SetMMUStates = proto [] gceSTATUS_t ''gckHARDWARE_SetMMUStates''
     [(IN, gckHARDWARE_t, ''Hardware''), (IN, gctPOINTER_t, ''MtlbAddress''),
      (IN, gceMMU_MODE_t, ''Mode''), (IN, gctPOINTER_t, ''SafeAddress''),
      (IN, gctPOINTER_t, ''Logical''), (INOUT, Ptr gctUINT32_t, ''Bytes'')]"

subsection \<open>\<open>gckINTERRUPT\<close>\<close>

definition gckINTERRUPT_Construct :: prototype where
  "gckINTERRUPT_Construct = proto [(gcdENABLE_VG, False)] gceSTATUS_t ''gckINTERRUPT_Construct''
     [(IN, gckKERNEL_t, ''Kernel''), (OUT, Ptr gckINTERRUPT_t, ''Interrupt'')]"

definition gckINTERRUPT_Destroy :: prototype where
  "gckINTERRUPT_Destroy = proto [(gcdENABLE_VG, False)] gceSTATUS_t ''gckINTERRUPT_Destroy''
     [(IN, gckINTERRUPT_t, ''Interrupt'')]"

definition gckINTERRUPT_SetHandler :: prototype where
  "gckINTERRUPT_SetHandler = proto [(gcdENABLE_VG, False)] gceSTATUS_t ''gckINTERRUPT_SetHandler''
     [(IN, gckINTERRUPT_t, ''Interrupt''), (INOUT, gctINT32_PTR_t, ''Id''),
      (IN, gctINTERRUPT_HANDLER_t, ''Handler'')]"

definition gckINTERRUPT_Notify :: prototype where
  "gckINTERRUPT_Notify = proto [(gcdENABLE_VG, False)] gceSTATUS_t ''gckINTERRUPT_Notify''
     [(IN, gckINTERRUPT_t, ''Interrupt''), (IN, gctBOOL_t, ''Valid'')]"

subsection \<open>\<open>gckEVENT\<close>\<close>

definition gckEVENT_Construct :: prototype where
  "gckEVENT_Construct = proto [] gceSTATUS_t ''gckEVENT_Construct''
     [(IN, gckKERNEL_t, ''Kernel''), (OUT, Ptr gckEVENT_t, ''Event'')]"

definition gckEVENT_Destroy :: prototype where
  "gckEVENT_Destroy = proto [] gceSTATUS_t ''gckEVENT_Destroy''
     [(IN, gckEVENT_t, ''Event'')]"

definition gckEVENT_GetEvent_multi :: prototype where
  "gckEVENT_GetEvent_multi = proto [(gcdMULTI_GPU, True)] gceSTATUS_t ''gckEVENT_GetEvent''
     [(IN, gckEVENT_t, ''Event''), (IN, gctBOOL_t, ''Wait''), (OUT, Ptr gctUINT8_t, ''EventID''),
      (IN, gceKERNEL_WHERE_t, ''Source''), (IN, gceCORE_3D_MASK_t, ''ChipEnable'')]"

definition gckEVENT_GetEvent :: prototype where
  "gckEVENT_GetEvent = proto [(gcdMULTI_GPU, False)] gceSTATUS_t ''gckEVENT_GetEvent''
     [(IN, gckEVENT_t, ''Event''), (IN, gctBOOL_t, ''Wait''), (OUT, Ptr gctUINT8_t, ''EventID''),
      (IN, gceKERNEL_WHERE_t, ''Source'')]"

definition gckEVENT_AddList :: prototype where
  "gckEVENT_AddList = proto [] gceSTATUS_t ''gckEVENT_AddList''
     [(IN, gckEVENT_t, ''Event''), (IN, gcsHAL_INTERFACE_PTR_t, ''Interface''),
      (IN, gceKERNEL_WHERE_t, ''FromWhere''), (IN, gctBOOL_t, ''AllocateAllowed''),
      (IN, gctBOOL_t, ''FromKernel'')]"

definition gckEVENT_FreeNonPagedMemory :: prototype where
  "gckEVENT_FreeNonPagedMemory = proto [] gceSTATUS_t ''gckEVENT_FreeNonPagedMemory''
     [(IN, gckEVENT_t, ''Event''), (IN, gctSIZE_T_t, ''Bytes''), (IN, gctPHYS_ADDR_t, ''Physical''),
      (IN, gctPOINTER_t, ''Logical''), (IN, gceKERNEL_WHERE_t, ''FromWhere'')]"

definition gckEVENT_FreeContiguousMemory :: prototype where
  "gckEVENT_FreeContiguousMemory = proto [] gceSTATUS_t ''gckEVENT_FreeContiguousMemory''
     [(IN, gckEVENT_t, ''Event''), (IN, gctSIZE_T_t, ''Bytes''), (IN, gctPHYS_ADDR_t, ''Physical''),
      (IN, gctPOINTER_t, ''Logical''), (IN, gceKERNEL_WHERE_t, ''FromWhere'')]"

definition gckEVENT_FreeVideoMemory :: prototype where
  "gckEVENT_FreeVideoMemory = proto [] gceSTATUS_t ''gckEVENT_FreeVideoMemory''
     [(IN, gckEVENT_t, ''Event''), (IN, gcuVIDMEM_NODE_PTR_t, ''VideoMemory''),
      (IN, gceKERNEL_WHERE_t, ''FromWhere'')]"

definition gckEVENT_Signal :: prototype where
  "gckEVENT_Signal = proto [] gceSTATUS_t ''gckEVENT_Signal''
     [(IN, gckEVENT_t, ''Event''), (IN, gctSIGNAL_t, ''Signal''),
      (IN, gceKERNEL_WHERE_t, ''FromWhere'')]"

definition gckEVENT_Unlock :: prototype where
  "gckEVENT_Unlock = proto [] gceSTATUS_t ''gckEVENT_Unlock''
     [(IN, gckEVENT_t, ''Event''), (IN, gceKERNEL_WHERE_t, ''FromWhere''),
      (IN, gctPOINTER_t, ''Node''), (IN, gceSURF_TYPE_t, ''Type'')]"

definition gckEVENT_UnmapUserMemory :: prototype where
  "gckEVENT_UnmapUserMemory = proto [] gceSTATUS_t ''gckEVENT_UnmapUserMemory''
     [(IN, gckEVENT_t, ''Event''), (IN, gceKERNEL_WHERE_t, ''FromWhere''),
      (IN, gctPOINTER_t, ''Memory''), (IN, gctSIZE_T_t, ''Size''), (IN, gctPOINTER_t, ''Info''),
      (IN, gctUINT32_t, ''Address'')]"

definition gckEVENT_CommitDone :: prototype where
  "gckEVENT_CommitDone = proto [] gceSTATUS_t ''gckEVENT_CommitDone''
     [(IN, gckEVENT_t, ''Event''), (IN, gceKERNEL_WHERE_t, ''FromWhere'')]"

definition gckEVENT_DestroyVirtualCommandBuffer :: prototype where
  "gckEVENT_DestroyVirtualCommandBuffer = proto [] gceSTATUS_t ''gckEVENT_DestroyVirtualCommandBuffer''
     [(IN, gckEVENT_t, ''Event''), (IN, gctSIZE_T_t, ''Bytes''), (IN, gctPHYS_ADDR_t, ''Physical''),
      (IN, gctPOINTER_t, ''Logical''), (IN, gceKERNEL_WHERE_t, ''FromWhere'')]"

definition gckEVENT_Submit_multi :: prototype where
  "gckEVENT_Submit_multi = proto [(gcdMULTI_GPU, True)] gceSTATUS_t ''gckEVENT_Submit''
     [(IN, gckEVENT_t, ''Event''), (IN, gctBOOL_t, ''Wait''), (IN, gctBOOL_t, ''FromPower''),
      (IN, gceCORE_3D_MASK_t, ''ChipEnable'')]"

definition gckEVENT_Submit :: prototype where
  "gckEVENT_Submit = proto [(gcdMULTI_GPU, False)] gceSTATUS_t ''gckEVENT_Submit''
     [(IN, gckEVENT_t, ''Event''), (IN, gctBOOL_t, ''Wait''), (IN, gctBOOL_t, ''FromPower'')]"

definition gckEVENT_Commit_multi :: prototype where
  "gckEVENT_Commit_multi = proto [(gcdMULTI_GPU, True)] gceSTATUS_t ''gckEVENT_Commit''
     [(IN, gckEVENT_t, ''Event''), (IN, gcsQUEUE_PTR_t, ''Queue''),
      (IN, gceCORE_3D_MASK_t, ''ChipEnable'')]"

definition gckEVENT_Commit :: prototype where
  "gckEVENT_Commit = proto [(gcdMULTI_GPU, False)] gceSTATUS_t ''gckEVENT_Commit''
     [(IN, gckEVENT_t, ''Event''), (IN, gcsQUEUE_PTR_t, ''Queue'')]"

definition gckEVENT_Compose :: prototype where
  "gckEVENT_Compose = proto [] gceSTATUS_t ''gckEVENT_Compose''
     [(IN, gckEVENT_t, ''Event''), (IN, gcsHAL_COMPOSE_PTR_t, ''Info'')]"

definition gckEVENT_Notify :: prototype where
  "gckEVENT_Notify = proto [] gceSTATUS_t ''gckEVENT_Notify''
     [(IN, gckEVENT_t, ''Event''), (IN, gctUINT32_t, ''IDs'')]"

definition gckEVENT_Interrupt :: prototype where
  "gckEVENT_Interrupt = proto [(gcdMULTI_GPU, False)] gceSTATUS_t ''gckEVENT_Interrupt''
     [(IN, gckEVENT_t, ''Event''), (IN, gctUINT32_t, ''IDs'')]"

definition gckEVENT_Interrupt_multi :: prototype where
  "gckEVENT_Interrupt_multi = proto [(gcdMULTI_GPU, True)] gceSTATUS_t ''gckEVENT_Interrupt''
     [(IN, gckEVENT_t, ''Event''), (IN, gctUINT_t, ''CoreId''), (IN, gctUINT32_t, ''IDs'')]"

definition gckEVENT_Dump :: prototype where
  "gckEVENT_Dump = proto [] gceSTATUS_t ''gckEVENT_Dump''
     [(IN, gckEVENT_t, ''Event'')]"

subsection \<open>\<open>gckCOMMAND\<close>\<close>

definition gckCOMMAND_Construct :: prototype where
  "gckCOMMAND_Construct = proto [] gceSTATUS_t ''gckCOMMAND_Construct''
     [(IN, gckKERNEL_t, ''Kernel''), (OUT, Ptr gckCOMMAND_t, ''Command'')]"

definition gckCOMMAND_Destroy :: prototype where
  "gckCOMMAND_Destroy = proto [] gceSTATUS_t ''gckCOMMAND_Destroy''
     [(IN, gckCOMMAND_t, ''Command'')]"

definition gckCOMMAND_EnterCommit :: prototype where
  "gckCOMMAND_EnterCommit = proto [] gceSTATUS_t ''gckCOMMAND_EnterCommit''
     [(IN, gckCOMMAND_t, ''Command''), (IN, gctBOOL_t, ''FromPower'')]"

definition gckCOMMAND_ExitCommit :: prototype where
  "gckCOMMAND_ExitCommit = proto [] gceSTATUS_t ''gckCOMMAND_ExitCommit''
     [(IN, gckCOMMAND_t, ''Command''), (IN, gctBOOL_t, ''FromPower'')]"

definition gckCOMMAND_Start :: prototype where
  "gckCOMMAND_Start = proto [] gceSTATUS_t ''gckCOMMAND_Start''
     [(IN, gckCOMMAND_t, ''Command'')]"

definition gckCOMMAND_Stop :: prototype where
  "gckCOMMAND_Stop = proto [] gceSTATUS_t ''gckCOMMAND_Stop''
     [(IN, gckCOMMAND_t, ''Command''), (IN, gctBOOL_t, ''FromRecovery'')]"

definition gckCOMMAND_Commit_multi :: prototype where
  "gckCOMMAND_Commit_multi = proto [(gcdMULTI_GPU, True)] gceSTATUS_t ''gckCOMMAND_Commit''
     [(IN, gckCOMMAND_t, ''Command''), (IN, gckCONTEXT_t, ''Context''),
      (IN, gcoCMDBUF_t, ''CommandBuffer''), (IN, gcsSTATE_DELTA_PTR_t, ''StateDelta''),
      (IN, gcsQUEUE_PTR_t, ''EventQueue''), (IN, gctUINT32_t, ''ProcessID''),
      (IN, gceCORE_3D_MASK_t, ''ChipEnable'')]"

definition gckCOMMAND_Commit :: prototype where
  "gckCOMMAND_Commit = proto [(gcdMULTI_GPU, False)] gceSTATUS_t ''gckCOMMAND_Commit''
     [(IN, gckCOMMAND_t, ''Command''), (IN, gckCONTEXT_t, ''Context''),
      (IN, gcoCMDBUF_t, ''CommandBuffer''), (IN, gcsSTATE_DELTA_PTR_t, ''StateDelta''),
      (IN, gcsQUEUE_PTR_t, ''EventQueue''), (IN, gctUINT32_t, ''ProcessID'')]"

definition gckCOMMAND_Reserve :: prototype where
  "gckCOMMAND_Reserve = proto [] gceSTATUS_t ''gckCOMMAND_Reserve''
     [(IN, gckCOMMAND_t, ''Command''), (IN, gctUINT32_t, ''RequestedBytes''),
      (OUT, Ptr gctPOINTER_t, ''Buffer''), (OUT, Ptr gctUINT32_t, ''BufferSize'')]"

definition gckCOMMAND_Execute :: prototype where
  "gckCOMMAND_Execute = proto [] gceSTATUS_t ''gckCOMMAND_Execute''
     [(IN, gckCOMMAND_t, ''Command''), (IN, gctUINT32_t, ''RequstedBytes'')]"

definition gckCOMMAND_Stall_multi :: prototype where
  "gckCOMMAND_Stall_multi = proto [(gcdMULTI_GPU, True)] gceSTATUS_t ''gckCOMMAND_Stall''
     [(IN, gckCOMMAND_t, ''Command''), (IN, gctBOOL_t, ''FromPower''),
      (IN, gceCORE_3D_MASK_t, ''ChipEnable'')]"

definition gckCOMMAND_Stall :: prototype where
  "gckCOMMAND_Stall = proto [(gcdMULTI_GPU, False)] gceSTATUS_t ''gckCOMMAND_Stall''
     [(IN, gckCOMMAND_t, ''Command''), (IN, gctBOOL_t, ''FromPower'')]"

definition gckCOMMAND_Attach :: prototype where
  "gckCOMMAND_Attach = proto [] gceSTATUS_t ''gckCOMMAND_Attach''
     [(IN, gckCOMMAND_t, ''Command''), (OUT, Ptr gckCONTEXT_t, ''Context''),
      (OUT, Ptr gctSIZE_T_t, ''MaxState''), (OUT, Ptr gctUINT32_t, ''NumStates''),
      (IN, gctUINT32_t, ''ProcessID'')]"

definition gckCOMMAND_Detach :: prototype where
  "gckCOMMAND_Detach = proto [] gceSTATUS_t ''gckCOMMAND_Detach''
     [(IN, gckCOMMAND_t, ''Command''), (IN, gckCONTEXT_t, ''Context'')]"

definition gckCOMMAND_DumpExecutingBuffer :: prototype where
  "gckCOMMAND_DumpExecutingBuffer = proto [] gceSTATUS_t ''gckCOMMAND_DumpExecutingBuffer''
     [(IN, gckCOMMAND_t, ''Command'')]"

definition gckCOMMAND_AddressInKernelCommandBuffer :: prototype where
  "gckCOMMAND_AddressInKernelCommandBuffer = proto [] gceSTATUS_t ''gckCOMMAND_AddressInKernelCommandBuffer''
     [(IN, gckCOMMAND_t, ''Command''), (IN, gctUINT32_t, ''Address''),
      (OUT, Ptr gctPOINTER_t, ''Pointer'')]"

subsection \<open>\<open>gckHARDWARE\<close>, continued\<close>

definition gckHARDWARE_QueryPulseEaterIdleProfile :: prototype where
  "gckHARDWARE_QueryPulseEaterIdleProfile = proto [] gceSTATUS_t ''gckHARDWARE_QueryPulseEaterIdleProfile''
     [(IN, gckHARDWARE_t, ''Hardware''), (IN, gctUINT32_t, ''Time''),
      (IN, gctUINT32_PTR_t, ''TimeGap''), (IN, gcePulseEaterDomain_t, ''Domain'')]"

definition gckHARDWARE_ModifyPeriod :: prototype where
  "gckHARDWARE_ModifyPeriod = proto [] gceSTATUS_t ''gckHARDWARE_ModifyPeriod''
     [(IN, gckHARDWARE_t, ''Hardware''), (IN, gctUINT32_t, ''Freq'')]"

subsection \<open>\<open>gckMMU\<close>\<close>

definition gckMMU_Construct :: prototype where
  "gckMMU_Construct = proto [] gceSTATUS_t ''gckMMU_Construct''
     [(IN, gckKERNEL_t, ''Kernel''), (IN, gctSIZE_T_t, ''MmuSize''), (OUT, Ptr gckMMU_t, ''Mmu'')]"

definition gckMMU_Destroy :: prototype where
  "gckMMU_Destroy = proto [] gceSTATUS_t ''gckMMU_Destroy''
     [(IN, gckMMU_t, ''Mmu'')]"

definition gckMMU_AllocatePages :: prototype where
  "gckMMU_AllocatePages = proto [] gceSTATUS_t ''gckMMU_AllocatePages''
     [(IN, gckMMU_t, ''Mmu''), (IN, gctSIZE_T_t, ''PageCount''),
      (OUT, Ptr gctPOINTER_t, ''PageTable''), (OUT, Ptr gctUINT32_t, ''Address'')]"

definition gckMMU_AllocatePagesEx :: prototype where
  "gckMMU_AllocatePagesEx = proto [] gceSTATUS_t ''gckMMU_AllocatePagesEx''
     [(IN, gckMMU_t, ''Mmu''), (IN, gctSIZE_T_t, ''PageCount''), (IN, gceSURF_TYPE_t, ''Type''),
      (OUT, Ptr gctPOINTER_t, ''PageTable''), (OUT, Ptr gctUINT32_t, ''Address'')]"

definition gckMMU_FreePages :: prototype where
  "gckMMU_FreePages = proto [] gceSTATUS_t ''gckMMU_FreePages''
     [(IN, gckMMU_t, ''Mmu''), (IN, gctPOINTER_t, ''PageTable''), (IN, gctSIZE_T_t, ''PageCount'')]"

definition gckMMU_SetPage :: prototype where
  "gckMMU_SetPage = proto [] gceSTATUS_t ''gckMMU_SetPage''
     [(IN, gckMMU_t, ''Mmu''), (IN, gctPHYS_ADDR_T_t, ''PageAddress''),
      (IN, Ptr gctUINT32_t, ''PageEntry'')]"

definition gckMMU_Flush :: prototype where
  "gckMMU_Flush = proto [] gceSTATUS_t ''gckMMU_Flush''
     [(IN, gckMMU_t, ''Mmu''), (IN, gceSURF_TYPE_t, ''Type'')]"

definition gckMMU_DumpPageTableEntry :: prototype where
  "gckMMU_DumpPageTableEntry = proto [] gceSTATUS_t ''gckMMU_DumpPageTableEntry''
     [(IN, gckMMU_t, ''Mmu''), (IN, gctUINT32_t, ''Address'')]"

subsection \<open>\<open>gckHARDWARE\<close>, continued\<close>

definition gckHARDWARE_QueryProfileRegisters :: prototype where
  "gckHARDWARE_QueryProfileRegisters = proto [(VIVANTE_PROFILER, True)] gceSTATUS_t ''gckHARDWARE_QueryProfileRegisters''
     [(IN, gckHARDWARE_t, ''Hardware''), (IN, gctBOOL_t, ''Reset''),
      (OUT, Ptr gcsPROFILER_COUNTERS_t, ''Counters'')]"

definition gckHARDWARE_QueryContextProfile :: prototype where
  "gckHARDWARE_QueryContextProfile = proto [(VIVANTE_PROFILER_CONTEXT, True)] gceSTATUS_t ''gckHARDWARE_QueryContextProfile''
     [(IN, gckHARDWARE_t, ''Hardware''), (IN, gctBOOL_t, ''Reset''), (IN, gckCONTEXT_t, ''Context''),
      (OUT, Ptr gcsPROFILER_COUNTERS_t, ''Counters'')]"

definition gckHARDWARE_UpdateContextProfile :: prototype where
  "gckHARDWARE_UpdateContextProfile = proto [(VIVANTE_PROFILER_CONTEXT, True)] gceSTATUS_t ''gckHARDWARE_UpdateContextProfile''
     [(IN, gckHARDWARE_t, ''Hardware''), (IN, gckCONTEXT_t, ''Context'')]"

definition gckHARDWARE_InitProfiler :: prototype where
  "gckHARDWARE_InitProfiler = proto [(VIVANTE_PROFILER_NEW, True)] gceSTATUS_t ''gckHARDWARE_InitProfiler''
     [(IN, gckHARDWARE_t, ''Hardware'')]"

subsection \<open>\<open>gckOS\<close>, continued\<close>

definition gckOS_SignalQueryHardware :: prototype where
  "gckOS_SignalQueryHardware = proto [] gceSTATUS_t ''gckOS_SignalQueryHardware''
     [(IN, gckOS_t, ''Os''), (IN, gctSIGNAL_t, ''Signal''), (OUT, Ptr gckHARDWARE_t, ''Hardware'')]"

definition gckOS_SignalSetHardware :: prototype where
  "gckOS_SignalSetHardware = proto [] gceSTATUS_t ''gckOS_SignalSetHardware''
     [(IN, gckOS_t, ''Os''), (IN, gctSIGNAL_t, ''Signal''), (Unmarked, gckHARDWARE_t, ''Hardware'')]"

definition gckOS_DetectProcessByName :: prototype where
  "gckOS_DetectProcessByName = proto [] gceSTATUS_t ''gckOS_DetectProcessByName''
     [(IN, gctCONST_POINTER_t, ''Name'')]"

definition gckOS_DumpParam :: prototype where
  "gckOS_DumpParam = proto [] Void ''gckOS_DumpParam''
     []"

end
