(* ===== verification/Gc_Api_Vg.thy ===== *)
theory Gc_Api_Vg
  imports Gc_Api_Types
begin

section \<open>The interface of the GPU kernel driver: \<open>gc_hal_vg.h\<close>\<close>

text \<open>
  The prototypes of \<open>include/hardware/gc_hal_vg.h\<close>, in the order of the file.
\<close>

subsection \<open>\<open>gckOS\<close>\<close>

definition gckOS_SetSignal :: prototype where
  "gckOS_SetSignal = proto [(gcdENABLE_VG, True)] gceSTATUS_t ''gckOS_SetSignal''
     [(IN, gckOS_t, ''Os''), (IN, gctHANDLE_t, ''Process''), (IN, gctSIGNAL_t, ''Signal'')]"

definition gckOS_GetKernelLogical :: prototype where
  "gckOS_GetKernelLogical = proto [(gcdENABLE_VG, True)] gceSTATUS_t ''gckOS_GetKernelLogical''
     [(IN, gckOS_t, ''Os''), (IN, gctUINT32_t, ''Address''),
      (OUT, Ptr gctPOINTER_t, ''KernelPointer'')]"

definition gckOS_GetKernelLogicalEx :: prototype where
  "gckOS_GetKernelLogicalEx = proto [(gcdENABLE_VG, True)] gceSTATUS_t ''gckOS_GetKernelLogicalEx''
     [(IN, gckOS_t, ''Os''), (IN, gceCORE_t, ''Core''), (IN, gctUINT32_t, ''Address''),
      (OUT, Ptr gctPOINTER_t, ''KernelPointer'')]"

definition gckOS_IncrementSemaphore :: prototype where
  "gckOS_IncrementSemaphore = proto [(gcdENABLE_VG, True)] gceSTATUS_t ''gckOS_IncrementSemaphore''
     [(IN, gckOS_t, ''Os''), (IN, gctSEMAPHORE_t, ''Semaphore'')]"

definition gckOS_DecrementSemaphore :: prototype where
  "gckOS_DecrementSemaphore = proto [(gcdENABLE_VG, True)] gceSTATUS_t ''gckOS_DecrementSemaphore''
     [(IN, gckOS_t, ''Os''), (IN, gctSEMAPHORE_t, ''Semaphore'')]"

definition gckOS_StartThread :: prototype where
  "gckOS_StartThread = proto [(gcdENABLE_VG, True)] gceSTATUS_t ''gckOS_StartThread''
     [(IN, gckOS_t, ''Os''), (IN, gctTHREADFUNC_t, ''ThreadFunction''),
      (IN, gctPOINTER_t, ''ThreadParameter''), (OUT, Ptr gctTHREAD_t, ''Thread'')]"

definition gckOS_StopThread :: prototype where
  "gckOS_StopThread = proto [(gcdENABLE_VG, True)] gceSTATUS_t ''gckOS_StopThread''
     [(IN, gckOS_t, ''Os''), (IN, gctTHREAD_t, ''Thread'')]"

definition gckOS_VerifyThread :: prototype where
  "gckOS_VerifyThread = proto [(gcdENABLE_VG, True)] gceSTATUS_t ''gckOS_VerifyThread''
     [(IN, gckOS_t, ''Os''), (IN, gctTHREAD_t, ''Thread'')]"

subsection \<open>\<open>gckVGKERNEL\<close>\<close>

definition gckVGKERNEL_Construct :: prototype where
  "gckVGKERNEL_Construct = proto [(gcdENABLE_VG, True)] gceSTATUS_t ''gckVGKERNEL_Construct''
     [(IN, gckOS_t, ''Os''), (IN, gctPOINTER_t, ''Context''), (IN, gckKERNEL_t, ''inKernel''),
      (OUT, Ptr gckVGKERNEL_t, ''Kernel'')]"

definition gckVGKERNEL_Destroy :: prototype where
  "gckVGKERNEL_Destroy = proto [(gcdENABLE_VG, True)] gceSTATUS_t ''gckVGKERNEL_Destroy''
     [(IN, gckVGKERNEL_t, ''Kernel'')]"

definition gckVGKERNEL_AllocateLinearMemory :: prototype where
  "gckVGKERNEL_AllocateLinearMemory = proto [(gcdENABLE_VG, True)] gceSTATUS_t ''gckVGKERNEL_AllocateLinearMemory''
     [(IN, gckKERNEL_t, ''Kernel''), (INOUT, Ptr gcePOOL_t, ''Pool''), (IN, gctSIZE_T_t, ''Bytes''),
      (IN, gctUINT32_t, ''Alignment''), (IN, gceSURF_TYPE_t, ''Type''),
      (OUT, Ptr gcuVIDMEM_NODE_PTR_t, ''Node'')]"

subsection \<open>\<open>gckKERNEL\<close>\<close>

definition gckKERNEL_UnmapMemory_vg :: prototype where
  "gckKERNEL_UnmapMemory_vg = proto [(gcdENABLE_VG, True)] gceSTATUS_t ''gckKERNEL_UnmapMemory''
     [(IN, gckKERNEL_t, ''Kernel''), (IN, gctPHYS_ADDR_t, ''Physical''),
      (IN, gctSIZE_T_t, ''Bytes''), (IN, gctPOINTER_t, ''Logical'')]"

subsection \<open>\<open>gckVGKERNEL\<close>, continued\<close>

definition gckVGKERNEL_Dispatch :: prototype where
  "gckVGKERNEL_Dispatch = proto [(gcdENABLE_VG, True)] gceSTATUS_t ''gckVGKERNEL_Dispatch''
     [(IN, gckKERNEL_t, ''Kernel''), (IN, gctBOOL_t, ''FromUser''),
      (INOUT, Ptr struct_gcsHAL_INTERFACE_t, ''Interface'')]"

subsection \<open>\<open>gckKERNEL\<close>, continued\<close>

definition gckKERNEL_QueryCommandBuffer :: prototype where
  "gckKERNEL_QueryCommandBuffer = proto [(gcdENABLE_VG, True)] gceSTATUS_t ''gckKERNEL_QueryCommandBuffer''
     [(IN, gckKERNEL_t, ''Kernel''), (OUT, gcsCOMMAND_BUFFER_INFO_PTR_t, ''Information'')]"

subsection \<open>\<open>gckVGHARDWARE\<close>\<close>

definition gckVGHARDWARE_Construct :: prototype where
  "gckVGHARDWARE_Construct = proto [(gcdENABLE_VG, True)] gceSTATUS_t ''gckVGHARDWARE_Construct''
     [(IN, gckOS_t, ''Os''), (OUT, Ptr gckVGHARDWARE_t, ''Hardware'')]"

definition gckVGHARDWARE_Destroy :: prototype where
  "gckVGHARDWARE_Destroy = proto [(gcdENABLE_VG, True)] gceSTATUS_t ''gckVGHARDWARE_Destroy''
     [(IN, gckVGHARDWARE_t, ''Hardware'')]"

definition gckVGHARDWARE_QuerySystemMemory :: prototype where
  "gckVGHARDWARE_QuerySystemMemory = proto [(gcdENABLE_VG, True)] gceSTATUS_t ''gckVGHARDWARE_QuerySystemMemory''
     [(IN, gckVGHARDWARE_t, ''Hardware''), (OUT, Ptr gctSIZE_T_t, ''SystemSize''),
      (OUT, Ptr gctUINT32_t, ''SystemBaseAddress'')]"

definition gckVGHARDWARE_BuildVirtualAddress :: prototype where
  "gckVGHARDWARE_BuildVirtualAddress = proto [(gcdENABLE_VG, True)] gceSTATUS_t ''gckVGHARDWARE_BuildVirtualAddress''
     [(IN, gckVGHARDWARE_t, ''Hardware''), (IN, gctUINT32_t, ''Index''),
      (IN, gctUINT32_t, ''Offset''), (OUT, Ptr gctUINT32_t, ''Address'')]"

definition gckVGHARDWARE_Execute :: prototype where
  "gckVGHARDWARE_Execute = proto [(gcdENABLE_VG, True)] gceSTATUS_t ''gckVGHARDWARE_Execute''
     [(IN, gckVGHARDWARE_t, ''Hardware''), (IN, gctUINT32_t, ''Address''),
      (IN, gctUINT32_t, ''Count'')]"

definition gckVGHARDWARE_QueryMemory :: prototype where
  "gckVGHARDWARE_QueryMemory = proto [(gcdENABLE_VG, True)] gceSTATUS_t ''gckVGHARDWARE_QueryMemory''
     [(IN, gckVGHARDWARE_t, ''Hardware''), (OUT, Ptr gctSIZE_T_t, ''InternalSize''),
      (OUT, Ptr gctUINT32_t, ''InternalBaseAddress''), (OUT, Ptr gctUINT32_t, ''InternalAlignment''),
      (OUT, Ptr gctSIZE_T_t, ''ExternalSize''), (OUT, Ptr gctUINT32_t, ''ExternalBaseAddress''),
      (OUT, Ptr gctUINT32_t, ''ExternalAlignment''), (OUT, Ptr gctUINT32_t, ''HorizontalTileSize''),
      (OUT, Ptr gctUINT32_t, ''VerticalTileSize'')]"

definition gckVGHARDWARE_QueryChipIdentity :: prototype where
  "gckVGHARDWARE_QueryChipIdentity = proto [(gcdENABLE_VG, True)] gceSTATUS_t ''gckVGHARDWARE_QueryChipIdentity''
     [(IN, gckVGHARDWARE_t, ''Hardware''), (OUT, Ptr gceCHIPMODEL_t, ''ChipModel''),
      (OUT, Ptr gctUINT32_t, ''ChipRevision''), (OUT, Ptr gctUINT32_t, ''ChipFeatures''),
      (OUT, Ptr gctUINT32_t, ''ChipMinorFeatures''), (OUT, Ptr gctUINT32_t, ''ChipMinorFeatures1'')]"

definition gckVGHARDWARE_ConvertFormat :: prototype where
  "gckVGHARDWARE_ConvertFormat = proto [(gcdENABLE_VG, True)] gceSTATUS_t ''gckVGHARDWARE_ConvertFormat''
     [(IN, gckVGHARDWARE_t, ''Hardware''), (IN, gceSURF_FORMAT_t, ''Format''),
      (OUT, Ptr gctUINT32_t, ''BitsPerPixel''), (OUT, Ptr gctUINT32_t, ''BytesPerTile'')]"

definition gckVGHARDWARE_SplitMemory :: prototype where
  "gckVGHARDWARE_SplitMemory = proto [(gcdENABLE_VG, True)] gceSTATUS_t ''gckVGHARDWARE_SplitMemory''
     [(IN, gckVGHARDWARE_t, ''Hardware''), (IN, gctUINT32_t, ''Address''),
      (OUT, Ptr gcePOOL_t, ''Pool''), (OUT, Ptr gctUINT32_t, ''Offset'')]"

definition gckVGHARDWARE_AlignToTile :: prototype where
  "gckVGHARDWARE_AlignToTile = proto [(gcdENABLE_VG, True)] gceSTATUS_t ''gckVGHARDWARE_AlignToTile''
     [(IN, gckVGHARDWARE_t, ''Hardware''), (IN, gceSURF_TYPE_t, ''Type''),
      (INOUT, gctUINT32_PTR_t, ''Width''), (INOUT, gctUINT32_PTR_t, ''Height'')]"

definition gckVGHARDWARE_ConvertLogical :: prototype where
  "gckVGHARDWARE_ConvertLogical = proto [(gcdENABLE_VG, True)] gceSTATUS_t ''gckVGHARDWARE_ConvertLogical''
     [(IN, gckVGHARDWARE_t, ''Hardware''), (IN, gctPOINTER_t, ''Logical''),
      (IN, gctBOOL_t, ''InUserSpace''), (OUT, Ptr gctUINT32_t, ''Address'')]"

definition gckVGHARDWARE_SetMMU :: prototype where
  "gckVGHARDWARE_SetMMU = proto [(gcdENABLE_VG, True)] gceSTATUS_t ''gckVGHARDWARE_SetMMU''
     [(IN, gckVGHARDWARE_t, ''Hardware''), (IN, gctPOINTER_t, ''Logical'')]"

definition gckVGHARDWARE_FlushMMU :: prototype where
  "gckVGHARDWARE_FlushMMU = proto [(gcdENABLE_VG, True)] gceSTATUS_t ''gckVGHARDWARE_FlushMMU''
     [(IN, gckVGHARDWARE_t, ''Hardware'')]"

definition gckVGHARDWARE_GetIdle :: prototype where
  "gckVGHARDWARE_GetIdle = proto [(gcdENABLE_VG, True)] gceSTATUS_t ''gckVGHARDWARE_GetIdle''
     [(IN, gckVGHARDWARE_t, ''Hardware''), (OUT, Ptr gctUINT32_t, ''Data'')]"

definition gckVGHARDWARE_Flush :: prototype where
  "gckVGHARDWARE_Flush = proto [(gcdENABLE_VG, True)] gceSTATUS_t ''gckVGHARDWARE_Flush''
     [(IN, gckVGHARDWARE_t, ''Hardware''), (IN, gceKERNEL_FLUSH_t, ''Flush''),
      (IN, gctPOINTER_t, ''Logical''), (INOUT, Ptr gctSIZE_T_t, ''Bytes'')]"

definition gckVGHARDWARE_SetFastClear :: prototype where
  "gckVGHARDWARE_SetFastClear = proto [(gcdENABLE_VG, True)] gceSTATUS_t ''gckVGHARDWARE_SetFastClear''
     [(IN, gckVGHARDWARE_t, ''Hardware''), (IN, gctINT_t, ''Enable'')]"

definition gckVGHARDWARE_ReadInterrupt :: prototype where
  "gckVGHARDWARE_ReadInterrupt = proto [(gcdENABLE_VG, True)] gceSTATUS_t ''gckVGHARDWARE_ReadInterrupt''
     [(IN, gckVGHARDWARE_t, ''Hardware''), (OUT, gctUINT32_PTR_t, ''IDs'')]"

definition gckVGHARDWARE_SetPowerManagementState :: prototype where
  "gckVGHARDWARE_SetPowerManagementState = proto [(gcdENABLE_VG, True)] gceSTATUS_t ''gckVGHARDWARE_SetPowerManagementState''
     [(IN, gckVGHARDWARE_t, ''Hardware''), (IN, gceCHIPPOWERSTATE_t, ''State'')]"

definition gckVGHARDWARE_QueryPowerManagementState :: prototype where
  "gckVGHARDWARE_QueryPowerManagementState = proto [(gcdENABLE_VG, True)] gceSTATUS_t ''gckVGHARDWARE_QueryPowerManagementState''
     [(IN, gckVGHARDWARE_t, ''Hardware''), (OUT, Ptr gceCHIPPOWERSTATE_t, ''State'')]"

definition gckVGHARDWARE_SetPowerManagement :: prototype where
  "gckVGHARDWARE_SetPowerManagement = proto [(gcdENABLE_VG, True)] gceSTATUS_t ''gckVGHARDWARE_SetPowerManagement''
     [(IN, gckVGHARDWARE_t, ''Hardware''), (IN, gctBOOL_t, ''PowerManagement'')]"

definition gckVGHARDWARE_SetPowerOffTimeout :: prototype where
  "gckVGHARDWARE_SetPowerOffTimeout = proto [(gcdENABLE_VG, True)] gceSTATUS_t ''gckVGHARDWARE_SetPowerOffTimeout''
     [(IN, gckVGHARDWARE_t, ''Hardware''), (IN, gctUINT32_t, ''Timeout'')]"

definition gckVGHARDWARE_QueryPowerOffTimeout :: prototype where
  "gckVGHARDWARE_QueryPowerOffTimeout = proto [(gcdENABLE_VG, True)] gceSTATUS_t ''gckVGHARDWARE_QueryPowerOffTimeout''
     [(IN, gckVGHARDWARE_t, ''Hardware''), (OUT, Ptr gctUINT32_t, ''Timeout'')]"

definition gckVGHARDWARE_QueryIdle :: prototype where
  "gckVGHARDWARE_QueryIdle = proto [(gcdENABLE_VG, True)] gceSTATUS_t ''gckVGHARDWARE_QueryIdle''
     [(IN, gckVGHARDWARE_t, ''Hardware''), (OUT, gctBOOL_PTR_t, ''IsIdle'')]"

subsection \<open>\<open>gckVGINTERRUPT\<close>\<close>

definition gckVGINTERRUPT_Construct :: prototype where
  "gckVGINTERRUPT_Construct = proto [(gcdENABLE_VG, True)] gceSTATUS_t ''gckVGINTERRUPT_Construct''
     [(IN, gckVGKERNEL_t, ''Kernel''), (OUT, Ptr gckVGINTERRUPT_t, ''Interrupt'')]"

definition gckVGINTERRUPT_Destroy :: prototype where
  "gckVGINTERRUPT_Destroy = proto [(gcdENABLE_VG, True)] gceSTATUS_t ''gckVGINTERRUPT_Destroy''
     [(IN, gckVGINTERRUPT_t, ''Interrupt'')]"

definition gckVGINTERRUPT_Enable :: prototype where
  "gckVGINTERRUPT_Enable = proto [(gcdENABLE_VG, True)] gceSTATUS_t ''gckVGINTERRUPT_Enable''
     [(IN, gckVGINTERRUPT_t, ''Interrupt''), (INOUT, gctINT32_PTR_t, ''Id''),
      (IN, gctINTERRUPT_HANDLER_vg_t, ''Handler'')]"

definition gckVGINTERRUPT_Disable :: prototype where
  "gckVGINTERRUPT_Disable = proto [(gcdENABLE_VG, True)] gceSTATUS_t ''gckVGINTERRUPT_Disable''
     [(IN, gckVGINTERRUPT_t, ''Interrupt''), (IN, gctINT32_t, ''Id'')]"

definition gckVGINTERRUPT_Enque :: prototype where
  "gckVGINTERRUPT_Enque = proto [(gcdENABLE_VG, True), (QNXNTO, False)] gceSTATUS_t ''gckVGINTERRUPT_Enque''
     [(IN, gckVGINTERRUPT_t, ''Interrupt'')]"

definition gckVGINTERRUPT_Enque_qnx :: prototype where
  "gckVGINTERRUPT_Enque_qnx = proto [(gcdENABLE_VG, True), (QNXNTO, True)] gceSTATUS_t ''gckVGINTERRUPT_Enque''
     [(IN, gckVGINTERRUPT_t, ''Interrupt''), (OUT, Ptr gckOS_t, ''Os''),
      (OUT, Ptr gctSEMAPHORE_t, ''Semaphore'')]"

definition gckVGINTERRUPT_DumpState :: prototype where
  "gckVGINTERRUPT_DumpState = proto [(gcdENABLE_VG, True)] gceSTATUS_t ''gckVGINTERRUPT_DumpState''
     [(IN, gckVGINTERRUPT_t, ''Interrupt'')]"

subsection \<open>\<open>gckVGCOMMAND\<close>\<close>

definition gckVGCOMMAND_Construct :: prototype where
  "gckVGCOMMAND_Construct = proto [(gcdENABLE_VG, True)] gceSTATUS_t ''gckVGCOMMAND_Construct''
     [(IN, gckVGKERNEL_t, ''Kernel''), (IN, gctUINT_t, ''TaskGranularity''),
      (IN, gctUINT_t, ''QueueSize''), (OUT, Ptr gckVGCOMMAND_t, ''Command'')]"

definition gckVGCOMMAND_Destroy :: prototype where
  "gckVGCOMMAND_Destroy = proto [(gcdENABLE_VG, True)] gceSTATUS_t ''gckVGCOMMAND_Destroy''
     [(IN, gckVGCOMMAND_t, ''Command'')]"

definition gckVGCOMMAND_QueryCommandBuffer :: prototype where
  "gckVGCOMMAND_QueryCommandBuffer = proto [(gcdENABLE_VG, True)] gceSTATUS_t ''gckVGCOMMAND_QueryCommandBuffer''
     [(IN, gckVGCOMMAND_t, ''Command''), (OUT, gcsCOMMAND_BUFFER_INFO_PTR_t, ''Information'')]"

definition gckVGCOMMAND_Allocate :: prototype where
  "gckVGCOMMAND_Allocate = proto [(gcdENABLE_VG, True)] gceSTATUS_t ''gckVGCOMMAND_Allocate''
     [(IN, gckVGCOMMAND_t, ''Command''), (IN, gctSIZE_T_t, ''Size''),
      (OUT, Ptr gcsCMDBUFFER_PTR_t, ''CommandBuffer''), (OUT, Ptr gctPOINTER_t, ''Data'')]"

definition gckVGCOMMAND_Free :: prototype where
  "gckVGCOMMAND_Free = proto [(gcdENABLE_VG, True)] gceSTATUS_t ''gckVGCOMMAND_Free''
     [(IN, gckVGCOMMAND_t, ''Command''), (IN, gcsCMDBUFFER_PTR_t, ''CommandBuffer'')]"

definition gckVGCOMMAND_Execute :: prototype where
  "gckVGCOMMAND_Execute = proto [(gcdENABLE_VG, True)] gceSTATUS_t ''gckVGCOMMAND_Execute''
     [(IN, gckVGCOMMAND_t, ''Command''), (IN, gcsCMDBUFFER_PTR_t, ''CommandBuffer'')]"

definition gckVGCOMMAND_Commit :: prototype where
  "gckVGCOMMAND_Commit = proto [(gcdENABLE_VG, True)] gceSTATUS_t ''gckVGCOMMAND_Commit''
     [(IN, gckVGCOMMAND_t, ''Command''), (IN, gcsVGCONTEXT_PTR_t, ''Context''),
      (IN, gcsVGCMDQUEUE_PTR_t, ''Queue''), (IN, gctUINT_t, ''EntryCount''),
      (IN, gcsTASK_MASTER_TABLE_PTR_t, ''TaskTable'')]"

subsection \<open>\<open>gckVGMMU\<close>\<close>

definition gckVGMMU_Construct :: prototype where
  "gckVGMMU_Construct = proto [(gcdENABLE_VG, True)] gceSTATUS_t ''gckVGMMU_Construct''
     [(IN, gckVGKERNEL_t, ''Kernel''), (IN, gctUINT32_t, ''MmuSize''), (OUT, Ptr gckVGMMU_t, ''Mmu'')]"

definition gckVGMMU_Destroy :: prototype where
  "gckVGMMU_Destroy = proto [(gcdENABLE_VG, True)] gceSTATUS_t ''gckVGMMU_Destroy''
     [(IN, gckVGMMU_t, ''Mmu'')]"

definition gckVGMMU_AllocatePages :: prototype where
  "gckVGMMU_AllocatePages = proto [(gcdENABLE_VG, True)] gceSTATUS_t ''gckVGMMU_AllocatePages''
     [(IN, gckVGMMU_t, ''Mmu''), (IN, gctSIZE_T_t, ''PageCount''),
      (OUT, Ptr gctPOINTER_t, ''PageTable''), (OUT, Ptr gctUINT32_t, ''Address'')]"

definition gckVGMMU_FreePages :: prototype where
  "gckVGMMU_FreePages = proto [(gcdENABLE_VG, True)] gceSTATUS_t ''gckVGMMU_FreePages''
     [(IN, gckVGMMU_t, ''Mmu''), (IN, gctPOINTER_t, ''PageTable''), (IN, gctSIZE_T_t, ''PageCount'')]"

definition gckVGMMU_SetPage :: prototype where
  "gckVGMMU_SetPage = proto [(gcdENABLE_VG, True)] gceSTATUS_t ''gckVGMMU_SetPage''
     [(IN, gckVGMMU_t, ''Mmu''), (IN, gctUINT32_t, ''PageAddress''),
      (IN, Ptr gctUINT32_t, ''PageEntry'')]"

definition gckVGMMU_Flush :: prototype where
  "gckVGMMU_Flush = proto [(gcdENABLE_VG, True)] gceSTATUS_t ''gckVGMMU_Flush''
     [(IN, gckVGMMU_t, ''Mmu'')]"

end
