(* ===== verification/Gc_Api_Properties.thy ===== *)
theory Gc_Api_Properties
  imports Gc_Api Gc_Api_Vg Gc_Structures "HOL-Library.List_Lexorder" "HOL-Library.Char_ord"
begin

section \<open>The interface of the GPU kernel driver: properties\<close>

text \<open>
  What a caller of the kernel driver relies on before any function of it runs: that the prototypes
  of a build agree with each other, which parameters that are marked as results are not the address
  of a variable for the result, and, for a list of pairs chosen by name, that what one function
  creates the other takes.
\<close>

subsection \<open>All prototypes\<close>

text \<open>
  In the order of their names, in lists of thirty; functions with two prototypes have the second
  in another list.
\<close>

definition hal_api_1 :: "prototype list" where
  "hal_api_1 =
     [gckCOMMAND_AddressInKernelCommandBuffer, gckCOMMAND_Attach, gckCOMMAND_Commit,
      gckCOMMAND_Construct, gckCOMMAND_Destroy, gckCOMMAND_Detach, gckCOMMAND_DumpExecutingBuffer,
      gckCOMMAND_EnterCommit, gckCOMMAND_Execute, gckCOMMAND_ExitCommit, gckCOMMAND_Reserve,
      gckCOMMAND_Stall, gckCOMMAND_Start, gckCOMMAND_Stop, gckDVFS_Construct, gckDVFS_Destroy,
      gckDVFS_Start, gckDVFS_Stop, gckEVENT_AddList, gckEVENT_Commit, gckEVENT_CommitDone,
      gckEVENT_Compose, gckEVENT_Construct, gckEVENT_Destroy, gckEVENT_DestroyVirtualCommandBuffer,
      gckEVENT_Dump, gckEVENT_FreeContiguousMemory, gckEVENT_FreeNonPagedMemory,
      gckEVENT_FreeVideoMemory, gckEVENT_GetEvent]"

definition hal_api_2 :: "prototype list" where
  "hal_api_2 =
     [gckEVENT_Interrupt, gckEVENT_Notify, gckEVENT_Signal, gckEVENT_Submit, gckEVENT_Unlock,
      gckEVENT_UnmapUserMemory, gckHARDWARE_BuildVirtualAddress, gckHARDWARE_ChipEnable,
      gckHARDWARE_Compose, gckHARDWARE_ConfigMMU, gckHARDWARE_Construct, gckHARDWARE_ConvertLogical,
      gckHARDWARE_Destroy, gckHARDWARE_DumpGPUState, gckHARDWARE_DumpMMUException, gckHARDWARE_End,
      gckHARDWARE_Event, gckHARDWARE_Execute, gckHARDWARE_Flush, gckHARDWARE_FlushMMU,
      gckHARDWARE_GetFscaleValue, gckHARDWARE_GetIdle, gckHARDWARE_GetType, gckHARDWARE_InitDVFS,
      gckHARDWARE_InitProfiler, gckHARDWARE_InitializeHardware, gckHARDWARE_Interrupt,
      gckHARDWARE_IsFeatureAvailable, gckHARDWARE_Link, gckHARDWARE_ModifyPeriod]"

definition hal_api_3 :: "prototype list" where
  "hal_api_3 =
     [gckHARDWARE_Nop, gckHARDWARE_PipeSelect, gckHARDWARE_PrepareFunctions,
      gckHARDWARE_ProfileEngine2D, gckHARDWARE_QueryChipIdentity, gckHARDWARE_QueryCommandBuffer,
      gckHARDWARE_QueryContextProfile, gckHARDWARE_QueryLoad, gckHARDWARE_QueryMemory,
      gckHARDWARE_QueryPowerManagementState, gckHARDWARE_QueryPowerOffTimeout,
      gckHARDWARE_QueryPowerOffTimeoutEnable, gckHARDWARE_QueryProfileRegisters,
      gckHARDWARE_QueryPulseEaterIdleProfile, gckHARDWARE_QueryShaderCaps,
      gckHARDWARE_QuerySystemMemory, gckHARDWARE_ReadInterrupt, gckHARDWARE_Reset,
      gckHARDWARE_SetDVFSPeroid, gckHARDWARE_SetFastClear, gckHARDWARE_SetFscaleValue,
      gckHARDWARE_SetGpuProfiler, gckHARDWARE_SetIsrManager, gckHARDWARE_SetMMU,
      gckHARDWARE_SetMMUStates, gckHARDWARE_SetMMUv2, gckHARDWARE_SetMinFscaleValue,
      gckHARDWARE_SetPowerManagement, gckHARDWARE_SetPowerManagementState,
      gckHARDWARE_SetPowerOffTimeout]"

definition hal_api_4 :: "prototype list" where
  "hal_api_4 =
     [gckHARDWARE_SetPowerOffTimeoutEnable, gckHARDWARE_SplitMemory,
      gckHARDWARE_UpdateContextProfile, gckHARDWARE_UpdateQueueTail, gckHARDWARE_WaitLink,
      gckHEAP_Allocate, gckHEAP_Construct, gckHEAP_Destroy, gckHEAP_Free, gckHEAP_ProfileEnd,
      gckHEAP_ProfileStart, gckINTERRUPT_Construct, gckINTERRUPT_Destroy, gckINTERRUPT_Notify,
      gckINTERRUPT_SetHandler, gckKERNEL_AllocateLinearMemory, gckKERNEL_CloseUserData,
      gckKERNEL_Construct, gckKERNEL_Destroy, gckKERNEL_Dispatch, gckKERNEL_GetVideoMemoryPool,
      gckKERNEL_LockVideoMemory, gckKERNEL_MapMemory, gckKERNEL_MapVideoMemory,
      gckKERNEL_MapVideoMemoryEx, gckKERNEL_Notify, gckKERNEL_OpenUserData,
      gckKERNEL_QueryCommandBuffer, gckKERNEL_QueryDatabase, gckKERNEL_QuerySettings]"

definition hal_api_5 :: "prototype list" where
  "hal_api_5 =
     [gckKERNEL_QueryVideoMemory, gckKERNEL_Recovery, gckKERNEL_ReleaseVideoMemory,
      gckKERNEL_SetTimeOut, gckKERNEL_ShowVidMemUsageDetails, gckKERNEL_UnlockVideoMemory,
      gckKERNEL_UnmapMemory, gckKERNEL_UnmapVideoMemory, gckMMU_AllocatePages,
      gckMMU_AllocatePagesEx, gckMMU_Construct, gckMMU_Destroy, gckMMU_DumpPageTableEntry,
      gckMMU_Flush, gckMMU_FreePages, gckMMU_SetPage, gckOS_AcquireClockMutex, gckOS_AcquireMutex,
      gckOS_AcquireRecMutex, gckOS_AcquireSemaphore, gckOS_AcquireSemaphoreTimeout, gckOS_Allocate,
      gckOS_AllocateContiguous, gckOS_AllocateMemory, gckOS_AllocateNonPagedMemory,
      gckOS_AllocatePageArray, gckOS_AllocatePagedMemory, gckOS_AllocatePagedMemoryEx,
      gckOS_AllocateVidmemFromMemblock, gckOS_AtomClearMask]"

definition hal_api_6 :: "prototype list" where
  "hal_api_6 =
     [gckOS_AtomConstruct, gckOS_AtomDecrement, gckOS_AtomDestroy, gckOS_AtomGet,
      gckOS_AtomIncrement, gckOS_AtomSet, gckOS_AtomSetMask, gckOS_AtomicExchange,
      gckOS_AtomicExchangePtr, gckOS_Broadcast, gckOS_BroadcastCalibrateSpeed, gckOS_BroadcastHurry,
      gckOS_CPUPhysicalToGPUPhysical, gckOS_CacheClean, gckOS_CacheFlush, gckOS_CacheInvalidate,
      gckOS_CallSecurityService, gckOS_CloseSecurityChannel, gckOS_Construct, gckOS_CopyFromUserData,
      gckOS_CopyToUserData, gckOS_CreateNativeFence, gckOS_CreateRecMutex, gckOS_CreateSemaphore,
      gckOS_CreateSemaphoreVG, gckOS_CreateSignal, gckOS_CreateSyncPoint, gckOS_CreateSyncTimeline,
      gckOS_CreateTimer, gckOS_CreateUserSignal]"

definition hal_api_7 :: "prototype list" where
  "hal_api_7 =
     [gckOS_DecrementSemaphore, gckOS_Delay, gckOS_DeleteMutex, gckOS_DeleteRecMutex, gckOS_Destroy,
      gckOS_DestroySemaphore, gckOS_DestroySignal, gckOS_DestroySyncPoint, gckOS_DestroySyncTimeline,
      gckOS_DestroyTimer, gckOS_DestroyUserSignal, gckOS_DetectProcessByName, gckOS_DeviceControl,
      gckOS_DirectReadRegister, gckOS_DirectReadRegisterByCoreId, gckOS_DirectWriteRegister,
      gckOS_DumpCallStack, gckOS_DumpParam, gckOS_FinishGPUFrequency, gckOS_FlushCache, gckOS_Free,
      gckOS_FreeContiguous, gckOS_FreeMemory, gckOS_FreeNonPagedMemory, gckOS_FreePagedMemory,
      gckOS_FreeVidmemFromMemblock, gckOS_GPUFreqNotifierCallChain, gckOS_GPUFreqNotifierRegister,
      gckOS_GPUFreqNotifierUnregister, gckOS_GPUPhysicalToCPUPhysical]"

definition hal_api_8 :: "prototype list" where
  "hal_api_8 =
     [gckOS_GetBaseAddress, gckOS_GetCurrentProcessID, gckOS_GetFreqTablePointer,
      gckOS_GetIfaceMapping, gckOS_GetKernelLogical, gckOS_GetKernelLogicalEx, gckOS_GetMmuVersion,
      gckOS_GetPageSize, gckOS_GetPhysicalAddress, gckOS_GetProcessID, gckOS_GetProcessNameByPid,
      gckOS_GetThreadID, gckOS_GetTicks, gckOS_GetTime, gckOS_IncrementSemaphore,
      gckOS_InitSecurityChannel, gckOS_LockPages, gckOS_MapMemory, gckOS_MapPages, gckOS_MapPagesEx,
      gckOS_MapPhysical, gckOS_MapSignal, gckOS_MapUserMemory, gckOS_MapUserPointer, gckOS_MemCopy,
      gckOS_MemoryBarrier, gckOS_ModifyPulseEaterPollingPeriod, gckOS_OpenSecurityChannel,
      gckOS_PhysicalToPhysicalAddress, gckOS_PowerOffWhenIdle]"

definition hal_api_9 :: "prototype list" where
  "hal_api_9 =
     [gckOS_PrepareGPUFrequency, gckOS_QueryClkRate, gckOS_QueryGPUFrequency, gckOS_QueryIdleProfile,
      gckOS_QueryNeedCopy, gckOS_QueryOption, gckOS_QueryPlatPerformance,
      gckOS_QueryPulseCountProfile, gckOS_QuerySyncPoint, gckOS_QueryVideoMemory, gckOS_ReadRegister,
      gckOS_ReadRegisterByCoreId, gckOS_ReadRegisterEx, gckOS_ReferenceSyncPoint,
      gckOS_ReleaseClockMutex, gckOS_ReleaseMutex, gckOS_ReleaseRecMutex, gckOS_ReleaseSemaphore,
      gckOS_ResetGPU, gckOS_ResumeInterrupt, gckOS_ResumeInterruptEx, gckOS_SetClkOffWhenIdle,
      gckOS_SetClkRate, gckOS_SetDebugFile, gckOS_SetDebugLevel, gckOS_SetDebugLevelZone,
      gckOS_SetDebugZone, gckOS_SetDebugZones, gckOS_SetGPUFrequency, gckOS_SetGPUPower]"

definition hal_api_10 :: "prototype list" where
  "hal_api_10 =
     [gckOS_SetGPUPowerOffMRVL, gckOS_SetGPUPowerOnBeforeInit, gckOS_SetGPUPowerOnMRVL,
      gckOS_SetSignal, gckOS_ShowVidMemUsage, gckOS_Signal, gckOS_SignalPending, gckOS_SignalPulse,
      gckOS_SignalQueryHardware, gckOS_SignalSetHardware, gckOS_SignalSyncPoint,
      gckOS_SignalUserSignal, gckOS_StartThread, gckOS_StartTimer, gckOS_StopThread, gckOS_StopTimer,
      gckOS_SuspendInterrupt, gckOS_SuspendInterruptEx, gckOS_TicksAfter, gckOS_TryAcquireSemaphore,
      gckOS_Udelay, gckOS_UnlockPages, gckOS_UnmapMemory, gckOS_UnmapMemoryEx, gckOS_UnmapPages,
      gckOS_UnmapPhysical, gckOS_UnmapSignal, gckOS_UnmapUserLogical, gckOS_UnmapUserMemory,
      gckOS_UnmapUserPointer]"

definition hal_api_11 :: "prototype list" where
  "hal_api_11 =
     [gckOS_UpdateVidMemUsage, gckOS_UserLogicalToPhysical, gckOS_UserSignal, gckOS_VerifyThread,
      gckOS_WaitSignal, gckOS_WaitUserSignal, gckOS_WriteMemory, gckOS_WriteRegister,
      gckOS_WriteRegisterByCoreId, gckOS_WriteRegisterEx, gckOS_ZeroMemory, gckVGCOMMAND_Allocate,
      gckVGCOMMAND_Commit, gckVGCOMMAND_Construct, gckVGCOMMAND_Destroy, gckVGCOMMAND_Execute,
      gckVGCOMMAND_Free, gckVGCOMMAND_QueryCommandBuffer, gckVGHARDWARE_AlignToTile,
      gckVGHARDWARE_BuildVirtualAddress, gckVGHARDWARE_Construct, gckVGHARDWARE_ConvertFormat,
      gckVGHARDWARE_ConvertLogical, gckVGHARDWARE_Destroy, gckVGHARDWARE_Execute,
      gckVGHARDWARE_Flush, gckVGHARDWARE_FlushMMU, gckVGHARDWARE_GetIdle,
      gckVGHARDWARE_QueryChipIdentity, gckVGHARDWARE_QueryIdle]"

definition hal_api_12 :: "prototype list" where
  "hal_api_12 =
     [gckVGHARDWARE_QueryMemory, gckVGHARDWARE_QueryPowerManagementState,
      gckVGHARDWARE_QueryPowerOffTimeout, gckVGHARDWARE_QuerySystemMemory,
      gckVGHARDWARE_ReadInterrupt, gckVGHARDWARE_SetFastClear, gckVGHARDWARE_SetMMU,
      gckVGHARDWARE_SetPowerManagement, gckVGHARDWARE_SetPowerManagementState,
      gckVGHARDWARE_SetPowerOffTimeout, gckVGHARDWARE_SplitMemory, gckVGINTERRUPT_Construct,
      gckVGINTERRUPT_Destroy, gckVGINTERRUPT_Disable, gckVGINTERRUPT_DumpState,
      gckVGINTERRUPT_Enable, gckVGINTERRUPT_Enque, gckVGKERNEL_AllocateLinearMemory,
      gckVGKERNEL_Construct, gckVGKERNEL_Destroy, gckVGKERNEL_Dispatch, gckVGMMU_AllocatePages,
      gckVGMMU_Construct, gckVGMMU_Destroy, gckVGMMU_Flush, gckVGMMU_FreePages, gckVGMMU_SetPage,
      gckVIDMEM_AllocateLinear, gckVIDMEM_Construct, gckVIDMEM_ConstructVirtual]"

definition hal_api_13 :: "prototype list" where
  "hal_api_13 =
     [gckVIDMEM_Destroy, gckVIDMEM_DestroyVirtual, gckVIDMEM_Free, gckVIDMEM_Lock, gckVIDMEM_Unlock]"

definition hal_api :: "prototype list" where
  "hal_api =
     hal_api_1 @ hal_api_2 @ hal_api_3 @ hal_api_4 @ hal_api_5 @ hal_api_6 @ hal_api_7 @
     hal_api_8 @ hal_api_9 @ hal_api_10 @ hal_api_11 @ hal_api_12 @ hal_api_13"

definition hal_api_variants :: "prototype list" where
  "hal_api_variants =
     [gckCOMMAND_Commit_multi, gckCOMMAND_Stall_multi, gckEVENT_Commit_multi,
      gckEVENT_GetEvent_multi, gckEVENT_Interrupt_multi, gckEVENT_Submit_multi,
      gckHARDWARE_Interrupt_multi, gckKERNEL_MapVideoMemory_qnx, gckKERNEL_MapVideoMemoryEx_qnx,
      gckKERNEL_Notify_multi, gckKERNEL_UnmapMemory_vg, gckOS_FlushCache_old, gckOS_UserSignal_qnx,
      gckVGINTERRUPT_Enque_qnx]"

text \<open>
  What the interface hands out and takes back: the function that creates, its \<open>OUT\<close> parameter, the
  function that releases, its parameter.
\<close>

definition hal_resources :: "(prototype \<times> string \<times> prototype \<times> string) list" where
  "hal_resources =
     [(gckOS_Construct, ''Os'', gckOS_Destroy, ''Os''),
      (gckOS_Allocate, ''Memory'', gckOS_Free, ''Memory''),
      (gckOS_AllocateMemory, ''Memory'', gckOS_FreeMemory, ''Memory''),
      (gckOS_AllocatePagedMemory, ''Physical'', gckOS_FreePagedMemory, ''Physical''),
      (gckOS_LockPages, ''Logical'', gckOS_UnlockPages, ''Logical''),
      (gckOS_AllocateNonPagedMemory, ''Physical'', gckOS_FreeNonPagedMemory, ''Physical''),
      (gckOS_AllocateNonPagedMemory, ''Logical'', gckOS_FreeNonPagedMemory, ''Logical''),
      (gckOS_AllocateVidmemFromMemblock, ''Physical'', gckOS_FreeVidmemFromMemblock, ''Physical''),
      (gckOS_AllocateContiguous, ''Physical'', gckOS_FreeContiguous, ''Physical''),
      (gckOS_AllocateContiguous, ''Logical'', gckOS_FreeContiguous, ''Logical''),
      (gckOS_MapPhysical, ''Logical'', gckOS_UnmapPhysical, ''Logical''),
      (gckOS_MapMemory, ''Logical'', gckOS_UnmapMemory, ''Logical''),
      (gckOS_CreateRecMutex, ''Mutex'', gckOS_DeleteRecMutex, ''Mutex''),
      (gckOS_AtomConstruct, ''Atom'', gckOS_AtomDestroy, ''Atom''),
      (gckOS_MapUserPointer, ''KernelPointer'', gckOS_UnmapUserPointer, ''KernelPointer''),
      (gckOS_OpenSecurityChannel, ''Channel'', gckOS_CloseSecurityChannel, ''Channel''),
      (gckOS_CreateSignal, ''Signal'', gckOS_DestroySignal, ''Signal''),
      (gckOS_MapSignal, ''MappedSignal'', gckOS_UnmapSignal, ''Signal''),
      (gckOS_MapUserMemory, ''Info'', gckOS_UnmapUserMemory, ''Info''),
      (gckOS_MapUserMemory, ''Address'', gckOS_UnmapUserMemory, ''Address''),
      (gckOS_CreateSyncTimeline, ''Timeline'', gckOS_DestroySyncTimeline, ''Timeline''),
      (gckOS_CreateSyncPoint, ''SyncPoint'', gckOS_DestroySyncPoint, ''SyncPoint''),
      (gckOS_CreateUserSignal, ''SignalID'', gckOS_DestroyUserSignal, ''SignalID''),
      (gckOS_CreateSemaphore, ''Semaphore'', gckOS_DestroySemaphore, ''Semaphore''),
      (gckOS_CreateTimer, ''Timer'', gckOS_DestroyTimer, ''Timer''),
      (gckHEAP_Construct, ''Heap'', gckHEAP_Destroy, ''Heap''),
      (gckHEAP_Allocate, ''Node'', gckHEAP_Free, ''Node''),
      (gckVIDMEM_Construct, ''Memory'', gckVIDMEM_Destroy, ''Memory''),
      (gckVIDMEM_ConstructVirtual, ''Node'', gckVIDMEM_DestroyVirtual, ''Node''),
      (gckKERNEL_Construct, ''Kernel'', gckKERNEL_Destroy, ''Kernel''),
      (gckKERNEL_MapVideoMemory_qnx, ''Logical'', gckKERNEL_UnmapVideoMemory, ''Logical''),
      (gckKERNEL_MapMemory, ''Logical'', gckKERNEL_UnmapMemory, ''Logical''),
      (gckDVFS_Construct, ''Frequency'', gckDVFS_Destroy, ''Dvfs''),
      (gckHARDWARE_Construct, ''Hardware'', gckHARDWARE_Destroy, ''Hardware''),
      (gckINTERRUPT_Construct, ''Interrupt'', gckINTERRUPT_Destroy, ''Interrupt''),
      (gckEVENT_Construct, ''Event'', gckEVENT_Destroy, ''Event''),
      (gckCOMMAND_Construct, ''Command'', gckCOMMAND_Destroy, ''Command''),
      (gckCOMMAND_Attach, ''Context'', gckCOMMAND_Detach, ''Context''),
      (gckMMU_Construct, ''Mmu'', gckMMU_Destroy, ''Mmu''),
      (gckMMU_AllocatePages, ''PageTable'', gckMMU_FreePages, ''PageTable''),
      (gckOS_StartThread, ''Thread'', gckOS_StopThread, ''Thread''),
      (gckVGKERNEL_Construct, ''Kernel'', gckVGKERNEL_Destroy, ''Kernel''),
      (gckVGHARDWARE_Construct, ''Hardware'', gckVGHARDWARE_Destroy, ''Hardware''),
      (gckVGINTERRUPT_Construct, ''Interrupt'', gckVGINTERRUPT_Destroy, ''Interrupt''),
      (gckVGCOMMAND_Construct, ''Command'', gckVGCOMMAND_Destroy, ''Command''),
      (gckVGCOMMAND_Allocate, ''CommandBuffer'', gckVGCOMMAND_Free, ''CommandBuffer''),
      (gckVGMMU_Construct, ''Mmu'', gckVGMMU_Destroy, ''Mmu''),
      (gckVGMMU_AllocatePages, ''PageTable'', gckVGMMU_FreePages, ''PageTable'')]"

lemmas hal_api_defs =
  gckOS_Construct_def gckOS_Destroy_def gckOS_QueryPlatPerformance_def gckOS_QueryVideoMemory_def
  gckOS_Allocate_def gckOS_Free_def gckOS_AllocateMemory_def gckOS_FreeMemory_def
  gckOS_AllocatePagedMemory_def gckOS_AllocatePagedMemoryEx_def gckOS_LockPages_def
  gckOS_MapPages_def gckOS_MapPagesEx_def gckOS_UnmapPages_def gckOS_UnlockPages_def
  gckOS_FreePagedMemory_def gckOS_AllocateNonPagedMemory_def gckOS_FreeNonPagedMemory_def
  gckOS_AllocateVidmemFromMemblock_def gckOS_FreeVidmemFromMemblock_def
  gckOS_AllocateContiguous_def gckOS_FreeContiguous_def gckOS_GetPageSize_def
  gckOS_GetPhysicalAddress_def gckOS_UserLogicalToPhysical_def gckOS_MapPhysical_def
  gckOS_UnmapPhysical_def gckOS_PhysicalToPhysicalAddress_def gckOS_GetFreqTablePointer_def
  gckOS_ReadRegister_def gckOS_ReadRegisterEx_def gckOS_DirectReadRegister_def
  gckOS_WriteRegister_def gckOS_WriteRegisterEx_def gckOS_DirectWriteRegister_def
  gckOS_ReadRegisterByCoreId_def gckOS_DirectReadRegisterByCoreId_def
  gckOS_WriteRegisterByCoreId_def gckOS_WriteMemory_def gckOS_MapMemory_def
  gckOS_UnmapMemoryEx_def gckOS_UnmapMemory_def gckOS_UnmapUserLogical_def gckOS_DeleteMutex_def
  gckOS_AcquireMutex_def gckOS_ReleaseMutex_def gckOS_CreateRecMutex_def gckOS_DeleteRecMutex_def
  gckOS_AcquireRecMutex_def gckOS_ReleaseRecMutex_def gckOS_AcquireClockMutex_def
  gckOS_ReleaseClockMutex_def gckOS_AtomicExchange_def gckOS_AtomicExchangePtr_def
  gckOS_AtomSetMask_def gckOS_AtomClearMask_def gckOS_DumpCallStack_def
  gckOS_GetProcessNameByPid_def gckOS_ModifyPulseEaterPollingPeriod_def gckOS_AtomConstruct_def
  gckOS_AtomDestroy_def gckOS_AtomGet_def gckOS_AtomSet_def gckOS_AtomIncrement_def
  gckOS_AtomDecrement_def gckOS_Delay_def gckOS_Udelay_def gckOS_GetTicks_def
  gckOS_TicksAfter_def gckOS_GetTime_def gckOS_MemoryBarrier_def gckOS_UpdateVidMemUsage_def
  gckOS_MapUserPointer_def gckOS_ShowVidMemUsage_def gckOS_UnmapUserPointer_def
  gckOS_QueryNeedCopy_def gckOS_CopyFromUserData_def gckOS_CopyToUserData_def
  gckOS_SuspendInterrupt_def gckOS_SuspendInterruptEx_def gckOS_ResumeInterrupt_def
  gckOS_ResumeInterruptEx_def gckOS_GetBaseAddress_def gckOS_GetMmuVersion_def gckOS_MemCopy_def
  gckOS_ZeroMemory_def gckOS_DeviceControl_def gckOS_GetProcessID_def
  gckOS_GetCurrentProcessID_def gckOS_GetThreadID_def gckOS_OpenSecurityChannel_def
  gckOS_CloseSecurityChannel_def gckOS_CallSecurityService_def gckOS_InitSecurityChannel_def
  gckOS_AllocatePageArray_def gckOS_CreateSignal_def gckOS_DestroySignal_def gckOS_Signal_def
  gckOS_WaitSignal_def gckOS_SignalPulse_def gckOS_SignalPending_def gckOS_MapSignal_def
  gckOS_UnmapSignal_def gckOS_MapUserMemory_def gckOS_UnmapUserMemory_def
  gckOS_CreateSyncTimeline_def gckOS_DestroySyncTimeline_def gckOS_CreateSyncPoint_def
  gckOS_ReferenceSyncPoint_def gckOS_DestroySyncPoint_def gckOS_SignalSyncPoint_def
  gckOS_QuerySyncPoint_def gckOS_CreateNativeFence_def gckOS_CreateUserSignal_def
  gckOS_DestroyUserSignal_def gckOS_WaitUserSignal_def gckOS_SignalUserSignal_def
  gckOS_UserSignal_qnx_def gckOS_UserSignal_def gckOS_CacheClean_def gckOS_CacheFlush_def
  gckOS_CacheInvalidate_def gckOS_FlushCache_old_def gckOS_FlushCache_def
  gckOS_CPUPhysicalToGPUPhysical_def gckOS_GPUPhysicalToCPUPhysical_def gckOS_QueryOption_def
  gckOS_SetDebugLevel_def gckOS_SetDebugZone_def gckOS_SetDebugLevelZone_def
  gckOS_SetDebugZones_def gckOS_SetDebugFile_def gckOS_Broadcast_def gckOS_BroadcastHurry_def
  gckOS_BroadcastCalibrateSpeed_def gckOS_SetGPUPower_def gckOS_GetIfaceMapping_def
  gckOS_SetGPUPowerOnBeforeInit_def gckOS_SetGPUPowerOnMRVL_def gckOS_SetGPUPowerOffMRVL_def
  gckOS_SetClkOffWhenIdle_def gckOS_ResetGPU_def gckOS_QueryIdleProfile_def
  gckOS_QueryPulseCountProfile_def gckOS_PowerOffWhenIdle_def gckOS_QueryClkRate_def
  gckOS_SetClkRate_def gckOS_GPUFreqNotifierRegister_def gckOS_GPUFreqNotifierUnregister_def
  gckOS_GPUFreqNotifierCallChain_def gckOS_PrepareGPUFrequency_def gckOS_FinishGPUFrequency_def
  gckOS_QueryGPUFrequency_def gckOS_SetGPUFrequency_def gckOS_CreateSemaphore_def
  gckOS_CreateSemaphoreVG_def gckOS_DestroySemaphore_def gckOS_AcquireSemaphore_def
  gckOS_AcquireSemaphoreTimeout_def gckOS_TryAcquireSemaphore_def gckOS_ReleaseSemaphore_def
  gckOS_CreateTimer_def gckOS_DestroyTimer_def gckOS_StartTimer_def gckOS_StopTimer_def
  gckHEAP_Construct_def gckHEAP_Destroy_def gckHEAP_Allocate_def gckHEAP_Free_def
  gckHEAP_ProfileStart_def gckHEAP_ProfileEnd_def gckVIDMEM_Construct_def gckVIDMEM_Destroy_def
  gckVIDMEM_AllocateLinear_def gckVIDMEM_Free_def gckVIDMEM_Lock_def gckVIDMEM_Unlock_def
  gckVIDMEM_ConstructVirtual_def gckVIDMEM_DestroyVirtual_def gckKERNEL_Construct_def
  gckKERNEL_Destroy_def gckKERNEL_Dispatch_def gckKERNEL_QueryDatabase_def
  gckKERNEL_QueryVideoMemory_def gckKERNEL_GetVideoMemoryPool_def
  gckKERNEL_AllocateLinearMemory_def gckKERNEL_ReleaseVideoMemory_def
  gckKERNEL_LockVideoMemory_def gckKERNEL_UnlockVideoMemory_def gckKERNEL_MapVideoMemory_def
  gckKERNEL_MapVideoMemory_qnx_def gckKERNEL_MapVideoMemoryEx_def
  gckKERNEL_MapVideoMemoryEx_qnx_def gckKERNEL_UnmapVideoMemory_def gckKERNEL_MapMemory_def
  gckKERNEL_UnmapMemory_def gckKERNEL_Notify_def gckKERNEL_Notify_multi_def
  gckKERNEL_QuerySettings_def gckKERNEL_Recovery_def gckKERNEL_SetTimeOut_def
  gckKERNEL_OpenUserData_def gckKERNEL_CloseUserData_def gckKERNEL_ShowVidMemUsageDetails_def
  gckDVFS_Construct_def gckDVFS_Destroy_def gckDVFS_Start_def gckDVFS_Stop_def
  gckHARDWARE_Construct_def gckHARDWARE_Destroy_def gckHARDWARE_GetType_def
  gckHARDWARE_QuerySystemMemory_def gckHARDWARE_BuildVirtualAddress_def
  gckHARDWARE_QueryCommandBuffer_def gckHARDWARE_WaitLink_def gckHARDWARE_Execute_def
  gckHARDWARE_End_def gckHARDWARE_ChipEnable_def gckHARDWARE_Nop_def gckHARDWARE_PipeSelect_def
  gckHARDWARE_Link_def gckHARDWARE_Event_def gckHARDWARE_QueryMemory_def
  gckHARDWARE_QueryChipIdentity_def gckHARDWARE_QueryShaderCaps_def gckHARDWARE_SplitMemory_def
  gckHARDWARE_UpdateQueueTail_def gckHARDWARE_ConvertLogical_def gckHARDWARE_Interrupt_def
  gckHARDWARE_Interrupt_multi_def gckHARDWARE_SetMMU_def gckHARDWARE_FlushMMU_def
  gckHARDWARE_SetMMUv2_def gckHARDWARE_ConfigMMU_def gckHARDWARE_GetIdle_def
  gckHARDWARE_Flush_def gckHARDWARE_SetFastClear_def gckHARDWARE_ReadInterrupt_def
  gckHARDWARE_SetPowerManagementState_def gckHARDWARE_QueryPowerManagementState_def
  gckHARDWARE_SetPowerManagement_def gckHARDWARE_SetGpuProfiler_def
  gckHARDWARE_SetFscaleValue_def gckHARDWARE_GetFscaleValue_def gckHARDWARE_SetMinFscaleValue_def
  gckHARDWARE_SetPowerOffTimeout_def gckHARDWARE_QueryPowerOffTimeout_def
  gckHARDWARE_SetPowerOffTimeoutEnable_def gckHARDWARE_QueryPowerOffTimeoutEnable_def
  gckHARDWARE_ProfileEngine2D_def gckHARDWARE_InitializeHardware_def gckHARDWARE_Reset_def
  gckHARDWARE_SetIsrManager_def gckHARDWARE_Compose_def gckHARDWARE_IsFeatureAvailable_def
  gckHARDWARE_DumpMMUException_def gckHARDWARE_DumpGPUState_def gckHARDWARE_InitDVFS_def
  gckHARDWARE_QueryLoad_def gckHARDWARE_SetDVFSPeroid_def gckHARDWARE_PrepareFunctions_def
  gckHARDWARE_SetMMUStates_def gckINTERRUPT_Construct_def gckINTERRUPT_Destroy_def
  gckINTERRUPT_SetHandler_def gckINTERRUPT_Notify_def gckEVENT_Construct_def gckEVENT_Destroy_def
  gckEVENT_GetEvent_multi_def gckEVENT_GetEvent_def gckEVENT_AddList_def
  gckEVENT_FreeNonPagedMemory_def gckEVENT_FreeContiguousMemory_def gckEVENT_FreeVideoMemory_def
  gckEVENT_Signal_def gckEVENT_Unlock_def gckEVENT_UnmapUserMemory_def gckEVENT_CommitDone_def
  gckEVENT_DestroyVirtualCommandBuffer_def gckEVENT_Submit_multi_def gckEVENT_Submit_def
  gckEVENT_Commit_multi_def gckEVENT_Commit_def gckEVENT_Compose_def gckEVENT_Notify_def
  gckEVENT_Interrupt_def gckEVENT_Interrupt_multi_def gckEVENT_Dump_def gckCOMMAND_Construct_def
  gckCOMMAND_Destroy_def gckCOMMAND_EnterCommit_def gckCOMMAND_ExitCommit_def
  gckCOMMAND_Start_def gckCOMMAND_Stop_def gckCOMMAND_Commit_multi_def gckCOMMAND_Commit_def
  gckCOMMAND_Reserve_def gckCOMMAND_Execute_def gckCOMMAND_Stall_multi_def gckCOMMAND_Stall_def
  gckCOMMAND_Attach_def gckCOMMAND_Detach_def gckCOMMAND_DumpExecutingBuffer_def
  gckCOMMAND_AddressInKernelCommandBuffer_def gckHARDWARE_QueryPulseEaterIdleProfile_def
  gckHARDWARE_ModifyPeriod_def gckMMU_Construct_def gckMMU_Destroy_def gckMMU_AllocatePages_def
  gckMMU_AllocatePagesEx_def gckMMU_FreePages_def gckMMU_SetPage_def gckMMU_Flush_def
  gckMMU_DumpPageTableEntry_def gckHARDWARE_QueryProfileRegisters_def
  gckHARDWARE_QueryContextProfile_def gckHARDWARE_UpdateContextProfile_def
  gckHARDWARE_InitProfiler_def gckOS_SignalQueryHardware_def gckOS_SignalSetHardware_def
  gckOS_DetectProcessByName_def gckOS_DumpParam_def gckOS_SetSignal_def
  gckOS_GetKernelLogical_def gckOS_GetKernelLogicalEx_def gckOS_IncrementSemaphore_def
  gckOS_DecrementSemaphore_def gckOS_StartThread_def gckOS_StopThread_def gckOS_VerifyThread_def
  gckVGKERNEL_Construct_def gckVGKERNEL_Destroy_def gckVGKERNEL_AllocateLinearMemory_def
  gckKERNEL_UnmapMemory_vg_def gckVGKERNEL_Dispatch_def gckKERNEL_QueryCommandBuffer_def
  gckVGHARDWARE_Construct_def gckVGHARDWARE_Destroy_def gckVGHARDWARE_QuerySystemMemory_def
  gckVGHARDWARE_BuildVirtualAddress_def gckVGHARDWARE_Execute_def gckVGHARDWARE_QueryMemory_def
  gckVGHARDWARE_QueryChipIdentity_def gckVGHARDWARE_ConvertFormat_def
  gckVGHARDWARE_SplitMemory_def gckVGHARDWARE_AlignToTile_def gckVGHARDWARE_ConvertLogical_def
  gckVGHARDWARE_SetMMU_def gckVGHARDWARE_FlushMMU_def gckVGHARDWARE_GetIdle_def
  gckVGHARDWARE_Flush_def gckVGHARDWARE_SetFastClear_def gckVGHARDWARE_ReadInterrupt_def
  gckVGHARDWARE_SetPowerManagementState_def gckVGHARDWARE_QueryPowerManagementState_def
  gckVGHARDWARE_SetPowerManagement_def gckVGHARDWARE_SetPowerOffTimeout_def
  gckVGHARDWARE_QueryPowerOffTimeout_def gckVGHARDWARE_QueryIdle_def gckVGINTERRUPT_Construct_def
  gckVGINTERRUPT_Destroy_def gckVGINTERRUPT_Enable_def gckVGINTERRUPT_Disable_def
  gckVGINTERRUPT_Enque_def gckVGINTERRUPT_Enque_qnx_def gckVGINTERRUPT_DumpState_def
  gckVGCOMMAND_Construct_def gckVGCOMMAND_Destroy_def gckVGCOMMAND_QueryCommandBuffer_def
  gckVGCOMMAND_Allocate_def gckVGCOMMAND_Free_def gckVGCOMMAND_Execute_def
  gckVGCOMMAND_Commit_def gckVGMMU_Construct_def gckVGMMU_Destroy_def gckVGMMU_AllocatePages_def
  gckVGMMU_FreePages_def gckVGMMU_SetPage_def gckVGMMU_Flush_def

lemmas hal_api_lists =
  hal_api_1_def hal_api_2_def hal_api_3_def hal_api_4_def hal_api_5_def hal_api_6_def
  hal_api_7_def hal_api_8_def hal_api_9_def hal_api_10_def hal_api_11_def hal_api_12_def
  hal_api_13_def

lemma names_sorted_1: "successively (<) (map proto_name hal_api_1)"
  by code_simp

lemma names_sorted_2: "successively (<) (map proto_name hal_api_2)"
  by code_simp

lemma names_sorted_3: "successively (<) (map proto_name hal_api_3)"
  by code_simp

lemma names_sorted_4: "successively (<) (map proto_name hal_api_4)"
  by code_simp

lemma names_sorted_5: "successively (<) (map proto_name hal_api_5)"
  by code_simp

lemma names_sorted_6: "successively (<) (map proto_name hal_api_6)"
  by code_simp

lemma names_sorted_7: "successively (<) (map proto_name hal_api_7)"
  by code_simp

lemma names_sorted_8: "successively (<) (map proto_name hal_api_8)"
  by code_simp

lemma names_sorted_9: "successively (<) (map proto_name hal_api_9)"
  by code_simp

lemma names_sorted_10: "successively (<) (map proto_name hal_api_10)"
  by code_simp

lemma names_sorted_11: "successively (<) (map proto_name hal_api_11)"
  by code_simp

lemma names_sorted_12: "successively (<) (map proto_name hal_api_12)"
  by code_simp

lemma names_sorted_13: "successively (<) (map proto_name hal_api_13)"
  by code_simp

lemmas names_sorted = names_sorted_1 names_sorted_2 names_sorted_3 names_sorted_4 names_sorted_5
  names_sorted_6 names_sorted_7 names_sorted_8 names_sorted_9 names_sorted_10 names_sorted_11
  names_sorted_12 names_sorted_13

subsection \<open>Names\<close>

text \<open>Two sorted lists follow each other when the last name of one is before the first of the next.\<close>

lemma successively_join:
  "successively (<) xs \<Longrightarrow> successively (<) ys \<Longrightarrow> ys \<noteq> [] \<Longrightarrow> (xs = [] \<or> last xs < hd ys) \<Longrightarrow>
   successively (<) (xs @ ys)"
  by (auto simp: successively_append_iff)

lemma name_borders:
  "last (map proto_name hal_api_1) < hd (map proto_name hal_api_2)"
  "last (map proto_name hal_api_2) < hd (map proto_name hal_api_3)"
  "last (map proto_name hal_api_3) < hd (map proto_name hal_api_4)"
  "last (map proto_name hal_api_4) < hd (map proto_name hal_api_5)"
  "last (map proto_name hal_api_5) < hd (map proto_name hal_api_6)"
  "last (map proto_name hal_api_6) < hd (map proto_name hal_api_7)"
  "last (map proto_name hal_api_7) < hd (map proto_name hal_api_8)"
  "last (map proto_name hal_api_8) < hd (map proto_name hal_api_9)"
  "last (map proto_name hal_api_9) < hd (map proto_name hal_api_10)"
  "last (map proto_name hal_api_10) < hd (map proto_name hal_api_11)"
  "last (map proto_name hal_api_11) < hd (map proto_name hal_api_12)"
  "last (map proto_name hal_api_12) < hd (map proto_name hal_api_13)"
  by code_simp+

lemma lists_nonempty:
  "hal_api_2 \<noteq> []" "hal_api_3 \<noteq> []" "hal_api_4 \<noteq> []" "hal_api_5 \<noteq> []" "hal_api_6 \<noteq> []" "hal_api_7 \<noteq> []"
  "hal_api_8 \<noteq> []" "hal_api_9 \<noteq> []" "hal_api_10 \<noteq> []" "hal_api_11 \<noteq> []" "hal_api_12 \<noteq> []" "hal_api_13 \<noteq> []"
  by (simp_all add: hal_api_lists)

lemma api_names_distinct: "distinct (map proto_name hal_api)"
proof -
  have "successively (<) (map proto_name hal_api)"
    unfolding hal_api_def map_append
    by (intro successively_join names_sorted)
       (simp_all add: lists_nonempty name_borders hd_append)
  then have "sorted_wrt (<) (map proto_name hal_api)"
    by (simp add: successively_conv_sorted_wrt [OF transp_on_less])
  then show ?thesis by (simp add: strict_sorted_iff)
qed

lemma api_name_unique:
  "p \<in> set hal_api \<Longrightarrow> q \<in> set hal_api \<Longrightarrow> proto_name p = proto_name q \<Longrightarrow> p = q"
  using api_names_distinct by (auto simp: distinct_map inj_on_def)

text \<open>The first prototypes of the functions that have two, in the order of \<open>hal_api_variants\<close>.\<close>

definition hal_api_twice :: "prototype list" where
  "hal_api_twice = [gckCOMMAND_Commit, gckCOMMAND_Stall, gckEVENT_Commit, gckEVENT_GetEvent, gckEVENT_Interrupt,
     gckEVENT_Submit, gckHARDWARE_Interrupt, gckKERNEL_MapVideoMemory, gckKERNEL_MapVideoMemoryEx,
     gckKERNEL_Notify, gckKERNEL_UnmapMemory, gckOS_FlushCache, gckOS_UserSignal, gckVGINTERRUPT_Enque]"

text \<open>Two prototypes of one function either never meet in a build or say the same.\<close>

definition compatible :: "prototype \<Rightarrow> prototype \<Rightarrow> bool" where
  "compatible p q \<longleftrightarrow>
     list_ex (\<lambda>(f, v). (f, \<not> v) \<in> set (proto_when q)) (proto_when p) \<or>
     proto_result p = proto_result q \<and> proto_params p = proto_params q"

lemma compatible_declared:
  "compatible p q \<Longrightarrow> declared b p \<Longrightarrow> declared b q \<Longrightarrow> proto_result p = proto_result q \<and> proto_params p = proto_params q"
  by (fastforce simp: compatible_def declared_def list_ex_iff)

lemma variants_listed: "map proto_name hal_api_variants = map proto_name hal_api_twice"
  "list_all2 compatible hal_api_twice hal_api_variants"
  "list_all2 compatible hal_api_variants hal_api_twice"
  by (simp_all add: hal_api_variants_def hal_api_twice_def compatible_def hal_api_defs proto_def)

lemma twice_in_api: "set hal_api_twice \<subseteq> set hal_api"
  by (simp add: hal_api_twice_def hal_api_def hal_api_lists)

lemma variant_first:
  assumes "q \<in> set hal_api_variants"
  obtains p where "p \<in> set hal_api" "proto_name p = proto_name q" "compatible p q" "compatible q p"
proof -
  from assms obtain i where i: "i < length hal_api_variants" "q = hal_api_variants ! i"
    by (auto simp: in_set_conv_nth)
  have len: "length hal_api_twice = length hal_api_variants"
    using variants_listed(2) by (rule list_all2_lengthD)
  show thesis
  proof
    show "hal_api_twice ! i \<in> set hal_api" using i len twice_in_api nth_mem by (metis subsetD)
    show "proto_name (hal_api_twice ! i) = proto_name q"
      using i len variants_listed(1) by (metis nth_map)
    show "compatible (hal_api_twice ! i) q" using i len variants_listed(2) by (simp add: list_all2_conv_all_nth)
    show "compatible q (hal_api_twice ! i)" using i len variants_listed(3) by (simp add: list_all2_conv_all_nth)
  qed
qed

lemma variants_distinct: "distinct (map proto_name hal_api_variants)"
  by (simp add: hal_api_variants_def hal_api_defs proto_def)

subsection \<open>Properties\<close>

text \<open>C31. Whatever options a build sets, the declarations it sees are consistent: two prototypes of
  one name, from the two branches of an \<open>#if\<close> or from the two headers, have the same result
  and the same parameters.\<close>
theorem gc_api_consistent:
  assumes "p \<in> set (hal_api @ hal_api_variants)" "q \<in> set (hal_api @ hal_api_variants)"
    and "declared b p" "declared b q" "proto_name p = proto_name q"
  shows "proto_result p = proto_result q \<and> proto_params p = proto_params q"
proof -
  consider "p \<in> set hal_api" "q \<in> set hal_api" | "p \<in> set hal_api" "q \<in> set hal_api_variants"
    | "p \<in> set hal_api_variants" "q \<in> set hal_api" | "p \<in> set hal_api_variants" "q \<in> set hal_api_variants"
    using assms(1,2) by auto
  then show ?thesis
  proof cases
    case 1
    with api_name_unique assms(5) show ?thesis by metis
  next
    case 2
    then obtain p' where "p' \<in> set hal_api" "proto_name p' = proto_name q" "compatible p' q"
      by (elim variant_first)
    with api_name_unique [OF 2(1)] compatible_declared assms(3-5) show ?thesis by metis
  next
    case 3
    then obtain q' where "q' \<in> set hal_api" "proto_name q' = proto_name p" "compatible p q'"
      by (elim variant_first)
    with api_name_unique [OF 3(2)] compatible_declared assms(3-5) show ?thesis by metis
  next
    case 4
    with variants_distinct assms(5) have "p = q" by (auto simp: distinct_map inj_on_def)
    then show ?thesis by simp
  qed
qed

definition demo_build :: "build_flag \<Rightarrow> bool" where
  "demo_build f \<longleftrightarrow> f = gcdENABLE_VG"

theorem gc_api_consistent_witness:
  "proto_params gckKERNEL_UnmapMemory = proto_params gckKERNEL_UnmapMemory_vg"
proof -
  have "gckKERNEL_UnmapMemory \<in> set (hal_api @ hal_api_variants)"
    using twice_in_api by (auto simp: hal_api_twice_def)
  moreover have "gckKERNEL_UnmapMemory_vg \<in> set (hal_api @ hal_api_variants)"
    by (simp add: hal_api_variants_def)
  ultimately show ?thesis
    using gc_api_consistent [of gckKERNEL_UnmapMemory gckKERNEL_UnmapMemory_vg demo_build]
    by (simp add: declared_def demo_build_def gckKERNEL_UnmapMemory_def gckKERNEL_UnmapMemory_vg_def proto_def)
qed




text \<open>
  The parameter of the function that releases has the type that the creating function's result
  points to; it is an input. \<open>gckOS_AtomDestroy\<close> has the type but the mark of a result.
\<close>

definition takes_back :: "prototype \<Rightarrow> string \<Rightarrow> prototype \<Rightarrow> string \<Rightarrow> bool" where
  "takes_back a x r y \<longleftrightarrow> list_ex (\<lambda>(d, t, n). d = OUT \<and> n = x \<and>
     (case t of Ptr t' \<Rightarrow> (IN, t', y) \<in> set (proto_params r) | _ \<Rightarrow> False)) (proto_params a)"

text \<open>For 48 pairs of a creating function with a result and a releasing function with a parameter,
  listed in \<open>hal_resources\<close>: whenever a build declares the first it declares the second, and except for
  \<open>gckOS_AtomDestroy\<close> this takes as an input exactly the type that the first one stores.
  The list is a choice of ours, by the names; it leaves out results with no counterpart, such as that of
  \<open>gckKERNEL_MapVideoMemory\<close>, whose counterpart is only declared for QNX.\<close>
theorem gc_api_lifecycle:
  assumes "(a, x, r, y) \<in> set hal_resources" "declared b a"
  shows "declared b r \<and> (takes_back a x r y \<longleftrightarrow> r \<noteq> gckOS_AtomDestroy)"
proof -
  have "list_all (\<lambda>(a, x, r, y). set (proto_when r) \<subseteq> set (proto_when a) \<and>
      (takes_back a x r y \<longleftrightarrow> r \<noteq> gckOS_AtomDestroy)) hal_resources"
    by (simp add: hal_resources_def hal_api_defs proto_def takes_back_def)
  with assms(1) have "set (proto_when r) \<subseteq> set (proto_when a)" "takes_back a x r y \<longleftrightarrow> r \<noteq> gckOS_AtomDestroy"
    unfolding list_all_iff by fast+
  with assms(2) show ?thesis unfolding declared_def by blast
qed

theorem gc_api_lifecycle_witness:
  "declared (\<lambda>_. False) gckOS_FreeContiguous \<and>
   takes_back gckOS_AllocateContiguous ''Physical'' gckOS_FreeContiguous ''Physical''"
proof -
  have "(gckOS_AllocateContiguous, ''Physical'', gckOS_FreeContiguous, ''Physical'') \<in> set hal_resources"
    by (simp add: hal_resources_def)
  from gc_api_lifecycle [OF this, of "\<lambda>_. False"] show ?thesis
    by (simp add: declared_def gckOS_AllocateContiguous_def gckOS_FreeContiguous_def gckOS_AtomDestroy_def proto_def)
qed

text \<open>The types of the interface and those of the structures have the same layout.\<close>

fun layout_type :: "hal_type \<Rightarrow> ctype option" where
  "layout_type (Scalar t) = Some t"
| "layout_type (Enum n) = Some c_enum"
| "layout_type (Ptr t) = Some CPtr"
| "layout_type (Const t) = layout_type t"
| "layout_type t = None"

lemma api_layouts:
  "layout_type gctBOOL_t = Some gctBOOL" "layout_type gctINT_t = Some gctINT" "layout_type gctINT32_t = Some gctINT32"
  "layout_type gctUINT_t = Some gctUINT" "layout_type gctUINT32_t = Some gctUINT32"
  "layout_type gctUINT64_t = Some gctUINT64" "layout_type gctSIZE_T_t = Some gctSIZE_T"
  "layout_type gctPHYS_ADDR_t = Some gctPHYS_ADDR" "layout_type gctHANDLE_t = Some gctHANDLE"
  "layout_type gctSIGNAL_t = Some gctSIGNAL" "layout_type gctPOINTER_t = Some gctPOINTER"
  by simp_all

end
