(* ===== verification/Spec2Isabelle.thy ===== *)
theory Spec2Isabelle
  imports
    Ion_Thread_Properties Ion_Recovery Ion_Mutex Bt_Properties Hw_Properties Nl80211_Properties Nl80211_Layout Wext_Properties Wext_Bgscan
    Perfd_Properties Camera_Threads Settings_Country
    Gc_Fields Gc_Arith Gc_Status Gc_Objects Gc_Enums Gc_Vg Gc_Float Gc_Platform Gc_Api_Properties
begin

text \<open>
  A model of the native code of the device tree \<open>ct2-br\<close> (an Android tablet with a Marvell
  PXA1928), and proofs about it. The repository holds several small programs that do not call
  each other: each of them stands between two parts of the system that are not in the repository
  and has to keep the contracts of both. Every program has theories of its own, which share the
  theories of the C library.

  What they share. \<open>CPrelude\<close> has the word types, searches in lists, runs of steps that may fail
  (\<open>run_steps\<close>) and the locale \<open>ledger\<close>: a component whose every input brings as many obligations
  as its events settle accounts for all of them in every run. \<open>CString\<close> and \<open>CStdio\<close> are the
  functions of \<open>string.h\<close>, \<open>stdlib.h\<close> and \<open>stdio.h\<close> that the programs use. Everywhere, \<open>None\<close> as a
  result is undefined behaviour of C (an access outside an array, a null pointer, a failed
  assertion); functions outside the repository are a record of functions of everything called
  before, so that the proofs hold for every behaviour of theirs; the calls made are a list of
  events in the state. Lines that only log are left out.

  The camera ION shim (\<open>ioe-test/camera_ion_shim.c\<close>) replaces \<open>open\<close>, \<open>ioctl\<close> and \<open>mmap\<close> of the
  camera process. \<open>Ring_Registry\<close> is the theory of a ring of records, a locale with the sliding
  window as its abstraction; \<open>Ion_Registry\<close> is the static state, interprets the locale for both
  rings of the file and proves the invariant \<open>registry_ok\<close>; \<open>Ion_Shim\<close> has one definition for each
  function. The three nested loops of the grid search are three functions, which end because the
  heap ids, alignments and flags are lists. \<open>Ion_Effects\<close> shows what each function may call, and
  that the search is one search through the list of combinations; \<open>Ion_Correct\<close> the accounting of
  handles, descriptors and mappings; \<open>Ion_Properties\<close> the claims: an allocation that succeeds was
  proved mappable, one that fails left nothing behind and had tried everything, at most 130
  requests are made, and \<open>mmap\<close> substitutes only as documented. \<open>Ion_Recovery\<close> follows one buffer
  through the calls, from its allocation over its export to an \<open>mmap\<close> with the wrong descriptor,
  which ends on the exported one. The initialisations by \<open>pthread_once\<close>, two here and one in the
  camera parameters shim, interpret the locale \<open>pthread_once\<close> of \<open>Pthread_Once\<close>.

  The camera process has several threads, and the locks of the file are for them.
  \<open>Interleaving\<close> has programs as trees of atomic actions, schedules of several of them, a bound
  on the actions of a program, and the locale \<open>interference\<close>: programs that keep an invariant and
  change the state only as a relation allows, whatever the others do in between, are safe
  together. \<open>Ion_Threads\<close> is \<open>camera_ion_shim.c\<close> a second time, as programs (\<open>mt_ioctl\<close>, \<open>mt_mmap\<close>,
  \<open>mt_open\<close> and what they call): an action is one \<open>pthread_once\<close>, one section under
  \<open>g_registry_mutex\<close>, one call into the kernel or one access to \<open>errno\<close>, and each program run
  without interruption is the function of \<open>Ion_Shim\<close>. \<open>Ion_Call_Bounds\<close> bounds the actions of a
  call, where waiting for a lock is no action, so that the bound says nothing about blocking;
  \<open>Ion_Interference\<close> interprets the locale: the registries only hold what the kernel granted,
  mapped and exported. \<open>Ion_Thread_Properties\<close> has the claims for every schedule, and the race
  between the three sections of \<open>mmap\<close>.

  That a section under \<open>g_registry_mutex\<close> may be taken for one action is shown too. \<open>Mutex\<close> has
  threads that lock, wait, unlock and access the memory in single steps, and the locale \<open>monitor\<close>: if each
  operation alone locks once, has the effect of its sequential function and unlocks, then every
  run is equivalent to a sequence of the functions, and no schedule leads to a deadlock.
  \<open>Ion_Mutex\<close> has the eight sections of the file access by access and interprets the locale.
  \<open>pthread_once\<close> stays one action; its function is not blocked by anything in the file.

  The Bluetooth vendor library (\<open>bt/bt_vendor_mrvl.c\<close>, \<open>bt/hardware_mrvl.c\<close>) configures the
  controller for the Bluetooth stack, which calls \<open>bt_vnd_mrvl_if_op\<close> and completes commands through
  callbacks. \<open>Bt_Hardware\<close> has the command buffers and the two chains of callbacks, \<open>Bt_Vendor\<close> the
  interface and \<open>bt_step\<close>, one call or completion; it interprets \<open>ledger\<close> three times, for SCO
  requests, firmware requests and buffers. \<open>Bt_Correct\<close> and \<open>Bt_Properties\<close> show that every request
  is answered once, no buffer leaks, the port follows its protocol, and the packets are right.

  The forwarding shim (\<open>libhardware_legacy_shim/libhardware_legacy_shim.c\<close>) exports 63 functions
  and forwards them to the stock library. \<open>Hw_Legacy_Shim\<close> has the table of symbols, the
  constructor and a definition for each exported function; \<open>Hw_Properties\<close> shows that each calls
  what the linker resolved for its own name with its own arguments, and the guards of starting and stopping the supplicant.

  The Wi-Fi driver commands. \<open>Wifi_Buffer\<close> models byte arrays whose cells may be uninitialised,
  cursors into them, and the counter of sequential errors (locale \<open>hang_counter\<close>). \<open>Bgscan\<close> is the
  builder of the background scan packet and its reference, \<open>bg_packet\<close>. \<open>Nl80211_Driver\<close> is
  \<open>wlan/driver_cmd_nl80211.c\<close>, with the memory as numbered blocks, because the callers pass the
  same block as command and answer; \<open>Nl80211_Correct\<close> interprets the counter and
  \<open>Nl80211_Properties\<close> has the claims; \<open>Nl80211_Layout\<close> shows where the members lie that it reads
  in the structures of the supplicant, whose bit-fields are laid out by \<open>Bit_Fields\<close>. \<open>Wext_Driver\<close> and \<open>Wext_Properties\<close> do the same for
  \<open>wlan/driver_cmd_wext.c\<close>, as it compiles: with \<open>HOSTAPD\<close> defined. \<open>Wext_Bgscan\<close> has the
  background scan of the part that does not compile, and shows that it is that of the other driver.

  The performance daemon (\<open>fixsys/perfd.cpp\<close>): \<open>Perfd\<close> has a definition for each function and for
  the body of each loop, \<open>Perfd_Properties\<close> the settings of a run: the governor policy of the CPUs
  as a table, the governors tried for the GPU, the memory frequency, and the exact set of
  settings that it may try. A governor counts as listed when its name occurs as text in the
  list, as in the source.

  \<open>Camera_Parameters\<close> (\<open>camera/camera_parameters_shim.cpp\<close>) and \<open>Settings_Country\<close>
  (\<open>country/settings_country.cpp\<close>) are whole programs with their claims; \<open>Camera_Threads\<close> has the
  first for calls from several threads, on \<open>Interleaving\<close>.

  The GPU headers (\<open>include/hardware/\<close>) have code in their macros and layouts. \<open>Gc_Fields\<close> models
  the register fields and bit fields, \<open>Gc_Arith\<close> limits, fixed point, alignment, byte order and register ranges,
  \<open>Gc_Status\<close> the status codes and their tests, \<open>Gc_Objects\<close> the character codes, object types and
  object checks, \<open>Gc_Enums\<close> the other enumerations, \<open>Gc_Vg\<close> the macros of
  \<open>gc_hal_vg.h\<close>. \<open>C_Float\<close> has the floats of C with their rounding, shown
  to be to the nearest, \<open>C_Double\<close> the conversions to and from doubles, and
  \<open>Gc_Float\<close> the macros that compute with them. A macro argument that names a register
  or a field is the field, a pair of bit numbers. \<open>Gc_Layout\<close> is the layout of C types
  on a binary interface and the macros on sizes, offsets and pointers; \<open>Gc_Structures\<close>
  has every structure of the headers and shows that the layout rule keeps their members
  aligned and disjoint, and which structures a 32-bit library and a 64-bit kernel see alike. \<open>Gc_Platform\<close> has what the
  headers choose by compiler and build options, and the remaining types and constants. \<open>Gc_Api_Types\<close>,
  \<open>Gc_Api\<close> and \<open>Gc_Api_Vg\<close> have the prototypes of the functions of the kernel driver, a definition
  for each, as data: types, direction marks and the \<open>#if\<close> conditions; \<open>Gc_Api_Properties\<close> shows that
  the prototypes of every build agree, which results do not come back through the address of a
  variable, and for a chosen list of 48 pairs that what one function creates the other takes.

  Bounds. No fuel is used: every loop of the sources is a recursion on a list or on the length of
  a string that gets shorter. \<open>size_t\<close> has 32 bits in the ION shim, which is only built for 32
  bits, and \<open>long\<close> 64 bits elsewhere. The ION shim and the camera
  parameters shim are called from several threads; elsewhere calls are sequences. Memory is sequentially
  consistent: the shared data are only accessed under the mutex or after the \<open>pthread_once\<close>
  that wrote them.

  Not modelled. \<open>strtok\<close> writes NUL bytes into the command of the background scan
  (\<open>driver_cmd_nl80211.c\<close>, lines 214 to 246); the model reads the options and leaves the command as it
  is. The log lines that take the length of the driver's answer (line 376 there, and in
  \<open>driver_cmd_wext.c\<close>) are left out with the other log lines. The functions that the GPU headers declare are not in the repository, so their
  structures have layouts and the functions prototypes, but no bodies; \<open>sin\<close>, \<open>cos\<close>, \<open>asin\<close> and
  \<open>acos\<close>, whose results are not laid down, are arguments of the float macros that call them.
  The rest of the repository is configuration: make files, init scripts, security policy, overlays, prebuilt
  modules, and \<open>bluetooth/bdroid_buildcfg.h\<close>, the options of a stack that is not in it.
\<close>

end
